(* ===== verification/Prelude.thy ===== *)
theory Prelude
  imports Complex_Main "HOL-Library.Multiset"
begin

text \<open>
  Shared vocabulary of the development: the collections of rewrite rules the component
  theories extend, the types that stand for JavaScript numbers used as time stamps, and the
  generic facts on lists and functions that several components need.
\<close>

text \<open>Unfolding rules of the small accessor-like operations of the scheduler components.\<close>
named_theorems sched_defs

text \<open>Unfolding rules of the DOM-side operations.\<close>
named_theorems dom_defs

text \<open>
  Time stamps and delays are JavaScript numbers. The model keeps them as real numbers: the
  finite doubles are reals, and the code only adds, subtracts and compares them. The special
  values \<open>NaN\<close> and \<open>Infinity\<close> are outside the model.
\<close>
type_synonym js_time = real

lemma half_pred_less: "0 < k \<Longrightarrow> (k - 1) div 2 < (k :: nat)"
  by (simp add: div_less_iff_less_mult)

lemma nth_list_update_both:
  "j < length xs \<Longrightarrow> k < length xs \<Longrightarrow> i < length xs \<Longrightarrow>
   xs[j := x, k := y] ! i = (if i = k then y else if i = j then x else xs ! i)"
  by (simp add: nth_list_update)

lemma mset_exchange:
  "i < length xs \<Longrightarrow> j < length xs \<Longrightarrow> xs ! j = x \<Longrightarrow> xs ! i = y \<Longrightarrow>
   mset (xs[i := x, j := y]) = mset xs"
  using mset_swap [of j xs i] by simp

lemma set_exchange:
  "i < length xs \<Longrightarrow> j < length xs \<Longrightarrow> xs ! j = x \<Longrightarrow> xs ! i = y \<Longrightarrow>
   set (xs[i := x, j := y]) = set xs"
  using mset_exchange [of i xs j x y] mset_eq_setD by blast

lemma mset_update_head:
  "xs \<noteq> [] \<Longrightarrow> butlast xs \<noteq> [] \<Longrightarrow>
   mset ((butlast xs)[0 := last xs]) = mset xs - {#hd xs#}"
proof -
  assume ne: "xs \<noteq> []" "butlast xs \<noteq> []"
  then obtain x ys where xs: "xs = x # ys" and ys: "ys \<noteq> []"
    by (cases xs) (auto split: if_splits)
  have "(butlast xs)[0 := last xs] = last ys # butlast ys"
    using xs ys by simp
  moreover have "mset (last ys # butlast ys) = mset ys"
    using ys by (metis add_mset_add_single append_butlast_last_id mset.simps mset_append)
  ultimately show ?thesis using xs by simp
qed

end
