(* ===== verification/Min_Heap.thy ===== *)
theory Min_Heap
  imports Prelude
begin

text \<open>
  The binary min-heap of the scheduler (\<open>packages/scheduler/cjs/scheduler.development.js\<close>,
  functions \<open>push\<close>, \<open>peek\<close> and \<open>pop\<close>). A heap is a JavaScript array, here a list, in which
  the children of the element at \<open>index\<close> are at \<open>2 * (index + 1) - 1\<close> and the position after
  it. The comparison is a parameter here: the scheduler passes its \<open>compare\<close>, which reads the
  two task objects.

  The locale \<open>comparator\<close> states what the heap needs of the comparison, the locale
  \<open>min_queue\<close> what the scheduler relies on; the heap gives the second from the first.
\<close>

function push_loop :: "('a \<Rightarrow> 'a \<Rightarrow> real) \<Rightarrow> 'a list \<Rightarrow> nat \<Rightarrow> 'a \<Rightarrow> 'a list" where
  "push_loop cmp heap index node =
     (if 0 < index then
        let parentIndex = (index - 1) div 2;
            parent = heap ! parentIndex
        in if 0 < cmp parent node
           then push_loop cmp (heap[parentIndex := node, index := parent]) parentIndex node
           else heap
      else heap)"
  by pat_completeness auto
termination
  by (relation "measure (\<lambda>(cmp, heap, index, node). index)") auto

definition push :: "('a \<Rightarrow> 'a \<Rightarrow> real) \<Rightarrow> 'a list \<Rightarrow> 'a \<Rightarrow> 'a list" where
  "push cmp heap node = push_loop cmp (heap @ [node]) (length heap) node"

definition peek :: "'a list \<Rightarrow> 'a option" where
  "peek heap = (case heap of [] \<Rightarrow> None | x # _ \<Rightarrow> Some x)"

function pop_loop :: "('a \<Rightarrow> 'a \<Rightarrow> real) \<Rightarrow> 'a list \<Rightarrow> nat \<Rightarrow> 'a \<Rightarrow> 'a list" where
  "pop_loop cmp heap index lst =
     (if index < length heap div 2 then
        let leftIndex = 2 * (index + 1) - 1;
            left = heap ! leftIndex;
            rightIndex = leftIndex + 1;
            right = heap ! rightIndex
        in if cmp left lst < 0
           then (if rightIndex < length heap \<and> cmp right left < 0
                 then pop_loop cmp (heap[index := right, rightIndex := lst]) rightIndex lst
                 else pop_loop cmp (heap[index := left, leftIndex := lst]) leftIndex lst)
           else if rightIndex < length heap \<and> cmp right lst < 0
                then pop_loop cmp (heap[index := right, rightIndex := lst]) rightIndex lst
                else heap
      else heap)"
  by pat_completeness auto
termination
  by (relation "measure (\<lambda>(cmp, heap, index, lst). length heap - index)") auto

text \<open>
  \<open>pop\<close> returns the element the JavaScript function returns (\<open>None\<close> for \<open>null\<close>) and the
  array it leaves behind. The test \<open>last !== first\<close> is an identity test of task objects.
\<close>
definition pop :: "('a \<Rightarrow> 'a \<Rightarrow> real) \<Rightarrow> 'a list \<Rightarrow> 'a option \<times> 'a list" where
  "pop cmp heap =
     (case heap of
        [] \<Rightarrow> (None, [])
      | first # _ \<Rightarrow>
          let l = last heap; heap' = butlast heap
          in if l \<noteq> first
             then (Some first, pop_loop cmp (heap'[0 := l]) 0 l)
             else (Some first, heap'))"

declare push_loop.simps [simp del] pop_loop.simps [simp del]

subsection \<open>The heap invariant\<close>

definition heap_ok :: "('a \<Rightarrow> 'a \<Rightarrow> real) \<Rightarrow> 'a list \<Rightarrow> bool" where
  "heap_ok cmp h \<longleftrightarrow> (\<forall>i < length h. 0 < i \<longrightarrow> cmp (h ! ((i - 1) div 2)) (h ! i) \<le> 0)"

text \<open>The order holds everywhere but between \<open>k\<close> and its parent: the state of \<open>push\<close>'s loop.\<close>
definition heap_except_up :: "('a \<Rightarrow> 'a \<Rightarrow> real) \<Rightarrow> 'a list \<Rightarrow> nat \<Rightarrow> bool" where
  "heap_except_up cmp h k \<longleftrightarrow>
     (\<forall>i < length h. 0 < i \<longrightarrow>
        (i \<noteq> k \<longrightarrow> cmp (h ! ((i - 1) div 2)) (h ! i) \<le> 0) \<and>
        ((i - 1) div 2 = k \<longrightarrow> 0 < k \<longrightarrow> cmp (h ! ((k - 1) div 2)) (h ! i) \<le> 0))"

text \<open>The order holds everywhere but between \<open>k\<close> and its children: the state of \<open>pop\<close>'s loop.\<close>
definition heap_except_down :: "('a \<Rightarrow> 'a \<Rightarrow> real) \<Rightarrow> 'a list \<Rightarrow> nat \<Rightarrow> bool" where
  "heap_except_down cmp h k \<longleftrightarrow>
     (\<forall>i < length h. 0 < i \<longrightarrow>
        ((i - 1) div 2 \<noteq> k \<longrightarrow> cmp (h ! ((i - 1) div 2)) (h ! i) \<le> 0) \<and>
        ((i - 1) div 2 = k \<longrightarrow> 0 < k \<longrightarrow> cmp (h ! ((k - 1) div 2)) (h ! i) \<le> 0))"

lemma heap_okD: "heap_ok cmp h \<Longrightarrow> i < length h \<Longrightarrow> 0 < i \<Longrightarrow> cmp (h ! ((i - 1) div 2)) (h ! i) \<le> 0"
  by (simp add: heap_ok_def)

lemma heap_ok_Nil [simp]: "heap_ok cmp []"
  by (simp add: heap_ok_def)

lemma heap_ok_append_up: "heap_ok cmp h \<Longrightarrow> heap_except_up cmp (h @ [x]) (length h)"
  unfolding heap_ok_def heap_except_up_def
proof (intro allI impI conjI)
  fix i assume ok: "\<forall>i<length h. 0 < i \<longrightarrow> cmp (h ! ((i - 1) div 2)) (h ! i) \<le> 0"
    and i: "i < length (h @ [x])" "0 < i"
  show "cmp ((h @ [x]) ! ((i - 1) div 2)) ((h @ [x]) ! i) \<le> 0" if "i \<noteq> length h"
    using ok i that by (auto simp: nth_append)
  show "cmp ((h @ [x]) ! ((length h - 1) div 2)) ((h @ [x]) ! i) \<le> 0" if "(i - 1) div 2 = length h"
    using i that by auto
qed

lemma heap_ok_replace_root:
  assumes "heap_ok cmp h" "length h' \<le> length h" "\<And>i. 0 < i \<Longrightarrow> i < length h' \<Longrightarrow> h' ! i = h ! i"
  shows "heap_except_down cmp h' 0"
  unfolding heap_except_down_def
proof (intro allI impI conjI)
  fix i assume i: "i < length h'" "0 < i" and p: "(i - 1) div 2 \<noteq> 0"
  then have "cmp (h ! ((i - 1) div 2)) (h ! i) \<le> 0"
    using assms(1,2) by (intro heap_okD) auto
  moreover have "h' ! ((i - 1) div 2) = h ! ((i - 1) div 2)" "h' ! i = h ! i"
    using assms(3) i p by auto
  ultimately show "cmp (h' ! ((i - 1) div 2)) (h' ! i) \<le> 0" by simp
qed auto

lemma heap_ok_cong:
  assumes "\<And>x y. x \<in> set h \<Longrightarrow> y \<in> set h \<Longrightarrow> cmp x y = cmp' x y"
  shows "heap_ok cmp h = heap_ok cmp' h"
proof -
  have "cmp (h ! ((i - 1) div 2)) (h ! i) = cmp' (h ! ((i - 1) div 2)) (h ! i)" if "i < length h" for i
    using that assms by (simp add: div_less_iff_less_mult less_Suc_eq_le trans_le_add1)
  then show ?thesis unfolding heap_ok_def by simp
qed

subsection \<open>Contents and length\<close>

lemma push_loop_mset:
  "index < length heap \<Longrightarrow> heap ! index = node \<Longrightarrow> mset (push_loop cmp heap index node) = mset heap"
proof (induction cmp heap index node rule: push_loop.induct)
  case (1 cmp heap index node)
  let ?p = "(index - 1) div 2"
  show ?case
  proof (cases "0 < index \<and> 0 < cmp (heap ! ?p) node")
    case True
    then have p: "?p < length heap" "?p \<noteq> index" using "1.prems" by auto
    have "mset (push_loop cmp (heap[?p := node, index := heap ! ?p]) ?p node)
            = mset (heap[?p := node, index := heap ! ?p])"
      using True p "1.prems" by (intro "1.IH") (auto simp: nth_list_update)
    also have "\<dots> = mset heap" using p "1.prems" by (intro mset_exchange) auto
    finally show ?thesis using True by (subst push_loop.simps) (simp add: Let_def)
  next
    case False
    then show ?thesis by (subst push_loop.simps) (auto simp: Let_def)
  qed
qed

lemma push_mset [simp]: "mset (push cmp heap node) = add_mset node (mset heap)"
  by (simp add: push_def push_loop_mset)

text \<open>One round of \<open>pop\<close>'s loop: it stops, or it exchanges with the child it picks.\<close>
lemma pop_loop_round:
  obtains
    (stop) "pop_loop cmp heap index lst = heap"
      "\<And>c. c < length heap \<Longrightarrow> 0 < c \<Longrightarrow> (c - 1) div 2 = index \<Longrightarrow> \<not> cmp (heap ! c) lst < 0"
  | (exchange) j d where "j < length heap" "index < j" "(j - 1) div 2 = index"
      "pop_loop cmp heap index lst = pop_loop cmp (heap[index := heap ! j, j := lst]) j lst"
      "cmp (heap ! j) lst < 0
         \<or> d < length heap \<and> cmp (heap ! j) (heap ! d) < 0 \<and> cmp (heap ! d) lst < 0"
      "\<And>c. c < length heap \<Longrightarrow> 0 < c \<Longrightarrow> (c - 1) div 2 = index \<Longrightarrow> c = j \<or> c = d"
      "d < length heap \<Longrightarrow> \<not> cmp (heap ! d) (heap ! j) < 0 \<or> \<not> cmp (heap ! d) lst < 0
         \<or> cmp (heap ! j) (heap ! d) < 0"
proof -
  let ?l = "2 * (index + 1) - 1" and ?r = "2 * (index + 1) - 1 + 1"
  have child: "c = ?l \<or> c = ?r" if "0 < c" "(c - 1) div 2 = index" for c
    using that by presburger
  have half: "?l < length heap" if "index < length heap div 2" using that by presburger
  consider (no_child) "\<not> index < length heap div 2"
    | (right) "index < length heap div 2" "?r < length heap"
        "cmp (heap ! ?l) lst < 0 \<and> cmp (heap ! ?r) (heap ! ?l) < 0
          \<or> \<not> cmp (heap ! ?l) lst < 0 \<and> cmp (heap ! ?r) lst < 0"
    | (left) "index < length heap div 2" "cmp (heap ! ?l) lst < 0"
        "\<not> (?r < length heap \<and> cmp (heap ! ?r) (heap ! ?l) < 0)"
    | (none) "index < length heap div 2" "\<not> cmp (heap ! ?l) lst < 0"
        "\<not> (?r < length heap \<and> cmp (heap ! ?r) lst < 0)"
    by blast
  then show thesis
  proof cases
    case no_child
    then have "\<not> c < length heap" if "0 < c" "(c - 1) div 2 = index" for c
      using child [OF that] by auto
    then show thesis using no_child by (intro stop) (subst pop_loop.simps, auto)
  next
    case right
    then have "pop_loop cmp heap index lst = pop_loop cmp (heap[index := heap ! ?r, ?r := lst]) ?r lst"
      by (subst pop_loop.simps) (auto simp: Let_def)
    then show thesis using right child by (intro exchange [of ?r ?l]) auto
  next
    case left
    then have "pop_loop cmp heap index lst = pop_loop cmp (heap[index := heap ! ?l, ?l := lst]) ?l lst"
      by (subst pop_loop.simps) (auto simp: Let_def)
    then show thesis using left half child by (intro exchange [of ?l ?r]) auto
  next
    case none
    then have "\<not> cmp (heap ! c) lst < 0" if "c < length heap" "0 < c" "(c - 1) div 2 = index" for c
      using child [OF that(2,3)] that(1) by (elim disjE) simp_all
    then show thesis using none by (intro stop) (subst pop_loop.simps, auto simp: Let_def)
  qed
qed

lemma pop_loop_mset:
  "index < length heap \<Longrightarrow> heap ! index = lst \<Longrightarrow> mset (pop_loop cmp heap index lst) = mset heap"
proof (induction "length heap - index" arbitrary: heap index rule: less_induct)
  case less
  show ?case
  proof (cases rule: pop_loop_round [of cmp heap index lst])
    case (exchange j d)
    have "mset (pop_loop cmp (heap[index := heap ! j, j := lst]) j lst)
            = mset (heap[index := heap ! j, j := lst])"
      using exchange less.prems by (intro less.hyps) auto
    also have "\<dots> = mset heap" using exchange less.prems by (intro mset_exchange) auto
    finally show ?thesis using exchange by simp
  qed simp
qed

lemma pop_Nil [simp]: "pop cmp [] = (None, [])"
  by (simp add: pop_def)

lemma pop_Cons_fst: "fst (pop cmp (x # h)) = Some x"
  by (simp add: pop_def Let_def)

lemma mset_butlast_Cons:
  "distinct (x # h) \<Longrightarrow> last (x # h) = x \<Longrightarrow> h = []"
  by (cases h rule: rev_cases) auto

lemma pop_mset:
  assumes "distinct (x # h)"
  shows "mset (snd (pop cmp (x # h))) = mset h"
proof (cases "last (x # h) = x")
  case True
  then have "h = []" by (rule mset_butlast_Cons [OF assms])
  then show ?thesis by (simp add: pop_def)
next
  case False
  then have ne: "h \<noteq> []" "butlast (x # h) \<noteq> []" by auto
  have "mset (snd (pop cmp (x # h)))
          = mset (pop_loop cmp ((butlast (x # h))[0 := last (x # h)]) 0 (last (x # h)))"
    using False by (simp add: pop_def Let_def)
  also have "\<dots> = mset ((butlast (x # h))[0 := last (x # h)])"
    using ne by (intro pop_loop_mset) (auto simp: nth_list_update)
  also have "\<dots> = mset h" using mset_update_head [of "x # h"] ne by simp
  finally show ?thesis .
qed

lemma push_set [simp]: "set (push cmp heap node) = insert node (set heap)"
  using push_mset [of cmp heap node] by (metis set_mset_add_mset_insert set_mset_mset)

lemma push_distinct [simp]: "distinct (push cmp heap node) \<longleftrightarrow> node \<notin> set heap \<and> distinct heap"
  using push_mset [of cmp heap node]
  by (metis distinct.simps(2) mset.simps(2) mset_eq_imp_distinct_iff)

lemma push_not_Nil [simp]: "push cmp heap node \<noteq> []"
  using push_set [of cmp heap node] by (metis empty_not_insert list.set(1))

lemma pop_set: "distinct (x # h) \<Longrightarrow> set (snd (pop cmp (x # h))) = set h"
  using pop_mset [THEN mset_eq_setD] .

lemma pop_distinct: "distinct h \<Longrightarrow> distinct (snd (pop cmp h))"
proof (cases h)
  case (Cons x t)
  assume "distinct h"
  with Cons show ?thesis using pop_mset [of x t cmp, THEN mset_eq_imp_distinct_iff] by simp
qed simp

lemma pop_loop_length [simp]: "length (pop_loop cmp heap index lst) = length heap"
proof (induction "length heap - index" arbitrary: heap index rule: less_induct)
  case less
  show ?case
  proof (cases rule: pop_loop_round [of cmp heap index lst])
    case (exchange j d)
    then have "length (pop_loop cmp (heap[index := heap ! j, j := lst]) j lst) = length heap"
      using less.hyps [of "heap[index := heap ! j, j := lst]" j] by simp
    then show ?thesis using exchange by simp
  qed simp
qed

lemma pop_length [simp]: "length (snd (pop cmp h)) = length h - 1"
  by (cases h) (auto simp: pop_def Let_def)

lemma peek_simps [simp]: "peek [] = None" "peek (x # h) = Some x"
  by (simp_all add: peek_def)

lemma peek_None_iff [simp]: "peek h = None \<longleftrightarrow> h = []"
  by (cases h) auto

lemma peek_SomeD: "peek h = Some x \<Longrightarrow> \<exists>h'. h = x # h'"
  by (cases h) auto

subsection \<open>What the heap needs of the comparison\<close>

locale comparator =
  fixes cmp :: "'a \<Rightarrow> 'a \<Rightarrow> real"
  assumes cmp_flip: "0 < cmp a b \<longleftrightarrow> cmp b a < 0"
    and cmp_trans: "cmp a b \<le> 0 \<Longrightarrow> cmp b c \<le> 0 \<Longrightarrow> cmp a c \<le> 0"
begin

lemma cmp_refl [simp]: "cmp a a \<le> 0"
  using cmp_flip [of a a] by linarith

lemma cmp_linear: "\<not> cmp a b < 0 \<Longrightarrow> cmp b a \<le> 0"
  using cmp_flip [of b a] by linarith

lemma push_loop_heap:
  "index < length heap \<Longrightarrow> heap ! index = node \<Longrightarrow> heap_except_up cmp heap index \<Longrightarrow>
   heap_ok cmp (push_loop cmp heap index node)"
proof (induction index arbitrary: heap rule: less_induct)
  case (less index)
  define p where p_def: "p = (index - 1) div 2"
  let ?h = "heap[p := node, index := heap ! p]"
  show ?case
  proof (cases "0 < index \<and> 0 < cmp (heap ! p) node")
    case True
    then have p: "p < index" "p < length heap" using less.prems by (auto simp: p_def)
    have nd: "cmp node (heap ! p) \<le> 0" using True cmp_flip by force
    have at: "?h ! a = (if a = index then heap ! p else if a = p then node else heap ! a)" for a
      using p less.prems(1) by (simp add: nth_list_update)
    have old: "cmp (heap ! ((i - 1) div 2)) (heap ! i) \<le> 0"
      if "i < length heap" "0 < i" "i \<noteq> index" for i
      using less.prems(3) that by (auto simp: heap_except_up_def)
    have above: "cmp (heap ! p) (heap ! i) \<le> 0"
      if "i < length heap" "0 < i" "(i - 1) div 2 = index" for i
      using less.prems(3) that True by (auto simp: heap_except_up_def p_def)
    have "heap_except_up cmp ?h p"
      unfolding heap_except_up_def
    proof (intro allI impI conjI)
      fix i assume i: "i < length ?h" "0 < i"
      define q where q_def: "q = (i - 1) div 2"
      have q: "q < i" using i half_pred_less by (simp add: q_def)
      consider "i = index" | "i \<noteq> index" "q = index" | "i \<noteq> index" "q = p" | "i \<noteq> index" "q \<noteq> index" "q \<noteq> p"
        by blast
      then have "cmp (?h ! q) (?h ! i) \<le> 0" if "i \<noteq> p"
      proof cases
        case 1
        then have "q = p" by (simp add: q_def p_def)
        then show ?thesis using 1 nd p by (simp add: at)
      next
        case 2
        then show ?thesis using above i that q by (simp add: at q_def)
      next
        case 3
        then have "cmp (heap ! p) (heap ! i) \<le> 0" using old [of i] i by (simp add: q_def)
        then show ?thesis using 3 nd p that by (auto simp: at intro: cmp_trans [of node "heap ! p"])
      next
        case 4
        then show ?thesis using old i that by (simp add: at q_def)
      qed
      then show "i \<noteq> p \<Longrightarrow> cmp (?h ! ((i - 1) div 2)) (?h ! i) \<le> 0" by (simp add: q_def)
      define g where g_def: "g = (p - 1) div 2"
      show "cmp (?h ! ((p - 1) div 2)) (?h ! i) \<le> 0" if "(i - 1) div 2 = p" "0 < p"
      proof -
        have g: "g < p" using half_pred_less [OF that(2)] by (simp add: g_def)
        have top: "cmp (heap ! g) (heap ! p) \<le> 0" using old [of p] p that by (simp add: g_def)
        have "cmp (heap ! p) (heap ! i) \<le> 0" if "i \<noteq> index"
          using old [of i] i that \<open>(i - 1) div 2 = p\<close> by simp
        then show ?thesis
          using top g p q that unfolding g_def [symmetric]
          by (auto simp: at q_def intro: cmp_trans [OF top])
      qed
    qed
    then have "heap_ok cmp (push_loop cmp ?h p node)"
      using p less.prems by (intro less.IH) auto
    then show ?thesis using True by (subst push_loop.simps) (simp add: Let_def p_def)
  next
    case False
    then have "push_loop cmp heap index node = heap"
      by (subst push_loop.simps) (auto simp: Let_def p_def)
    moreover have "cmp (heap ! ((i - 1) div 2)) (heap ! i) \<le> 0" if "i < length heap" "0 < i" for i
      using less.prems False that by (cases "i = index") (auto simp: heap_except_up_def p_def)
    ultimately show ?thesis by (simp add: heap_ok_def)
  qed
qed

lemma push_heap: "heap_ok cmp h \<Longrightarrow> heap_ok cmp (push cmp h x)"
  unfolding push_def by (rule push_loop_heap) (auto intro: heap_ok_append_up)

lemma pop_loop_heap:
  "index < length heap \<Longrightarrow> heap ! index = lst \<Longrightarrow> heap_except_down cmp heap index \<Longrightarrow>
   heap_ok cmp (pop_loop cmp heap index lst)"
proof (induction "length heap - index" arbitrary: heap index rule: less_induct)
  case less
  show ?case
  proof (cases rule: pop_loop_round [of cmp heap index lst])
    case stop
    have "cmp (heap ! ((i - 1) div 2)) (heap ! i) \<le> 0" if "i < length heap" "0 < i" for i
      using less.prems that stop(2) [OF that]
      by (cases "(i - 1) div 2 = index") (auto simp: heap_except_down_def cmp_linear)
    then show ?thesis using stop by (simp add: heap_ok_def)
  next
    case (exchange j d)
    let ?h = "heap[index := heap ! j, j := lst]"
    have at: "?h ! a = (if a = j then lst else if a = index then heap ! j else heap ! a)" for a
      using exchange(1) less.prems(1) by (simp add: nth_list_update)
    have jl: "cmp (heap ! j) lst \<le> 0"
      using exchange(5) by (auto intro: cmp_trans [of _ "heap ! d"])
    have jd: "d < length heap \<Longrightarrow> cmp (heap ! j) (heap ! d) \<le> 0"
      using exchange(7) jl cmp_linear by (fastforce intro: cmp_trans [of _ lst])
    have "heap_except_down cmp ?h j"
      unfolding heap_except_down_def
    proof (intro allI impI conjI)
      fix i assume i: "i < length ?h" "0 < i"
      let ?q = "(i - 1) div 2"
      have q: "?q < length heap" "?q < i" using i by auto
      have old: "?q \<noteq> index \<Longrightarrow> cmp (heap ! ?q) (heap ! i) \<le> 0"
        and below: "?q = index \<Longrightarrow> 0 < index \<Longrightarrow> cmp (heap ! ((index - 1) div 2)) (heap ! i) \<le> 0"
        using less.prems(3) i by (auto simp: heap_except_down_def)
      have up: "0 < index \<Longrightarrow> cmp (heap ! ((index - 1) div 2)) (heap ! j) \<le> 0"
        using less.prems(3) exchange(1,2,3) by (auto simp: heap_except_down_def)
      have other: "?q = index \<Longrightarrow> i \<noteq> j \<Longrightarrow> i = d" using exchange(6) i by auto
      consider "i = j" | "i \<noteq> j" "?q = index" | "i \<noteq> j" "?q \<noteq> index" "i = index"
        | "i \<noteq> j" "?q \<noteq> index" "i \<noteq> index" by blast
      then show "cmp (?h ! ?q) (?h ! i) \<le> 0" if "?q \<noteq> j"
      proof cases
        case 1
        then have "?q = index" using exchange(3) by simp
        then show ?thesis using 1 jl exchange(2) by (simp only: at if_True if_False) simp
      next
        case 2
        then have "i = d" "i \<noteq> index" using other q by auto
        then show ?thesis using 2 jd i exchange(2) by (simp add: at)
      next
        case 3
        then show ?thesis using up i that by (simp add: at)
      next
        case 4
        then show ?thesis using old that by (simp add: at)
      qed
      show "cmp (?h ! ((j - 1) div 2)) (?h ! i) \<le> 0" if "?q = j" "0 < j"
        using that old exchange(2,3) q by (simp add: at)
    qed
    then have "heap_ok cmp (pop_loop cmp ?h j lst)"
      using exchange less.prems by (intro less.hyps) auto
    then show ?thesis using exchange by simp
  qed
qed

lemma pop_heap:
  assumes "heap_ok cmp h"
  shows "heap_ok cmp (snd (pop cmp h))"
proof (cases "h = [] \<or> last h = hd h")
  case True
  have "heap_ok cmp (butlast h)"
    using assms unfolding heap_ok_def by (auto simp: nth_butlast)
  with True show ?thesis by (cases h) (auto simp: pop_def Let_def)
next
  case False
  then obtain x t where h: "h = x # t" by (cases h) auto
  with False have t: "t \<noteq> []" by auto
  let ?h = "(butlast h)[0 := last h]"
  have "heap_except_down cmp ?h 0"
    using assms by (rule heap_ok_replace_root) (auto simp: nth_butlast)
  moreover have "0 < length ?h" "?h ! 0 = last h" using h t by auto
  ultimately have "heap_ok cmp (pop_loop cmp ?h 0 (last h))" by (intro pop_loop_heap)
  then show ?thesis using False h by (auto simp: pop_def Let_def)
qed

lemma peek_minimal:
  "heap_ok cmp h \<Longrightarrow> peek h = Some x \<Longrightarrow> y \<in> set h \<Longrightarrow> cmp x y \<le> 0"
proof -
  assume ok: "heap_ok cmp h" and pk: "peek h = Some x" and y: "y \<in> set h"
  have "cmp (h ! 0) (h ! i) \<le> 0" if "i < length h" for i
    using that
  proof (induction i rule: less_induct)
    case (less i)
    show ?case
    proof (cases "i = 0")
      case False
      then have "cmp (h ! 0) (h ! ((i - 1) div 2)) \<le> 0" using less by (intro less.IH) auto
      then show ?thesis using heap_okD [OF ok] False less.prems by (blast intro: cmp_trans)
    qed simp
  qed
  moreover obtain i where "i < length h" "h ! i = y" using y by (auto simp: in_set_conv_nth)
  moreover have "h ! 0 = x" using peek_SomeD [OF pk] by auto
  ultimately show ?thesis by auto
qed

end

subsection \<open>The interface the scheduler relies on\<close>

text \<open>Take the elements out one by one, at most \<open>n\<close> of them.\<close>
fun drain :: "('q \<Rightarrow> 'a option) \<Rightarrow> ('q \<Rightarrow> 'q) \<Rightarrow> nat \<Rightarrow> 'q \<Rightarrow> 'a list" where
  "drain front remove 0 q = []"
| "drain front remove (Suc n) q =
     (case front q of None \<Rightarrow> [] | Some x \<Rightarrow> x # drain front remove n (remove q))"

locale min_queue =
  fixes before :: "'a \<Rightarrow> 'a \<Rightarrow> bool"
    and add :: "'q \<Rightarrow> 'a \<Rightarrow> 'q"
    and front :: "'q \<Rightarrow> 'a option"
    and remove :: "'q \<Rightarrow> 'q"
    and invar :: "'q \<Rightarrow> bool"
    and contents :: "'q \<Rightarrow> 'a multiset"
  assumes invar_add: "invar q \<Longrightarrow> x \<notin># contents q \<Longrightarrow> invar (add q x)"
    and contents_add: "invar q \<Longrightarrow> contents (add q x) = add_mset x (contents q)"
    and front_None: "invar q \<Longrightarrow> front q = None \<longleftrightarrow> contents q = {#}"
    and front_least: "invar q \<Longrightarrow> front q = Some x \<Longrightarrow> y \<in># contents q \<Longrightarrow> before x y"
    and front_in: "invar q \<Longrightarrow> front q = Some x \<Longrightarrow> x \<in># contents q"
    and invar_remove: "invar q \<Longrightarrow> invar (remove q)"
    and contents_remove: "invar q \<Longrightarrow> front q = Some x \<Longrightarrow> contents (remove q) = contents q - {#x#}"
begin

lemma drain_contents:
  "invar q \<Longrightarrow> n = size (contents q) \<Longrightarrow> mset (drain front remove n q) = contents q"
proof (induction n arbitrary: q)
  case 0
  then show ?case by simp
next
  case (Suc n)
  then have "contents q \<noteq> {#}" by auto
  then obtain x where x: "front q = Some x" using front_None Suc.prems(1) by fastforce
  have c: "contents (remove q) = contents q - {#x#}" and i: "x \<in># contents q"
    using Suc.prems x by (auto simp: contents_remove front_in)
  then have "n = size (contents (remove q))" using Suc.prems by (simp add: size_Diff_singleton)
  then have "mset (drain front remove n (remove q)) = contents q - {#x#}"
    using Suc.IH [of "remove q"] invar_remove [OF Suc.prems(1)] c by simp
  then show ?case using x i by simp
qed

lemma drain_subset: "invar q \<Longrightarrow> set (drain front remove n q) \<subseteq> set_mset (contents q)"
proof (induction n arbitrary: q)
  case (Suc n)
  show ?case
  proof (cases "front q")
    case (Some x)
    then have "set (drain front remove n (remove q)) \<subseteq> set_mset (contents q - {#x#})"
      using Suc.IH [OF invar_remove] Suc.prems contents_remove by force
    then show ?thesis using Some front_in [OF Suc.prems Some] by (auto dest: in_diffD)
  qed simp
qed simp

lemma drain_sorted: "invar q \<Longrightarrow> sorted_wrt before (drain front remove n q)"
proof (induction n arbitrary: q)
  case (Suc n)
  show ?case
  proof (cases "front q")
    case (Some x)
    have "before x y" if "y \<in> set (drain front remove n (remove q))" for y
    proof -
      have "y \<in># contents (remove q)"
        using drain_subset [OF invar_remove [OF Suc.prems]] that by blast
      then have "y \<in># contents q" using contents_remove [OF Suc.prems Some] by (auto dest: in_diffD)
      then show ?thesis by (rule front_least [OF Suc.prems Some])
    qed
    then show ?thesis using Some Suc.IH [OF invar_remove [OF Suc.prems]] by simp
  qed simp
qed simp

end

sublocale comparator \<subseteq> pq: min_queue "\<lambda>a b. cmp a b \<le> 0" "push cmp" peek "\<lambda>h. snd (pop cmp h)"
  "\<lambda>h. heap_ok cmp h \<and> distinct h" mset
proof
  fix q :: "'a list" and x y :: 'a
  assume q: "heap_ok cmp q \<and> distinct q"
  show "heap_ok cmp (push cmp q x) \<and> distinct (push cmp q x)" if "x \<notin># mset q"
    using q that push_heap by simp
  show "mset (push cmp q x) = add_mset x (mset q)" by simp
  show "peek q = None \<longleftrightarrow> mset q = {#}" by simp
  show "heap_ok cmp (snd (pop cmp q)) \<and> distinct (snd (pop cmp q))"
    using q pop_heap pop_distinct by blast
  assume pk: "peek q = Some x"
  then obtain t where t: "q = x # t" using peek_SomeD by fast
  show "cmp x y \<le> 0" if "y \<in># mset q" using peek_minimal [OF _ pk] q that by auto
  show "x \<in># mset q" using t by simp
  show "mset (snd (pop cmp q)) = mset q - {#x#}" using q t pop_mset by fastforce
qed

end
