(* ===== verification/Scheduler.thy ===== *)
theory Scheduler
  imports Min_Heap
begin

text \<open>
  The cooperative scheduler, \<open>packages/scheduler/cjs/scheduler.development.js\<close>: task objects,
  the two heaps, delayed tasks, the message loop and the exported API. Each definition follows
  the function of the same name.

  JavaScript's mutable task objects live in a store: the two queues hold references, here the
  number \<open>taskIdCounter\<close> gave the task when it was made, and two references are identical
  (\<open>===\<close>) when the numbers agree. User code that the scheduler calls (a task's callback, an
  event handler) is outside the program; it is the parameter \<open>run\<close>, and \<open>api_steps\<close> states what
  such code can do to the scheduler: call its exports, any number of times.

  The host (timers, the message channel, the clock) appears as the fields below the comment in
  \<open>sched\<close>: each call of \<open>unstable_now\<close> reads the next value of \<open>clock\<close>; \<open>timeouts\<close> are the
  pending \<open>setTimeout\<close> requests, \<open>messages\<close> the posted calls of \<open>performWorkUntilDeadline\<close>.
\<close>

text \<open>A task's \<open>callback\<close> property: \<open>null\<close>, a function, or another value.\<close>
datatype 'c callback_value = CbNull | CbFunction 'c | CbOther

record 'c task =
  tid :: nat
  callback :: "'c callback_value"
  priorityLevel :: int
  startTime :: js_time
  expirationTime :: js_time
  sortIndex :: js_time

record 'c sched =
  store :: "nat \<Rightarrow> 'c task"
  taskQueue :: "nat list"
  timerQueue :: "nat list"
  taskIdCounter :: nat
  currentTask :: "nat option"
  currentPriorityLevel :: int
  isPerformingWork :: bool
  isHostCallbackScheduled :: bool
  isHostTimeoutScheduled :: bool
  needsPaint :: bool
  isMessageLoopRunning :: bool
  taskTimeoutID :: int
  frameInterval :: js_time
  sliceStart :: js_time \<comment> \<open>the module variable \<open>startTime\<close>\<close>
  \<comment> \<open>the host\<close>
  clock :: "nat \<Rightarrow> js_time"
  ticks :: nat
  timeouts :: "(int \<times> js_time) list"
  nextTimeoutID :: int
  messages :: nat
  console :: "string list"

definition no_task :: "'c task" where
  "no_task = \<lparr>tid = 0, callback = CbNull, priorityLevel = 0, startTime = 0, expirationTime = 0,
     sortIndex = 0\<rparr>"

text \<open>The module's initial state, for a host clock \<open>clk\<close>.\<close>
definition init_sched :: "(nat \<Rightarrow> js_time) \<Rightarrow> 'c sched" where
  "init_sched clk = \<lparr>store = (\<lambda>_. no_task), taskQueue = [], timerQueue = [], taskIdCounter = 1,
     currentTask = None, currentPriorityLevel = 3, isPerformingWork = False,
     isHostCallbackScheduled = False, isHostTimeoutScheduled = False, needsPaint = False,
     isMessageLoopRunning = False, taskTimeoutID = -1, frameInterval = 5, sliceStart = -1,
     clock = clk, ticks = 0, timeouts = [], nextTimeoutID = 1, messages = 0, console = []\<rparr>"

subsection \<open>Queues and timers\<close>

definition compare :: "(nat \<Rightarrow> 'c task) \<Rightarrow> nat \<Rightarrow> nat \<Rightarrow> real" where
  "compare st a b =
     (let diff = sortIndex (st a) - sortIndex (st b)
      in if diff \<noteq> 0 then diff else real (tid (st a)) - real (tid (st b)))"

definition unstable_now :: "'c sched \<Rightarrow> js_time \<times> 'c sched" where
  "unstable_now s = (clock s (ticks s), s\<lparr>ticks := Suc (ticks s)\<rparr>)"

definition pop_timer :: "'c sched \<Rightarrow> 'c sched" where
  "pop_timer s = s\<lparr>timerQueue := snd (pop (compare (store s)) (timerQueue s))\<rparr>"

definition pop_task :: "'c sched \<Rightarrow> 'c sched" where
  "pop_task s = s\<lparr>taskQueue := snd (pop (compare (store s)) (taskQueue s))\<rparr>"

definition push_timer :: "nat \<Rightarrow> 'c sched \<Rightarrow> 'c sched" where
  "push_timer t s = s\<lparr>timerQueue := push (compare (store s)) (timerQueue s) t\<rparr>"

definition push_task :: "nat \<Rightarrow> 'c sched \<Rightarrow> 'c sched" where
  "push_task t s = s\<lparr>taskQueue := push (compare (store s)) (taskQueue s) t\<rparr>"

text \<open>Assignment to a property of the task object \<open>t\<close>.\<close>
definition set_task :: "nat \<Rightarrow> ('c task \<Rightarrow> 'c task) \<Rightarrow> 'c sched \<Rightarrow> 'c sched" where
  "set_task t f s = s\<lparr>store := (store s)(t := f (store s t))\<rparr>"

function advanceTimers :: "js_time \<Rightarrow> 'c sched \<Rightarrow> 'c sched" where
  "advanceTimers currentTime s =
     (case peek (timerQueue s) of
        None \<Rightarrow> s
      | Some timer \<Rightarrow>
          if callback (store s timer) = CbNull
          then advanceTimers currentTime (pop_timer s)
          else if startTime (store s timer) \<le> currentTime
          then advanceTimers currentTime
                 (push_task timer
                   (set_task timer (\<lambda>t. t\<lparr>sortIndex := expirationTime t\<rparr>) (pop_timer s)))
          else s)"
  by pat_completeness auto
termination
  by (relation "measure (\<lambda>(now, s). length (timerQueue s))")
     (auto simp: pop_timer_def push_task_def set_task_def dest!: peek_SomeD)

declare advanceTimers.simps [simp del]

subsection \<open>Host requests\<close>

definition localSetTimeout :: "js_time \<Rightarrow> 'c sched \<Rightarrow> int \<times> 'c sched" where
  "localSetTimeout ms s =
     (nextTimeoutID s,
      s\<lparr>timeouts := timeouts s @ [(nextTimeoutID s, ms)], nextTimeoutID := nextTimeoutID s + 1\<rparr>)"

definition localClearTimeout :: "int \<Rightarrow> 'c sched \<Rightarrow> 'c sched" where
  "localClearTimeout i s = s\<lparr>timeouts := filter (\<lambda>r. fst r \<noteq> i) (timeouts s)\<rparr>"

definition schedulePerformWorkUntilDeadline :: "'c sched \<Rightarrow> 'c sched" where
  "schedulePerformWorkUntilDeadline s = s\<lparr>messages := Suc (messages s)\<rparr>"

text \<open>The only callback the scheduler passes is \<open>handleTimeout\<close>, called with the time then.\<close>
definition requestHostTimeout :: "js_time \<Rightarrow> 'c sched \<Rightarrow> 'c sched" where
  "requestHostTimeout ms s = (let (i, s') = localSetTimeout ms s in s'\<lparr>taskTimeoutID := i\<rparr>)"

text \<open>\<open>isMessageLoopRunning || (isMessageLoopRunning = true, schedulePerformWorkUntilDeadline())\<close>\<close>
definition startMessageLoop :: "'c sched \<Rightarrow> 'c sched" where
  "startMessageLoop s =
     (if isMessageLoopRunning s then s
      else schedulePerformWorkUntilDeadline (s\<lparr>isMessageLoopRunning := True\<rparr>))"

definition handleTimeout :: "js_time \<Rightarrow> 'c sched \<Rightarrow> 'c sched" where
  "handleTimeout currentTime s =
     (let s1 = advanceTimers currentTime (s\<lparr>isHostTimeoutScheduled := False\<rparr>)
      in if isHostCallbackScheduled s1 then s1
         else if peek (taskQueue s1) \<noteq> None
         then startMessageLoop (s1\<lparr>isHostCallbackScheduled := True\<rparr>)
         else (case peek (timerQueue s1) of
                 None \<Rightarrow> s1
               | Some firstTimer \<Rightarrow>
                   requestHostTimeout (startTime (store s1 firstTimer) - currentTime) s1))"

definition shouldYieldToHost :: "'c sched \<Rightarrow> bool \<times> 'c sched" where
  "shouldYieldToHost s =
     (if needsPaint s then (True, s)
      else let (t, s') = unstable_now s
           in (if t - sliceStart s < frameInterval s then (False, s') else (True, s')))"

subsection \<open>The exported API\<close>

text \<open>The third argument of \<open>unstable_scheduleCallback\<close>: not an object (or \<open>null\<close>), or an object
  whose \<open>delay\<close> property is a number or something else.\<close>
datatype delay_value = DelayNumber js_time | DelayOther
datatype schedule_options = NoOptions | Options delay_value

definition timeoutForPriority :: "int \<Rightarrow> js_time" where
  "timeoutForPriority p =
     (if p = 1 then -1
      else if p = 2 then 250
      else if p = 5 then 1073741823
      else if p = 4 then 10000
      else 5000)"

definition optionsStartTime :: "js_time \<Rightarrow> schedule_options \<Rightarrow> js_time" where
  "optionsStartTime currentTime options =
     (case options of
        Options (DelayNumber d) \<Rightarrow> if 0 < d then currentTime + d else currentTime
      | _ \<Rightarrow> currentTime)"

definition unstable_scheduleCallback ::
  "int \<Rightarrow> 'c callback_value \<Rightarrow> schedule_options \<Rightarrow> 'c sched \<Rightarrow> nat \<times> 'c sched" where
  "unstable_scheduleCallback prio cb options s =
     (let (currentTime, s0) = unstable_now s;
          start = optionsStartTime currentTime options;
          expiration = start + timeoutForPriority prio;
          t = taskIdCounter s0;
          s1 = (set_task t (\<lambda>_. \<lparr>tid = t, callback = cb, priorityLevel = prio, startTime = start,
                     expirationTime = expiration, sortIndex = -1\<rparr>) s0)\<lparr>taskIdCounter := Suc t\<rparr>
      in if start > currentTime
         then let s2 = push_timer t (set_task t (\<lambda>x. x\<lparr>sortIndex := start\<rparr>) s1)
              in if peek (taskQueue s2) = None \<and> peek (timerQueue s2) = Some t
                 then let s3 = (if isHostTimeoutScheduled s2
                                then (localClearTimeout (taskTimeoutID s2) s2)\<lparr>taskTimeoutID := -1\<rparr>
                                else s2\<lparr>isHostTimeoutScheduled := True\<rparr>)
                      in (t, requestHostTimeout (start - currentTime) s3)
                 else (t, s2)
         else let s2 = push_task t (set_task t (\<lambda>x. x\<lparr>sortIndex := expiration\<rparr>) s1)
              in if isHostCallbackScheduled s2 \<or> isPerformingWork s2 then (t, s2)
                 else (t, startMessageLoop (s2\<lparr>isHostCallbackScheduled := True\<rparr>)))"

definition unstable_cancelCallback :: "nat \<Rightarrow> 'c sched \<Rightarrow> 'c sched" where
  "unstable_cancelCallback t s = set_task t (\<lambda>x. x\<lparr>callback := CbNull\<rparr>) s"

definition unstable_forceFrameRate :: "js_time \<Rightarrow> 'c sched \<Rightarrow> 'c sched" where
  "unstable_forceFrameRate fps s =
     (if 0 > fps \<or> 125 < fps
      then s\<lparr>console := console s @
        [''forceFrameRate takes a positive int between 0 and 125, forcing frame rates higher than 125 fps is not supported'']\<rparr>
      else s\<lparr>frameInterval := (if 0 < fps then of_int \<lfloor>1000 / fps\<rfloor> else 5)\<rparr>)"

definition unstable_getCurrentPriorityLevel :: "'c sched \<Rightarrow> int" where
  "unstable_getCurrentPriorityLevel s = currentPriorityLevel s"

definition unstable_requestPaint :: "'c sched \<Rightarrow> 'c sched" where
  "unstable_requestPaint s = s\<lparr>needsPaint := True\<rparr>"

text \<open>Event handlers passed to the API are user code: they return a result (or throw, which is
  part of \<open>'r\<close>) and leave a state. The \<open>finally\<close> clause restores the level in both cases.\<close>
definition withPriority :: "int \<Rightarrow> ('c sched \<Rightarrow> 'r \<times> 'c sched) \<Rightarrow> 'c sched \<Rightarrow> 'r \<times> 'c sched" where
  "withPriority p eventHandler s =
     (let previousPriorityLevel = currentPriorityLevel s;
          (r, s') = eventHandler (s\<lparr>currentPriorityLevel := p\<rparr>)
      in (r, s'\<lparr>currentPriorityLevel := previousPriorityLevel\<rparr>))"

definition unstable_next :: "('c sched \<Rightarrow> 'r \<times> 'c sched) \<Rightarrow> 'c sched \<Rightarrow> 'r \<times> 'c sched" where
  "unstable_next eventHandler s =
     (let p = currentPriorityLevel s
      in withPriority (if p = 1 \<or> p = 2 \<or> p = 3 then 3 else p) eventHandler s)"

definition unstable_runWithPriority ::
  "int \<Rightarrow> ('c sched \<Rightarrow> 'r \<times> 'c sched) \<Rightarrow> 'c sched \<Rightarrow> 'r \<times> 'c sched" where
  "unstable_runWithPriority p eventHandler s =
     withPriority (if p = 1 \<or> p = 2 \<or> p = 3 \<or> p = 4 \<or> p = 5 then p else 3) eventHandler s"

text \<open>The returned function, as a state transformer; the level is the one at wrapping time.\<close>
definition unstable_wrapCallback ::
  "('c sched \<Rightarrow> 'r \<times> 'c sched) \<Rightarrow> 'c sched \<Rightarrow> ('c sched \<Rightarrow> 'r \<times> 'c sched)" where
  "unstable_wrapCallback cb s =
     (let parentPriorityLevel = currentPriorityLevel s in withPriority parentPriorityLevel cb)"

subsection \<open>The work loop\<close>

text \<open>What a task's callback does: return a function, return another value, or throw.\<close>
datatype ('c, 'e) outcome = Continuation 'c | NoContinuation | Throw 'e

text \<open>How the loop ended: with a task left (yielded, or a continuation to resume), with an empty
  task queue, or with an exception.\<close>
datatype 'e work_result = MoreWork | Drained | Threw 'e

type_synonym ('c, 'e) runner = "'c \<Rightarrow> bool \<Rightarrow> 'c sched \<Rightarrow> ('c, 'e) outcome \<times> 'c sched"

text \<open>The test \<open>currentTask.expirationTime > currentTime && shouldYieldToHost()\<close>.\<close>
definition yieldBefore :: "js_time \<Rightarrow> nat \<Rightarrow> 'c sched \<Rightarrow> bool \<times> 'c sched" where
  "yieldBefore currentTime task s =
     (if expirationTime (store s task) > currentTime then shouldYieldToHost s else (False, s))"

text \<open>The \<open>for\<close> loop of \<open>performWorkUntilDeadline\<close>. Callbacks may schedule without end, so the loop
  takes fuel; running out is \<open>None\<close>.\<close>
fun workLoop :: "nat \<Rightarrow> ('c, 'e) runner \<Rightarrow> js_time \<Rightarrow> 'c sched \<Rightarrow> ('e work_result \<times> js_time \<times> 'c sched) option" where
  "workLoop 0 run currentTime s = None"
| "workLoop (Suc fuel) run currentTime s =
     (case currentTask s of
        None \<Rightarrow> Some (Drained, currentTime, s)
      | Some task \<Rightarrow>
          let (yield, s1) = yieldBefore currentTime task s
          in if yield then Some (MoreWork, currentTime, s1)
             else (case callback (store s1 task) of
                CbFunction c \<Rightarrow>
                  let s2 = (set_task task (\<lambda>t. t\<lparr>callback := CbNull\<rparr>) s1)
                             \<lparr>currentPriorityLevel := priorityLevel (store s1 task)\<rparr>;
                      (result, s3) = run c (expirationTime (store s1 task) \<le> currentTime) s2
                  in (case result of
                        Throw e \<Rightarrow> Some (Threw e, currentTime, s3)
                      | Continuation c' \<Rightarrow>
                          let (now, s4) = unstable_now s3
                          in Some (MoreWork, now,
                               advanceTimers now (set_task task (\<lambda>t. t\<lparr>callback := CbFunction c'\<rparr>) s4))
                      | NoContinuation \<Rightarrow>
                          let (now, s4) = unstable_now s3;
                              s5 = (if peek (taskQueue s4) = Some task then pop_task s4 else s4);
                              s6 = advanceTimers now s5
                          in workLoop fuel run now (s6\<lparr>currentTask := peek (taskQueue s6)\<rparr>))
              | _ \<Rightarrow>
                  let s2 = pop_task s1
                  in workLoop fuel run currentTime (s2\<lparr>currentTask := peek (taskQueue s2)\<rparr>)))"

definition beginWork :: "js_time \<Rightarrow> 'c sched \<Rightarrow> 'c sched" where
  "beginWork currentTime s =
     (let s1 = s\<lparr>sliceStart := currentTime, isHostCallbackScheduled := False\<rparr>;
          s2 = (if isHostTimeoutScheduled s1
                then (localClearTimeout (taskTimeoutID s1) (s1\<lparr>isHostTimeoutScheduled := False\<rparr>))
                       \<lparr>taskTimeoutID := -1\<rparr>
                else s1);
          s3 = advanceTimers currentTime (s2\<lparr>isPerformingWork := True\<rparr>)
      in s3\<lparr>currentTask := peek (taskQueue s3)\<rparr>)"

text \<open>The end of the inner block and the two \<open>finally\<close> clauses.\<close>
definition endWork :: "int \<Rightarrow> 'e work_result \<Rightarrow> js_time \<Rightarrow> 'c sched \<Rightarrow> 'c sched" where
  "endWork previousPriorityLevel r currentTime s =
     (let s1 = (if r = Drained
                then (case peek (timerQueue s) of
                        None \<Rightarrow> s
                      | Some firstTimer \<Rightarrow>
                          requestHostTimeout (startTime (store s firstTimer) - currentTime) s)
                else s);
          s2 = s1\<lparr>currentTask := None, currentPriorityLevel := previousPriorityLevel,
                   isPerformingWork := False\<rparr>
      in if r = Drained then s2\<lparr>isMessageLoopRunning := False\<rparr>
         else schedulePerformWorkUntilDeadline s2)"

text \<open>The result is \<open>Some e\<close> when the exception \<open>e\<close> leaves the function.\<close>
definition performWorkUntilDeadline ::
  "nat \<Rightarrow> ('c, 'e) runner \<Rightarrow> 'c sched \<Rightarrow> ('e option \<times> 'c sched) option" where
  "performWorkUntilDeadline fuel run s =
     (let s0 = s\<lparr>needsPaint := False\<rparr>
      in if isMessageLoopRunning s0
         then let (currentTime, s1) = unstable_now s0;
                  previousPriorityLevel = currentPriorityLevel s1
              in (case workLoop fuel run currentTime (beginWork currentTime s1) of
                    None \<Rightarrow> None
                  | Some (r, now, s2) \<Rightarrow>
                      Some (case r of Threw e \<Rightarrow> Some e | _ \<Rightarrow> None,
                            endWork previousPriorityLevel r now s2))
         else Some (None, s0))"

subsection \<open>The comparison gives a priority queue\<close>

interpretation task_order: comparator "compare st" for st
  by unfold_locales (auto simp: compare_def Let_def split: if_splits)

lemma compare_cong:
  "sortIndex (st a) = sortIndex (st' a) \<Longrightarrow> tid (st a) = tid (st' a) \<Longrightarrow>
   sortIndex (st b) = sortIndex (st' b) \<Longrightarrow> tid (st b) = tid (st' b) \<Longrightarrow>
   compare st a b = compare st' a b"
  by (simp add: compare_def)

lemma compare_le_iff:
  "compare st a b \<le> 0 \<longleftrightarrow>
     sortIndex (st a) < sortIndex (st b)
     \<or> sortIndex (st a) = sortIndex (st b) \<and> tid (st a) \<le> tid (st b)"
  by (auto simp: compare_def Let_def)

subsection \<open>The queue invariant\<close>

definition task_entry_ok :: "'c sched \<Rightarrow> nat \<Rightarrow> bool" where
  "task_entry_ok s t \<longleftrightarrow> t < taskIdCounter s \<and> tid (store s t) = t \<and>
     sortIndex (store s t) = expirationTime (store s t)"

definition timer_entry_ok :: "'c sched \<Rightarrow> nat \<Rightarrow> bool" where
  "timer_entry_ok s t \<longleftrightarrow> t < taskIdCounter s \<and> tid (store s t) = t \<and>
     sortIndex (store s t) = startTime (store s t)"

definition queues_ok :: "'c sched \<Rightarrow> bool" where
  "queues_ok s \<longleftrightarrow>
     heap_ok (compare (store s)) (taskQueue s) \<and> heap_ok (compare (store s)) (timerQueue s) \<and>
     distinct (taskQueue s) \<and> distinct (timerQueue s) \<and> set (taskQueue s) \<inter> set (timerQueue s) = {} \<and>
     (\<forall>t \<in> set (taskQueue s). task_entry_ok s t) \<and> (\<forall>t \<in> set (timerQueue s). timer_entry_ok s t)"

lemmas queue_defs = queues_ok_def task_entry_ok_def timer_entry_ok_def

text \<open>The invariant reads the queues, the counter and the ordering fields of the queued tasks.\<close>
lemma queues_ok_cong:
  assumes "taskQueue s' = taskQueue s" "timerQueue s' = timerQueue s"
    "taskIdCounter s \<le> taskIdCounter s'"
    "\<And>t. t \<in> set (taskQueue s) \<union> set (timerQueue s) \<Longrightarrow>
       tid (store s' t) = tid (store s t) \<and> sortIndex (store s' t) = sortIndex (store s t) \<and>
       startTime (store s' t) = startTime (store s t) \<and>
       expirationTime (store s' t) = expirationTime (store s t)"
    "queues_ok s"
  shows "queues_ok s'"
proof -
  have c: "heap_ok (compare (store s')) q = heap_ok (compare (store s)) q"
    if "set q \<subseteq> set (taskQueue s) \<union> set (timerQueue s)" for q
  proof -
    have "tid (store s' t) = tid (store s t) \<and> sortIndex (store s' t) = sortIndex (store s t)"
      if "t \<in> set q" for t
      using assms(4) that \<open>set q \<subseteq> _\<close> by blast
    then show ?thesis by (intro heap_ok_cong compare_cong) auto
  qed
  show ?thesis using assms c [of "taskQueue s"] c [of "timerQueue s"] by (auto simp: queue_defs)
qed

lemma queues_ok_init: "queues_ok (init_sched clk)"
  by (simp add: queue_defs init_sched_def)

lemma queues_ok_pop_timer: "queues_ok s \<Longrightarrow> queues_ok (pop_timer s)"
proof (cases "timerQueue s")
  case (Cons x h)
  assume q: "queues_ok s"
  with Cons have "set (snd (pop (compare (store s)) (timerQueue s))) = set h"
    using pop_set [of x h "compare (store s)"] by (simp add: queues_ok_def)
  then show ?thesis
    using q Cons task_order.pop_heap [of "store s" "timerQueue s"] pop_distinct [of "timerQueue s"]
    by (auto simp: queue_defs pop_timer_def)
qed (simp add: queue_defs pop_timer_def)

lemma queues_ok_pop_task: "queues_ok s \<Longrightarrow> queues_ok (pop_task s)"
proof (cases "taskQueue s")
  case (Cons x h)
  assume q: "queues_ok s"
  with Cons have "set (snd (pop (compare (store s)) (taskQueue s))) = set h"
    using pop_set [of x h "compare (store s)"] by (simp add: queues_ok_def)
  then show ?thesis
    using q Cons task_order.pop_heap [of "store s" "taskQueue s"] pop_distinct [of "taskQueue s"]
    by (auto simp: queue_defs pop_task_def)
qed (simp add: queue_defs pop_task_def)

lemma queues_ok_push_task:
  "queues_ok s \<Longrightarrow> t \<notin> set (taskQueue s) \<union> set (timerQueue s) \<Longrightarrow> task_entry_ok s t \<Longrightarrow>
   queues_ok (push_task t s)"
  using task_order.push_heap [of "store s" "taskQueue s" t]
  by (auto simp: queue_defs push_task_def)

lemma queues_ok_push_timer:
  "queues_ok s \<Longrightarrow> t \<notin> set (taskQueue s) \<union> set (timerQueue s) \<Longrightarrow> timer_entry_ok s t \<Longrightarrow>
   queues_ok (push_timer t s)"
  using task_order.push_heap [of "store s" "timerQueue s" t]
  by (auto simp: queue_defs push_timer_def)

lemma queues_ok_set_task_free:
  "queues_ok s \<Longrightarrow> t \<notin> set (taskQueue s) \<union> set (timerQueue s) \<Longrightarrow> queues_ok (set_task t f s)"
  by (rule queues_ok_cong [of _ s]) (auto simp: set_task_def)

lemma queues_ok_set_callback:
  "queues_ok s \<Longrightarrow> queues_ok (set_task t (\<lambda>x. x\<lparr>callback := c\<rparr>) s)"
  by (rule queues_ok_cong [of _ s]) (auto simp: set_task_def)

lemma pop_timer_front:
  assumes "queues_ok s" "peek (timerQueue s) = Some timer"
  shows "set (timerQueue (pop_timer s)) = set (timerQueue s) - {timer}" "timer \<in> set (timerQueue s)"
    "timer \<notin> set (taskQueue s)" "timer_entry_ok s timer"
proof -
  obtain h where h: "timerQueue s = timer # h" using assms(2) peek_SomeD by fast
  then have d: "distinct (timer # h)" using assms(1) by (simp add: queues_ok_def)
  show "set (timerQueue (pop_timer s)) = set (timerQueue s) - {timer}"
    using d h pop_set [OF d] by (auto simp: pop_timer_def)
  show "timer \<in> set (timerQueue s)" "timer \<notin> set (taskQueue s)" "timer_entry_ok s timer"
    using h assms(1) by (auto simp: queues_ok_def)
qed

text \<open>One step of \<open>advanceTimers\<close> that moves a due timer to the task queue.\<close>
definition moveTimer :: "nat \<Rightarrow> 'c sched \<Rightarrow> 'c sched" where
  "moveTimer timer s =
     push_task timer (set_task timer (\<lambda>t. t\<lparr>sortIndex := expirationTime t\<rparr>) (pop_timer s))"

lemma advanceTimers_unfold:
  "advanceTimers currentTime s =
     (case peek (timerQueue s) of
        None \<Rightarrow> s
      | Some timer \<Rightarrow>
          if callback (store s timer) = CbNull then advanceTimers currentTime (pop_timer s)
          else if startTime (store s timer) \<le> currentTime
          then advanceTimers currentTime (moveTimer timer s) else s)"
  unfolding moveTimer_def by (rule advanceTimers.simps)

lemma advanceTimers_cases [case_names stop drop move]:
  obtains
    (stop) "advanceTimers now s = s"
      "\<And>t. peek (timerQueue s) = Some t \<Longrightarrow> callback (store s t) \<noteq> CbNull \<and> now < startTime (store s t)"
  | (drop) timer where "peek (timerQueue s) = Some timer" "callback (store s timer) = CbNull"
      "advanceTimers now s = advanceTimers now (pop_timer s)"
  | (move) timer where "peek (timerQueue s) = Some timer" "callback (store s timer) \<noteq> CbNull"
      "startTime (store s timer) \<le> now" "advanceTimers now s = advanceTimers now (moveTimer timer s)"
  by (cases "peek (timerQueue s)"; use advanceTimers_unfold [of now s] in \<open>auto split: if_splits\<close>)

text \<open>Induction along the loop of \<open>advanceTimers\<close>, with the queue invariant carried along.\<close>
lemma queues_ok_moveTimer:
  assumes "queues_ok s" "peek (timerQueue s) = Some timer"
  shows "queues_ok (moveTimer timer s)"
proof -
  note f = pop_timer_front [OF assms]
  have q: "queues_ok (pop_timer s)" by (rule queues_ok_pop_timer [OF assms(1)])
  have free: "timer \<notin> set (taskQueue (pop_timer s)) \<union> set (timerQueue (pop_timer s))"
    using f by (simp add: pop_timer_def)
  have "queues_ok (set_task timer (\<lambda>t. t\<lparr>sortIndex := expirationTime t\<rparr>) (pop_timer s))"
    by (rule queues_ok_set_task_free [OF q free])
  then show ?thesis
    unfolding moveTimer_def using f free
    by (intro queues_ok_push_task)
       (auto simp: set_task_def pop_timer_def task_entry_ok_def timer_entry_ok_def)
qed

lemma timerQueue_shrinks:
  "peek (timerQueue s) = Some t \<Longrightarrow> length (timerQueue (pop_timer s)) < length (timerQueue s)"
  "peek (timerQueue s) = Some t \<Longrightarrow> length (timerQueue (moveTimer t s)) < length (timerQueue s)"
  by (auto simp: pop_timer_def moveTimer_def push_task_def set_task_def dest!: peek_SomeD)

lemma advanceTimers_induct [case_names stop drop move]:
  assumes "\<And>s. advanceTimers now s = s \<Longrightarrow>
      (\<And>t. peek (timerQueue s) = Some t \<Longrightarrow> callback (store s t) \<noteq> CbNull \<and> now < startTime (store s t)) \<Longrightarrow> P s s"
    and "\<And>s timer. peek (timerQueue s) = Some timer \<Longrightarrow> callback (store s timer) = CbNull \<Longrightarrow>
      P (pop_timer s) (advanceTimers now (pop_timer s)) \<Longrightarrow> P s (advanceTimers now (pop_timer s))"
    and "\<And>s timer. peek (timerQueue s) = Some timer \<Longrightarrow> callback (store s timer) \<noteq> CbNull \<Longrightarrow>
      startTime (store s timer) \<le> now \<Longrightarrow>
      P (moveTimer timer s) (advanceTimers now (moveTimer timer s)) \<Longrightarrow>
      P s (advanceTimers now (moveTimer timer s))"
  shows "P s (advanceTimers now s)"
proof (induction "length (timerQueue s)" arbitrary: s rule: less_induct)
  case less
  show ?case
  proof (cases rule: advanceTimers_cases [of now s])
    case stop
    then show ?thesis using assms(1) by simp
  next
    case (drop timer)
    then show ?thesis
      using assms(2) [OF drop(1,2)] less [OF timerQueue_shrinks(1) [OF drop(1)]] by simp
  next
    case (move timer)
    then show ?thesis
      using assms(3) [OF move(1,2,3)] less [OF timerQueue_shrinks(2) [OF move(1)]] by simp
  qed
qed

lemma advanceTimers_frame:
  "\<exists>st tq mq. advanceTimers now s = s\<lparr>store := st, taskQueue := tq, timerQueue := mq\<rparr>"
proof (induction s rule: advanceTimers_induct [of now])
  case (stop s)
  have "s = s\<lparr>store := store s, taskQueue := taskQueue s, timerQueue := timerQueue s\<rparr>" by simp
  then show ?case by blast
qed (auto simp: pop_timer_def moveTimer_def push_task_def set_task_def; blast)+

lemma advanceTimers_frame_simps [simp]:
  "taskIdCounter (advanceTimers now s) = taskIdCounter s"
  "currentTask (advanceTimers now s) = currentTask s"
  "currentPriorityLevel (advanceTimers now s) = currentPriorityLevel s"
  "isPerformingWork (advanceTimers now s) = isPerformingWork s"
  "isHostCallbackScheduled (advanceTimers now s) = isHostCallbackScheduled s"
  "isHostTimeoutScheduled (advanceTimers now s) = isHostTimeoutScheduled s"
  "needsPaint (advanceTimers now s) = needsPaint s"
  "isMessageLoopRunning (advanceTimers now s) = isMessageLoopRunning s"
  "taskTimeoutID (advanceTimers now s) = taskTimeoutID s"
  "clock (advanceTimers now s) = clock s"
  "ticks (advanceTimers now s) = ticks s"
  "timeouts (advanceTimers now s) = timeouts s"
  "messages (advanceTimers now s) = messages s"
  using advanceTimers_frame [of now s] by auto

lemma queues_ok_advanceTimers: "queues_ok s \<Longrightarrow> queues_ok (advanceTimers now s)"
  by (induction s rule: advanceTimers_induct [of now])
     (auto intro: queues_ok_pop_timer queues_ok_moveTimer)

text \<open>Nothing but the sort index of moved timers changes in the store.\<close>
lemma advanceTimers_store:
  "callback (store (advanceTimers now s) t) = callback (store s t) \<and>
   startTime (store (advanceTimers now s) t) = startTime (store s t) \<and>
   expirationTime (store (advanceTimers now s) t) = expirationTime (store s t) \<and>
   priorityLevel (store (advanceTimers now s) t) = priorityLevel (store s t) \<and>
   tid (store (advanceTimers now s) t) = tid (store s t)"
  by (induction s rule: advanceTimers_induct [of now])
     (auto simp: pop_timer_def moveTimer_def push_task_def set_task_def)

lemma advanceTimers_taskQueue_mono: "set (taskQueue s) \<subseteq> set (taskQueue (advanceTimers now s))"
  by (induction s rule: advanceTimers_induct [of now])
     (auto simp: pop_timer_def moveTimer_def push_task_def set_task_def)

lemma advanceTimers_nonempty: "taskQueue s \<noteq> [] \<Longrightarrow> taskQueue (advanceTimers now s) \<noteq> []"
  using advanceTimers_taskQueue_mono [of s now] by auto

lemma advanceTimers_front:
  "peek (timerQueue (advanceTimers now s)) = Some t \<Longrightarrow>
   callback (store (advanceTimers now s) t) \<noteq> CbNull \<and> now < startTime (store (advanceTimers now s) t)"
  by (induction s rule: advanceTimers_induct [of now]) auto

text \<open>What a run of \<open>advanceTimers\<close> moves, step by step.\<close>
definition advance_moves :: "js_time \<Rightarrow> 'c sched \<Rightarrow> 'c sched \<Rightarrow> bool" where
  "advance_moves now s s' \<longleftrightarrow>
     (\<forall>t \<in> set (timerQueue s). callback (store s t) \<noteq> CbNull \<longrightarrow>
        t \<in> set (timerQueue s') \<union> set (taskQueue s')) \<and>
     (\<forall>t \<in> set (taskQueue s'). t \<in> set (taskQueue s) \<or>
        t \<in> set (timerQueue s) \<and> callback (store s t) \<noteq> CbNull \<and> startTime (store s t) \<le> now) \<and>
     set (timerQueue s') \<subseteq> set (timerQueue s)"

lemma advance_moves_drop:
  assumes "queues_ok s" "peek (timerQueue s) = Some timer" "callback (store s timer) = CbNull"
    "advance_moves now (pop_timer s) s'"
  shows "advance_moves now s s'"
proof -
  note f = pop_timer_front [OF assms(1,2)]
  have e: "store (pop_timer s) = store s" "taskQueue (pop_timer s) = taskQueue s"
    by (simp_all add: pop_timer_def)
  show ?thesis using assms(3,4) f unfolding advance_moves_def e by auto
qed

lemma advance_moves_move:
  assumes "queues_ok s" "peek (timerQueue s) = Some timer" "callback (store s timer) \<noteq> CbNull"
    "startTime (store s timer) \<le> now" "advance_moves now (moveTimer timer s) s'"
    "set (taskQueue (moveTimer timer s)) \<subseteq> set (taskQueue s')"
  shows "advance_moves now s s'"
proof -
  note f = pop_timer_front [OF assms(1,2)]
  have e: "taskQueue (moveTimer timer s) = push (compare (store (moveTimer timer s))) (taskQueue s) timer"
    "timerQueue (moveTimer timer s) = timerQueue (pop_timer s)"
    "callback (store (moveTimer timer s) t) = callback (store s t)"
    "startTime (store (moveTimer timer s) t) = startTime (store s t)" for t
    by (simp_all add: moveTimer_def push_task_def set_task_def pop_timer_def)
  show ?thesis using assms(3-6) f unfolding advance_moves_def e by auto
qed

lemma advanceTimers_moves: "queues_ok s \<Longrightarrow> advance_moves now s (advanceTimers now s)"
proof (induction s rule: advanceTimers_induct [of now])
  case (drop s timer)
  then show ?case using queues_ok_pop_timer advance_moves_drop by blast
next
  case (move s timer)
  then show ?case
    using queues_ok_moveTimer advance_moves_move advanceTimers_taskQueue_mono by blast
qed (simp add: advance_moves_def)

lemma advanceTimers_remaining:
  assumes "queues_ok s" "t \<in> set (timerQueue (advanceTimers now s))"
  shows "now < startTime (store s t)"
proof -
  let ?s = "advanceTimers now s"
  have q: "queues_ok ?s" by (rule queues_ok_advanceTimers [OF assms(1)])
  obtain f where f: "peek (timerQueue ?s) = Some f" using assms(2) by (cases "timerQueue ?s") auto
  have "compare (store ?s) f t \<le> 0"
    using q f assms(2) task_order.peek_minimal by (auto simp: queues_ok_def)
  moreover have "timer_entry_ok ?s f" "timer_entry_ok ?s t"
    using q assms(2) peek_SomeD [OF f] by (auto simp: queues_ok_def)
  ultimately have "startTime (store ?s f) \<le> startTime (store ?s t)"
    by (auto simp: compare_le_iff timer_entry_ok_def)
  then show ?thesis using advanceTimers_front [OF f] advanceTimers_store [of now s t] by auto
qed

end
