(* ===== verification/Scheduler_Loop.thy ===== *)
theory Scheduler_Loop
  imports Scheduler
begin

text \<open>
  The scheduler as a state machine. \<open>api_steps\<close> collects what user code can do through the
  exports, \<open>sched_step\<close> adds the two host events (a timer fires, a posted message arrives).
  The lemmas carry two invariants through every step: \<open>queues_ok\<close> (both arrays are heaps over
  live task objects) and \<open>idle_ok\<close> (between host events, pending work always has a host wake-up
  to run it).
\<close>

inductive api_steps :: "'c sched \<Rightarrow> 'c sched \<Rightarrow> bool" where
  api_done: "api_steps s s"
| api_schedule: "api_steps s s' \<Longrightarrow> api_steps s (snd (unstable_scheduleCallback p cb opts s'))"
| api_cancel: "api_steps s s' \<Longrightarrow> api_steps s (unstable_cancelCallback t s')"
| api_paint: "api_steps s s' \<Longrightarrow> api_steps s (unstable_requestPaint s')"
| api_frame_rate: "api_steps s s' \<Longrightarrow> api_steps s (unstable_forceFrameRate fps s')"
| api_now: "api_steps s s' \<Longrightarrow> api_steps s (snd (unstable_now s'))"
| api_should_yield: "api_steps s s' \<Longrightarrow> api_steps s (snd (shouldYieldToHost s'))"
| api_priority: "api_steps s s' \<Longrightarrow> api_steps (s'\<lparr>currentPriorityLevel := p\<rparr>) s'' \<Longrightarrow>
    api_steps s (s''\<lparr>currentPriorityLevel := currentPriorityLevel s'\<rparr>)"

text \<open>A runner that touches the scheduler only through its exports.\<close>
definition api_runner :: "('c, 'e) runner \<Rightarrow> bool" where
  "api_runner run \<longleftrightarrow> (\<forall>c b s. api_steps s (snd (run c b s)))"

lemma api_withPriority:
  "(\<And>s. api_steps s (snd (h s))) \<Longrightarrow> api_steps s (snd (withPriority p h s))"
  unfolding withPriority_def Let_def case_prod_beta snd_conv
  by (blast intro: api_priority [OF api_done])

subsection \<open>Preservation of the queue invariant\<close>

lemma queues_ok_simple [simp]:
  "queues_ok (s\<lparr>currentPriorityLevel := p\<rparr>) = queues_ok s"
  "queues_ok (s\<lparr>needsPaint := b\<rparr>) = queues_ok s"
  "queues_ok (s\<lparr>frameInterval := x\<rparr>) = queues_ok s"
  "queues_ok (s\<lparr>console := l\<rparr>) = queues_ok s"
  "queues_ok (s\<lparr>ticks := n\<rparr>) = queues_ok s"
  "queues_ok (s\<lparr>currentTask := ct\<rparr>) = queues_ok s"
  "queues_ok (s\<lparr>isPerformingWork := b\<rparr>) = queues_ok s"
  "queues_ok (s\<lparr>isHostCallbackScheduled := b\<rparr>) = queues_ok s"
  "queues_ok (s\<lparr>isHostTimeoutScheduled := b\<rparr>) = queues_ok s"
  "queues_ok (s\<lparr>isMessageLoopRunning := b\<rparr>) = queues_ok s"
  "queues_ok (s\<lparr>taskTimeoutID := i\<rparr>) = queues_ok s"
  "queues_ok (s\<lparr>sliceStart := x\<rparr>) = queues_ok s"
  "queues_ok (s\<lparr>timeouts := l'\<rparr>) = queues_ok s"
  "queues_ok (s\<lparr>nextTimeoutID := i\<rparr>) = queues_ok s"
  "queues_ok (s\<lparr>messages := n\<rparr>) = queues_ok s"
  by (simp_all add: queue_defs)

lemma queues_ok_host [simp]:
  "queues_ok (localClearTimeout i s) = queues_ok s"
  "queues_ok (requestHostTimeout ms s) = queues_ok s"
  "queues_ok (schedulePerformWorkUntilDeadline s) = queues_ok s"
  "queues_ok (startMessageLoop s) = queues_ok s"
  "queues_ok (snd (unstable_now s)) = queues_ok s"
  "queues_ok (snd (shouldYieldToHost s)) = queues_ok s"
  by (simp_all add: localClearTimeout_def requestHostTimeout_def localSetTimeout_def
      schedulePerformWorkUntilDeadline_def startMessageLoop_def unstable_now_def
      shouldYieldToHost_def Let_def)

text \<open>The task object \<open>unstable_scheduleCallback\<close> allocates, before it is queued.\<close>
definition allocTask :: "'c task \<Rightarrow> 'c sched \<Rightarrow> 'c sched" where
  "allocTask x s = (set_task (taskIdCounter s) (\<lambda>_. x) s)\<lparr>taskIdCounter := Suc (taskIdCounter s)\<rparr>"

lemma queues_ok_counter_free: "queues_ok s \<Longrightarrow> taskIdCounter s \<notin> set (taskQueue s) \<union> set (timerQueue s)"
  by (auto simp: queue_defs)

lemma queues_ok_allocTask:
  assumes "queues_ok s"
  shows "queues_ok (allocTask x s)"
    "taskIdCounter s \<notin> set (taskQueue (allocTask x s)) \<union> set (timerQueue (allocTask x s))"
proof -
  have free: "taskIdCounter s \<notin> set (taskQueue s) \<union> set (timerQueue s)"
    by (rule queues_ok_counter_free [OF assms])
  show "queues_ok (allocTask x s)"
    using assms free by (intro queues_ok_cong [of "allocTask x s" s]) (auto simp: allocTask_def set_task_def)
  show "taskIdCounter s \<notin> set (taskQueue (allocTask x s)) \<union> set (timerQueue (allocTask x s))"
    using free by (simp add: allocTask_def set_task_def)
qed

text \<open>\<open>unstable_scheduleCallback\<close> in terms of a delayed and an immediate insertion.\<close>
definition newTask :: "int \<Rightarrow> 'c callback_value \<Rightarrow> js_time \<Rightarrow> js_time \<Rightarrow> nat \<Rightarrow> 'c task" where
  "newTask p cb start key n = \<lparr>tid = n, callback = cb, priorityLevel = p, startTime = start,
     expirationTime = start + timeoutForPriority p, sortIndex = key\<rparr>"

definition insertDelayed :: "int \<Rightarrow> 'c callback_value \<Rightarrow> js_time \<Rightarrow> 'c sched \<Rightarrow> 'c sched" where
  "insertDelayed p cb start s =
     push_timer (taskIdCounter s) (allocTask (newTask p cb start start (taskIdCounter s)) s)"

definition insertNow :: "int \<Rightarrow> 'c callback_value \<Rightarrow> js_time \<Rightarrow> 'c sched \<Rightarrow> 'c sched" where
  "insertNow p cb start s =
     push_task (taskIdCounter s)
       (allocTask (newTask p cb start (start + timeoutForPriority p) (taskIdCounter s)) s)"

lemma alloc_then_key:
  "set_task n (\<lambda>x. x\<lparr>sortIndex := k\<rparr>)
     ((set_task n (\<lambda>_. y) s)\<lparr>taskIdCounter := Suc n\<rparr>)
   = (set_task n (\<lambda>_. y\<lparr>sortIndex := k\<rparr>) s)\<lparr>taskIdCounter := Suc n\<rparr>"
  by (cases s) (simp add: set_task_def)

lemma scheduleCallback_unfold:
  "unstable_scheduleCallback p cb opts s =
     (let (now, s0) = unstable_now s; start = optionsStartTime now opts; t = taskIdCounter s0
      in if start > now
         then let s2 = insertDelayed p cb start s0
              in if peek (taskQueue s2) = None \<and> peek (timerQueue s2) = Some t
                 then (t, requestHostTimeout (start - now)
                            (if isHostTimeoutScheduled s2
                             then (localClearTimeout (taskTimeoutID s2) s2)\<lparr>taskTimeoutID := -1\<rparr>
                             else s2\<lparr>isHostTimeoutScheduled := True\<rparr>))
                 else (t, s2)
         else let s2 = insertNow p cb start s0
              in if isHostCallbackScheduled s2 \<or> isPerformingWork s2 then (t, s2)
                 else (t, startMessageLoop (s2\<lparr>isHostCallbackScheduled := True\<rparr>)))"
  by (simp add: unstable_scheduleCallback_def insertDelayed_def insertNow_def allocTask_def newTask_def
      unstable_now_def Let_def alloc_then_key)

lemma queues_ok_insert:
  assumes "queues_ok s"
  shows "queues_ok (insertDelayed p cb start s)" "queues_ok (insertNow p cb start s)"
proof -
  note q = queues_ok_allocTask [OF assms]
  show "queues_ok (insertDelayed p cb start s)"
    unfolding insertDelayed_def using q
    by (intro queues_ok_push_timer) (auto simp: timer_entry_ok_def allocTask_def newTask_def set_task_def)
  show "queues_ok (insertNow p cb start s)"
    unfolding insertNow_def using q
    by (intro queues_ok_push_task) (auto simp: task_entry_ok_def allocTask_def newTask_def set_task_def)
qed

lemma queues_ok_schedule: "queues_ok s \<Longrightarrow> queues_ok (snd (unstable_scheduleCallback p cb opts s))"
  using queues_ok_insert [of "snd (unstable_now s)" p cb]
  by (simp add: scheduleCallback_unfold Let_def case_prod_beta)

lemma queues_ok_api: "api_steps s s' \<Longrightarrow> queues_ok s \<Longrightarrow> queues_ok s'"
  by (induction rule: api_steps.induct)
     (auto simp: queues_ok_schedule unstable_cancelCallback_def queues_ok_set_callback
        unstable_requestPaint_def unstable_forceFrameRate_def)

subsection \<open>Wake-ups\<close>

definition idle_ok :: "'c sched \<Rightarrow> bool" where
  "idle_ok s \<longleftrightarrow> \<not> isPerformingWork s \<and> currentTask s = None \<and>
     messages s = (if isMessageLoopRunning s then 1 else 0) \<and>
     (isMessageLoopRunning s \<longleftrightarrow> taskQueue s \<noteq> []) \<and>
     (isHostCallbackScheduled s \<longrightarrow> isMessageLoopRunning s) \<and>
     (taskQueue s = [] \<longrightarrow> timerQueue s \<noteq> [] \<longrightarrow> timeouts s \<noteq> [])"

text \<open>The state in which user callbacks run.\<close>
definition busy_ok :: "'c sched \<Rightarrow> bool" where
  "busy_ok s \<longleftrightarrow> isPerformingWork s \<and> isMessageLoopRunning s \<and> messages s = 0 \<and>
     \<not> isHostCallbackScheduled s \<and> taskQueue s \<noteq> []"

lemma idle_ok_simple [simp]:
  "idle_ok (s\<lparr>currentPriorityLevel := p\<rparr>) = idle_ok s"
  "idle_ok (s\<lparr>needsPaint := b\<rparr>) = idle_ok s"
  "idle_ok (s\<lparr>frameInterval := x\<rparr>) = idle_ok s"
  "idle_ok (s\<lparr>console := l\<rparr>) = idle_ok s"
  "idle_ok (s\<lparr>ticks := n\<rparr>) = idle_ok s"
  "idle_ok (set_task t f s) = idle_ok s"
  "idle_ok (snd (unstable_now s)) = idle_ok s"
  "idle_ok (snd (shouldYieldToHost s)) = idle_ok s"
  by (simp_all add: idle_ok_def set_task_def unstable_now_def shouldYieldToHost_def Let_def)

lemma busy_ok_simple [simp]:
  "busy_ok (s\<lparr>currentPriorityLevel := p\<rparr>) = busy_ok s"
  "busy_ok (s\<lparr>needsPaint := b\<rparr>) = busy_ok s"
  "busy_ok (s\<lparr>frameInterval := x\<rparr>) = busy_ok s"
  "busy_ok (s\<lparr>console := l\<rparr>) = busy_ok s"
  "busy_ok (s\<lparr>ticks := n\<rparr>) = busy_ok s"
  "busy_ok (set_task t f s) = busy_ok s"
  "busy_ok (snd (unstable_now s)) = busy_ok s"
  "busy_ok (snd (shouldYieldToHost s)) = busy_ok s"
  by (simp_all add: busy_ok_def set_task_def unstable_now_def shouldYieldToHost_def Let_def)

lemma push_Nil [simp]: "push cmp [] t = [t]"
  by (simp add: push_def push_loop.simps)

lemma insert_fields [simp]:
  "taskQueue (insertDelayed p cb start s) = taskQueue s"
  "timerQueue (insertNow p cb start s) = timerQueue s"
  "taskQueue (insertNow p cb start s) \<noteq> []"
  "timerQueue (insertDelayed p cb start s) \<noteq> []"
  "timerQueue s = [] \<Longrightarrow> timerQueue (insertDelayed p cb start s) = [taskIdCounter s]"
  by (simp_all add: insertDelayed_def insertNow_def allocTask_def push_timer_def push_task_def set_task_def)

lemma insert_flags [simp]:
  "isPerformingWork (insertDelayed p cb start s) = isPerformingWork s"
  "isPerformingWork (insertNow p cb start s) = isPerformingWork s"
  "currentTask (insertDelayed p cb start s) = currentTask s"
  "currentTask (insertNow p cb start s) = currentTask s"
  "isMessageLoopRunning (insertDelayed p cb start s) = isMessageLoopRunning s"
  "isMessageLoopRunning (insertNow p cb start s) = isMessageLoopRunning s"
  "isHostCallbackScheduled (insertDelayed p cb start s) = isHostCallbackScheduled s"
  "isHostCallbackScheduled (insertNow p cb start s) = isHostCallbackScheduled s"
  "messages (insertDelayed p cb start s) = messages s"
  "messages (insertNow p cb start s) = messages s"
  "timeouts (insertDelayed p cb start s) = timeouts s"
  "timeouts (insertNow p cb start s) = timeouts s"
  by (simp_all add: insertDelayed_def insertNow_def allocTask_def push_timer_def push_task_def set_task_def)

lemmas host_defs = localClearTimeout_def requestHostTimeout_def localSetTimeout_def
  schedulePerformWorkUntilDeadline_def startMessageLoop_def

lemma idle_ok_schedule:
  assumes "idle_ok s"
  shows "idle_ok (snd (unstable_scheduleCallback p cb opts s))"
proof -
  let ?s = "snd (unstable_now s)"
  have i: "idle_ok ?s" using assms by simp
  have delayed: "timerQueue ?s = [] \<Longrightarrow>
      peek (timerQueue (insertDelayed p cb start ?s)) = Some (taskIdCounter ?s)" for start
    by simp
  show ?thesis
    using i delayed unfolding scheduleCallback_unfold
    by (auto simp: Let_def case_prod_beta idle_ok_def host_defs)
qed

lemma busy_ok_schedule: "busy_ok s \<Longrightarrow> busy_ok (snd (unstable_scheduleCallback p cb opts s))"
  unfolding scheduleCallback_unfold
  by (auto simp: Let_def case_prod_beta busy_ok_def host_defs unstable_now_def)

lemma idle_ok_api: "api_steps s s' \<Longrightarrow> idle_ok s \<Longrightarrow> idle_ok s'"
  by (induction rule: api_steps.induct)
     (auto simp: idle_ok_schedule unstable_cancelCallback_def unstable_requestPaint_def
        unstable_forceFrameRate_def)

lemma busy_ok_api: "api_steps s s' \<Longrightarrow> busy_ok s \<Longrightarrow> busy_ok s'"
  by (induction rule: api_steps.induct)
     (auto simp: busy_ok_schedule unstable_cancelCallback_def unstable_requestPaint_def
        unstable_forceFrameRate_def)

subsection \<open>The work loop\<close>

text \<open>The flags while work is performed, whether or not a task is left.\<close>
definition work_flags :: "'c sched \<Rightarrow> bool" where
  "work_flags s \<longleftrightarrow> isPerformingWork s \<and> isMessageLoopRunning s \<and> messages s = 0 \<and>
     \<not> isHostCallbackScheduled s"

lemma busy_ok_iff: "busy_ok s \<longleftrightarrow> work_flags s \<and> taskQueue s \<noteq> []"
  by (simp add: busy_ok_def work_flags_def)

lemma work_flags_simple [simp]:
  "work_flags (s\<lparr>currentTask := ct\<rparr>) = work_flags s"
  "work_flags (s\<lparr>currentPriorityLevel := p\<rparr>) = work_flags s"
  "work_flags (set_task t f s) = work_flags s"
  "work_flags (pop_task s) = work_flags s"
  "work_flags (advanceTimers now s) = work_flags s"
  "work_flags (snd (unstable_now s)) = work_flags s"
  "work_flags (snd (shouldYieldToHost s)) = work_flags s"
  by (simp_all add: work_flags_def set_task_def pop_task_def unstable_now_def shouldYieldToHost_def Let_def)

lemma yieldBefore_frame:
  "snd (yieldBefore now t s) = s \<or> snd (yieldBefore now t s) = snd (unstable_now s)"
  by (auto simp: yieldBefore_def shouldYieldToHost_def unstable_now_def Let_def)

lemma unstable_now_fields [simp]:
  "store (snd (unstable_now s)) = store s" "taskQueue (snd (unstable_now s)) = taskQueue s"
  "timerQueue (snd (unstable_now s)) = timerQueue s" "currentTask (snd (unstable_now s)) = currentTask s"
  "currentPriorityLevel (snd (unstable_now s)) = currentPriorityLevel s"
  "taskIdCounter (snd (unstable_now s)) = taskIdCounter s"
  by (simp_all add: unstable_now_def)

lemma yieldBefore_fields [simp]:
  "store (snd (yieldBefore now t s)) = store s" "taskQueue (snd (yieldBefore now t s)) = taskQueue s"
  "timerQueue (snd (yieldBefore now t s)) = timerQueue s"
  "currentTask (snd (yieldBefore now t s)) = currentTask s"
  "queues_ok (snd (yieldBefore now t s)) = queues_ok s"
  "work_flags (snd (yieldBefore now t s)) = work_flags s"
  using yieldBefore_frame [of now t s] by (auto simp del: surjective_pairing)

lemma set_task_fields [simp]:
  "taskQueue (set_task t f s) = taskQueue s" "timerQueue (set_task t f s) = timerQueue s"
  "currentTask (set_task t f s) = currentTask s"
  "currentPriorityLevel (set_task t f s) = currentPriorityLevel s"
  "taskIdCounter (set_task t f s) = taskIdCounter s"
  "store (set_task t f s) = (store s)(t := f (store s t))"
  by (simp_all add: set_task_def)

text \<open>What the loop sees at the head of every round.\<close>
definition loop_ok :: "'c sched \<Rightarrow> bool" where
  "loop_ok s \<longleftrightarrow> queues_ok s \<and> work_flags s \<and> peek (taskQueue s) = currentTask s"

text \<open>The state the callback of the current task starts in.\<close>
definition enterCallback :: "nat \<Rightarrow> 'c sched \<Rightarrow> 'c sched" where
  "enterCallback task s = (set_task task (\<lambda>t. t\<lparr>callback := CbNull\<rparr>) s)
     \<lparr>currentPriorityLevel := priorityLevel (store s task)\<rparr>"

text \<open>The rest of the round after a callback that returned no continuation.\<close>
definition finishCallback :: "nat \<Rightarrow> 'c sched \<Rightarrow> 'c sched" where
  "finishCallback task s =
     (let (now, s4) = unstable_now s;
          s6 = advanceTimers now (if peek (taskQueue s4) = Some task then pop_task s4 else s4)
      in s6\<lparr>currentTask := peek (taskQueue s6)\<rparr>)"

lemma workLoop_round [case_names out_of_fuel drained yielded cancelled threw continued finished]:
  obtains
    (out_of_fuel) "fuel = 0"
  | (drained) "currentTask s = None" "workLoop fuel run now s = Some (Drained, now, s)"
  | (yielded) task where "currentTask s = Some task" "fst (yieldBefore now task s)"
      "workLoop fuel run now s = Some (MoreWork, now, snd (yieldBefore now task s))"
  | (cancelled) task n where "fuel = Suc n" "currentTask s = Some task" "\<not> fst (yieldBefore now task s)"
      "\<And>c. callback (store s task) \<noteq> CbFunction c"
      "workLoop fuel run now s = workLoop n run now
         (let s2 = pop_task (snd (yieldBefore now task s)) in s2\<lparr>currentTask := peek (taskQueue s2)\<rparr>)"
  | (threw) task c e s3 where "currentTask s = Some task" "\<not> fst (yieldBefore now task s)"
      "callback (store s task) = CbFunction c"
      "run c (expirationTime (store s task) \<le> now) (enterCallback task (snd (yieldBefore now task s))) = (Throw e, s3)"
      "workLoop fuel run now s = Some (Threw e, now, s3)"
  | (continued) task c c' s3 where "currentTask s = Some task" "\<not> fst (yieldBefore now task s)"
      "callback (store s task) = CbFunction c"
      "run c (expirationTime (store s task) \<le> now) (enterCallback task (snd (yieldBefore now task s))) = (Continuation c', s3)"
      "workLoop fuel run now s = Some (MoreWork, fst (unstable_now s3),
         advanceTimers (fst (unstable_now s3))
           (set_task task (\<lambda>t. t\<lparr>callback := CbFunction c'\<rparr>) (snd (unstable_now s3))))"
  | (finished) task c n s3 where "fuel = Suc n" "currentTask s = Some task" "\<not> fst (yieldBefore now task s)"
      "callback (store s task) = CbFunction c"
      "run c (expirationTime (store s task) \<le> now) (enterCallback task (snd (yieldBefore now task s))) = (NoContinuation, s3)"
      "workLoop fuel run now s = workLoop n run (fst (unstable_now s3)) (finishCallback task s3)"
proof (cases fuel)
  case 0
  then show thesis by (rule out_of_fuel)
next
  case (Suc n)
  show thesis
  proof (cases "currentTask s")
    case None
    then show thesis using drained Suc by simp
  next
    case (Some task)
    note t = this
    obtain y s1 where ys: "yieldBefore now task s = (y, s1)" by fastforce
    have st: "store s1 = store s" using yieldBefore_fields(1) [of now task s] ys by simp
    show thesis
    proof (cases y)
      case True
      then show thesis using yielded t ys Suc by simp
    next
      case False
      show thesis
      proof (cases "callback (store s task)")
        case (CbFunction c)
        obtain r s3 where r: "run c (expirationTime (store s task) \<le> now) (enterCallback task s1) = (r, s3)"
          by fastforce
        show thesis
          using threw continued finished t ys False Suc CbFunction r st
          by (cases r) (simp_all add: Let_def enterCallback_def finishCallback_def case_prod_beta)
      qed (use cancelled t ys False Suc st in \<open>simp_all add: Let_def\<close>)
    qed
  qed
qed

lemma loop_okD:
  assumes "loop_ok s" "currentTask s = Some task"
  shows "queues_ok s" "busy_ok s" "task \<in> set (taskQueue s)" "peek (taskQueue s) = Some task"
  using assms by (auto simp: loop_ok_def busy_ok_iff dest!: peek_SomeD)

lemma enterCallback_ok:
  assumes "loop_ok s" "currentTask s = Some task"
  shows "queues_ok (enterCallback task (snd (yieldBefore now task s)))"
    "busy_ok (enterCallback task (snd (yieldBefore now task s)))"
  using loop_okD [OF assms]
  by (auto simp: enterCallback_def busy_ok_iff queues_ok_set_callback)

lemma finishCallback_ok: "queues_ok s \<Longrightarrow> work_flags s \<Longrightarrow> loop_ok (finishCallback task s)"
  by (auto simp: finishCallback_def Let_def case_prod_beta loop_ok_def queues_ok_advanceTimers queues_ok_pop_task)

text \<open>After the loop: the queues are intact, and the result says whether a task is left.\<close>
lemma workLoop_ok:
  assumes "api_runner run"
  shows "loop_ok s \<Longrightarrow> workLoop fuel run now s = Some (r, now', s') \<Longrightarrow>
    queues_ok s' \<and> work_flags s' \<and> (r = Drained \<longleftrightarrow> taskQueue s' = [])"
proof (induction fuel arbitrary: s now)
  case (Suc n)
  have after: "queues_ok s3 \<and> busy_ok s3"
    if "currentTask s = Some task" "run c b (enterCallback task (snd (yieldBefore now task s))) = (x, s3)" for task c b x s3
  proof -
    have "api_steps (enterCallback task (snd (yieldBefore now task s))) s3"
      using assms that(2) unfolding api_runner_def by (metis snd_conv)
    then show ?thesis
      using enterCallback_ok [OF Suc.prems(1) that(1)] queues_ok_api busy_ok_api by blast
  qed
  show ?case
  proof (cases rule: workLoop_round [where fuel = "Suc n" and s = s and run = run and now = now])
    case drained
    then show ?thesis using Suc.prems by (auto simp: loop_ok_def)
  next
    case (yielded task)
    then show ?thesis using Suc.prems loop_okD [OF Suc.prems(1) yielded(1)] by (auto simp: busy_ok_iff)
  next
    case (cancelled task m)
    have "loop_ok (let s2 = pop_task (snd (yieldBefore now task s)) in s2\<lparr>currentTask := peek (taskQueue s2)\<rparr>)"
      using Suc.prems(1) by (simp add: loop_ok_def Let_def queues_ok_pop_task)
    then show ?thesis using Suc.IH Suc.prems(2) cancelled by auto
  next
    case (threw task c e s3)
    then show ?thesis using after [OF threw(1,4)] Suc.prems(2) by (auto simp: busy_ok_iff)
  next
    case (continued task c c' s3)
    have "queues_ok s' \<and> work_flags s' \<and> taskQueue s' \<noteq> []"
      using after [OF continued(1,4)] Suc.prems(2) continued(5)
      by (auto simp: busy_ok_iff intro!: queues_ok_advanceTimers queues_ok_set_callback advanceTimers_nonempty)
    then show ?thesis using continued(5) Suc.prems(2) by auto
  next
    case (finished task c m s3)
    have "loop_ok (finishCallback task s3)"
      using after [OF finished(2,5)] by (intro finishCallback_ok) (auto simp: busy_ok_iff)
    then show ?thesis using Suc.IH Suc.prems(2) finished by auto
  qed simp
qed simp

subsection \<open>One turn of the message loop and the timer event\<close>

lemma beginWork_ok:
  assumes "queues_ok s" "idle_ok s" "isMessageLoopRunning s"
  shows "loop_ok (beginWork now (s\<lparr>messages := messages s - 1, needsPaint := b\<rparr>))"
proof -
  have "queues_ok (advanceTimers now t)" if "queues_ok t" for t :: "'a sched"
    using that by (rule queues_ok_advanceTimers)
  then show ?thesis
    using assms unfolding beginWork_def loop_ok_def Let_def
    by (auto simp: work_flags_def idle_ok_def host_defs)
qed

lemma endWork_ok:
  assumes "queues_ok s" "work_flags s" "r = Drained \<longleftrightarrow> taskQueue s = []"
  shows "queues_ok (endWork p r now s) \<and> idle_ok (endWork p r now s)"
proof (cases "r = Drained")
  case True
  then show ?thesis
    using assms by (cases "timerQueue s") (auto simp: endWork_def Let_def idle_ok_def work_flags_def host_defs)
next
  case False
  then show ?thesis
    using assms by (auto simp: endWork_def Let_def idle_ok_def work_flags_def host_defs)
qed

text \<open>A posted message arrives: the host removes it and calls \<open>performWorkUntilDeadline\<close>.\<close>
definition hostMessage :: "nat \<Rightarrow> ('c, 'e) runner \<Rightarrow> 'c sched \<Rightarrow> ('e option \<times> 'c sched) option" where
  "hostMessage fuel run s = performWorkUntilDeadline fuel run (s\<lparr>messages := messages s - 1\<rparr>)"

text \<open>A pending timer fires: the host removes it and calls the function given to \<open>setTimeout\<close>.\<close>
definition hostTimeout :: "int \<Rightarrow> 'c sched \<Rightarrow> 'c sched" where
  "hostTimeout i s = (let (now, s') = unstable_now (localClearTimeout i s) in handleTimeout now s')"

lemma hostMessage_ok:
  assumes "api_runner run" "queues_ok s" "idle_ok s" "0 < messages s"
    "hostMessage fuel run s = Some (e, s')"
  shows "queues_ok s' \<and> idle_ok s'"
proof -
  let ?s0 = "s\<lparr>messages := messages s - 1, needsPaint := False\<rparr>"
  let ?now = "fst (unstable_now ?s0)" and ?s1 = "snd (unstable_now ?s0)"
  have run: "isMessageLoopRunning s" using assms(3,4) by (auto simp: idle_ok_def split: if_splits)
  have "?s1 = (s\<lparr>ticks := Suc (ticks s)\<rparr>)\<lparr>messages := messages s - 1, needsPaint := False\<rparr>"
    by (simp add: unstable_now_def)
  then have l: "loop_ok (beginWork ?now ?s1)"
    using beginWork_ok [of "s\<lparr>ticks := Suc (ticks s)\<rparr>"] assms(2,3) run by simp
  obtain r now s2 where w: "workLoop fuel run ?now (beginWork ?now ?s1) = Some (r, now, s2)"
    and s': "s' = endWork (currentPriorityLevel ?s1) r now s2"
    using assms(5) run
    by (auto simp: hostMessage_def performWorkUntilDeadline_def Let_def case_prod_beta split: option.splits)
  show ?thesis using workLoop_ok [OF assms(1) l w] endWork_ok s' by auto
qed

lemma hostTimeout_ok:
  assumes "queues_ok s" "idle_ok s"
  shows "queues_ok (hostTimeout i s) \<and> idle_ok (hostTimeout i s)"
proof -
  let ?s = "snd (unstable_now (localClearTimeout i s))" and ?now = "fst (unstable_now (localClearTimeout i s))"
  let ?a = "advanceTimers ?now (?s\<lparr>isHostTimeoutScheduled := False\<rparr>)"
  have q: "queues_ok ?a" using assms(1) by (intro queues_ok_advanceTimers) simp
  have t: "taskQueue s \<noteq> [] \<Longrightarrow> taskQueue ?a \<noteq> []"
    by (intro advanceTimers_nonempty) (simp add: unstable_now_def localClearTimeout_def)
  have f: "isPerformingWork ?a = isPerformingWork s" "currentTask ?a = currentTask s"
    "messages ?a = messages s" "isMessageLoopRunning ?a = isMessageLoopRunning s"
    "isHostCallbackScheduled ?a = isHostCallbackScheduled s"
    by (simp_all add: unstable_now_def localClearTimeout_def)
  have h: "hostTimeout i s = handleTimeout ?now ?s" by (simp add: hostTimeout_def Let_def case_prod_beta)
  show ?thesis
  proof (cases "taskQueue ?a = []")
    case True
    then have "\<not> isHostCallbackScheduled s" "messages s = 0" "\<not> isMessageLoopRunning s"
      using assms(2) t by (auto simp: idle_ok_def)
    then show ?thesis
      using True q assms(2) f unfolding h handleTimeout_def Let_def
      by (cases "timerQueue ?a") (simp_all add: idle_ok_def host_defs)
  next
    case False
    then show ?thesis
      using q assms(2) f t unfolding h handleTimeout_def Let_def
      by (auto simp: idle_ok_def host_defs)
  qed
qed

subsection \<open>Reachable states\<close>

text \<open>Between host events user code may call the API; a host event runs the scheduler. A message
  turn is a step for every amount of fuel with which the work loop returns.\<close>
inductive sched_step :: "('c, 'e) runner \<Rightarrow> 'c sched \<Rightarrow> 'c sched \<Rightarrow> bool" for run where
  step_api: "api_steps s s' \<Longrightarrow> sched_step run s s'"
| step_message: "0 < messages s \<Longrightarrow> hostMessage fuel run s = Some (e, s') \<Longrightarrow> sched_step run s s'"
| step_timeout: "(i, ms) \<in> set (timeouts s) \<Longrightarrow> sched_step run s (hostTimeout i s)"

inductive reachable :: "('c, 'e) runner \<Rightarrow> 'c sched \<Rightarrow> bool" for run where
  reach_init: "reachable run (init_sched clk)"
| reach_step: "reachable run s \<Longrightarrow> sched_step run s s' \<Longrightarrow> reachable run s'"

inductive_cases sched_stepE: "sched_step run s s'"

lemma sched_step_ok:
  "api_runner run \<Longrightarrow> sched_step run s s' \<Longrightarrow> queues_ok s \<and> idle_ok s \<Longrightarrow> queues_ok s' \<and> idle_ok s'"
  by (elim sched_stepE) (auto dest: queues_ok_api idle_ok_api hostMessage_ok hostTimeout_ok)

lemma idle_ok_init: "idle_ok (init_sched clk)"
  by (simp add: idle_ok_def init_sched_def)

lemma reachable_ok: "reachable run s \<Longrightarrow> api_runner run \<Longrightarrow> queues_ok s \<and> idle_ok s"
  by (induction rule: reachable.induct) (auto simp: queues_ok_init idle_ok_init dest: sched_step_ok)

end
