(* ===== verification/Scheduler_Props.thy ===== *)
theory Scheduler_Props
  imports Scheduler_Loop
begin

text \<open>
  What the scheduler guarantees: the properties of \<open>scheduler.development.js\<close>, each with the
  lemmas it needs beyond the step invariants, and a concrete run for every property with
  hypotheses.
\<close>

subsection \<open>A concrete run used by the witnesses\<close>

text \<open>User code that returns at once: callback 0 asks to be resumed as callback 1, callback 9
  throws, every other callback finishes.\<close>
definition demo_run :: "(nat, string) runner" where
  "demo_run c b s =
     (if c = 0 then (Continuation 1, s) else if c = 9 then (Throw ''boom'', s) else (NoContinuation, s))"

definition demo_clock :: "nat \<Rightarrow> js_time" where
  "demo_clock n = of_nat n"

lemma api_runner_demo: "api_runner demo_run"
  by (auto simp: api_runner_def demo_run_def intro: api_done)

definition demo_state :: "nat \<Rightarrow> nat sched" where
  "demo_state c =
     snd (unstable_scheduleCallback 2 (CbFunction c) NoOptions
       (snd (unstable_scheduleCallback 3 (CbFunction 5) NoOptions (init_sched demo_clock))))"

lemma reachable_demo: "reachable demo_run (demo_state c)"
  unfolding demo_state_def
  by (intro reach_step [OF reach_init [of _ demo_clock]] step_api api_schedule api_done)

lemma demo_state_eval:
  "taskQueue (demo_state c) = [2, 1]" "timerQueue (demo_state c) = []" "messages (demo_state c) = 1"
  "isMessageLoopRunning (demo_state c)" "currentPriorityLevel (demo_state c) = 3"
  "store (demo_state c) 2 = newTask 2 (CbFunction c) 1 251 2"
  "store (demo_state c) 1 = newTask 3 (CbFunction 5) 0 5000 1"
  "ticks (demo_state c) = 2" "clock (demo_state c) = demo_clock" "needsPaint (demo_state c) = False"
  "isHostTimeoutScheduled (demo_state c) = False" "frameInterval (demo_state c) = 5"
  by (simp_all add: demo_state_def unstable_scheduleCallback_def init_sched_def unstable_now_def
      optionsStartTime_def timeoutForPriority_def set_task_def push_task_def push_def push_loop.simps
      compare_def startMessageLoop_def schedulePerformWorkUntilDeadline_def newTask_def demo_clock_def
      no_task_def Let_def)

subsection \<open>Invariants\<close>

text \<open>C1: in every state the scheduler can reach, whatever user code does through the exports and
  in whatever order the host delivers messages and timers, both queues are binary heaps for the
  current sort keys, hold no task twice or in both queues, and hold only allocated tasks, filed
  under the expiration time (task queue) or the start time (timer queue).\<close>
theorem scheduler_queues_invariant:
  assumes "api_runner run" "reachable run s"
  shows "queues_ok s"
  using reachable_ok assms by blast

theorem scheduler_queues_invariant_witness:
  "api_runner demo_run \<and> reachable demo_run (demo_state 0) \<and> queues_ok (demo_state 0)"
  using scheduler_queues_invariant [OF api_runner_demo reachable_demo] api_runner_demo reachable_demo
  by blast

text \<open>C2: no wake-up is lost. In every reachable state, a non-empty task queue has exactly one
  posted message that will call the work loop, an empty one has none, and timers with no ready
  task have a pending host timeout.\<close>
theorem scheduler_no_lost_wakeup:
  assumes "api_runner run" "reachable run s"
  shows "messages s = (if taskQueue s = [] then 0 else 1) \<and>
    (taskQueue s = [] \<longrightarrow> timerQueue s \<noteq> [] \<longrightarrow> timeouts s \<noteq> [])"
  using reachable_ok [OF assms(2,1)] by (auto simp: idle_ok_def split: if_splits)

definition demo_delayed :: "nat sched" where
  "demo_delayed = snd (unstable_scheduleCallback 3 (CbFunction 5) (Options (DelayNumber 40)) (init_sched demo_clock))"

lemma reachable_demo_delayed: "reachable demo_run demo_delayed"
  unfolding demo_delayed_def
  by (intro reach_step [OF reach_init [of _ demo_clock]] step_api api_schedule api_done)

lemma demo_delayed_eval: "taskQueue demo_delayed = []" "timerQueue demo_delayed = [1]"
  by (simp_all add: demo_delayed_def unstable_scheduleCallback_def init_sched_def unstable_now_def
      optionsStartTime_def set_task_def push_timer_def push_def push_loop.simps requestHostTimeout_def
      localSetTimeout_def demo_clock_def Let_def)

theorem scheduler_no_lost_wakeup_witness:
  "messages (demo_state 0) = 1 \<and> timerQueue demo_delayed = [1] \<and> timeouts demo_delayed \<noteq> []"
  using scheduler_no_lost_wakeup [OF api_runner_demo reachable_demo [of 0]]
    scheduler_no_lost_wakeup [OF api_runner_demo reachable_demo_delayed]
  by (simp add: demo_state_eval demo_delayed_eval)

subsection \<open>Order of execution\<close>

text \<open>The order in which the work loop takes tasks: expiration time first, then age.\<close>
definition runs_before :: "(nat \<Rightarrow> 'c task) \<Rightarrow> nat \<Rightarrow> nat \<Rightarrow> bool" where
  "runs_before st a b \<longleftrightarrow> expirationTime (st a) < expirationTime (st b) \<or>
     expirationTime (st a) = expirationTime (st b) \<and> a \<le> b"

lemma compare_runs_before:
  "queues_ok s \<Longrightarrow> a \<in> set (taskQueue s) \<Longrightarrow> b \<in> set (taskQueue s) \<Longrightarrow>
   compare (store s) a b \<le> 0 \<longleftrightarrow> runs_before (store s) a b"
  by (auto simp: queue_defs compare_le_iff runs_before_def)

text \<open>C3: taking tasks off the task queue one by one with the heap's \<open>peek\<close> and \<open>pop\<close> yields
  every queued task exactly once, by expiration time and, among equal ones, oldest first.\<close>
theorem task_queue_drains_in_order:
  assumes "queues_ok s"
  shows "let order = drain peek (\<lambda>h. snd (pop (compare (store s)) h)) (length (taskQueue s)) (taskQueue s)
    in mset order = mset (taskQueue s) \<and> sorted_wrt (runs_before (store s)) order"
proof -
  let ?order = "drain peek (\<lambda>h. snd (pop (compare (store s)) h)) (length (taskQueue s)) (taskQueue s)"
  have inv: "heap_ok (compare (store s)) (taskQueue s) \<and> distinct (taskQueue s)"
    using assms by (simp add: queues_ok_def)
  have m: "mset ?order = mset (taskQueue s)"
    by (rule task_order.pq.drain_contents [OF inv]) simp
  have "sorted_wrt (\<lambda>a b. compare (store s) a b \<le> 0) ?order"
    by (rule task_order.pq.drain_sorted [OF inv])
  then have "sorted_wrt (runs_before (store s)) ?order"
    by (rule sorted_wrt_mono_rel [rotated])
       (use m compare_runs_before [OF assms] in \<open>auto dest: mset_eq_setD\<close>)
  with m show ?thesis by (simp add: Let_def)
qed

theorem task_queue_drains_in_order_witness:
  "queues_ok (demo_state 0) \<and>
   drain peek (\<lambda>h. snd (pop (compare (store (demo_state 0))) h)) 2 (taskQueue (demo_state 0)) = [2, 1] \<and>
   sorted_wrt (runs_before (store (demo_state 0))) [2, 1]"
proof -
  have q: "queues_ok (demo_state 0)"
    using reachable_ok [OF reachable_demo api_runner_demo] by blast
  have "drain peek (\<lambda>h. snd (pop (compare (store (demo_state 0))) h)) 2 (taskQueue (demo_state 0)) = [2, 1]"
    by (simp add: numeral_2_eq_2 demo_state_eval pop_def pop_loop.simps)
  moreover have "length (taskQueue (demo_state 0)) = 2" by (simp add: demo_state_eval)
  ultimately show ?thesis using q task_queue_drains_in_order [OF q] by (simp add: Let_def)
qed

text \<open>A call of user code by the work loop is proper: the called function was the callback of the
  current task, which is queued and comes before every other ready task; its callback property
  has been cleared and its priority is current; and unless it is told that it has timed out, the
  frame has time left and no paint was requested.\<close>
definition proper_call :: "bool \<Rightarrow> 'c sched \<Rightarrow> bool" where
  "proper_call didTimeout s \<longleftrightarrow>
     (\<exists>t. currentTask s = Some t \<and> t \<in> set (taskQueue s) \<and>
        (\<forall>u \<in> set (taskQueue s). runs_before (store s) t u) \<and>
        callback (store s t) = CbNull \<and> currentPriorityLevel s = priorityLevel (store s t)) \<and>
     (didTimeout \<or> \<not> needsPaint s \<and> clock s (ticks s - 1) - sliceStart s < frameInterval s)"

lemma yieldBefore_continue:
  assumes "\<not> fst (yieldBefore now t s)" "\<not> expirationTime (store s t) \<le> now"
  shows "\<not> needsPaint (snd (yieldBefore now t s)) \<and>
    clock (snd (yieldBefore now t s)) (ticks (snd (yieldBefore now t s)) - 1)
      - sliceStart (snd (yieldBefore now t s)) < frameInterval (snd (yieldBefore now t s))"
  using assms by (auto simp: yieldBefore_def shouldYieldToHost_def unstable_now_def Let_def split: if_splits)

lemma enterCallback_proper:
  assumes "loop_ok s" "currentTask s = Some task" "\<not> fst (yieldBefore now task s)"
  shows "proper_call (expirationTime (store s task) \<le> now) (enterCallback task (snd (yieldBefore now task s)))"
proof -
  note l = loop_okD [OF assms(1,2)]
  have "runs_before (store s) task u" if "u \<in> set (taskQueue s)" for u
    using l that compare_runs_before [OF l(1,3) that] task_order.peek_minimal [of "store s" "taskQueue s" task u]
    by (auto simp: queues_ok_def)
  moreover have "runs_before ((store s)(task := store s task\<lparr>callback := CbNull\<rparr>)) task u
      = runs_before (store s) task u" for u
    by (auto simp: runs_before_def)
  ultimately show ?thesis
    using l yieldBefore_continue [OF assms(3)] assms(2)
    by (auto simp: proper_call_def enterCallback_def set_task_def)
qed

text \<open>C4: the work loop calls user code only in proper states. Two runners that agree on the
  proper calls give the same execution, result and final state, for any amount of fuel.\<close>
theorem workLoop_calls_are_proper:
  assumes "api_runner run" "loop_ok s"
    and "\<And>c b s. proper_call b s \<Longrightarrow> run' c b s = run c b s"
  shows "workLoop fuel run' now s = workLoop fuel run now s"
  using assms(2)
proof (induction fuel arbitrary: s now)
  case (Suc n)
  show ?case
  proof (cases "currentTask s")
    case (Some task)
    have same: "run' c (expirationTime (store s task) \<le> now) (enterCallback task (snd (yieldBefore now task s)))
        = run c (expirationTime (store s task) \<le> now) (enterCallback task (snd (yieldBefore now task s)))"
      if "\<not> fst (yieldBefore now task s)" for c
      using assms(3) enterCallback_proper [OF Suc.prems Some that] by blast
    show ?thesis
    proof (cases rule: workLoop_round [where fuel = "Suc n" and s = s and run = run and now = now])
      case (finished task' c m s3)
      then have "queues_ok s3 \<and> busy_ok s3"
        using assms(1) enterCallback_ok [OF Suc.prems, of task' now] queues_ok_api busy_ok_api
        unfolding api_runner_def by (metis snd_conv)
      then have "workLoop n run' (fst (unstable_now s3)) (finishCallback task' s3)
          = workLoop n run (fst (unstable_now s3)) (finishCallback task' s3)"
        by (intro Suc.IH finishCallback_ok) (auto simp: busy_ok_iff)
      then show ?thesis
        using finished same Some
        by (auto simp: Let_def case_prod_beta enterCallback_def finishCallback_def)
    next
      case (cancelled task' m)
      have "loop_ok (let s2 = pop_task (snd (yieldBefore now task' s)) in s2\<lparr>currentTask := peek (taskQueue s2)\<rparr>)"
        using Suc.prems by (simp add: loop_ok_def Let_def queues_ok_pop_task)
      then show ?thesis
        using Suc.IH cancelled Some
        by (cases "callback (store s task)") (auto simp: Let_def case_prod_beta)
    qed (use same Some in \<open>auto simp: Let_def case_prod_beta enterCallback_def\<close>)
  qed simp
qed simp

text \<open>The state in which the first turn of the message loop starts on \<open>demo_state\<close>, at time 2.\<close>
definition demo_loop :: "nat \<Rightarrow> nat sched" where
  "demo_loop c = beginWork 2 ((demo_state c)\<lparr>messages := messages (demo_state c) - 1, needsPaint := False\<rparr>)"

lemma demo_loop_ok: "loop_ok (demo_loop c)"
  unfolding demo_loop_def
  using reachable_ok [OF reachable_demo [of c] api_runner_demo]
  by (intro beginWork_ok) (simp_all add: demo_state_eval)

text \<open>A runner that refuses every improper call.\<close>
definition strict_run :: "(nat, string) runner" where
  "strict_run c b s = (if proper_call b s then demo_run c b s else (Throw ''improper'', s))"

theorem workLoop_calls_are_proper_witness:
  "loop_ok (demo_loop 0) \<and> workLoop 9 strict_run 2 (demo_loop 0) = workLoop 9 demo_run 2 (demo_loop 0)"
  using demo_loop_ok workLoop_calls_are_proper [OF api_runner_demo demo_loop_ok, of strict_run 9 2]
  by (simp add: strict_run_def)

subsection \<open>What user code cannot change\<close>

lemma api_steps_level: "api_steps s s' \<Longrightarrow> currentPriorityLevel s' = currentPriorityLevel s"
proof (induction rule: api_steps.induct)
  case (api_schedule s s' p cb opts)
  then show ?case
    by (simp add: unstable_scheduleCallback_def Let_def case_prod_beta host_defs push_task_def push_timer_def)
qed (simp_all add: unstable_cancelCallback_def unstable_requestPaint_def unstable_forceFrameRate_def
       shouldYieldToHost_def Let_def case_prod_beta)

lemma scheduleCallback_queue_mono:
  "set (taskQueue s) \<subseteq> set (taskQueue (snd (unstable_scheduleCallback p cb opts s)))"
  by (auto simp: unstable_scheduleCallback_def Let_def case_prod_beta host_defs push_task_def push_timer_def)

lemma api_steps_queue_mono: "api_steps s s' \<Longrightarrow> set (taskQueue s) \<subseteq> set (taskQueue s')"
proof (induction rule: api_steps.induct)
  case (api_schedule s s' p cb opts)
  then show ?case using scheduleCallback_queue_mono by blast
qed (auto simp: unstable_cancelCallback_def unstable_requestPaint_def unstable_forceFrameRate_def
       shouldYieldToHost_def Let_def case_prod_beta)

lemma hostTimeout_level: "currentPriorityLevel (hostTimeout i s) = currentPriorityLevel s"
  by (simp add: hostTimeout_def handleTimeout_def Let_def case_prod_beta host_defs split: option.splits)

text \<open>The exits of \<open>performWorkUntilDeadline\<close>, for any user code.\<close>
lemma performWork_exit:
  assumes "isMessageLoopRunning s" "performWorkUntilDeadline fuel run s = Some (e, s')"
  shows "currentPriorityLevel s' = currentPriorityLevel s \<and> currentTask s' = None \<and>
    \<not> isPerformingWork s' \<and> (e \<noteq> None \<longrightarrow> 0 < messages s')"
  using assms
  by (auto simp: performWorkUntilDeadline_def endWork_def schedulePerformWorkUntilDeadline_def
      unstable_now_def requestHostTimeout_def localSetTimeout_def Let_def
      split: option.splits work_result.splits if_splits)

lemma idle_message_running: "idle_ok s \<Longrightarrow> 0 < messages s \<Longrightarrow> isMessageLoopRunning s"
  by (auto simp: idle_ok_def split: if_splits)

lemma sched_step_level:
  assumes "api_runner run" "reachable run s" "sched_step run s s'"
  shows "currentPriorityLevel s' = currentPriorityLevel s"
  using assms(3)
proof (cases rule: sched_step.cases)
  case (step_message fuel e)
  have "isMessageLoopRunning (s\<lparr>messages := messages s - 1\<rparr>)"
    using idle_message_running [of s] reachable_ok [OF assms(2,1)] step_message(1) by simp
  from performWork_exit [OF this step_message(2) [unfolded hostMessage_def]] show ?thesis by simp
qed (simp_all add: api_steps_level hostTimeout_level)

text \<open>C5: priorities do not leak. Outside its callbacks the scheduler always stands at normal
  priority (3), whatever the tasks' levels were, whatever user code set through
  \<open>unstable_runWithPriority\<close>, \<open>unstable_next\<close> or a wrapped callback, and whether or not a callback
  threw; and no task is current and no work is marked as being performed.\<close>
theorem scheduler_level_restored:
  assumes "api_runner run" "reachable run s"
  shows "unstable_getCurrentPriorityLevel s = 3 \<and> currentTask s = None \<and> \<not> isPerformingWork s"
proof -
  have "currentPriorityLevel s = 3"
    using assms(2)
  proof (induction rule: reachable.induct)
    case (reach_init clk)
    then show ?case by (simp add: init_sched_def)
  next
    case (reach_step s s')
    then show ?case using sched_step_level [OF assms(1)] by simp
  qed
  then show ?thesis
    using reachable_ok [OF assms(2,1)] by (simp add: unstable_getCurrentPriorityLevel_def idle_ok_def)
qed

text \<open>No orphans: an allocated task whose callback is still a function is in one of the queues.\<close>
definition is_fun :: "'c callback_value \<Rightarrow> bool" where
  "is_fun v = (case v of CbFunction _ \<Rightarrow> True | _ \<Rightarrow> False)"

definition no_orphans :: "'c sched \<Rightarrow> bool" where
  "no_orphans s \<longleftrightarrow> (\<forall>t < taskIdCounter s. is_fun (callback (store s t)) \<longrightarrow>
     t \<in> set (taskQueue s) \<union> set (timerQueue s))"

lemma is_fun_simps [simp]: "\<not> is_fun CbNull" "is_fun (CbFunction c)" "\<not> is_fun CbOther"
  by (simp_all add: is_fun_def)

text \<open>Any step that only removes dead entries and writes no function into an unqueued task keeps it.\<close>
lemma no_orphans_mono:
  assumes "no_orphans s" "taskIdCounter s' = taskIdCounter s"
    "\<And>t. is_fun (callback (store s' t)) \<Longrightarrow>
       is_fun (callback (store s t)) \<or> t \<in> set (taskQueue s') \<union> set (timerQueue s')"
    "\<And>t. t \<in> set (taskQueue s) \<union> set (timerQueue s) \<Longrightarrow> is_fun (callback (store s' t)) \<Longrightarrow>
       t \<in> set (taskQueue s') \<union> set (timerQueue s')"
  shows "no_orphans s'"
  using assms unfolding no_orphans_def by metis

lemma no_orphans_simple [simp]:
  "no_orphans (s\<lparr>currentPriorityLevel := p\<rparr>) = no_orphans s"
  "no_orphans (s\<lparr>needsPaint := b\<rparr>) = no_orphans s"
  "no_orphans (s\<lparr>frameInterval := x\<rparr>) = no_orphans s"
  "no_orphans (s\<lparr>console := l\<rparr>) = no_orphans s"
  "no_orphans (s\<lparr>currentTask := ct\<rparr>) = no_orphans s"
  "no_orphans (s\<lparr>messages := n\<rparr>) = no_orphans s"
  "no_orphans (s\<lparr>isHostCallbackScheduled := b\<rparr>) = no_orphans s"
  "no_orphans (s\<lparr>isHostTimeoutScheduled := b\<rparr>) = no_orphans s"
  "no_orphans (s\<lparr>isPerformingWork := b\<rparr>) = no_orphans s"
  "no_orphans (s\<lparr>isMessageLoopRunning := b\<rparr>) = no_orphans s"
  "no_orphans (s\<lparr>taskTimeoutID := i\<rparr>) = no_orphans s"
  "no_orphans (s\<lparr>sliceStart := x\<rparr>) = no_orphans s"
  "no_orphans (snd (unstable_now s)) = no_orphans s"
  "no_orphans (snd (shouldYieldToHost s)) = no_orphans s"
  "no_orphans (localClearTimeout i s) = no_orphans s"
  "no_orphans (requestHostTimeout ms s) = no_orphans s"
  "no_orphans (startMessageLoop s) = no_orphans s"
  "no_orphans (schedulePerformWorkUntilDeadline s) = no_orphans s"
  by (simp_all add: no_orphans_def host_defs unstable_now_def shouldYieldToHost_def Let_def)

lemma no_orphans_insert:
  "no_orphans s \<Longrightarrow> no_orphans (insertDelayed p cb start s)"
  "no_orphans s \<Longrightarrow> no_orphans (insertNow p cb start s)"
  by (auto simp: no_orphans_def insertDelayed_def insertNow_def allocTask_def push_timer_def push_task_def less_Suc_eq)

lemma no_orphans_schedule: "no_orphans s \<Longrightarrow> no_orphans (snd (unstable_scheduleCallback p cb opts s))"
  by (simp add: scheduleCallback_unfold Let_def case_prod_beta no_orphans_insert)

lemma no_orphans_cancel: "no_orphans s \<Longrightarrow> no_orphans (unstable_cancelCallback t s)"
  by (auto simp: no_orphans_def unstable_cancelCallback_def)

lemma no_orphans_api: "api_steps s s' \<Longrightarrow> no_orphans s \<Longrightarrow> no_orphans s'"
  by (induction rule: api_steps.induct)
     (auto simp: no_orphans_schedule no_orphans_cancel unstable_requestPaint_def unstable_forceFrameRate_def)

text \<open>A task keeps a cleared callback through any use of the API.\<close>
lemma scheduleCallback_store:
  "t < taskIdCounter s \<Longrightarrow> store (snd (unstable_scheduleCallback p cb opts s)) t = store s t"
  "taskIdCounter (snd (unstable_scheduleCallback p cb opts s)) = Suc (taskIdCounter s)"
  by (auto simp: unstable_scheduleCallback_def Let_def case_prod_beta host_defs push_task_def push_timer_def)

lemma api_steps_dead:
  "api_steps s s' \<Longrightarrow> t < taskIdCounter s \<Longrightarrow> callback (store s t) = CbNull \<Longrightarrow>
   t < taskIdCounter s' \<and> callback (store s' t) = CbNull"
  by (induction rule: api_steps.induct)
     (auto simp: scheduleCallback_store unstable_cancelCallback_def unstable_requestPaint_def
        unstable_forceFrameRate_def shouldYieldToHost_def Let_def case_prod_beta)

lemma no_orphans_pop_timer:
  assumes "queues_ok s" "no_orphans s" "peek (timerQueue s) = Some t" "callback (store s t) = CbNull"
  shows "no_orphans (pop_timer s)"
proof (rule no_orphans_mono [OF assms(2)])
  show "is_fun (callback (store (pop_timer s) u)) \<Longrightarrow> is_fun (callback (store s u)) \<or>
      u \<in> set (taskQueue (pop_timer s)) \<union> set (timerQueue (pop_timer s))" for u
    by (simp add: pop_timer_def)
  show "u \<in> set (taskQueue (pop_timer s)) \<union> set (timerQueue (pop_timer s))"
    if "u \<in> set (taskQueue s) \<union> set (timerQueue s)" "is_fun (callback (store (pop_timer s) u))" for u
  proof -
    have "u \<noteq> t" using that(2) assms(4) by (auto simp: pop_timer_def)
    moreover have "taskQueue (pop_timer s) = taskQueue s" by (simp add: pop_timer_def)
    ultimately show ?thesis using that(1) pop_timer_front(1) [OF assms(1,3)] by auto
  qed
qed (simp add: pop_timer_def)

lemma no_orphans_moveTimer:
  assumes "queues_ok s" "no_orphans s" "peek (timerQueue s) = Some t"
  shows "no_orphans (moveTimer t s)"
  using pop_timer_front(1) [OF assms(1,3)]
  by (intro no_orphans_mono [OF assms(2)])
     (auto simp: pop_timer_def moveTimer_def push_task_def split: if_splits)

lemma no_orphans_advanceTimers: "queues_ok s \<Longrightarrow> no_orphans s \<Longrightarrow> no_orphans (advanceTimers now s)"
proof (induction s rule: advanceTimers_induct [of now])
  case (drop s timer)
  then show ?case using queues_ok_pop_timer no_orphans_pop_timer by blast
next
  case (move s timer)
  then show ?case using queues_ok_moveTimer no_orphans_moveTimer by blast
qed simp

lemma pop_task_front:
  assumes "queues_ok s" "peek (taskQueue s) = Some t"
  shows "set (taskQueue (pop_task s)) = set (taskQueue s) - {t}"
proof -
  obtain h where h: "taskQueue s = t # h" using assms(2) peek_SomeD by fast
  then have d: "distinct (t # h)" using assms(1) by (simp add: queues_ok_def)
  then show ?thesis using h pop_set [OF d] by (auto simp: pop_task_def)
qed

lemma no_orphans_pop_task:
  assumes "queues_ok s" "no_orphans s" "peek (taskQueue s) = Some t" "\<not> is_fun (callback (store s t))"
  shows "no_orphans (pop_task s)"
  using assms(4) pop_task_front [OF assms(1,3)]
  by (intro no_orphans_mono [OF assms(2)]) (auto simp: pop_task_def)

lemma no_orphans_finish:
  assumes "queues_ok s" "no_orphans s" "callback (store s task) = CbNull"
  shows "no_orphans (finishCallback task s)"
proof -
  let ?s = "snd (unstable_now s)"
  let ?t = "if peek (taskQueue ?s) = Some task then pop_task ?s else ?s"
  have "queues_ok ?t" using assms(1) queues_ok_pop_task [of ?s] by simp
  moreover have "no_orphans ?t" using assms no_orphans_pop_task [of ?s task] by auto
  ultimately show ?thesis
    by (simp add: finishCallback_def Let_def case_prod_beta no_orphans_advanceTimers)
qed

lemma yieldBefore_no_orphans: "no_orphans (snd (yieldBefore now t s)) = no_orphans s"
  using yieldBefore_frame [of now t s] by (auto simp del: surjective_pairing)

lemma no_orphans_clear: "no_orphans s \<Longrightarrow> no_orphans (enterCallback t s)"
  by (auto simp: no_orphans_def enterCallback_def)

text \<open>After a callback: the queues and the flags are intact, the task is still queued with its
  callback cleared, and nothing is orphaned.\<close>
lemma after_callback:
  assumes "api_runner run" "loop_ok s" "no_orphans s" "currentTask s = Some task"
    "run c b (enterCallback task (snd (yieldBefore now task s))) = (x, s3)"
  shows "queues_ok s3" "work_flags s3" "task \<in> set (taskQueue s3)"
    "callback (store s3 task) = CbNull" "no_orphans s3"
proof -
  let ?s2 = "enterCallback task (snd (yieldBefore now task s))"
  have steps: "api_steps ?s2 s3"
    using assms(1,5) unfolding api_runner_def by (metis snd_conv)
  note l = loop_okD [OF assms(2,4)] and e = enterCallback_ok [OF assms(2,4), of now]
  show "queues_ok s3" "work_flags s3"
    using queues_ok_api [OF steps] busy_ok_api [OF steps] e by (auto simp: busy_ok_iff)
  show "task \<in> set (taskQueue s3)"
    using api_steps_queue_mono [OF steps] l(3) by (auto simp: enterCallback_def)
  have "yieldBefore now task s = (fst (yieldBefore now task s), snd (yieldBefore now task s))" by simp
  have "task < taskIdCounter s" using l(1,3) by (auto simp: queue_defs)
  moreover have "taskIdCounter (snd (yieldBefore now task s)) = taskIdCounter s"
    using yieldBefore_frame [of now task s] by (auto simp del: surjective_pairing)
  ultimately show "callback (store s3 task) = CbNull"
    using api_steps_dead [OF steps, of task] by (simp add: enterCallback_def)
  show "no_orphans s3"
    using no_orphans_api [OF steps] assms(3) by (simp add: no_orphans_clear yieldBefore_no_orphans)
qed

lemma no_orphans_workLoop:
  assumes "api_runner run"
  shows "loop_ok s \<Longrightarrow> no_orphans s \<Longrightarrow> workLoop fuel run now s = Some (r, now', s') \<Longrightarrow> no_orphans s'"
proof (induction fuel arbitrary: s now)
  case (Suc n)
  note after = after_callback [OF assms Suc.prems(1,2)]
  show ?case
  proof (cases rule: workLoop_round [where fuel = "Suc n" and s = s and run = run and now = now])
    case drained
    then show ?thesis using Suc.prems by auto
  next
    case (yielded task)
    then show ?thesis using Suc.prems yieldBefore_no_orphans by auto
  next
    case (cancelled task m)
    let ?s2 = "pop_task (snd (yieldBefore now task s))"
    note l = loop_okD [OF Suc.prems(1) cancelled(2)]
    have "\<not> is_fun (callback (store s task))" using cancelled(4) by (cases "callback (store s task)") auto
    then have "no_orphans ?s2"
      using l Suc.prems(2) by (intro no_orphans_pop_task) (auto simp: yieldBefore_no_orphans)
    moreover have "loop_ok (?s2\<lparr>currentTask := peek (taskQueue ?s2)\<rparr>)"
      using Suc.prems(1) by (simp add: loop_ok_def queues_ok_pop_task)
    ultimately show ?thesis using Suc.IH Suc.prems(3) cancelled by (auto simp: Let_def)
  next
    case (threw task c e s3)
    then show ?thesis using after(5) [OF threw(1,4)] Suc.prems(3) by auto
  next
    case (continued task c c' s3)
    let ?s4 = "set_task task (\<lambda>t. t\<lparr>callback := CbFunction c'\<rparr>) (snd (unstable_now s3))"
    note a = after [OF continued(1,4)]
    have "no_orphans ?s4" using a(3) by (intro no_orphans_mono [OF a(5)]) (auto split: if_splits)
    then show ?thesis
      using a(1) continued(5) Suc.prems(3)
      by (auto intro!: no_orphans_advanceTimers queues_ok_set_callback)
  next
    case (finished task c m s3)
    note a = after [OF finished(2,5)]
    show ?thesis
      using Suc.IH [OF finishCallback_ok [OF a(1,2)] no_orphans_finish [OF a(1,5,4)]] finished Suc.prems(3)
      by auto
  qed simp
qed simp

lemma no_orphans_beginWork: "queues_ok s \<Longrightarrow> no_orphans s \<Longrightarrow> no_orphans (beginWork now s)"
  by (auto simp: beginWork_def Let_def intro!: no_orphans_advanceTimers)

lemma no_orphans_endWork: "no_orphans s \<Longrightarrow> no_orphans (endWork p r now s)"
  by (auto simp: endWork_def Let_def split: option.splits)

text \<open>The parts of a message turn that starts in an idle state.\<close>
lemma hostMessage_parts:
  assumes "queues_ok s" "idle_ok s" "0 < messages s" "hostMessage fuel run s = Some (e, s')"
  obtains now r now2 s2 where
    "loop_ok (beginWork now ((s\<lparr>ticks := Suc (ticks s)\<rparr>)\<lparr>messages := messages s - 1, needsPaint := False\<rparr>))"
    "workLoop fuel run now
       (beginWork now ((s\<lparr>ticks := Suc (ticks s)\<rparr>)\<lparr>messages := messages s - 1, needsPaint := False\<rparr>)) = Some (r, now2, s2)"
    "s' = endWork (currentPriorityLevel s) r now2 s2"
    "e = (case r of Threw x \<Rightarrow> Some x | _ \<Rightarrow> None)"
proof -
  have run: "isMessageLoopRunning s" using assms(2,3) idle_message_running by blast
  let ?s1 = "(s\<lparr>ticks := Suc (ticks s)\<rparr>)\<lparr>messages := messages s - 1, needsPaint := False\<rparr>"
  have "loop_ok (beginWork (clock s (ticks s)) ?s1)"
    using beginWork_ok [of "s\<lparr>ticks := Suc (ticks s)\<rparr>"] assms(1,2) run by simp
  moreover have eq: "s\<lparr>messages := m, needsPaint := b, ticks := n\<rparr> = s\<lparr>ticks := n, messages := m, needsPaint := b\<rparr>" for m b n
    by simp
  ultimately show thesis
    using assms(4) run that [of "clock s (ticks s)"]
    by (auto simp: hostMessage_def performWorkUntilDeadline_def Let_def unstable_now_def eq split: option.splits)
qed

lemma no_orphans_hostMessage:
  assumes "api_runner run" "queues_ok s" "idle_ok s" "no_orphans s" "0 < messages s"
    "hostMessage fuel run s = Some (e, s')"
  shows "no_orphans s'"
proof (rule hostMessage_parts [OF assms(2,3,5,6)])
  fix now r now2 s2
  let ?s1 = "(s\<lparr>ticks := Suc (ticks s)\<rparr>)\<lparr>messages := messages s - 1, needsPaint := False\<rparr>"
  assume a: "loop_ok (beginWork now ?s1)" "workLoop fuel run now (beginWork now ?s1) = Some (r, now2, s2)"
    "s' = endWork (currentPriorityLevel s) r now2 s2"
  have "no_orphans ?s1" using assms(4) by (simp add: no_orphans_def)
  then have "no_orphans (beginWork now ?s1)" using assms(2) by (intro no_orphans_beginWork) simp_all
  then show ?thesis using no_orphans_workLoop [OF assms(1) a(1) _ a(2)] a(3) no_orphans_endWork by blast
qed

lemma no_orphans_hostTimeout: "queues_ok s \<Longrightarrow> no_orphans s \<Longrightarrow> no_orphans (hostTimeout i s)"
  using no_orphans_advanceTimers [of "(snd (unstable_now (localClearTimeout i s)))\<lparr>isHostTimeoutScheduled := False\<rparr>"
      "fst (unstable_now (localClearTimeout i s))"]
  by (auto simp: hostTimeout_def handleTimeout_def Let_def case_prod_beta split: option.splits)

text \<open>C6: no work is lost. In every reachable state each task object whose callback has not been
  taken, cancelled or replaced by a non-function is in exactly one of the two queues, whichever
  callbacks returned continuations or threw before.\<close>
theorem scheduler_loses_no_task:
  assumes "api_runner run" "reachable run s" "t < taskIdCounter s" "callback (store s t) = CbFunction c"
  shows "t \<in> set (taskQueue s) \<longleftrightarrow> t \<notin> set (timerQueue s)"
proof -
  have "no_orphans s"
    using assms(2)
  proof (induction rule: reachable.induct)
    case (reach_init clk)
    then show ?case by (simp add: no_orphans_def init_sched_def no_task_def)
  next
    case (reach_step s s')
    from reachable_ok [OF reach_step(1) assms(1)] have "queues_ok s" "idle_ok s" by auto
    with reach_step(2,3) show ?case
      by (elim sched_stepE)
         (auto dest: no_orphans_api no_orphans_hostTimeout no_orphans_hostMessage [OF assms(1)])
  qed
  then have "t \<in> set (taskQueue s) \<union> set (timerQueue s)" using assms(3,4) by (simp add: no_orphans_def)
  then show ?thesis using reachable_ok [OF assms(2,1)] by (auto simp: queues_ok_def)
qed

theorem scheduler_loses_no_task_witness:
  "callback (store (demo_state 0) 2) = CbFunction 0 \<and>
   (2 \<in> set (taskQueue (demo_state 0)) \<longleftrightarrow> 2 \<notin> set (timerQueue (demo_state 0)))"
proof -
  have c: "callback (store (demo_state 0) 2) = CbFunction 0" by (simp add: demo_state_eval newTask_def)
  have "2 < taskIdCounter (demo_state 0)" by (simp add: demo_state_def scheduleCallback_store init_sched_def)
  from scheduler_loses_no_task [OF api_runner_demo reachable_demo this c] c show ?thesis by blast
qed

theorem scheduler_level_restored_witness:
  "unstable_getCurrentPriorityLevel (demo_state 9) = 3 \<and> \<not> isPerformingWork (demo_state 9)"
  using scheduler_level_restored [OF api_runner_demo reachable_demo] by blast

text \<open>C7: a callback that throws. The exception leaves \<open>performWorkUntilDeadline\<close>; the queue is
  intact and not empty, exactly one message is posted to continue, and the priority level is the
  one before.\<close>
theorem throw_keeps_work:
  assumes "api_runner run" "reachable run s" "0 < messages s"
    "hostMessage fuel run s = Some (Some e, s')"
  shows "taskQueue s' \<noteq> [] \<and> messages s' = 1 \<and> isMessageLoopRunning s' \<and> queues_ok s' \<and>
    unstable_getCurrentPriorityLevel s' = unstable_getCurrentPriorityLevel s"
proof -
  note ok = reachable_ok [OF assms(2,1)]
  have ok': "queues_ok s' \<and> idle_ok s'"
    using hostMessage_ok [OF assms(1) _ _ assms(3,4)] ok by blast
  have "isMessageLoopRunning (s\<lparr>messages := messages s - 1\<rparr>)"
    using idle_message_running [of s] ok assms(3) by simp
  from performWork_exit [OF this assms(4) [unfolded hostMessage_def]]
  show ?thesis
    using ok' by (auto simp: idle_ok_def unstable_getCurrentPriorityLevel_def split: if_splits)
qed

lemma demo_throw:
  "\<exists>s'. hostMessage (Suc n) demo_run (demo_state 9) = Some (Some ''boom'', s')"
  by (simp add: hostMessage_def performWorkUntilDeadline_def beginWork_def advanceTimers.simps
      demo_state_eval unstable_now_def demo_clock_def yieldBefore_def shouldYieldToHost_def
      newTask_def timeoutForPriority_def demo_run_def Let_def)

theorem throw_keeps_work_witness:
  "\<exists>s'. hostMessage 1 demo_run (demo_state 9) = Some (Some ''boom'', s') \<and> taskQueue s' \<noteq> [] \<and> messages s' = 1"
proof -
  obtain s' where r: "hostMessage 1 demo_run (demo_state 9) = Some (Some ''boom'', s')"
    using demo_throw [of 0] by auto
  have "0 < messages (demo_state 9)" by (simp add: demo_state_eval)
  from throw_keeps_work [OF api_runner_demo reachable_demo this r] r show ?thesis by blast
qed

subsection \<open>Timers, continuations, termination\<close>

text \<open>\<open>advanceTimers\<close> is a partition of the timers. Afterwards the task queue holds what it
  held before and exactly the live timers that are due; the timers left are all in the future,
  and every live timer in the future is left.\<close>
theorem advanceTimers_partition:
  assumes "queues_ok s"
  shows "set (taskQueue (advanceTimers now s)) = set (taskQueue s) \<union>
      {t \<in> set (timerQueue s). callback (store s t) \<noteq> CbNull \<and> startTime (store s t) \<le> now} \<and>
    set (timerQueue (advanceTimers now s)) \<subseteq> {t \<in> set (timerQueue s). now < startTime (store s t)} \<and>
    {t \<in> set (timerQueue s). callback (store s t) \<noteq> CbNull \<and> now < startTime (store s t)}
      \<subseteq> set (timerQueue (advanceTimers now s))"
proof -
  let ?s = "advanceTimers now s"
  have m: "advance_moves now s ?s" by (rule advanceTimers_moves [OF assms])
  have disj: "set (taskQueue s) \<inter> set (timerQueue s) = {}" using assms by (simp add: queues_ok_def)
  have rem: "now < startTime (store s t)" if "t \<in> set (timerQueue ?s)" for t
    by (rule advanceTimers_remaining [OF assms that])
  have "set (timerQueue ?s) \<subseteq> {t \<in> set (timerQueue s). now < startTime (store s t)}"
    using m rem by (auto simp: advance_moves_def)
  moreover have "set (taskQueue ?s) = set (taskQueue s) \<union>
      {t \<in> set (timerQueue s). callback (store s t) \<noteq> CbNull \<and> startTime (store s t) \<le> now}"
    using m rem advanceTimers_taskQueue_mono [of s now] by (fastforce simp: advance_moves_def)
  moreover have "t \<in> set (timerQueue ?s)"
    if "t \<in> set (timerQueue s)" "callback (store s t) \<noteq> CbNull" "now < startTime (store s t)" for t
    using m disj that by (fastforce simp: advance_moves_def)
  ultimately show ?thesis by blast
qed

theorem advanceTimers_partition_witness:
  "queues_ok demo_delayed \<and> set (taskQueue (advanceTimers 40 demo_delayed)) = {1} \<and>
   timerQueue (advanceTimers 39 demo_delayed) \<noteq> []"
proof -
  have q: "queues_ok demo_delayed" using reachable_ok [OF reachable_demo_delayed api_runner_demo] by blast
  have v: "callback (store demo_delayed 1) = CbFunction 5" "startTime (store demo_delayed 1) = 40"
    by (simp_all add: demo_delayed_def unstable_scheduleCallback_def init_sched_def unstable_now_def
      optionsStartTime_def push_timer_def host_defs demo_clock_def Let_def)
  show ?thesis
    using q v advanceTimers_partition [OF q, of 40] advanceTimers_partition [OF q, of 39]
    by (auto simp: demo_delayed_eval)
qed

text \<open>A callback that returns a function. The loop stops with more work, and the task is
  still in the task queue with the returned function as its callback, to be resumed by the next
  message.\<close>
theorem workLoop_continuation:
  assumes "api_runner run" "loop_ok s" "no_orphans s" "currentTask s = Some task"
    "callback (store s task) = CbFunction c" "\<not> fst (yieldBefore now task s)"
    "run c (expirationTime (store s task) \<le> now) (enterCallback task (snd (yieldBefore now task s)))
       = (Continuation c', s3)"
  shows "\<exists>now' s'. workLoop (Suc fuel) run now s = Some (MoreWork, now', s') \<and>
    task \<in> set (taskQueue s') \<and> callback (store s' task) = CbFunction c'"
proof -
  note a = after_callback [OF assms(1-4,7)]
  let ?s4 = "set_task task (\<lambda>t. t\<lparr>callback := CbFunction c'\<rparr>) (snd (unstable_now s3))"
  let ?s' = "advanceTimers (fst (unstable_now s3)) ?s4"
  have "workLoop (Suc fuel) run now s = Some (MoreWork, fst (unstable_now s3), ?s')"
  proof (cases rule: workLoop_round [where fuel = "Suc fuel" and s = s and run = run and now = now])
    case (cancelled task' n)
    then show ?thesis using assms(4,5) by auto
  qed (use assms in auto)
  moreover have "task \<in> set (taskQueue ?s')"
    using a(3) advanceTimers_taskQueue_mono [of ?s4] by auto
  moreover have "callback (store ?s' task) = CbFunction c'"
    using advanceTimers_store [of _ ?s4 task] by simp
  ultimately show ?thesis by blast
qed

lemma demo_loop_eval:
  "currentTask (demo_loop c) = Some 2" "callback (store (demo_loop c) 2) = CbFunction c"
  "\<not> fst (yieldBefore 2 2 (demo_loop c))" "no_orphans (demo_loop c)"
proof -
  show "currentTask (demo_loop c) = Some 2" "callback (store (demo_loop c) 2) = CbFunction c"
    "\<not> fst (yieldBefore 2 2 (demo_loop c))"
    by (simp_all add: demo_loop_def beginWork_def advanceTimers.simps demo_state_eval newTask_def
        yieldBefore_def shouldYieldToHost_def unstable_now_def demo_clock_def Let_def timeoutForPriority_def)
  have "no_orphans (demo_state c)"
    unfolding demo_state_def
    by (intro no_orphans_schedule) (simp add: no_orphans_def init_sched_def no_task_def)
  then show "no_orphans (demo_loop c)"
    unfolding demo_loop_def using reachable_ok [OF reachable_demo [of c] api_runner_demo]
    by (intro no_orphans_beginWork) (auto simp: no_orphans_def)
qed

theorem workLoop_continuation_witness:
  "\<exists>now' s'. workLoop 1 demo_run 2 (demo_loop 0) = Some (MoreWork, now', s') \<and>
    2 \<in> set (taskQueue s') \<and> callback (store s' 2) = CbFunction 1"
  using workLoop_continuation [OF api_runner_demo demo_loop_ok demo_loop_eval(4,1,2,3), where c' = 1 and fuel = 0]
  by (simp add: demo_run_def)

text \<open>A runner that schedules nothing: it may cancel tasks, ask for a paint, read the clock.\<close>
definition quiet :: "('c, 'e) runner \<Rightarrow> bool" where
  "quiet run \<longleftrightarrow> (\<forall>c b s. taskQueue (snd (run c b s)) = taskQueue s \<and> timerQueue (snd (run c b s)) = timerQueue s)"

definition queued :: "'c sched \<Rightarrow> nat" where
  "queued s = length (taskQueue s) + length (timerQueue s)"

lemma push_length: "length (push cmp h x) = Suc (length h)"
  by (metis push_mset size_add_mset size_mset)

lemma queued_moveTimer:
  "peek (timerQueue s) = Some t \<Longrightarrow> queued (moveTimer t s) = queued s"
  by (auto simp: queued_def moveTimer_def push_task_def pop_timer_def push_length dest!: peek_SomeD)

lemma queued_advanceTimers: "queued (advanceTimers now s) \<le> queued s"
proof (induction s rule: advanceTimers_induct [of now])
  case (drop s timer)
  have "queued (pop_timer s) \<le> queued s" by (simp add: queued_def pop_timer_def)
  with drop show ?case by simp
qed (simp_all add: queued_moveTimer)

lemma queued_pop_task: "peek (taskQueue s) = Some t \<Longrightarrow> queued (pop_task s) < queued s"
  by (auto simp: queued_def pop_task_def dest!: peek_SomeD)

lemma queued_simple [simp]: "queued (s\<lparr>currentTask := ct\<rparr>) = queued s" "queued (snd (unstable_now s)) = queued s"
  by (simp_all add: queued_def)

lemma enterCallback_queues:
  "taskQueue (enterCallback task (snd (yieldBefore now task s))) = taskQueue s"
  "timerQueue (enterCallback task (snd (yieldBefore now task s))) = timerQueue s"
  by (simp_all add: enterCallback_def)

text \<open>C10: the loop ends. When the callbacks schedule nothing, one round per queued task is
  enough, and the loop returns a result.\<close>
theorem workLoop_terminates:
  assumes "api_runner run" "quiet run" "loop_ok s" "no_orphans s" "queued s < fuel"
  shows "\<exists>r now' s'. workLoop fuel run now s = Some (r, now', s')"
  using assms(3-5)
proof (induction fuel arbitrary: s now)
  case (Suc n)
  show ?case
  proof (cases rule: workLoop_round [where fuel = "Suc n" and s = s and run = run and now = now])
    case (cancelled task m)
    let ?s1 = "snd (yieldBefore now task s)"
    let ?s2 = "pop_task ?s1"
    note l = loop_okD [OF Suc.prems(1) cancelled(2)]
    have d: "\<not> is_fun (callback (store s task))" using cancelled(4) by (cases "callback (store s task)") auto
    have "queued ?s2 < queued s" using queued_pop_task [of ?s1 task] l(4) by (simp add: queued_def)
    moreover have "no_orphans ?s2"
      using l Suc.prems(2) d by (intro no_orphans_pop_task) (auto simp: yieldBefore_no_orphans)
    moreover have "loop_ok (?s2\<lparr>currentTask := peek (taskQueue ?s2)\<rparr>)"
      using Suc.prems(1) by (simp add: loop_ok_def queues_ok_pop_task)
    ultimately show ?thesis using Suc.IH Suc.prems(3) cancelled by (simp add: Let_def)
  next
    case (finished task c m s3)
    note a = after_callback [OF assms(1) Suc.prems(1,2) finished(2,5)]
    have "snd (run c (expirationTime (store s task) \<le> now) (enterCallback task (snd (yieldBefore now task s)))) = s3"
      using finished(5) by simp
    then have same: "taskQueue s3 = taskQueue s \<and> timerQueue s3 = timerQueue s"
      using assms(2) unfolding quiet_def by (metis enterCallback_queues)
    have "queued (finishCallback task s3) < queued s"
      using same loop_okD(4) [OF Suc.prems(1) finished(2)] queued_pop_task [of "snd (unstable_now s3)" task]
        queued_advanceTimers [of "fst (unstable_now s3)" "pop_task (snd (unstable_now s3))"]
      by (simp add: finishCallback_def Let_def case_prod_beta queued_def)
    then show ?thesis
      using Suc.IH [OF finishCallback_ok [OF a(1,2)] no_orphans_finish [OF a(1,5,4)]] finished Suc.prems(3)
      by simp
  qed auto
qed simp

lemma quiet_demo: "quiet demo_run"
  by (simp add: quiet_def demo_run_def)

theorem workLoop_terminates_witness:
  "quiet demo_run \<and> queued (demo_loop 3) < 3 \<and> (\<exists>r now' s'. workLoop 3 demo_run 2 (demo_loop 3) = Some (r, now', s'))"
proof -
  have "queued (demo_loop 3) < 3"
    by (simp add: demo_loop_def beginWork_def advanceTimers.simps demo_state_eval queued_def Let_def)
  with workLoop_terminates [OF api_runner_demo quiet_demo demo_loop_ok demo_loop_eval(4) this, of 2]
  show ?thesis using quiet_demo by blast
qed

subsection \<open>The API\<close>

text \<open>The queue and key a new task is filed under.\<close>
lemma scheduleCallback_queues:
  fixes s p cb opts
  defines "now \<equiv> clock s (ticks s)" and "start \<equiv> optionsStartTime (clock s (ticks s)) opts"
    and "s' \<equiv> snd (unstable_scheduleCallback p cb opts s)"
  shows "mset (taskQueue s') = (if now < start then mset (taskQueue s) else add_mset (taskIdCounter s) (mset (taskQueue s)))"
    "mset (timerQueue s') = (if now < start then add_mset (taskIdCounter s) (mset (timerQueue s)) else mset (timerQueue s))"
    "store s' = (store s)(taskIdCounter s := newTask p cb start (if now < start then start else start + timeoutForPriority p) (taskIdCounter s))"
  by (simp_all add: s'_def now_def start_def scheduleCallback_unfold unstable_now_def insertDelayed_def
      insertNow_def allocTask_def push_task_def push_timer_def host_defs Let_def)

text \<open>\<open>unstable_scheduleCallback\<close> returns a task with a fresh id that is filed exactly once:
  in the timer queue under its start time when the options carry a positive delay, otherwise in
  the task queue under its expiration time, which is the start time plus the timeout of the
  level. The other queue and every other task object stay as they were.\<close>
theorem scheduleCallback_files_task:
  "let now = clock s (ticks s); start = optionsStartTime now opts; t = taskIdCounter s;
       (t', s') = unstable_scheduleCallback p cb opts s
   in t' = t \<and> taskIdCounter s' = Suc t \<and> store s' = (store s)(t := store s' t) \<and>
      callback (store s' t) = cb \<and> startTime (store s' t) = start \<and> priorityLevel (store s' t) = p \<and>
      expirationTime (store s' t) = start + timeoutForPriority p \<and>
      (case opts of
         Options (DelayNumber d) \<Rightarrow> start = (if 0 < d then now + d else now)
       | _ \<Rightarrow> start = now) \<and>
      (if now < start
       then mset (timerQueue s') = add_mset t (mset (timerQueue s)) \<and> taskQueue s' = taskQueue s \<and>
         sortIndex (store s' t) = start
       else mset (taskQueue s') = add_mset t (mset (taskQueue s)) \<and> timerQueue s' = timerQueue s \<and>
         sortIndex (store s' t) = expirationTime (store s' t))"
proof -
  let ?s' = "snd (unstable_scheduleCallback p cb opts s)"
  have f: "fst (unstable_scheduleCallback p cb opts s) = taskIdCounter s"
    by (simp add: scheduleCallback_unfold unstable_now_def Let_def)
  have q: "clock s (ticks s) < optionsStartTime (clock s (ticks s)) opts \<Longrightarrow> taskQueue ?s' = taskQueue s"
    "\<not> clock s (ticks s) < optionsStartTime (clock s (ticks s)) opts \<Longrightarrow> timerQueue ?s' = timerQueue s"
    by (simp_all add: scheduleCallback_unfold unstable_now_def insertDelayed_def insertNow_def allocTask_def
      push_task_def push_timer_def host_defs Let_def)
  have o: "case opts of
      Options (DelayNumber d) \<Rightarrow> optionsStartTime now opts = (if 0 < d then now + d else now)
    | _ \<Rightarrow> optionsStartTime now opts = now" for now
    by (auto simp: optionsStartTime_def split: schedule_options.splits delay_value.splits)
  show ?thesis
    using f q o scheduleCallback_queues [where s = s and p = p and cb = cb and opts = opts] scheduleCallback_store(2) [of p cb opts s]
    by (simp add: Let_def case_prod_beta newTask_def)
qed

text \<open>The priority API is a bracket. For any event handler, \<open>unstable_next\<close>,
  \<open>unstable_runWithPriority\<close> and a wrapped callback run it at the level they promise (at most
  normal; the given level if it is one of the five, else normal; the level at wrapping time),
  return what it returned and restore the caller's level whatever the handler did to it.\<close>
theorem priority_api_brackets:
  "let level = currentPriorityLevel s;
       call = (\<lambda>p. let (r, s') = h (s\<lparr>currentPriorityLevel := p\<rparr>) in (r, s'\<lparr>currentPriorityLevel := level\<rparr>))
   in unstable_next h s = call (if level \<in> {1, 2, 3} then 3 else level) \<and>
      unstable_runWithPriority p h s = call (if p \<in> {1..5} then p else 3) \<and>
      unstable_wrapCallback h s0 s = call (unstable_getCurrentPriorityLevel s0) \<and>
      currentPriorityLevel (snd (unstable_next h s)) = level \<and>
      currentPriorityLevel (snd (unstable_runWithPriority p h s)) = level \<and>
      currentPriorityLevel (snd (unstable_wrapCallback h s0 s)) = level"
proof -
  have "p \<in> {1..5} \<longleftrightarrow> p = 1 \<or> p = 2 \<or> p = 3 \<or> p = 4 \<or> p = 5" by auto
  then show ?thesis
    by (simp add: unstable_next_def unstable_runWithPriority_def unstable_wrapCallback_def withPriority_def
        unstable_getCurrentPriorityLevel_def Let_def case_prod_beta)
qed

end
