(* ===== verification/Mock_Scheduler.thy ===== *)
theory Mock_Scheduler
  imports Scheduler_Props
begin

text \<open>
  The test scheduler, \<open>packages/scheduler/cjs/scheduler-unstable_mock.development.js\<close>: the same
  heaps and task objects as the real scheduler, but a clock that only \<open>unstable_advanceTime\<close>
  moves, one slot for a host callback and one for a host timeout instead of a message loop, and
  flush operations that a test calls to run the queued work.

  The definitions carry the prefix \<open>mock_\<close> where the real scheduler has a function of the same
  name. The only host callback the file installs is \<open>flushWork\<close> and the only timeout callback is
  \<open>handleTimeout\<close>, so the two slots are options over one-element types. \<open>core\<close> projects the mock's
  queues to the real scheduler's state, and the simulation lemmas below let the queue invariant
  of the real scheduler serve here.
\<close>

datatype host_callback = FlushWork
datatype host_timeout = HandleTimeout

record ('c, 'v) mock =
  mStore :: "nat \<Rightarrow> 'c task"
  mTaskQueue :: "nat list"
  mTimerQueue :: "nat list"
  mTaskIdCounter :: nat
  mCurrentTask :: "nat option"
  mCurrentPriorityLevel :: int
  mIsPerformingWork :: bool
  mIsHostCallbackScheduled :: bool
  mIsHostTimeoutScheduled :: bool
  currentMockTime :: js_time
  scheduledCallback :: "host_callback option"
  scheduledTimeout :: "host_timeout option"
  timeoutTime :: js_time
  yieldedValues :: "'v list option"
  expectedNumberOfYields :: int
  didStop :: bool
  isFlushing :: bool
  mNeedsPaint :: bool
  shouldYieldForPaint :: bool
  disableYieldValue :: bool
  isPrivateActQueueDraining :: bool
  \<comment> \<open>the host: whether \<open>console.log\<close> is the function named \<open>disabledLog\<close>\<close>
  consoleDisabled :: bool

definition init_mock :: "('c, 'v) mock" where
  "init_mock = \<lparr>mStore = (\<lambda>_. no_task), mTaskQueue = [], mTimerQueue = [], mTaskIdCounter = 1,
     mCurrentTask = None, mCurrentPriorityLevel = 3, mIsPerformingWork = False,
     mIsHostCallbackScheduled = False, mIsHostTimeoutScheduled = False, currentMockTime = 0,
     scheduledCallback = None, scheduledTimeout = None, timeoutTime = -1, yieldedValues = None,
     expectedNumberOfYields = -1, didStop = False, isFlushing = False, mNeedsPaint = False,
     shouldYieldForPaint = False, disableYieldValue = False, isPrivateActQueueDraining = False,
     consoleDisabled = False\<rparr>"

datatype 'e mock_error = MockError string | UserError 'e

type_synonym ('c, 'v, 'e) mock_runner = "'c \<Rightarrow> bool \<Rightarrow> ('c, 'v) mock \<Rightarrow> ('c, 'e) outcome \<times> ('c, 'v) mock"

subsection \<open>Queues, timers and host slots\<close>

definition mock_compare :: "('c, 'v) mock \<Rightarrow> nat \<Rightarrow> nat \<Rightarrow> real" where
  "mock_compare m a b =
     (let diff = sortIndex (mStore m a) - sortIndex (mStore m b)
      in if diff \<noteq> 0 then diff else real (tid (mStore m a)) - real (tid (mStore m b)))"

text \<open>The file's own copy of the heap is the code of the real scheduler's.\<close>
definition mock_push :: "('c, 'v) mock \<Rightarrow> nat list \<Rightarrow> nat \<Rightarrow> nat list" where
  "mock_push m heap node = push (mock_compare m) heap node"

definition mock_pop :: "('c, 'v) mock \<Rightarrow> nat list \<Rightarrow> nat option \<times> nat list" where
  "mock_pop m heap = pop (mock_compare m) heap"

definition mock_set_task :: "nat \<Rightarrow> ('c task \<Rightarrow> 'c task) \<Rightarrow> ('c, 'v) mock \<Rightarrow> ('c, 'v) mock" where
  "mock_set_task t f m = m\<lparr>mStore := (mStore m)(t := f (mStore m t))\<rparr>"

definition mock_pop_timer :: "('c, 'v) mock \<Rightarrow> ('c, 'v) mock" where
  "mock_pop_timer m = m\<lparr>mTimerQueue := snd (mock_pop m (mTimerQueue m))\<rparr>"

definition mock_pop_task :: "('c, 'v) mock \<Rightarrow> ('c, 'v) mock" where
  "mock_pop_task m = m\<lparr>mTaskQueue := snd (mock_pop m (mTaskQueue m))\<rparr>"

definition mock_push_timer :: "nat \<Rightarrow> ('c, 'v) mock \<Rightarrow> ('c, 'v) mock" where
  "mock_push_timer t m = m\<lparr>mTimerQueue := mock_push m (mTimerQueue m) t\<rparr>"

definition mock_push_task :: "nat \<Rightarrow> ('c, 'v) mock \<Rightarrow> ('c, 'v) mock" where
  "mock_push_task t m = m\<lparr>mTaskQueue := mock_push m (mTaskQueue m) t\<rparr>"

function mock_advanceTimers :: "js_time \<Rightarrow> ('c, 'v) mock \<Rightarrow> ('c, 'v) mock" where
  "mock_advanceTimers currentTime m =
     (case peek (mTimerQueue m) of
        None \<Rightarrow> m
      | Some timer \<Rightarrow>
          if callback (mStore m timer) = CbNull
          then mock_advanceTimers currentTime (mock_pop_timer m)
          else if startTime (mStore m timer) \<le> currentTime
          then mock_advanceTimers currentTime
                 (mock_push_task timer
                   (mock_set_task timer (\<lambda>t. t\<lparr>sortIndex := expirationTime t\<rparr>) (mock_pop_timer m)))
          else m)"
  by pat_completeness auto
termination
  by (relation "measure (\<lambda>(now, m). length (mTimerQueue m))")
     (auto simp: mock_pop_timer_def mock_push_task_def mock_set_task_def mock_pop_def dest!: peek_SomeD)

declare mock_advanceTimers.simps [simp del]

definition mock_requestHostCallback :: "('c, 'v) mock \<Rightarrow> ('c, 'v) mock" where
  "mock_requestHostCallback m = m\<lparr>scheduledCallback := Some FlushWork\<rparr>"

definition mock_requestHostTimeout :: "js_time \<Rightarrow> ('c, 'v) mock \<Rightarrow> ('c, 'v) mock" where
  "mock_requestHostTimeout ms m =
     m\<lparr>scheduledTimeout := Some HandleTimeout, timeoutTime := currentMockTime m + ms\<rparr>"

definition mock_cancelHostTimeout :: "('c, 'v) mock \<Rightarrow> ('c, 'v) mock" where
  "mock_cancelHostTimeout m = m\<lparr>scheduledTimeout := None, timeoutTime := -1\<rparr>"

definition mock_handleTimeout :: "js_time \<Rightarrow> ('c, 'v) mock \<Rightarrow> ('c, 'v) mock" where
  "mock_handleTimeout currentTime m =
     (let m1 = mock_advanceTimers currentTime (m\<lparr>mIsHostTimeoutScheduled := False\<rparr>)
      in if mIsHostCallbackScheduled m1 then m1
         else if peek (mTaskQueue m1) \<noteq> None
         then mock_requestHostCallback (m1\<lparr>mIsHostCallbackScheduled := True\<rparr>)
         else (case peek (mTimerQueue m1) of
                 None \<Rightarrow> m1
               | Some firstTimer \<Rightarrow>
                   mock_requestHostTimeout (startTime (mStore m1 firstTimer) - currentTime) m1))"

definition mock_shouldYieldToHost :: "('c, 'v) mock \<Rightarrow> bool \<times> ('c, 'v) mock" where
  "mock_shouldYieldToHost m =
     (if expectedNumberOfYields m = 0 \<and> yieldedValues m = None
         \<or> expectedNumberOfYields m \<noteq> -1 \<and>
           (case yieldedValues m of None \<Rightarrow> False | Some vs \<Rightarrow> int (length vs) \<ge> expectedNumberOfYields m)
         \<or> shouldYieldForPaint m \<and> mNeedsPaint m
      then (True, m\<lparr>didStop := True\<rparr>) else (False, m))"

definition mock_getCurrentTime :: "('c, 'v) mock \<Rightarrow> js_time" where
  "mock_getCurrentTime m = currentMockTime m"

subsection \<open>The work loop\<close>

text \<open>The test \<open>currentTask.expirationTime > currentTime && (!hasTimeRemaining || shouldYieldToHost())\<close>.\<close>
definition mock_breakBefore :: "bool \<Rightarrow> js_time \<Rightarrow> nat \<Rightarrow> ('c, 'v) mock \<Rightarrow> bool \<times> ('c, 'v) mock" where
  "mock_breakBefore hasTimeRemaining currentTime task m =
     (if expirationTime (mStore m task) > currentTime
      then if \<not> hasTimeRemaining then (True, m) else mock_shouldYieldToHost m
      else (False, m))"

text \<open>The \<open>while\<close> loop of \<open>workLoop\<close> and the code after it. Unlike the real scheduler's loop, a
  continuation does not end it unless a flush waits for a paint.\<close>
fun mock_loop :: "nat \<Rightarrow> ('c, 'v, 'e) mock_runner \<Rightarrow> bool \<Rightarrow> js_time \<Rightarrow> ('c, 'v) mock
    \<Rightarrow> (('e mock_error + bool) \<times> ('c, 'v) mock) option" where
  "mock_loop 0 run hasTimeRemaining currentTime m = None"
| "mock_loop (Suc fuel) run hasTimeRemaining currentTime m =
     (case mCurrentTask m of
        None \<Rightarrow> Some (Inr False,
          (case peek (mTimerQueue m) of
             None \<Rightarrow> m
           | Some firstTimer \<Rightarrow> mock_requestHostTimeout (startTime (mStore m firstTimer) - currentTime) m))
      | Some task \<Rightarrow>
          let (stop, m1) = mock_breakBefore hasTimeRemaining currentTime task m
          in if stop then Some (Inr True, m1)
             else (case callback (mStore m1 task) of
                CbFunction c \<Rightarrow>
                  let m2 = (mock_set_task task (\<lambda>t. t\<lparr>callback := CbNull\<rparr>) m1)
                             \<lparr>mCurrentPriorityLevel := priorityLevel (mStore m1 task)\<rparr>;
                      (result, m3) = run c (expirationTime (mStore m1 task) \<le> currentTime) m2
                  in (case result of
                        Throw e \<Rightarrow> Some (Inl (UserError e), m3)
                      | Continuation c' \<Rightarrow>
                          let now = mock_getCurrentTime m3;
                              m4 = mock_advanceTimers now
                                     (mock_set_task task (\<lambda>t. t\<lparr>callback := CbFunction c'\<rparr>) m3)
                          in if shouldYieldForPaint m4 then Some (Inr True, m4\<lparr>mNeedsPaint := True\<rparr>)
                             else mock_loop fuel run hasTimeRemaining now (m4\<lparr>mCurrentTask := peek (mTaskQueue m4)\<rparr>)
                      | NoContinuation \<Rightarrow>
                          let now = mock_getCurrentTime m3;
                              m4 = (if peek (mTaskQueue m3) = Some task then mock_pop_task m3 else m3);
                              m5 = mock_advanceTimers now m4
                          in mock_loop fuel run hasTimeRemaining now (m5\<lparr>mCurrentTask := peek (mTaskQueue m5)\<rparr>))
              | _ \<Rightarrow>
                  let m2 = mock_pop_task m1
                  in mock_loop fuel run hasTimeRemaining currentTime (m2\<lparr>mCurrentTask := peek (mTaskQueue m2)\<rparr>)))"

definition mock_workLoop :: "nat \<Rightarrow> ('c, 'v, 'e) mock_runner \<Rightarrow> bool \<Rightarrow> js_time \<Rightarrow> ('c, 'v) mock
    \<Rightarrow> (('e mock_error + bool) \<times> ('c, 'v) mock) option" where
  "mock_workLoop fuel run hasTimeRemaining initialTime m =
     (let m1 = mock_advanceTimers initialTime m
      in mock_loop fuel run hasTimeRemaining initialTime (m1\<lparr>mCurrentTask := peek (mTaskQueue m1)\<rparr>))"

text \<open>\<open>flushWork\<close>: the \<open>finally\<close> clause runs on every exit.\<close>
definition mock_enterFlush :: "('c, 'v) mock \<Rightarrow> ('c, 'v) mock" where
  "mock_enterFlush m =
     (let m1 = m\<lparr>mIsHostCallbackScheduled := False\<rparr>;
          m2 = (if mIsHostTimeoutScheduled m1
                then mock_cancelHostTimeout (m1\<lparr>mIsHostTimeoutScheduled := False\<rparr>) else m1)
      in m2\<lparr>mIsPerformingWork := True\<rparr>)"

definition mock_flushWork :: "nat \<Rightarrow> ('c, 'v, 'e) mock_runner \<Rightarrow> bool \<Rightarrow> js_time \<Rightarrow> ('c, 'v) mock
    \<Rightarrow> (('e mock_error + bool) \<times> ('c, 'v) mock) option" where
  "mock_flushWork fuel run hasTimeRemaining initialTime m =
     map_option (\<lambda>(r, m'). (r, m'\<lparr>mCurrentTask := None,
         mCurrentPriorityLevel := mCurrentPriorityLevel m, mIsPerformingWork := False\<rparr>))
       (mock_workLoop fuel run hasTimeRemaining initialTime (mock_enterFlush m))"

subsection \<open>The exported operations\<close>

definition mock_log :: "'v \<Rightarrow> ('c, 'v) mock \<Rightarrow> ('c, 'v) mock" where
  "mock_log v m =
     (if consoleDisabled m \<or> disableYieldValue m then m
      else (case yieldedValues m of
              None \<Rightarrow> m\<lparr>yieldedValues := Some [v]\<rparr>
            | Some vs \<Rightarrow> m\<lparr>yieldedValues := Some (vs @ [v])\<rparr>))"

definition mock_reset :: "('c, 'v) mock \<Rightarrow> ('e mock_error + unit) \<times> ('c, 'v) mock" where
  "mock_reset m =
     (if isFlushing m then (Inl (MockError ''Cannot reset while already flushing work.''), m)
      else (Inr (), m\<lparr>currentMockTime := 0, scheduledCallback := None, scheduledTimeout := None,
        timeoutTime := -1, yieldedValues := None, expectedNumberOfYields := -1, didStop := False,
        isFlushing := False, mNeedsPaint := False\<rparr>))"

definition mock_advanceTime :: "js_time \<Rightarrow> ('c, 'v) mock \<Rightarrow> ('c, 'v) mock" where
  "mock_advanceTime ms m =
     (if consoleDisabled m \<or> disableYieldValue m then m
      else let m1 = m\<lparr>currentMockTime := currentMockTime m + ms\<rparr>
           in if scheduledTimeout m1 \<noteq> None \<and> timeoutTime m1 \<le> currentMockTime m1
              then (mock_handleTimeout (currentMockTime m1) m1)\<lparr>timeoutTime := -1, scheduledTimeout := None\<rparr>
              else m1)"

definition mock_cancelCallback :: "nat \<Rightarrow> ('c, 'v) mock \<Rightarrow> ('c, 'v) mock" where
  "mock_cancelCallback t m = mock_set_task t (\<lambda>x. x\<lparr>callback := CbNull\<rparr>) m"

definition mock_clearLog :: "('c, 'v) mock \<Rightarrow> 'v list \<times> ('c, 'v) mock" where
  "mock_clearLog m =
     (case yieldedValues m of None \<Rightarrow> ([], m) | Some values \<Rightarrow> (values, m\<lparr>yieldedValues := None\<rparr>))"

text \<open>The \<open>do ... while\<close> loop of the flush operations: call the host callback until it reports no
  more work, or \<open>stop\<close> holds. The result is the last report.\<close>
fun mock_flushLoop :: "nat \<Rightarrow> nat \<Rightarrow> ('c, 'v, 'e) mock_runner \<Rightarrow> (('c, 'v) mock \<Rightarrow> bool) \<Rightarrow> ('c, 'v) mock
    \<Rightarrow> (('e mock_error + bool) \<times> ('c, 'v) mock) option" where
  "mock_flushLoop 0 fuel run stop m = None"
| "mock_flushLoop (Suc n) fuel run stop m =
     (case mock_flushWork fuel run True (currentMockTime m) m of
        None \<Rightarrow> None
      | Some (Inl e, m') \<Rightarrow> Some (Inl e, m')
      | Some (Inr hasMoreWork, m') \<Rightarrow>
          if hasMoreWork \<and> \<not> stop m' then mock_flushLoop n fuel run stop m' else Some (Inr hasMoreWork, m'))"

text \<open>\<open>if (!hasMoreWork) scheduledCallback = null\<close>\<close>
definition mock_dropCallback :: "('e mock_error + bool) \<Rightarrow> ('c, 'v) mock \<Rightarrow> ('c, 'v) mock" where
  "mock_dropCallback r m = (if r = Inr False then m\<lparr>scheduledCallback := None\<rparr> else m)"

definition mock_flushAllWithoutAsserting :: "nat \<Rightarrow> ('c, 'v, 'e) mock_runner \<Rightarrow> ('c, 'v) mock
    \<Rightarrow> (('e mock_error + bool) \<times> ('c, 'v) mock) option" where
  "mock_flushAllWithoutAsserting fuel run m =
     (if isFlushing m then Some (Inl (MockError ''Already flushing work.''), m)
      else if scheduledCallback m \<noteq> None
      then map_option (\<lambda>(r, m'). (map_sum id (\<lambda>_. True) r, (mock_dropCallback r m')\<lparr>isFlushing := False\<rparr>))
             (mock_flushLoop fuel fuel run (\<lambda>_. False) (m\<lparr>isFlushing := True\<rparr>))
      else Some (Inr False, m))"

definition mock_flushAll :: "nat \<Rightarrow> ('c, 'v, 'e) mock_runner \<Rightarrow> ('c, 'v) mock
    \<Rightarrow> (('e mock_error + unit) \<times> ('c, 'v) mock) option" where
  "mock_flushAll fuel run m =
     (if yieldedValues m \<noteq> None
      then Some (Inl (MockError ''Log is not empty. Assert on the log of yielded values before flushing additional work.''), m)
      else (case mock_flushAllWithoutAsserting fuel run m of
              None \<Rightarrow> None
            | Some (Inl e, m') \<Rightarrow> Some (Inl e, m')
            | Some (Inr _, m') \<Rightarrow>
                if yieldedValues m' \<noteq> None
                then Some (Inl (MockError ''While flushing work, something yielded a value. Use an assertion helper to assert on the log of yielded values, e.g. expect(Scheduler).toFlushAndYield([...])''), m')
                else Some (Inr (), m')))"

definition mock_flushExpired :: "nat \<Rightarrow> ('c, 'v, 'e) mock_runner \<Rightarrow> ('c, 'v) mock
    \<Rightarrow> (('e mock_error + unit) \<times> ('c, 'v) mock) option" where
  "mock_flushExpired fuel run m =
     (if isFlushing m then Some (Inl (MockError ''Already flushing work.''), m)
      else if scheduledCallback m \<noteq> None
      then map_option (\<lambda>(r, m'). (map_sum id (\<lambda>_. ()) r, (mock_dropCallback r m')\<lparr>isFlushing := False\<rparr>))
             (mock_flushWork fuel run False (currentMockTime m) (m\<lparr>isFlushing := True\<rparr>))
      else Some (Inr (), m))"

definition mock_flushNumberOfYields :: "nat \<Rightarrow> ('c, 'v, 'e) mock_runner \<Rightarrow> int \<Rightarrow> ('c, 'v) mock
    \<Rightarrow> (('e mock_error + unit) \<times> ('c, 'v) mock) option" where
  "mock_flushNumberOfYields fuel run cnt m =
     (if isFlushing m then Some (Inl (MockError ''Already flushing work.''), m)
      else if scheduledCallback m \<noteq> None
      then map_option (\<lambda>(r, m'). (map_sum id (\<lambda>_. ()) r,
               (mock_dropCallback r m')\<lparr>expectedNumberOfYields := -1, didStop := False, isFlushing := False\<rparr>))
             (mock_flushLoop fuel fuel run didStop (m\<lparr>expectedNumberOfYields := cnt, isFlushing := True\<rparr>))
      else Some (Inr (), m))"

definition mock_flushUntilNextPaint :: "nat \<Rightarrow> ('c, 'v, 'e) mock_runner \<Rightarrow> ('c, 'v) mock
    \<Rightarrow> (('e mock_error + bool) \<times> ('c, 'v) mock) option" where
  "mock_flushUntilNextPaint fuel run m =
     (if isFlushing m then Some (Inl (MockError ''Already flushing work.''), m)
      else if scheduledCallback m \<noteq> None
      then map_option (\<lambda>(r, m'). (map_sum id (\<lambda>_. False) r,
               (mock_dropCallback r m')\<lparr>shouldYieldForPaint := False, didStop := False, isFlushing := False\<rparr>))
             (mock_flushLoop fuel fuel run didStop
               (m\<lparr>shouldYieldForPaint := True, mNeedsPaint := False, isFlushing := True\<rparr>))
      else Some (Inr False, m))"

definition mock_getCurrentPriorityLevel :: "('c, 'v) mock \<Rightarrow> int" where
  "mock_getCurrentPriorityLevel m = mCurrentPriorityLevel m"

definition mock_hasPendingWork :: "('c, 'v) mock \<Rightarrow> bool" where
  "mock_hasPendingWork m = (scheduledCallback m \<noteq> None)"

definition mock_withPriority :: "int \<Rightarrow> (('c, 'v) mock \<Rightarrow> 'r \<times> ('c, 'v) mock) \<Rightarrow> ('c, 'v) mock \<Rightarrow> 'r \<times> ('c, 'v) mock" where
  "mock_withPriority p eventHandler m =
     (let previousPriorityLevel = mCurrentPriorityLevel m;
          (r, m') = eventHandler (m\<lparr>mCurrentPriorityLevel := p\<rparr>)
      in (r, m'\<lparr>mCurrentPriorityLevel := previousPriorityLevel\<rparr>))"

definition mock_next :: "(('c, 'v) mock \<Rightarrow> 'r \<times> ('c, 'v) mock) \<Rightarrow> ('c, 'v) mock \<Rightarrow> 'r \<times> ('c, 'v) mock" where
  "mock_next eventHandler m =
     (let p = mCurrentPriorityLevel m
      in mock_withPriority (if p = 1 \<or> p = 2 \<or> p = 3 then 3 else p) eventHandler m)"

definition mock_requestPaint :: "('c, 'v) mock \<Rightarrow> ('c, 'v) mock" where
  "mock_requestPaint m = m\<lparr>mNeedsPaint := True\<rparr>"

definition mock_runWithPriority ::
  "int \<Rightarrow> (('c, 'v) mock \<Rightarrow> 'r \<times> ('c, 'v) mock) \<Rightarrow> ('c, 'v) mock \<Rightarrow> 'r \<times> ('c, 'v) mock" where
  "mock_runWithPriority p eventHandler m =
     mock_withPriority (if p = 1 \<or> p = 2 \<or> p = 3 \<or> p = 4 \<or> p = 5 then p else 3) eventHandler m"

definition mock_wrapCallback ::
  "(('c, 'v) mock \<Rightarrow> 'r \<times> ('c, 'v) mock) \<Rightarrow> ('c, 'v) mock \<Rightarrow> (('c, 'v) mock \<Rightarrow> 'r \<times> ('c, 'v) mock)" where
  "mock_wrapCallback cb m =
     (let parentPriorityLevel = mCurrentPriorityLevel m in mock_withPriority parentPriorityLevel cb)"

definition mock_scheduleCallback ::
  "int \<Rightarrow> 'c callback_value \<Rightarrow> schedule_options \<Rightarrow> ('c, 'v) mock \<Rightarrow> nat \<times> ('c, 'v) mock" where
  "mock_scheduleCallback prio cb options m =
     (let currentTime = mock_getCurrentTime m;
          start = optionsStartTime currentTime options;
          expiration = start + timeoutForPriority prio;
          t = mTaskIdCounter m;
          m1 = (mock_set_task t (\<lambda>_. \<lparr>tid = t, callback = cb, priorityLevel = prio, startTime = start,
                     expirationTime = expiration, sortIndex = -1\<rparr>) m)\<lparr>mTaskIdCounter := Suc t\<rparr>
      in if start > currentTime
         then let m2 = mock_push_timer t (mock_set_task t (\<lambda>x. x\<lparr>sortIndex := start\<rparr>) m1)
              in if peek (mTaskQueue m2) = None \<and> peek (mTimerQueue m2) = Some t
                 then let m3 = (if mIsHostTimeoutScheduled m2 then mock_cancelHostTimeout m2
                                else m2\<lparr>mIsHostTimeoutScheduled := True\<rparr>)
                      in (t, mock_requestHostTimeout (start - currentTime) m3)
                 else (t, m2)
         else let m2 = mock_push_task t (mock_set_task t (\<lambda>x. x\<lparr>sortIndex := expiration\<rparr>) m1)
              in if \<not> mIsHostCallbackScheduled m2 \<and> \<not> mIsPerformingWork m2
                 then (t, mock_requestHostCallback (m2\<lparr>mIsHostCallbackScheduled := True\<rparr>))
                 else (t, m2))"

definition mock_setDisableYieldValue :: "bool \<Rightarrow> ('c, 'v) mock \<Rightarrow> ('c, 'v) mock" where
  "mock_setDisableYieldValue b m = m\<lparr>disableYieldValue := b\<rparr>"

end
