(* ===== verification/Mock_Props.thy ===== *)
theory Mock_Props
  imports Mock_Scheduler
begin

text \<open>
  What the test scheduler guarantees. The queues are those of the real scheduler (\<open>core\<close>), so its
  invariant carries over; the state machine of a test run (\<open>mock_reachable\<close>) then gives the
  wake-up and flush properties. Two ways in which the test scheduler can lose a wake-up, and one
  in which \<open>reset\<close> does, are concrete runs at the end.
\<close>

subsection \<open>The queues are the real scheduler's\<close>

definition core :: "('c, 'v) mock \<Rightarrow> 'c sched" where
  "core m = (init_sched (\<lambda>_. 0))\<lparr>store := mStore m, taskQueue := mTaskQueue m, timerQueue := mTimerQueue m,
     taskIdCounter := mTaskIdCounter m\<rparr>"

lemma core_fields [simp]:
  "store (core m) = mStore m" "taskQueue (core m) = mTaskQueue m" "timerQueue (core m) = mTimerQueue m"
  "taskIdCounter (core m) = mTaskIdCounter m"
  by (simp_all add: core_def)

lemma mock_compare_core [simp]: "mock_compare m = compare (mStore m)"
  by (intro ext) (simp add: mock_compare_def compare_def)

lemmas mock_queue_defs = mock_pop_timer_def mock_pop_task_def mock_push_timer_def mock_push_task_def
  mock_set_task_def mock_push_def mock_pop_def

lemma core_sim:
  "core (mock_pop_timer m) = pop_timer (core m)"
  "core (mock_pop_task m) = pop_task (core m)"
  "core (mock_push_timer t m) = push_timer t (core m)"
  "core (mock_push_task t m) = push_task t (core m)"
  "core (mock_set_task t f m) = set_task t f (core m)"
  by (simp_all add: core_def mock_queue_defs pop_timer_def pop_task_def push_timer_def push_task_def set_task_def)

lemma core_frame [simp]:
  "core (m\<lparr>mCurrentTask := x1\<rparr>) = core m" "core (m\<lparr>mCurrentPriorityLevel := x2\<rparr>) = core m"
  "core (m\<lparr>mIsPerformingWork := b\<rparr>) = core m" "core (m\<lparr>mIsHostCallbackScheduled := b\<rparr>) = core m"
  "core (m\<lparr>mIsHostTimeoutScheduled := b\<rparr>) = core m" "core (m\<lparr>currentMockTime := t\<rparr>) = core m"
  "core (m\<lparr>scheduledCallback := x3\<rparr>) = core m" "core (m\<lparr>scheduledTimeout := x4\<rparr>) = core m"
  "core (m\<lparr>timeoutTime := t\<rparr>) = core m" "core (m\<lparr>yieldedValues := x5\<rparr>) = core m"
  "core (m\<lparr>expectedNumberOfYields := x2\<rparr>) = core m" "core (m\<lparr>didStop := b\<rparr>) = core m"
  "core (m\<lparr>isFlushing := b\<rparr>) = core m" "core (m\<lparr>mNeedsPaint := b\<rparr>) = core m"
  "core (m\<lparr>shouldYieldForPaint := b\<rparr>) = core m" "core (m\<lparr>disableYieldValue := b\<rparr>) = core m"
  by (simp_all add: core_def)

lemma core_advanceTimers: "core (mock_advanceTimers now m) = advanceTimers now (core m)"
proof (induction now m rule: mock_advanceTimers.induct)
  case (1 now m)
  show ?case
    using 1 mock_advanceTimers.simps [of now m] advanceTimers.simps [of now "core m"]
    by (auto simp: core_sim split: option.splits)
qed

lemma mock_advanceTimers_queues [simp]:
  "mStore (mock_advanceTimers now m) = store (advanceTimers now (core m))"
  "mTaskQueue (mock_advanceTimers now m) = taskQueue (advanceTimers now (core m))"
  "mTimerQueue (mock_advanceTimers now m) = timerQueue (advanceTimers now (core m))"
  "mTaskIdCounter (mock_advanceTimers now m) = taskIdCounter (core m)"
  using core_advanceTimers [of now m] by (metis core_fields(1), metis core_fields(2), metis core_fields(3),
    metis core_fields(4) advanceTimers_frame_simps(1))

lemma mock_frame_refl: "\<exists>st tq mq. m = m\<lparr>mStore := st, mTaskQueue := tq, mTimerQueue := mq\<rparr>"
  by (intro exI [of _ "mStore m"] exI [of _ "mTaskQueue m"] exI [of _ "mTimerQueue m"]) simp

lemma mock_advanceTimers_frame:
  "\<exists>st tq mq. mock_advanceTimers now m = m\<lparr>mStore := st, mTaskQueue := tq, mTimerQueue := mq\<rparr>"
proof (induction now m rule: mock_advanceTimers.induct)
  case (1 now m)
  show ?case
    using 1 mock_advanceTimers.simps [of now m]
    by (auto simp: mock_queue_defs intro: mock_frame_refl split: option.splits)
qed

lemma mock_advanceTimers_fields [simp]:
  "mCurrentTask (mock_advanceTimers now m) = mCurrentTask m"
  "mCurrentPriorityLevel (mock_advanceTimers now m) = mCurrentPriorityLevel m"
  "mIsPerformingWork (mock_advanceTimers now m) = mIsPerformingWork m"
  "mIsHostCallbackScheduled (mock_advanceTimers now m) = mIsHostCallbackScheduled m"
  "mIsHostTimeoutScheduled (mock_advanceTimers now m) = mIsHostTimeoutScheduled m"
  "currentMockTime (mock_advanceTimers now m) = currentMockTime m"
  "scheduledCallback (mock_advanceTimers now m) = scheduledCallback m"
  "scheduledTimeout (mock_advanceTimers now m) = scheduledTimeout m"
  "timeoutTime (mock_advanceTimers now m) = timeoutTime m"
  "yieldedValues (mock_advanceTimers now m) = yieldedValues m"
  "expectedNumberOfYields (mock_advanceTimers now m) = expectedNumberOfYields m"
  "didStop (mock_advanceTimers now m) = didStop m"
  "isFlushing (mock_advanceTimers now m) = isFlushing m"
  "mNeedsPaint (mock_advanceTimers now m) = mNeedsPaint m"
  "shouldYieldForPaint (mock_advanceTimers now m) = shouldYieldForPaint m"
  "disableYieldValue (mock_advanceTimers now m) = disableYieldValue m"
  "consoleDisabled (mock_advanceTimers now m) = consoleDisabled m"
  using mock_advanceTimers_frame [of now m] by auto

lemma mock_queue_op_fields [simp]:
  "mCurrentTask (mock_set_task t f m) = mCurrentTask m"
  "mCurrentPriorityLevel (mock_set_task t f m) = mCurrentPriorityLevel m"
  "mIsPerformingWork (mock_set_task t f m) = mIsPerformingWork m"
  "mIsHostCallbackScheduled (mock_set_task t f m) = mIsHostCallbackScheduled m"
  "mIsHostTimeoutScheduled (mock_set_task t f m) = mIsHostTimeoutScheduled m"
  "currentMockTime (mock_set_task t f m) = currentMockTime m"
  "scheduledCallback (mock_set_task t f m) = scheduledCallback m"
  "scheduledTimeout (mock_set_task t f m) = scheduledTimeout m"
  "timeoutTime (mock_set_task t f m) = timeoutTime m"
  "yieldedValues (mock_set_task t f m) = yieldedValues m"
  "expectedNumberOfYields (mock_set_task t f m) = expectedNumberOfYields m"
  "didStop (mock_set_task t f m) = didStop m"
  "isFlushing (mock_set_task t f m) = isFlushing m"
  "mNeedsPaint (mock_set_task t f m) = mNeedsPaint m"
  "shouldYieldForPaint (mock_set_task t f m) = shouldYieldForPaint m"
  "disableYieldValue (mock_set_task t f m) = disableYieldValue m"
  "consoleDisabled (mock_set_task t f m) = consoleDisabled m"
  "mCurrentTask (mock_pop_task m) = mCurrentTask m"
  "mCurrentPriorityLevel (mock_pop_task m) = mCurrentPriorityLevel m"
  "mIsPerformingWork (mock_pop_task m) = mIsPerformingWork m"
  "mIsHostCallbackScheduled (mock_pop_task m) = mIsHostCallbackScheduled m"
  "mIsHostTimeoutScheduled (mock_pop_task m) = mIsHostTimeoutScheduled m"
  "currentMockTime (mock_pop_task m) = currentMockTime m"
  "scheduledCallback (mock_pop_task m) = scheduledCallback m"
  "scheduledTimeout (mock_pop_task m) = scheduledTimeout m"
  "timeoutTime (mock_pop_task m) = timeoutTime m"
  "yieldedValues (mock_pop_task m) = yieldedValues m"
  "expectedNumberOfYields (mock_pop_task m) = expectedNumberOfYields m"
  "didStop (mock_pop_task m) = didStop m"
  "isFlushing (mock_pop_task m) = isFlushing m"
  "mNeedsPaint (mock_pop_task m) = mNeedsPaint m"
  "shouldYieldForPaint (mock_pop_task m) = shouldYieldForPaint m"
  "disableYieldValue (mock_pop_task m) = disableYieldValue m"
  "consoleDisabled (mock_pop_task m) = consoleDisabled m"
  by (simp_all add: mock_queue_defs)

lemma mock_set_task_queues [simp]:
  "mTaskQueue (mock_set_task t f m) = mTaskQueue m" "mTimerQueue (mock_set_task t f m) = mTimerQueue m"
  "mTaskIdCounter (mock_set_task t f m) = mTaskIdCounter m"
  "mStore (mock_set_task t f m) = (mStore m)(t := f (mStore m t))"
  by (simp_all add: mock_set_task_def)

text \<open>Filing a task follows the real scheduler.\<close>
lemma core_scheduleCallback:
  assumes "clock s = (\<lambda>_. currentMockTime m)" "store s = mStore m" "taskQueue s = mTaskQueue m"
    "timerQueue s = mTimerQueue m" "taskIdCounter s = mTaskIdCounter m"
  shows "fst (mock_scheduleCallback p cb opts m) = fst (unstable_scheduleCallback p cb opts s)"
    "mStore (snd (mock_scheduleCallback p cb opts m)) = store (snd (unstable_scheduleCallback p cb opts s))"
    "mTaskQueue (snd (mock_scheduleCallback p cb opts m)) = taskQueue (snd (unstable_scheduleCallback p cb opts s))"
    "mTimerQueue (snd (mock_scheduleCallback p cb opts m)) = timerQueue (snd (unstable_scheduleCallback p cb opts s))"
    "mTaskIdCounter (snd (mock_scheduleCallback p cb opts m)) = taskIdCounter (snd (unstable_scheduleCallback p cb opts s))"
  using assms
  by (simp_all add: mock_scheduleCallback_def unstable_scheduleCallback_def mock_getCurrentTime_def
      unstable_now_def mock_queue_defs push_task_def push_timer_def set_task_def host_defs
      mock_requestHostTimeout_def mock_requestHostCallback_def mock_cancelHostTimeout_def Let_def)

definition mqueues_ok :: "('c, 'v) mock \<Rightarrow> bool" where
  "mqueues_ok m \<longleftrightarrow> queues_ok (core m)"

lemma mqueues_ok_schedule: "mqueues_ok m \<Longrightarrow> mqueues_ok (snd (mock_scheduleCallback p cb opts m))"
proof -
  let ?s = "(core m)\<lparr>clock := \<lambda>_. currentMockTime m\<rparr>"
  let ?m = "snd (mock_scheduleCallback p cb opts m)" and ?s' = "snd (unstable_scheduleCallback p cb opts ?s)"
  assume "mqueues_ok m"
  then have "queues_ok ?s" by (simp add: mqueues_ok_def queue_defs)
  then have "queues_ok ?s'" by (rule queues_ok_schedule)
  moreover have "store ?s' = store (core ?m)" "taskQueue ?s' = taskQueue (core ?m)"
    "timerQueue ?s' = timerQueue (core ?m)" "taskIdCounter ?s' = taskIdCounter (core ?m)"
    using core_scheduleCallback [of ?s m p cb opts] by simp_all
  ultimately show ?thesis by (simp add: mqueues_ok_def queue_defs)
qed

subsection \<open>User code and test runs\<close>

text \<open>What a callback may do to the test scheduler: everything the exports offer, except moving the
  clock, resetting and flushing (the flush operations refuse it).\<close>
inductive mock_api :: "('c, 'v) mock \<Rightarrow> ('c, 'v) mock \<Rightarrow> bool" where
  mapi_done: "mock_api m m"
| mapi_schedule: "mock_api m m' \<Longrightarrow> mock_api m (snd (mock_scheduleCallback p cb opts m'))"
| mapi_cancel: "mock_api m m' \<Longrightarrow> mock_api m (mock_cancelCallback t m')"
| mapi_paint: "mock_api m m' \<Longrightarrow> mock_api m (mock_requestPaint m')"
| mapi_log: "mock_api m m' \<Longrightarrow> mock_api m (mock_log v m')"
| mapi_clear_log: "mock_api m m' \<Longrightarrow> mock_api m (snd (mock_clearLog m'))"
| mapi_should_yield: "mock_api m m' \<Longrightarrow> mock_api m (snd (mock_shouldYieldToHost m'))"
| mapi_disable: "mock_api m m' \<Longrightarrow> mock_api m (mock_setDisableYieldValue b m')"
| mapi_priority: "mock_api m m' \<Longrightarrow> mock_api (m'\<lparr>mCurrentPriorityLevel := p\<rparr>) m'' \<Longrightarrow>
    mock_api m (m''\<lparr>mCurrentPriorityLevel := mCurrentPriorityLevel m'\<rparr>)"

definition mock_api_runner :: "('c, 'v, 'e) mock_runner \<Rightarrow> bool" where
  "mock_api_runner run \<longleftrightarrow> (\<forall>c b m. mock_api m (snd (run c b m)))"

lemmas mock_op_defs = mock_cancelCallback_def mock_requestPaint_def mock_log_def mock_clearLog_def
  mock_shouldYieldToHost_def mock_setDisableYieldValue_def mock_requestHostTimeout_def
  mock_requestHostCallback_def mock_cancelHostTimeout_def

lemma mqueues_ok_cong: "core m' = core m \<Longrightarrow> mqueues_ok m' = mqueues_ok m"
  by (simp add: mqueues_ok_def)

lemma mqueues_ok_callback:
  "mqueues_ok m \<Longrightarrow> mqueues_ok (mock_set_task t (\<lambda>x. x\<lparr>callback := c\<rparr>) m)"
  by (simp add: mqueues_ok_def core_sim queues_ok_set_callback)

lemma mqueues_ok_simple [simp]:
  "mqueues_ok (m\<lparr>mCurrentTask := x1\<rparr>) = mqueues_ok m" "mqueues_ok (m\<lparr>mCurrentPriorityLevel := x2\<rparr>) = mqueues_ok m"
  "mqueues_ok (m\<lparr>mIsPerformingWork := b\<rparr>) = mqueues_ok m" "mqueues_ok (m\<lparr>mIsHostCallbackScheduled := b\<rparr>) = mqueues_ok m"
  "mqueues_ok (m\<lparr>mIsHostTimeoutScheduled := b\<rparr>) = mqueues_ok m" "mqueues_ok (m\<lparr>currentMockTime := t\<rparr>) = mqueues_ok m"
  "mqueues_ok (m\<lparr>scheduledCallback := x3\<rparr>) = mqueues_ok m" "mqueues_ok (m\<lparr>scheduledTimeout := x4\<rparr>) = mqueues_ok m"
  "mqueues_ok (m\<lparr>timeoutTime := t\<rparr>) = mqueues_ok m" "mqueues_ok (m\<lparr>yieldedValues := x5\<rparr>) = mqueues_ok m"
  "mqueues_ok (m\<lparr>expectedNumberOfYields := x2\<rparr>) = mqueues_ok m" "mqueues_ok (m\<lparr>didStop := b\<rparr>) = mqueues_ok m"
  "mqueues_ok (m\<lparr>isFlushing := b\<rparr>) = mqueues_ok m" "mqueues_ok (m\<lparr>mNeedsPaint := b\<rparr>) = mqueues_ok m"
  "mqueues_ok (m\<lparr>shouldYieldForPaint := b\<rparr>) = mqueues_ok m" "mqueues_ok (m\<lparr>disableYieldValue := b\<rparr>) = mqueues_ok m"
  by (simp_all add: mqueues_ok_def)

lemma mqueues_ok_api: "mock_api m m' \<Longrightarrow> mqueues_ok m \<Longrightarrow> mqueues_ok m'"
  by (induction rule: mock_api.induct)
     (auto simp: mqueues_ok_schedule mqueues_ok_callback mock_op_defs split: option.splits)

text \<open>The variables a callback cannot change.\<close>
lemma mock_scheduleCallback_fields:
  "mCurrentPriorityLevel (snd (mock_scheduleCallback p cb opts m)) = mCurrentPriorityLevel m"
  "mIsPerformingWork (snd (mock_scheduleCallback p cb opts m)) = mIsPerformingWork m"
  "currentMockTime (snd (mock_scheduleCallback p cb opts m)) = currentMockTime m"
  "expectedNumberOfYields (snd (mock_scheduleCallback p cb opts m)) = expectedNumberOfYields m"
  "shouldYieldForPaint (snd (mock_scheduleCallback p cb opts m)) = shouldYieldForPaint m"
  "isFlushing (snd (mock_scheduleCallback p cb opts m)) = isFlushing m"
  "mCurrentTask (snd (mock_scheduleCallback p cb opts m)) = mCurrentTask m"
  "didStop (snd (mock_scheduleCallback p cb opts m)) = didStop m"
  by (simp_all add: mock_scheduleCallback_def mock_queue_defs mock_op_defs Let_def)

definition fixed :: "('c, 'v) mock \<Rightarrow> ('c, 'v) mock \<Rightarrow> bool" where
  "fixed m m' \<longleftrightarrow> mIsPerformingWork m' = mIsPerformingWork m \<and> currentMockTime m' = currentMockTime m \<and>
     expectedNumberOfYields m' = expectedNumberOfYields m \<and> shouldYieldForPaint m' = shouldYieldForPaint m \<and>
     isFlushing m' = isFlushing m"

lemma mock_api_fixed:
  "mock_api m m' \<Longrightarrow> fixed m m' \<and> mCurrentPriorityLevel m' = mCurrentPriorityLevel m \<and> mCurrentTask m' = mCurrentTask m"
  by (induction rule: mock_api.induct)
     (auto simp: fixed_def mock_scheduleCallback_fields mock_op_defs split: option.splits)

text \<open>A stop request is only ever recorded for a flush that asked for one.\<close>
definition stop_ok :: "('c, 'v) mock \<Rightarrow> bool" where
  "stop_ok m \<longleftrightarrow> (didStop m \<longrightarrow> expectedNumberOfYields m \<noteq> -1 \<or> shouldYieldForPaint m)"

lemma mock_api_stop: "mock_api m m' \<Longrightarrow> stop_ok m \<Longrightarrow> stop_ok m'"
  by (induction rule: mock_api.induct)
     (auto simp: stop_ok_def mock_scheduleCallback_fields mock_op_defs split: option.splits)

text \<open>Between operations of a test: ready work has a host callback.\<close>
definition mock_idle :: "('c, 'v) mock \<Rightarrow> bool" where
  "mock_idle m \<longleftrightarrow> \<not> mIsPerformingWork m \<and> \<not> isFlushing m \<and> expectedNumberOfYields m = -1 \<and>
     \<not> shouldYieldForPaint m \<and> \<not> didStop m \<and> mCurrentTask m = None \<and>
     (mTaskQueue m \<noteq> [] \<longrightarrow> scheduledCallback m \<noteq> None) \<and>
     (mIsHostCallbackScheduled m \<longrightarrow> scheduledCallback m \<noteq> None)"

text \<open>While a flush runs.\<close>
definition mock_busy :: "('c, 'v) mock \<Rightarrow> bool" where
  "mock_busy m \<longleftrightarrow> mIsPerformingWork m \<and> \<not> mIsHostCallbackScheduled m \<and> scheduledCallback m \<noteq> None"

lemma mock_api_busy: "mock_api m m' \<Longrightarrow> mock_busy m \<Longrightarrow> mock_busy m'"
proof (induction rule: mock_api.induct)
  case (mapi_schedule m m' p cb opts)
  then show ?case
    by (auto simp: mock_busy_def mock_scheduleCallback_def mock_queue_defs mock_op_defs Let_def)
qed (auto simp: mock_busy_def mock_op_defs split: option.splits)

lemma mock_schedule_wake:
  "mock_idle m \<Longrightarrow> mock_idle (snd (mock_scheduleCallback p cb opts m))"
  by (auto simp: mock_idle_def mock_scheduleCallback_def mock_queue_defs mock_op_defs Let_def)

lemma mock_api_level: "mock_api m m' \<Longrightarrow> mCurrentPriorityLevel m' = mCurrentPriorityLevel m"
  using mock_api_fixed by blast

lemma mock_api_idle: "mock_api m m' \<Longrightarrow> mock_idle m \<Longrightarrow> mock_idle m'"
proof (induction rule: mock_api.induct)
  case (mapi_schedule m m' p cb opts)
  then show ?case using mock_schedule_wake by blast
next
  case (mapi_should_yield m m')
  then show ?case by (auto simp: mock_idle_def mock_op_defs)
qed (auto simp: mock_idle_def mock_op_defs split: option.splits)

subsection \<open>The work loop\<close>

definition mloop_ok :: "('c, 'v) mock \<Rightarrow> bool" where
  "mloop_ok m \<longleftrightarrow> mqueues_ok m \<and> mock_busy m \<and> stop_ok m \<and> peek (mTaskQueue m) = mCurrentTask m"

definition mock_enter :: "nat \<Rightarrow> ('c, 'v) mock \<Rightarrow> ('c, 'v) mock" where
  "mock_enter task m = (mock_set_task task (\<lambda>t. t\<lparr>callback := CbNull\<rparr>) m)
     \<lparr>mCurrentPriorityLevel := priorityLevel (mStore m task)\<rparr>"

text \<open>The state at the head of the next round.\<close>
definition mock_resume :: "js_time \<Rightarrow> ('c, 'v) mock \<Rightarrow> ('c, 'v) mock" where
  "mock_resume now m = (let m' = mock_advanceTimers now m in m'\<lparr>mCurrentTask := peek (mTaskQueue m')\<rparr>)"

definition mock_drop :: "nat \<Rightarrow> ('c, 'v) mock \<Rightarrow> ('c, 'v) mock" where
  "mock_drop task m = (if peek (mTaskQueue m) = Some task then mock_pop_task m else m)"

lemma mock_breakBefore_fields:
  "mStore (snd (mock_breakBefore h now t m)) = mStore m" "mTaskQueue (snd (mock_breakBefore h now t m)) = mTaskQueue m"
  "mqueues_ok (snd (mock_breakBefore h now t m)) = mqueues_ok m" "mock_busy (snd (mock_breakBefore h now t m)) = mock_busy m"
  "fixed m (snd (mock_breakBefore h now t m))" "stop_ok m \<Longrightarrow> stop_ok (snd (mock_breakBefore h now t m))"
  "mCurrentTask (snd (mock_breakBefore h now t m)) = mCurrentTask m"
  by (auto simp: mock_breakBefore_def mock_shouldYieldToHost_def mock_busy_def stop_ok_def fixed_def split: option.splits)

lemma mock_round [case_names out_of_fuel drained stopped cancelled threw paint continued finished]:
  obtains
    (out_of_fuel) "fuel = 0"
  | (drained) "mCurrentTask m = None" "\<exists>m'. mock_loop fuel run h now m = Some (Inr False, m') \<and>
      (m' = m \<or> (\<exists>ms. m' = mock_requestHostTimeout ms m))"
  | (stopped) task where "mCurrentTask m = Some task" "fst (mock_breakBefore h now task m)"
      "mock_loop fuel run h now m = Some (Inr True, snd (mock_breakBefore h now task m))"
  | (cancelled) task n where "fuel = Suc n" "mCurrentTask m = Some task" "\<not> fst (mock_breakBefore h now task m)"
      "\<And>c. callback (mStore m task) \<noteq> CbFunction c"
      "mock_loop fuel run h now m = mock_loop n run h now
         (let m2 = mock_pop_task (snd (mock_breakBefore h now task m)) in m2\<lparr>mCurrentTask := peek (mTaskQueue m2)\<rparr>)"
  | (threw) task c b e m3 where "mCurrentTask m = Some task"
      "run c b (mock_enter task (snd (mock_breakBefore h now task m))) = (Throw e, m3)"
      "mock_loop fuel run h now m = Some (Inl (UserError e), m3)"
  | (paint) task c b c' m3 where "mCurrentTask m = Some task"
      "run c b (mock_enter task (snd (mock_breakBefore h now task m))) = (Continuation c', m3)"
      "shouldYieldForPaint m3"
      "mock_loop fuel run h now m = Some (Inr True,
         (mock_advanceTimers (currentMockTime m3) (mock_set_task task (\<lambda>t. t\<lparr>callback := CbFunction c'\<rparr>) m3))\<lparr>mNeedsPaint := True\<rparr>)"
  | (continued) task c b c' n m3 where "fuel = Suc n" "mCurrentTask m = Some task"
      "run c b (mock_enter task (snd (mock_breakBefore h now task m))) = (Continuation c', m3)"
      "mock_loop fuel run h now m = mock_loop n run h (currentMockTime m3)
         (mock_resume (currentMockTime m3) (mock_set_task task (\<lambda>t. t\<lparr>callback := CbFunction c'\<rparr>) m3))"
  | (finished) task c b n m3 where "fuel = Suc n" "mCurrentTask m = Some task"
      "run c b (mock_enter task (snd (mock_breakBefore h now task m))) = (NoContinuation, m3)"
      "mock_loop fuel run h now m = mock_loop n run h (currentMockTime m3)
         (mock_resume (currentMockTime m3) (mock_drop task m3))"
proof (cases fuel)
  case 0
  then show thesis by (rule out_of_fuel)
next
  case (Suc n)
  show thesis
  proof (cases "mCurrentTask m")
    case None
    show thesis
      by (rule drained [OF None]) (use Suc None in \<open>auto split: option.splits\<close>)
  next
    case (Some task)
    note t = this
    obtain y m1 where ys: "mock_breakBefore h now task m = (y, m1)" by fastforce
    have st: "mStore m1 = mStore m" using mock_breakBefore_fields(1) [of h now task m] ys by simp
    show thesis
    proof (cases y)
      case True
      then show thesis using stopped t ys Suc by simp
    next
      case False
      show thesis
      proof (cases "callback (mStore m task)")
        case (CbFunction c)
        obtain r m3 where r: "run c (expirationTime (mStore m task) \<le> now) (mock_enter task m1) = (r, m3)"
          by fastforce
        show thesis
        proof (cases r)
          case (Continuation c')
          then show thesis
            using paint [of task c] continued [of n task c] t ys False Suc CbFunction r st
            by (cases "shouldYieldForPaint m3")
               (simp_all add: Let_def mock_enter_def mock_resume_def mock_getCurrentTime_def)
        qed (use threw [of task c] finished [of n task c] t ys False Suc CbFunction r st in
              \<open>simp_all add: Let_def mock_enter_def mock_resume_def mock_drop_def mock_getCurrentTime_def\<close>)
      qed (use cancelled t ys False Suc st in \<open>simp_all add: Let_def\<close>)
    qed
  qed
qed

lemma mock_schedule_queue_mono:
  "set (mTaskQueue m) \<subseteq> set (mTaskQueue (snd (mock_scheduleCallback p cb opts m)))"
  using core_scheduleCallback(3) [of "(core m)\<lparr>clock := \<lambda>_. currentMockTime m\<rparr>" m p cb opts]
    scheduleCallback_queue_mono [of "(core m)\<lparr>clock := \<lambda>_. currentMockTime m\<rparr>" p cb opts]
  by simp

lemma mock_api_queue_mono: "mock_api m m' \<Longrightarrow> set (mTaskQueue m) \<subseteq> set (mTaskQueue m')"
proof (induction rule: mock_api.induct)
  case (mapi_schedule m m' p cb opts)
  then show ?case using mock_schedule_queue_mono by blast
qed (auto simp: mock_op_defs split: option.splits)

text \<open>What holds after user code ran for the current task.\<close>
lemma mock_after_callback:
  assumes "mock_api_runner run" "mloop_ok m" "mCurrentTask m = Some task"
    "run c b (mock_enter task (snd (mock_breakBefore h now task m))) = (x, m3)"
  shows "mqueues_ok m3" "mock_busy m3" "stop_ok m3" "fixed m m3" "mTaskQueue m3 \<noteq> []"
proof -
  let ?m1 = "snd (mock_breakBefore h now task m)"
  have steps: "mock_api (mock_enter task ?m1) m3"
    using assms(1,4) unfolding mock_api_runner_def by (metis snd_conv)
  note b = mock_breakBefore_fields [where h = h and now = now and t = task and m = m]
  have e: "mqueues_ok (mock_enter task ?m1)" "mock_busy (mock_enter task ?m1)" "stop_ok (mock_enter task ?m1)"
    "fixed m (mock_enter task ?m1)" "mTaskQueue (mock_enter task ?m1) \<noteq> []"
    using assms(2,3) b
    by (auto simp: mock_enter_def mloop_ok_def mqueues_ok_callback mock_busy_def stop_ok_def fixed_def dest: peek_SomeD)
  show "mqueues_ok m3" "mock_busy m3" "stop_ok m3"
    using e mqueues_ok_api [OF steps] mock_api_busy [OF steps] mock_api_stop [OF steps] by blast+
  show "fixed m m3" using e(4) mock_api_fixed [OF steps] by (auto simp: fixed_def)
  show "mTaskQueue m3 \<noteq> []" using e(5) mock_api_queue_mono [OF steps] by auto
qed

lemma fixed_trans: "fixed a b \<Longrightarrow> fixed b c \<Longrightarrow> fixed a c"
  by (simp add: fixed_def)

lemma mock_resume_ok:
  assumes "mqueues_ok m" "mock_busy m" "stop_ok m"
  shows "mloop_ok (mock_resume now m)" "fixed m (mock_resume now m)"
  using assms
  by (auto simp: mock_resume_def mloop_ok_def mqueues_ok_def core_advanceTimers queues_ok_advanceTimers
      mock_busy_def stop_ok_def fixed_def Let_def)

lemma mock_drop_ok:
  assumes "mqueues_ok m" "mock_busy m" "stop_ok m"
  shows "mqueues_ok (mock_drop t m)" "mock_busy (mock_drop t m)" "stop_ok (mock_drop t m)" "fixed m (mock_drop t m)"
  using assms
  by (auto simp: mock_drop_def mqueues_ok_def core_sim queues_ok_pop_task mock_busy_def stop_ok_def fixed_def)

lemma mock_set_ok:
  assumes "mqueues_ok m" "mock_busy m" "stop_ok m"
  shows "mqueues_ok (mock_set_task t (\<lambda>x. x\<lparr>callback := c\<rparr>) m)" "mock_busy (mock_set_task t (\<lambda>x. x\<lparr>callback := c\<rparr>) m)"
    "stop_ok (mock_set_task t (\<lambda>x. x\<lparr>callback := c\<rparr>) m)" "fixed m (mock_set_task t (\<lambda>x. x\<lparr>callback := c\<rparr>) m)"
  using assms by (auto simp: mqueues_ok_callback mock_busy_def stop_ok_def fixed_def)

definition mock_done :: "bool \<Rightarrow> js_time \<Rightarrow> ('c, 'v) mock \<Rightarrow> ('e mock_error + bool) \<Rightarrow> ('c, 'v) mock \<Rightarrow> bool" where
  "mock_done h now m r m' \<longleftrightarrow>
     mqueues_ok m' \<and> mock_busy m' \<and> stop_ok m' \<and> fixed m m' \<and> (r = Inr False \<longleftrightarrow> mTaskQueue m' = []) \<and>
     (now = currentMockTime m \<and> \<not> shouldYieldForPaint m \<and> expectedNumberOfYields m = -1 \<and> r = Inr True \<longrightarrow>
        \<not> h \<and> (\<exists>t. peek (mTaskQueue m') = Some t \<and> expirationTime (mStore m' t) > currentMockTime m'))"

lemma mock_done_trans:
  "fixed m m1 \<Longrightarrow> now1 = currentMockTime m \<or> now1 = now \<Longrightarrow> mock_done h now1 m1 r m' \<Longrightarrow> mock_done h now m r m'"
  by (auto simp: mock_done_def fixed_def)

lemma mock_stop_done:
  assumes "mloop_ok m" "mCurrentTask m = Some task" "fst (mock_breakBefore h now task m)"
  shows "mock_done h now m (Inr True) (snd (mock_breakBefore h now task m))"
proof -
  note b = mock_breakBefore_fields [where h = h and now = now and t = task and m = m]
  have "now = currentMockTime m \<and> \<not> shouldYieldForPaint m \<and> expectedNumberOfYields m = -1 \<longrightarrow>
      \<not> h \<and> expirationTime (mStore m task) > currentMockTime m"
    using assms(3) by (auto simp: mock_breakBefore_def mock_shouldYieldToHost_def split: if_splits option.splits)
  then show ?thesis
    using assms(1,2) b unfolding mock_done_def mloop_ok_def by (auto simp: fixed_def dest: peek_SomeD)
qed

lemma mock_loop_done:
  assumes "mock_api_runner run"
  shows "mloop_ok m \<Longrightarrow> mock_loop fuel run h now m = Some (r, m') \<Longrightarrow> mock_done h now m r m'"
proof (induction fuel arbitrary: m now)
  case (Suc n)
  note after = mock_after_callback [OF assms Suc.prems(1)]
  show ?case
  proof (cases rule: mock_round [where fuel = "Suc n" and m = m and run = run and now = now and h = h])
    case drained
    then have "mTaskQueue m = []" using Suc.prems(1) by (simp add: mloop_ok_def)
    then show ?thesis
      using drained(2) Suc.prems
      by (auto simp: mock_done_def mloop_ok_def fixed_def mock_requestHostTimeout_def mock_busy_def stop_ok_def)
  next
    case (stopped task)
    then show ?thesis using mock_stop_done [OF Suc.prems(1) stopped(1,2)] Suc.prems(2) by (auto simp del: mock_loop.simps)
  next
    case (cancelled task k)
    let ?m1 = "snd (mock_breakBefore h now task m)"
    let ?m2 = "mock_pop_task ?m1"
    note b = mock_breakBefore_fields [where h = h and now = now and t = task and m = m]
    have "mqueues_ok ?m2" "mock_busy ?m2" "stop_ok ?m2" "fixed m ?m2"
      using Suc.prems(1) b
      by (auto simp: mloop_ok_def mqueues_ok_def core_sim queues_ok_pop_task mock_busy_def stop_ok_def fixed_def)
    then have l: "mloop_ok (?m2\<lparr>mCurrentTask := peek (mTaskQueue ?m2)\<rparr>)" and f: "fixed m (?m2\<lparr>mCurrentTask := peek (mTaskQueue ?m2)\<rparr>)"
      by (auto simp: mloop_ok_def mock_busy_def stop_ok_def fixed_def)
    show ?thesis
      by (rule mock_done_trans [OF f disjI2 [OF refl]])
         (use Suc.IH [OF l] cancelled(1,5) Suc.prems(2) in \<open>auto simp: Let_def\<close>)
  next
    case (threw task c b e m3)
    then show ?thesis using after [OF threw(1,2)] Suc.prems(2) by (auto simp: mock_done_def)
  next
    case (paint task c b c' m3)
    note a = after [OF paint(1,2)]
    let ?m4 = "mock_set_task task (\<lambda>t. t\<lparr>callback := CbFunction c'\<rparr>) m3"
    have "mqueues_ok m'" "mock_busy m'" "stop_ok m'" "fixed m m'" "mTaskQueue m' \<noteq> []"
      using mock_set_ok [OF a(1-3), of task "CbFunction c'"] a paint Suc.prems(2)
      by (auto simp: mqueues_ok_def core_advanceTimers queues_ok_advanceTimers mock_busy_def stop_ok_def fixed_def
          advanceTimers_nonempty)
    then show ?thesis using a(4) paint Suc.prems(2) by (auto simp: mock_done_def fixed_def)
  next
    case (continued task c b c' k m3)
    note a = after [OF continued(2,3)]
    note st = mock_set_ok [OF a(1-3), of task "CbFunction c'"]
    note rs = mock_resume_ok [OF st(1-3), of "currentMockTime m3"]
    have f: "fixed m (mock_resume (currentMockTime m3) (mock_set_task task (\<lambda>t. t\<lparr>callback := CbFunction c'\<rparr>) m3))"
      using a(4) st(4) rs(2) fixed_trans by blast
    show ?thesis
      by (rule mock_done_trans [OF f, of "currentMockTime m3"])
         (use Suc.IH [OF rs(1)] continued(1,4) Suc.prems(2) a(4) in \<open>auto simp: fixed_def\<close>)
  next
    case (finished task c b k m3)
    note a = after [OF finished(2,3)]
    note st = mock_drop_ok [OF a(1-3), of task]
    note rs = mock_resume_ok [OF st(1-3), of "currentMockTime m3"]
    have f: "fixed m (mock_resume (currentMockTime m3) (mock_drop task m3))"
      using a(4) st(4) rs(2) fixed_trans by blast
    show ?thesis
      by (rule mock_done_trans [OF f, of "currentMockTime m3"])
         (use Suc.IH [OF rs(1)] finished(1,4) Suc.prems(2) a(4) in \<open>auto simp: fixed_def\<close>)
  qed simp
qed simp

lemma mock_enterFlush_ok:
  assumes "mqueues_ok m" "stop_ok m" "scheduledCallback m \<noteq> None"
  shows "mqueues_ok (mock_enterFlush m)" "mock_busy (mock_enterFlush m)" "stop_ok (mock_enterFlush m)"
    "fixed (m\<lparr>mIsPerformingWork := True\<rparr>) (mock_enterFlush m)"
  using assms by (auto simp: mock_enterFlush_def mock_cancelHostTimeout_def mock_busy_def stop_ok_def fixed_def Let_def)

text \<open>After one call of \<open>flushWork\<close>.\<close>
lemma mock_flushWork_done:
  assumes "mock_api_runner run" "mqueues_ok m" "stop_ok m" "scheduledCallback m \<noteq> None" "\<not> mIsPerformingWork m"
    "mock_flushWork fuel run h (currentMockTime m) m = Some (r, m')"
  shows "mqueues_ok m'" "stop_ok m'" "fixed m m'" "scheduledCallback m' \<noteq> None" "\<not> mIsHostCallbackScheduled m'"
    "mCurrentTask m' = None" "mCurrentPriorityLevel m' = mCurrentPriorityLevel m" "r = Inr False \<longleftrightarrow> mTaskQueue m' = []"
    "\<not> shouldYieldForPaint m \<Longrightarrow> expectedNumberOfYields m = -1 \<Longrightarrow> r = Inr True \<Longrightarrow>
       \<not> h \<and> (\<exists>t. peek (mTaskQueue m') = Some t \<and> expirationTime (mStore m' t) > currentMockTime m')"
proof -
  note e = mock_enterFlush_ok [OF assms(2-4)]
  obtain m2 where w: "mock_loop fuel run h (currentMockTime m) (mock_resume (currentMockTime m) (mock_enterFlush m)) = Some (r, m2)"
    and m': "m' = m2\<lparr>mCurrentTask := None, mCurrentPriorityLevel := mCurrentPriorityLevel m, mIsPerformingWork := False\<rparr>"
    using assms(6) by (auto simp: mock_flushWork_def mock_workLoop_def mock_resume_def Let_def)
  have f: "fixed (m\<lparr>mIsPerformingWork := True\<rparr>) (mock_resume (currentMockTime m) (mock_enterFlush m))"
    using e(4) mock_resume_ok(2) [OF e(1-3)] fixed_trans by blast
  have d: "mock_done h (currentMockTime m) (m\<lparr>mIsPerformingWork := True\<rparr>) r m2"
    by (rule mock_done_trans [OF f disjI2 [OF refl]]) (rule mock_loop_done [OF assms(1) mock_resume_ok(1) [OF e(1-3)] w])
  show "mqueues_ok m'" "stop_ok m'" "scheduledCallback m' \<noteq> None" "\<not> mIsHostCallbackScheduled m'"
    "mCurrentTask m' = None" "mCurrentPriorityLevel m' = mCurrentPriorityLevel m" "r = Inr False \<longleftrightarrow> mTaskQueue m' = []"
    using d m' by (auto simp: mock_done_def mock_busy_def stop_ok_def)
  show "fixed m m'" using d m' assms(5) by (auto simp: mock_done_def fixed_def)
  show "\<not> h \<and> (\<exists>t. peek (mTaskQueue m') = Some t \<and> expirationTime (mStore m' t) > currentMockTime m')"
    if "\<not> shouldYieldForPaint m" "expectedNumberOfYields m = -1" "r = Inr True"
    using d m' that by (auto simp: mock_done_def)
qed

text \<open>After the \<open>do ... while\<close> loop of a flush operation.\<close>
lemma mock_flushLoop_done:
  assumes "mock_api_runner run"
  shows "mqueues_ok m \<Longrightarrow> stop_ok m \<Longrightarrow> scheduledCallback m \<noteq> None \<Longrightarrow> \<not> mIsPerformingWork m \<Longrightarrow>
    mock_flushLoop n fuel run stop m = Some (r, m') \<Longrightarrow>
    mqueues_ok m' \<and> stop_ok m' \<and> fixed m m' \<and> scheduledCallback m' \<noteq> None \<and> \<not> mIsHostCallbackScheduled m' \<and>
    mCurrentTask m' = None \<and> mCurrentPriorityLevel m' = mCurrentPriorityLevel m \<and>
    (r = Inr False \<longleftrightarrow> mTaskQueue m' = []) \<and> (r = Inr True \<longrightarrow> stop m')"
proof (induction n arbitrary: m)
  case (Suc n)
  obtain r1 m1 where f: "mock_flushWork fuel run True (currentMockTime m) m = Some (r1, m1)"
    using Suc.prems(5) by (auto split: option.splits)
  note d = mock_flushWork_done [OF assms Suc.prems(1-4) f]
  show ?case
  proof (cases "r1 = Inr True \<and> \<not> stop m1")
    case True
    then have "mock_flushLoop n fuel run stop m1 = Some (r, m')" using Suc.prems(5) f by simp
    moreover have "\<not> mIsPerformingWork m1" using d(3) Suc.prems(4) by (simp add: fixed_def)
    ultimately show ?thesis using Suc.IH [OF d(1,2,4)] d(3,7) by (auto simp: fixed_def)
  next
    case False
    then have "r = r1 \<and> m' = m1" using Suc.prems(5) f by (cases r1) (auto split: if_splits)
    then show ?thesis using d False by (cases r1) auto
  qed
qed simp

subsection \<open>Test runs\<close>

text \<open>A test calls the exports in any order; \<open>reset\<close> is left out, see the last section.\<close>
inductive mock_step :: "('c, 'v, 'e) mock_runner \<Rightarrow> ('c, 'v) mock \<Rightarrow> ('c, 'v) mock \<Rightarrow> bool" for run where
  mstep_api: "mock_api m m' \<Longrightarrow> mock_step run m m'"
| mstep_time: "mock_step run m (mock_advanceTime ms m)"
| mstep_all: "mock_flushAllWithoutAsserting fuel run m = Some (r, m') \<Longrightarrow> mock_step run m m'"
| mstep_all_assert: "mock_flushAll fuel run m = Some (r', m') \<Longrightarrow> mock_step run m m'"
| mstep_expired: "mock_flushExpired fuel run m = Some (r', m') \<Longrightarrow> mock_step run m m'"
| mstep_yields: "mock_flushNumberOfYields fuel run n m = Some (r', m') \<Longrightarrow> mock_step run m m'"
| mstep_paint: "mock_flushUntilNextPaint fuel run m = Some (r, m') \<Longrightarrow> mock_step run m m'"

inductive mock_reachable :: "('c, 'v, 'e) mock_runner \<Rightarrow> ('c, 'v) mock \<Rightarrow> bool" for run where
  mreach_init: "mock_reachable run (init_mock\<lparr>consoleDisabled := b\<rparr>)"
| mreach_step: "mock_reachable run m \<Longrightarrow> mock_step run m m' \<Longrightarrow> mock_reachable run m'"

inductive_cases mock_stepE: "mock_step run m m'"

definition mock_ok :: "('c, 'v) mock \<Rightarrow> bool" where
  "mock_ok m \<longleftrightarrow> mqueues_ok m \<and> mock_idle m \<and> mCurrentPriorityLevel m = 3"

lemma mock_idle_stop: "mock_idle m \<Longrightarrow> stop_ok m \<and> \<not> mIsPerformingWork m \<and> \<not> isFlushing m"
  by (simp add: mock_idle_def stop_ok_def)

text \<open>The common end of the flush operations: the host callback is dropped when nothing is left.\<close>
lemma mock_flush_exit:
  assumes "mqueues_ok m'" "fixed m m'" "\<not> mIsPerformingWork m" "scheduledCallback m' \<noteq> None"
    "\<not> mIsHostCallbackScheduled m'" "mCurrentTask m' = None" "r = Inr False \<longleftrightarrow> mTaskQueue m' = []"
    "mCurrentPriorityLevel m' = 3"
  shows "mock_ok ((mock_dropCallback r m')\<lparr>expectedNumberOfYields := -1, didStop := False, isFlushing := False, shouldYieldForPaint := False\<rparr>)"
  using assms by (auto simp: mock_ok_def mock_idle_def mock_dropCallback_def fixed_def)

text \<open>The states in which the flush operations call \<open>flushWork\<close>.\<close>
lemma flush_states:
  assumes "mock_ok m" "scheduledCallback m \<noteq> None"
  shows "mqueues_ok (m\<lparr>isFlushing := True\<rparr>)" "stop_ok (m\<lparr>isFlushing := True\<rparr>)"
    "mqueues_ok (m\<lparr>expectedNumberOfYields := n, isFlushing := True\<rparr>)" "stop_ok (m\<lparr>expectedNumberOfYields := n, isFlushing := True\<rparr>)"
    "mqueues_ok (m\<lparr>shouldYieldForPaint := True, mNeedsPaint := False, isFlushing := True\<rparr>)"
    "stop_ok (m\<lparr>shouldYieldForPaint := True, mNeedsPaint := False, isFlushing := True\<rparr>)"
    "\<not> mIsPerformingWork m" "mCurrentPriorityLevel m = 3"
  using assms by (auto simp: mock_ok_def mock_idle_def stop_ok_def)

lemma flushAllWithoutAsserting_done:
  assumes "mock_api_runner run" "mock_ok m" "mock_flushAllWithoutAsserting fuel run m = Some (r, m')"
  shows "mock_ok m' \<and> (\<forall>b. r = Inr b \<longrightarrow> mTaskQueue m' = [] \<and> scheduledCallback m' = None \<and> b = (scheduledCallback m \<noteq> None))"
proof (cases "scheduledCallback m = None")
  case True
  have "\<not> isFlushing m" using assms(2) by (simp add: mock_ok_def mock_idle_def)
  with True have "r = Inr False \<and> m' = m" using assms(3) by (simp add: mock_flushAllWithoutAsserting_def)
  moreover have "mTaskQueue m = []" using True assms(2) by (simp add: mock_ok_def mock_idle_def)
  ultimately show ?thesis using assms(2) True by simp
next
  case False
  note f = flush_states [OF assms(2) False]
  obtain r1 m1 where w: "mock_flushLoop fuel fuel run (\<lambda>_. False) (m\<lparr>isFlushing := True\<rparr>) = Some (r1, m1)"
    and e: "r = map_sum id (\<lambda>_. True) r1" "m' = (mock_dropCallback r1 m1)\<lparr>isFlushing := False\<rparr>"
    using assms(2,3) False by (auto simp: mock_flushAllWithoutAsserting_def mock_ok_def mock_idle_def)
  have d: "mqueues_ok m1 \<and> stop_ok m1 \<and> fixed (m\<lparr>isFlushing := True\<rparr>) m1 \<and> scheduledCallback m1 \<noteq> None \<and> \<not> mIsHostCallbackScheduled m1 \<and>
    mCurrentTask m1 = None \<and> mCurrentPriorityLevel m1 = 3 \<and> (r1 = Inr False \<longleftrightarrow> mTaskQueue m1 = []) \<and> (r1 = Inr True \<longrightarrow> False)"
    using mock_flushLoop_done [OF assms(1) f(1,2) _ _ w] f(7,8) False by simp
  have "mock_ok m'"
    using d f(7) assms(2) e(2)
    by (auto simp: mock_ok_def mock_idle_def mock_dropCallback_def fixed_def stop_ok_def split: if_splits)
  then show ?thesis using d e False by (cases r1) (auto simp: mock_dropCallback_def)
qed

lemma flushAll_ok:
  assumes "mock_api_runner run" "mock_ok m" "mock_flushAll fuel run m = Some (r, m')"
  shows "mock_ok m'"
  using assms(2,3) flushAllWithoutAsserting_done [OF assms(1,2)]
  by (auto simp: mock_flushAll_def split: if_splits option.splits sum.splits)

lemma flushExpired_done:
  assumes "mock_api_runner run" "mock_ok m" "mock_flushExpired fuel run m = Some (r, m')"
  shows "mock_ok m' \<and> (r = Inr () \<longrightarrow> (\<forall>t \<in> set (mTaskQueue m'). expirationTime (mStore m' t) > currentMockTime m'))"
proof (cases "scheduledCallback m = None")
  case True
  have "\<not> isFlushing m" using assms(2) by (simp add: mock_ok_def mock_idle_def)
  with True have "m' = m" using assms(3) by (simp add: mock_flushExpired_def)
  moreover have "mTaskQueue m = []" using True assms(2) by (simp add: mock_ok_def mock_idle_def)
  ultimately show ?thesis using assms(2) by simp
next
  case False
  note f = flush_states [OF assms(2) False]
  obtain r1 m1 where w: "mock_flushWork fuel run False (currentMockTime m) (m\<lparr>isFlushing := True\<rparr>) = Some (r1, m1)"
    and e: "r = map_sum id (\<lambda>_. ()) r1" "m' = (mock_dropCallback r1 m1)\<lparr>isFlushing := False\<rparr>"
    using assms(2,3) False by (auto simp: mock_flushExpired_def mock_ok_def mock_idle_def)
  note d = mock_flushWork_done [OF assms(1) f(1,2), of fuel False, simplified, OF False [unfolded not_None_eq] f(7) w]
  have ok: "mock_ok m'"
    using d f(7,8) assms(2) e(2)
    by (auto simp: mock_ok_def mock_idle_def mock_dropCallback_def fixed_def stop_ok_def split: if_splits)
  have "expirationTime (mStore m' t) > currentMockTime m'" if r: "r = Inr ()" and t: "t \<in> set (mTaskQueue m')" for t
  proof -
    have q: "mStore m' = mStore m1" "mTaskQueue m' = mTaskQueue m1" "currentMockTime m' = currentMockTime m1"
      using e(2) by (auto simp: mock_dropCallback_def)
    have "r1 = Inr True" using r e(1) t q d(8) by (cases r1) auto
    then obtain u where u: "peek (mTaskQueue m1) = Some u" "expirationTime (mStore m1 u) > currentMockTime m1"
      using d(9) assms(2) by (auto simp: mock_ok_def mock_idle_def)
    have "queues_ok (core m1)" using d(1) by (simp add: mqueues_ok_def)
    then have "runs_before (store (core m1)) u t"
      using u(1) t q compare_runs_before [of "core m1" u t] task_order.peek_minimal [of "mStore m1" "mTaskQueue m1" u t]
      by (auto simp: queues_ok_def dest!: peek_SomeD)
    then show ?thesis using u(2) q by (auto simp: runs_before_def)
  qed
  with ok show ?thesis by blast
qed

lemma flushNumberOfYields_ok:
  assumes "mock_api_runner run" "mock_ok m" "mock_flushNumberOfYields fuel run n m = Some (r, m')"
  shows "mock_ok m'"
proof (cases "scheduledCallback m = None")
  case True
  then show ?thesis using assms(2,3) by (simp add: mock_flushNumberOfYields_def split: if_splits)
next
  case False
  note f = flush_states [OF assms(2) False]
  obtain r1 m1 where w: "mock_flushLoop fuel fuel run didStop (m\<lparr>expectedNumberOfYields := n, isFlushing := True\<rparr>) = Some (r1, m1)"
    and e: "m' = (mock_dropCallback r1 m1)\<lparr>expectedNumberOfYields := -1, didStop := False, isFlushing := False\<rparr>"
    using assms(2,3) False by (auto simp: mock_flushNumberOfYields_def mock_ok_def mock_idle_def)
  note d = mock_flushLoop_done [OF assms(1) f(3,4) _ _ w]
  show ?thesis
    using d f(7,8) False assms(2) e
    by (auto simp: mock_ok_def mock_idle_def mock_dropCallback_def fixed_def)
qed

lemma flushUntilNextPaint_ok:
  assumes "mock_api_runner run" "mock_ok m" "mock_flushUntilNextPaint fuel run m = Some (r, m')"
  shows "mock_ok m'"
proof (cases "scheduledCallback m = None")
  case True
  then show ?thesis using assms(2,3) by (simp add: mock_flushUntilNextPaint_def split: if_splits)
next
  case False
  note f = flush_states [OF assms(2) False]
  obtain r1 m1 where w: "mock_flushLoop fuel fuel run didStop (m\<lparr>shouldYieldForPaint := True, mNeedsPaint := False, isFlushing := True\<rparr>) = Some (r1, m1)"
    and e: "m' = (mock_dropCallback r1 m1)\<lparr>shouldYieldForPaint := False, didStop := False, isFlushing := False\<rparr>"
    using assms(2,3) False by (auto simp: mock_flushUntilNextPaint_def mock_ok_def mock_idle_def)
  note d = mock_flushLoop_done [OF assms(1) f(5,6) _ _ w]
  show ?thesis
    using d f(7,8) False assms(2) e
    by (auto simp: mock_ok_def mock_idle_def mock_dropCallback_def fixed_def)
qed

lemma mock_handleTimeout_ok:
  assumes "mock_ok m"
  shows "mock_ok (mock_handleTimeout now m)"
proof -
  let ?a = "mock_advanceTimers now (m\<lparr>mIsHostTimeoutScheduled := False\<rparr>)"
  have q: "mqueues_ok ?a"
    using assms by (simp add: mock_ok_def mqueues_ok_def core_advanceTimers queues_ok_advanceTimers)
  have i: "mock_idle ?a" if "mIsHostCallbackScheduled m \<or> mTaskQueue ?a = []"
    using assms that by (auto simp: mock_ok_def mock_idle_def)
  show ?thesis
  proof (cases "mIsHostCallbackScheduled m \<or> mTaskQueue ?a = []")
    case True
    then show ?thesis
      using q i [OF True] assms
      by (auto simp: mock_handleTimeout_def mock_ok_def mock_idle_def mock_requestHostTimeout_def Let_def split: option.splits)
  next
    case False
    then show ?thesis
      using q assms
      by (auto simp: mock_handleTimeout_def mock_ok_def mock_idle_def mock_requestHostCallback_def Let_def)
  qed
qed

lemma mock_advanceTime_ok: "mock_ok m \<Longrightarrow> mock_ok (mock_advanceTime ms m)"
proof -
  assume m: "mock_ok m"
  have t: "mock_ok (m\<lparr>currentMockTime := t\<rparr>)" for t using m by (simp add: mock_ok_def mock_idle_def)
  have clear: "mock_ok (x\<lparr>timeoutTime := -1, scheduledTimeout := None\<rparr>) = mock_ok x" for x :: "('a, 'b) mock"
    by (simp add: mock_ok_def mock_idle_def)
  show ?thesis
    using m t mock_handleTimeout_ok [OF t] by (simp add: mock_advanceTime_def Let_def clear)
qed

lemma mock_step_ok: "mock_api_runner run \<Longrightarrow> mock_step run m m' \<Longrightarrow> mock_ok m \<Longrightarrow> mock_ok m'"
proof (erule mock_stepE)
  assume "mock_api m m'" "mock_ok m"
  then show "mock_ok m'" using mqueues_ok_api mock_api_idle mock_api_level by (fastforce simp: mock_ok_def)
qed (auto dest: flushAllWithoutAsserting_done flushAll_ok flushExpired_done flushNumberOfYields_ok flushUntilNextPaint_ok
       intro: mock_advanceTime_ok)

lemma mock_reachable_ok: "mock_reachable run m \<Longrightarrow> mock_api_runner run \<Longrightarrow> mock_ok m"
proof (induction rule: mock_reachable.induct)
  case (mreach_init b)
  show ?case by (simp add: mock_ok_def mqueues_ok_def queue_defs init_mock_def mock_idle_def core_def)
next
  case (mreach_step m m')
  then show ?case using mock_step_ok by blast
qed

subsection \<open>A concrete test\<close>

definition mock_demo_run :: "(nat, string, string) mock_runner" where
  "mock_demo_run c b m = (if c = 9 then (Throw ''boom'', m) else (NoContinuation, mock_log ''ran'' m))"

lemma mock_demo_runner: "mock_api_runner mock_demo_run"
  by (auto simp: mock_api_runner_def mock_demo_run_def intro: mapi_done mapi_log)

text \<open>One expired task (immediate priority) and one at normal priority.\<close>
definition mock_demo :: "(nat, string) mock" where
  "mock_demo = snd (mock_scheduleCallback 3 (CbFunction 1) NoOptions
     (snd (mock_scheduleCallback 1 (CbFunction 0) NoOptions (init_mock\<lparr>consoleDisabled := False\<rparr>))))"

lemma mock_demo_reachable: "mock_reachable mock_demo_run mock_demo"
  unfolding mock_demo_def
  by (intro mreach_step [OF mreach_init [of _ False]] mstep_api mapi_schedule mapi_done)

lemmas mock_eval = mock_scheduleCallback_def mock_queue_defs mock_op_defs init_mock_def mock_getCurrentTime_def
  optionsStartTime_def timeoutForPriority_def push_def push_loop.simps compare_def mock_compare_def no_task_def

lemma mock_demo_eval:
  "mTaskQueue mock_demo = [1, 2]" "mTimerQueue mock_demo = []" "scheduledCallback mock_demo = Some FlushWork"
  "mStore mock_demo 1 = newTask 1 (CbFunction 0) 0 (-1) 1" "mStore mock_demo 2 = newTask 3 (CbFunction 1) 0 5000 2"
  "currentMockTime mock_demo = 0" "isFlushing mock_demo = False"
  "mIsHostTimeoutScheduled mock_demo = False" "expectedNumberOfYields mock_demo = -1"
  "shouldYieldForPaint mock_demo = False" "consoleDisabled mock_demo = False" "disableYieldValue mock_demo = False"
  "yieldedValues mock_demo = None"
  by (simp_all add: mock_demo_def mock_eval newTask_def Let_def)

subsection \<open>Properties\<close>



text \<open>A successful \<open>unstable_flushAll\<close> has run everything that was ready: no task is left and no
  host callback, and the log was and is empty.\<close>
theorem mock_flushAll_drains:
  assumes "mock_api_runner run" "mock_reachable run m" "mock_flushAll fuel run m = Some (Inr (), m')"
  shows "mTaskQueue m' = [] \<and> \<not> mock_hasPendingWork m' \<and> yieldedValues m = None \<and> yieldedValues m' = None"
proof -
  obtain b where f: "mock_flushAllWithoutAsserting fuel run m = Some (Inr b, m')" "yieldedValues m = None" "yieldedValues m' = None"
    using assms(3) by (auto simp: mock_flushAll_def split: if_splits option.splits sum.splits)
  have "mock_ok m' \<and> (\<forall>c. (Inr b :: 'c mock_error + bool) = Inr c \<longrightarrow> mTaskQueue m' = [] \<and> scheduledCallback m' = None \<and> c = (scheduledCallback m \<noteq> None))"
    by (rule flushAllWithoutAsserting_done [OF assms(1) mock_reachable_ok [OF assms(2,1)] f(1)])
  then show ?thesis using f(2,3) by (simp add: mock_hasPendingWork_def)
qed

definition silent_run :: "(nat, string, string) mock_runner" where
  "silent_run c b m = (NoContinuation, m)"

lemma mock_demo_flush: "\<exists>m'. mock_flushAll (Suc (Suc (Suc (Suc 0)))) silent_run mock_demo = Some (Inr (), m')"
  by (simp add: mock_flushAll_def mock_flushAllWithoutAsserting_def mock_demo_eval 
      mock_flushWork_def mock_workLoop_def mock_enterFlush_def mock_advanceTimers.simps Let_def
      mock_breakBefore_def newTask_def timeoutForPriority_def mock_queue_defs silent_run_def mock_getCurrentTime_def
      pop_def pop_loop.simps mock_shouldYieldToHost_def mock_dropCallback_def del: One_nat_def)

theorem mock_flushAll_drains_witness:
  "\<exists>m'. mock_flushAll (Suc (Suc (Suc (Suc 0)))) silent_run mock_demo = Some (Inr (), m') \<and> mTaskQueue m' = []"
proof -
  obtain m' where f: "mock_flushAll (Suc (Suc (Suc (Suc 0)))) silent_run mock_demo = Some (Inr (), m')" using mock_demo_flush by blast
  have r: "mock_api_runner silent_run" by (auto simp: mock_api_runner_def silent_run_def intro: mapi_done)
  have "mock_reachable silent_run mock_demo"
    unfolding mock_demo_def by (intro mreach_step [OF mreach_init [of _ False]] mstep_api mapi_schedule mapi_done)
  from mock_flushAll_drains [OF r this f] f show ?thesis by blast
qed

text \<open>After a successful \<open>unstable_flushExpired\<close> no task that is still ready has expired.\<close>
theorem mock_flushExpired_leaves_unexpired:
  assumes "mock_api_runner run" "mock_reachable run m" "mock_flushExpired fuel run m = Some (Inr (), m')"
    "t \<in> set (mTaskQueue m')"
  shows "mock_getCurrentTime m' < expirationTime (mStore m' t)"
  using flushExpired_done [OF assms(1) mock_reachable_ok [OF assms(2,1)] assms(3)] assms(4)
  by (simp add: mock_getCurrentTime_def)

lemma mock_demo_expired: "\<exists>m'. mock_flushExpired (Suc (Suc (Suc (Suc 0)))) mock_demo_run mock_demo = Some (Inr (), m') \<and> mTaskQueue m' = [2]"
  by (simp add: mock_flushExpired_def mock_demo_eval 
      mock_flushWork_def mock_workLoop_def mock_enterFlush_def mock_advanceTimers.simps Let_def
      mock_breakBefore_def newTask_def timeoutForPriority_def mock_queue_defs mock_demo_run_def mock_getCurrentTime_def
      pop_def pop_loop.simps mock_log_def mock_dropCallback_def del: One_nat_def)

theorem mock_flushExpired_leaves_unexpired_witness:
  "\<exists>m'. mock_flushExpired (Suc (Suc (Suc (Suc 0)))) mock_demo_run mock_demo = Some (Inr (), m') \<and> 2 \<in> set (mTaskQueue m') \<and>
    mock_getCurrentTime m' < expirationTime (mStore m' 2)"
proof -
  obtain m' where f: "mock_flushExpired (Suc (Suc (Suc (Suc 0)))) mock_demo_run mock_demo = Some (Inr (), m')" "2 \<in> set (mTaskQueue m')"
    using mock_demo_expired by force
  from mock_flushExpired_leaves_unexpired [OF mock_demo_runner mock_demo_reachable f] f show ?thesis by blast
qed

subsection \<open>Lost wake-ups\<close>

text \<open>Two delayed tasks; the first is cancelled, then the clock reaches its start time.\<close>
definition dropped_timer :: "(nat, string) mock" where
  "dropped_timer =
     mock_advanceTime 100 (mock_cancelCallback 1
       (snd (mock_scheduleCallback 3 (CbFunction 1) (Options (DelayNumber 200))
         (snd (mock_scheduleCallback 3 (CbFunction 0) (Options (DelayNumber 100)) init_mock)))))"

lemma dropped_timer_eval:
  "mTimerQueue dropped_timer = [2]" "mTaskQueue dropped_timer = []" "scheduledTimeout dropped_timer = None"
  "scheduledCallback dropped_timer = None" "callback (mStore dropped_timer 2) = CbFunction 1"
  "startTime (mStore dropped_timer 2) = 200" "currentMockTime dropped_timer = 100"
  by (simp_all add: dropped_timer_def mock_advanceTime_def mock_handleTimeout_def mock_eval
      mock_advanceTimers.simps pop_def pop_loop.simps Let_def)

text \<open>\<open>unstable_advanceTime\<close> clears the timeout slot after calling \<open>handleTimeout\<close>, and so drops
  the timeout that \<open>handleTimeout\<close> may just have requested. In this state a live task starts at
  time 200, and no later advance of the clock ever makes it ready or reports pending work.\<close>
lemma mock_advanceTime_loses_timer:
  "callback (mStore dropped_timer 2) = CbFunction 1 \<and> startTime (mStore dropped_timer 2) = 200 \<and>
   (\<forall>ms. let m = mock_advanceTime ms dropped_timer
     in mTimerQueue m = [2] \<and> mTaskQueue m = [] \<and> scheduledTimeout m = None \<and> \<not> mock_hasPendingWork m)"
  by (simp add: dropped_timer_eval mock_advanceTime_def mock_hasPendingWork_def Let_def)

text \<open>User code that moves the clock from inside a callback (callback 2).\<close>
definition nested_run :: "(nat, string, string) mock_runner" where
  "nested_run c b m = (NoContinuation, if c = 2 then mock_advanceTime 100 m else m)"

definition nested_start :: "(nat, string) mock" where
  "nested_start = snd (mock_scheduleCallback 3 (CbFunction 1) (Options (DelayNumber 100))
     (snd (mock_scheduleCallback 3 (CbFunction 0) NoOptions init_mock)))"

definition nested_fuel :: nat where
  "nested_fuel = Suc (Suc (Suc (Suc 0)))"

text \<open>The state after the first flush, in which the delayed task waits for time 100.\<close>
definition nested_idle :: "(nat, string) mock" where
  "nested_idle = init_mock\<lparr>
     mStore := (\<lambda>_. no_task)(1 := (newTask 3 CbNull 0 5000 1), 2 := newTask 3 (CbFunction 1) 100 100 2),
     mTimerQueue := [2], mTaskIdCounter := 3, scheduledTimeout := Some HandleTimeout, timeoutTime := 100\<rparr>"

lemma nested_first_flush: "mock_flushAll nested_fuel nested_run nested_start = Some (Inr (), nested_idle)"
  by (simp add: nested_fuel_def nested_start_def nested_idle_def nested_run_def mock_flushAll_def
      mock_flushAllWithoutAsserting_def mock_flushWork_def mock_workLoop_def mock_enterFlush_def
      mock_advanceTimers.simps mock_breakBefore_def newTask_def mock_eval pop_def pop_loop.simps
      mock_dropCallback_def Let_def fun_upd_twist del: One_nat_def)

lemma nested_second_flush:
  "\<exists>m. mock_flushAll nested_fuel nested_run (snd (mock_scheduleCallback 3 (CbFunction 2) NoOptions nested_idle)) = Some (Inr (), m) \<and>
     mIsHostCallbackScheduled m \<and> scheduledCallback m = None \<and> mTaskQueue m = [] \<and> mTaskIdCounter m = 4 \<and>
     isFlushing m = False \<and> yieldedValues m = None \<and> mTimerQueue m = []"
  by (simp add: nested_fuel_def nested_idle_def nested_run_def mock_flushAll_def
      mock_flushAllWithoutAsserting_def mock_flushWork_def mock_workLoop_def mock_enterFlush_def
      mock_advanceTimers.simps mock_breakBefore_def newTask_def mock_eval pop_def pop_loop.simps
      mock_dropCallback_def mock_advanceTime_def mock_handleTimeout_def Let_def del: One_nat_def)

text \<open>A callback that moves the clock past a waiting timer can block the scheduler. The nested
  \<open>handleTimeout\<close> marks the host callback as scheduled, the flush then drains everything and
  clears the slot but not the mark. A task scheduled afterwards is queued but never reported as
  pending, and flushing does nothing.\<close>
theorem mock_nested_advance_blocks:
  "\<exists>m1 m2. mock_flushAll nested_fuel nested_run nested_start = Some (Inr (), m1) \<and>
     mock_flushAll nested_fuel nested_run (snd (mock_scheduleCallback 3 (CbFunction 2) NoOptions m1)) = Some (Inr (), m2) \<and>
     (let m3 = snd (mock_scheduleCallback 3 (CbFunction 3) NoOptions m2)
      in mTaskQueue m3 = [4] \<and> \<not> mock_hasPendingWork m3 \<and>
         mock_flushAll nested_fuel nested_run m3 = Some (Inr (), m3))"
proof -
  obtain m where f: "mock_flushAll nested_fuel nested_run (snd (mock_scheduleCallback 3 (CbFunction 2) NoOptions nested_idle)) = Some (Inr (), m)"
    and m: "mIsHostCallbackScheduled m" "scheduledCallback m = None" "mTaskQueue m = []" "mTaskIdCounter m = 4"
      "isFlushing m = False" "yieldedValues m = None"
    using nested_second_flush by blast
  let ?m3 = "snd (mock_scheduleCallback 3 (CbFunction 3) NoOptions m)"
  have "mTaskQueue ?m3 = [4]" "scheduledCallback ?m3 = None" "isFlushing ?m3 = False" "yieldedValues ?m3 = None"
    using m by (simp_all add: mock_scheduleCallback_def mock_queue_defs mock_getCurrentTime_def optionsStartTime_def Let_def)
  then have "mTaskQueue ?m3 = [4] \<and> \<not> mock_hasPendingWork ?m3 \<and> mock_flushAll nested_fuel nested_run ?m3 = Some (Inr (), ?m3)"
    by (simp add: mock_hasPendingWork_def mock_flushAll_def mock_flushAllWithoutAsserting_def)
  then show ?thesis using nested_first_flush f unfolding Let_def by blast
qed

text \<open>\<open>reset\<close> clears the host slots but keeps the queues and the scheduled-callback mark. After
  a reset with a task queued, a newly scheduled task is queued behind it, no pending work is
  reported, and flushing does nothing.\<close>
lemma mock_reset_blocks:
  "let m1 = snd (mock_scheduleCallback 3 (CbFunction 0) NoOptions init_mock);
       m2 = snd (mock_reset m1 :: ('e mock_error + unit) \<times> (nat, string) mock);
       m3 = snd (mock_scheduleCallback 3 (CbFunction 1) NoOptions m2)
   in fst (mock_reset m1 :: ('e mock_error + unit) \<times> (nat, string) mock) = Inr () \<and>
      mTaskQueue m3 = [1, 2] \<and> \<not> mock_hasPendingWork m3 \<and> mock_flushAll nested_fuel silent_run m3 = Some (Inr (), m3)"
  by (simp add: mock_reset_def mock_eval mock_hasPendingWork_def mock_flushAll_def mock_flushAllWithoutAsserting_def Let_def)

end
