(* ===== verification/JS_Values.thy ===== *)
theory JS_Values
  imports Prelude
begin

text \<open>
  The part of the JavaScript value model the components share: primitive values, objects and
  functions with own data properties and their attributes, arrays, property reads, and the
  decimal text of a natural number. Accessor properties and prototypes are not modelled: the
  objects the code inspects are built from data properties.
\<close>

datatype prop_key = KString string | KSymbol string

datatype jsval =
    JUndef
  | JNull
  | JBool bool
  | JNum int
  | JStr string
  | JArray "jsval list"
  | JObject "(prop_key \<times> (bool \<times> bool \<times> bool) \<times> jsval) list"
  | JFunction nat "(prop_key \<times> (bool \<times> bool \<times> bool) \<times> jsval) list"

text \<open>The attributes are, in this order, \<open>configurable\<close>, \<open>enumerable\<close> and \<open>writable\<close>.\<close>
type_synonym js_prop = "prop_key \<times> (bool \<times> bool \<times> bool) \<times> jsval"

fun ownProps :: "jsval \<Rightarrow> js_prop list" where
  "ownProps (JObject ps) = ps"
| "ownProps (JFunction f ps) = ps"
| "ownProps _ = []"

text \<open>\<open>Object.getOwnPropertyDescriptor\<close>\<close>
definition ownProp :: "jsval \<Rightarrow> prop_key \<Rightarrow> ((bool \<times> bool \<times> bool) \<times> jsval) option" where
  "ownProp v k = map_of (ownProps v) k"

text \<open>A property read \<open>v.k\<close>.\<close>
definition getProp :: "jsval \<Rightarrow> string \<Rightarrow> jsval" where
  "getProp v k = (case ownProp v (KString k) of None \<Rightarrow> JUndef | Some (a, x) \<Rightarrow> x)"

definition isNullish :: "jsval \<Rightarrow> bool" where
  "isNullish v \<longleftrightarrow> v = JUndef \<or> v = JNull"

fun isString :: "jsval \<Rightarrow> bool" where
  "isString (JStr _) = True"
| "isString _ = False"

fun isFunction :: "jsval \<Rightarrow> bool" where
  "isFunction (JFunction _ _) = True"
| "isFunction _ = False"

fun isArray :: "jsval \<Rightarrow> bool" where
  "isArray (JArray _) = True"
| "isArray _ = False"

fun items :: "jsval \<Rightarrow> jsval list" where
  "items (JArray xs) = xs"
| "items _ = []"

definition digit_char :: "nat \<Rightarrow> char" where
  "digit_char n = char_of (48 + n mod 10)"

text \<open>The text of a natural number, as string concatenation produces it.\<close>
fun nat_str :: "nat \<Rightarrow> string" where
  "nat_str n = (if n < 10 then [digit_char n] else nat_str (n div 10) @ [digit_char n])"

declare nat_str.simps [simp del]

lemma nat_str_nonempty [simp]: "nat_str n \<noteq> []"
  by (subst nat_str.simps) simp

lemma digit_char_inj: "m < 10 \<Longrightarrow> n < 10 \<Longrightarrow> digit_char m = digit_char n \<longleftrightarrow> m = n"
  by (simp add: digit_char_def)

lemma nat_str_inject: "nat_str m = nat_str n \<longleftrightarrow> m = n"
proof (induction m arbitrary: n rule: nat_str.induct)
  case (1 m)
  have small: "digit_char (k mod 10) = digit_char k" for k by (simp add: digit_char_def)
  have d: "digit_char m = digit_char n \<longleftrightarrow> m mod 10 = n mod 10"
    using digit_char_inj [of "m mod 10" "n mod 10"] by (simp add: small)
  show ?case
  proof (cases "m < 10 \<or> n < 10")
    case True
    have ne: "[] \<noteq> nat_str k" for k using nat_str_nonempty [of k] by metis
    show ?thesis using True d by (auto simp: nat_str.simps [of m] nat_str.simps [of n] ne)
  next
    case False
    then have "nat_str (m div 10) = nat_str (n div 10) \<longleftrightarrow> m div 10 = n div 10" using 1 by simp
    then show ?thesis
      using False d by (auto simp: nat_str.simps [of m] nat_str.simps [of n]) (metis div_mult_mod_eq)
  qed
qed

end
