(* ===== verification/Act_Queue.thy ===== *)
theory Act_Queue
  imports Mock_Props JS_Values
begin

text \<open>
  The private act queue of the test scheduler (\<open>scheduler-unstable_mock.development.js\<close>, lines
  264-946): which queue objects are accepted, and how an accepted queue is drained. A queue is a
  value with a \<open>records\<close> array that callbacks may extend while it is drained; the callbacks are
  user code, the parameter \<open>call\<close>, which maps a function and the state to a result.
\<close>

definition isObjectLike :: "jsval \<Rightarrow> bool" where
  "isObjectLike v = (case v of JArray _ \<Rightarrow> True | JObject _ \<Rightarrow> True | JFunction _ _ \<Rightarrow> True | _ \<Rightarrow> False)"

definition hasOwnLockedDataProperty :: "jsval \<Rightarrow> prop_key \<Rightarrow> jsval \<Rightarrow> bool" where
  "hasOwnLockedDataProperty v key expected =
     (case ownProp v key of
        None \<Rightarrow> False
      | Some ((configurable, enumerable, writable), x) \<Rightarrow>
          \<not> configurable \<and> \<not> enumerable \<and> \<not> writable \<and> x = expected)"

definition includesString :: "jsval \<Rightarrow> string list \<Rightarrow> bool" where
  "includesString v expected = (case v of JStr s \<Rightarrow> s \<in> set expected | _ \<Rightarrow> False)"

definition queueKind :: string where "queueKind = ''fast-react.react.private-act-queue-test-queue''"
definition taskKind :: string where "taskKind = ''fast-react.react.private-act-queue-test-task''"
definition callbackKind :: string where "callbackKind = ''fast-react.react.private-act-queue-test-callback''"

definition queueBrand :: prop_key where "queueBrand = KSymbol ''fast-react.react.private-act-queue-test-queue''"
definition taskBrand :: prop_key where "taskBrand = KSymbol ''fast-react.react.private-act-queue-test-task''"
definition callbackBrand :: prop_key where "callbackBrand = KSymbol ''fast-react.react.private-act-queue-test-callback''"

definition privateActQueueTestQueueVersion :: int where "privateActQueueTestQueueVersion = 1"
definition reactCompatibilityTarget :: string where "reactCompatibilityTarget = ''react@19.2.6''"
definition schedulerCompatibilityTarget :: string where "schedulerCompatibilityTarget = ''scheduler@0.27.0''"

definition acceptedActQueueRecordKinds :: "string list" where
  "acceptedActQueueRecordKinds =
     [''SchedulerActQueueRequest'', ''SchedulerActScopeBoundaryRecord'', ''SyncFlushActContinuationRecord'']"

definition acceptedActQueueTaskKinds :: "string list" where
  "acceptedActQueueTaskKinds = [''RootSchedule'', ''SchedulerCallback'']"

definition acceptedActQueueContinuationStatuses :: "string list" where
  "acceptedActQueueContinuationStatuses = [''NoContinuation'', ''PendingContinuation'']"

subsection \<open>Validation\<close>

definition claimsNothing :: "jsval \<Rightarrow> bool" where
  "claimsNothing v \<longleftrightarrow>
     \<not> (getProp v ''publicCompatibilityClaimed'' \<noteq> JBool False
        \<or> getProp v ''publicSchedulerTimingCompatibilityClaimed'' \<noteq> JBool False
        \<or> getProp v ''publicReactActCompatibilityClaimed'' \<noteq> JBool False)"

definition executesNothing :: "jsval \<Rightarrow> bool" where
  "executesNothing v \<longleftrightarrow>
     \<not> (getProp v ''executesQueuedWork'' \<noteq> JBool False \<or> getProp v ''executesEffects'' \<noteq> JBool False)"

definition getRejectedPrivateActQueueCallbackReason :: "jsval \<Rightarrow> nat \<Rightarrow> string \<Rightarrow> string option" where
  "getRejectedPrivateActQueueCallbackReason cb index role =
     (let reason = (\<lambda>r. Some (''record-'' @ nat_str index @ ''-'' @ role @ r))
      in if isNullish cb then None
         else if \<not> isFunction cb then reason ''-not-function''
         else if \<not> hasOwnLockedDataProperty cb callbackBrand (JBool True) then reason ''-missing-internal-brand''
         else if getProp cb ''kind'' \<noteq> JStr callbackKind then reason ''-kind''
         else if getProp cb ''version'' \<noteq> JNum privateActQueueTestQueueVersion then reason ''-version''
         else if getProp cb ''compatibilityTarget'' \<noteq> JStr reactCompatibilityTarget then reason ''-react-target''
         else if getProp cb ''schedulerCompatibilityTarget'' \<noteq> JStr schedulerCompatibilityTarget
         then reason ''-scheduler-target''
         else if \<not> isString (getProp cb ''label'') then reason ''-label''
         else if \<not> claimsNothing cb then reason ''-public-claim''
         else if \<not> executesNothing cb then reason ''-execution-claim''
         else None)"

definition getRejectedPrivateActQueueTaskReason :: "jsval \<Rightarrow> nat \<Rightarrow> string option" where
  "getRejectedPrivateActQueueTaskReason task index =
     (let reason = (\<lambda>r. Some (''record-'' @ nat_str index @ r))
      in if \<not> isObjectLike task then reason ''-not-object''
         else if \<not> hasOwnLockedDataProperty task taskBrand (JBool True) then reason ''-missing-internal-brand''
         else if getProp task ''kind'' \<noteq> JStr taskKind then reason ''-kind''
         else if getProp task ''version'' \<noteq> JNum privateActQueueTestQueueVersion then reason ''-version''
         else if getProp task ''compatibilityTarget'' \<noteq> JStr reactCompatibilityTarget then reason ''-react-target''
         else if getProp task ''schedulerCompatibilityTarget'' \<noteq> JStr schedulerCompatibilityTarget
         then reason ''-scheduler-target''
         else if \<not> includesString (getProp task ''recordKind'') acceptedActQueueRecordKinds then reason ''-record-kind''
         else if \<not> includesString (getProp task ''taskKind'') acceptedActQueueTaskKinds then reason ''-task-kind''
         else if \<not> includesString (getProp task ''continuationStatus'') acceptedActQueueContinuationStatuses
         then reason ''-continuation-status''
         else if \<not> isString (getProp task ''label'') then reason ''-label''
         else (case getRejectedPrivateActQueueCallbackReason (getProp task ''callback'') index ''callback'' of
                 Some r \<Rightarrow> Some r
               | None \<Rightarrow>
                   if \<not> claimsNothing task then reason ''-public-claim''
                   else if \<not> executesNothing task then reason ''-execution-claim''
                   else None))"

text \<open>The loop over the records, from index \<open>i\<close>.\<close>
fun firstRejectedTask :: "jsval list \<Rightarrow> nat \<Rightarrow> string option" where
  "firstRejectedTask [] i = None"
| "firstRejectedTask (t # ts) i =
     (case getRejectedPrivateActQueueTaskReason t i of
        Some r \<Rightarrow> Some r
      | None \<Rightarrow> firstRejectedTask ts (Suc i))"

definition getRejectedPrivateActQueueReason :: "jsval \<Rightarrow> string option" where
  "getRejectedPrivateActQueueReason queue =
     (if \<not> isObjectLike queue then Some ''queue-not-object''
      else if \<not> hasOwnLockedDataProperty queue queueBrand (JBool True) then Some ''queue-missing-internal-brand''
      else if getProp queue ''kind'' \<noteq> JStr queueKind then Some ''queue-kind''
      else if getProp queue ''version'' \<noteq> JNum privateActQueueTestQueueVersion then Some ''queue-version''
      else if getProp queue ''compatibilityTarget'' \<noteq> JStr reactCompatibilityTarget then Some ''queue-react-target''
      else if getProp queue ''schedulerCompatibilityTarget'' \<noteq> JStr schedulerCompatibilityTarget
      then Some ''queue-scheduler-target''
      else if \<not> claimsNothing queue then Some ''queue-public-claim''
      else if getProp queue ''queueFlushingReady'' \<noteq> JBool False
         \<or> getProp queue ''privateTestQueueFlushDiagnosticsReady'' \<noteq> JBool True
         \<or> getProp queue ''drainsAcceptedInternalTestQueues'' \<noteq> JBool True
         \<or> getProp queue ''executesBrandedInternalTestCallbacks'' \<noteq> JBool True
         \<or> getProp queue ''recordsBrandedInternalTestContinuations'' \<noteq> JBool True
      then Some ''queue-drain-policy''
      else if \<not> executesNothing queue then Some ''queue-execution-claim''
      else if \<not> isArray (getProp queue ''records'') then Some ''queue-records-not-array''
      else firstRejectedTask (items (getProp queue ''records'')) 0)"

record flush_error =
  errorMessage :: string
  errorName :: string
  errorCode :: string
  entrypoint :: string
  compatibilityTarget :: string
  publicSchedulerTimingCompatibilityClaimed :: bool
  publicReactActCompatibilityClaimed :: bool

definition createPrivateActQueueFlushError :: "string \<Rightarrow> flush_error" where
  "createPrivateActQueueFlushError reason =
     \<lparr>errorMessage = ''[fast-react] scheduler/unstable_mock private act queue flush diagnostics rejected an unsupported queue: ''
        @ reason @ ''. Only branded internal test queues from the React private act dispatcher gate may be drained.'',
      errorName = ''FastReactSchedulerPrivateActQueueFlushError'',
      errorCode = ''FAST_REACT_PRIVATE_ACT_QUEUE_FLUSH_REJECTED'',
      entrypoint = ''scheduler/unstable_mock'',
      compatibilityTarget = schedulerCompatibilityTarget,
      publicSchedulerTimingCompatibilityClaimed = False,
      publicReactActCompatibilityClaimed = False\<rparr>"

record queue_description =
  dStatus :: string
  dAccepted :: bool
  dRejectionReason :: "string option"
  dQueueKind :: jsval
  dPendingCount :: nat
  dDrainsAcceptedInternalTestQueues :: bool
  dExecutesBrandedInternalTestCallbacks :: bool
  dRecordsBrandedInternalTestContinuations :: bool
  dExecutesBrandedInternalTestContinuations :: bool
  dDrainsPublicSchedulerTaskQueue :: bool
  dDrainsPublicReactActQueue :: bool
  dPublicSchedulerTimingCompatibilityClaimed :: bool
  dPublicReactActCompatibilityClaimed :: bool
  dExecutesQueuedWork :: bool
  dExecutesEffects :: bool

definition describeAcceptedInternalActQueue :: "jsval \<Rightarrow> queue_description" where
  "describeAcceptedInternalActQueue queue =
     (let rejectionReason = getRejectedPrivateActQueueReason queue;
          accepted = (rejectionReason = None);
          pendingCount = (if isObjectLike queue \<and> isArray (getProp queue ''records'')
                          then length (items (getProp queue ''records'')) else 0)
      in \<lparr>dStatus = (if accepted then ''accepted-internal-test-queue'' else ''rejected-internal-test-queue''),
          dAccepted = accepted, dRejectionReason = rejectionReason,
          dQueueKind = (if isObjectLike queue then getProp queue ''kind'' else JNull),
          dPendingCount = pendingCount,
          dDrainsAcceptedInternalTestQueues = accepted, dExecutesBrandedInternalTestCallbacks = accepted,
          dRecordsBrandedInternalTestContinuations = accepted, dExecutesBrandedInternalTestContinuations = accepted,
          dDrainsPublicSchedulerTaskQueue = False, dDrainsPublicReactActQueue = False,
          dPublicSchedulerTimingCompatibilityClaimed = False, dPublicReactActCompatibilityClaimed = False,
          dExecutesQueuedWork = False, dExecutesEffects = False\<rparr>)"

subsection \<open>Draining\<close>

record callback_summary =
  cKind :: jsval
  cLabel :: jsval
  cExecutesQueuedWork :: bool
  cExecutesEffects :: bool

definition summarizePrivateActQueueCallback :: "jsval \<Rightarrow> callback_summary" where
  "summarizePrivateActQueueCallback cb =
     \<lparr>cKind = getProp cb ''kind'', cLabel = getProp cb ''label'', cExecutesQueuedWork = False, cExecutesEffects = False\<rparr>"

record recorded_summary =
  rStatus :: string
  rContinuation :: callback_summary
  rExecutesQueuedWork :: bool
  rExecutesEffects :: bool

definition summarizePrivateActQueueRecordedContinuation :: "jsval \<Rightarrow> recorded_summary" where
  "summarizePrivateActQueueRecordedContinuation continuation =
     \<lparr>rStatus = ''recorded-branded-internal-test-continuation'',
      rContinuation = summarizePrivateActQueueCallback continuation,
      rExecutesQueuedWork = False, rExecutesEffects = False\<rparr>"

record executed_summary =
  eSourceIndex :: nat
  eSourceLabel :: jsval
  eStatus :: string
  eContinuation :: callback_summary
  eReturnedContinuation :: "recorded_summary option"
  eExecutesQueuedWork :: bool
  eExecutesEffects :: bool

datatype 'e drain_error = FlushError flush_error | CallbackError 'e

text \<open>The state user code can reach while the queue is drained: the scheduler and the array.\<close>
type_synonym ('c, 'v) drain_state = "('c, 'v) mock \<times> jsval list"
type_synonym ('c, 'v, 'e) caller = "jsval \<Rightarrow> ('c, 'v) drain_state \<Rightarrow> ('e + jsval) \<times> ('c, 'v) drain_state"

definition executePrivateActQueueContinuation ::
  "('c, 'v, 'e) caller \<Rightarrow> jsval \<Rightarrow> nat \<Rightarrow> jsval \<Rightarrow> ('c, 'v) drain_state
     \<Rightarrow> ('e drain_error + executed_summary) \<times> ('c, 'v) drain_state" where
  "executePrivateActQueueContinuation call task index continuation st =
     (case call continuation st of
        (Inl e, st') \<Rightarrow> (Inl (CallbackError e), st')
      | (Inr returned, st') \<Rightarrow>
          let summary = (\<lambda>r. \<lparr>eSourceIndex = index, eSourceLabel = getProp task ''label'',
                 eStatus = ''executed-branded-internal-test-continuation'',
                 eContinuation = summarizePrivateActQueueCallback continuation,
                 eReturnedContinuation = r, eExecutesQueuedWork = False, eExecutesEffects = False\<rparr>)
          in if isNullish returned then (Inr (summary None), st')
             else (case getRejectedPrivateActQueueCallbackReason returned index ''continuation'' of
                     Some reason \<Rightarrow> (Inl (FlushError (createPrivateActQueueFlushError reason)), st')
                   | None \<Rightarrow> (Inr (summary (Some (summarizePrivateActQueueRecordedContinuation returned))), st')))"

record task_summary =
  sIndex :: nat
  sLabel :: jsval
  sRecordKind :: jsval
  sTaskKind :: jsval
  sContinuationStatus :: jsval
  sCallbackStatus :: string
  sCallback :: "callback_summary option"
  sReturnedContinuation :: "executed_summary option"
  sExecutesQueuedWork :: bool
  sExecutesEffects :: bool

text \<open>The two arrays \<open>recordedContinuations\<close> and \<open>executedContinuations\<close> are passed and returned.\<close>
definition summarizePrivateActQueueTask ::
  "('c, 'v, 'e) caller \<Rightarrow> jsval \<Rightarrow> nat \<Rightarrow> executed_summary list \<times> executed_summary list \<Rightarrow> ('c, 'v) drain_state
     \<Rightarrow> ('e drain_error + task_summary \<times> executed_summary list \<times> executed_summary list) \<times> ('c, 'v) drain_state" where
  "summarizePrivateActQueueTask call task index conts st =
     (let callback = getProp task ''callback'';
          hasCallback = (\<not> isNullish callback);
          summary = (\<lambda>c r. \<lparr>sIndex = index, sLabel = getProp task ''label'', sRecordKind = getProp task ''recordKind'',
            sTaskKind = getProp task ''taskKind'', sContinuationStatus = getProp task ''continuationStatus'',
            sCallbackStatus = (if hasCallback then ''executed-branded-internal-test-callback'' else ''no-callback''),
            sCallback = c, sReturnedContinuation = r, sExecutesQueuedWork = False, sExecutesEffects = False\<rparr>)
      in if \<not> hasCallback then (Inr (summary None None, conts), st)
         else let callbackSummary = Some (summarizePrivateActQueueCallback callback)
              in (case call callback st of
                    (Inl e, st') \<Rightarrow> (Inl (CallbackError e), st')
                  | (Inr continuation, st') \<Rightarrow>
                      if isNullish continuation then (Inr (summary callbackSummary None, conts), st')
                      else (case getRejectedPrivateActQueueCallbackReason continuation index ''continuation'' of
                              Some reason \<Rightarrow> (Inl (FlushError (createPrivateActQueueFlushError reason)), st')
                            | None \<Rightarrow>
                                (case executePrivateActQueueContinuation call task index continuation st' of
                                   (Inl e, st'') \<Rightarrow> (Inl e, st'')
                                 | (Inr c, st'') \<Rightarrow>
                                     (Inr (summary callbackSummary (Some c), fst conts @ [c], snd conts @ [c]), st'')))))"

text \<open>The \<open>while\<close> loop. Callbacks may append records without end, so it takes fuel.\<close>
fun drainRecords ::
  "nat \<Rightarrow> ('c, 'v, 'e) caller \<Rightarrow> task_summary list \<Rightarrow> executed_summary list \<times> executed_summary list \<Rightarrow> ('c, 'v) drain_state
     \<Rightarrow> (('e drain_error + task_summary list \<times> executed_summary list \<times> executed_summary list) \<times> ('c, 'v) drain_state) option" where
  "drainRecords 0 call drained conts st = None"
| "drainRecords (Suc fuel) call drained conts (m, records) =
     (case records of
        [] \<Rightarrow> Some (Inr (drained, conts), (m, []))
      | task # rest \<Rightarrow>
          (case getRejectedPrivateActQueueTaskReason task (length drained) of
             Some reason \<Rightarrow> Some (Inl (FlushError (createPrivateActQueueFlushError reason)), (m, rest))
           | None \<Rightarrow>
               (case summarizePrivateActQueueTask call task (length drained) conts (m, rest) of
                  (Inl e, st') \<Rightarrow> Some (Inl e, st')
                | (Inr (summary, conts'), st') \<Rightarrow> drainRecords fuel call (drained @ [summary]) conts' st')))"

record drain_result =
  drStatus :: string
  drAccepted :: bool
  drQueueKind :: jsval
  drPendingBefore :: nat
  drDrainedCount :: nat
  drExecutedCallbackCount :: nat
  drRecordedContinuationCount :: nat
  drExecutedContinuationCount :: nat
  drRemainingCount :: nat
  drDrainedRecords :: "task_summary list"
  drRecordedContinuations :: "executed_summary list"
  drExecutedContinuations :: "executed_summary list"
  drMockSchedulerPendingWorkBefore :: bool
  drMockSchedulerPendingWorkAfter :: bool
  drMockSchedulerNowBefore :: js_time
  drMockSchedulerNowAfter :: js_time
  drDrainsPublicSchedulerTaskQueue :: bool
  drDrainsPublicReactActQueue :: bool
  drExecutesBrandedInternalTestCallbacks :: bool
  drRecordsBrandedInternalTestContinuations :: bool
  drExecutesBrandedInternalTestContinuations :: bool
  drPublicSchedulerTimingCompatibilityClaimed :: bool
  drPublicReactActCompatibilityClaimed :: bool
  drExecutesQueuedWork :: bool
  drExecutesEffects :: bool

text \<open>\<open>queue\<close> is the queue object as passed; the array it refers to is part of the state.\<close>
definition drainAcceptedInternalActQueue ::
  "nat \<Rightarrow> ('c, 'v, 'e) caller \<Rightarrow> jsval \<Rightarrow> ('c, 'v) mock
     \<Rightarrow> (('e drain_error + drain_result) \<times> ('c, 'v) drain_state) option" where
  "drainAcceptedInternalActQueue fuel call queue m =
     (let records = items (getProp queue ''records'')
      in case getRejectedPrivateActQueueReason queue of
           Some reason \<Rightarrow> Some (Inl (FlushError (createPrivateActQueueFlushError reason)), (m, records))
         | None \<Rightarrow>
             if isPrivateActQueueDraining m
             then Some (Inl (FlushError (createPrivateActQueueFlushError ''already-draining'')), (m, records))
             else map_option
               (\<lambda>(r, (m', rest)).
                  (map_sum id (\<lambda>(drained, recorded, executed).
                     \<lparr>drStatus = ''drained-accepted-internal-test-queue'', drAccepted = True,
                      drQueueKind = getProp queue ''kind'', drPendingBefore = length records,
                      drDrainedCount = length drained,
                      drExecutedCallbackCount =
                        length (filter (\<lambda>d. sCallbackStatus d = ''executed-branded-internal-test-callback'') drained),
                      drRecordedContinuationCount = length recorded,
                      drExecutedContinuationCount = length executed,
                      drRemainingCount = length rest,
                      drDrainedRecords = drained, drRecordedContinuations = recorded, drExecutedContinuations = executed,
                      drMockSchedulerPendingWorkBefore = (scheduledCallback m \<noteq> None),
                      drMockSchedulerPendingWorkAfter = (scheduledCallback m' \<noteq> None),
                      drMockSchedulerNowBefore = currentMockTime m, drMockSchedulerNowAfter = currentMockTime m',
                      drDrainsPublicSchedulerTaskQueue = False, drDrainsPublicReactActQueue = False,
                      drExecutesBrandedInternalTestCallbacks = True, drRecordsBrandedInternalTestContinuations = True,
                      drExecutesBrandedInternalTestContinuations = True,
                      drPublicSchedulerTimingCompatibilityClaimed = False, drPublicReactActCompatibilityClaimed = False,
                      drExecutesQueuedWork = False, drExecutesEffects = False\<rparr>) r,
                   (m'\<lparr>isPrivateActQueueDraining := False\<rparr>, rest)))
               (drainRecords fuel call [] ([], []) (m\<lparr>isPrivateActQueueDraining := True\<rparr>, records)))"

subsection \<open>Only branded callbacks run\<close>

text \<open>A branded test callback: a function that carries the locked brand and the exact kind, version
  and targets, and claims neither compatibility nor execution.\<close>
definition branded :: "jsval \<Rightarrow> bool" where
  "branded v \<longleftrightarrow> isFunction v \<and> hasOwnLockedDataProperty v callbackBrand (JBool True) \<and>
     getProp v ''kind'' = JStr callbackKind \<and> getProp v ''version'' = JNum 1 \<and>
     getProp v ''compatibilityTarget'' = JStr ''react@19.2.6'' \<and>
     getProp v ''schedulerCompatibilityTarget'' = JStr ''scheduler@0.27.0'' \<and> isString (getProp v ''label'') \<and>
     (\<forall>k \<in> {''publicCompatibilityClaimed'', ''publicSchedulerTimingCompatibilityClaimed'',
        ''publicReactActCompatibilityClaimed'', ''executesQueuedWork'', ''executesEffects''}.
        getProp v k = JBool False)"

lemma callback_reason_None:
  "getRejectedPrivateActQueueCallbackReason v i role = None \<longleftrightarrow> isNullish v \<or> branded v"
proof -
  have f: "isFunction v \<Longrightarrow> \<not> isNullish v" by (cases v) (auto simp: isNullish_def)
  show ?thesis
    unfolding getRejectedPrivateActQueueCallbackReason_def Let_def branded_def privateActQueueTestQueueVersion_def
      reactCompatibilityTarget_def schedulerCompatibilityTarget_def claimsNothing_def executesNothing_def
    using f by (cases "isFunction v") auto
qed

text \<open>A chain of checks that return the first reason finds none when no check fires.\<close>
lemma reason_chain:
  "(if b then Some x else e) = None \<longleftrightarrow> \<not> b \<and> e = None"
  "(case r of Some y \<Rightarrow> Some y | None \<Rightarrow> e) = None \<longleftrightarrow> r = None \<and> e = None"
  by (auto split: option.splits)

text \<open>The records an accepted queue holds.\<close>
definition accepted_task :: "jsval \<Rightarrow> bool" where
  "accepted_task t \<longleftrightarrow> isObjectLike t \<and> hasOwnLockedDataProperty t taskBrand (JBool True) \<and>
     getProp t ''kind'' = JStr taskKind \<and> getProp t ''version'' = JNum 1 \<and>
     getProp t ''compatibilityTarget'' = JStr ''react@19.2.6'' \<and>
     getProp t ''schedulerCompatibilityTarget'' = JStr ''scheduler@0.27.0'' \<and>
     includesString (getProp t ''recordKind'') acceptedActQueueRecordKinds \<and>
     includesString (getProp t ''taskKind'') acceptedActQueueTaskKinds \<and>
     includesString (getProp t ''continuationStatus'') acceptedActQueueContinuationStatuses \<and>
     isString (getProp t ''label'') \<and>
     (isNullish (getProp t ''callback'') \<or> branded (getProp t ''callback'')) \<and> claimsNothing t \<and> executesNothing t"

lemma task_reason_None: "getRejectedPrivateActQueueTaskReason t i = None \<longleftrightarrow> accepted_task t"
  unfolding getRejectedPrivateActQueueTaskReason_def Let_def reason_chain callback_reason_None accepted_task_def
    privateActQueueTestQueueVersion_def reactCompatibilityTarget_def schedulerCompatibilityTarget_def
  by (simp add: conj_ac)

lemma firstRejected_None: "firstRejectedTask ts i = None \<longleftrightarrow> (\<forall>t \<in> set ts. accepted_task t)"
  by (induction ts i rule: firstRejectedTask.induct) (auto simp: task_reason_None reason_chain)

lemma queue_reason_tasks:
  "getRejectedPrivateActQueueReason q = None \<Longrightarrow> t \<in> set (items (getProp q ''records'')) \<Longrightarrow> accepted_task t"
  by (simp add: getRejectedPrivateActQueueReason_def firstRejected_None reason_chain)

lemma execute_cong:
  assumes "\<And>f st. branded f \<Longrightarrow> call' f st = call f st" "branded k"
  shows "executePrivateActQueueContinuation call' t i k st = executePrivateActQueueContinuation call t i k st"
  unfolding executePrivateActQueueContinuation_def assms(1) [OF assms(2)] ..

lemma summarize_cong:
  assumes same: "\<And>f st. branded f \<Longrightarrow> call' f st = call f st" and t: "accepted_task t"
  shows "summarizePrivateActQueueTask call' t i conts st = summarizePrivateActQueueTask call t i conts st"
proof (cases "isNullish (getProp t ''callback'')")
  case False
  then have b: "branded (getProp t ''callback'')" using t by (simp add: accepted_task_def)
  have k: "executePrivateActQueueContinuation call' t i k st' = executePrivateActQueueContinuation call t i k st'"
    if "\<not> isNullish k" "getRejectedPrivateActQueueCallbackReason k i ''continuation'' = None" for k st'
    using execute_cong [where call' = call' and call = call, OF same] that callback_reason_None by blast
  show ?thesis
    unfolding summarizePrivateActQueueTask_def Let_def same [OF b]
    by (auto simp: k split: prod.splits sum.splits option.splits)
qed (simp add: summarizePrivateActQueueTask_def)

lemma drainRecords_cong:
  assumes "\<And>f st. branded f \<Longrightarrow> call' f st = call f st"
  shows "drainRecords fuel call' drained conts st = drainRecords fuel call drained conts st"
proof (induction fuel arbitrary: drained conts st)
  case (Suc fuel)
  obtain m records where st: "st = (m, records)" by (cases st)
  show ?case
  proof (cases records)
    case (Cons t rest)
    show ?thesis
    proof (cases "getRejectedPrivateActQueueTaskReason t (length drained)")
      case None
      then have "accepted_task t" using task_reason_None by blast
      from summarize_cong [where call' = call' and call = call, OF assms this]
      show ?thesis using Suc st Cons None by (simp split: prod.splits sum.splits)
    qed (simp add: st Cons)
  qed (simp add: st)
qed simp

text \<open>Draining an act queue runs no function but branded test callbacks and continuations. Two
  callers that agree on those give the same result and the same final state for every queue
  object, accepted or not.\<close>
theorem drain_calls_only_branded:
  assumes "\<And>f st. branded f \<Longrightarrow> call' f st = call f st"
  shows "drainAcceptedInternalActQueue fuel call' queue m = drainAcceptedInternalActQueue fuel call queue m"
proof -
  have eq: "drainRecords fuel call' = drainRecords fuel call"
    by (intro ext) (rule drainRecords_cong [OF assms])
  show ?thesis unfolding drainAcceptedInternalActQueue_def eq ..
qed

subsection \<open>A concrete queue\<close>

definition locked :: "bool \<times> bool \<times> bool" where "locked = (False, False, False)"
definition open_prop :: "bool \<times> bool \<times> bool" where "open_prop = (True, True, True)"

definition common_props :: "string \<Rightarrow> js_prop list" where
  "common_props kind = map (\<lambda>(k, v). (KString k, open_prop, v))
     [(''kind'', JStr kind), (''version'', JNum 1), (''compatibilityTarget'', JStr ''react@19.2.6''),
      (''schedulerCompatibilityTarget'', JStr ''scheduler@0.27.0''), (''label'', JStr ''demo''),
      (''publicCompatibilityClaimed'', JBool False), (''publicSchedulerTimingCompatibilityClaimed'', JBool False),
      (''publicReactActCompatibilityClaimed'', JBool False), (''executesQueuedWork'', JBool False),
      (''executesEffects'', JBool False)]"

definition demo_callback :: jsval where
  "demo_callback = JFunction 7 ((callbackBrand, locked, JBool True) # common_props callbackKind)"

definition demo_task :: jsval where
  "demo_task = JObject ((taskBrand, locked, JBool True) # common_props taskKind @
     map (\<lambda>(k, v). (KString k, open_prop, v))
     [(''recordKind'', JStr ''SchedulerActQueueRequest''), (''taskKind'', JStr ''RootSchedule''),
      (''continuationStatus'', JStr ''NoContinuation''), (''callback'', demo_callback)])"

definition demo_queue :: jsval where
  "demo_queue = JObject ((queueBrand, locked, JBool True) # common_props queueKind @
     map (\<lambda>(k, v). (KString k, open_prop, v))
     [(''queueFlushingReady'', JBool False), (''privateTestQueueFlushDiagnosticsReady'', JBool True),
      (''drainsAcceptedInternalTestQueues'', JBool True), (''executesBrandedInternalTestCallbacks'', JBool True),
      (''recordsBrandedInternalTestContinuations'', JBool True), (''records'', JArray [demo_task, demo_task])])"

definition demo_call :: "(nat, string, string) caller" where
  "demo_call f st = (Inr JUndef, (mock_log ''called'' (fst st), snd st))"

lemmas demo_queue_defs = demo_queue_def demo_task_def demo_callback_def common_props_def locked_def open_prop_def
  queueBrand_def taskBrand_def callbackBrand_def queueKind_def taskKind_def callbackKind_def

lemma demo_branded: "branded demo_callback"
  by (simp add: branded_def demo_queue_defs hasOwnLockedDataProperty_def getProp_def ownProp_def)

lemma demo_accepted_task: "accepted_task demo_task"
proof -
  have c: "getProp demo_task ''callback'' = demo_callback" by (simp add: demo_queue_defs getProp_def ownProp_def)
  show ?thesis
    unfolding accepted_task_def c
    by (simp add: demo_branded)
       (simp add: demo_queue_defs getProp_def ownProp_def hasOwnLockedDataProperty_def includesString_def isObjectLike_def
        claimsNothing_def executesNothing_def acceptedActQueueRecordKinds_def acceptedActQueueTaskKinds_def
        acceptedActQueueContinuationStatuses_def)
qed

lemma demo_records: "getProp demo_queue ''records'' = JArray [demo_task, demo_task]"
  by (simp add: demo_queue_def demo_queue_defs getProp_def ownProp_def)

lemma demo_queue_accepted: "getRejectedPrivateActQueueReason demo_queue = None"
  unfolding getRejectedPrivateActQueueReason_def reason_chain demo_records items.simps firstRejected_None
  by (simp add: demo_accepted_task)
     (simp add: demo_queue_def common_props_def locked_def open_prop_def queueBrand_def queueKind_def
      getProp_def ownProp_def hasOwnLockedDataProperty_def isObjectLike_def claimsNothing_def executesNothing_def
      privateActQueueTestQueueVersion_def reactCompatibilityTarget_def schedulerCompatibilityTarget_def)

text \<open>A caller that refuses unbranded functions.\<close>
definition strict_call :: "(nat, string, string) caller" where
  "strict_call f st = (if branded f then demo_call f st else (Inl ''unbranded'', st))"

theorem drain_calls_only_branded_witness:
  "drainAcceptedInternalActQueue 3 strict_call demo_queue init_mock = drainAcceptedInternalActQueue 3 demo_call demo_queue init_mock"
  by (rule drain_calls_only_branded) (simp add: strict_call_def)

subsection \<open>Draining succeeds\<close>

text \<open>A caller whose functions return no continuation, do not throw and leave the array alone.\<close>
definition quiet_call :: "('c, 'v, 'e) caller \<Rightarrow> bool" where
  "quiet_call call \<longleftrightarrow> (\<forall>f m rest. \<exists>v m'. call f (m, rest) = (Inr v, (m', rest)) \<and> isNullish v)"

definition has_callback :: "jsval \<Rightarrow> bool" where
  "has_callback t \<longleftrightarrow> \<not> isNullish (getProp t ''callback'')"

lemma summarize_quiet:
  assumes "quiet_call call"
  obtains s m' where "summarizePrivateActQueueTask call t i conts (m, rest) = (Inr (s, conts), (m', rest))"
    "sIndex s = i" "sLabel s = getProp t ''label''"
    "sCallbackStatus s = ''executed-branded-internal-test-callback'' \<longleftrightarrow> has_callback t"
proof -
  obtain v m' where c: "call (getProp t ''callback'') (m, rest) = (Inr v, (m', rest))" "isNullish v"
    using assms unfolding quiet_call_def by blast
  show thesis
  proof (cases "has_callback t")
    case True
    show thesis
      by (rule that [of "\<lparr>sIndex = i, sLabel = getProp t ''label'', sRecordKind = getProp t ''recordKind'',
            sTaskKind = getProp t ''taskKind'', sContinuationStatus = getProp t ''continuationStatus'',
            sCallbackStatus = ''executed-branded-internal-test-callback'',
            sCallback = Some (summarizePrivateActQueueCallback (getProp t ''callback'')), sReturnedContinuation = None,
            sExecutesQueuedWork = False, sExecutesEffects = False\<rparr>" m'])
         (use True c in \<open>simp_all add: summarizePrivateActQueueTask_def has_callback_def\<close>)
  next
    case False
    show thesis
      by (rule that [of "\<lparr>sIndex = i, sLabel = getProp t ''label'', sRecordKind = getProp t ''recordKind'',
            sTaskKind = getProp t ''taskKind'', sContinuationStatus = getProp t ''continuationStatus'',
            sCallbackStatus = ''no-callback'', sCallback = None, sReturnedContinuation = None,
            sExecutesQueuedWork = False, sExecutesEffects = False\<rparr>" m])
         (use False in \<open>simp_all add: summarizePrivateActQueueTask_def has_callback_def\<close>)
  qed
qed

text \<open>The summaries of the drained records, in order.\<close>
definition describes :: "task_summary list \<Rightarrow> jsval list \<Rightarrow> bool" where
  "describes ss ts \<longleftrightarrow> map sIndex ss = [0..<length ts] \<and> map sLabel ss = map (\<lambda>t. getProp t ''label'') ts \<and>
     map (\<lambda>s. sCallbackStatus s = ''executed-branded-internal-test-callback'') ss = map has_callback ts"

lemma drainRecords_quiet:
  assumes "quiet_call call"
  shows "\<forall>t \<in> set ts. accepted_task t \<Longrightarrow> length ts < fuel \<Longrightarrow> describes drained past \<Longrightarrow>
    \<exists>ss m'. drainRecords fuel call drained conts (m, ts) = Some (Inr (ss, conts), (m', [])) \<and> describes ss (past @ ts)"
proof (induction ts arbitrary: fuel drained past m)
  case Nil
  then show ?case by (cases fuel) auto
next
  case (Cons t ts)
  obtain n where n: "fuel = Suc n" using Cons.prems(2) by (cases fuel) auto
  have l: "length drained = length past"
    using Cons.prems(3) unfolding describes_def by (metis length_map)
  obtain s m' where s: "summarizePrivateActQueueTask call t (length drained) conts (m, ts) = (Inr (s, conts), (m', ts))"
    "sIndex s = length drained" "sLabel s = getProp t ''label''"
    "sCallbackStatus s = ''executed-branded-internal-test-callback'' \<longleftrightarrow> has_callback t"
    using summarize_quiet [OF assms] by blast
  have "describes (drained @ [s]) (past @ [t])" using Cons.prems(3) s l by (simp add: describes_def)
  moreover have "getRejectedPrivateActQueueTaskReason t (length drained) = None"
    using Cons.prems(1) by (simp add: task_reason_None)
  ultimately show ?case
    using Cons.IH [of n "drained @ [s]" "past @ [t]" m'] Cons.prems n s(1) by simp
qed



subsection \<open>Exits\<close>

lemma drainRecords_rest: "drainRecords fuel call drained conts st = Some (Inr x, st') \<Longrightarrow> snd st' = []"
proof (induction fuel arbitrary: drained conts st)
  case (Suc fuel)
  obtain m records where "st = (m, records)" by (cases st)
  with Suc show ?case by (auto split: list.splits option.splits prod.splits sum.splits)
qed simp

lemma drainRecords_conts:
  "drainRecords fuel call drained conts st = Some (Inr (ss, rs, es), st') \<Longrightarrow> fst conts = snd conts \<Longrightarrow> rs = es"
proof (induction fuel arbitrary: drained conts st)
  case (Suc fuel)
  obtain m records where st: "st = (m, records)" by (cases st)
  have step: "fst conts' = snd conts'"
    if "summarizePrivateActQueueTask call t i conts st1 = (Inr (s, conts'), st2)" for t i st1 s conts' st2
    using that Suc.prems(2)
    by (auto simp: summarizePrivateActQueueTask_def Let_def split: if_splits prod.splits sum.splits option.splits)
  show ?case
    using Suc.prems st Suc.IH
    by (auto split: list.splits option.splits prod.splits sum.splits dest: step)
qed simp

text \<open>Every exit of the drain, for any callbacks. A rejected queue, or a nested drain, leaves the
  scheduler and the array untouched and reports the reason. Otherwise the draining mark is clear
  again afterwards, also when a callback threw or a record was rejected on the way; and success
  means that nothing remains and every recorded continuation was executed.\<close>
theorem drain_exits:
  assumes "drainAcceptedInternalActQueue fuel call queue m = Some (r, (m', rest))"
  shows "(case getRejectedPrivateActQueueReason queue of
      Some reason \<Rightarrow> r = Inl (FlushError (createPrivateActQueueFlushError reason)) \<and> m' = m \<and>
        rest = items (getProp queue ''records'')
    | None \<Rightarrow>
        if isPrivateActQueueDraining m
        then r = Inl (FlushError (createPrivateActQueueFlushError ''already-draining'')) \<and> m' = m \<and>
          rest = items (getProp queue ''records'')
        else \<not> isPrivateActQueueDraining m' \<and>
          (case r of Inl e \<Rightarrow> True
           | Inr res \<Rightarrow> rest = [] \<and> drRemainingCount res = 0 \<and>
               drRecordedContinuations res = drExecutedContinuations res))"
proof (cases "getRejectedPrivateActQueueReason queue")
  case None
  show ?thesis
  proof (cases "isPrivateActQueueDraining m")
    case False
    let ?ts = "items (getProp queue ''records'')"
    obtain r0 m0 where w: "drainRecords fuel call [] ([], []) (m\<lparr>isPrivateActQueueDraining := True\<rparr>, ?ts) = Some (r0, (m0, rest))"
      and m': "\<not> isPrivateActQueueDraining m'"
      using assms None False by (auto simp: drainAcceptedInternalActQueue_def Let_def)
    show ?thesis
    proof (cases r0)
      case (Inl e)
      then show ?thesis using assms None False w m' by (auto simp: drainAcceptedInternalActQueue_def Let_def)
    next
      case (Inr x)
      obtain ss rs es where x: "x = (ss, rs, es)" by (cases x)
      have "rest = []" using drainRecords_rest [of fuel call _ _ _ x] w Inr by fastforce
      moreover have "rs = es" using drainRecords_conts [of fuel call _ _ _ ss rs es] w Inr x by fastforce
      ultimately show ?thesis
        using assms None False w m' Inr x by (auto simp: drainAcceptedInternalActQueue_def Let_def)
    qed
  qed (use assms None in \<open>simp add: drainAcceptedInternalActQueue_def Let_def\<close>)
qed (use assms in \<open>simp add: drainAcceptedInternalActQueue_def Let_def\<close>)

theorem drain_exits_witness:
  "\<exists>m' rest. drainAcceptedInternalActQueue 3 demo_call JNull init_mock
      = Some (Inl (FlushError (createPrivateActQueueFlushError ''queue-not-object'')), (m', rest)) \<and> m' = init_mock"
proof -
  have j: "getRejectedPrivateActQueueReason JNull = Some ''queue-not-object''"
    by (simp add: getRejectedPrivateActQueueReason_def isObjectLike_def)
  then obtain r m' rest where r: "drainAcceptedInternalActQueue 3 demo_call JNull init_mock = Some (r, (m', rest))"
    by (simp add: drainAcceptedInternalActQueue_def)
  from drain_exits [OF r] r j show ?thesis by auto
qed

end
