(* ===== verification/Mock_Diagnostics.thy ===== *)
theory Mock_Diagnostics
  imports Act_Queue
begin

text \<open>
  The diagnostics of the test scheduler (\<open>scheduler-unstable_mock.development.js\<close>, lines 507-791):
  snapshots of the task queue and of the yield and paint state, taken around the flush
  operations. A task's callback is a reference to user code, so what the snapshots read of the
  function object (brand, kind, label, name, length) is the parameter \<open>meta\<close>; for a callback that
  is not a function, \<open>typeof\<close> is the parameter \<open>other\<close>.
\<close>

datatype callback_report =
    CancelledTombstone
  | BrandedCallback jsval jsval  \<comment> \<open>kind and label\<close>
  | PlainFunction jsval jsval    \<comment> \<open>name and length\<close>
  | UnknownCallback string       \<comment> \<open>typeof\<close>

definition summarizeMockSchedulerCallback ::
  "('c \<Rightarrow> jsval) \<Rightarrow> string \<Rightarrow> 'c callback_value \<Rightarrow> callback_report" where
  "summarizeMockSchedulerCallback meta other cb =
     (case cb of
        CbNull \<Rightarrow> CancelledTombstone
      | CbFunction c \<Rightarrow>
          if hasOwnLockedDataProperty (meta c) callbackBrand (JBool True)
          then BrandedCallback (getProp (meta c) ''kind'') (getProp (meta c) ''label'')
          else PlainFunction (getProp (meta c) ''name'') (getProp (meta c) ''length'')
      | CbOther \<Rightarrow> UnknownCallback other)"

record task_report =
  trId :: nat
  trPriorityLevel :: int
  trStartTime :: js_time
  trExpirationTime :: js_time
  trSortIndex :: js_time
  trExpired :: bool
  trCallbackStatus :: string
  trCallback :: callback_report

definition summarizeMockSchedulerTask ::
  "('c \<Rightarrow> jsval) \<Rightarrow> string \<Rightarrow> 'c task \<Rightarrow> js_time \<Rightarrow> task_report" where
  "summarizeMockSchedulerTask meta other t snapshotTime =
     \<lparr>trId = tid t, trPriorityLevel = priorityLevel t, trStartTime = startTime t,
      trExpirationTime = expirationTime t, trSortIndex = sortIndex t,
      trExpired = (expirationTime t \<le> snapshotTime),
      trCallbackStatus = (case callback t of CbNull \<Rightarrow> ''cancelled-tombstone''
                          | CbFunction _ \<Rightarrow> ''pending-callback'' | CbOther \<Rightarrow> ''unknown-callback''),
      trCallback = summarizeMockSchedulerCallback meta other (callback t)\<rparr>"

text \<open>\<open>Array.prototype.sort\<close> with a comparison function: stable insertion.\<close>
fun insert_by :: "('a \<Rightarrow> 'a \<Rightarrow> real) \<Rightarrow> 'a \<Rightarrow> 'a list \<Rightarrow> 'a list" where
  "insert_by cmp x [] = [x]"
| "insert_by cmp x (y # ys) = (if cmp x y \<le> 0 then x # y # ys else y # insert_by cmp x ys)"

fun sort_by :: "('a \<Rightarrow> 'a \<Rightarrow> real) \<Rightarrow> 'a list \<Rightarrow> 'a list" where
  "sort_by cmp [] = []"
| "sort_by cmp (x # xs) = insert_by cmp x (sort_by cmp xs)"

definition getMockSchedulerTaskQueueSnapshot ::
  "('c \<Rightarrow> jsval) \<Rightarrow> string \<Rightarrow> js_time \<Rightarrow> ('c, 'v) mock \<Rightarrow> task_report list" where
  "getMockSchedulerTaskQueueSnapshot meta other snapshotTime m =
     map (\<lambda>t. summarizeMockSchedulerTask meta other (mStore m t) snapshotTime)
       (sort_by (mock_compare m) (mTaskQueue m))"

definition countMockSchedulerTasksByCallbackStatus :: "task_report list \<Rightarrow> string \<Rightarrow> nat" where
  "countMockSchedulerTasksByCallbackStatus tasks status = length (filter (\<lambda>t. trCallbackStatus t = status) tasks)"

definition countExpiredMockSchedulerCallbacks :: "task_report list \<Rightarrow> nat" where
  "countExpiredMockSchedulerCallbacks tasks =
     length (filter (\<lambda>t. trExpired t \<and> trCallbackStatus t = ''pending-callback'') tasks)"

record expired_report =
  xStatus :: string
  xPendingBefore :: bool
  xPendingAfter :: bool
  xFlushedExpiredWork :: bool
  xHasMoreWorkAfterDrain :: bool
  xNowBefore :: js_time
  xNowAfter :: js_time
  xPriorityLevelBefore :: int
  xPriorityLevelAfter :: int
  xExpiredCallbackCountBefore :: nat
  xExpiredCallbackCountAfter :: nat
  xCancelledTombstoneCountBefore :: nat
  xCancelledTombstoneCountAfter :: nat
  xTaskQueueBefore :: "task_report list"
  xTaskQueueAfter :: "task_report list"
  xDrainsExpiredMockSchedulerWork :: bool
  xDrainsPublicReactActQueue :: bool
  xPublicSchedulerTimingCompatibilityClaimed :: bool
  xPublicReactActCompatibilityClaimed :: bool

text \<open>The object built after the work, from the state before and after.\<close>
definition expiredReport ::
  "('c \<Rightarrow> jsval) \<Rightarrow> string \<Rightarrow> bool \<Rightarrow> bool \<Rightarrow> ('c, 'v) mock \<Rightarrow> ('c, 'v) mock \<Rightarrow> expired_report" where
  "expiredReport meta other flushed hasMoreWork m m' =
     (let before = getMockSchedulerTaskQueueSnapshot meta other (currentMockTime m) m;
          after = getMockSchedulerTaskQueueSnapshot meta other (currentMockTime m') m'
      in \<lparr>xStatus = ''drained-expired-mock-scheduler-work-for-diagnostics'',
          xPendingBefore = (scheduledCallback m \<noteq> None), xPendingAfter = (scheduledCallback m' \<noteq> None),
          xFlushedExpiredWork = flushed, xHasMoreWorkAfterDrain = hasMoreWork,
          xNowBefore = currentMockTime m, xNowAfter = currentMockTime m',
          xPriorityLevelBefore = mCurrentPriorityLevel m, xPriorityLevelAfter = mCurrentPriorityLevel m',
          xExpiredCallbackCountBefore = countExpiredMockSchedulerCallbacks before,
          xExpiredCallbackCountAfter = countExpiredMockSchedulerCallbacks after,
          xCancelledTombstoneCountBefore = countMockSchedulerTasksByCallbackStatus before ''cancelled-tombstone'',
          xCancelledTombstoneCountAfter = countMockSchedulerTasksByCallbackStatus after ''cancelled-tombstone'',
          xTaskQueueBefore = before, xTaskQueueAfter = after, xDrainsExpiredMockSchedulerWork = True,
          xDrainsPublicReactActQueue = False, xPublicSchedulerTimingCompatibilityClaimed = False,
          xPublicReactActCompatibilityClaimed = False\<rparr>)"

definition drainExpiredMockSchedulerWork ::
  "('c \<Rightarrow> jsval) \<Rightarrow> string \<Rightarrow> nat \<Rightarrow> ('c, 'v, 'e) mock_runner \<Rightarrow> ('c, 'v) mock
     \<Rightarrow> (('e mock_error + expired_report) \<times> ('c, 'v) mock) option" where
  "drainExpiredMockSchedulerWork meta other fuel run m =
     (if isFlushing m then Some (Inl (MockError ''Already flushing work.''), m)
      else if scheduledCallback m \<noteq> None
      then map_option
        (\<lambda>(r, m1). let m' = (mock_dropCallback r m1)\<lparr>isFlushing := False\<rparr>
           in (map_sum id (\<lambda>hasMoreWork. expiredReport meta other True hasMoreWork m m') r, m'))
        (mock_flushWork fuel run False (currentMockTime m) (m\<lparr>isFlushing := True\<rparr>))
      else Some (Inr (expiredReport meta other False False m m), m))"

subsection \<open>Yield and paint state\<close>

definition getMockSchedulerYieldedValuesSnapshot :: "('c, 'v) mock \<Rightarrow> 'v list" where
  "getMockSchedulerYieldedValuesSnapshot m = (case yieldedValues m of None \<Rightarrow> [] | Some vs \<Rightarrow> vs)"

record 'v yield_paint =
  ypNow :: js_time
  ypPendingWork :: bool
  ypYieldedValues :: "'v list"
  ypYieldedValueCount :: nat
  ypExpectedNumberOfYields :: int
  ypDidStop :: bool
  ypNeedsPaint :: bool
  ypShouldYieldForPaint :: bool

definition getMockSchedulerYieldPaintSnapshot :: "('c, 'v) mock \<Rightarrow> 'v yield_paint" where
  "getMockSchedulerYieldPaintSnapshot m =
     (let values = getMockSchedulerYieldedValuesSnapshot m
      in \<lparr>ypNow = currentMockTime m, ypPendingWork = (scheduledCallback m \<noteq> None), ypYieldedValues = values,
          ypYieldedValueCount = length values, ypExpectedNumberOfYields = expectedNumberOfYields m,
          ypDidStop = didStop m, ypNeedsPaint = mNeedsPaint m, ypShouldYieldForPaint = shouldYieldForPaint m\<rparr>)"

definition getMockSchedulerYieldedValuesAdded :: "'v list \<Rightarrow> 'v list \<Rightarrow> 'v list" where
  "getMockSchedulerYieldedValuesAdded beforeValues afterValues =
     (if length afterValues < length beforeValues then afterValues else drop (length beforeValues) afterValues)"

record 'v paint_state_report =
  psStatus :: string
  psNow :: js_time
  psPendingWork :: bool
  psYieldedValues :: "'v list"
  psYieldedValueCount :: nat
  psExpectedNumberOfYields :: int
  psDidStop :: bool
  psNeedsPaint :: bool
  psShouldYieldForPaint :: bool
  psRecordsMockSchedulerYieldedValues :: bool
  psRecordsMockSchedulerRequestPaint :: bool
  psRecordsMockSchedulerContinuationOrdering :: bool
  psDrainsPublicReactActQueue :: bool
  psPublicSchedulerTimingCompatibilityClaimed :: bool
  psPublicReactActCompatibilityClaimed :: bool

definition describeMockSchedulerYieldPaintState :: "('c, 'v) mock \<Rightarrow> 'v paint_state_report" where
  "describeMockSchedulerYieldPaintState m =
     (let snapshot = getMockSchedulerYieldPaintSnapshot m in
     \<lparr>psStatus = ''mock-scheduler-yield-paint-state-for-diagnostics'',
      psNow = ypNow snapshot, psPendingWork = ypPendingWork snapshot, psYieldedValues = ypYieldedValues snapshot,
      psYieldedValueCount = ypYieldedValueCount snapshot, psExpectedNumberOfYields = ypExpectedNumberOfYields snapshot,
      psDidStop = ypDidStop snapshot, psNeedsPaint = ypNeedsPaint snapshot,
      psShouldYieldForPaint = ypShouldYieldForPaint snapshot, psRecordsMockSchedulerYieldedValues = True,
      psRecordsMockSchedulerRequestPaint = True, psRecordsMockSchedulerContinuationOrdering = True,
      psDrainsPublicReactActQueue = False, psPublicSchedulerTimingCompatibilityClaimed = False,
      psPublicReactActCompatibilityClaimed = False\<rparr>)"

record 'v paint_report =
  prStatus :: string
  prRequestPaintReturnedUndefined :: bool
  prNowBefore :: js_time
  prNowAfter :: js_time
  prPendingBefore :: bool
  prPendingAfter :: bool
  prYieldedValuesBefore :: "'v list"
  prYieldedValuesAfter :: "'v list"
  prYieldedValuesAdded :: "'v list"
  prYieldedValueCountBefore :: nat
  prYieldedValueCountAfter :: nat
  prNeedsPaintBefore :: bool
  prNeedsPaintAfter :: bool
  prShouldYieldForPaintBefore :: bool
  prShouldYieldForPaintAfter :: bool
  prDrainsMockSchedulerWork :: bool
  prDrainsPublicReactActQueue :: bool
  prPublicSchedulerTimingCompatibilityClaimed :: bool
  prPublicReactActCompatibilityClaimed :: bool

text \<open>\<open>unstable_requestPaint\<close> returns \<open>undefined\<close>, as does \<open>unstable_flushNumberOfYields\<close>.\<close>
definition requestPaintForDiagnostics :: "('c, 'v) mock \<Rightarrow> 'v paint_report \<times> ('c, 'v) mock" where
  "requestPaintForDiagnostics m =
     (let before = getMockSchedulerYieldPaintSnapshot m;
          m' = mock_requestPaint m;
          after = getMockSchedulerYieldPaintSnapshot m'
      in (\<lparr>prStatus = ''requested-paint-for-diagnostics'', prRequestPaintReturnedUndefined = True,
           prNowBefore = ypNow before, prNowAfter = ypNow after,
           prPendingBefore = ypPendingWork before, prPendingAfter = ypPendingWork after,
           prYieldedValuesBefore = ypYieldedValues before, prYieldedValuesAfter = ypYieldedValues after,
           prYieldedValuesAdded = getMockSchedulerYieldedValuesAdded (ypYieldedValues before) (ypYieldedValues after),
           prYieldedValueCountBefore = ypYieldedValueCount before, prYieldedValueCountAfter = ypYieldedValueCount after,
           prNeedsPaintBefore = ypNeedsPaint before, prNeedsPaintAfter = ypNeedsPaint after,
           prShouldYieldForPaintBefore = ypShouldYieldForPaint before,
           prShouldYieldForPaintAfter = ypShouldYieldForPaint after, prDrainsMockSchedulerWork = False,
           prDrainsPublicReactActQueue = False, prPublicSchedulerTimingCompatibilityClaimed = False,
           prPublicReactActCompatibilityClaimed = False\<rparr>, m'))"

record 'v yields_report =
  yrStatus :: string
  yrCount :: int
  yrFlushReturnedUndefined :: bool
  yrNowBefore :: js_time
  yrNowAfter :: js_time
  yrPendingBefore :: bool
  yrPendingAfter :: bool
  yrYieldedValuesBefore :: "'v list"
  yrYieldedValuesAfter :: "'v list"
  yrYieldedValuesAdded :: "'v list"
  yrYieldedValueCountBefore :: nat
  yrYieldedValueCountAfter :: nat
  yrNeedsPaintBefore :: bool
  yrNeedsPaintAfter :: bool
  yrTaskQueueBefore :: "task_report list"
  yrTaskQueueAfter :: "task_report list"
  yrRecordsMockSchedulerYieldedValues :: bool
  yrRecordsMockSchedulerContinuationOrdering :: bool
  yrDrainsPublicReactActQueue :: bool
  yrPublicSchedulerTimingCompatibilityClaimed :: bool
  yrPublicReactActCompatibilityClaimed :: bool

definition yieldsReport ::
  "int \<Rightarrow> 'v yield_paint \<Rightarrow> 'v yield_paint \<Rightarrow> task_report list \<Rightarrow> task_report list \<Rightarrow> 'v yields_report" where
  "yieldsReport cnt before after taskQueueBefore taskQueueAfter =
     \<lparr>yrStatus = ''flushed-number-of-yields-for-diagnostics'', yrCount = cnt, yrFlushReturnedUndefined = True,
           yrNowBefore = ypNow before, yrNowAfter = ypNow after,
           yrPendingBefore = ypPendingWork before, yrPendingAfter = ypPendingWork after,
           yrYieldedValuesBefore = ypYieldedValues before, yrYieldedValuesAfter = ypYieldedValues after,
           yrYieldedValuesAdded = getMockSchedulerYieldedValuesAdded (ypYieldedValues before) (ypYieldedValues after),
           yrYieldedValueCountBefore = ypYieldedValueCount before, yrYieldedValueCountAfter = ypYieldedValueCount after,
           yrNeedsPaintBefore = ypNeedsPaint before, yrNeedsPaintAfter = ypNeedsPaint after,
           yrTaskQueueBefore = taskQueueBefore, yrTaskQueueAfter = taskQueueAfter,
           yrRecordsMockSchedulerYieldedValues = True, yrRecordsMockSchedulerContinuationOrdering = True,
           yrDrainsPublicReactActQueue = False, yrPublicSchedulerTimingCompatibilityClaimed = False,
           yrPublicReactActCompatibilityClaimed = False\<rparr>"

definition flushNumberOfYieldsForDiagnostics ::
  "('c \<Rightarrow> jsval) \<Rightarrow> string \<Rightarrow> nat \<Rightarrow> ('c, 'v, 'e) mock_runner \<Rightarrow> int \<Rightarrow> ('c, 'v) mock
     \<Rightarrow> (('e mock_error + 'v yields_report) \<times> ('c, 'v) mock) option" where
  "flushNumberOfYieldsForDiagnostics meta other fuel run cnt m =
     (let before = getMockSchedulerYieldPaintSnapshot m;
          taskQueueBefore = getMockSchedulerTaskQueueSnapshot meta other (ypNow before) m
      in map_option
        (\<lambda>(r, m'). (map_sum id (\<lambda>_. let after = getMockSchedulerYieldPaintSnapshot m' in
             yieldsReport cnt before after taskQueueBefore
               (getMockSchedulerTaskQueueSnapshot meta other (ypNow after) m')) r, m'))
        (mock_flushNumberOfYields fuel run cnt m))"

record 'v until_paint_report =
  upStatus :: string
  upFlushReturnValue :: bool
  upNowBefore :: js_time
  upNowAfter :: js_time
  upPendingBefore :: bool
  upPendingAfter :: bool
  upYieldedValuesBefore :: "'v list"
  upYieldedValuesAfter :: "'v list"
  upYieldedValuesAdded :: "'v list"
  upYieldedValueCountBefore :: nat
  upYieldedValueCountAfter :: nat
  upNeedsPaintBefore :: bool
  upNeedsPaintAfter :: bool
  upShouldYieldForPaintBefore :: bool
  upShouldYieldForPaintAfter :: bool
  upTaskQueueBefore :: "task_report list"
  upTaskQueueAfter :: "task_report list"
  upRecordsMockSchedulerYieldedValues :: bool
  upRecordsMockSchedulerRequestPaint :: bool
  upRecordsMockSchedulerContinuationOrdering :: bool
  upDrainsPublicReactActQueue :: bool
  upPublicSchedulerTimingCompatibilityClaimed :: bool
  upPublicReactActCompatibilityClaimed :: bool

definition untilPaintReport ::
  "bool \<Rightarrow> 'v yield_paint \<Rightarrow> 'v yield_paint \<Rightarrow> task_report list \<Rightarrow> task_report list \<Rightarrow> 'v until_paint_report" where
  "untilPaintReport flushReturnValue before after taskQueueBefore taskQueueAfter =
     \<lparr>upStatus = ''flushed-until-next-paint-for-diagnostics'', upFlushReturnValue = flushReturnValue,
           upNowBefore = ypNow before, upNowAfter = ypNow after,
           upPendingBefore = ypPendingWork before, upPendingAfter = ypPendingWork after,
           upYieldedValuesBefore = ypYieldedValues before, upYieldedValuesAfter = ypYieldedValues after,
           upYieldedValuesAdded = getMockSchedulerYieldedValuesAdded (ypYieldedValues before) (ypYieldedValues after),
           upYieldedValueCountBefore = ypYieldedValueCount before, upYieldedValueCountAfter = ypYieldedValueCount after,
           upNeedsPaintBefore = ypNeedsPaint before, upNeedsPaintAfter = ypNeedsPaint after,
           upShouldYieldForPaintBefore = ypShouldYieldForPaint before,
           upShouldYieldForPaintAfter = ypShouldYieldForPaint after,
           upTaskQueueBefore = taskQueueBefore, upTaskQueueAfter = taskQueueAfter,
           upRecordsMockSchedulerYieldedValues = True, upRecordsMockSchedulerRequestPaint = True,
           upRecordsMockSchedulerContinuationOrdering = True,
           upDrainsPublicReactActQueue = False, upPublicSchedulerTimingCompatibilityClaimed = False,
           upPublicReactActCompatibilityClaimed = False\<rparr>"

definition flushUntilNextPaintForDiagnostics ::
  "('c \<Rightarrow> jsval) \<Rightarrow> string \<Rightarrow> nat \<Rightarrow> ('c, 'v, 'e) mock_runner \<Rightarrow> ('c, 'v) mock
     \<Rightarrow> (('e mock_error + 'v until_paint_report) \<times> ('c, 'v) mock) option" where
  "flushUntilNextPaintForDiagnostics meta other fuel run m =
     (let before = getMockSchedulerYieldPaintSnapshot m;
          taskQueueBefore = getMockSchedulerTaskQueueSnapshot meta other (ypNow before) m
      in map_option
        (\<lambda>(r, m'). (map_sum id (\<lambda>b. let after = getMockSchedulerYieldPaintSnapshot m' in
             untilPaintReport b before after taskQueueBefore
               (getMockSchedulerTaskQueueSnapshot meta other (ypNow after) m')) r, m'))
        (mock_flushUntilNextPaint fuel run m))"

subsection \<open>The snapshot lists the tasks in execution order\<close>

lemma insert_by_mset [simp]: "mset (insert_by cmp x ys) = add_mset x (mset ys)"
  by (induction ys) auto

lemma sort_by_mset [simp]: "mset (sort_by cmp xs) = mset xs"
  by (induction xs) auto

lemma sort_by_set [simp]: "set (sort_by cmp xs) = set xs"
  by (metis sort_by_mset set_mset_mset)

context comparator
begin

lemma insert_by_sorted:
  "sorted_wrt (\<lambda>a b. cmp a b \<le> 0) ys \<Longrightarrow> sorted_wrt (\<lambda>a b. cmp a b \<le> 0) (insert_by cmp x ys)"
proof (induction ys)
  case (Cons y ys)
  have "set (insert_by cmp x ys) = insert x (set ys)" by (metis insert_by_mset set_mset_add_mset_insert set_mset_mset)
  moreover have "cmp y x \<le> 0" if "\<not> cmp x y \<le> 0" using that cmp_flip [of x y] by auto
  ultimately show ?case using Cons cmp_trans [of x y] by auto
qed simp

lemma sort_by_sorted: "sorted_wrt (\<lambda>a b. cmp a b \<le> 0) (sort_by cmp xs)"
  by (induction xs) (auto intro: insert_by_sorted)

end

lemma sorted_wrt_unique:
  assumes "\<And>a b. a \<in> set xs \<Longrightarrow> b \<in> set xs \<Longrightarrow> r a b \<Longrightarrow> r b a \<Longrightarrow> a = b"
  shows "sorted_wrt r xs \<Longrightarrow> sorted_wrt r ys \<Longrightarrow> mset xs = mset ys \<Longrightarrow> xs = ys"
  using assms
proof (induction xs arbitrary: ys)
  case (Cons x xs)
  obtain y ys' where ys: "ys = y # ys'" using Cons.prems(3) by (cases ys) auto
  have "x = y"
  proof (rule ccontr)
    assume ne: "x \<noteq> y"
    have "x \<in> set ys'" "y \<in> set xs"
      using ne Cons.prems(3) ys mset_eq_setD [OF Cons.prems(3)] by auto
    then show False using ne Cons.prems(1,2,4) ys by auto
  qed
  then show ?case using Cons.prems Cons.IH [of ys'] ys by simp
qed simp

text \<open>The diagnostic snapshot of the task queue lists exactly the queued tasks, in the order in
  which repeated \<open>peek\<close> and \<open>pop\<close> of the heap would take them.\<close>
theorem snapshot_in_execution_order:
  assumes "queues_ok (core m)"
  shows "getMockSchedulerTaskQueueSnapshot meta other now m =
    map (\<lambda>t. summarizeMockSchedulerTask meta other (mStore m t) now)
      (drain peek (\<lambda>h. snd (mock_pop m h)) (length (mTaskQueue m)) (mTaskQueue m))"
proof -
  let ?c = "compare (mStore m)" and ?q = "mTaskQueue m"
  let ?d = "drain peek (\<lambda>h. snd (pop ?c h)) (length ?q) ?q"
  have inv: "heap_ok ?c ?q \<and> distinct ?q" using assms by (simp add: queues_ok_def)
  have "mset ?d = mset ?q" by (rule task_order.pq.drain_contents [OF inv]) simp
  moreover have "sorted_wrt (\<lambda>a b. ?c a b \<le> 0) ?d" by (rule task_order.pq.drain_sorted [OF inv])
  moreover have "a = b" if "a \<in> set ?q" "b \<in> set ?q" "?c a b \<le> 0" "?c b a \<le> 0" for a b
    using that assms by (auto simp: compare_le_iff queue_defs)
  ultimately have "sort_by ?c ?q = ?d"
    by (intro sorted_wrt_unique [where r = "\<lambda>a b. ?c a b \<le> 0"] task_order.sort_by_sorted) auto
  then show ?thesis by (simp add: getMockSchedulerTaskQueueSnapshot_def mock_pop_def)
qed

theorem snapshot_in_execution_order_witness:
  "queues_ok (core mock_demo) \<and>
   map trId (getMockSchedulerTaskQueueSnapshot (\<lambda>_. JNull) ''object'' 0 mock_demo) = [1, 2]"
proof -
  have q: "queues_ok (core mock_demo)"
    using mock_reachable_ok [OF mock_demo_reachable mock_demo_runner] by (simp add: mock_ok_def mqueues_ok_def)
  have "drain peek (\<lambda>h. snd (mock_pop mock_demo h)) (length (mTaskQueue mock_demo)) (mTaskQueue mock_demo) = [1, 2]"
    by (simp add: mock_demo_eval mock_pop_def pop_def pop_loop.simps del: One_nat_def)
  then show ?thesis
    using q snapshot_in_execution_order [OF q, of "\<lambda>_. JNull" "''object''" 0]
    by (simp add: summarizeMockSchedulerTask_def mock_demo_eval newTask_def del: One_nat_def)
qed

text \<open>The diagnostic flushes are the public flushes with a report. They fail in the same cases
  with the same error, do the same work and leave the same state; requesting a paint through the
  diagnostics is \<open>unstable_requestPaint\<close>.\<close>
theorem diagnostics_do_the_same_work:
  "map_option (map_prod (map_sum id (\<lambda>_. ())) id) (drainExpiredMockSchedulerWork meta other fuel run m)
     = mock_flushExpired fuel run m \<and>
   map_option (map_prod (map_sum id (\<lambda>_. ())) id) (flushNumberOfYieldsForDiagnostics meta other fuel run cnt m)
     = mock_flushNumberOfYields fuel run cnt m \<and>
   map_option (map_prod (map_sum id upFlushReturnValue) id) (flushUntilNextPaintForDiagnostics meta other fuel run m)
     = mock_flushUntilNextPaint fuel run m \<and>
   snd (requestPaintForDiagnostics m) = mock_requestPaint m"
proof (intro conjI)
  have u: "map_sum id (\<lambda>_. ()) r = r" for r :: "'e mock_error + unit" by (cases r) auto
  have b: "map_sum id (\<lambda>x. x) r = r" for r :: "'e mock_error + bool" by (cases r) auto
  show "map_option (map_prod (map_sum id (\<lambda>_. ())) id) (drainExpiredMockSchedulerWork meta other fuel run m)
     = mock_flushExpired fuel run m"
    by (cases "mock_flushWork fuel run False (currentMockTime m) (m\<lparr>isFlushing := True\<rparr>)")
       (auto simp: drainExpiredMockSchedulerWork_def mock_flushExpired_def sum.map_comp comp_def Let_def id_def)
  show "map_option (map_prod (map_sum id (\<lambda>_. ())) id) (flushNumberOfYieldsForDiagnostics meta other fuel run cnt m)
     = mock_flushNumberOfYields fuel run cnt m"
    by (cases "mock_flushNumberOfYields fuel run cnt m")
       (auto simp: flushNumberOfYieldsForDiagnostics_def sum.map_comp comp_def Let_def u [unfolded id_def] id_def)
  show "map_option (map_prod (map_sum id upFlushReturnValue) id) (flushUntilNextPaintForDiagnostics meta other fuel run m)
     = mock_flushUntilNextPaint fuel run m"
    by (cases "mock_flushUntilNextPaint fuel run m")
       (auto simp: flushUntilNextPaintForDiagnostics_def untilPaintReport_def sum.map_comp comp_def Let_def b [unfolded id_def] id_def)
  show "snd (requestPaintForDiagnostics m) = mock_requestPaint m"
    by (simp add: requestPaintForDiagnostics_def Let_def)
qed

end
