(* ===== verification/React_Values.thy ===== *)
theory React_Values
  imports JS_Values
begin

text \<open>
  The values the \<open>react\<close> package works on: primitives, arrays and iterables, elements, portals,
  component types, lazy values and thenables, with ordered property lists for objects.

  A function carries what the code reads of it (display name, name, whether it is a client
  reference, default props) and an identity; a lazy value carries what its \<open>_init(_payload)\<close> does
  when it is called (throw or return); a thenable carries its status and what a call of \<open>then\<close>
  leaves behind. Numbers are integers. Objects whose conversion to a string is user code get it
  from the parameter \<open>host_objects\<close>.
\<close>

datatype val =
    VUndef
  | VNull
  | VBool bool
  | VNum int
  | VBigInt int
  | VStr string
  | VSym string
  | VFunction nat "string option" string bool "(string \<times> val) list"
      \<comment> \<open>identity, displayName, name, client reference, defaultProps\<close>
  | VArray "val list"
  | VIterable bool "val list"  \<comment> \<open>whether the iterator is \<open>entries\<close> (a Map), items\<close>
  | VElement element
  | VPortal "string option" "val list"  \<comment> \<open>key, children\<close>
  | VLazy "val + val" "nat option"  \<comment> \<open>what \<open>_init\<close> throws or returns, \<open>_store.validated\<close>\<close>
  | VThenable "(val + val) option" bool "(val + val) option"
      \<comment> \<open>settled status, whether status is a string, what is settled after \<open>then\<close> returned\<close>
  | VContext "string option"
  | VConsumer "string option"
  | VForwardRef "string option" "string option" string "(string \<times> val) list"
      \<comment> \<open>displayName, displayName and name of the render function, defaultProps\<close>
  | VMemo "string option" val "(string \<times> val) list"
  | VObject "(string \<times> val) list"
and element =
    Element (etype: val) (ekey: "string option") (eprops: "(string \<times> val) list") (ekeyGuard: bool)
      (eowner: val) (evalidated: "nat option")
      \<comment> \<open>\<open>ekeyGuard\<close>: \<open>props\<close> has the warning getter for \<open>key\<close>; \<open>evalidated\<close>: \<open>_store.validated\<close>, absent in production\<close>

type_synonym entries = "(string \<times> val) list"

text \<open>What a call throws: an \<open>Error\<close> made by the code, or any value.\<close>
datatype thrown = ThrownError string | ThrownValue val

record host_objects =
  objText :: "val \<Rightarrow> thrown + string"   \<comment> \<open>\<open>'' + value\<close>\<close>
  objString :: "val \<Rightarrow> thrown + string" \<comment> \<open>\<open>String(value)\<close>\<close>
  objTypeName :: "val \<Rightarrow> string"

text \<open>Reading and writing properties; a new property goes to the end, as in insertion order.\<close>
definition prop_get :: "entries \<Rightarrow> string \<Rightarrow> val" where
  "prop_get ps k = (case map_of ps k of None \<Rightarrow> VUndef | Some v \<Rightarrow> v)"

fun prop_set :: "string \<Rightarrow> val \<Rightarrow> entries \<Rightarrow> entries" where
  "prop_set k v [] = [(k, v)]"
| "prop_set k v ((k', v') # ps) = (if k = k' then (k, v) # ps else (k', v') # prop_set k v ps)"

lemma map_of_prop_set [simp]: "map_of (prop_set k v ps) = (map_of ps)(k \<mapsto> v)"
  by (induction ps) (auto simp: fun_upd_twist)

lemma prop_get_set [simp]: "prop_get (prop_set k v ps) k' = (if k = k' then v else prop_get ps k')"
  by (simp add: prop_get_def)

lemma prop_set_keys [simp]: "fst ` set (prop_set k v ps) = insert k (fst ` set ps)"
  by (induction ps) force+

lemma prop_set_distinct: "distinct (map fst ps) \<Longrightarrow> distinct (map fst (prop_set k v ps))"
  by (induction ps) auto

text \<open>\<open>for (k in source) if (keep k) target[k] = source[k]\<close>\<close>
definition copy_props :: "(string \<Rightarrow> bool) \<Rightarrow> entries \<Rightarrow> entries \<Rightarrow> entries" where
  "copy_props keep source target = foldl (\<lambda>t (k, v). if keep k then prop_set k v t else t) target source"

lemma copy_props_distinct: "distinct (map fst t) \<Longrightarrow> distinct (map fst (copy_props keep s t))"
  unfolding copy_props_def by (induction s arbitrary: t) (auto simp: prop_set_distinct)

lemma prop_get_copy_Cons:
  "prop_get (copy_props keep ((k, v) # s) t) k' = prop_get (copy_props keep s (if keep k then prop_set k v t else t)) k'"
  by (simp add: copy_props_def)

lemma prop_get_copy:
  "distinct (map fst s) \<Longrightarrow>
   prop_get (copy_props keep s t) k = (if keep k \<and> k \<in> fst ` set s then prop_get s k else prop_get t k)"
proof (induction s arbitrary: t)
  case (Cons a s)
  obtain k0 v0 where a: "a = (k0, v0)" by (cases a)
  have "prop_get (a # s) k = (if k = k0 then v0 else prop_get s k)" by (simp add: a prop_get_def)
  then show ?case using Cons by (auto simp: a prop_get_copy_Cons)
qed (simp add: copy_props_def)

subsection \<open>String conversion\<close>

definition int_str :: "int \<Rightarrow> string" where
  "int_str n = (if n < 0 then ''-'' @ nat_str (nat (- n)) else nat_str (nat n))"

text \<open>\<open>'' + value\<close>: defined here for primitives; for objects it is their own conversion.\<close>
definition coerceString :: "host_objects \<Rightarrow> val \<Rightarrow> thrown + string" where
  "coerceString h v =
     (case v of
        VUndef \<Rightarrow> Inr ''undefined''
      | VNull \<Rightarrow> Inr ''null''
      | VBool b \<Rightarrow> Inr (if b then ''true'' else ''false'')
      | VNum n \<Rightarrow> Inr (int_str n)
      | VBigInt n \<Rightarrow> Inr (int_str n)
      | VStr s \<Rightarrow> Inr s
      | VSym _ \<Rightarrow> Inl (ThrownError ''Cannot convert a Symbol value to a string'')
      | _ \<Rightarrow> objText h v)"

definition getUnsupportedKeyTypeName :: "host_objects \<Rightarrow> val \<Rightarrow> string" where
  "getUnsupportedKeyTypeName h v = (case v of VSym _ \<Rightarrow> ''Symbol'' | _ \<Rightarrow> objTypeName h v)"

definition truthy :: "val \<Rightarrow> bool" where
  "truthy v = (case v of VUndef \<Rightarrow> False | VNull \<Rightarrow> False | VBool b \<Rightarrow> b | VNum n \<Rightarrow> n \<noteq> 0
     | VBigInt n \<Rightarrow> n \<noteq> 0 | VStr s \<Rightarrow> s \<noteq> [] | _ \<Rightarrow> True)"

text \<open>The number \<open>n.toString(36)\<close>.\<close>
definition digit36 :: "nat \<Rightarrow> char" where
  "digit36 n = (if n < 10 then char_of (48 + n) else char_of (87 + n))"

fun nat_str36 :: "nat \<Rightarrow> string" where
  "nat_str36 n = (if n < 36 then [digit36 n] else nat_str36 (n div 36) @ [digit36 (n mod 36)])"

declare nat_str36.simps [simp del]

lemma nat_str36_nonempty: "nat_str36 n \<noteq> []" "[] \<noteq> nat_str36 n"
  using nat_str36.simps [of n] by auto

lemma digit36_inj: "m < 36 \<Longrightarrow> n < 36 \<Longrightarrow> digit36 m = digit36 n \<longleftrightarrow> m = n"
  by (auto simp: digit36_def split: if_splits)

lemma nat_str36_inject: "nat_str36 m = nat_str36 n \<longleftrightarrow> m = n"
proof (induction m arbitrary: n rule: nat_str36.induct)
  case (1 m)
  show ?case
  proof (cases "m < 36 \<or> n < 36")
    case True
    then show ?thesis
      using digit36_inj [of m n] by (auto simp: nat_str36.simps [of m] nat_str36.simps [of n] nat_str36_nonempty)
  next
    case False
    have "nat_str36 (m div 36) = nat_str36 (n div 36) \<longleftrightarrow> m div 36 = n div 36" using 1 False by simp
    moreover have "digit36 (m mod 36) = digit36 (n mod 36) \<longleftrightarrow> m mod 36 = n mod 36" by (rule digit36_inj) auto
    ultimately show ?thesis
      using False by (auto simp: nat_str36.simps [of m] nat_str36.simps [of n]) (metis div_mult_mod_eq)
  qed
qed

lemma digit36_safe: "n < 36 \<Longrightarrow> digit36 n \<notin> {CHR '':'', CHR ''$'', CHR ''/'', CHR ''.''}"
proof -
  assume "n < 36"
  then have "\<forall>i \<in> set [0..<36]. digit36 i \<notin> {CHR '':'', CHR ''$'', CHR ''/'', CHR ''.''}
      \<Longrightarrow> digit36 n \<notin> {CHR '':'', CHR ''$'', CHR ''/'', CHR ''.''}" by simp
  moreover have "\<forall>i \<in> set [0..<36]. digit36 i \<notin> {CHR '':'', CHR ''$'', CHR ''/'', CHR ''.''}" by code_simp
  ultimately show ?thesis by blast
qed

lemma nat_str36_safe: "c \<in> set (nat_str36 n) \<Longrightarrow> c \<notin> {CHR '':'', CHR ''$'', CHR ''/'', CHR ''.''}"
proof (induction n rule: nat_str36.induct)
  case (1 n)
  show ?case
    using 1 nat_str36.simps [of n] digit36_safe [of n] digit36_safe [of "n mod 36"] by (cases "n < 36") auto
qed

end
