(* ===== verification/Elements.thy ===== *)
theory Elements
  imports React_Values
begin

text \<open>
  The element factory, \<open>packages/react/element-factory.js\<close>: \<open>createElement\<close>, \<open>cloneElement\<close>, the JSX
  entry points, key and ref handling, and component names for diagnostics. \<open>dev\<close> is the
  constant \<open>isDevelopment\<close>; the warning flags and the console are the state \<open>elem_env\<close>. A config
  object is its own enumerable properties plus whether \<open>key\<close> or \<open>ref\<close> is a warning getter (as on the
  props of another element). The debug stack and task of an element come from the host and are
  left out, as is the sharing of the \<open>_store\<close> object: marking a child as validated marks the child
  in the place where it is used.
\<close>

record elem_env =
  didWarnAboutOldJSXRuntime :: bool
  specialPropKeyWarningShown :: bool
  didWarnAboutElementRef :: "string list"
  didWarnAboutKeySpread :: "string list"
  elog :: "(string \<times> string list) list"

definition init_elem_env :: elem_env where
  "init_elem_env = \<lparr>didWarnAboutOldJSXRuntime = False, specialPropKeyWarningShown = False,
     didWarnAboutElementRef = [], didWarnAboutKeySpread = [], elog = []\<rparr>"

record elem_config =
  cEntries :: entries
  cKeyGuard :: bool
  cRefGuard :: bool

definition log_console :: "string \<Rightarrow> string list \<Rightarrow> elem_env \<Rightarrow> elem_env" where
  "log_console msg args s = s\<lparr>elog := elog s @ [(msg, args)]\<rparr>"

definition isValidElement :: "val \<Rightarrow> bool" where
  "isValidElement v = (case v of VElement _ \<Rightarrow> True | _ \<Rightarrow> False)"

text \<open>\<open>key in config\<close>, \<open>config.key\<close> and \<open>config.ref\<close>.\<close>
definition hasKeyProp :: "elem_config \<Rightarrow> bool" where
  "hasKeyProp c \<longleftrightarrow> cKeyGuard c \<or> ''key'' \<in> fst ` set (cEntries c)"

definition configKey :: "elem_config \<Rightarrow> val" where
  "configKey c = (if cKeyGuard c then VUndef else prop_get (cEntries c) ''key'')"

definition configRef :: "elem_config \<Rightarrow> val" where
  "configRef c = (if cRefGuard c then VUndef else prop_get (cEntries c) ''ref'')"

definition hasValidKey :: "elem_config \<Rightarrow> bool" where
  "hasValidKey c \<longleftrightarrow> \<not> cKeyGuard c \<and> configKey c \<noteq> VUndef"

definition hasValidRef :: "elem_config \<Rightarrow> bool" where
  "hasValidRef c \<longleftrightarrow> \<not> cRefGuard c \<and> configRef c \<noteq> VUndef"

definition checkKeyStringCoercion :: "host_objects \<Rightarrow> val \<Rightarrow> elem_env \<Rightarrow> (thrown + unit) \<times> elem_env" where
  "checkKeyStringCoercion h v s =
     (case coerceString h v of
        Inr _ \<Rightarrow> (Inr (), s)
      | Inl e \<Rightarrow> (Inl e, log_console
          ''The provided key is an unsupported type %s. This value must be coerced to a string before using it here.''
          [getUnsupportedKeyTypeName h v] s))"

text \<open>The check in development, then \<open>'' + value\<close>.\<close>
definition coerceKey :: "host_objects \<Rightarrow> bool \<Rightarrow> val \<Rightarrow> elem_env \<Rightarrow> (thrown + string) \<times> elem_env" where
  "coerceKey h dev v s =
     (if dev
      then (case checkKeyStringCoercion h v s of
              (Inl e, s') \<Rightarrow> (Inl e, s')
            | (Inr _, s') \<Rightarrow> (coerceString h v, s'))
      else (coerceString h v, s))"

definition validateChildKeys :: "val \<Rightarrow> val" where
  "validateChildKeys v =
     (case v of
        VElement (Element t k ps g ow st) \<Rightarrow> VElement (Element t k ps g ow (map_option (\<lambda>_. 1) st))
      | VLazy r st \<Rightarrow> VLazy r (map_option (\<lambda>_. 1) st)
      | _ \<Rightarrow> v)"

subsection \<open>Component names\<close>

text \<open>\<open>a || b\<close> on strings, where a missing or empty string is falsy.\<close>
definition orElse :: "string option \<Rightarrow> string option \<Rightarrow> string option" where
  "orElse a b = (case a of Some (c # cs) \<Rightarrow> a | _ \<Rightarrow> b)"

fun getComponentNameFromType :: "val \<Rightarrow> string option" where
  "getComponentNameFromType (VFunction i dn n client dp) =
     (if client then None else orElse dn (orElse (Some n) None))"
| "getComponentNameFromType (VStr s) = Some s"
| "getComponentNameFromType (VSym s) =
     (if s = ''react.fragment'' then Some ''Fragment''
      else if s = ''react.profiler'' then Some ''Profiler''
      else if s = ''react.strict_mode'' then Some ''StrictMode''
      else if s = ''react.suspense'' then Some ''Suspense''
      else if s = ''react.suspense_list'' then Some ''SuspenseList''
      else if s = ''react.activity'' then Some ''Activity''
      else None)"
| "getComponentNameFromType (VPortal k cs) = Some ''Portal''"
| "getComponentNameFromType (VContext dn) = orElse dn (Some ''Context'')"
| "getComponentNameFromType (VConsumer dn) =
     map_option (\<lambda>n. n @ ''.Consumer'') (orElse dn (Some ''Context''))"
| "getComponentNameFromType (VForwardRef dn idn iname dp) =
     orElse dn
       (case orElse idn (orElse (Some iname) None) of
          Some innerName \<Rightarrow> Some (''ForwardRef('' @ innerName @ '')'')
        | None \<Rightarrow> Some ''ForwardRef'')"
| "getComponentNameFromType (VMemo dn t dp) = orElse dn (orElse (getComponentNameFromType t) (Some ''Memo''))"
| "getComponentNameFromType (VLazy (Inr t) st) = getComponentNameFromType t"
| "getComponentNameFromType v = None"

definition getTaskName :: "val \<Rightarrow> string" where
  "getTaskName t =
     (case t of
        VLazy _ _ \<Rightarrow> ''<...>''
      | _ \<Rightarrow>
          if t = VSym ''react.fragment'' then ''<>''
          else (case orElse (getComponentNameFromType t) None of
                  Some name \<Rightarrow> ''<'' @ name @ ''>''
                | None \<Rightarrow> ''<...>''))"

text \<open>\<open>type.displayName || type.name || 'Unknown'\<close> for a function, else the type itself.\<close>
definition getElementWarningName :: "val \<Rightarrow> val" where
  "getElementWarningName t =
     (case t of
        VFunction i dn n client dp \<Rightarrow>
          VStr (the (orElse dn (orElse (Some n) (Some ''Unknown''))))
      | _ \<Rightarrow> t)"

definition defaultPropsOf :: "val \<Rightarrow> entries" where
  "defaultPropsOf t =
     (case t of VFunction _ _ _ _ dp \<Rightarrow> dp | VForwardRef _ _ _ dp \<Rightarrow> dp | VMemo _ _ dp \<Rightarrow> dp | _ \<Rightarrow> [])"

subsection \<open>Element objects\<close>

text \<open>\<open>createElementObject\<close> and \<open>createProductionElement\<close>. In development an element gets a store
  with \<open>validated = 0\<close> and keeps its owner; in production it has neither.\<close>
definition createElementObject :: "bool \<Rightarrow> val \<Rightarrow> string option \<Rightarrow> entries \<Rightarrow> bool \<Rightarrow> val \<Rightarrow> element" where
  "createElementObject dev type key props guard owner =
     (if dev then Element type key props guard owner (Some 0)
      else Element type key props guard VUndef None)"

text \<open>The value of \<open>element.ref\<close>: the getter in development, the property in production.\<close>
definition elementRef :: "element \<Rightarrow> val" where
  "elementRef e = (case prop_get (eprops e) ''ref'' of VUndef \<Rightarrow> VNull | v \<Rightarrow> v)"

definition elementRefGetterWithDeprecationWarning :: "element \<Rightarrow> elem_env \<Rightarrow> val \<times> elem_env" where
  "elementRefGetterWithDeprecationWarning e s =
     (let componentName = (case getComponentNameFromType (etype e) of None \<Rightarrow> ''null'' | Some n \<Rightarrow> n);
          s' = (if componentName \<in> set (didWarnAboutElementRef s) then s
                else log_console
                  ''Accessing element.ref was removed in React 19. ref is now a regular prop. It will be removed from the JSX Element type in a future release.''
                  [] (s\<lparr>didWarnAboutElementRef := componentName # didWarnAboutElementRef s\<rparr>))
      in (elementRef e, s'))"

text \<open>The children arguments after the config: none, one, or an array.\<close>
definition setChildren :: "val list \<Rightarrow> entries \<Rightarrow> entries" where
  "setChildren args props =
     (case args of [] \<Rightarrow> props | [c] \<Rightarrow> prop_set ''children'' c props | _ \<Rightarrow> prop_set ''children'' (VArray args) props)"

text \<open>\<open>if (props[propName] === undefined) props[propName] = defaultProps[propName]\<close>\<close>
definition applyDefaults :: "entries \<Rightarrow> entries \<Rightarrow> entries" where
  "applyDefaults defaults props =
     foldl (\<lambda>ps (k, v). if prop_get ps k = VUndef then prop_set k v ps else ps) props defaults"

definition reserved :: "string \<Rightarrow> bool" where
  "reserved k \<longleftrightarrow> k = ''key'' \<or> k = ''__self'' \<or> k = ''__source''"

text \<open>The key a config gives: none, or the text of its \<open>key\<close> property.\<close>
definition configKeyText ::
  "host_objects \<Rightarrow> bool \<Rightarrow> string option \<Rightarrow> elem_config \<Rightarrow> elem_env \<Rightarrow> (thrown + string option) \<times> elem_env" where
  "configKeyText h dev key c s =
     (if (if dev then hasValidKey c else configKey c \<noteq> VUndef)
      then (case coerceKey h dev (configKey c) s of
              (Inl e, s') \<Rightarrow> (Inl e, s')
            | (Inr k, s') \<Rightarrow> (Inr (Some k), s'))
      else (Inr key, s))"

definition warnOldJSX :: "bool \<Rightarrow> elem_config \<Rightarrow> elem_env \<Rightarrow> elem_env" where
  "warnOldJSX dev c s =
     (if dev \<and> \<not> didWarnAboutOldJSXRuntime s \<and> ''__self'' \<in> fst ` set (cEntries c) \<and> \<not> hasKeyProp c
      then log_console
        ''Your app (or one of its dependencies) is using an outdated JSX transform. Update to the modern JSX transform for faster performance: https://react.dev/link/new-jsx-transform''
        [] (s\<lparr>didWarnAboutOldJSXRuntime := True\<rparr>)
      else s)"

text \<open>A \<open>null\<close> or \<open>undefined\<close> config is \<open>None\<close>. The key guard is put on the props when the key is a
  non-empty string (\<open>if (isDevelopment && key)\<close>).\<close>
definition createElementImpl ::
  "host_objects \<Rightarrow> bool \<Rightarrow> val \<Rightarrow> elem_config option \<Rightarrow> val list \<Rightarrow> elem_env \<Rightarrow> (thrown + element) \<times> elem_env" where
  "createElementImpl h dev type config args s =
     (let args' = (if dev then map validateChildKeys args else args);
          (keyResult, s1) = (case config of None \<Rightarrow> (Inr None, s)
                             | Some c \<Rightarrow> configKeyText h dev None c (warnOldJSX dev c s))
      in case keyResult of
           Inl e \<Rightarrow> (Inl e, s1)
         | Inr key \<Rightarrow>
             let props = (case config of None \<Rightarrow> []
                          | Some c \<Rightarrow> copy_props (\<lambda>k. \<not> reserved k) (cEntries c) []);
                 props1 = applyDefaults (defaultPropsOf type) (setChildren args' props);
                 guard = (dev \<and> orElse key None \<noteq> None)
             in (Inr (createElementObject dev type key props1 guard VNull), s1))"

text \<open>Cloning; \<open>None\<close> stands for a \<open>null\<close> or \<open>undefined\<close> element, whose text is \<open>shown\<close>.\<close>
definition throwInvalidCloneElementError :: "bool \<Rightarrow> bool \<Rightarrow> string \<Rightarrow> thrown" where
  "throwInvalidCloneElementError dev reactServer shown =
     ThrownError
       (if reactServer \<and> \<not> dev
        then ''Minified React error #267; visit https://react.dev/errors/267?args[]='' @ shown
          @ '' for the full message or use the non-minified dev environment for full errors and additional helpful warnings.''
        else ''The argument must be a React element, but you passed '' @ shown @ ''.'')"

definition cloneElementImpl ::
  "host_objects \<Rightarrow> bool \<Rightarrow> bool \<Rightarrow> string + element \<Rightarrow> elem_config option \<Rightarrow> val list \<Rightarrow> elem_env
     \<Rightarrow> (thrown + element) \<times> elem_env" where
  "cloneElementImpl h dev reactServer elem config args s =
     (case elem of
        Inl shown \<Rightarrow> (Inl (throwInvalidCloneElementError dev reactServer shown), s)
      | Inr element \<Rightarrow>
          let owner = (case config of None \<Rightarrow> eowner element
                       | Some c \<Rightarrow> if (if dev then hasValidRef c else configRef c \<noteq> VUndef) then VNull else eowner element);
              (keyResult, s1) = (case config of None \<Rightarrow> (Inr (ekey element), s)
                                 | Some c \<Rightarrow> configKeyText h dev (ekey element) c s)
          in case keyResult of
               Inl e \<Rightarrow> (Inl e, s1)
             | Inr key \<Rightarrow>
                 let props = (case config of None \<Rightarrow> eprops element
                       | Some c \<Rightarrow> copy_props (\<lambda>k. \<not> reserved k \<and> \<not> (k = ''ref'' \<and> configRef c = VUndef))
                                     (cEntries c) (eprops element));
                     args' = (if dev then map validateChildKeys args else args)
                 in (Inr (createElementObject dev (etype element) key (setChildren args' props) False owner), s1))"

definition cloneAndReplaceKey :: "bool \<Rightarrow> element \<Rightarrow> string \<Rightarrow> element" where
  "cloneAndReplaceKey dev old newKey =
     (case createElementObject dev (etype old) (Some newKey) (eprops old) (ekeyGuard old) (eowner old) of
        Element t k ps g ow st \<Rightarrow>
          Element t k ps g ow (if dev \<and> evalidated old \<noteq> None \<and> st \<noteq> None then evalidated old else st))"

subsection \<open>JSX\<close>

text \<open>\<open>props = config\<close> without a \<open>key\<close>; otherwise a copy without it.\<close>
definition jsxProps :: "elem_config \<Rightarrow> entries" where
  "jsxProps c = (if hasKeyProp c then copy_props (\<lambda>k. k \<noteq> ''key'') (cEntries c) [] else cEntries c)"

definition jsxProd ::
  "host_objects \<Rightarrow> val \<Rightarrow> elem_config \<Rightarrow> val \<Rightarrow> thrown + element" where
  "jsxProd h type c maybeKey =
     (case (if maybeKey \<noteq> VUndef then map_sum id Some (coerceString h maybeKey) else Inr None) of
        Inl e \<Rightarrow> Inl e
      | Inr key0 \<Rightarrow>
          (case (if configKey c \<noteq> VUndef then map_sum id Some (coerceString h (configKey c)) else Inr key0) of
             Inl e \<Rightarrow> Inl e
           | Inr key \<Rightarrow> Inr (createElementObject False type key (jsxProps c) False VNull)))"

text \<open>The children of a static JSX call are validated one by one, other children as a whole.\<close>
definition jsxChildren :: "bool \<Rightarrow> val \<Rightarrow> elem_env \<Rightarrow> val \<times> elem_env" where
  "jsxChildren isStaticChildren children s =
     (if children = VUndef then (children, s)
      else if isStaticChildren
      then (case children of
              VArray cs \<Rightarrow> (VArray (map validateChildKeys cs), s)
            | _ \<Rightarrow> (children, log_console
                ''React.jsx: Static children should always be an array. You are likely explicitly calling React.jsxs or React.jsxDEV. Use the Babel transform instead.''
                [] s))
      else (validateChildKeys children, s))"

fun join :: "string \<Rightarrow> string list \<Rightarrow> string" where
  "join sep [] = []"
| "join sep [x] = x"
| "join sep (x # xs) = x @ sep @ join sep xs"

definition warnKeySpread :: "val \<Rightarrow> elem_config \<Rightarrow> elem_env \<Rightarrow> elem_env" where
  "warnKeySpread type c s =
     (if \<not> hasKeyProp c then s
      else let componentName = (case getComponentNameFromType type of None \<Rightarrow> ''null'' | Some n \<Rightarrow> n);
               keys = filter (\<lambda>k. k \<noteq> ''key'') (map fst (cEntries c));
               body = join '': ..., '' keys @ '': ...}'';
               beforeExample = (if keys \<noteq> [] then ''{key: someKey, '' @ body else ''{key: someKey}'');
               warningKey = componentName @ beforeExample
           in if warningKey \<in> set (didWarnAboutKeySpread s) then s
              else let afterExample = (if keys \<noteq> [] then ''{'' @ body else ''{}'')
                   in (log_console
                     (''A props object containing a \"key\" prop is being spread into JSX:'' @ [CHR 10] @
                      ''  let props = %s;'' @ [CHR 10] @ ''  <%s {...props} />'' @ [CHR 10] @
                      ''React keys must be passed directly to JSX without using spread:'' @ [CHR 10] @
                      ''  let props = %s;'' @ [CHR 10] @ ''  <%s key={someKey} {...props} />'')
                     [beforeExample, componentName, afterExample, componentName] s)
                     \<lparr>didWarnAboutKeySpread := warningKey # didWarnAboutKeySpread s\<rparr>)"

definition jsxDEVImpl ::
  "host_objects \<Rightarrow> val \<Rightarrow> elem_config \<Rightarrow> val \<Rightarrow> bool \<Rightarrow> elem_env \<Rightarrow> (thrown + element) \<times> elem_env" where
  "jsxDEVImpl h type c maybeKey isStaticChildren s =
     (let (children, s1) = jsxChildren isStaticChildren (prop_get (cEntries c) ''children'') s;
          c1 = (if children = VUndef then c else c\<lparr>cEntries := prop_set ''children'' children (cEntries c)\<rparr>);
          s2 = warnKeySpread type c1 s1;
          (keyResult0, s3) = (if maybeKey \<noteq> VUndef
             then (case coerceKey h True maybeKey s2 of (Inl e, s') \<Rightarrow> (Inl e, s') | (Inr k, s') \<Rightarrow> (Inr (Some k), s'))
             else (Inr None, s2))
      in case keyResult0 of
           Inl e \<Rightarrow> (Inl e, s3)
         | Inr key0 \<Rightarrow>
             (case configKeyText h True key0 c1 s3 of
                (Inl e, s4) \<Rightarrow> (Inl e, s4)
              | (Inr key, s4) \<Rightarrow>
                  (Inr (createElementObject True type key (jsxProps c1) (orElse key None \<noteq> None) VNull), s4)))"

subsection \<open>What the props are\<close>

lemma applyDefaults_get:
  "distinct (map fst d) \<Longrightarrow>
   prop_get (applyDefaults d ps) k = (if prop_get ps k = VUndef then prop_get d k else prop_get ps k)"
proof (induction d arbitrary: ps)
  case (Cons a d)
  obtain k0 v0 where a: "a = (k0, v0)" by (cases a)
  have c: "prop_get (a # d) k = (if k = k0 then v0 else prop_get d k)" by (simp add: a prop_get_def)
  have n: "k = k0 \<Longrightarrow> prop_get d k = VUndef"
    using Cons.prems a by (auto simp: prop_get_def dest: map_of_SomeD split: option.splits) (metis fst_conv image_eqI map_of_SomeD)
  have "applyDefaults (a # d) ps = applyDefaults d (if prop_get ps k0 = VUndef then prop_set k0 v0 ps else ps)"
    by (simp add: applyDefaults_def a)
  then show ?case using Cons c n by auto
qed (simp add: applyDefaults_def prop_get_def)

definition childrenValue :: "val list \<Rightarrow> val" where
  "childrenValue args = (case args of [c] \<Rightarrow> c | _ \<Rightarrow> VArray args)"

lemma setChildren_get:
  "prop_get (setChildren args ps) k = (if k = ''children'' \<and> args \<noteq> [] then childrenValue args else prop_get ps k)"
  by (auto simp: setChildren_def childrenValue_def split: list.splits)

lemma prop_get_absent: "k \<notin> fst ` set s \<Longrightarrow> prop_get s k = VUndef"
  by (auto simp: prop_get_def split: option.splits dest: map_of_SomeD) (metis fst_conv image_eqI map_of_SomeD)

lemma copy_fresh_get:
  "distinct (map fst s) \<Longrightarrow> prop_get (copy_props keep s []) k = (if keep k then prop_get s k else VUndef)"
  using prop_get_copy [of s keep "[]" k] prop_get_absent [of k s] by (auto simp: prop_get_def)

lemma createElementObject_simps [simp]:
  "etype (createElementObject dev t k ps g ow) = t" "ekey (createElementObject dev t k ps g ow) = k"
  "eprops (createElementObject dev t k ps g ow) = ps" "ekeyGuard (createElementObject dev t k ps g ow) = g"
  by (simp_all add: createElementObject_def)

text \<open>The key text agrees in development and production; the check only adds a console message.\<close>
lemma coerceKey_result: "fst (coerceKey h dev v s) = coerceString h v"
  by (auto simp: coerceKey_def checkKeyStringCoercion_def split: sum.splits)

lemma configKeyText_result:
  "fst (configKeyText h dev key c s) =
     (if configKey c = VUndef then Inr key else map_sum id Some (coerceString h (configKey c)))"
proof -
  have "hasValidKey c \<longleftrightarrow> configKey c \<noteq> VUndef" by (auto simp: hasValidKey_def configKey_def)
  moreover obtain r s' where r: "coerceKey h dev (configKey c) s = (r, s')" by fastforce
  moreover have "r = coerceString h (configKey c)" using coerceKey_result [of h dev "configKey c" s] r by simp
  ultimately show ?thesis by (auto simp: configKeyText_def split: sum.splits)
qed

definition config_ok :: "elem_config \<Rightarrow> bool" where
  "config_ok c \<longleftrightarrow> distinct (map fst (cEntries c))"

text \<open>C24: \<open>createElement\<close> builds the element React documents. Its type is the given type, its key the
  text of the config's \<open>key\<close> or \<open>null\<close>; each prop is the config's value (\<open>key\<close>, \<open>__self\<close> and \<open>__source\<close>
  excluded), the children arguments win over \<open>config.children\<close>, and an undefined prop takes the
  type's default. It throws exactly when the key cannot be converted to a string.\<close>
theorem createElement_spec:
  assumes "config_ok c" "distinct (map fst (defaultPropsOf type))"
  shows "case fst (createElementImpl h dev type (Some c) args s) of
      Inl e \<Rightarrow> configKey c \<noteq> VUndef \<and> coerceString h (configKey c) = Inl e
    | Inr e \<Rightarrow> etype e = type \<and>
        Inr (ekey e) = (if configKey c = VUndef then Inr None else map_sum id Some (coerceString h (configKey c))) \<and>
        (\<forall>k. prop_get (eprops e) k =
          (let args' = (if dev then map validateChildKeys args else args);
               given = (if k = ''children'' \<and> args \<noteq> [] then childrenValue args'
                        else if reserved k then VUndef else prop_get (cEntries c) k)
           in if given = VUndef then prop_get (defaultPropsOf type) k else given))"
proof -
  let ?r = "configKeyText h dev None c (warnOldJSX dev c s)"
  let ?args = "if dev then map validateChildKeys args else args"
  note key = configKeyText_result [of h dev None c "warnOldJSX dev c s"]
  have ch: "?args = [] \<longleftrightarrow> args = []" by simp
  show ?thesis
  proof (cases "fst ?r")
    case (Inl e)
    then show ?thesis
      using key by (cases "coerceString h (configKey c)")
        (auto simp: createElementImpl_def Let_def case_prod_beta split: if_splits)
  next
    case (Inr k0)
    have get: "prop_get (applyDefaults (defaultPropsOf type) (setChildren ?args (copy_props (\<lambda>k. \<not> reserved k) (cEntries c) []))) k =
        (let given = (if k = ''children'' \<and> args \<noteq> [] then childrenValue ?args
                      else if reserved k then VUndef else prop_get (cEntries c) k)
         in if given = VUndef then prop_get (defaultPropsOf type) k else given)" for k
      unfolding applyDefaults_get [OF assms(2)] setChildren_get ch copy_fresh_get [OF assms(1) [unfolded config_ok_def]]
      by (simp add: Let_def)
    have e: "fst (createElementImpl h dev type (Some c) args s) = Inr (createElementObject dev type k0
        (applyDefaults (defaultPropsOf type) (setChildren ?args (copy_props (\<lambda>k. \<not> reserved k) (cEntries c) [])))
        (dev \<and> orElse k0 None \<noteq> None) VNull)"
      using Inr by (simp add: createElementImpl_def Let_def case_prod_beta)
    show ?thesis unfolding e using get key Inr by (simp add: Let_def)
  qed
qed

definition demo_config :: elem_config where
  "demo_config = \<lparr>cEntries = [(''key'', VNum 7), (''id'', VStr ''a''), (''children'', VStr ''old'')],
     cKeyGuard = False, cRefGuard = False\<rparr>"

definition demo_type :: val where
  "demo_type = VFunction 0 None ''Foo'' False [(''id'', VStr ''z''), (''lang'', VStr ''en'')]"

definition demo_host :: host_objects where
  "demo_host = \<lparr>objText = (\<lambda>_. Inr ''[object Object]''), objString = (\<lambda>_. Inr ''[object Object]''), objTypeName = (\<lambda>_. ''Object'')\<rparr>"

lemma demo_config_ok: "config_ok demo_config" "distinct (map fst (defaultPropsOf demo_type))"
  by (simp_all add: config_ok_def demo_config_def demo_type_def defaultPropsOf_def)

lemma nat_str_7: "nat_str 7 = ''7''"
  by code_simp

lemma demo_key: "configKey demo_config = VNum 7" "coerceString h (VNum 7) = Inr ''7''"
  by (simp_all add: configKey_def demo_config_def prop_get_def coerceString_def int_str_def nat_str_7)

theorem createElement_spec_witness:
  "\<exists>e. fst (createElementImpl demo_host True demo_type (Some demo_config) [VStr ''x''] init_elem_env) = Inr e \<and>
     ekey e = Some ''7'' \<and> prop_get (eprops e) ''id'' = VStr ''a'' \<and> prop_get (eprops e) ''lang'' = VStr ''en'' \<and>
     prop_get (eprops e) ''children'' = VStr ''x'' \<and> prop_get (eprops e) ''key'' = VUndef"
proof (cases "fst (createElementImpl demo_host True demo_type (Some demo_config) [VStr ''x''] init_elem_env)")
  case (Inl e)
  then show ?thesis
    using createElement_spec [OF demo_config_ok, of demo_host True "[VStr ''x'']" init_elem_env]
    by (simp add: demo_key)
next
  case (Inr e)
  then show ?thesis
    using createElement_spec [OF demo_config_ok, of demo_host True "[VStr ''x'']" init_elem_env]
    by (simp add: demo_key reserved_def childrenValue_def validateChildKeys_def)
       (simp add: demo_config_def demo_type_def defaultPropsOf_def prop_get_def)
qed

subsection \<open>JSX and cloning\<close>

lemma map_of_prop_get: "prop_get s k \<noteq> VUndef \<Longrightarrow> k \<in> fst ` set s"
  using prop_get_absent by blast

lemma jsxProps_get:
  "config_ok c \<Longrightarrow> prop_get (jsxProps c) k = (if k = ''key'' then VUndef else prop_get (cEntries c) k)"
  using prop_get_absent [of "''key''" "cEntries c"]
  by (auto simp: jsxProps_def config_ok_def copy_fresh_get hasKeyProp_def)

text \<open>What validation does to the children of a JSX call.\<close>
definition markChildren :: "bool \<Rightarrow> val \<Rightarrow> val" where
  "markChildren isStatic v = fst (jsxChildren isStatic v init_elem_env)"

lemma jsxChildren_mark: "fst (jsxChildren b v s) = markChildren b v"
  by (auto simp: markChildren_def jsxChildren_def split: val.splits)

lemma validateChildKeys_undef: "validateChildKeys v = VUndef \<longleftrightarrow> v = VUndef"
  by (auto simp: validateChildKeys_def split: val.splits element.splits)

lemma markChildren_undef: "markChildren b v = VUndef \<longleftrightarrow> v = VUndef"
  by (auto simp: markChildren_def jsxChildren_def validateChildKeys_undef split: val.splits)

lemma markChildren_VUndef [simp]: "markChildren b VUndef = VUndef"
  using markChildren_undef by blast



text \<open>C26: \<open>cloneElement\<close> keeps the type, and the key unless the config has one; each prop is the
  config's value where the config has the property (\<open>key\<close>, \<open>__self\<close>, \<open>__source\<close> and an undefined \<open>ref\<close>
  excluded) and the original's otherwise, with the children arguments winning. It throws exactly
  when there is no element or the key cannot be converted.\<close>
theorem cloneElement_spec:
  assumes "config_ok c"
  shows "case fst (cloneElementImpl h dev server elem (Some c) args s) of
      Inl e \<Rightarrow> (case elem of
          Inl shown \<Rightarrow> e = throwInvalidCloneElementError dev server shown
        | Inr old \<Rightarrow> configKey c \<noteq> VUndef \<and> coerceString h (configKey c) = Inl e)
    | Inr new \<Rightarrow> (\<exists>old. elem = Inr old \<and> etype new = etype old \<and>
        Inr (ekey new) = (if configKey c = VUndef then Inr (ekey old) else map_sum id Some (coerceString h (configKey c))) \<and>
        (\<forall>k. prop_get (eprops new) k =
          (if k = ''children'' \<and> args \<noteq> [] then childrenValue (if dev then map validateChildKeys args else args)
           else if k \<in> fst ` set (cEntries c) \<and> \<not> reserved k \<and> \<not> (k = ''ref'' \<and> configRef c = VUndef)
           then prop_get (cEntries c) k else prop_get (eprops old) k)))"
proof (cases elem)
  case (Inl shown)
  then show ?thesis by (simp add: cloneElementImpl_def)
next
  case (Inr old)
  let ?r = "configKeyText h dev (ekey old) c s"
  let ?args = "if dev then map validateChildKeys args else args"
  let ?keep = "\<lambda>k. \<not> reserved k \<and> \<not> (k = ''ref'' \<and> configRef c = VUndef)"
  note key = configKeyText_result [of h dev "ekey old" c s]
  have ch: "?args = [] \<longleftrightarrow> args = []" by simp
  show ?thesis
  proof (cases "fst ?r")
    case (Inl e)
    then show ?thesis
      using key Inr by (cases "coerceString h (configKey c)")
        (auto simp: cloneElementImpl_def Let_def case_prod_beta split: if_splits)
  next
    case (Inr k0)
    let ?props = "setChildren ?args (copy_props ?keep (cEntries c) (eprops old))"
    have e: "\<exists>ow. fst (cloneElementImpl h dev server elem (Some c) args s) =
        Inr (createElementObject dev (etype old) k0 ?props False ow)"
      using Inr \<open>elem = Inr old\<close> unfolding cloneElementImpl_def Let_def case_prod_beta
      by (simp only: sum.case option.case fst_conv) blast
    then obtain ow where e: "fst (cloneElementImpl h dev server elem (Some c) args s) =
        Inr (createElementObject dev (etype old) k0 ?props False ow)" by blast
    have get: "prop_get ?props k =
          (if k = ''children'' \<and> args \<noteq> [] then childrenValue ?args
           else if k \<in> fst ` set (cEntries c) \<and> ?keep k then prop_get (cEntries c) k else prop_get (eprops old) k)" for k
      unfolding setChildren_get ch prop_get_copy [OF assms [unfolded config_ok_def]] by auto
    show ?thesis unfolding e using get key Inr \<open>elem = Inr old\<close> by simp
  qed
qed

definition demo_element :: element where
  "demo_element = Element (VStr ''div'') (Some ''k'') [(''id'', VStr ''b''), (''title'', VStr ''t'')] False VNull (Some 0)"

theorem cloneElement_spec_witness:
  "\<exists>new. fst (cloneElementImpl demo_host True False (Inr demo_element) (Some demo_config) [] init_elem_env) = Inr new \<and>
     etype new = VStr ''div'' \<and> ekey new = Some ''7'' \<and> prop_get (eprops new) ''id'' = VStr ''a'' \<and>
     prop_get (eprops new) ''title'' = VStr ''t''"
proof (cases "fst (cloneElementImpl demo_host True False (Inr demo_element) (Some demo_config) [] init_elem_env)")
  case (Inl e)
  then show ?thesis
    using cloneElement_spec [OF demo_config_ok(1), where h = demo_host and dev = True and server = False and
        elem = "Inr demo_element" and args = "[]" and s = init_elem_env]
    by (simp add: demo_key)
next
  case (Inr new)
  then show ?thesis
    using cloneElement_spec [OF demo_config_ok(1), where h = demo_host and dev = True and server = False and
        elem = "Inr demo_element" and args = "[]" and s = init_elem_env]
    by (simp add: demo_key reserved_def) (simp add: demo_config_def demo_element_def prop_get_def)
qed

end
