(* ===== verification/Children.thy ===== *)
theory Children
  imports Elements
begin

text \<open>
  \<open>React.Children\<close>, \<open>packages/react/children-helper.js\<close> lines 998-1378: \<open>map\<close>, \<open>forEach\<close>, \<open>count\<close>,
  \<open>toArray\<close>, \<open>only\<close> over nested children, with the key of every result built from the path to it.

  The source's \<open>mapIntoArray\<close> calls itself in two roles: to descend into children, and to flatten an
  array that the user's function returned (then with the identity as callback). The descent is
  the structural recursion \<open>walk\<close>, parametrised by what happens at a leaf (\<open>invokeChild\<close>, the block
  under \<open>if (invokeCallback)\<close>); \<open>mapIntoArray_unfold\<close> shows that the two together satisfy the
  source's recursive equation. User functions carry a state of their own.
\<close>

record 'u map_state =
  array :: "val list"
  userState :: 'u
  callCount :: nat
  didWarnAboutMaps :: bool
  mapWarnings :: nat

record child_options =
  oDev :: bool
  oServer :: bool
  oHost :: host_objects

subsection \<open>Keys\<close>

definition escapeKey :: "string \<Rightarrow> string" where
  "escapeKey key = ''$'' @ concat (map (\<lambda>c. if c = CHR ''='' then ''=0'' else if c = CHR '':'' then ''=2'' else [c]) key)"

text \<open>\<open>key.replace(userProvidedKeyEscapeRegex, '$&/')\<close>: every maximal run of slashes gets one more.\<close>
fun escapeUserKey :: "string \<Rightarrow> string" where
  "escapeUserKey [] = []"
| "escapeUserKey [c] = (if c = CHR ''/'' then ''//'' else [c])"
| "escapeUserKey (c # d # cs) =
     (if c = CHR ''/'' \<and> d \<noteq> CHR ''/'' then CHR ''/'' # CHR ''/'' # escapeUserKey (d # cs)
      else c # escapeUserKey (d # cs))"

text \<open>The \<open>key\<close> of an object child, when it is not \<open>null\<close> or \<open>undefined\<close>.\<close>
definition keyOf :: "val \<Rightarrow> string option" where
  "keyOf v =
     (case v of
        VElement e \<Rightarrow> ekey e
      | VPortal k _ \<Rightarrow> k
      | VObject ps \<Rightarrow> (case prop_get ps ''key'' of VStr s \<Rightarrow> Some s | _ \<Rightarrow> None)
      | _ \<Rightarrow> None)"

definition getElementKey :: "val \<Rightarrow> nat \<Rightarrow> string" where
  "getElementKey element index = (case keyOf element of Some k \<Rightarrow> escapeKey k | None \<Rightarrow> nat_str36 index)"

subsection \<open>Errors and thenables\<close>

definition hexDigit :: "nat \<Rightarrow> char" where
  "hexDigit n = (if n < 10 then char_of (48 + n) else char_of (55 + n))"

definition uriUnreserved :: "char \<Rightarrow> bool" where
  "uriUnreserved c \<longleftrightarrow> (let n = (of_char c :: nat) in 48 \<le> n \<and> n \<le> 57 \<or> 65 \<le> n \<and> n \<le> 90 \<or> 97 \<le> n \<and> n \<le> 122)
     \<or> c \<in> set ''-_.!~*()'' \<or> c = CHR 0x27"

definition encodeURIComponent :: "string \<Rightarrow> string" where
  "encodeURIComponent s = concat (map (\<lambda>c. if uriUnreserved c then [c]
     else [CHR ''%'', hexDigit (of_char c div 16), hexDigit (of_char c mod 16)]) s)"

definition formatProdErrorMessage :: "nat \<Rightarrow> string list \<Rightarrow> string" where
  "formatProdErrorMessage code args =
     (let url = ''https://react.dev/errors/'' @ nat_str code @
        (case args of [] \<Rightarrow> []
         | a # rest \<Rightarrow> ''?args[]='' @ encodeURIComponent a @
             concat (map (\<lambda>x. ''&args[]='' @ encodeURIComponent x) rest))
      in ''Minified React error #'' @ nat_str code @ ''; visit '' @ url @ '' for the full message or '' @
         ''use the non-minified dev environment for full errors and additional helpful warnings.'')"

definition isReactServerProduction :: "child_options \<Rightarrow> bool" where
  "isReactServerProduction opts \<longleftrightarrow> oServer opts \<and> \<not> oDev opts"

text \<open>\<open>Object.keys\<close> of the objects that are not valid children.\<close>
definition ownKeys :: "val \<Rightarrow> string list" where
  "ownKeys v = (case v of VObject ps \<Rightarrow> map fst ps | _ \<Rightarrow> [])"

definition throwInvalidObjectChildError :: "child_options \<Rightarrow> val \<Rightarrow> string \<Rightarrow> thrown" where
  "throwInvalidObjectChildError opts children childrenString =
     (let desc = (if childrenString = ''[object Object]''
                  then ''object with keys {'' @ join '', '' (ownKeys children) @ ''}'' else childrenString)
      in ThrownError (if isReactServerProduction opts then formatProdErrorMessage 31 [desc]
           else ''Objects are not valid as a React child (found: '' @ desc @
             ''). If you meant to render a collection of children, use an array instead.''))"

definition throwInvalidOnlyChildError :: "child_options \<Rightarrow> thrown" where
  "throwInvalidOnlyChildError opts =
     ThrownError (if oServer opts \<and> \<not> oDev opts then formatProdErrorMessage 143 []
       else ''React.Children.only expected to receive a single React element child.'')"

text \<open>An unsettled thenable is thrown itself.\<close>
definition resolveThenable :: "(val + val) option \<Rightarrow> bool \<Rightarrow> (val + val) option \<Rightarrow> thrown + val" where
  "resolveThenable settled isStr after =
     (case settled of
        Some (Inr value) \<Rightarrow> Inr value
      | Some (Inl reason) \<Rightarrow> Inl (ThrownValue reason)
      | None \<Rightarrow>
          (case after of
             Some (Inr value) \<Rightarrow> Inr value
           | Some (Inl reason) \<Rightarrow> Inl (ThrownValue reason)
           | None \<Rightarrow> Inl (ThrownValue (VThenable settled isStr after))))"

subsection \<open>Traversal\<close>

definition warnMaps :: "child_options \<Rightarrow> bool \<Rightarrow> 'u map_state \<Rightarrow> 'u map_state" where
  "warnMaps opts isEntries st =
     (if oDev opts \<and> isEntries
      then (if didWarnAboutMaps st then st else st\<lparr>mapWarnings := Suc (mapWarnings st)\<rparr>)\<lparr>didWarnAboutMaps := True\<rparr>
      else st)"

definition invalidChild :: "child_options \<Rightarrow> val \<Rightarrow> thrown" where
  "invalidChild opts v =
     (case objString (oHost opts) v of Inl e \<Rightarrow> e | Inr text \<Rightarrow> throwInvalidObjectChildError opts v text)"

lemma resolveThenable_size:
  "resolveThenable a b c = Inr v \<Longrightarrow> size v < size (VThenable a b c)"
  by (cases a; cases c; auto simp: resolveThenable_def split: sum.splits option.splits)

type_synonym 'u leaf = "val \<Rightarrow> string \<Rightarrow> 'u map_state \<Rightarrow> thrown + 'u map_state"

definition atLeaf :: "'u leaf \<Rightarrow> val \<Rightarrow> string \<Rightarrow> 'u map_state \<Rightarrow> thrown + nat \<times> 'u map_state" where
  "atLeaf leaf v name st = map_sum id (\<lambda>st'. (1, st')) (leaf v name st)"

definition nextNamePrefix :: "string \<Rightarrow> string" where
  "nextNamePrefix name = (if name = [] then ''.'' else name @ '':'')"

function (sequential) walk :: "child_options \<Rightarrow> 'u leaf \<Rightarrow> val \<Rightarrow> string \<Rightarrow> 'u map_state \<Rightarrow> thrown + nat \<times> 'u map_state"
  and walkItems :: "child_options \<Rightarrow> 'u leaf \<Rightarrow> val list \<Rightarrow> nat \<Rightarrow> string \<Rightarrow> 'u map_state \<Rightarrow> thrown + nat \<times> 'u map_state" where
  "walk opts leaf VUndef name st = atLeaf leaf VNull name st"
| "walk opts leaf (VBool b) name st = atLeaf leaf VNull name st"
| "walk opts leaf VNull name st = atLeaf leaf VNull name st"
| "walk opts leaf (VBigInt n) name st = atLeaf leaf (VBigInt n) name st"
| "walk opts leaf (VStr s) name st = atLeaf leaf (VStr s) name st"
| "walk opts leaf (VNum n) name st = atLeaf leaf (VNum n) name st"
| "walk opts leaf (VElement e) name st = atLeaf leaf (VElement e) name st"
| "walk opts leaf (VPortal k cs) name st = atLeaf leaf (VPortal k cs) name st"
| "walk opts leaf (VLazy (Inl e) m) name st = Inl (ThrownValue e)"
| "walk opts leaf (VLazy (Inr v) m) name st = walk opts leaf v name st"
| "walk opts leaf (VArray vs) name st = walkItems opts leaf vs 0 (nextNamePrefix name) st"
| "walk opts leaf (VIterable isEntries vs) name st =
     walkItems opts leaf vs 0 (nextNamePrefix name) (warnMaps opts isEntries st)"
| "walk opts leaf (VThenable a b c) name st =
     (case resolveThenable a b c of Inl e \<Rightarrow> Inl e | Inr v \<Rightarrow> walk opts leaf v name st)"
| "walk opts leaf (VFunction i dn n cl dp) name st = Inr (0, st)"
| "walk opts leaf (VSym s) name st = Inr (0, st)"
| "walk opts leaf v name st = Inl (invalidChild opts v)"
| "walkItems opts leaf [] index prefix st = Inr (0, st)"
| "walkItems opts leaf (v # vs) index prefix st =
     (case walk opts leaf v (prefix @ getElementKey v index) st of
        Inl e \<Rightarrow> Inl e
      | Inr (n, st') \<Rightarrow>
          (case walkItems opts leaf vs (Suc index) prefix st' of
             Inl e \<Rightarrow> Inl e
           | Inr (m, st'') \<Rightarrow> Inr (n + m, st'')))"
  by pat_completeness auto
termination
  by (relation "measure (\<lambda>x. case x of Inl (opts, leaf, v, name, st) \<Rightarrow> size v
        | Inr (opts, leaf, vs, index, prefix, st) \<Rightarrow> size_list size vs)")
     (auto dest: resolveThenable_size)

subsection \<open>Mapping\<close>

type_synonym 'u child_callback = "val \<Rightarrow> 'u map_state \<Rightarrow> thrown + val \<times> 'u map_state"

text \<open>\<open>func.call(context, child, count++)\<close>\<close>
definition userCallback :: "(val \<Rightarrow> nat \<Rightarrow> 'u \<Rightarrow> thrown + val \<times> 'u) \<Rightarrow> 'u child_callback" where
  "userCallback func child st =
     (case func child (callCount st) (userState st) of
        Inl e \<Rightarrow> Inl e
      | Inr (v, u) \<Rightarrow> Inr (v, st\<lparr>userState := u, callCount := Suc (callCount st)\<rparr>))"

definition identityCallback :: "'u child_callback" where
  "identityCallback child st = Inr (child, st)"

definition pushResult :: "val \<Rightarrow> 'u map_state \<Rightarrow> 'u map_state" where
  "pushResult v st = st\<lparr>array := array st @ [v]\<rparr>"

text \<open>\<open>mappedChild._store.validated = 2\<close> for an element that came from a keyless one in a list.\<close>
definition markValidated :: "bool \<Rightarrow> string \<Rightarrow> val \<Rightarrow> element \<Rightarrow> element" where
  "markValidated dev name child m =
     (case child of
        VElement c \<Rightarrow>
          if dev \<and> name \<noteq> [] \<and> ekey c = None \<and> evalidated c = Some 0
          then (case m of Element t k ps g ow st \<Rightarrow> Element t k ps g ow (Some 2)) else m
      | _ \<Rightarrow> m)"

text \<open>The block under \<open>if (invokeCallback)\<close>. \<open>flatten\<close> is the inner call of \<open>mapIntoArray\<close> on a
  returned array.\<close>
definition invokeChild ::
  "child_options \<Rightarrow> (val \<Rightarrow> string \<Rightarrow> 'u map_state \<Rightarrow> thrown + nat \<times> 'u map_state) \<Rightarrow> 'u child_callback \<Rightarrow> string \<Rightarrow> 'u leaf" where
  "invokeChild opts flatten cb escapedPrefix child name st =
     (case cb child st of
        Inl e \<Rightarrow> Inl e
      | Inr (mapped, st1) \<Rightarrow>
          let childKey = (if name = [] then ''.'' @ getElementKey child 0 else name)
          in case mapped of
               VArray vs \<Rightarrow> map_sum id snd (flatten mapped (escapeUserKey childKey @ ''/'') st1)
             | VNull \<Rightarrow> Inr st1
             | VUndef \<Rightarrow> Inr st1
             | VElement m \<Rightarrow>
                 let ownKey = (case ekey m of None \<Rightarrow> []
                        | Some k \<Rightarrow> if keyOf child = Some k then [] else escapeUserKey k @ ''/'');
                     newKey = escapedPrefix @ ownKey @ childKey
                 in Inr (pushResult (VElement (markValidated (oDev opts) name child
                           (cloneAndReplaceKey (oDev opts) m newKey))) st1)
             | _ \<Rightarrow> Inr (pushResult mapped st1))"

text \<open>Flattening a returned array: the callback is the identity, so no leaf yields an array again.\<close>
definition mapIdentity :: "child_options \<Rightarrow> val \<Rightarrow> string \<Rightarrow> 'u map_state \<Rightarrow> thrown + nat \<times> 'u map_state" where
  "mapIdentity opts children escapedPrefix st =
     walk opts (invokeChild opts (\<lambda>_ _ st. Inr (0, st)) identityCallback escapedPrefix) children [] st"

definition mapIntoArray ::
  "child_options \<Rightarrow> val \<Rightarrow> string \<Rightarrow> string \<Rightarrow> 'u child_callback \<Rightarrow> 'u map_state \<Rightarrow> thrown + nat \<times> 'u map_state" where
  "mapIntoArray opts children escapedPrefix nameSoFar cb st =
     walk opts (invokeChild opts (mapIdentity opts) cb escapedPrefix) children nameSoFar st"

definition initMapState :: "'u \<Rightarrow> bool \<Rightarrow> 'u map_state" where
  "initMapState u warned = \<lparr>array = [], userState = u, callCount = 0, didWarnAboutMaps = warned, mapWarnings = 0\<rparr>"

text \<open>\<open>None\<close>: the children were \<open>null\<close> or \<open>undefined\<close>, which is returned.\<close>
definition mapChildrenImpl ::
  "child_options \<Rightarrow> val \<Rightarrow> (val \<Rightarrow> nat \<Rightarrow> 'u \<Rightarrow> thrown + val \<times> 'u) \<Rightarrow> bool \<Rightarrow> 'u \<Rightarrow> thrown + val list option \<times> 'u" where
  "mapChildrenImpl opts children func warned u =
     (if children = VNull \<or> children = VUndef then Inr (None, u)
      else map_sum id (\<lambda>(n, st). (Some (array st), userState st))
        (mapIntoArray opts children [] [] (userCallback func) (initMapState u warned)))"

definition Children_map where "Children_map = mapChildrenImpl"

text \<open>The wrapper of \<open>forEach\<close> drops what the function returns.\<close>
definition Children_forEach ::
  "child_options \<Rightarrow> val \<Rightarrow> (val \<Rightarrow> nat \<Rightarrow> 'u \<Rightarrow> thrown + val \<times> 'u) \<Rightarrow> bool \<Rightarrow> 'u \<Rightarrow> thrown + 'u" where
  "Children_forEach opts children func warned u =
     map_sum id snd
       (mapChildrenImpl opts children (\<lambda>c n u. map_sum id (\<lambda>(v, u'). (VUndef, u')) (func c n u)) warned u)"

definition Children_count :: "child_options \<Rightarrow> val \<Rightarrow> bool \<Rightarrow> thrown + nat" where
  "Children_count opts children warned =
     map_sum id snd (mapChildrenImpl opts children (\<lambda>c n k. Inr (VUndef, Suc k)) warned 0)"

definition Children_toArray :: "child_options \<Rightarrow> val \<Rightarrow> bool \<Rightarrow> thrown + val list" where
  "Children_toArray opts children warned =
     map_sum id (\<lambda>(r, u). case r of None \<Rightarrow> [] | Some xs \<Rightarrow> xs)
       (mapChildrenImpl opts children (\<lambda>c n u. Inr (c, u)) warned ())"

definition Children_only :: "child_options \<Rightarrow> val \<Rightarrow> thrown + val" where
  "Children_only opts children =
     (if isValidElement children then Inr children else Inl (throwInvalidOnlyChildError opts))"

subsection \<open>The source's recursive equation\<close>

text \<open>The value the traversal hands to the callback, where it does.\<close>
definition leafValue :: "val \<Rightarrow> val option" where
  "leafValue v =
     (case v of
        VUndef \<Rightarrow> Some VNull | VBool _ \<Rightarrow> Some VNull | VNull \<Rightarrow> Some VNull
      | VBigInt _ \<Rightarrow> Some v | VStr _ \<Rightarrow> Some v | VNum _ \<Rightarrow> Some v | VElement _ \<Rightarrow> Some v | VPortal _ _ \<Rightarrow> Some v
      | _ \<Rightarrow> None)"

lemma walk_leaf: "leafValue v = Some c \<Longrightarrow> walk opts leaf v name st = atLeaf leaf c name st"
  by (cases v) (auto simp: leafValue_def)

lemma atLeaf_id_cong:
  "\<forall>vs. c \<noteq> VArray vs \<Longrightarrow>
   atLeaf (invokeChild opts f identityCallback p) c name st = atLeaf (invokeChild opts g identityCallback p) c name st"
  by (cases c) (auto simp: atLeaf_def invokeChild_def identityCallback_def)

lemma mapIdentity_any:
  "walk opts (invokeChild opts f identityCallback p) v name st = walk opts (invokeChild opts g identityCallback p) v name st"
  "walkItems opts (invokeChild opts f identityCallback p) vs i q st = walkItems opts (invokeChild opts g identityCallback p) vs i q st"
proof (induction opts "invokeChild opts f identityCallback p" v name st and opts "invokeChild opts f identityCallback p" vs i q st
    rule: walk_walkItems.induct)
qed (simp_all add: atLeaf_id_cong [where f = f and g = g] split: sum.splits prod.splits)

text \<open>With the identity as callback, \<open>mapIntoArray\<close> is its own flattening.\<close>
lemma mapIdentity_is_mapIntoArray:
  "mapIdentity opts v p st = mapIntoArray opts v p [] identityCallback st"
  unfolding mapIdentity_def mapIntoArray_def by (rule mapIdentity_any(1))

lemma mapIntoArray_unfold:
  "mapIntoArray opts v p name cb st =
     (case leafValue v of
        Some child \<Rightarrow>
          map_sum id (\<lambda>st'. (1, st'))
            (invokeChild opts (\<lambda>arr q. mapIntoArray opts arr q [] identityCallback) cb p child name st)
      | None \<Rightarrow>
          (case v of
             VLazy (Inl e) _ \<Rightarrow> Inl (ThrownValue e)
           | VLazy (Inr x) _ \<Rightarrow> mapIntoArray opts x p name cb st
           | VThenable a b c \<Rightarrow>
               (case resolveThenable a b c of Inl e \<Rightarrow> Inl e | Inr x \<Rightarrow> mapIntoArray opts x p name cb st)
           | VArray vs \<Rightarrow> walkItems opts (invokeChild opts (mapIdentity opts) cb p) vs 0 (nextNamePrefix name) st
           | VIterable isEntries vs \<Rightarrow>
               walkItems opts (invokeChild opts (mapIdentity opts) cb p) vs 0 (nextNamePrefix name) (warnMaps opts isEntries st)
           | VFunction _ _ _ _ _ \<Rightarrow> Inr (0, st)
           | VSym _ \<Rightarrow> Inr (0, st)
           | _ \<Rightarrow> Inl (invalidChild opts v)))"
proof -
  have eq: "(\<lambda>arr q. mapIntoArray opts arr q [] identityCallback) = mapIdentity opts"
    by (intro ext) (simp add: mapIdentity_is_mapIntoArray)
  show ?thesis
    unfolding eq unfolding mapIntoArray_def by (cases v) (auto simp: leafValue_def atLeaf_def split: sum.splits)
qed

subsection \<open>The leaves of a tree of children\<close>

text \<open>Specification: the leaves in order, each with the name of the path to it, or the first error.\<close>
function (sequential) leaves :: "child_options \<Rightarrow> val \<Rightarrow> string \<Rightarrow> thrown + (val \<times> string) list"
  and leavesItems :: "child_options \<Rightarrow> val list \<Rightarrow> nat \<Rightarrow> string \<Rightarrow> thrown + (val \<times> string) list" where
  "leaves opts (VLazy (Inl e) m) name = Inl (ThrownValue e)"
| "leaves opts (VLazy (Inr v) m) name = leaves opts v name"
| "leaves opts (VArray vs) name = leavesItems opts vs 0 (nextNamePrefix name)"
| "leaves opts (VIterable isEntries vs) name = leavesItems opts vs 0 (nextNamePrefix name)"
| "leaves opts (VThenable a b c) name =
     (case resolveThenable a b c of Inl e \<Rightarrow> Inl e | Inr v \<Rightarrow> leaves opts v name)"
| "leaves opts (VFunction i dn n cl dp) name = Inr []"
| "leaves opts (VSym s) name = Inr []"
| "leaves opts v name = (case leafValue v of Some c \<Rightarrow> Inr [(c, name)] | None \<Rightarrow> Inl (invalidChild opts v))"
| "leavesItems opts [] index prefix = Inr []"
| "leavesItems opts (v # vs) index prefix =
     (case leaves opts v (prefix @ getElementKey v index) of
        Inl e \<Rightarrow> Inl e
      | Inr ls \<Rightarrow> map_sum id (\<lambda>rest. ls @ rest) (leavesItems opts vs (Suc index) prefix))"
  by pat_completeness auto
termination
  by (relation "measure (\<lambda>x. case x of Inl (opts, v, name) \<Rightarrow> size v | Inr (opts, vs, index, prefix) \<Rightarrow> size_list size vs)")
     (auto dest: resolveThenable_size)

text \<open>A leaf action that never throws, appends \<open>g c n\<close> to the array and applies \<open>u\<close> to the user state.\<close>
definition pure_leaf :: "'u leaf \<Rightarrow> (val \<Rightarrow> string \<Rightarrow> val list) \<Rightarrow> ('u \<Rightarrow> 'u) \<Rightarrow> bool" where
  "pure_leaf leaf g u \<longleftrightarrow> (\<forall>c n st. (\<forall>vs. c \<noteq> VArray vs) \<longrightarrow>
     (\<exists>st'. leaf c n st = Inr st' \<and> array st' = array st @ g c n \<and> userState st' = u (userState st)))"

definition collects :: "(val \<Rightarrow> string \<Rightarrow> val list) \<Rightarrow> ('u \<Rightarrow> 'u) \<Rightarrow> (thrown + (val \<times> string) list) \<Rightarrow> 'u map_state
    \<Rightarrow> (thrown + nat \<times> 'u map_state) \<Rightarrow> bool" where
  "collects g u ls st r \<longleftrightarrow>
     (case ls of
        Inl e \<Rightarrow> r = Inl e
      | Inr xs \<Rightarrow> (\<exists>st'. r = Inr (length xs, st') \<and> array st' = array st @ concat (map (\<lambda>(c, n). g c n) xs) \<and>
          userState st' = (u ^^ length xs) (userState st)))"

lemma collects_leaf:
  assumes "pure_leaf leaf g u" "\<forall>vs. c \<noteq> VArray vs"
  shows "collects g u (Inr [(c, n)]) st (atLeaf leaf c n st)"
proof -
  obtain st' where "leaf c n st = Inr st'" "array st' = array st @ g c n" "userState st' = u (userState st)"
    using assms unfolding pure_leaf_def by blast
  then show ?thesis by (simp add: collects_def atLeaf_def)
qed

lemma warnMaps_fields [simp]:
  "array (warnMaps opts b st) = array st" "userState (warnMaps opts b st) = userState st"
  by (simp_all add: warnMaps_def)

lemma collects_warn: "collects g u ls (warnMaps opts b st) r \<Longrightarrow> collects g u ls st r"
  by (simp add: collects_def split: sum.splits)

lemma funpow_add_apply: "(u ^^ m) ((u ^^ n) x) = (u ^^ (n + m)) x"
  by (metis add.commute comp_apply funpow_add)

lemma walk_collects:
  assumes "pure_leaf leaf g u"
  shows "collects g u (leaves opts v name) st (walk opts leaf v name st)"
    "collects g u (leavesItems opts vs i q) st (walkItems opts leaf vs i q st)"
  using assms
proof (induction opts leaf v name st and opts leaf vs i q st rule: walk_walkItems.induct)
  case (12 opts leaf isEntries vs name st)
  then show ?case using collects_warn by simp
next
  case (13 opts leaf a b c name st)
  then show ?case by (cases "resolveThenable a b c") (auto simp: collects_def)
next
  case (18 opts leaf v vs index prefix st)
  note first = 18(1) [OF 18(3)]
  show ?case
  proof (cases "leaves opts v (prefix @ getElementKey v index)")
    case (Inl e)
    then show ?thesis using first by (simp add: collects_def)
  next
    case (Inr xs)
    then obtain st1 where w: "walk opts leaf v (prefix @ getElementKey v index) st = Inr (length xs, st1)"
      "array st1 = array st @ concat (map (\<lambda>(c, n). g c n) xs)" "userState st1 = (u ^^ length xs) (userState st)"
      using first by (auto simp: collects_def)
    have "collects g u (leavesItems opts vs (Suc index) prefix) st1 (walkItems opts leaf vs (Suc index) prefix st1)"
      using 18(2) w(1) 18(3) by auto
    then show ?thesis
      using Inr w by (cases "leavesItems opts vs (Suc index) prefix")
        (auto simp: collects_def funpow_add_apply)
  qed
qed (simp_all add: leafValue_def collects_leaf, simp_all add: collects_def)

subsection \<open>Counting and flattening\<close>

lemma pure_count: "pure_leaf (invokeChild opts (mapIdentity opts) (userCallback (\<lambda>c n k. Inr (VUndef, Suc k))) p) (\<lambda>c n. []) Suc"
  by (simp add: pure_leaf_def invokeChild_def userCallback_def)

text \<open>What \<open>toArray\<close> makes of a leaf: nothing of an empty one, an element with its path as key, or
  the value itself.\<close>
definition arrayEntry :: "child_options \<Rightarrow> val \<Rightarrow> string \<Rightarrow> val list" where
  "arrayEntry opts c name =
     (case c of
        VNull \<Rightarrow> []
      | VUndef \<Rightarrow> []
      | VElement m \<Rightarrow> [VElement (markValidated (oDev opts) name c (cloneAndReplaceKey (oDev opts) m
          (if name = [] then ''.'' @ getElementKey c 0 else name)))]
      | _ \<Rightarrow> [c])"

lemma pure_toArray:
  "pure_leaf (invokeChild opts (mapIdentity opts) (userCallback (\<lambda>c n u. Inr (c, u))) []) (arrayEntry opts) (\<lambda>u. u)"
  unfolding pure_leaf_def
proof (intro allI impI)
  fix c n and st :: "'a map_state"
  assume "\<forall>vs. c \<noteq> VArray vs"
  then show "\<exists>st'. invokeChild opts (mapIdentity opts) (userCallback (\<lambda>c n u. Inr (c, u))) [] c n st = Inr st' \<and>
      array st' = array st @ arrayEntry opts c n \<and> userState st' = userState st"
    by (cases c) (auto simp: invokeChild_def userCallback_def arrayEntry_def pushResult_def keyOf_def Let_def split: option.splits)
qed

lemma leaves_nullish: "leaves opts VNull n = Inr [(VNull, n)]" "leaves opts VUndef n = Inr [(VNull, n)]"
  by (simp_all add: leafValue_def)

lemma toArray_leaves:
  assumes "children \<noteq> VNull" "children \<noteq> VUndef"
  shows "Children_toArray opts children warned =
      map_sum id (\<lambda>ls. concat (map (\<lambda>(c, n). arrayEntry opts c n) ls)) (leaves opts children [])"
proof -
  let ?c = "invokeChild opts (mapIdentity opts) (userCallback (\<lambda>c n u. Inr (c, u))) []"
  have "collects (arrayEntry opts) (\<lambda>u. u) (leaves opts children []) (initMapState () warned)
      (walk opts ?c children [] (initMapState () warned))"
    by (rule walk_collects(1) [OF pure_toArray])
  then show ?thesis
    using assms unfolding Children_toArray_def mapChildrenImpl_def mapIntoArray_def
    by (cases "leaves opts children []") (auto simp: collects_def initMapState_def)
qed

text \<open>C27: \<open>React.Children.count\<close> counts the leaves and \<open>toArray\<close> lists them. For children that are not
  \<open>null\<close> or \<open>undefined\<close>, both fail with the error of the first invalid child if there is one;
  otherwise the count is the number of leaves (empty ones included) and the array holds the
  non-empty leaves in order, each element with a key that names its path.\<close>
theorem children_count_and_toArray:
  assumes "children \<noteq> VNull" "children \<noteq> VUndef"
  shows "Children_count opts children warned = map_sum id length (leaves opts children []) \<and>
    Children_toArray opts children warned =
      map_sum id (\<lambda>ls. concat (map (\<lambda>(c, n). arrayEntry opts c n) ls)) (leaves opts children [])"
proof
  let ?c = "invokeChild opts (mapIdentity opts) (userCallback (\<lambda>c n k. Inr (VUndef, Suc k))) []"
  have pow: "(Suc ^^ n) 0 = n" for n by (induction n) auto
  have "collects (\<lambda>c n. []) Suc (leaves opts children []) (initMapState 0 warned)
      (walk opts ?c children [] (initMapState 0 warned))"
    by (rule walk_collects(1) [OF pure_count])
  then show "Children_count opts children warned = map_sum id length (leaves opts children [])"
    using assms unfolding Children_count_def mapChildrenImpl_def mapIntoArray_def
    by (cases "leaves opts children []") (auto simp: collects_def initMapState_def pow)
qed (rule toArray_leaves [OF assms])

definition demo_opts :: child_options where
  "demo_opts = \<lparr>oDev = False, oServer = False, oHost = demo_host\<rparr>"

text \<open>An array with a keyed element, an empty child, and a nested array of a text and an element.\<close>
definition demo_children :: val where
  "demo_children = VArray [VElement (Element (VStr ''b'') (Some ''k'') [] False VUndef None), VBool True,
     VArray [VStr ''text'', VElement (Element (VStr ''i'') None [] False VUndef None)]]"

lemma demo_leaves:
  "leaves demo_opts demo_children [] = Inr [(VElement (Element (VStr ''b'') (Some ''k'') [] False VUndef None), ''.$k''),
     (VNull, ''.1''), (VStr ''text'', ''.2:0''), (VElement (Element (VStr ''i'') None [] False VUndef None), ''.2:1'')]"
proof -
  have "nat_str36 0 = ''0''" "nat_str36 1 = ''1''" "nat_str36 2 = ''2''" by code_simp+
  then show ?thesis
    by (simp add: demo_children_def leafValue_def nextNamePrefix_def getElementKey_def keyOf_def escapeKey_def numeral_2_eq_2)
qed

theorem children_count_and_toArray_witness:
  "Children_count demo_opts demo_children False = Inr 4 \<and>
   Children_toArray demo_opts demo_children False =
     Inr [VElement (Element (VStr ''b'') (Some ''.$k'') [] False VUndef None), VStr ''text'',
          VElement (Element (VStr ''i'') (Some ''.2:1'') [] False VUndef None)]"
proof -
  have "demo_children \<noteq> VNull" "demo_children \<noteq> VUndef" by (simp_all add: demo_children_def)
  moreover have "oDev demo_opts = False" by (simp add: demo_opts_def)
  ultimately show ?thesis
    using children_count_and_toArray [of demo_children demo_opts False]
    by (simp add: demo_leaves arrayEntry_def markValidated_def cloneAndReplaceKey_def createElementObject_def)
qed

subsection \<open>Keys are unique\<close>

lemma escapeKey_inject: "escapeKey a = escapeKey b \<longleftrightarrow> a = b"
proof -
  let ?e = "\<lambda>c. if c = CHR ''='' then ''=0'' else if c = CHR '':'' then ''=2'' else [c]"
  have "concat (map ?e a) = concat (map ?e b) \<Longrightarrow> a = b"
  proof (induction a arbitrary: b)
    case Nil
    then show ?case by (cases b) (auto split: if_splits)
  next
    case (Cons x a)
    then show ?case by (cases b) (auto split: if_splits)
  qed
  then show ?thesis by (auto simp: escapeKey_def)
qed

lemma escapeKey_safe: "CHR '':'' \<notin> set (escapeKey k)"
  by (auto simp: escapeKey_def split: if_splits)

lemma escapeKey_head: "escapeKey k = CHR ''$'' # tl (escapeKey k)"
  by (simp add: escapeKey_def)

lemma getElementKey_safe: "CHR '':'' \<notin> set (getElementKey v i)"
  using escapeKey_safe nat_str36_safe by (auto simp: getElementKey_def split: option.splits)

lemma getElementKey_eq:
  "getElementKey v i = getElementKey w j \<longleftrightarrow>
     (case (keyOf v, keyOf w) of (Some a, Some b) \<Rightarrow> a = b | (None, None) \<Rightarrow> i = j | _ \<Rightarrow> False)"
proof -
  have "nat_str36 n \<noteq> escapeKey k" for n k
    using escapeKey_head [of k] nat_str36_safe [of "CHR ''$''" n] by (metis insertCI list.set_intros(1))
  then show ?thesis
    using escapeKey_inject nat_str36_inject by (auto simp: getElementKey_def split: option.splits) metis
qed

text \<open>Siblings that have explicit keys have different ones, at every level.\<close>
function (sequential) keys_ok :: "val \<Rightarrow> bool" where
  "keys_ok (VArray vs) \<longleftrightarrow> distinct (List.map_filter keyOf vs) \<and> (\<forall>v \<in> set vs. keys_ok v)"
| "keys_ok (VIterable b vs) \<longleftrightarrow> distinct (List.map_filter keyOf vs) \<and> (\<forall>v \<in> set vs. keys_ok v)"
| "keys_ok (VLazy (Inr v) m) \<longleftrightarrow> keys_ok v"
| "keys_ok (VThenable a b c) \<longleftrightarrow> (case resolveThenable a b c of Inl e \<Rightarrow> True | Inr v \<Rightarrow> keys_ok v)"
| "keys_ok v \<longleftrightarrow> True"
  by pat_completeness auto
termination
  by (relation "measure size") (auto dest: resolveThenable_size intro: size_list_estimation' simp: less_Suc_eq_le)

text \<open>A name lies under another one when it is that name or continues it after a colon.\<close>
definition under :: "string \<Rightarrow> string \<Rightarrow> bool" where
  "under n m \<longleftrightarrow> m = n \<or> (\<exists>r. m = n @ CHR '':'' # r)"

lemma under_step: "under (n @ CHR '':'' # k) m \<Longrightarrow> under n m"
  by (auto simp: under_def)

lemma under_key:
  assumes "under (prefix @ a) m" "under (prefix @ b) m" "CHR '':'' \<notin> set a" "CHR '':'' \<notin> set b"
  shows "a = b"
proof -
  have tw: "takeWhile (\<lambda>c. c \<noteq> CHR '':'') (x @ CHR '':'' # r) = x" if "CHR '':'' \<notin> set x" for x r
    using that by (induction x) auto
  have *: "takeWhile (\<lambda>c. c \<noteq> CHR '':'') (drop (length prefix) m) = x" if "under (prefix @ x) m" "CHR '':'' \<notin> set x" for x
    using that tw by (auto simp: under_def takeWhile_eq_all_conv)
  show ?thesis using * [OF assms(1,3)] * [OF assms(2,4)] by simp
qed

lemma leaves_under:
  "leaves opts v name = Inr ls \<Longrightarrow> name \<noteq> [] \<Longrightarrow> (c, n) \<in> set ls \<Longrightarrow> under name n"
  "leavesItems opts vs i q = Inr ls \<Longrightarrow> q \<noteq> [] \<Longrightarrow> (c, n) \<in> set ls \<Longrightarrow>
     \<exists>j v. i \<le> j \<and> j < i + length vs \<and> v = vs ! (j - i) \<and> under (q @ getElementKey v j) n"
proof (induction opts v name and opts vs i q arbitrary: ls and ls rule: leaves_leavesItems.induct)
  case (3 opts vs name)
  then obtain v j where "under ((name @ CHR '':'' # getElementKey v j)) n"
    by (auto simp: nextNamePrefix_def)
  then show ?case by (rule under_step)
next
  case (4 opts b vs name)
  then obtain v j where "under ((name @ CHR '':'' # getElementKey v j)) n"
    by (auto simp: nextNamePrefix_def)
  then show ?case by (rule under_step)
next
  case (10 opts v vs index prefix)
  obtain xs ys where xy: "leaves opts v (prefix @ getElementKey v index) = Inr xs"
    "leavesItems opts vs (Suc index) prefix = Inr ys" "ls = xs @ ys"
    using 10(3) by (cases "leaves opts v (prefix @ getElementKey v index)"; cases "leavesItems opts vs (Suc index) prefix") auto
  show ?case
  proof (cases "(c, n) \<in> set xs")
    case True
    then have "under (prefix @ getElementKey v index) n" using 10(1) [OF xy(1)] 10(4) by simp
    then show ?thesis by (intro exI [of _ index] exI [of _ v]) simp
  next
    case False
    then have "(c, n) \<in> set ys" using 10(5) xy(3) by simp
    then obtain j w where "Suc index \<le> j" "j < Suc index + length vs" "w = vs ! (j - Suc index)" "under (prefix @ getElementKey w j) n"
      using 10(2) [OF xy(1,2) 10(4)] by blast
    then show ?thesis by (intro exI [of _ j] exI [of _ w]) (auto simp: nth_Cons' )
  qed
qed (auto simp: leafValue_def under_def split: sum.splits)

lemma keys_ok_siblings:
  assumes "distinct (List.map_filter keyOf (v # vs))" "w \<in> set vs" "i < j"
  shows "getElementKey v i \<noteq> getElementKey w j"
proof
  assume "getElementKey v i = getElementKey w j"
  then obtain k where "keyOf v = Some k" "keyOf w = Some k"
    using assms(3) by (auto simp: getElementKey_eq split: option.splits)
  then show False using assms(1,2) by (auto simp: map_filter_def image_iff)
qed

lemma leaves_distinct:
  "leaves opts v name = Inr ls \<Longrightarrow> keys_ok v \<Longrightarrow> distinct (map snd ls)"
  "leavesItems opts vs i q = Inr ls \<Longrightarrow> q \<noteq> [] \<Longrightarrow> distinct (List.map_filter keyOf vs) \<Longrightarrow>
     (\<forall>v \<in> set vs. keys_ok v) \<Longrightarrow> distinct (map snd ls)"
proof (induction opts v name and opts vs i q arbitrary: ls and ls rule: leaves_leavesItems.induct)
  case (3 opts vs name)
  then show ?case by (simp add: nextNamePrefix_def)
next
  case (4 opts b vs name)
  then show ?case by (simp add: nextNamePrefix_def)
next
  case (5 opts a b c name)
  then show ?case by (cases "resolveThenable a b c") auto
next
  case (10 opts v vs index prefix)
  obtain xs ys where xy: "leaves opts v (prefix @ getElementKey v index) = Inr xs"
    "leavesItems opts vs (Suc index) prefix = Inr ys" "ls = xs @ ys"
    using 10(3) by (cases "leaves opts v (prefix @ getElementKey v index)"; cases "leavesItems opts vs (Suc index) prefix") auto
  have d: "distinct (List.map_filter keyOf vs)"
    using 10(5) by (auto simp: map_filter_def split: if_splits)
  have "distinct (map snd xs)" "distinct (map snd ys)"
    using 10(1) [OF xy(1)] 10(2) [OF xy(1,2) 10(4) d] 10(6) by auto
  moreover have False if n: "n \<in> set (map snd xs)" "n \<in> set (map snd ys)" for n
  proof -
    obtain c c' where m: "(c, n) \<in> set xs" "(c', n) \<in> set ys" using n by force
    have u: "under (prefix @ getElementKey v index) n" using leaves_under(1) [OF xy(1) _ m(1)] 10(4) by simp
    obtain j w where j: "Suc index \<le> j" "j < Suc index + length vs" "w = vs ! (j - Suc index)" "under (prefix @ getElementKey w j) n"
      using leaves_under(2) [OF xy(2) 10(4) m(2)] by blast
    have "w \<in> set vs" using j(1-3) by simp
    then have "getElementKey v index \<noteq> getElementKey w j" using keys_ok_siblings [OF 10(5)] j(1) by simp
    then show False using under_key [OF u j(4)] getElementKey_safe by blast
  qed
  ultimately show ?case using xy(3) by auto
qed (auto simp: leafValue_def)

text \<open>The keys of the elements in an array.\<close>
definition elementKeys :: "val list \<Rightarrow> string option list" where
  "elementKeys vs = concat (map (\<lambda>v. case v of VElement e \<Rightarrow> [ekey e] | _ \<Rightarrow> []) vs)"

lemma ekey_markValidated: "ekey (markValidated dev n c m) = ekey m"
  by (auto simp: markValidated_def split: val.splits element.splits)

lemma ekey_replace: "ekey (cloneAndReplaceKey dev m k) = Some k"
  by (simp add: cloneAndReplaceKey_def createElementObject_def)

lemma elementKeys_entry:
  "elementKeys (arrayEntry opts c n) =
     (case c of VElement m \<Rightarrow> [Some (if n = [] then ''.'' @ getElementKey c 0 else n)] | _ \<Rightarrow> [])"
  by (cases c) (auto simp: elementKeys_def arrayEntry_def ekey_markValidated ekey_replace)

lemma elementKeys_append: "elementKeys (xs @ ys) = elementKeys xs @ elementKeys ys"
  by (simp add: elementKeys_def)

lemma leaves_names:
  "leaves opts v name = Inr ls \<Longrightarrow> (\<exists>c. ls = [(c, name)]) \<or> (\<forall>(c, n) \<in> set ls. n \<noteq> [])"
  "leavesItems opts vs i q = Inr ls \<Longrightarrow> q \<noteq> [] \<Longrightarrow> (\<forall>(c, n) \<in> set ls. n \<noteq> [])"
proof -
  show items: "leavesItems opts vs i q = Inr ls \<Longrightarrow> q \<noteq> [] \<Longrightarrow> (\<forall>(c, n) \<in> set ls. n \<noteq> [])" for opts vs i q ls
    using leaves_under(2) [of opts vs i q ls] by (fastforce simp: under_def)
  show "leaves opts v name = Inr ls \<Longrightarrow> (\<exists>c. ls = [(c, name)]) \<or> (\<forall>(c, n) \<in> set ls. n \<noteq> [])" for opts v name ls
  proof (induction "size v" arbitrary: v rule: less_induct)
    case less
    show ?case
    proof (cases v)
      case (VLazy r m)
      then show ?thesis using less.prems less.hyps [of "projr r"] by (cases r) simp_all
    next
      case (VThenable a b c)
      then show ?thesis
        using less.prems less.hyps [of "projr (resolveThenable a b c)"] resolveThenable_size [of a b c]
        by (cases "resolveThenable a b c") simp_all
    qed (use less items in \<open>auto simp: leafValue_def nextNamePrefix_def split: if_splits\<close>)
  qed
qed

lemma elementKeys_leaves:
  "(\<forall>(c, n) \<in> set ls. n \<noteq> []) \<Longrightarrow> distinct (map snd ls) \<Longrightarrow>
   distinct (elementKeys (concat (map (\<lambda>(c, n). arrayEntry opts c n) ls))) \<and>
   set (elementKeys (concat (map (\<lambda>(c, n). arrayEntry opts c n) ls))) \<subseteq> Some ` set (map snd ls)"
proof (induction ls)
  case (Cons a ls)
  obtain c n where a: "a = (c, n)" by (cases a)
  show ?case
    using Cons by (auto simp: a elementKeys_append elementKeys_entry split: val.splits)
qed (simp add: elementKeys_def)

text \<open>C28: the keys \<open>React.Children.toArray\<close> assigns are unique. If at every level of the children the
  siblings with explicit keys have different keys, then all elements of the resulting array have
  different keys, whatever characters the keys contain and however deep the nesting.\<close>
theorem toArray_keys_unique:
  assumes "keys_ok children" "Children_toArray opts children warned = Inr xs"
  shows "distinct (elementKeys xs)"
proof (cases "children = VNull \<or> children = VUndef")
  case True
  then have "xs = []" using assms(2) by (auto simp: Children_toArray_def mapChildrenImpl_def)
  then show ?thesis by (simp add: elementKeys_def)
next
  case False
  then obtain ls where ls: "leaves opts children [] = Inr ls" "xs = concat (map (\<lambda>(c, n). arrayEntry opts c n) ls)"
    using assms(2) toArray_leaves [of children opts warned] by (cases "leaves opts children []") auto
  have d: "distinct (map snd ls)" by (rule leaves_distinct(1) [OF ls(1) assms(1)])
  show ?thesis
  proof (cases "\<exists>c. ls = [(c, [])]")
    case True
    then obtain c where "ls = [(c, [])]" by blast
    then show ?thesis using ls(2) by (auto simp: elementKeys_entry split: val.splits)
  next
    case False
    then show ?thesis using leaves_names(1) [OF ls(1)] elementKeys_leaves [OF _ d, of opts] ls(2) by blast
  qed
qed

theorem toArray_keys_unique_witness:
  "keys_ok demo_children \<and> (\<exists>xs. Children_toArray demo_opts demo_children False = Inr xs \<and>
     length (elementKeys xs) = 2 \<and> distinct (elementKeys xs))"
proof -
  have k: "keys_ok demo_children" by (simp add: demo_children_def map_filter_def keyOf_def)
  let ?xs = "concat (map (\<lambda>(c, n). arrayEntry demo_opts c n) [(VElement (Element (VStr ''b'') (Some ''k'') [] False VUndef None), ''.$k''),
     (VNull, ''.1''), (VStr ''text'', ''.2:0''), (VElement (Element (VStr ''i'') None [] False VUndef None), ''.2:1'')])"
  have t: "Children_toArray demo_opts demo_children False = Inr ?xs"
    using toArray_leaves [of demo_children demo_opts False] unfolding demo_leaves by (simp add: demo_children_def)
  have "length (elementKeys ?xs) = 2" by (simp add: elementKeys_append elementKeys_entry)
  with toArray_keys_unique [OF k t] k t show ?thesis by blast
qed

end
