(* ===== verification/Lazy.thy ===== *)
theory Lazy
  imports React_Values
begin

text \<open>
  \<open>React.lazy\<close>, \<open>packages/react/wrapper-object.js\<close> lines 106-250: the payload object and its
  initializer, in development and production. A payload goes from uninitialized (\<open>-1\<close>) to pending
  (\<open>0\<close>) to resolved (\<open>1\<close>) or rejected (\<open>2\<close>). The constructor function and the thenable it returns
  are user code: \<open>ctor\<close> says what calling it gives (a thrown value, or a thenable, its display name
  and the callback it invokes before \<open>then\<close> returns, if any); later calls of the two callbacks are
  separate steps, which a misbehaving thenable may take in any order and number.
\<close>

text \<open>What \<open>_result\<close> holds: the constructor, the thenable, a module object (\<open>None\<close> for \<open>undefined\<close>;
  its properties otherwise) or an error.\<close>
datatype lazy_result = RCtor nat | RThenable nat | RModule "entries option" | RError val

text \<open>A call of one of the two callbacks passed to \<open>then\<close>.\<close>
datatype settle = Fulfil "entries option" | Reject val

record lazy_payload =
  lStatus :: int
  lResult :: lazy_result
  ioStart :: js_time
  ioEnd :: js_time
  ioValue :: "nat option"
  ioName :: string

record lazy_state =
  payload :: lazy_payload
  thenables :: "nat \<Rightarrow> settle option"  \<comment> \<open>\<open>status\<close> and \<open>value\<close> or \<open>reason\<close>, when set\<close>
  ctorCalls :: nat
  lazyLog :: nat

type_synonym lazy_ctor = "nat \<Rightarrow> val + nat \<times> string option \<times> settle option"

definition newLazy :: "nat \<Rightarrow> lazy_state" where
  "newLazy c = \<lparr>payload = \<lparr>lStatus = -1, lResult = RCtor c, ioStart = -1, ioEnd = -1, ioValue = None, ioName = ''lazy''\<rparr>,
     thenables = (\<lambda>_. None), ctorCalls = 0, lazyLog = 0\<rparr>"

text \<open>The two callbacks. Only development keeps the timing and marks the thenable.\<close>
definition settleLazy :: "bool \<Rightarrow> js_time \<Rightarrow> nat \<Rightarrow> settle \<Rightarrow> lazy_state \<Rightarrow> lazy_state" where
  "settleLazy dev now t ev s =
     (if lStatus (payload s) = 0 \<or> lStatus (payload s) = -1
      then let p = (case ev of
                 Fulfil m \<Rightarrow> (payload s)\<lparr>lStatus := 1, lResult := RModule m\<rparr>
               | Reject e \<Rightarrow> (payload s)\<lparr>lStatus := 2, lResult := RError e\<rparr>)
           in if dev
              then s\<lparr>payload := p\<lparr>ioEnd := now\<rparr>,
                     thenables := (if thenables s t = None then (thenables s)(t \<mapsto> ev) else thenables s)\<rparr>
              else s\<lparr>payload := p\<rparr>
      else s)"

text \<open>The first call: run the constructor, subscribe, and become pending unless already settled. A
  thrown value leaves the payload as it is.\<close>
definition startLazy :: "bool \<Rightarrow> lazy_ctor \<Rightarrow> js_time \<Rightarrow> js_time \<Rightarrow> lazy_state \<Rightarrow> (val + unit) \<times> lazy_state" where
  "startLazy dev ctor now now2 s =
     (case lResult (payload s) of
        RCtor c \<Rightarrow>
          let s0 = (if dev then s\<lparr>payload := (payload s)\<lparr>ioStart := now, ioEnd := now\<rparr>\<rparr> else s);
              s1 = s0\<lparr>ctorCalls := Suc (ctorCalls s0)\<rparr>
          in (case ctor c of
                Inl e \<Rightarrow> (Inl e, s1)
              | Inr (t, displayName, sync) \<Rightarrow>
                  let s2 = (case sync of None \<Rightarrow> s1 | Some ev \<Rightarrow> settleLazy dev now2 t ev s1);
                      s3 = (if dev
                            then s2\<lparr>payload := (payload s2)\<lparr>ioValue := Some t,
                                   ioName := (case displayName of Some n \<Rightarrow> n | None \<Rightarrow> ioName (payload s2))\<rparr>\<rparr>
                            else s2);
                      s4 = (if lStatus (payload s3) = -1
                            then s3\<lparr>payload := (payload s3)\<lparr>lStatus := 0, lResult := RThenable t\<rparr>\<rparr> else s3)
                  in (Inr (), s4))
      | _ \<Rightarrow> (Inr (), s))"

datatype lazy_thrown = LThrown val | LThrownResult lazy_result | LTypeError

text \<open>\<open>ioInfo.default\<close> of a resolved module: reading a property of \<open>undefined\<close> is a type error (in
  development the \<open>in\<close> test raises it). The development messages are counted.\<close>
definition readDefault :: "bool \<Rightarrow> entries option \<Rightarrow> lazy_state \<Rightarrow> (lazy_thrown + val) \<times> lazy_state" where
  "readDefault dev m s =
     (case m of
        None \<Rightarrow> (Inl LTypeError, if dev then s\<lparr>lazyLog := Suc (lazyLog s)\<rparr> else s)
      | Some ps \<Rightarrow>
          (Inr (prop_get ps ''default''),
           if dev \<and> ''default'' \<notin> fst ` set ps then s\<lparr>lazyLog := Suc (lazyLog s)\<rparr> else s))"

definition lazyInitializer ::
  "bool \<Rightarrow> lazy_ctor \<Rightarrow> js_time \<Rightarrow> js_time \<Rightarrow> lazy_state \<Rightarrow> (lazy_thrown + val) \<times> lazy_state" where
  "lazyInitializer dev ctor now now2 s =
     (let (r, s1) = (if lStatus (payload s) = -1 then startLazy dev ctor now now2 s else (Inr (), s))
      in case r of
           Inl e \<Rightarrow> (Inl (LThrown e), s1)
         | Inr _ \<Rightarrow>
             if lStatus (payload s1) = 1
             then (case lResult (payload s1) of RModule m \<Rightarrow> readDefault dev m s1 | _ \<Rightarrow> (Inl LTypeError, s1))
             else (Inl (LThrownResult (lResult (payload s1))), s1))"

subsection \<open>The payload as a state machine\<close>

text \<open>Renders call the initializer; the thenable calls back.\<close>
inductive lazy_step :: "bool \<Rightarrow> lazy_ctor \<Rightarrow> lazy_state \<Rightarrow> lazy_state \<Rightarrow> bool" for dev ctor where
  lazy_init: "lazyInitializer dev ctor now now2 s = (r, s') \<Longrightarrow> lazy_step dev ctor s s'"
| lazy_settle: "lStatus (payload s) \<noteq> -1 \<Longrightarrow> lazy_step dev ctor s (settleLazy dev now t ev s)"

inductive lazy_steps :: "bool \<Rightarrow> lazy_ctor \<Rightarrow> lazy_state \<Rightarrow> lazy_state \<Rightarrow> bool" for dev ctor where
  lazy_refl: "lazy_steps dev ctor s s"
| lazy_more: "lazy_steps dev ctor s s' \<Longrightarrow> lazy_step dev ctor s' s'' \<Longrightarrow> lazy_steps dev ctor s s''"

inductive_cases lazy_stepE: "lazy_step dev ctor s s'"

text \<open>The status says what \<open>_result\<close> is.\<close>
definition lazy_ok :: "lazy_state \<Rightarrow> bool" where
  "lazy_ok s \<longleftrightarrow>
     (case lResult (payload s) of
        RCtor _ \<Rightarrow> lStatus (payload s) = -1
      | RThenable _ \<Rightarrow> lStatus (payload s) = 0
      | RModule _ \<Rightarrow> lStatus (payload s) = 1
      | RError _ \<Rightarrow> lStatus (payload s) = 2)"

lemma lazy_ok_new: "lazy_ok (newLazy c)"
  by (simp add: lazy_ok_def newLazy_def)

lemma lazy_ok_settle: "lazy_ok s \<Longrightarrow> lazy_ok (settleLazy dev now t ev s)"
  by (auto simp: lazy_ok_def settleLazy_def Let_def split: settle.splits)

lemma settleLazy_settled: "lStatus (payload s) = 1 \<or> lStatus (payload s) = 2 \<Longrightarrow> settleLazy dev now t ev s = s"
  by (auto simp: settleLazy_def)

lemma readDefault_payload [simp]:
  "payload (snd (readDefault dev m s)) = payload s" "ctorCalls (snd (readDefault dev m s)) = ctorCalls s"
  by (auto simp: readDefault_def split: option.splits)

text \<open>What the initializer does to the payload.\<close>
lemma lazyInitializer_payload:
  "payload (snd (lazyInitializer dev ctor now now2 s)) =
     (if lStatus (payload s) = -1 then payload (snd (startLazy dev ctor now now2 s)) else payload s)"
  by (auto simp: lazyInitializer_def Let_def case_prod_beta split: sum.splits lazy_result.splits)

lemma startLazy_ok:
  assumes "lazy_ok s" "lStatus (payload s) = -1"
  shows "lazy_ok (snd (startLazy dev ctor now now2 s))"
proof -
  obtain c where c: "lResult (payload s) = RCtor c"
    using assms by (cases "lResult (payload s)") (auto simp: lazy_ok_def)
  show ?thesis
    using assms c
    by (auto simp: startLazy_def lazy_ok_def settleLazy_def Let_def split: sum.splits prod.splits option.splits settle.splits lazy_result.splits)
qed

lemma lazy_ok_payload: "payload s' = payload s \<Longrightarrow> lazy_ok s' = lazy_ok s"
  by (simp add: lazy_ok_def split: lazy_result.splits)

lemma lazy_step_ok: "lazy_step dev ctor s s' \<Longrightarrow> lazy_ok s \<Longrightarrow> lazy_ok s'"
proof (erule lazy_stepE)
  fix now now2 r
  assume "lazyInitializer dev ctor now now2 s = (r, s')" and ok: "lazy_ok s"
  then have "payload s' = (if lStatus (payload s) = -1 then payload (snd (startLazy dev ctor now now2 s)) else payload s)"
    using lazyInitializer_payload [of dev ctor now now2 s] by simp
  then show "lazy_ok s'" using ok startLazy_ok [OF ok] lazy_ok_payload by (metis (full_types))
qed (simp add: lazy_ok_settle)

lemma lazy_step_settled:
  assumes "lazy_step dev ctor s s'" "lStatus (payload s) = 1 \<or> lStatus (payload s) = 2"
  shows "payload s' = payload s \<and> ctorCalls s' = ctorCalls s"
  using assms(1)
proof (cases rule: lazy_step.cases)
  case (lazy_init now now2 r)
  then have "s' = snd (lazyInitializer dev ctor now now2 s)" by simp
  then show ?thesis
    using assms(2) by (auto simp: lazyInitializer_def Let_def split: lazy_result.splits)
qed (use assms(2) settleLazy_settled in auto)

lemma lazy_steps_ok: "lazy_steps dev ctor s s' \<Longrightarrow> lazy_ok s \<Longrightarrow> lazy_ok s'"
  by (induction rule: lazy_steps.induct) (auto dest: lazy_step_ok)

lemma lazy_steps_settled:
  "lazy_steps dev ctor s s' \<Longrightarrow> lStatus (payload s) = 1 \<or> lStatus (payload s) = 2 \<Longrightarrow>
   payload s' = payload s \<and> ctorCalls s' = ctorCalls s"
  by (induction rule: lazy_steps.induct) (auto dest: lazy_step_settled)

text \<open>C29: a lazy payload settles once. Whatever the thenable does, once the payload is resolved or
  rejected, it never changes again and the constructor is not called again: every later
  initialization returns the default export of the same module, or throws the same error.\<close>
theorem lazy_settles_once:
  assumes "lazy_steps dev ctor (newLazy c) s" "lazy_steps dev ctor s s'" "lStatus (payload s) \<ge> 1"
  shows "payload s' = payload s \<and> ctorCalls s' = ctorCalls s \<and>
    fst (lazyInitializer dev ctor now now2 s') =
      (case lResult (payload s) of
         RModule (Some ps) \<Rightarrow> Inr (prop_get ps ''default'')
       | RModule None \<Rightarrow> Inl LTypeError
       | r \<Rightarrow> Inl (LThrownResult r))"
proof -
  have ok: "lazy_ok s" by (rule lazy_steps_ok [OF assms(1) lazy_ok_new])
  then have st: "lStatus (payload s) = 1 \<or> lStatus (payload s) = 2"
    using assms(3) by (auto simp: lazy_ok_def split: lazy_result.splits)
  note same = lazy_steps_settled [OF assms(2) st]
  show ?thesis
    using same ok st
    by (auto simp: lazyInitializer_def readDefault_def lazy_ok_def Let_def split: lazy_result.splits option.splits)
qed

definition demo_ctor :: lazy_ctor where
  "demo_ctor c = Inr (0, None, Some (Fulfil (Some [(''default'', VStr ''page'')])))"

theorem lazy_settles_once_witness:
  "fst (lazyInitializer True demo_ctor 5 6 (snd (lazyInitializer True demo_ctor 1 2 (newLazy 0)))) = Inr (VStr ''page'')"
proof -
  let ?s = "snd (lazyInitializer True demo_ctor 1 2 (newLazy 0))"
  have p: "lStatus (payload ?s) = 1 \<and> lResult (payload ?s) = RModule (Some [(''default'', VStr ''page'')])"
    by (simp add: lazyInitializer_def newLazy_def startLazy_def demo_ctor_def settleLazy_def readDefault_def Let_def)
  have r: "lazy_steps True demo_ctor (newLazy 0) ?s"
    by (rule lazy_more [OF lazy_refl lazy_init [of True demo_ctor 1 2 "newLazy 0" "fst (lazyInitializer True demo_ctor 1 2 (newLazy 0))"]]) simp
  have "1 \<le> lStatus (payload ?s)" using p by simp
  from lazy_settles_once [OF r lazy_refl this, of 5 6] p show ?thesis by (simp add: prop_get_def)
qed

end
