(* ===== verification/DOM_Values.thy ===== *)
theory DOM_Values
  imports React_Values
begin

text \<open>
  The JavaScript values the DOM client code inspects: host props, style objects and the values
  in them. Objects carry an identity, because the diff compares them with \<open>===\<close>; two mentions of
  one identity are the same object. Only enumerable own data properties are listed, in the order
  of \<open>Object.keys\<close>; a read of a name of \<open>Object.prototype\<close> that is not an own property returns
  the inherited value, which is \<^emph>\<open>not\<close> \<open>undefined\<close>. Finite numbers are integers.
\<close>

datatype js_num = Fin int | NaN | PosInf | NegInf

datatype dval =
    DUndef
  | DNull
  | DBool bool
  | DNum js_num
  | DBigInt int
  | DStr string
  | DSym nat string
  | DFunction nat "(string \<times> dval) list"
  | DArray nat "dval list"
  | DObject nat "(string \<times> dval) list"
  | DBuiltin string  \<comment> \<open>the member of \<open>Object.prototype\<close> with this name\<close>

definition objectPrototypeNames :: "string list" where
  "objectPrototypeNames =
     [''constructor'', ''__defineGetter__'', ''__defineSetter__'', ''hasOwnProperty'',
      ''__lookupGetter__'', ''__lookupSetter__'', ''isPrototypeOf'', ''propertyIsEnumerable'',
      ''toString'', ''valueOf'', ''__proto__'', ''toLocaleString'']"

text \<open>\<open>typeof\<close>\<close>
fun typeOf :: "dval \<Rightarrow> string" where
  "typeOf DUndef = ''undefined''"
| "typeOf DNull = ''object''"
| "typeOf (DBool _) = ''boolean''"
| "typeOf (DNum _) = ''number''"
| "typeOf (DBigInt _) = ''bigint''"
| "typeOf (DStr _) = ''string''"
| "typeOf (DSym _ _) = ''symbol''"
| "typeOf (DFunction _ _) = ''function''"
| "typeOf (DArray _ _) = ''object''"
| "typeOf (DObject _ _) = ''object''"
| "typeOf (DBuiltin k) = (if k = ''__proto__'' then ''object'' else ''function'')"

text \<open>\<open>v === w\<close>\<close>
fun strictEq :: "dval \<Rightarrow> dval \<Rightarrow> bool" where
  "strictEq (DNum a) (DNum b) = (a = b \<and> a \<noteq> NaN)"
| "strictEq (DSym i _) (DSym j _) = (i = j)"
| "strictEq (DFunction i _) (DFunction j _) = (i = j)"
| "strictEq (DArray i _) (DArray j _) = (i = j)"
| "strictEq (DObject i _) (DObject j _) = (i = j)"
| "strictEq v w = (v = w)"

text \<open>\<open>v == null\<close>\<close>
definition nullish :: "dval \<Rightarrow> bool" where
  "nullish v \<longleftrightarrow> v = DUndef \<or> v = DNull"

fun dtruthy :: "dval \<Rightarrow> bool" where
  "dtruthy DUndef = False"
| "dtruthy DNull = False"
| "dtruthy (DBool b) = b"
| "dtruthy (DNum n) = (n \<noteq> Fin 0 \<and> n \<noteq> NaN)"
| "dtruthy (DBigInt n) = (n \<noteq> 0)"
| "dtruthy (DStr s) = (s \<noteq> [])"
| "dtruthy _ = True"

fun ownEntries :: "dval \<Rightarrow> (string \<times> dval) list" where
  "ownEntries (DObject _ ps) = ps"
| "ownEntries (DFunction _ ps) = ps"
| "ownEntries (DArray _ xs) = zip (map nat_str [0..<length xs]) xs"
| "ownEntries _ = []"

text \<open>\<open>Object.keys(v)\<close>\<close>
definition objectKeys :: "dval \<Rightarrow> string list" where
  "objectKeys v = map fst (ownEntries v)"

text \<open>\<open>hasOwn.call(v, k)\<close>\<close>
definition hasOwn :: "dval \<Rightarrow> string \<Rightarrow> bool" where
  "hasOwn v k \<longleftrightarrow> k \<in> set (objectKeys v)"

text \<open>A property read \<open>v[k]\<close>.\<close>
definition readProp :: "dval \<Rightarrow> string \<Rightarrow> dval" where
  "readProp v k =
     (case map_of (ownEntries v) k of
        Some x \<Rightarrow> x
      | None \<Rightarrow> if k \<in> set objectPrototypeNames then DBuiltin k else DUndef)"

text \<open>
  A read of a constant table written as an object literal: \<open>None\<close> is \<open>undefined\<close>,
  \<open>Some None\<close> a value inherited from \<open>Object.prototype\<close>, \<open>Some (Some x)\<close> the own entry.
\<close>
definition readTable :: "(string \<times> 'a) list \<Rightarrow> string \<Rightarrow> 'a option option" where
  "readTable t k =
     (case map_of t k of
        Some x \<Rightarrow> Some (Some x)
      | None \<Rightarrow> if k \<in> set objectPrototypeNames then Some None else None)"

text \<open>\<open>isObjectLike\<close>, the test the DOM modules share.\<close>
definition isDomObjectLike :: "dval \<Rightarrow> bool" where
  "isDomObjectLike v \<longleftrightarrow> typeOf v = ''object'' \<and> v \<noteq> DNull"

text \<open>What a DOM-side call throws: a \<open>TypeError\<close>, or an error with a code.\<close>
datatype dom_error = TypeError string | CodedError string string

text \<open>\<open>String(v)\<close> for a number, and the string methods the code uses.\<close>
fun numText :: "js_num \<Rightarrow> string" where
  "numText (Fin n) = int_str n"
| "numText NaN = ''NaN''"
| "numText PosInf = ''Infinity''"
| "numText NegInf = ''-Infinity''"

fun isFinite :: "js_num \<Rightarrow> bool" where
  "isFinite (Fin _) = True"
| "isFinite _ = False"

definition startsWith :: "string \<Rightarrow> string \<Rightarrow> bool" where
  "startsWith s p \<longleftrightarrow> take (length p) s = p"

definition isSpaceChar :: "char \<Rightarrow> bool" where
  "isSpaceChar c \<longleftrightarrow> of_char c \<in> {9, 10, 11, 12, 13, 32, 160 :: nat}"

definition trim :: "string \<Rightarrow> string" where
  "trim s = rev (dropWhile isSpaceChar (rev (dropWhile isSpaceChar s)))"

definition lowerChar :: "char \<Rightarrow> char" where
  "lowerChar c =
     (let n = of_char c :: nat in
      if 65 \<le> n \<and> n \<le> 90 \<or> 192 \<le> n \<and> n \<le> 222 \<and> n \<noteq> 215 then char_of (n + 32) else c)"

definition toLowerCase :: "string \<Rightarrow> string" where
  "toLowerCase s = map lowerChar s"

subsection \<open>Coherent values\<close>

text \<open>
  One identity is one object. The values an object graph holds satisfy this: \<open>===\<close> on them is
  equality of everything the code can read.
\<close>
definition sameObject :: "dval \<Rightarrow> dval \<Rightarrow> bool" where
  "sameObject v w \<longleftrightarrow> (strictEq v w \<longrightarrow> v = w)"

lemma strictEq_refl [simp]: "strictEq v v \<longleftrightarrow> v \<noteq> DNum NaN"
  by (cases v) auto

lemma strictEq_undef [simp]: "strictEq v DUndef \<longleftrightarrow> v = DUndef" "strictEq DUndef v \<longleftrightarrow> v = DUndef"
  by (cases v; auto)+

lemma strictEq_sym: "strictEq v w \<longleftrightarrow> strictEq w v"
  by (cases v; cases w; auto)

lemma sameObjectD: "sameObject v w \<Longrightarrow> strictEq v w \<Longrightarrow> v = w"
  by (simp add: sameObject_def)

lemma hasOwn_map_of: "hasOwn v k \<longleftrightarrow> map_of (ownEntries v) k \<noteq> None"
  by (auto simp: hasOwn_def objectKeys_def map_of_eq_None_iff)

lemma readProp_own: "(k, x) \<in> set (ownEntries v) \<Longrightarrow> distinct (objectKeys v) \<Longrightarrow> readProp v k = x"
  by (simp add: readProp_def objectKeys_def)

lemma readProp_missing: "\<not> hasOwn v k \<Longrightarrow> k \<notin> set objectPrototypeNames \<Longrightarrow> readProp v k = DUndef"
  by (auto simp: readProp_def hasOwn_map_of split: option.splits)

lemma nullish_simps [simp]:
  "nullish DUndef" "nullish DNull" "\<not> nullish (DBool b)" "\<not> nullish (DNum n)" "\<not> nullish (DStr s)"
  "\<not> nullish (DSym i d)" "\<not> nullish (DFunction i ps)" "\<not> nullish (DArray i xs)"
  "\<not> nullish (DObject i ps)" "\<not> nullish (DBuiltin k)" "\<not> nullish (DBigInt m)"
  by (simp_all add: nullish_def)

lemma isDomObjectLike_simps [simp]:
  "isDomObjectLike (DObject i ps)" "isDomObjectLike (DArray i xs)" "\<not> isDomObjectLike DNull"
  "\<not> isDomObjectLike DUndef" "\<not> isDomObjectLike (DBool b)" "\<not> isDomObjectLike (DNum n)"
  "\<not> isDomObjectLike (DStr s)" "\<not> isDomObjectLike (DFunction i ps)"
  by (simp_all add: isDomObjectLike_def)

lemma nullish_not_object: "nullish v \<Longrightarrow> \<not> isDomObjectLike v"
  by (auto simp: nullish_def)

end
