(* ===== verification/Property_Payload.thy ===== *)
theory Property_Payload
  imports DOM_Values
begin

text \<open>
  \<open>packages/react-dom/src/dom-host/property-payload.js\<close>: the diff of two host prop objects into
  payload entries. The module only computes data; what it hands to the DOM mutation code is the
  list of entries. \<open>String(value)\<close> of an object is user code and comes from the parameter
  \<open>dom_env\<close>, as do the record and the status strings of the controlled-form gate, another module
  (\<open>resource-form-internals-gate.js\<close>) this one only calls.

  An array that \<open>createEntries\<close> returns is a list here, a single entry a list of one: both
  callers treat them alike.
\<close>

subsection \<open>Tables\<close>

definition attributeAliases :: "(string \<times> string) list" where
  "attributeAliases = [(''className'', ''class''), (''htmlFor'', ''for''), (''tabIndex'', ''tabindex'')]"

definition knownStringAttributeNames :: "string list" where
  "knownStringAttributeNames = [''dir'', ''id'', ''role'', ''title'', ''translate'']"

definition booleanishStringAttributeNames :: "string list" where
  "booleanishStringAttributeNames = [''contentEditable'', ''draggable'', ''spellCheck'']"

definition booleanAttributeNames :: "string list" where
  "booleanAttributeNames =
     [''allowFullScreen'', ''async'', ''autoPlay'', ''controls'', ''default'', ''defer'', ''disabled'',
      ''disablePictureInPicture'', ''disableRemotePlayback'', ''formNoValidate'', ''hidden'', ''inert'',
      ''itemScope'', ''loop'', ''noModule'', ''noValidate'', ''open'', ''playsInline'', ''readOnly'',
      ''required'', ''reversed'', ''scoped'', ''seamless'']"

definition controlledPropsByTag :: "(string \<times> string list) list" where
  "controlledPropsByTag =
     [(''input'', [''checked'', ''defaultChecked'', ''defaultValue'', ''name'', ''type'', ''value'']),
      (''option'', [''selected'']),
      (''select'', [''defaultValue'', ''multiple'', ''value'']),
      (''textarea'', [''defaultValue'', ''value''])]"

definition formActionProps :: "string list" where
  "formActionProps =
     [''action'', ''encType'', ''formAction'', ''formEncType'', ''formMethod'', ''formTarget'', ''method'', ''target'']"

definition documentScopedResourceTags :: "string list" where
  "documentScopedResourceTags =
     [''base'', ''body'', ''head'', ''html'', ''link'', ''meta'', ''script'', ''style'', ''title'']"

definition reservedNonPayloadProps :: "(string \<times> string \<times> string) list" where
  "reservedNonPayloadProps =
     [(''children'', ''children'', ''children are handled by text-content reconciliation''),
      (''key'', ''react-reserved-prop'', ''key is React element metadata and is not a DOM payload''),
      (''ref'', ''react-reserved-prop'', ''ref is handled by the ref attachment path''),
      (''suppressContentEditableWarning'', ''react-reserved-prop'',
       ''contentEditable warning suppression does not mutate host props''),
      (''suppressHydrationWarning'', ''hydration'',
       ''hydration warning suppression belongs to hydration diffing'')]"

definition stylePropShapeValidationMessage :: string where
  "stylePropShapeValidationMessage =
     ''The `style` prop expects a mapping from style properties to values, '' @
     ''not a string. For example, style={{marginRight: spacing + '' @ [CHR 0x27] @ ''em'' @ [CHR 0x27] @
     ''}} when using JSX.''"

definition dangerousHtmlShapeValidationMessage :: string where
  "dangerousHtmlShapeValidationMessage =
     ''`props.dangerouslySetInnerHTML` must be in the form `{__html: ...}`. '' @
     ''Please visit https://react.dev/link/dangerously-set-inner-html '' @ ''for more information.''"

definition dangerousHtmlChildrenConflictMessage :: string where
  "dangerousHtmlChildrenConflictMessage =
     ''Can only set one of '' @ ''`children` or `props.dangerouslySetInnerHTML`.''"

definition supportedStyleNames :: "string list" where
  "supportedStyleNames =
     [''backgroundColor'', ''backgroundImage'', ''borderWidth'', ''color'', ''flex'', ''height'', ''lineHeight'',
      ''marginTop'', ''msTransition'', ''opacity'', ''paddingLeft'', ''WebkitLineClamp'', ''width'', ''zIndex'']"

definition unitlessStyleNames :: "string list" where
  "unitlessStyleNames = [''flex'', ''lineHeight'', ''opacity'', ''WebkitLineClamp'', ''zIndex'']"

definition unsupportedPropReasons :: "(string \<times> string \<times> string) list" where
  "unsupportedPropReasons =
     [(''innerHTML'', ''innerHTML'', ''innerHTML is reserved and is not handled as an ordinary attribute'')]"

text \<open>\<open>validAttributeNamePattern\<close>: \<open>/^[A-Za-z_:][A-Za-z0-9_.:-]*$/\<close>\<close>
definition asciiLetter :: "char \<Rightarrow> bool" where
  "asciiLetter c = (let n = of_char c :: nat in 65 \<le> n \<and> n \<le> 90 \<or> 97 \<le> n \<and> n \<le> 122)"

definition asciiDigit :: "char \<Rightarrow> bool" where
  "asciiDigit c = (let n = of_char c :: nat in 48 \<le> n \<and> n \<le> 57)"

fun validAttributeNamePattern :: "string \<Rightarrow> bool" where
  "validAttributeNamePattern [] = False"
| "validAttributeNamePattern (c # cs) =
     ((asciiLetter c \<or> c \<in> set ''_:'') \<and>
      list_all (\<lambda>d. asciiLetter d \<or> asciiDigit d \<or> d \<in> set ''_.:-'') cs)"

subsection \<open>Predicates on names and values\<close>

definition isControlledFormProp :: "dval \<Rightarrow> string \<Rightarrow> dom_error + bool" where
  "isControlledFormProp tag propName =
     (case tag of
        DStr t \<Rightarrow>
          (case readTable controlledPropsByTag t of
             None \<Rightarrow> Inr False
           | Some None \<Rightarrow> Inl (TypeError ''controlledProps.has is not a function'')
           | Some (Some names) \<Rightarrow> Inr (propName \<in> set names))
      | _ \<Rightarrow> Inr False)"

definition isDocumentScopedResourceTag :: "dval \<Rightarrow> bool" where
  "isDocumentScopedResourceTag tag = (case tag of DStr t \<Rightarrow> t \<in> set documentScopedResourceTags | _ \<Rightarrow> False)"

definition isEventLikeProp :: "string \<Rightarrow> bool" where
  "isEventLikeProp propName \<longleftrightarrow>
     length propName > 2 \<and> (propName ! 0 = CHR ''o'' \<or> propName ! 0 = CHR ''O'') \<and>
     (propName ! 1 = CHR ''n'' \<or> propName ! 1 = CHR ''N'')"

definition isDataOrAriaAttribute :: "string \<Rightarrow> bool" where
  "isDataOrAriaAttribute propName \<longleftrightarrow> startsWith propName ''data-'' \<or> startsWith propName ''aria-''"

definition isLowercaseCustomAttribute :: "string \<Rightarrow> bool" where
  "isLowercaseCustomAttribute propName \<longleftrightarrow> propName = toLowerCase propName"

definition isAttributeNameSafe :: "string \<Rightarrow> bool" where
  "isAttributeNameSafe attributeName = validAttributeNamePattern attributeName"

definition isCustomStyleProperty :: "string \<Rightarrow> bool" where
  "isCustomStyleProperty styleName = startsWith styleName ''--''"

definition isSupportedStyleName :: "string \<Rightarrow> bool" where
  "isSupportedStyleName styleName \<longleftrightarrow> styleName \<in> set supportedStyleNames \<or> isCustomStyleProperty styleName"

definition isNullishStyleValue :: "dval \<Rightarrow> bool" where
  "isNullishStyleValue v = nullish v"

definition shouldRemoveStyleValue :: "dval \<Rightarrow> bool" where
  "shouldRemoveStyleValue v \<longleftrightarrow> nullish v \<or> typeOf v = ''boolean'' \<or> v = DStr []"

definition getStyleMutationTarget :: "string \<Rightarrow> string" where
  "getStyleMutationTarget styleName =
     (if isCustomStyleProperty styleName then ''setProperty'' else ''propertyAssignment'')"

subsection \<open>Boundary records of controlled form props\<close>

datatype boundary_value =
    BoundaryType string
  | BoundaryString bool  \<comment> \<open>\<open>empty\<close>\<close>
  | BoundaryNumber bool  \<comment> \<open>\<open>finite\<close>\<close>
  | BoundaryArray nat  \<comment> \<open>\<open>length\<close>\<close>

record boundary_prop =
  bpPropName :: string
  bpPresent :: bool
  bpNonNull :: bool
  bpValue :: boundary_value

record checkable_metadata =
  cmStatus :: string
  cmHostTag :: string
  cmInputType :: string
  cmControlKind :: string
  cmTrackedField :: string
  cmCheckedProp :: boundary_prop
  cmDefaultCheckedProp :: boundary_prop
  cmNameProp :: boundary_prop
  cmRadioGroupRestoreIntentStatus :: string
  cmRadioGroupRestoreIntentRecorded :: bool
  cmRadioGroupRestoreRequired :: bool
  cmRadioGroupLookupRequired :: bool
  cmRadioGroupLookupPerformed :: bool
  cmRadioGroupMembersEnumerated :: bool
  cmRadioSiblingMetadataRead :: bool
  cmRadioSiblingInputRestoreRequired :: bool
  cmRadioSiblingInputRestorePerformed :: bool
  cmRadioValueTrackerRefreshRequired :: bool
  cmRadioValueTrackerRefreshed :: bool
  cmLatestPropsLookup :: bool
  cmLiveTrackingStarted :: bool
  cmPostEventRestoreQueued :: bool
  cmHostValueRead :: bool
  cmHostValueWritten :: bool
  cmBrowserInputMutated :: bool
  cmCompatibilityClaimed :: bool

record controlled_boundary =
  cbPropertyPayloadStatus :: string
  cbPrivateWrapperGateStatus :: "string option"
  cbPrivateWrapperGateRecord :: "dval option"
  cbValueTrackerGateStatus :: string
  cbFakeDomTrackerDiagnosticStatus :: string
  cbPostEventRestoreQueueGateStatus :: string
  cbHostTag :: string
  cbOrdinaryPayloadAccepted :: bool
  cbSourceAdapterInvoked :: bool
  cbFakeDomTrackerDiagnosticAvailable :: bool
  cbPostEventRestoreQueueGateAvailable :: bool
  cbFakeDomTrackerDiagnosticInstalled :: bool
  cbFakeDomTrackerDiagnosticObserved :: bool
  cbFakeDomTrackerDiagnosticDetached :: bool
  cbCheckableRestoreMetadata :: "checkable_metadata option"
  cbPostEventRestoreQueueIntentRecorded :: bool
  cbLiveTrackingStarted :: bool
  cbPostEventRestoreQueued :: bool
  cbPublicControlledBehaviorEnabled :: bool
  cbCompatibilityClaimed :: bool

record dom_env =
  objectString :: "dval \<Rightarrow> string option"  \<comment> \<open>\<open>String(object)\<close>, \<open>None\<close> when it throws\<close>
  wrapperGateRecord :: "string \<Rightarrow> string \<Rightarrow> dval \<Rightarrow> dom_error + dval"
  wrapperGateStatus :: string
  trackerFakeDomStatus :: string

definition describeBoundaryValue :: "dval \<Rightarrow> boundary_value" where
  "describeBoundaryValue v =
     (case v of
        DNull \<Rightarrow> BoundaryType ''null''
      | DStr s \<Rightarrow> BoundaryString (length s = 0)
      | DNum n \<Rightarrow> BoundaryNumber (isFinite n)
      | DArray _ xs \<Rightarrow> BoundaryArray (length xs)
      | _ \<Rightarrow> BoundaryType (typeOf v))"

definition describeControlledBoundaryProp :: "dval \<Rightarrow> string \<Rightarrow> boundary_prop" where
  "describeControlledBoundaryProp ps propName =
     (if \<not> isDomObjectLike ps \<or> \<not> hasOwn ps propName
      then \<lparr>bpPropName = propName, bpPresent = False, bpNonNull = False, bpValue = BoundaryType ''missing''\<rparr>
      else
        (let v = readProp ps propName in
         \<lparr>bpPropName = propName, bpPresent = True, bpNonNull = (\<not> nullish v),
          bpValue = describeBoundaryValue v\<rparr>))"

definition getInputTypeFromProps :: "dval \<Rightarrow> string" where
  "getInputTypeFromProps ps =
     (if isDomObjectLike ps \<and> hasOwn ps ''type''
      then (case readProp ps ''type'' of DStr t \<Rightarrow> if length t > 0 then t else ''text'' | _ \<Rightarrow> ''text'')
      else ''text'')"

definition createControlledCheckableRestoreMetadataOrNull :: "string \<Rightarrow> dval \<Rightarrow> checkable_metadata option" where
  "createControlledCheckableRestoreMetadataOrNull tag ps =
     (if tag \<noteq> ''input'' then None
      else
        (let inputType = getInputTypeFromProps ps in
         if inputType \<noteq> ''checkbox'' \<and> inputType \<noteq> ''radio'' then None
         else
           (let nameProp = describeControlledBoundaryProp ps ''name'';
                req = inputType = ''radio'' \<and> bpNonNull nameProp
            in Some
              \<lparr>cmStatus = ''private-controlled-checkable-input-restore-metadata'',
               cmHostTag = tag, cmInputType = inputType, cmControlKind = ''checked'', cmTrackedField = ''checked'',
               cmCheckedProp = describeControlledBoundaryProp ps ''checked'',
               cmDefaultCheckedProp = describeControlledBoundaryProp ps ''defaultChecked'',
               cmNameProp = nameProp,
               cmRadioGroupRestoreIntentStatus =
                 (if req then ''recorded-private-controlled-radio-group-restore-intent''
                  else ''skipped-private-controlled-radio-group-restore-intent''),
               cmRadioGroupRestoreIntentRecorded = False, cmRadioGroupRestoreRequired = req,
               cmRadioGroupLookupRequired = req, cmRadioGroupLookupPerformed = False,
               cmRadioGroupMembersEnumerated = False, cmRadioSiblingMetadataRead = False,
               cmRadioSiblingInputRestoreRequired = req, cmRadioSiblingInputRestorePerformed = False,
               cmRadioValueTrackerRefreshRequired = req, cmRadioValueTrackerRefreshed = False,
               cmLatestPropsLookup = False, cmLiveTrackingStarted = False, cmPostEventRestoreQueued = False,
               cmHostValueRead = False, cmHostValueWritten = False, cmBrowserInputMutated = False,
               cmCompatibilityClaimed = False\<rparr>)))"

definition createControlledPrivateWrapperPropertyPayloadRecordOrNull ::
  "dom_env \<Rightarrow> string \<Rightarrow> string \<Rightarrow> dval \<Rightarrow> dom_error + dval option" where
  "createControlledPrivateWrapperPropertyPayloadRecordOrNull env tag propName ps =
     (if tag \<noteq> ''input'' \<and> tag \<noteq> ''select'' \<and> tag \<noteq> ''textarea'' then Inr None
      else (case wrapperGateRecord env tag propName ps of Inl e \<Rightarrow> Inl e | Inr r \<Rightarrow> Inr (Some r)))"

subsection \<open>Entries\<close>

datatype entry_details = NoDetails | StyleNameDetails string | ControlledDetails controlled_boundary

text \<open>
  The constructor is the entry's \<open>kind\<close>; the first argument is \<open>propName\<close>. The kinds
  \<open>setProperty\<close> and \<open>removeProperty\<close> are never produced here, but the mutation code accepts
  them.
\<close>
datatype payload_entry =
    SetAttribute string string string  \<comment> \<open>attributeName, value\<close>
  | RemoveAttribute string string
  | SetProperty string string dval
  | RemoveProperty string string
  | SetStyle string string string string  \<comment> \<open>styleName, mutation, value\<close>
  | RemoveStyle string string string string
  | SetInnerHtml string string string  \<comment> \<open>propertyName, value\<close>
  | NonPayload string "string option" "string option"  \<comment> \<open>category, reason\<close>
  | Unsupported string string string entry_details

fun entryKind :: "payload_entry \<Rightarrow> string" where
  "entryKind (SetAttribute _ _ _) = ''setAttribute''"
| "entryKind (RemoveAttribute _ _) = ''removeAttribute''"
| "entryKind (SetProperty _ _ _) = ''setProperty''"
| "entryKind (RemoveProperty _ _) = ''removeProperty''"
| "entryKind (SetStyle _ _ _ _) = ''setStyle''"
| "entryKind (RemoveStyle _ _ _ _) = ''removeStyle''"
| "entryKind (SetInnerHtml _ _ _) = ''setInnerHTML''"
| "entryKind (NonPayload _ _ _) = ''nonPayload''"
| "entryKind (Unsupported _ _ _ _) = ''unsupported''"

definition isOrdinaryPropertyPayloadEntry :: "payload_entry \<Rightarrow> bool" where
  "isOrdinaryPropertyPayloadEntry e \<longleftrightarrow>
     entryKind e \<in> {''setAttribute'', ''removeAttribute'', ''setProperty'', ''removeProperty''}"

definition isStyleDangerousHtmlPayloadEntry :: "payload_entry \<Rightarrow> bool" where
  "isStyleDangerousHtmlPayloadEntry e \<longleftrightarrow> entryKind e \<in> {''setStyle'', ''removeStyle'', ''setInnerHTML''}"

definition isStylePropertyPayloadEntry :: "payload_entry \<Rightarrow> bool" where
  "isStylePropertyPayloadEntry e \<longleftrightarrow> entryKind e \<in> {''setStyle'', ''removeStyle''}"

definition isNonPayloadPropertyPayloadEntry :: "payload_entry \<Rightarrow> bool" where
  "isNonPayloadPropertyPayloadEntry e \<longleftrightarrow> entryKind e = ''nonPayload''"

definition isUnsupported :: "payload_entry \<Rightarrow> bool" where
  "isUnsupported e \<longleftrightarrow> entryKind e = ''unsupported''"

definition createSetStyleEntry :: "string \<Rightarrow> string \<Rightarrow> string \<Rightarrow> payload_entry" where
  "createSetStyleEntry propName styleName v = SetStyle propName styleName (getStyleMutationTarget styleName) v"

definition createRemoveStyleEntry :: "string \<Rightarrow> string \<Rightarrow> payload_entry" where
  "createRemoveStyleEntry propName styleName =
     RemoveStyle propName styleName (getStyleMutationTarget styleName) []"

definition createSetInnerHtmlEntry :: "string \<Rightarrow> string \<Rightarrow> payload_entry" where
  "createSetInnerHtmlEntry propName v = SetInnerHtml propName ''innerHTML'' v"

definition createControlledFormUnsupportedEntry ::
  "dom_env \<Rightarrow> string \<Rightarrow> string \<Rightarrow> dval \<Rightarrow> dom_error + payload_entry" where
  "createControlledFormUnsupportedEntry env tag propName ps =
     (case createControlledPrivateWrapperPropertyPayloadRecordOrNull env tag propName ps of
        Inl e \<Rightarrow> Inl e
      | Inr gateRecord \<Rightarrow>
          Inr (Unsupported propName (''controlled-'' @ tag)
            (''controlled '' @ tag @ '' props are handled by the controlled form wrapper path'')
            (ControlledDetails
              \<lparr>cbPropertyPayloadStatus = ''blocked-controlled-form-property-payload'',
               cbPrivateWrapperGateStatus =
                 (case gateRecord of None \<Rightarrow> None | Some _ \<Rightarrow> Some (wrapperGateStatus env)),
               cbPrivateWrapperGateRecord = gateRecord,
               cbValueTrackerGateStatus = ''private-controlled-value-tracker-metadata-only'',
               cbFakeDomTrackerDiagnosticStatus = trackerFakeDomStatus env,
               cbPostEventRestoreQueueGateStatus = ''private-controlled-input-post-event-restore-queue-intent'',
               cbHostTag = tag, cbOrdinaryPayloadAccepted = False, cbSourceAdapterInvoked = False,
               cbFakeDomTrackerDiagnosticAvailable = True, cbPostEventRestoreQueueGateAvailable = True,
               cbFakeDomTrackerDiagnosticInstalled = False, cbFakeDomTrackerDiagnosticObserved = False,
               cbFakeDomTrackerDiagnosticDetached = False,
               cbCheckableRestoreMetadata = createControlledCheckableRestoreMetadataOrNull tag ps,
               cbPostEventRestoreQueueIntentRecorded = False, cbLiveTrackingStarted = False,
               cbPostEventRestoreQueued = False, cbPublicControlledBehaviorEnabled = False,
               cbCompatibilityClaimed = False\<rparr>)))"

subsection \<open>Attributes\<close>

datatype value_kind = Known | BooleanishString | BooleanKind | DataOrAria | CustomLowercase

definition getOrdinaryAttribute :: "string \<Rightarrow> (string \<times> value_kind) option" where
  "getOrdinaryAttribute propName =
     (case map_of attributeAliases propName of
        Some a \<Rightarrow> Some (a, Known)
      | None \<Rightarrow>
          if propName \<in> set knownStringAttributeNames then Some (propName, Known)
          else if propName \<in> set booleanishStringAttributeNames then Some (propName, BooleanishString)
          else if propName \<in> set booleanAttributeNames then Some (propName, BooleanKind)
          else if isDataOrAriaAttribute propName then Some (propName, DataOrAria)
          else if isLowercaseCustomAttribute propName then Some (propName, CustomLowercase)
          else None)"

definition shouldRemoveAttributeValue :: "dval \<Rightarrow> bool \<Rightarrow> bool" where
  "shouldRemoveAttributeValue v removeBooleans =
     (if nullish v then True
      else if typeOf v = ''function'' \<or> typeOf v = ''symbol'' then True
      else if typeOf v = ''boolean'' then removeBooleans
      else False)"

text \<open>\<open>String(value)\<close>; \<open>None\<close> when the conversion throws.\<close>
definition stringOf :: "dom_env \<Rightarrow> dval \<Rightarrow> string option" where
  "stringOf env v =
     (case v of
        DUndef \<Rightarrow> Some ''undefined''
      | DNull \<Rightarrow> Some ''null''
      | DBool b \<Rightarrow> Some (if b then ''true'' else ''false'')
      | DNum n \<Rightarrow> Some (numText n)
      | DBigInt n \<Rightarrow> Some (int_str n)
      | DStr s \<Rightarrow> Some s
      | DSym _ d \<Rightarrow> Some (''Symbol('' @ d @ '')'')
      | _ \<Rightarrow> objectString env v)"

definition coerceSetAttributeEntry :: "dom_env \<Rightarrow> string \<Rightarrow> string \<Rightarrow> dval \<Rightarrow> payload_entry" where
  "coerceSetAttributeEntry env propName attributeName v =
     (case stringOf env v of
        Some s \<Rightarrow> SetAttribute propName attributeName s
      | None \<Rightarrow> Unsupported propName ''attribute-string-coercion''
          ''attribute value could not be coerced to a string'' NoDetails)"

definition createAttributeEntry :: "dom_env \<Rightarrow> string \<times> value_kind \<Rightarrow> string \<Rightarrow> dval \<Rightarrow> payload_entry" where
  "createAttributeEntry env attribute propName v =
     (if snd attribute = BooleanKind then
        (if dtruthy v \<and> typeOf v \<noteq> ''function'' \<and> typeOf v \<noteq> ''symbol''
         then SetAttribute propName (fst attribute) []
         else RemoveAttribute propName (fst attribute))
      else if snd attribute = DataOrAria \<or> snd attribute = BooleanishString then
        (if shouldRemoveAttributeValue v False then RemoveAttribute propName (fst attribute)
         else coerceSetAttributeEntry env propName (fst attribute) v)
      else if shouldRemoveAttributeValue v True then RemoveAttribute propName (fst attribute)
      else coerceSetAttributeEntry env propName (fst attribute) v)"

subsection \<open>Styles and \<open>dangerouslySetInnerHTML\<close>\<close>

text \<open>\<open>Inl\<close> is an unsupported entry, \<open>Inr\<close> the coerced value.\<close>
definition coerceStyleValue :: "string \<Rightarrow> string \<Rightarrow> dval \<Rightarrow> payload_entry + string" where
  "coerceStyleValue propName styleName v =
     (case v of
        DNum n \<Rightarrow>
          if \<not> isFinite n then
            Inl (Unsupported propName ''style-non-finite-number''
              ''non-finite numeric style values require warning diagnostics outside this data-only helper''
              (StyleNameDetails styleName))
          else if n \<noteq> Fin 0 \<and> \<not> isCustomStyleProperty styleName \<and> styleName \<notin> set unitlessStyleNames
          then Inr (numText n @ ''px'')
          else Inr (numText n)
      | DStr s \<Rightarrow> Inr (if isCustomStyleProperty styleName then s else trim s)
      | _ \<Rightarrow>
          Inl (Unsupported propName ''style-value-type''
            ''this data-only style slice only admits string, finite number, nullish, empty string, or boolean style values''
            (StyleNameDetails styleName)))"

definition unsupportedStyleName :: "string \<Rightarrow> string \<Rightarrow> payload_entry" where
  "unsupportedStyleName propName styleName =
     Unsupported propName ''unsupported-style-name''
       ''this data-only style slice only covers oracle-backed style names and CSS custom properties''
       (StyleNameDetails styleName)"

definition createStyleValueEntryOrUnsupported :: "string \<Rightarrow> string \<Rightarrow> dval \<Rightarrow> payload_entry" where
  "createStyleValueEntryOrUnsupported propName styleName v =
     (if \<not> isSupportedStyleName styleName then unsupportedStyleName propName styleName
      else if shouldRemoveStyleValue v then createRemoveStyleEntry propName styleName
      else (case coerceStyleValue propName styleName v of
              Inl e \<Rightarrow> e
            | Inr s \<Rightarrow> createSetStyleEntry propName styleName s))"

definition createRemoveStyleEntryOrUnsupported :: "string \<Rightarrow> string \<Rightarrow> payload_entry" where
  "createRemoveStyleEntryOrUnsupported propName styleName =
     (if \<not> isSupportedStyleName styleName then unsupportedStyleName propName styleName
      else createRemoveStyleEntry propName styleName)"

definition emptyProps :: dval where
  "emptyProps = DObject 0 []"

definition createStyleEntries :: "string \<Rightarrow> dval \<Rightarrow> dval \<Rightarrow> payload_entry list" where
  "createStyleEntries propName v previousValue =
     (if \<not> isNullishStyleValue v \<and> \<not> isDomObjectLike v then
        [Unsupported propName ''style-shape-validation'' stylePropShapeValidationMessage NoDetails]
      else if \<not> isNullishStyleValue previousValue \<and> \<not> isDomObjectLike previousValue then
        [Unsupported propName ''style-previous-shape''
           ''previous style props must be an object or null before this data-only helper can diff them'' NoDetails]
      else
        (let previousStyles = (if isDomObjectLike previousValue then Some previousValue else None);
             currentStyles = (if isDomObjectLike v then Some v else None)
         in (case previousStyles of
               None \<Rightarrow> []
             | Some p \<Rightarrow>
                 map (createRemoveStyleEntryOrUnsupported propName)
                   (filter (\<lambda>s. case currentStyles of None \<Rightarrow> True | Some c \<Rightarrow> \<not> hasOwn c s) (objectKeys p))) @
            (case currentStyles of
               None \<Rightarrow> []
             | Some c \<Rightarrow>
                 (let previousStyleValues = (case previousStyles of None \<Rightarrow> emptyProps | Some p \<Rightarrow> p) in
                  map (\<lambda>s. createStyleValueEntryOrUnsupported propName s (readProp c s))
                    (filter (\<lambda>s. \<not> strictEq (readProp previousStyleValues s) (readProp c s)) (objectKeys c))))))"

definition createDangerousHtmlEntry :: "string \<Rightarrow> dval \<Rightarrow> dval \<Rightarrow> payload_entry" where
  "createDangerousHtmlEntry propName v ps =
     (if nullish v then
        NonPayload propName (Some ''dangerouslySetInnerHTML-nullish'')
          (Some ''nullish dangerouslySetInnerHTML does not assign innerHTML; managed children and text-content paths own clearing'')
      else if typeOf v \<noteq> ''object'' \<or> \<not> hasOwn v ''__html'' then
        Unsupported propName ''dangerouslySetInnerHTML-shape-validation'' dangerousHtmlShapeValidationMessage NoDetails
      else
        (let html = readProp v ''__html'' in
         if nullish html then
           NonPayload propName (Some ''dangerouslySetInnerHTML-nullish-html'')
             (Some ''nullish dangerouslySetInnerHTML.__html is accepted but does not assign innerHTML'')
         else if \<not> nullish (readProp ps ''children'') then
           Unsupported propName ''dangerouslySetInnerHTML-children-conflict'' dangerousHtmlChildrenConflictMessage NoDetails
         else (case html of
                 DStr s \<Rightarrow> createSetInnerHtmlEntry propName s
               | _ \<Rightarrow> Unsupported propName ''dangerouslySetInnerHTML-value-type''
                   ''this data-only dangerouslySetInnerHTML slice only admits string __html values'' NoDetails)))"

subsection \<open>The diff\<close>

definition createOrdinaryEntries :: "dom_env \<Rightarrow> string \<Rightarrow> dval \<Rightarrow> payload_entry list" where
  "createOrdinaryEntries env propName v =
     (if propName \<in> set formActionProps then
        [Unsupported propName ''form-action''
           ''form action props are intentionally outside this ordinary attribute helper'' NoDetails]
      else
        (case getOrdinaryAttribute propName of
           None \<Rightarrow> [Unsupported propName ''unknown-host-prop''
                     ''this helper only covers bounded ordinary host attributes'' NoDetails]
         | Some attribute \<Rightarrow>
             if \<not> isAttributeNameSafe (fst attribute) then
               [Unsupported propName ''invalid-attribute-name''
                  ''attribute name is not safe to include in a DOM payload'' NoDetails]
             else [createAttributeEntry env attribute propName v]))"

definition createEntries ::
  "dom_env \<Rightarrow> dval \<Rightarrow> string \<Rightarrow> dval \<Rightarrow> dval \<Rightarrow> dval \<Rightarrow> dom_error + payload_entry list" where
  "createEntries env tag propName v previousValue ps =
     (case readTable reservedNonPayloadProps propName of
        Some reserved \<Rightarrow> Inr [NonPayload propName (map_option fst reserved) (map_option snd reserved)]
      | None \<Rightarrow>
          if isEventLikeProp propName then
            Inr [NonPayload propName (Some ''event'')
                   (Some ''event props are stored by the future event/latest-props path'')]
          else
            (case map_of unsupportedPropReasons propName of
               Some (category, reason) \<Rightarrow> Inr [Unsupported propName category reason NoDetails]
             | None \<Rightarrow>
                 if isDocumentScopedResourceTag tag then
                   Inr [Unsupported propName ''document-resource-host''
                          ''document-scoped resource host tags require dedicated React DOM handling'' NoDetails]
                 else if propName = ''style'' then Inr (createStyleEntries propName v previousValue)
                 else if propName = ''dangerouslySetInnerHTML'' then Inr [createDangerousHtmlEntry propName v ps]
                 else
                   (case isControlledFormProp tag propName of
                      Inl e \<Rightarrow> Inl e
                    | Inr controlled \<Rightarrow>
                        if controlled then
                          (case tag of
                             DStr t \<Rightarrow> map_sum id (\<lambda>e. [e]) (createControlledFormUnsupportedEntry env t propName ps)
                           | _ \<Rightarrow> Inr [])
                        else Inr (createOrdinaryEntries env propName v))))"

definition normalizeProps :: "dval \<Rightarrow> string \<Rightarrow> dom_error + dval" where
  "normalizeProps ps argumentName =
     (if nullish ps then Inr emptyProps
      else if typeOf ps \<noteq> ''object'' \<and> typeOf ps \<noteq> ''function''
      then Inl (TypeError (argumentName @ '' must be an object or null.''))
      else Inr ps)"

definition pushPayloadEntries :: "payload_entry list \<Rightarrow> payload_entry list \<Rightarrow> payload_entry list" where
  "pushPayloadEntries payload entries = payload @ entries"

text \<open>The two loops over \<open>Object.keys\<close>.\<close>
fun diffRemovedProps ::
  "dom_env \<Rightarrow> dval \<Rightarrow> dval \<Rightarrow> dval \<Rightarrow> string list \<Rightarrow> payload_entry list \<Rightarrow> dom_error + payload_entry list" where
  "diffRemovedProps env tag previousProps currentProps [] payload = Inr payload"
| "diffRemovedProps env tag previousProps currentProps (k # ks) payload =
     (let previousValue = readProp previousProps k in
      if \<not> nullish previousValue \<and> \<not> hasOwn currentProps k then
        (case createEntries env tag k DNull previousValue currentProps of
           Inl e \<Rightarrow> Inl e
         | Inr es \<Rightarrow> diffRemovedProps env tag previousProps currentProps ks (pushPayloadEntries payload es))
      else diffRemovedProps env tag previousProps currentProps ks payload)"

fun diffCurrentProps ::
  "dom_env \<Rightarrow> dval \<Rightarrow> dval \<Rightarrow> dval \<Rightarrow> string list \<Rightarrow> payload_entry list \<Rightarrow> dom_error + payload_entry list" where
  "diffCurrentProps env tag previousProps currentProps [] payload = Inr payload"
| "diffCurrentProps env tag previousProps currentProps (k # ks) payload =
     (let nextValue = readProp currentProps k; previousValue = readProp previousProps k in
      if \<not> strictEq nextValue previousValue \<and> (\<not> nullish nextValue \<or> \<not> nullish previousValue) then
        (case createEntries env tag k nextValue previousValue currentProps of
           Inl e \<Rightarrow> Inl e
         | Inr es \<Rightarrow> diffCurrentProps env tag previousProps currentProps ks (pushPayloadEntries payload es))
      else diffCurrentProps env tag previousProps currentProps ks payload)"

definition diffDomPropertyPayload :: "dom_env \<Rightarrow> dval \<Rightarrow> dval \<Rightarrow> dval \<Rightarrow> dom_error + payload_entry list" where
  "diffDomPropertyPayload env tag lastProps nextProps =
     (case normalizeProps lastProps ''lastProps'' of
        Inl e \<Rightarrow> Inl e
      | Inr previousProps \<Rightarrow>
          (case normalizeProps nextProps ''nextProps'' of
             Inl e \<Rightarrow> Inl e
           | Inr currentProps \<Rightarrow>
               (case diffRemovedProps env tag previousProps currentProps (objectKeys previousProps) [] of
                  Inl e \<Rightarrow> Inl e
                | Inr payload \<Rightarrow>
                    diffCurrentProps env tag previousProps currentProps (objectKeys currentProps) payload)))"

end
