(* ===== verification/Payload_Props.thy ===== *)
theory Payload_Props
  imports Property_Payload
begin

text \<open>
  Correctness of the prop diff. The abstract state a payload acts on is the set of slots of a
  host node, its attributes and its style properties; applying the diff of two prop objects to
  the slots rendered from the first gives the slots rendered from the second.
\<close>

subsection \<open>Slots of a host node\<close>

datatype slot = AttrSlot string | StyleSlot string

type_synonym slots = "slot \<rightharpoonup> string"

fun slotOf :: "payload_entry \<Rightarrow> slot option" where
  "slotOf (SetAttribute _ a _) = Some (AttrSlot a)"
| "slotOf (RemoveAttribute _ a) = Some (AttrSlot a)"
| "slotOf (SetStyle _ s _ _) = Some (StyleSlot s)"
| "slotOf (RemoveStyle _ s _ _) = Some (StyleSlot s)"
| "slotOf _ = None"

text \<open>A style property set to the empty string is removed.\<close>
fun slotValue :: "payload_entry \<Rightarrow> string option" where
  "slotValue (SetAttribute _ _ v) = Some v"
| "slotValue (SetStyle _ _ _ v) = (if v = [] then None else Some v)"
| "slotValue _ = None"

definition applyEntry :: "payload_entry \<Rightarrow> slots \<Rightarrow> slots" where
  "applyEntry e m = (case slotOf e of None \<Rightarrow> m | Some x \<Rightarrow> m(x := slotValue e))"

definition applyPayload :: "payload_entry list \<Rightarrow> slots \<Rightarrow> slots" where
  "applyPayload es m = foldl (\<lambda>m e. applyEntry e m) m es"

lemma applyPayload_Nil [simp]: "applyPayload [] m = m"
  and applyPayload_Cons [simp]: "applyPayload (e # es) m = applyPayload es (applyEntry e m)"
  and applyPayload_append [simp]: "applyPayload (es @ fs) m = applyPayload fs (applyPayload es m)"
  by (simp_all add: applyPayload_def)

lemma applyPayload_untouched:
  "(\<And>e. e \<in> set es \<Longrightarrow> slotOf e \<noteq> Some x) \<Longrightarrow> applyPayload es m x = m x"
  by (induction es arbitrary: m) (auto simp: applyEntry_def split: option.splits)

lemma applyEntry_cong: "m x = m' x \<Longrightarrow> applyEntry e m x = applyEntry e m' x"
  by (auto simp: applyEntry_def split: option.splits)

lemma applyPayload_cong: "m x = m' x \<Longrightarrow> applyPayload es m x = applyPayload es m' x"
proof (induction es arbitrary: m m')
  case (Cons e es)
  have "applyEntry e m x = applyEntry e m' x" by (rule applyEntry_cong) (rule Cons.prems)
  then show ?case unfolding applyPayload_Cons by (rule Cons.IH)
qed simp

text \<open>Of chunks of entries with one owner per slot, only the owner's chunk decides the slot.\<close>
lemma applyPayload_chunks:
  "distinct ks \<Longrightarrow> (\<And>k' e. k' \<in> set ks \<Longrightarrow> k' \<noteq> k \<Longrightarrow> e \<in> set (f k') \<Longrightarrow> slotOf e \<noteq> Some x) \<Longrightarrow>
   applyPayload (concat (map f ks)) m x = (if k \<in> set ks then applyPayload (f k) m x else m x)"
proof (induction ks arbitrary: m)
  case (Cons k0 ks)
  have rest: "applyPayload (concat (map f ks)) (applyPayload (f k0) m) x =
      (if k \<in> set ks then applyPayload (f k) (applyPayload (f k0) m) x else applyPayload (f k0) m x)"
    by (rule Cons.IH) (use Cons.prems in auto)
  show ?case
  proof (cases "k0 = k")
    case True
    then show ?thesis using Cons.prems(1) rest by simp
  next
    case False
    have "applyPayload (f k0) m x = m x"
      by (rule applyPayload_untouched) (use Cons.prems(2) [of k0] False in auto)
    then show ?thesis using rest False applyPayload_cong [of "applyPayload (f k0) m" x m] by simp
  qed
qed simp

subsection \<open>The payload as chunks, one per prop\<close>

definition okEntries :: "dom_error + payload_entry list \<Rightarrow> payload_entry list" where
  "okEntries r = (case r of Inl _ \<Rightarrow> [] | Inr es \<Rightarrow> es)"

lemma in_okEntries: "e \<in> set (okEntries r) \<longleftrightarrow> (\<exists>es. r = Inr es \<and> e \<in> set es)"
  by (auto simp: okEntries_def split: sum.splits)

definition removalDue :: "dval \<Rightarrow> dval \<Rightarrow> string \<Rightarrow> bool" where
  "removalDue P C k \<longleftrightarrow> \<not> nullish (readProp P k) \<and> \<not> hasOwn C k"

definition updateDue :: "dval \<Rightarrow> dval \<Rightarrow> string \<Rightarrow> bool" where
  "updateDue P C k \<longleftrightarrow> \<not> strictEq (readProp C k) (readProp P k) \<and>
     (\<not> nullish (readProp C k) \<or> \<not> nullish (readProp P k))"

abbreviation removalResult :: "dom_env \<Rightarrow> dval \<Rightarrow> dval \<Rightarrow> dval \<Rightarrow> string \<Rightarrow> dom_error + payload_entry list" where
  "removalResult env tag P C k \<equiv> createEntries env tag k DNull (readProp P k) C"

abbreviation updateResult :: "dom_env \<Rightarrow> dval \<Rightarrow> dval \<Rightarrow> dval \<Rightarrow> string \<Rightarrow> dom_error + payload_entry list" where
  "updateResult env tag P C k \<equiv> createEntries env tag k (readProp C k) (readProp P k) C"

definition removalChunk :: "dom_env \<Rightarrow> dval \<Rightarrow> dval \<Rightarrow> dval \<Rightarrow> string \<Rightarrow> payload_entry list" where
  "removalChunk env tag P C k = (if removalDue P C k then okEntries (removalResult env tag P C k) else [])"

definition updateChunk :: "dom_env \<Rightarrow> dval \<Rightarrow> dval \<Rightarrow> dval \<Rightarrow> string \<Rightarrow> payload_entry list" where
  "updateChunk env tag P C k = (if updateDue P C k then okEntries (updateResult env tag P C k) else [])"

lemma diffRemovedProps_Inr:
  "diffRemovedProps env tag P C ks payload = Inr p \<longleftrightarrow>
   p = payload @ concat (map (removalChunk env tag P C) ks) \<and>
   (\<forall>k \<in> set ks. removalDue P C k \<longrightarrow> \<not> isl (removalResult env tag P C k))"
  by (induction ks arbitrary: payload)
     (auto simp: removalDue_def removalChunk_def okEntries_def pushPayloadEntries_def Let_def split: sum.splits)

lemma diffCurrentProps_Inr:
  "diffCurrentProps env tag P C ks payload = Inr p \<longleftrightarrow>
   p = payload @ concat (map (updateChunk env tag P C) ks) \<and>
   (\<forall>k \<in> set ks. updateDue P C k \<longrightarrow> \<not> isl (updateResult env tag P C k))"
  by (induction ks arbitrary: payload)
     (auto simp: updateDue_def updateChunk_def okEntries_def pushPayloadEntries_def Let_def split: sum.splits)

text \<open>A nullish prop object behaves as the empty one.\<close>
definition propsOk :: "dval \<Rightarrow> bool" where
  "propsOk ps \<longleftrightarrow> nullish ps \<or> typeOf ps = ''object'' \<or> typeOf ps = ''function''"

definition normProps :: "dval \<Rightarrow> dval" where
  "normProps ps = (if nullish ps then emptyProps else ps)"

lemma normalizeProps_cases:
  "normalizeProps ps n =
     (if propsOk ps then Inr (normProps ps) else Inl (TypeError (n @ '' must be an object or null.'')))"
  by (auto simp: normalizeProps_def propsOk_def normProps_def)

lemma ownEntries_nullish: "nullish ps \<Longrightarrow> ownEntries ps = []"
  by (auto simp: nullish_def)

lemma normalised_reads:
  "nullish ps \<Longrightarrow> readProp emptyProps k = readProp ps k" "nullish ps \<Longrightarrow> objectKeys emptyProps = objectKeys ps"
  "nullish ps \<Longrightarrow> hasOwn emptyProps k = hasOwn ps k"
  by (simp_all add: readProp_def objectKeys_def hasOwn_def ownEntries_nullish emptyProps_def)

lemma normProps_reads [simp]:
  "readProp (normProps ps) k = readProp ps k" "objectKeys (normProps ps) = objectKeys ps" "hasOwn (normProps ps) k = hasOwn ps k"
  by (simp_all add: normProps_def normalised_reads)

lemma diff_Inr:
  "diffDomPropertyPayload env tag P C = Inr p \<longleftrightarrow>
   propsOk P \<and> propsOk C \<and>
   p = concat (map (removalChunk env tag (normProps P) (normProps C)) (objectKeys P)) @
       concat (map (updateChunk env tag (normProps P) (normProps C)) (objectKeys C)) \<and>
   (\<forall>k \<in> set (objectKeys P). removalDue P C k \<longrightarrow> \<not> isl (removalResult env tag P (normProps C) k)) \<and>
   (\<forall>k \<in> set (objectKeys C). updateDue P C k \<longrightarrow> \<not> isl (updateResult env tag P (normProps C) k))"
proof -
  have due: "removalDue (normProps P) (normProps C) k = removalDue P C k" "updateDue (normProps P) (normProps C) k = updateDue P C k" for k
    by (simp_all add: removalDue_def updateDue_def)
  note normProps_reads [simp del]
  show ?thesis
  proof (cases "propsOk P \<and> propsOk C")
    case True
    then have "diffDomPropertyPayload env tag P C =
       (case diffRemovedProps env tag (normProps P) (normProps C) (objectKeys (normProps P)) [] of Inl e \<Rightarrow> Inl e
        | Inr payload \<Rightarrow> diffCurrentProps env tag (normProps P) (normProps C) (objectKeys (normProps C)) payload)"
      by (simp add: diffDomPropertyPayload_def normalizeProps_cases)
    then show ?thesis
      using True diffRemovedProps_Inr [of env tag "normProps P" "normProps C" "objectKeys (normProps P)" "[]"]
        diffCurrentProps_Inr [of env tag "normProps P" "normProps C" "objectKeys (normProps C)"]
      by (auto simp: due normProps_reads split: sum.splits)
  next
    case False
    then show ?thesis by (auto simp: diffDomPropertyPayload_def normalizeProps_cases split: sum.splits)
  qed
qed

subsection \<open>What one prop writes\<close>

text \<open>The prop that owns a slot.\<close>
fun owns :: "string \<Rightarrow> slot \<Rightarrow> bool" where
  "owns k (AttrSlot a) = (k \<noteq> ''style'' \<and> map_option fst (getOrdinaryAttribute k) = Some a)"
| "owns k (StyleSlot s) = (k = ''style'')"

lemma slotOf_create_attribute:
  "slotOf (createAttributeEntry env att k v) = (if isUnsupported (createAttributeEntry env att k v) then None else Some (AttrSlot (fst att)))"
  by (auto simp: createAttributeEntry_def coerceSetAttributeEntry_def isUnsupported_def split: option.splits)

lemma slotOf_style_entries:
  "slotOf (createStyleValueEntryOrUnsupported k s v) =
     (if isUnsupported (createStyleValueEntryOrUnsupported k s v) then None else Some (StyleSlot s))"
  "slotOf (createRemoveStyleEntryOrUnsupported k s) =
     (if isSupportedStyleName s then Some (StyleSlot s) else None)"
  by (auto simp: createStyleValueEntryOrUnsupported_def createRemoveStyleEntryOrUnsupported_def isUnsupported_def
      unsupportedStyleName_def createRemoveStyleEntry_def createSetStyleEntry_def coerceStyleValue_def
      split: sum.splits dval.splits)

lemma slotOf_createStyleEntries:
  "e \<in> set (createStyleEntries k v pv) \<Longrightarrow> slotOf e \<in> {None} \<union> range (Some \<circ> StyleSlot)"
  by (auto simp: createStyleEntries_def Let_def slotOf_style_entries split: if_splits)

lemma slotOf_dangerous [simp]: "slotOf (createDangerousHtmlEntry k v ps) = None"
  by (auto simp: createDangerousHtmlEntry_def Let_def createSetInnerHtmlEntry_def split: dval.splits)

lemma slotOf_controlled: "createControlledFormUnsupportedEntry env t k ps = Inr e \<Longrightarrow> slotOf e = None \<and> isUnsupported e"
  by (auto simp: createControlledFormUnsupportedEntry_def isUnsupported_def split: sum.splits)

text \<open>
  A prop other than \<open>style\<close> never writes a slot, or always produces the entry of its attribute;
  which of the two depends on its name and the host tag alone.
\<close>
lemma createEntries_uniform:
  assumes "k \<noteq> ''style''"
  shows "(\<forall>v pv ps es. createEntries env tag k v pv ps = Inr es \<longrightarrow> (\<forall>e \<in> set es. slotOf e = None)) \<or>
     (\<exists>att. getOrdinaryAttribute k = Some att \<and> k \<notin> set objectPrototypeNames \<and> isAttributeNameSafe (fst att) \<and>
        (\<forall>v pv ps. createEntries env tag k v pv ps = Inr [createAttributeEntry env att k v]))"
  (is "?none \<or> ?attr")
proof (cases "readTable reservedNonPayloadProps k = None \<and> \<not> isEventLikeProp k \<and> map_of unsupportedPropReasons k = None
    \<and> \<not> isDocumentScopedResourceTag tag \<and> k \<noteq> ''dangerouslySetInnerHTML'' \<and> isControlledFormProp tag k = Inr False")
  case True
  then have eq: "createEntries env tag k v pv ps = Inr (createOrdinaryEntries env k v)" for v pv ps
    using assms by (simp add: createEntries_def)
  have np: "k \<notin> set objectPrototypeNames" using True by (auto simp: readTable_def split: option.splits if_splits)
  show ?thesis
  proof (cases "k \<notin> set formActionProps \<and> (\<exists>att. getOrdinaryAttribute k = Some att \<and> isAttributeNameSafe (fst att))")
    case True
    then show ?thesis by (auto simp: eq createOrdinaryEntries_def np)
  next
    case False
    then have ?none by (auto simp: eq createOrdinaryEntries_def split: option.splits if_splits)
    then show ?thesis by blast
  qed
next
  case False
  have ?none
  proof (intro allI impI ballI)
    fix v pv ps es e
    assume c: "createEntries env tag k v pv ps = Inr es" and e: "e \<in> set es"
    show "slotOf e = None"
      using False c e assms slotOf_controlled
      by (auto simp: createEntries_def map_sum_def split: option.splits if_splits sum.splits dval.splits)
  qed
  then show ?thesis by blast
qed

lemma createEntries_style:
  "(\<forall>v pv ps. createEntries env tag ''style'' v pv ps = Inr (createStyleEntries ''style'' v pv)) \<or>
   (\<exists>e. isUnsupported e \<and> slotOf e = None \<and> (\<forall>v pv ps. createEntries env tag ''style'' v pv ps = Inr [e]))"
proof -
  have "readTable reservedNonPayloadProps ''style'' = None" by code_simp
  moreover have "\<not> isEventLikeProp ''style''" by code_simp
  moreover have "map_of unsupportedPropReasons ''style'' = None" by code_simp
  ultimately show ?thesis
    by (cases "isDocumentScopedResourceTag tag") (auto simp: createEntries_def isUnsupported_def)
qed

lemma createEntries_owner:
  assumes "createEntries env tag k v pv ps = Inr es" "e \<in> set es" "slotOf e = Some x"
  shows "owns k x"
proof (cases "k = ''style''")
  case True
  then show ?thesis
    using assms createEntries_style [of env tag] slotOf_createStyleEntries [of e "''style''" v pv] by auto
next
  case False
  then show ?thesis using createEntries_uniform [OF False, of env tag] assms
    by (auto simp: slotOf_create_attribute split: if_splits)
qed

lemma chunk_owner:
  "e \<in> set (removalChunk env tag P C k) \<Longrightarrow> slotOf e = Some x \<Longrightarrow> owns k x"
  "e \<in> set (updateChunk env tag P C k) \<Longrightarrow> slotOf e = Some x \<Longrightarrow> owns k x"
  by (auto simp: removalChunk_def updateChunk_def in_okEntries split: if_splits dest: createEntries_owner)

text \<open>No prop object uses an alias together with the attribute it stands for.\<close>
definition noAliasClash :: "string list \<Rightarrow> bool" where
  "noAliasClash ks = list_all (\<lambda>(p, a). \<not> (p \<in> set ks \<and> a \<in> set ks)) attributeAliases"

lemma noAliasClash_mono: "noAliasClash ks \<Longrightarrow> set ks' \<subseteq> set ks \<Longrightarrow> noAliasClash ks'"
  by (auto simp: noAliasClash_def list_all_iff)

lemma owner_unique:
  "noAliasClash ks \<Longrightarrow> k \<in> set ks \<Longrightarrow> k' \<in> set ks \<Longrightarrow> owns k x \<Longrightarrow> owns k' x \<Longrightarrow> k = k'"
  by (cases x) (auto simp: getOrdinaryAttribute_def noAliasClash_def attributeAliases_def split: option.splits if_splits)

text \<open>The value a diff leaves in a slot, by the prop that owns it.\<close>
lemma diff_slot:
  assumes p: "p = concat (map (removalChunk env tag P C) (objectKeys P)) @ concat (map (updateChunk env tag P C) (objectKeys C))"
    and d: "distinct (objectKeys P)" "distinct (objectKeys C)"
    and nc: "noAliasClash (objectKeys P @ objectKeys C)"
    and k: "owns k x" "k \<in> set (objectKeys P @ objectKeys C)"
  shows "applyPayload p m x =
     (if hasOwn C k then applyPayload (updateChunk env tag P C k) m x else applyPayload (removalChunk env tag P C k) m x)"
proof -
  have u: "k' \<in> set (objectKeys P @ objectKeys C) \<Longrightarrow> k' \<noteq> k \<Longrightarrow> \<not> owns k' x" for k'
    using owner_unique [OF nc] k by blast
  have r: "applyPayload (concat (map (removalChunk env tag P C) (objectKeys P))) m x =
      (if k \<in> set (objectKeys P) then applyPayload (removalChunk env tag P C k) m x else m x)"
    by (rule applyPayload_chunks [OF d(1)]) (use u in \<open>auto dest: chunk_owner\<close>)
  have "applyPayload p m x =
      (if k \<in> set (objectKeys C)
       then applyPayload (updateChunk env tag P C k) (applyPayload (concat (map (removalChunk env tag P C) (objectKeys P))) m) x
       else applyPayload (concat (map (removalChunk env tag P C) (objectKeys P))) m x)"
    unfolding p applyPayload_append by (rule applyPayload_chunks [OF d(2)]) (use u in \<open>auto dest: chunk_owner\<close>)
  moreover have "hasOwn C k \<Longrightarrow> removalChunk env tag P C k = []" by (simp add: removalChunk_def removalDue_def)
  ultimately show ?thesis
    using r k(2) applyPayload_cong [of "applyPayload (concat (map (removalChunk env tag P C) (objectKeys P))) m" x m]
    by (auto simp: hasOwn_def)
qed

lemma diff_slot_unowned:
  assumes p: "p = concat (map (removalChunk env tag P C) (objectKeys P)) @ concat (map (updateChunk env tag P C) (objectKeys C))"
    and k: "\<And>k. k \<in> set (objectKeys P @ objectKeys C) \<Longrightarrow> \<not> owns k x"
  shows "applyPayload p m x = m x"
  by (rule applyPayload_untouched) (use k in \<open>auto simp: p dest: chunk_owner\<close>)

subsection \<open>Style objects\<close>

definition styleText :: "string \<Rightarrow> dval \<Rightarrow> string option" where
  "styleText s w =
     (if \<not> isSupportedStyleName s \<or> shouldRemoveStyleValue w then None
      else (case coerceStyleValue ''style'' s w of Inl _ \<Rightarrow> None | Inr t \<Rightarrow> if t = [] then None else Some t))"

definition styleSlots :: "dval \<Rightarrow> string \<Rightarrow> string option" where
  "styleSlots v s = (if hasOwn v s then styleText s (readProp v s) else None)"

definition supported :: "payload_entry list \<Rightarrow> bool" where
  "supported es = list_all (\<lambda>e. \<not> isUnsupported e) es"

lemma supported_simps [simp]:
  "supported []" "supported (e # es) \<longleftrightarrow> \<not> isUnsupported e \<and> supported es"
  "supported (es @ fs) \<longleftrightarrow> supported es \<and> supported fs"
  by (auto simp: supported_def)

lemma supported_concat: "supported (concat ess) \<longleftrightarrow> (\<forall>es \<in> set ess. supported es)"
  by (induction ess) auto

definition styleShapeOk :: "dval \<Rightarrow> bool" where
  "styleShapeOk v \<longleftrightarrow> nullish v \<or> isDomObjectLike v"

definition styleRemovals :: "dval \<Rightarrow> string \<Rightarrow> payload_entry list" where
  "styleRemovals v s = (if hasOwn v s then [] else [createRemoveStyleEntryOrUnsupported ''style'' s])"

definition styleUpdates :: "dval \<Rightarrow> dval \<Rightarrow> string \<Rightarrow> payload_entry list" where
  "styleUpdates v pv s =
     (if strictEq (readProp pv s) (readProp v s) then [] else [createStyleValueEntryOrUnsupported ''style'' s (readProp v s)])"

lemma map_filter_concat: "map f (filter P xs) = concat (map (\<lambda>x. if P x then [f x] else []) xs)"
  by (induction xs) auto

lemma no_keys_nullish: "nullish v \<Longrightarrow> objectKeys v = []" "nullish v \<Longrightarrow> \<not> hasOwn v s"
  by (simp_all add: objectKeys_def hasOwn_def ownEntries_nullish)

lemma createStyleEntries_chunks:
  assumes "styleShapeOk v" "styleShapeOk pv"
  shows "createStyleEntries ''style'' v pv =
     concat (map (styleRemovals v) (objectKeys pv)) @ concat (map (styleUpdates v pv) (objectKeys v))"
proof -
  have pv: "(if isDomObjectLike pv then Some pv else None) = (if nullish pv then None else Some pv)"
    and v: "(if isDomObjectLike v then Some v else None) = (if nullish v then None else Some v)"
    using assms nullish_not_object by (auto simp: styleShapeOk_def)
  have c: "(\<not> isNullishStyleValue v \<and> \<not> isDomObjectLike v) = False"
      "(\<not> isNullishStyleValue pv \<and> \<not> isDomObjectLike pv) = False"
    using assms by (auto simp: isNullishStyleValue_def styleShapeOk_def)
  have all: "nullish v \<Longrightarrow> styleRemovals v = (\<lambda>s. [createRemoveStyleEntryOrUnsupported ''style'' s])"
    by (auto simp: styleRemovals_def no_keys_nullish fun_eq_iff)
  have rm: "(case if nullish pv then None else Some pv of None \<Rightarrow> []
       | Some p \<Rightarrow> map (createRemoveStyleEntryOrUnsupported ''style'')
            (filter (\<lambda>s. case if nullish v then None else Some v of None \<Rightarrow> True | Some c \<Rightarrow> \<not> hasOwn c s) (objectKeys p)))
     = concat (map (styleRemovals v) (objectKeys pv))"
    by (cases "nullish v"; cases "nullish pv")
       (auto simp: no_keys_nullish map_filter_concat all concat_map_singleton styleRemovals_def intro!: arg_cong [of _ _ concat])
  have up: "(case if nullish v then None else Some v of None \<Rightarrow> []
       | Some c \<Rightarrow> (let q = (case if nullish pv then None else Some pv of None \<Rightarrow> emptyProps | Some p \<Rightarrow> p) in
            map (\<lambda>s. createStyleValueEntryOrUnsupported ''style'' s (readProp c s))
              (filter (\<lambda>s. \<not> strictEq (readProp q s) (readProp c s)) (objectKeys c))))
     = concat (map (styleUpdates v pv) (objectKeys v))"
    by (cases "nullish v"; cases "nullish pv")
       (auto simp: no_keys_nullish map_filter_concat styleUpdates_def normalised_reads intro!: arg_cong [of _ _ concat])
  show ?thesis
    unfolding rm [symmetric] up [symmetric] createStyleEntries_def Let_def
    by (simp only: c pv v if_False)
qed

lemma style_shape: "supported (createStyleEntries ''style'' v DUndef) \<Longrightarrow> styleShapeOk v"
  by (auto simp: createStyleEntries_def isNullishStyleValue_def styleShapeOk_def isUnsupported_def split: if_splits)

lemma not_prototype_style: "s \<in> set objectPrototypeNames \<Longrightarrow> \<not> isSupportedStyleName s"
proof -
  have "list_all (\<lambda>s. \<not> isSupportedStyleName s) objectPrototypeNames" by code_simp
  then show "s \<in> set objectPrototypeNames \<Longrightarrow> \<not> isSupportedStyleName s" by (auto simp: list_all_iff)
qed

lemma styleText_missing: "\<not> hasOwn v s \<Longrightarrow> styleText s (readProp v s) = None"
  using not_prototype_style [of s] readProp_missing [of v s]
  by (cases "s \<in> set objectPrototypeNames") (auto simp: styleText_def shouldRemoveStyleValue_def)

lemma styleSlots_text: "styleSlots v s = styleText s (readProp v s)"
  by (simp add: styleSlots_def styleText_missing)

lemma supported_style_value:
  assumes "supported (createStyleEntries ''style'' v DUndef)" "hasOwn v s" "\<not> strictEq DUndef (readProp v s)"
    "s \<notin> set objectPrototypeNames"
  shows "\<not> isUnsupported (createStyleValueEntryOrUnsupported ''style'' s (readProp v s))"
proof -
  have sh: "styleShapeOk v" "styleShapeOk DUndef" using assms(1) style_shape by (auto simp: styleShapeOk_def)
  have "readProp DUndef s = DUndef" using assms(4) by (simp add: readProp_def)
  then have "createStyleValueEntryOrUnsupported ''style'' s (readProp v s) \<in> set (styleUpdates v DUndef s)"
    using assms(3) by (simp add: styleUpdates_def)
  moreover have "supported (styleUpdates v DUndef s)"
    using assms(1,2) unfolding createStyleEntries_chunks [OF sh] by (auto simp: supported_concat hasOwn_def)
  ultimately show ?thesis by (auto simp: supported_def list_all_iff)
qed

lemma applied_style_value:
  "\<not> isUnsupported (createStyleValueEntryOrUnsupported ''style'' s w) \<Longrightarrow>
   applyPayload [createStyleValueEntryOrUnsupported ''style'' s w] m (StyleSlot s) = styleText s w"
  by (auto simp: applyEntry_def slotOf_style_entries styleText_def createStyleValueEntryOrUnsupported_def isUnsupported_def
      unsupportedStyleName_def createRemoveStyleEntry_def createSetStyleEntry_def coerceStyleValue_def
      split: sum.splits dval.splits if_splits)

text \<open>Diffing two style objects turns the slots of the first into those of the second.\<close>
lemma style_diff_correct:
  assumes ok: "supported (createStyleEntries ''style'' v DUndef)" "styleShapeOk pv"
    and d: "distinct (objectKeys v)" "distinct (objectKeys pv)"
    and coh: "\<And>s. hasOwn v s \<Longrightarrow> sameObject (readProp pv s) (readProp v s)"
    and m: "m (StyleSlot s) = styleSlots pv s"
  shows "applyPayload (createStyleEntries ''style'' v pv) m (StyleSlot s) = styleSlots v s"
proof -
  have sh: "styleShapeOk v" using ok style_shape by blast
  have r: "applyPayload (concat (map (styleRemovals v) (objectKeys pv))) m (StyleSlot s) =
      (if s \<in> set (objectKeys pv) then applyPayload (styleRemovals v s) m (StyleSlot s) else m (StyleSlot s))"
    by (rule applyPayload_chunks [OF d(2)]) (auto simp: styleRemovals_def slotOf_style_entries split: if_splits)
  have u: "applyPayload (concat (map (styleUpdates v pv) (objectKeys v))) n (StyleSlot s) =
      (if s \<in> set (objectKeys v) then applyPayload (styleUpdates v pv s) n (StyleSlot s) else n (StyleSlot s))" for n
    by (rule applyPayload_chunks [OF d(1)]) (auto simp: styleUpdates_def slotOf_style_entries split: if_splits)
  let ?n = "applyPayload (concat (map (styleRemovals v) (objectKeys pv))) m"
  have eq: "applyPayload (createStyleEntries ''style'' v pv) m (StyleSlot s) =
      (if hasOwn v s then applyPayload (styleUpdates v pv s) ?n (StyleSlot s) else ?n (StyleSlot s))"
    by (simp add: createStyleEntries_chunks [OF sh ok(2)] u hasOwn_def)
  show ?thesis
  proof (cases "hasOwn v s")
    case True
    have n: "?n (StyleSlot s) = styleSlots pv s" using True by (simp add: r m styleRemovals_def)
    show ?thesis
    proof (cases "strictEq (readProp pv s) (readProp v s)")
      case True
      then have "readProp pv s = readProp v s" using sameObjectD coh \<open>hasOwn v s\<close> by blast
      then show ?thesis using \<open>hasOwn v s\<close> True n by (simp add: eq styleUpdates_def styleSlots_text)
    next
      case False
      have e: "styleUpdates v pv s = [createStyleValueEntryOrUnsupported ''style'' s (readProp v s)]"
        using False by (simp add: styleUpdates_def)
      show ?thesis
      proof (cases "isUnsupported (createStyleValueEntryOrUnsupported ''style'' s (readProp v s))")
        case unsup: True
        then have "readProp v s = DUndef \<or> s \<in> set objectPrototypeNames"
          using supported_style_value [OF ok(1) \<open>hasOwn v s\<close>] strictEq_undef(2) by metis
        then have ns: "\<not> isSupportedStyleName s"
          using unsup not_prototype_style
          by (auto simp: createStyleValueEntryOrUnsupported_def shouldRemoveStyleValue_def createRemoveStyleEntry_def isUnsupported_def
              split: if_splits)
        have "applyPayload (styleUpdates v pv s) ?n (StyleSlot s) = ?n (StyleSlot s)"
          by (rule applyPayload_untouched) (simp add: e slotOf_style_entries unsup)
        then show ?thesis using True n ns by (simp add: eq styleSlots_text styleText_def)
      next
        case False
        then show ?thesis
          using True applied_style_value [OF False, of ?n] unfolding eq e by (simp add: styleSlots_text)
      qed
    qed
  next
    case False
    have "?n (StyleSlot s) = None"
      by (cases "isSupportedStyleName s")
        (auto simp: r m styleRemovals_def False styleSlots_def styleText_def createRemoveStyleEntryOrUnsupported_def
          createRemoveStyleEntry_def applyEntry_def unsupportedStyleName_def hasOwn_def [of pv, symmetric])
    then show ?thesis using False by (simp add: eq styleSlots_def)
  qed
qed

subsection \<open>From one prop to the whole payload\<close>

text \<open>\<open>===\<close> on the entries of two objects means equality.\<close>
definition coherent :: "dval \<Rightarrow> dval \<Rightarrow> bool" where
  "coherent P C = list_all (\<lambda>k. sameObject (readProp P k) (readProp C k)) (objectKeys C)"

definition distinctKeys :: "dval \<Rightarrow> bool" where
  "distinctKeys v = distinct (objectKeys v)"

abbreviation missing :: "string \<Rightarrow> dval" where
  "missing k \<equiv> readProp DUndef k"

lemma readProp_not_own: "\<not> hasOwn v k \<Longrightarrow> readProp v k = missing k"
  by (auto simp: readProp_def hasOwn_map_of split: option.splits)

lemma readProp_nullish: "nullish v \<Longrightarrow> readProp v k = missing k"
  by (auto simp: readProp_def ownEntries_nullish)

definition freshOk :: "dom_env \<Rightarrow> dval \<Rightarrow> string \<Rightarrow> dval \<Rightarrow> bool" where
  "freshOk env tag k v \<longleftrightarrow> nullish v \<or> (\<exists>ps es. createEntries env tag k v (missing k) ps = Inr es \<and> supported es)"

lemma freshOk_missing: "freshOk env tag k (missing k)"
proof (cases "k \<in> set objectPrototypeNames")
  case True
  have "list_all (\<lambda>k. readTable reservedNonPayloadProps k = Some None) objectPrototypeNames" by code_simp
  then have "readTable reservedNonPayloadProps k = Some None" using True by (auto simp: list_all_iff)
  then have "createEntries env tag k (missing k) (missing k) DUndef = Inr [NonPayload k None None]"
    by (simp add: createEntries_def)
  moreover have "supported [NonPayload k None None]" by (simp add: isUnsupported_def)
  ultimately show ?thesis unfolding freshOk_def by blast
qed (simp add: freshOk_def readProp_def)

lemma strictEq_missing: "strictEq v (missing k) \<Longrightarrow> v = missing k"
  by (cases v) (auto simp: readProp_def split: if_splits)

text \<open>The value a slot gets from the prop that owns it: \<open>V\<close>.\<close>
definition slotLaw :: "dom_env \<Rightarrow> dval \<Rightarrow> string \<Rightarrow> slot \<Rightarrow> (dval \<Rightarrow> string option) \<Rightarrow> bool" where
  "slotLaw env tag k x V \<longleftrightarrow>
     (\<forall>v. nullish v \<longrightarrow> V v = None) \<and> V (missing k) = None \<and>
     (\<forall>v pv ps m. freshOk env tag k v \<longrightarrow> freshOk env tag k pv \<longrightarrow>
        (k = ''style'' \<longrightarrow> distinctKeys v \<and> distinctKeys pv \<and> coherent pv v) \<longrightarrow> m x = V pv \<longrightarrow>
        applyPayload (okEntries (createEntries env tag k v pv ps)) m x = V v)"

lemma createAttributeEntry_nullish: "nullish v \<Longrightarrow> createAttributeEntry env att k v = RemoveAttribute k (fst att)"
  by (auto simp: createAttributeEntry_def shouldRemoveAttributeValue_def nullish_def)

lemma silent_law:
  assumes "\<forall>v pv ps es. createEntries env tag k v pv ps = Inr es \<longrightarrow> (\<forall>e \<in> set es. slotOf e = None)"
  shows "slotLaw env tag k x (\<lambda>_. None)"
proof -
  have "applyPayload (okEntries (createEntries env tag k v pv ps)) m x = m x" for v pv ps m
    by (rule applyPayload_untouched) (use assms in \<open>auto simp: in_okEntries\<close>)
  then show ?thesis by (simp add: slotLaw_def)
qed

lemma attribute_law:
  assumes "k \<notin> set objectPrototypeNames"
    and eq: "\<And>v pv ps. createEntries env tag k v pv ps = Inr [createAttributeEntry env att k v]"
  shows "slotLaw env tag k (AttrSlot (fst att)) (\<lambda>v. slotValue (createAttributeEntry env att k v))"
  unfolding slotLaw_def
proof (intro conjI allI impI)
  show "nullish v \<Longrightarrow> slotValue (createAttributeEntry env att k v) = None" for v
    by (simp add: createAttributeEntry_nullish)
  show "slotValue (createAttributeEntry env att k (missing k)) = None"
    using assms(1) by (simp add: readProp_def createAttributeEntry_nullish)
  fix v pv ps m
  assume "freshOk env tag k v"
  then have "\<not> isUnsupported (createAttributeEntry env att k v)"
    using createAttributeEntry_nullish [of v env att k] by (auto simp: freshOk_def eq isUnsupported_def)
  then show "applyPayload (okEntries (createEntries env tag k v pv ps)) m (AttrSlot (fst att)) = slotValue (createAttributeEntry env att k v)"
    by (simp add: eq okEntries_def applyEntry_def slotOf_create_attribute)
qed

lemma freshOk_style:
  assumes eq: "\<And>v pv ps. createEntries env tag ''style'' v pv ps = Inr (createStyleEntries ''style'' v pv)"
    and "freshOk env tag ''style'' v"
  shows "supported (createStyleEntries ''style'' v DUndef)"
proof -
  have "missing ''style'' = DUndef" by code_simp
  moreover have "nullish v \<Longrightarrow> supported (createStyleEntries ''style'' v DUndef)"
    using createStyleEntries_chunks [of v DUndef] by (simp add: styleShapeOk_def no_keys_nullish)
  ultimately show ?thesis using assms(2) by (auto simp: freshOk_def eq)
qed

lemma style_law:
  assumes eq: "\<And>v pv ps. createEntries env tag ''style'' v pv ps = Inr (createStyleEntries ''style'' v pv)"
  shows "slotLaw env tag ''style'' (StyleSlot s) (\<lambda>v. styleSlots v s)"
  unfolding slotLaw_def
proof (intro conjI allI impI)
  show "nullish v \<Longrightarrow> styleSlots v s = None" for v by (simp add: styleSlots_def no_keys_nullish)
  have "missing ''style'' = DUndef" by code_simp
  then show "styleSlots (missing ''style'') s = None" by (simp add: styleSlots_def hasOwn_def objectKeys_def)
  fix v pv ps m
  assume f: "freshOk env tag ''style'' v" "freshOk env tag ''style'' pv"
    and c: "''style'' = ''style'' \<longrightarrow> distinctKeys v \<and> distinctKeys pv \<and> coherent pv v"
    and m: "m (StyleSlot s) = styleSlots pv s"
  have "applyPayload (createStyleEntries ''style'' v pv) m (StyleSlot s) = styleSlots v s"
  proof (rule style_diff_correct)
    show "supported (createStyleEntries ''style'' v DUndef)" by (rule freshOk_style [OF eq f(1)])
    show "styleShapeOk pv" using freshOk_style [OF eq f(2)] by (rule style_shape)
  qed (use c m in \<open>auto simp: distinctKeys_def coherent_def list_all_iff hasOwn_def\<close>)
  then show "applyPayload (okEntries (createEntries env tag ''style'' v pv ps)) m (StyleSlot s) = styleSlots v s"
    by (simp add: eq okEntries_def)
qed

lemma slot_law_exists: "owns k x \<Longrightarrow> \<exists>V. slotLaw env tag k x V"
proof (cases "k = ''style''")
  case True
  assume o: "owns k x"
  then obtain s where x: "x = StyleSlot s" using True by (cases x) auto
  from createEntries_style [of env tag] show ?thesis
  proof
    assume "\<forall>v pv ps. createEntries env tag ''style'' v pv ps = Inr (createStyleEntries ''style'' v pv)"
    then show ?thesis using style_law [of env tag s] unfolding x True by blast
  next
    assume "\<exists>e. isUnsupported e \<and> slotOf e = None \<and> (\<forall>v pv ps. createEntries env tag ''style'' v pv ps = Inr [e])"
    then have "\<forall>v pv ps es. createEntries env tag k v pv ps = Inr es \<longrightarrow> (\<forall>e \<in> set es. slotOf e = None)"
      using True by auto
    then show ?thesis using silent_law by blast
  qed
next
  case False
  assume o: "owns k x"
  from createEntries_uniform [OF False, of env tag] show ?thesis
  proof
    assume "\<exists>att. getOrdinaryAttribute k = Some att \<and> k \<notin> set objectPrototypeNames \<and> isAttributeNameSafe (fst att) \<and>
        (\<forall>v pv ps. createEntries env tag k v pv ps = Inr [createAttributeEntry env att k v])"
    then obtain att where att: "getOrdinaryAttribute k = Some att" "k \<notin> set objectPrototypeNames"
      "\<And>v pv ps. createEntries env tag k v pv ps = Inr [createAttributeEntry env att k v]" by blast
    then have "x = AttrSlot (fst att)" using o False by (cases x) auto
    then show ?thesis using attribute_law [OF att(2,3)] by blast
  next
    assume "\<forall>v pv ps es. createEntries env tag k v pv ps = Inr es \<longrightarrow> (\<forall>e \<in> set es. slotOf e = None)"
    then show ?thesis using silent_law by blast
  qed
qed

lemma freshOk_total:
  assumes "freshOk env tag k v" "\<not> nullish v"
  shows "\<not> isl (createEntries env tag k v' pv' ps')"
proof -
  obtain ps es where e: "createEntries env tag k v (missing k) ps = Inr es" "supported es"
    using assms by (auto simp: freshOk_def)
  have "isControlledFormProp tag k = Inr True \<Longrightarrow> \<exists>t. tag = DStr t"
    by (auto simp: isControlledFormProp_def split: dval.splits)
  then show ?thesis
    using e slotOf_controlled
    by (fastforce simp: createEntries_def map_sum_def split: option.splits if_splits sum.splits dval.splits)
qed

lemma slotLawD:
  "slotLaw env tag k x V \<Longrightarrow> nullish v \<Longrightarrow> V v = None"
  "slotLaw env tag k x V \<Longrightarrow> V (missing k) = None"
  "slotLaw env tag k x V \<Longrightarrow> freshOk env tag k v \<Longrightarrow> freshOk env tag k pv \<Longrightarrow>
     (k = ''style'' \<Longrightarrow> distinctKeys v \<and> distinctKeys pv \<and> coherent pv v) \<Longrightarrow> m x = V pv \<Longrightarrow>
     applyPayload (okEntries (createEntries env tag k v pv ps)) m x = V v"
  by (simp_all add: slotLaw_def)

lemma missing_style: "missing ''style'' = DUndef" by code_simp

lemma style_from_nothing: "distinctKeys DUndef" "coherent DUndef v" "coherent v DNull" "distinctKeys DNull"
  by (auto simp: distinctKeys_def coherent_def objectKeys_def list_all_iff sameObject_def readProp_def split: if_splits)

lemma empty_reads:
  "normProps DNull = emptyProps" "objectKeys emptyProps = []" "objectKeys DNull = []"
  "readProp emptyProps k = missing k" "readProp DNull k = missing k"
  by (simp_all add: normProps_def emptyProps_def objectKeys_def readProp_def)

lemma fresh_chunks:
  assumes "diffDomPropertyPayload env tag DNull P = Inr p0"
  shows "p0 = concat (map (removalChunk env tag emptyProps (normProps P)) (objectKeys emptyProps)) @
     concat (map (updateChunk env tag emptyProps (normProps P)) (objectKeys P))"
  using assms unfolding diff_Inr by (simp add: empty_reads)

lemma fresh_prop:
  assumes "diffDomPropertyPayload env tag DNull P = Inr p0" "supported p0"
  shows "freshOk env tag k (readProp P k)"
proof (cases "hasOwn P k \<and> updateDue DNull P k")
  case True
  then have "\<not> isl (updateResult env tag DNull (normProps P) k)"
    using assms(1) unfolding diff_Inr by (simp add: hasOwn_def)
  moreover have "supported (updateChunk env tag emptyProps (normProps P) k)"
    using assms(2) True unfolding fresh_chunks [OF assms(1)] by (simp add: supported_concat hasOwn_def)
  moreover have "updateChunk env tag emptyProps (normProps P) k = okEntries (updateResult env tag DNull (normProps P) k)"
    using True by (simp add: updateChunk_def updateDue_def empty_reads)
  ultimately show ?thesis
    by (auto simp: freshOk_def okEntries_def empty_reads split: sum.splits)
next
  case False
  then have "readProp P k = missing k \<or> nullish (readProp P k)"
    using readProp_not_own [of P k] strictEq_missing [of "readProp P k" k] readProp_nullish [of DNull k]
    by (auto simp: updateDue_def)
  then show ?thesis using freshOk_missing [of env tag k] by (metis freshOk_def)
qed

lemma fresh_slot:
  assumes d: "diffDomPropertyPayload env tag DNull P = Inr p0" "supported p0"
    and P: "distinctKeys P" "distinctKeys (readProp P ''style'')"
    and nc: "noAliasClash ks" "set (objectKeys P) \<subseteq> set ks" "k \<in> set ks" "owns k x"
    and V: "slotLaw env tag k x V"
  shows "applyPayload p0 Map.empty x = V (readProp P k)"
proof (cases "hasOwn P k")
  case False
  have "applyPayload p0 Map.empty x = None"
  proof (rule applyPayload_untouched [THEN trans])
    fix e assume e: "e \<in> set p0"
    then obtain k' where "k' \<in> set (objectKeys P)" "e \<in> set (updateChunk env tag emptyProps (normProps P) k')"
      unfolding fresh_chunks [OF d(1)] by (auto simp: emptyProps_def objectKeys_def)
    then show "slotOf e \<noteq> Some x"
      using chunk_owner(2) owner_unique [OF nc(1)] nc False unfolding hasOwn_def by blast
  qed simp
  then show ?thesis using False slotLawD(2) [OF V] readProp_not_own by metis
next
  case True
  have nc': "noAliasClash (objectKeys emptyProps @ objectKeys (normProps P))"
    by (rule noAliasClash_mono [OF nc(1)]) (use nc(2) in \<open>simp add: empty_reads\<close>)
  have "applyPayload p0 Map.empty x = applyPayload (updateChunk env tag emptyProps (normProps P) k) Map.empty x"
    using diff_slot [of p0 env tag emptyProps "normProps P" k x Map.empty] fresh_chunks [OF d(1)] True P nc' nc(4)
    by (simp add: distinctKeys_def hasOwn_def empty_reads)
  also have "\<dots> = V (readProp P k)"
  proof (cases "updateDue emptyProps P k")
    case True
    have "applyPayload (okEntries (createEntries env tag k (readProp P k) (missing k) (normProps P))) Map.empty x = V (readProp P k)"
      by (rule slotLawD(3) [OF V fresh_prop [OF d] freshOk_missing])
         (use P slotLawD(2) [OF V] style_from_nothing missing_style in auto)
    then show ?thesis using True by (simp add: updateChunk_def updateDue_def empty_reads)
  next
    case False
    then have "readProp P k = missing k \<or> nullish (readProp P k)"
      using strictEq_missing [of "readProp P k" k] by (auto simp: updateDue_def empty_reads)
    then have "V (readProp P k) = None" using slotLawD(1,2) [OF V] by auto
    then show ?thesis using False by (auto simp: updateChunk_def updateDue_def)
  qed
  finally show ?thesis .
qed

text \<open>What two prop objects must satisfy for the diff to be exact.\<close>
definition diffable :: "dval \<Rightarrow> dval \<Rightarrow> bool" where
  "diffable P C \<longleftrightarrow> distinctKeys P \<and> distinctKeys C \<and> coherent P C \<and>
     distinctKeys (readProp P ''style'') \<and> distinctKeys (readProp C ''style'') \<and>
     coherent (readProp P ''style'') (readProp C ''style'') \<and> noAliasClash (objectKeys P @ objectKeys C)"

lemma diff_total:
  assumes P: "diffDomPropertyPayload env tag DNull P = Inr p0" "supported p0"
    and C: "diffDomPropertyPayload env tag DNull C = Inr p1" "supported p1"
  shows "\<exists>p. diffDomPropertyPayload env tag P C = Inr p"
proof -
  have ok: "propsOk P" "propsOk C" using P(1) C(1) by (simp_all add: diff_Inr)
  have "removalDue P C k \<Longrightarrow> \<not> isl (removalResult env tag P (normProps C) k)" for k
    using freshOk_total [OF fresh_prop [OF P]] by (simp add: removalDue_def)
  moreover have "updateDue P C k \<Longrightarrow> \<not> isl (updateResult env tag P (normProps C) k)" for k
    using freshOk_total [OF fresh_prop [OF P]] freshOk_total [OF fresh_prop [OF C]] by (auto simp: updateDue_def)
  ultimately show ?thesis using ok unfolding diff_Inr by blast
qed

lemma diff_slot_correct:
  assumes P: "diffDomPropertyPayload env tag DNull P = Inr p0" "supported p0"
    and C: "diffDomPropertyPayload env tag DNull C = Inr p1" "supported p1"
    and p: "diffDomPropertyPayload env tag P C = Inr p" and d: "diffable P C"
    and k: "owns k x" "k \<in> set (objectKeys P @ objectKeys C)" and V: "slotLaw env tag k x V"
    and m: "m x = V (readProp P k)"
  shows "applyPayload p m x = V (readProp C k)"
proof -
  note D = d [unfolded diffable_def]
  have "applyPayload p m x =
      (if hasOwn C k then applyPayload (updateChunk env tag (normProps P) (normProps C) k) m x
       else applyPayload (removalChunk env tag (normProps P) (normProps C) k) m x)"
    using diff_slot [of p env tag "normProps P" "normProps C" k x m] p D k unfolding diff_Inr
    by (simp add: distinctKeys_def)
  moreover have "applyPayload (updateChunk env tag (normProps P) (normProps C) k) m x = V (readProp C k)" if o: "hasOwn C k"
  proof (cases "updateDue P C k")
    case True
    have "applyPayload (okEntries (createEntries env tag k (readProp C k) (readProp P k) (normProps C))) m x = V (readProp C k)"
      by (rule slotLawD(3) [OF V fresh_prop [OF C] fresh_prop [OF P]]) (use D m in auto)
    then show ?thesis using True by (simp add: updateChunk_def updateDue_def)
  next
    case False
    have "sameObject (readProp P k) (readProp C k)" using D o by (auto simp: coherent_def list_all_iff hasOwn_def)
    then have "readProp P k = readProp C k \<or> nullish (readProp C k) \<and> nullish (readProp P k)"
      using False strictEq_sym by (auto simp: updateDue_def dest: sameObjectD)
    then show ?thesis using False m slotLawD(1) [OF V] by (auto simp: updateChunk_def updateDue_def)
  qed
  moreover have "applyPayload (removalChunk env tag (normProps P) (normProps C) k) m x = V (readProp C k)" if o: "\<not> hasOwn C k"
  proof (cases "nullish (readProp P k)")
    case True
    then show ?thesis using m slotLawD(1,2) [OF V] readProp_not_own [OF o] by (simp add: removalChunk_def removalDue_def)
  next
    case False
    have "applyPayload (okEntries (createEntries env tag k DNull (readProp P k) (normProps C))) m x = V DNull"
      by (rule slotLawD(3) [OF V _ fresh_prop [OF P]]) (use D m style_from_nothing in \<open>auto simp: freshOk_def\<close>)
    then show ?thesis
      using False o slotLawD(1,2) [OF V] readProp_not_own [OF o] by (simp add: removalChunk_def removalDue_def)
  qed
  ultimately show ?thesis by simp
qed

lemma diff_renders:
  assumes "diffDomPropertyPayload env tag DNull lastProps = Inr p0" "supported p0"
    and "diffDomPropertyPayload env tag DNull nextProps = Inr p1" "supported p1"
    and "diffable lastProps nextProps"
  shows "\<exists>p. diffDomPropertyPayload env tag lastProps nextProps = Inr p \<and>
     applyPayload p (applyPayload p0 Map.empty) = applyPayload p1 Map.empty"
proof -
  obtain p where p: "diffDomPropertyPayload env tag lastProps nextProps = Inr p" using diff_total assms by blast
  have "applyPayload p (applyPayload p0 Map.empty) x = applyPayload p1 Map.empty x" for x
  proof (cases "\<exists>k \<in> set (objectKeys lastProps @ objectKeys nextProps). owns k x")
    case True
    then obtain k V where k: "k \<in> set (objectKeys lastProps @ objectKeys nextProps)" "owns k x" and V: "slotLaw env tag k x V"
      using slot_law_exists by blast
    note D = assms(5) [unfolded diffable_def]
    have "applyPayload p0 Map.empty x = V (readProp lastProps k)"
      by (rule fresh_slot [OF assms(1,2) _ _ _ _ k V]) (use D in auto)
    then have "applyPayload p (applyPayload p0 Map.empty) x = V (readProp nextProps k)"
      by (rule diff_slot_correct [OF assms(1-4) p assms(5) k(2,1) V])
    also have "\<dots> = applyPayload p1 Map.empty x"
      by (rule fresh_slot [OF assms(3,4) _ _ _ _ k V, symmetric]) (use D in auto)
    finally show ?thesis .
  next
    case False
    then have "applyPayload q Map.empty x = None" if "diffDomPropertyPayload env tag DNull Q = Inr q"
      "set (objectKeys Q) \<subseteq> set (objectKeys lastProps @ objectKeys nextProps)" for Q q
      using diff_slot_unowned [of q env tag emptyProps "normProps Q" x Map.empty] fresh_chunks [OF that(1)] that(2)
      by (auto simp: empty_reads)
    moreover have "applyPayload p m x = m x" for m
      using diff_slot_unowned [of p env tag "normProps lastProps" "normProps nextProps" x m] p False
      unfolding diff_Inr by auto
    ultimately show ?thesis using assms(1,3) by simp
  qed
  then show ?thesis using p by blast
qed


text \<open>A concrete host environment and update.\<close>
definition demo_env :: dom_env where
  "demo_env = \<lparr>objectString = (\<lambda>_. None), wrapperGateRecord = (\<lambda>t k ps. Inr (DStr (t @ '':'' @ k))),
     wrapperGateStatus = ''gate'', trackerFakeDomStatus = ''tracker''\<rparr>"

definition demo_last :: dval where
  "demo_last = DObject 1 [(''className'', DStr ''a''), (''title'', DStr ''t''),
     (''style'', DObject 2 [(''width'', DNum (Fin 10)), (''color'', DStr ''red'')])]"

definition demo_next :: dval where
  "demo_next = DObject 3 [(''className'', DStr ''b''), (''hidden'', DBool True),
     (''style'', DObject 4 [(''width'', DNum (Fin 0)), (''flex'', DNum (Fin 2))])]"


subsection \<open>Safety of the entries\<close>

text \<open>What the mutation code may rely on for an entry of the diff towards \<open>nextProps\<close>.\<close>
definition attributeSafe :: "dval \<Rightarrow> string \<Rightarrow> string \<Rightarrow> bool" where
  "attributeSafe tag k a \<longleftrightarrow>
     isAttributeNameSafe a \<and> \<not> isEventLikeProp a \<and> map_option fst (getOrdinaryAttribute k) = Some a \<and>
     k \<notin> {''children'', ''key'', ''ref'', ''style'', ''dangerouslySetInnerHTML'', ''innerHTML''} \<and> k \<notin> set formActionProps \<and>
     \<not> isDocumentScopedResourceTag tag \<and> isControlledFormProp tag k = Inr False"

definition styleEntrySafe :: "dval \<Rightarrow> string \<Rightarrow> string \<Rightarrow> string \<Rightarrow> bool" where
  "styleEntrySafe tag k s mut \<longleftrightarrow>
     k = ''style'' \<and> isSupportedStyleName s \<and> mut = getStyleMutationTarget s \<and> \<not> isDocumentScopedResourceTag tag"

fun entrySafe :: "dval \<Rightarrow> dval \<Rightarrow> payload_entry \<Rightarrow> bool" where
  "entrySafe tag nextProps (SetAttribute k a v) = attributeSafe tag k a"
| "entrySafe tag nextProps (RemoveAttribute k a) = attributeSafe tag k a"
| "entrySafe tag nextProps (SetStyle k s mut v) = styleEntrySafe tag k s mut"
| "entrySafe tag nextProps (RemoveStyle k s mut v) = (styleEntrySafe tag k s mut \<and> v = [])"
| "entrySafe tag nextProps (SetInnerHtml k name v) =
     (k = ''dangerouslySetInnerHTML'' \<and> name = ''innerHTML'' \<and> nullish (readProp nextProps ''children'') \<and>
      readProp (readProp nextProps ''dangerouslySetInnerHTML'') ''__html'' = DStr v)"
| "entrySafe tag nextProps (SetProperty k n v) = False"
| "entrySafe tag nextProps (RemoveProperty k n) = False"
| "entrySafe tag nextProps (NonPayload k c r) = True"
| "entrySafe tag nextProps (Unsupported k c r d) = True"

lemma alias_not_event: "map_of attributeAliases k = Some a \<Longrightarrow> \<not> isEventLikeProp a"
  by (auto simp: attributeAliases_def isEventLikeProp_def split: if_splits)

lemma ordinary_not_event:
  "\<not> isEventLikeProp k \<Longrightarrow> getOrdinaryAttribute k = Some att \<Longrightarrow> \<not> isEventLikeProp (fst att)"
  by (auto simp: getOrdinaryAttribute_def dest: alias_not_event split: option.splits if_splits)

lemma style_entries_safe:
  assumes "e \<in> set (createStyleEntries ''style'' v pv)" "\<not> isDocumentScopedResourceTag tag"
  shows "entrySafe tag C e"
proof -
  have "entrySafe tag C (createStyleValueEntryOrUnsupported ''style'' s w)" for s w
    using assms(2) by (auto simp: createStyleValueEntryOrUnsupported_def unsupportedStyleName_def styleEntrySafe_def
        createRemoveStyleEntry_def createSetStyleEntry_def coerceStyleValue_def split: sum.splits dval.splits if_splits)
  moreover have "entrySafe tag C (createRemoveStyleEntryOrUnsupported ''style'' s)" for s
    using assms(2) by (auto simp: createRemoveStyleEntryOrUnsupported_def unsupportedStyleName_def styleEntrySafe_def
        createRemoveStyleEntry_def)
  ultimately show ?thesis using assms(1) by (auto simp: createStyleEntries_def Let_def split: if_splits)
qed

lemma ordinary_entries_safe:
  assumes e: "e \<in> set (createOrdinaryEntries env k v)"
    and k: "\<not> isEventLikeProp k" "k \<notin> {''children'', ''key'', ''ref'', ''style'', ''dangerouslySetInnerHTML'', ''innerHTML''}"
    and t: "\<not> isDocumentScopedResourceTag tag" "isControlledFormProp tag k = Inr False"
  shows "entrySafe tag C e"
proof (cases "k \<notin> set formActionProps \<and> (\<exists>att. getOrdinaryAttribute k = Some att \<and> isAttributeNameSafe (fst att))")
  case True
  then obtain att where att: "getOrdinaryAttribute k = Some att" "isAttributeNameSafe (fst att)" by blast
  then have s: "attributeSafe tag k (fst att)"
    using True k t ordinary_not_event [OF k(1) att(1)] by (simp add: attributeSafe_def)
  have "e = createAttributeEntry env att k v" using e True att by (simp add: createOrdinaryEntries_def)
  then show ?thesis using s by (auto simp: createAttributeEntry_def coerceSetAttributeEntry_def split: option.splits)
next
  case False
  then show ?thesis using e by (auto simp: createOrdinaryEntries_def split: option.splits if_splits)
qed

lemma html_entry_safe:
  "(v = readProp C ''dangerouslySetInnerHTML'' \<or> nullish v) \<Longrightarrow> entrySafe tag C (createDangerousHtmlEntry ''dangerouslySetInnerHTML'' v C)"
  by (auto simp: createDangerousHtmlEntry_def Let_def createSetInnerHtmlEntry_def split: dval.splits)

lemma createEntries_safe:
  assumes c: "createEntries env tag k v pv C = Inr es" "e \<in> set es" and v: "v = readProp C k \<or> nullish v"
  shows "entrySafe tag C e"
proof (cases "readTable reservedNonPayloadProps k = None \<and> \<not> isEventLikeProp k \<and> map_of unsupportedPropReasons k = None
    \<and> \<not> isDocumentScopedResourceTag tag")
  case True
  have k: "k \<notin> {''children'', ''key'', ''ref'', ''innerHTML''}"
    using True by (auto simp: readTable_def reservedNonPayloadProps_def unsupportedPropReasons_def split: option.splits if_splits)
  consider (style) "k = ''style''" | (html) "k = ''dangerouslySetInnerHTML''"
    | (other) "k \<notin> {''style'', ''dangerouslySetInnerHTML''}" by blast
  then show ?thesis
  proof cases
    case style
    then have "e \<in> set (createStyleEntries ''style'' v pv)" using True c by (simp add: createEntries_def)
    then show ?thesis using True style_entries_safe by blast
  next
    case html
    then have "e = createDangerousHtmlEntry ''dangerouslySetInnerHTML'' v C" using True c by (auto simp: createEntries_def)
    then show ?thesis using html v html_entry_safe by blast
  next
    case other
    show ?thesis
    proof (cases "isControlledFormProp tag k = Inr False")
      case False
      then have "isUnsupported e"
        using True c other slotOf_controlled
        by (auto simp: createEntries_def map_sum_def split: sum.splits dval.splits if_splits)
      then show ?thesis by (cases e) (auto simp: isUnsupported_def)
    next
      case cf: True
      then have "e \<in> set (createOrdinaryEntries env k v)" using True c other by (simp add: createEntries_def)
      then show ?thesis by (rule ordinary_entries_safe) (use True k other cf in auto)
    qed
  qed
next
  case False
  then show ?thesis using c by (auto simp: createEntries_def split: option.splits if_splits)
qed

lemma payload_entry_safe:
  assumes "diffDomPropertyPayload env tag lastProps nextProps = Inr p" "e \<in> set p"
  shows "entrySafe tag nextProps e"
proof -
  from assms obtain k where "e \<in> set (removalChunk env tag (normProps lastProps) (normProps nextProps) k) \<or>
      e \<in> set (updateChunk env tag (normProps lastProps) (normProps nextProps) k)"
    by (auto simp: diff_Inr)
  then have "entrySafe tag (normProps nextProps) e"
    by (auto simp: removalChunk_def updateChunk_def in_okEntries split: if_splits dest!: createEntries_safe)
  then show ?thesis by (cases e) auto
qed

text \<open>
  C31: every entry of a payload is safe to hand to the DOM. An attribute entry names the attribute
  of an ordinary prop, the name matches the attribute pattern and is no event handler, and it
  never comes from a reserved, controlled-form or form-action prop or a document-scoped tag;
  style entries use supported names with the matching mutation; \<open>innerHTML\<close> is written only
  with the string of \<open>nextProps.dangerouslySetInnerHTML\<close> and only without children; no entry
  assigns a DOM property.
\<close>
theorem diff_entries_safe:
  assumes "diffDomPropertyPayload env tag lastProps nextProps = Inr p" "e \<in> set p"
  shows "entrySafe tag nextProps e"
  by (rule payload_entry_safe [OF assms])

theorem diff_entries_safe_witness:
  "entrySafe (DStr ''div'') demo_next (SetAttribute ''className'' ''class'' ''b'')"
proof -
  have "diffDomPropertyPayload demo_env (DStr ''div'') DNull demo_next =
      Inr [SetAttribute ''className'' ''class'' ''b'', SetAttribute ''hidden'' ''hidden'' [],
        SetStyle ''style'' ''width'' ''propertyAssignment'' ''0'', SetStyle ''style'' ''flex'' ''propertyAssignment'' ''2'']"
    by code_simp
  then show ?thesis by (rule diff_entries_safe) simp
qed

end
