(* ===== verification/Style_Diagnostics.thy ===== *)
theory Style_Diagnostics
  imports Payload_Props
begin

text \<open>
  The private style-object diff diagnostics of \<open>property-payload.js\<close>
  (\<open>recordPrivateDomStyleObjectDiffDiagnostics\<close> and what it calls): one row per payload entry and
  a summary that counts them. The records only describe the diff; their constant \<open>false\<close> flags
  (no mutation, no compatibility claim) are kept as fields of the summary and the record.
\<close>

datatype style_value =
    ValueMissing
  | ValueOfType string  \<comment> \<open>\<open>null\<close>, \<open>boolean\<close>, \<open>undefined\<close> or another \<open>typeof\<close>\<close>
  | ValueString bool  \<comment> \<open>\<open>empty\<close>\<close>
  | ValueNumber bool bool  \<comment> \<open>\<open>finite\<close>, \<open>zero\<close>\<close>

record style_row =
  srKind :: string
  srPayloadKind :: string
  srPropName :: string
  srStyleName :: "string option"
  srAction :: string
  srRemovalReason :: "string option"
  srMutation :: "string option"
  srValue :: "string option"
  srPreviousValue :: "style_value option"
  srNextValue :: "style_value option"
  srCustomProperty :: bool
  srUnitless :: bool
  srNumericValue :: bool
  srUnitlessNumber :: bool
  srNumericWithoutPx :: bool
  srPxAppended :: bool
  srZeroNumericValue :: bool
  srCategory :: "string option"
  srReason :: "string option"

record style_summary =
  ssRowCount :: nat
  ssPayloadRowCount :: nat
  ssSetStyleCount :: nat
  ssRemoveStyleCount :: nat
  ssAdditionRowCount :: nat
  ssChangeRowCount :: nat
  ssRemovalRowCount :: nat
  ssUnsupportedRowCount :: nat
  ssUnitlessRowCount :: nat
  ssUnitlessSetRowCount :: nat
  ssCustomPropertyRowCount :: nat
  ssNumericWithoutPxRowCount :: nat
  ssPxAppendedRowCount :: nat
  ssZeroNumericRowCount :: nat
  ssPropertyAssignmentCount :: nat
  ssSetPropertyCount :: nat
  ssMutatingRowCount :: nat
  ssRowKinds :: "string list"

record style_diagnostic =
  sdStatus :: string
  sdRows :: "style_row list"
  sdPayloadRows :: "payload_entry list"
  sdSummary :: style_summary
  sdPayloadRowsAccepted :: bool

definition describePrivateStyleDiffValue :: "dval \<Rightarrow> bool \<Rightarrow> style_value" where
  "describePrivateStyleDiffValue v present =
     (if \<not> present then ValueMissing
      else (case v of
              DNull \<Rightarrow> ValueOfType ''null''
            | DStr s \<Rightarrow> ValueString (length s = 0)
            | DNum n \<Rightarrow> ValueNumber (isFinite n) (n = Fin 0)
            | _ \<Rightarrow> ValueOfType (typeOf v)))"

text \<open>The row of a \<open>setStyle\<close> (\<open>isSet\<close>) or \<open>removeStyle\<close> entry.\<close>
definition styleEntryRow :: "bool \<Rightarrow> string \<Rightarrow> string \<Rightarrow> string \<Rightarrow> dval option \<Rightarrow> dval option \<Rightarrow> style_row" where
  "styleEntryRow isSet styleName mut v previousStyles currentStyles =
     (let previousPresent = (case previousStyles of None \<Rightarrow> False | Some p \<Rightarrow> hasOwn p styleName);
          nextPresent = (case currentStyles of None \<Rightarrow> False | Some c \<Rightarrow> hasOwn c styleName);
          previousValue = (case previousStyles of Some p \<Rightarrow> if hasOwn p styleName then readProp p styleName else DUndef | None \<Rightarrow> DUndef);
          nextValue = (case currentStyles of Some c \<Rightarrow> if hasOwn c styleName then readProp c styleName else DUndef | None \<Rightarrow> DUndef);
          customProperty = isCustomStyleProperty styleName;
          unitless = (\<not> customProperty \<and> styleName \<in> set unitlessStyleNames);
          number = (case nextValue of DNum n \<Rightarrow> Some n | _ \<Rightarrow> None)
      in \<lparr>srKind = ''FastReactDomPrivateStyleObjectDiffRow'',
          srPayloadKind = (if isSet then ''setStyle'' else ''removeStyle''),
          srPropName = ''style'', srStyleName = Some styleName,
          srAction = (if \<not> isSet then ''remove'' else if previousPresent then ''change'' else ''add''),
          srRemovalReason =
            (if isSet then None
             else Some (if nextPresent then ''nullish-empty-or-boolean-next-value'' else ''omitted-next-style-property'')),
          srMutation = Some mut, srValue = Some v,
          srPreviousValue = Some (describePrivateStyleDiffValue previousValue previousPresent),
          srNextValue = Some (describePrivateStyleDiffValue nextValue nextPresent),
          srCustomProperty = customProperty, srUnitless = unitless,
          srNumericValue = (number \<noteq> None),
          srUnitlessNumber = (isSet \<and> number \<noteq> None \<and> unitless),
          srNumericWithoutPx = (isSet \<and> (case number of Some n \<Rightarrow> v = numText n | None \<Rightarrow> False)),
          srPxAppended = (isSet \<and> (case number of Some n \<Rightarrow> v = numText n @ ''px'' | None \<Rightarrow> False)),
          srZeroNumericValue = (isSet \<and> number = Some (Fin 0)),
          srCategory = None, srReason = None\<rparr>)"

text \<open>
  Any other entry gives a row of the unsupported kind; the fields that row does not have are
  \<open>undefined\<close> in the code and read as \<open>None\<close> or \<open>False\<close>.
\<close>
definition unsupportedStyleRow :: "string \<Rightarrow> string option \<Rightarrow> string option \<Rightarrow> string option \<Rightarrow> style_row" where
  "unsupportedStyleRow propName category reason styleName =
     \<lparr>srKind = ''FastReactDomPrivateStyleObjectDiffUnsupportedRow'', srPayloadKind = ''unsupported'',
      srPropName = (if propName = [] then ''style'' else propName),
      srStyleName = (if styleName = Some [] then None else styleName),
      srAction = ''blocked'', srRemovalReason = None, srMutation = None, srValue = None,
      srPreviousValue = None, srNextValue = None, srCustomProperty = False, srUnitless = False,
      srNumericValue = False, srUnitlessNumber = False, srNumericWithoutPx = False, srPxAppended = False,
      srZeroNumericValue = False, srCategory = category, srReason = reason\<rparr>"

definition createPrivateStyleObjectDiffRow :: "payload_entry \<Rightarrow> dval option \<Rightarrow> dval option \<Rightarrow> style_row" where
  "createPrivateStyleObjectDiffRow entry previousStyles currentStyles =
     (case entry of
        SetStyle k s mut v \<Rightarrow> styleEntryRow True s mut v previousStyles currentStyles
      | RemoveStyle k s mut v \<Rightarrow> styleEntryRow False s mut v previousStyles currentStyles
      | Unsupported k c r d \<Rightarrow>
          unsupportedStyleRow k (Some c) (Some r) (case d of StyleNameDetails s \<Rightarrow> Some s | _ \<Rightarrow> None)
      | NonPayload k c r \<Rightarrow> unsupportedStyleRow k c r None
      | SetAttribute k a v \<Rightarrow> unsupportedStyleRow k None None None
      | RemoveAttribute k a \<Rightarrow> unsupportedStyleRow k None None None
      | SetProperty k a v \<Rightarrow> unsupportedStyleRow k None None None
      | RemoveProperty k a \<Rightarrow> unsupportedStyleRow k None None None
      | SetInnerHtml k a v \<Rightarrow> unsupportedStyleRow k None None None)"

definition emptySummary :: "nat \<Rightarrow> style_summary" where
  "emptySummary n =
     \<lparr>ssRowCount = n, ssPayloadRowCount = n, ssSetStyleCount = 0, ssRemoveStyleCount = 0, ssAdditionRowCount = 0,
      ssChangeRowCount = 0, ssRemovalRowCount = 0, ssUnsupportedRowCount = 0, ssUnitlessRowCount = 0,
      ssUnitlessSetRowCount = 0, ssCustomPropertyRowCount = 0, ssNumericWithoutPxRowCount = 0,
      ssPxAppendedRowCount = 0, ssZeroNumericRowCount = 0, ssPropertyAssignmentCount = 0, ssSetPropertyCount = 0,
      ssMutatingRowCount = 0, ssRowKinds = []\<rparr>"

text \<open>The groups of statements of the loop body, in order.\<close>
definition countRowKind :: "style_row \<Rightarrow> style_summary \<Rightarrow> style_summary" where
  "countRowKind row s =
     (let s1 = (if srPayloadKind row \<in> set (ssRowKinds s) then s else s\<lparr>ssRowKinds := ssRowKinds s @ [srPayloadKind row]\<rparr>) in
      if srPayloadKind row = ''setStyle'' then
        (let s2 = s1\<lparr>ssSetStyleCount := ssSetStyleCount s1 + 1\<rparr> in
         if srAction row = ''add'' then s2\<lparr>ssAdditionRowCount := ssAdditionRowCount s2 + 1\<rparr>
         else if srAction row = ''change'' then s2\<lparr>ssChangeRowCount := ssChangeRowCount s2 + 1\<rparr>
         else s2)
      else if srPayloadKind row = ''removeStyle'' then
        s1\<lparr>ssRemoveStyleCount := ssRemoveStyleCount s1 + 1, ssRemovalRowCount := ssRemovalRowCount s1 + 1\<rparr>
      else s1\<lparr>ssUnsupportedRowCount := ssUnsupportedRowCount s1 + 1\<rparr>)"

definition countRowMutation :: "style_row \<Rightarrow> style_summary \<Rightarrow> style_summary" where
  "countRowMutation row s =
     (if srMutation row = Some ''propertyAssignment'' then s\<lparr>ssPropertyAssignmentCount := ssPropertyAssignmentCount s + 1\<rparr>
      else if srMutation row = Some ''setProperty'' then s\<lparr>ssSetPropertyCount := ssSetPropertyCount s + 1\<rparr>
      else s)"

definition countRowUnitless :: "style_row \<Rightarrow> style_summary \<Rightarrow> style_summary" where
  "countRowUnitless row s =
     (if srUnitless row then
        s\<lparr>ssUnitlessRowCount := ssUnitlessRowCount s + 1,
          ssUnitlessSetRowCount := ssUnitlessSetRowCount s + (if srPayloadKind row = ''setStyle'' then 1 else 0)\<rparr>
      else s)"

definition countRowFlags :: "style_row \<Rightarrow> style_summary \<Rightarrow> style_summary" where
  "countRowFlags row s =
     s\<lparr>ssCustomPropertyRowCount := ssCustomPropertyRowCount s + (if srCustomProperty row then 1 else 0),
       ssNumericWithoutPxRowCount := ssNumericWithoutPxRowCount s + (if srNumericWithoutPx row then 1 else 0),
       ssPxAppendedRowCount := ssPxAppendedRowCount s + (if srPxAppended row then 1 else 0),
       ssZeroNumericRowCount := ssZeroNumericRowCount s + (if srZeroNumericValue row then 1 else 0)\<rparr>"

definition countRow :: "style_row \<Rightarrow> style_summary \<Rightarrow> style_summary" where
  "countRow row s = countRowFlags row (countRowUnitless row (countRowMutation row (countRowKind row s)))"

definition summarizePrivateStyleObjectDiffRows :: "style_row list \<Rightarrow> style_summary" where
  "summarizePrivateStyleObjectDiffRows rows = foldl (\<lambda>s row. countRow row s) (emptySummary (length rows)) rows"

definition recordPrivateDomStyleObjectDiffDiagnostics :: "dval \<Rightarrow> dval \<Rightarrow> style_diagnostic" where
  "recordPrivateDomStyleObjectDiffDiagnostics lastStyle nextStyle =
     (let previousStyles = (if isDomObjectLike lastStyle then Some lastStyle else None);
          currentStyles = (if isDomObjectLike nextStyle then Some nextStyle else None);
          payloadRows = createStyleEntries ''style'' nextStyle lastStyle;
          diffRows = map (\<lambda>entry. createPrivateStyleObjectDiffRow entry previousStyles currentStyles) payloadRows;
          summary = summarizePrivateStyleObjectDiffRows diffRows
      in \<lparr>sdStatus =
            (if ssUnsupportedRowCount summary = 0 then ''accepted-private-dom-style-object-diff-diagnostic''
             else ''blocked-private-dom-style-object-diff-diagnostic''),
          sdRows = diffRows, sdPayloadRows = payloadRows, sdSummary = summary,
          sdPayloadRowsAccepted = (ssUnsupportedRowCount summary = 0)\<rparr>)"

subsection \<open>The summary counts the rows\<close>

definition b2n :: "bool \<Rightarrow> nat" where
  "b2n b = (if b then 1 else 0)"

lemma counter_fold:
  assumes "\<And>row s. c (countRow row s) = c s + b2n (g row)"
  shows "c (foldl (\<lambda>s row. countRow row s) s rows) = c s + length (filter g rows)"
  by (induction rows arbitrary: s) (auto simp: assms b2n_def)

lemma countRow_counters:
  "ssRowCount (countRow row s) = ssRowCount s"
  "ssSetStyleCount (countRow row s) = ssSetStyleCount s + b2n (srPayloadKind row = ''setStyle'')"
  "ssRemoveStyleCount (countRow row s) = ssRemoveStyleCount s + b2n (srPayloadKind row = ''removeStyle'')"
  "ssUnsupportedRowCount (countRow row s) = ssUnsupportedRowCount s + b2n (srPayloadKind row \<notin> {''setStyle'', ''removeStyle''})"
  "ssAdditionRowCount (countRow row s) = ssAdditionRowCount s + b2n (srPayloadKind row = ''setStyle'' \<and> srAction row = ''add'')"
  "ssChangeRowCount (countRow row s) = ssChangeRowCount s + b2n (srPayloadKind row = ''setStyle'' \<and> srAction row = ''change'')"
  "ssPropertyAssignmentCount (countRow row s) = ssPropertyAssignmentCount s + b2n (srMutation row = Some ''propertyAssignment'')"
  "ssSetPropertyCount (countRow row s) = ssSetPropertyCount s + b2n (srMutation row = Some ''setProperty'')"
  "ssPxAppendedRowCount (countRow row s) = ssPxAppendedRowCount s + b2n (srPxAppended row)"
  "ssNumericWithoutPxRowCount (countRow row s) = ssNumericWithoutPxRowCount s + b2n (srNumericWithoutPx row)"
  by (simp_all add: countRow_def countRowFlags_def countRowUnitless_def countRowMutation_def countRowKind_def b2n_def Let_def)

lemma summary_rowCount: "ssRowCount (foldl (\<lambda>s row. countRow row s) s rows) = ssRowCount s"
  by (induction rows arbitrary: s) (auto simp: countRow_counters)

lemma emptySummary_zero:
  "ssSetStyleCount (emptySummary n) = 0" "ssRemoveStyleCount (emptySummary n) = 0" "ssUnsupportedRowCount (emptySummary n) = 0"
  "ssAdditionRowCount (emptySummary n) = 0" "ssChangeRowCount (emptySummary n) = 0"
  "ssPropertyAssignmentCount (emptySummary n) = 0" "ssSetPropertyCount (emptySummary n) = 0"
  "ssPxAppendedRowCount (emptySummary n) = 0" "ssNumericWithoutPxRowCount (emptySummary n) = 0" "ssRowCount (emptySummary n) = n"
  by (simp_all add: emptySummary_def)

lemmas summary_counters =
  counter_fold [of ssSetStyleCount, OF countRow_counters(2)]
  counter_fold [of ssRemoveStyleCount, OF countRow_counters(3)]
  counter_fold [of ssUnsupportedRowCount, OF countRow_counters(4)]
  counter_fold [of ssAdditionRowCount, OF countRow_counters(5)]
  counter_fold [of ssChangeRowCount, OF countRow_counters(6)]
  counter_fold [of ssPropertyAssignmentCount, OF countRow_counters(7)]
  counter_fold [of ssSetPropertyCount, OF countRow_counters(8)]
  counter_fold [of ssPxAppendedRowCount, OF countRow_counters(9)]
  counter_fold [of ssNumericWithoutPxRowCount, OF countRow_counters(10)]

text \<open>Entries of a style diff, and the value a \<open>setStyle\<close> entry comes from.\<close>
lemma styleValueEntry_cases:
  "createStyleValueEntryOrUnsupported ''style'' s w = SetStyle k s' mut v \<Longrightarrow>
     s' = s \<and> coerceStyleValue ''style'' s w = Inr v"
  by (auto simp: createStyleValueEntryOrUnsupported_def unsupportedStyleName_def createRemoveStyleEntry_def
      createSetStyleEntry_def coerceStyleValue_def split: sum.splits dval.splits if_splits)

lemma styleEntry_kind:
  "e \<in> set (createStyleEntries ''style'' v pv) \<Longrightarrow> entryKind e \<in> {''setStyle'', ''removeStyle'', ''unsupported''}"
  by (auto simp: createStyleEntries_def Let_def createStyleValueEntryOrUnsupported_def createRemoveStyleEntryOrUnsupported_def
      unsupportedStyleName_def createRemoveStyleEntry_def createSetStyleEntry_def coerceStyleValue_def
      split: if_splits sum.splits dval.splits)

lemma setStyle_origin:
  assumes "SetStyle k s mut t \<in> set (createStyleEntries ''style'' v pv)"
  shows "isDomObjectLike v \<and> hasOwn v s \<and> coerceStyleValue ''style'' s (readProp v s) = Inr t"
proof -
  have "\<And>s'. SetStyle k s mut t \<noteq> createRemoveStyleEntryOrUnsupported ''style'' s'"
    by (simp add: createRemoveStyleEntryOrUnsupported_def unsupportedStyleName_def createRemoveStyleEntry_def)
  then show ?thesis
    using assms by (auto simp: createStyleEntries_def Let_def hasOwn_def dest!: styleValueEntry_cases [OF sym] split: if_splits)
qed

text \<open>The row of an entry, as the counters see it.\<close>
lemma row_of_entry:
  fixes P :: "dval option"
  assumes "e \<in> set (createStyleEntries ''style'' v pv)"
  defines "row \<equiv> createPrivateStyleObjectDiffRow e P (if isDomObjectLike v then Some v else None)"
  shows "srPayloadKind row = entryKind e"
    and "entryKind e = ''setStyle'' \<Longrightarrow> srAction row \<in> {''add'', ''change''}"
    and "srMutation row = Some ''propertyAssignment'' \<or> srMutation row = Some ''setProperty'' \<longleftrightarrow> entryKind e \<noteq> ''unsupported''"
    and "srPxAppended row \<or> srNumericWithoutPx row \<longleftrightarrow> entryKind e = ''setStyle'' \<and> srNumericValue row"
    and "\<not> (srPxAppended row \<and> srNumericWithoutPx row)"
proof -
  note k = styleEntry_kind [OF assms(1)]
  have safe: "entrySafe DUndef DUndef e"
    using style_entries_safe [OF assms(1)] by (simp add: isDocumentScopedResourceTag_def)
  show "srPayloadKind row = entryKind e" "entryKind e = ''setStyle'' \<Longrightarrow> srAction row \<in> {''add'', ''change''}"
    using k by (cases e; simp add: row_def createPrivateStyleObjectDiffRow_def styleEntryRow_def unsupportedStyleRow_def Let_def)+
  show "srMutation row = Some ''propertyAssignment'' \<or> srMutation row = Some ''setProperty'' \<longleftrightarrow> entryKind e \<noteq> ''unsupported''"
    using k safe by (cases e) (auto simp: row_def createPrivateStyleObjectDiffRow_def styleEntryRow_def
        unsupportedStyleRow_def Let_def styleEntrySafe_def getStyleMutationTarget_def)
  show "srPxAppended row \<or> srNumericWithoutPx row \<longleftrightarrow> entryKind e = ''setStyle'' \<and> srNumericValue row"
  proof (cases e)
    case (SetStyle k s mut t)
    note o = setStyle_origin [OF assms(1) [unfolded SetStyle]]
    then show ?thesis
      by (auto simp: SetStyle row_def createPrivateStyleObjectDiffRow_def styleEntryRow_def Let_def coerceStyleValue_def
          split: dval.splits if_splits)
  qed (use k in \<open>auto simp: row_def createPrivateStyleObjectDiffRow_def styleEntryRow_def unsupportedStyleRow_def Let_def\<close>)
  show "\<not> (srPxAppended row \<and> srNumericWithoutPx row)"
    using k by (cases e) (auto simp: row_def createPrivateStyleObjectDiffRow_def styleEntryRow_def unsupportedStyleRow_def
        Let_def split: option.splits)
qed

lemma length_filter_split:
  "(\<And>x. x \<in> set xs \<Longrightarrow> R x \<longleftrightarrow> P x \<or> Q x) \<Longrightarrow> (\<And>x. x \<in> set xs \<Longrightarrow> \<not> (P x \<and> Q x)) \<Longrightarrow>
   length (filter P xs) + length (filter Q xs) = length (filter R xs)"
  by (induction xs) auto

lemma length_filter_map_cong:
  "(\<And>x. x \<in> set xs \<Longrightarrow> P (f x) \<longleftrightarrow> Q x) \<Longrightarrow> length (filter P (map f xs)) = length (filter Q xs)"
  by (induction xs) auto

lemma length_filter_zero: "length (filter P xs) = 0 \<longleftrightarrow> (\<forall>x \<in> set xs. \<not> P x)"
  by (induction xs) auto

text \<open>
  The style diagnostic is consistent with the payload it describes: the counters are the
  numbers of set, removed and unsupported entries and add up to the row count, every set row is an
  addition or a change, every style write uses one of the two mutations, a numeric value is
  written either with or without \<open>px\<close> and never counted as both, and the rows are accepted
  exactly when no entry is unsupported.
\<close>
theorem style_diagnostic_consistent:
  fixes lastStyle nextStyle :: dval
  defines "d \<equiv> recordPrivateDomStyleObjectDiffDiagnostics lastStyle nextStyle"
    and "es \<equiv> createStyleEntries ''style'' nextStyle lastStyle"
  shows "sdPayloadRows d = es \<and> ssRowCount (sdSummary d) = length es \<and>
    ssSetStyleCount (sdSummary d) = length (filter (\<lambda>e. entryKind e = ''setStyle'') es) \<and>
    ssRemoveStyleCount (sdSummary d) = length (filter (\<lambda>e. entryKind e = ''removeStyle'') es) \<and>
    ssSetStyleCount (sdSummary d) + ssRemoveStyleCount (sdSummary d) + ssUnsupportedRowCount (sdSummary d) = length es \<and>
    ssAdditionRowCount (sdSummary d) + ssChangeRowCount (sdSummary d) = ssSetStyleCount (sdSummary d) \<and>
    ssPropertyAssignmentCount (sdSummary d) + ssSetPropertyCount (sdSummary d) =
      ssSetStyleCount (sdSummary d) + ssRemoveStyleCount (sdSummary d) \<and>
    ssPxAppendedRowCount (sdSummary d) + ssNumericWithoutPxRowCount (sdSummary d) =
      length (filter (\<lambda>r. srPayloadKind r = ''setStyle'' \<and> srNumericValue r) (sdRows d)) \<and>
    (sdPayloadRowsAccepted d \<longleftrightarrow> supported es)"
proof -
  define f where "f = (\<lambda>e. createPrivateStyleObjectDiffRow e (if isDomObjectLike lastStyle then Some lastStyle else None)
      (if isDomObjectLike nextStyle then Some nextStyle else None))"
  have d: "sdPayloadRows d = es" "sdRows d = map f es" "sdSummary d = summarizePrivateStyleObjectDiffRows (map f es)"
    "sdPayloadRowsAccepted d \<longleftrightarrow> ssUnsupportedRowCount (sdSummary d) = 0"
    by (simp_all add: d_def es_def f_def recordPrivateDomStyleObjectDiffDiagnostics_def Let_def)
  have R: "e \<in> set es \<Longrightarrow> srPayloadKind (f e) = entryKind e"
    "e \<in> set es \<Longrightarrow> entryKind e = ''setStyle'' \<Longrightarrow> srAction (f e) \<in> {''add'', ''change''}"
    "e \<in> set es \<Longrightarrow>
       srMutation (f e) = Some ''propertyAssignment'' \<or> srMutation (f e) = Some ''setProperty'' \<longleftrightarrow> entryKind e \<noteq> ''unsupported''"
    "e \<in> set es \<Longrightarrow> srPxAppended (f e) \<or> srNumericWithoutPx (f e) \<longleftrightarrow> entryKind e = ''setStyle'' \<and> srNumericValue (f e)"
    "e \<in> set es \<Longrightarrow> \<not> (srPxAppended (f e) \<and> srNumericWithoutPx (f e))" for e
    unfolding es_def f_def by (rule row_of_entry; assumption)+
  have kinds: "\<And>e. e \<in> set es \<Longrightarrow> entryKind e \<in> {''setStyle'', ''removeStyle'', ''unsupported''}"
    using styleEntry_kind unfolding es_def .
  note counts = d(3) summarizePrivateStyleObjectDiffRows_def summary_counters summary_rowCount emptySummary_zero
  have set: "ssSetStyleCount (sdSummary d) = length (filter (\<lambda>e. entryKind e = ''setStyle'') es)"
    unfolding counts add_0 by (rule length_filter_map_cong) (simp add: R(1))
  have rem: "ssRemoveStyleCount (sdSummary d) = length (filter (\<lambda>e. entryKind e = ''removeStyle'') es)"
    unfolding counts add_0 by (rule length_filter_map_cong) (simp add: R(1))
  have uns: "ssUnsupportedRowCount (sdSummary d) = length (filter isUnsupported es)"
    unfolding counts add_0 by (rule length_filter_map_cong) (use R(1) kinds in \<open>fastforce simp: isUnsupported_def\<close>)
  have sr: "ssSetStyleCount (sdSummary d) + ssRemoveStyleCount (sdSummary d) = length (filter (\<lambda>e. \<not> isUnsupported e) es)"
    unfolding set rem by (rule length_filter_split) (use kinds in \<open>fastforce simp: isUnsupported_def\<close>)+
  then have all: "ssSetStyleCount (sdSummary d) + ssRemoveStyleCount (sdSummary d) + ssUnsupportedRowCount (sdSummary d) = length es"
    unfolding uns using sum_length_filter_compl [of isUnsupported es] by simp
  have add: "ssAdditionRowCount (sdSummary d) + ssChangeRowCount (sdSummary d) = ssSetStyleCount (sdSummary d)"
    unfolding counts add_0 by (rule length_filter_split) (use R(1,2) in fastforce)+
  have mutn: "ssPropertyAssignmentCount (sdSummary d) + ssSetPropertyCount (sdSummary d) = length (filter (\<lambda>r. srPayloadKind r \<noteq> ''unsupported'') (map f es))"
    unfolding counts add_0 by (rule length_filter_split) (use R(1,3) in fastforce)+
  have "length (filter (\<lambda>r. srPayloadKind r \<noteq> ''unsupported'') (map f es)) = length (filter (\<lambda>e. \<not> isUnsupported e) es)"
    by (rule length_filter_map_cong) (simp add: R(1) isUnsupported_def)
  then have mut2: "ssPropertyAssignmentCount (sdSummary d) + ssSetPropertyCount (sdSummary d) =
      ssSetStyleCount (sdSummary d) + ssRemoveStyleCount (sdSummary d)"
    using mutn sr by simp
  have px: "ssPxAppendedRowCount (sdSummary d) + ssNumericWithoutPxRowCount (sdSummary d) =
      length (filter (\<lambda>r. srPayloadKind r = ''setStyle'' \<and> srNumericValue r) (sdRows d))"
    unfolding counts d(2) add_0 by (rule length_filter_split) (use R(1,4,5) in fastforce)+
  have acc: "sdPayloadRowsAccepted d \<longleftrightarrow> supported es"
    unfolding d(4) uns length_filter_zero by (simp add: supported_def list_all_iff)
  have "ssRowCount (sdSummary d) = length es" unfolding counts by simp
  then show ?thesis using d(1) set rem all add mut2 px acc by blast
qed

end
