(* ===== verification/Host_Mutation.thy ===== *)
theory Host_Mutation
  imports Payload_Props
begin

text \<open>
  \<open>packages/react-dom/src/dom-host/mutation.js\<close>, the part that applies prop payloads to a host
  node: normalisation of the entries, application, snapshots, rollback after a failure or on
  request, and the commit operations that combine it with the diff.

  The host node is not part of the repository's implementation: its methods and fields are the
  parameter \<open>host_dom\<close>, one function per method the code calls, over a state \<open>'h\<close>. A method that
  changes the node returns what it threw, if anything, and the state it leaves. The registries
  (\<open>WeakMap\<close>s) that attach a payload to a returned record are modelled by returning the payload
  with the record; a value without a payload is \<open>None\<close> where a record is expected.
\<close>

type_synonym 'h outcome = "dom_error option \<times> 'h"

record 'h host_dom =
  hMethod :: "'h \<Rightarrow> string \<Rightarrow> bool"  \<comment> \<open>\<open>typeof instance[name] === 'function'\<close>\<close>
  hAttributesMap :: "'h \<Rightarrow> bool"  \<comment> \<open>\<open>instance.attributes instanceof Map\<close>\<close>
  hGetAttribute :: "'h \<Rightarrow> string \<Rightarrow> string option"  \<comment> \<open>\<open>hasAttribute\<close>, \<open>getAttribute\<close>\<close>
  hMapAttribute :: "'h \<Rightarrow> string \<Rightarrow> string option"  \<comment> \<open>\<open>attributes.has\<close>, \<open>attributes.get\<close>\<close>
  hSetAttribute :: "string \<Rightarrow> string \<Rightarrow> 'h \<Rightarrow> 'h outcome"
  hRemoveAttribute :: "string \<Rightarrow> 'h \<Rightarrow> 'h outcome"
  hHasProperty :: "'h \<Rightarrow> string \<Rightarrow> bool"  \<comment> \<open>\<open>name in instance\<close>\<close>
  hGetProperty :: "'h \<Rightarrow> string \<Rightarrow> dval"
  hSetProperty :: "string \<Rightarrow> dval \<Rightarrow> 'h \<Rightarrow> 'h outcome"
  hStyleObject :: "'h \<Rightarrow> bool"  \<comment> \<open>\<open>instance.style\<close> is an object\<close>
  hStyleMethod :: "'h \<Rightarrow> string \<Rightarrow> bool"  \<comment> \<open>\<open>typeof instance.style[name] === 'function'\<close>\<close>
  hStyleMap :: "'h \<Rightarrow> bool"  \<comment> \<open>\<open>instance.style.properties instanceof Map\<close>\<close>
  hStylePropertyValue :: "'h \<Rightarrow> string \<Rightarrow> string"  \<comment> \<open>\<open>String(style.getPropertyValue(name) || '')\<close>\<close>
  hStyleMapValue :: "'h \<Rightarrow> string \<Rightarrow> string"  \<comment> \<open>the entry of \<open>style.properties\<close>, or the empty string\<close>
  hStyleField :: "'h \<Rightarrow> string \<Rightarrow> string"  \<comment> \<open>\<open>style[name]\<close>, nullish read as the empty string\<close>
  hStyleSetProperty :: "string \<Rightarrow> string \<Rightarrow> 'h \<Rightarrow> 'h outcome"
  hSetStyleField :: "string \<Rightarrow> string \<Rightarrow> 'h \<Rightarrow> 'h outcome"
  hInnerHTML :: "'h \<Rightarrow> string"
  hSetInnerHTML :: "string \<Rightarrow> 'h \<Rightarrow> 'h outcome"
  hChildNodes :: "'h \<Rightarrow> nat list option"  \<comment> \<open>\<open>instance.childNodes\<close> when it is an array\<close>
  hSetChildNodes :: "nat list \<Rightarrow> 'h \<Rightarrow> 'h"
  hParentIs :: "'h \<Rightarrow> nat \<Rightarrow> bool"  \<comment> \<open>\<open>child.parentNode === instance\<close>\<close>
  hClearParent :: "nat \<Rightarrow> 'h \<Rightarrow> 'h"  \<comment> \<open>\<open>child.parentNode = null\<close>\<close>
  hSetParent :: "nat \<Rightarrow> 'h \<Rightarrow> 'h"  \<comment> \<open>\<open>child.parentNode = instance\<close>\<close>

subsection \<open>Normalisation of payload entries\<close>

definition unsafePropertyNames :: "string list" where
  "unsafePropertyNames =
     [''__proto__'', ''constructor'', ''innerHTML'', ''outerHTML'', ''prototype'', ''style'', ''textContent'']"

definition blockedPayloadEntryKinds :: "string list" where
  "blockedPayloadEntryKinds = [''removeStyle'', ''setStyle'', ''setInnerHTML'', ''nonPayload'', ''unsupported'']"

text \<open>\<open>/^[A-Za-z_$][A-Za-z0-9_$]*$/\<close>\<close>
fun propertyNamePattern :: "string \<Rightarrow> bool" where
  "propertyNamePattern [] = False"
| "propertyNamePattern (c # cs) =
     ((asciiLetter c \<or> c \<in> set ''_$'') \<and> list_all (\<lambda>d. asciiLetter d \<or> asciiDigit d \<or> d \<in> set ''_$'') cs)"

definition isSafePayloadPropertyName :: "string \<Rightarrow> bool" where
  "isSafePayloadPropertyName n \<longleftrightarrow>
     propertyNamePattern n \<and> n \<notin> set unsafePropertyNames \<and> n ! 0 \<noteq> CHR ''_'' \<and> \<not> isEventLikeProp n"

abbreviation invalidEntry :: "string \<Rightarrow> dom_error" where
  "invalidEntry msg \<equiv> CodedError ''FAST_REACT_DOM_INVALID_PROPERTY_PAYLOAD_ENTRY'' msg"

definition createUnsupportedPayloadEntryError :: "payload_entry \<Rightarrow> nat \<Rightarrow> dom_error" where
  "createUnsupportedPayloadEntryError entry index =
     CodedError
       (if entryKind entry \<in> set blockedPayloadEntryKinds then ''FAST_REACT_DOM_BLOCKED_PROPERTY_PAYLOAD_ENTRY''
        else ''FAST_REACT_DOM_UNSUPPORTED_PROPERTY_PAYLOAD_ENTRY'')
       (''Cannot apply unsupported DOM property payload entry '' @ nat_str index @ ''.'')"

definition createBlockedAdmittedPayloadEntryError :: "payload_entry \<Rightarrow> nat \<Rightarrow> dom_error" where
  "createBlockedAdmittedPayloadEntryError entry index =
     CodedError
       (if entryKind entry = ''unsupported'' then ''FAST_REACT_DOM_BLOCKED_PROPERTY_PAYLOAD_ENTRY''
        else ''FAST_REACT_DOM_UNSUPPORTED_PROPERTY_PAYLOAD_ENTRY'')
       (''Cannot apply unsupported admitted DOM property payload entry '' @ nat_str index @ ''.'')"

definition createBlockedLatestPropsPayloadEntryError :: "payload_entry \<Rightarrow> nat \<Rightarrow> dom_error" where
  "createBlockedLatestPropsPayloadEntryError entry index =
     CodedError
       (if entryKind entry \<in> set blockedPayloadEntryKinds then ''FAST_REACT_DOM_BLOCKED_PROPERTY_PAYLOAD_ENTRY''
        else ''FAST_REACT_DOM_UNSUPPORTED_PROPERTY_PAYLOAD_ENTRY'')
       (''Cannot apply unsupported latest-props DOM property payload entry '' @ nat_str index @ ''.'')"

definition assertAttributePayloadTarget :: "'h host_dom \<Rightarrow> 'h \<Rightarrow> string \<Rightarrow> dom_error option" where
  "assertAttributePayloadTarget host h methodName =
     (if hMethod host h methodName then None
      else Some (CodedError ''FAST_REACT_DOM_INVALID_PROPERTY_PAYLOAD_TARGET''
        (''Cannot apply a DOM property payload on a node without '' @ methodName @ ''.'')))"

definition assertPropertyPayloadTarget :: "'h host_dom \<Rightarrow> 'h \<Rightarrow> string \<Rightarrow> dom_error option" where
  "assertPropertyPayloadTarget host h propertyName =
     (if hHasProperty host h propertyName then None
      else Some (CodedError ''FAST_REACT_DOM_INVALID_PROPERTY_PAYLOAD_TARGET''
        ''Cannot apply a DOM property payload to a missing target property.''))"

definition assertSafePropertyPayloadValue :: "dval \<Rightarrow> nat \<Rightarrow> dom_error option" where
  "assertSafePropertyPayloadValue v index =
     (if typeOf v = ''function'' \<or> typeOf v = ''symbol''
      then Some (invalidEntry (''Cannot apply setProperty payload entry '' @ nat_str index @ '' with a callback or symbol value.''))
      else None)"

definition normalizePayloadAttributeName :: "string \<Rightarrow> nat \<Rightarrow> dom_error option" where
  "normalizePayloadAttributeName attributeName index =
     (if attributeName = [] \<or> \<not> isAttributeNameSafe attributeName
      then Some (invalidEntry (''Cannot apply payload entry '' @ nat_str index @ '' with an unsafe attribute name.''))
      else None)"

definition normalizePayloadPropertyName :: "string \<Rightarrow> nat \<Rightarrow> dom_error option" where
  "normalizePayloadPropertyName propertyName index =
     (if \<not> isSafePayloadPropertyName propertyName
      then Some (invalidEntry (''Cannot apply payload entry '' @ nat_str index @ '' with an unsafe property name.''))
      else None)"

text \<open>The entries here always have a string \<open>propName\<close>, so only the empty one is refused.\<close>
definition normalizePayloadPropName :: "string \<Rightarrow> nat \<Rightarrow> dom_error option" where
  "normalizePayloadPropName propName index =
     (if propName = []
      then Some (invalidEntry (''Cannot apply payload entry '' @ nat_str index @ '' without a string propName.''))
      else None)"

text \<open>The first assertion that fails is thrown; otherwise the value is returned.\<close>
fun checked :: "dom_error option list \<Rightarrow> 'a \<Rightarrow> dom_error + 'a" where
  "checked [] x = Inr x"
| "checked (None # cs) x = checked cs x"
| "checked (Some e # cs) x = Inl e"

definition normalizePropertyPayloadEntry :: "'h host_dom \<Rightarrow> 'h \<Rightarrow> payload_entry \<Rightarrow> nat \<Rightarrow> dom_error + payload_entry" where
  "normalizePropertyPayloadEntry host h entry index =
     (case entry of
        SetAttribute k a v \<Rightarrow>
          checked [assertAttributePayloadTarget host h ''setAttribute'', normalizePayloadAttributeName a index,
                   normalizePayloadPropName k index] entry
      | RemoveAttribute k a \<Rightarrow>
          checked [assertAttributePayloadTarget host h ''removeAttribute'', normalizePayloadAttributeName a index,
                   normalizePayloadPropName k index] entry
      | SetProperty k n v \<Rightarrow>
          checked [normalizePayloadPropertyName n index, assertPropertyPayloadTarget host h n,
                   assertSafePropertyPayloadValue v index, normalizePayloadPropName k index] entry
      | RemoveProperty k n \<Rightarrow>
          checked [normalizePayloadPropertyName n index, assertPropertyPayloadTarget host h n,
                   normalizePayloadPropName k index] entry
      | _ \<Rightarrow> Inl (createUnsupportedPayloadEntryError entry index))"

definition assertStyleTarget :: "'h host_dom \<Rightarrow> 'h \<Rightarrow> dom_error option" where
  "assertStyleTarget host h =
     (if hStyleObject host h then None
      else Some (CodedError ''FAST_REACT_DOM_INVALID_STYLE_TARGET''
        ''Cannot apply a style payload entry to a node without a style object.''))"

definition assertStyleSetPropertyTarget :: "'h host_dom \<Rightarrow> 'h \<Rightarrow> dom_error option" where
  "assertStyleSetPropertyTarget host h =
     (if hStyleMethod host h ''setProperty'' then None
      else Some (CodedError ''FAST_REACT_DOM_INVALID_STYLE_TARGET''
        ''Cannot apply a custom style payload entry without style.setProperty.''))"

abbreviation malformed :: "string \<Rightarrow> dom_error" where
  "malformed msg \<equiv> CodedError ''FAST_REACT_DOM_INVALID_PAYLOAD_ENTRY'' msg"

definition validateStylePayloadEntry ::
  "'h host_dom \<Rightarrow> 'h \<Rightarrow> bool \<Rightarrow> string \<Rightarrow> string \<Rightarrow> string \<Rightarrow> payload_entry \<Rightarrow> dom_error + payload_entry" where
  "validateStylePayloadEntry host h isRemove k mut v entry =
     checked
       [assertStyleTarget host h,
        if k \<noteq> ''style'' then Some (malformed ''Cannot apply a malformed style payload entry.'') else None,
        if mut \<noteq> ''propertyAssignment'' \<and> mut \<noteq> ''setProperty''
        then Some (malformed ''Cannot apply a style payload entry with an unsupported mutation target.'') else None,
        if mut = ''setProperty'' then assertStyleSetPropertyTarget host h else None,
        if isRemove \<and> v \<noteq> []
        then Some (malformed ''Cannot apply a removeStyle payload entry without an empty string value.'') else None]
       entry"

definition validateInnerHtmlPayloadEntry :: "'h host_dom \<Rightarrow> 'h \<Rightarrow> string \<Rightarrow> string \<Rightarrow> payload_entry \<Rightarrow> dom_error + payload_entry" where
  "validateInnerHtmlPayloadEntry host h k n entry =
     checked
       [if k \<noteq> ''dangerouslySetInnerHTML'' \<or> n \<noteq> ''innerHTML''
        then Some (malformed ''Cannot apply a malformed innerHTML payload entry.'') else None,
        if hHasProperty host h ''innerHTML'' then None
        else Some (CodedError ''FAST_REACT_DOM_INVALID_INNER_HTML_TARGET''
               ''Cannot apply an innerHTML payload entry to a node without innerHTML.'')]
       entry"

definition validateStyleDangerousHtmlPayloadEntry :: "'h host_dom \<Rightarrow> 'h \<Rightarrow> payload_entry \<Rightarrow> dom_error + payload_entry" where
  "validateStyleDangerousHtmlPayloadEntry host h entry =
     (case entry of
        SetStyle k s mut v \<Rightarrow> validateStylePayloadEntry host h False k mut v entry
      | RemoveStyle k s mut v \<Rightarrow> validateStylePayloadEntry host h True k mut v entry
      | SetInnerHtml k n v \<Rightarrow> validateInnerHtmlPayloadEntry host h k n entry
      | SetAttribute _ _ _ \<Rightarrow> Inl (CodedError ''FAST_REACT_DOM_UNSUPPORTED_PAYLOAD_ENTRY''
          ''Ordinary attribute payload entries are reserved for the DOM attribute applier.'')
      | RemoveAttribute _ _ \<Rightarrow> Inl (CodedError ''FAST_REACT_DOM_UNSUPPORTED_PAYLOAD_ENTRY''
          ''Ordinary attribute payload entries are reserved for the DOM attribute applier.'')
      | NonPayload _ _ _ \<Rightarrow> Inl (CodedError ''FAST_REACT_DOM_NON_PAYLOAD_ENTRY''
          ''Cannot apply a non-payload entry through the style/dangerous HTML applier.'')
      | Unsupported _ _ _ _ \<Rightarrow> Inl (CodedError ''FAST_REACT_DOM_UNSUPPORTED_PAYLOAD_ENTRY''
          ''Cannot apply an unsupported style/dangerous HTML payload entry.'')
      | _ \<Rightarrow> Inl (malformed ''Cannot apply an unknown style/dangerous HTML payload entry.''))"

definition normalizeNonPayloadPropertyPayloadEntry :: "payload_entry \<Rightarrow> nat \<Rightarrow> dom_error + payload_entry" where
  "normalizeNonPayloadPropertyPayloadEntry entry index =
     (case entry of
        NonPayload k (Some c) (Some r) \<Rightarrow> Inr entry
      | _ \<Rightarrow> Inl (invalidEntry (''Cannot skip non-payload DOM property payload entry '' @ nat_str index @
               '' without string metadata.'')))"

definition normalizeAdmittedDomPropertyPayloadEntry :: "'h host_dom \<Rightarrow> 'h \<Rightarrow> payload_entry \<Rightarrow> nat \<Rightarrow> dom_error + payload_entry" where
  "normalizeAdmittedDomPropertyPayloadEntry host h entry index =
     (if isOrdinaryPropertyPayloadEntry entry then normalizePropertyPayloadEntry host h entry index
      else if isStyleDangerousHtmlPayloadEntry entry then validateStyleDangerousHtmlPayloadEntry host h entry
      else if isNonPayloadPropertyPayloadEntry entry then normalizeNonPayloadPropertyPayloadEntry entry index
      else Inl (createBlockedAdmittedPayloadEntryError entry index))"

definition normalizeLatestPropsSafeDomPropertyPayloadEntry ::
  "'h host_dom \<Rightarrow> 'h \<Rightarrow> payload_entry \<Rightarrow> nat \<Rightarrow> dom_error + payload_entry" where
  "normalizeLatestPropsSafeDomPropertyPayloadEntry host h entry index =
     (if isOrdinaryPropertyPayloadEntry entry then normalizePropertyPayloadEntry host h entry index
      else if isStylePropertyPayloadEntry entry then validateStyleDangerousHtmlPayloadEntry host h entry
      else if entryKind entry = ''setInnerHTML'' then validateStyleDangerousHtmlPayloadEntry host h entry
      else if isNonPayloadPropertyPayloadEntry entry then normalizeNonPayloadPropertyPayloadEntry entry index
      else Inl (createBlockedLatestPropsPayloadEntryError entry index))"

text \<open>\<open>payload.map((entry, index) => f(entry, index))\<close>, where the first error ends the map.\<close>
fun mapEntries :: "('a \<Rightarrow> nat \<Rightarrow> dom_error + 'b) \<Rightarrow> 'a list \<Rightarrow> nat \<Rightarrow> dom_error + 'b list" where
  "mapEntries f [] i = Inr []"
| "mapEntries f (e # es) i =
     (case f e i of Inl err \<Rightarrow> Inl err
      | Inr x \<Rightarrow> (case mapEntries f es (i + 1) of Inl err \<Rightarrow> Inl err | Inr xs \<Rightarrow> Inr (x # xs)))"

subsection \<open>Application\<close>

definition applyNormalizedPropertyPayloadEntry :: "'h host_dom \<Rightarrow> payload_entry \<Rightarrow> 'h \<Rightarrow> 'h outcome" where
  "applyNormalizedPropertyPayloadEntry host entry h =
     (case entry of
        SetAttribute k a v \<Rightarrow> hSetAttribute host a v h
      | RemoveAttribute k a \<Rightarrow> hRemoveAttribute host a h
      | SetProperty k n v \<Rightarrow> hSetProperty host n v h
      | RemoveProperty k n \<Rightarrow> hSetProperty host n DNull h
      | _ \<Rightarrow> (None, h))"

definition applyStylePayloadEntry :: "'h host_dom \<Rightarrow> string \<Rightarrow> string \<Rightarrow> string \<Rightarrow> 'h \<Rightarrow> 'h outcome" where
  "applyStylePayloadEntry host s mut v h =
     (if mut = ''setProperty'' then hStyleSetProperty host s v h else hSetStyleField host s v h)"

definition applyStyleDangerousHtmlPayloadEntry :: "'h host_dom \<Rightarrow> payload_entry \<Rightarrow> 'h \<Rightarrow> 'h outcome" where
  "applyStyleDangerousHtmlPayloadEntry host entry h =
     (case entry of
        SetStyle k s mut v \<Rightarrow> applyStylePayloadEntry host s mut v h
      | RemoveStyle k s mut v \<Rightarrow> applyStylePayloadEntry host s mut v h
      | SetInnerHtml k n v \<Rightarrow> hSetInnerHTML host v h
      | _ \<Rightarrow> (Some (malformed ''Cannot apply a non-style/dangerous HTML payload entry.''), h))"

definition applyAdmittedNormalizedPropertyPayloadEntry :: "'h host_dom \<Rightarrow> payload_entry \<Rightarrow> 'h \<Rightarrow> 'h outcome" where
  "applyAdmittedNormalizedPropertyPayloadEntry host entry h =
     (if isOrdinaryPropertyPayloadEntry entry then applyNormalizedPropertyPayloadEntry host entry h
      else if isStyleDangerousHtmlPayloadEntry entry then applyStyleDangerousHtmlPayloadEntry host entry h
      else if isNonPayloadPropertyPayloadEntry entry then (None, h)
      else (Some (CodedError ''FAST_REACT_DOM_UNSUPPORTED_PROPERTY_PAYLOAD_ENTRY''
             ''Cannot apply an unrecognized admitted DOM property payload entry.''), h))"

definition applyLatestPropsSafeDomPropertyPayloadEntry :: "'h host_dom \<Rightarrow> payload_entry \<Rightarrow> 'h \<Rightarrow> 'h outcome" where
  "applyLatestPropsSafeDomPropertyPayloadEntry host entry h =
     (if isOrdinaryPropertyPayloadEntry entry then applyNormalizedPropertyPayloadEntry host entry h
      else if isStylePropertyPayloadEntry entry \<or> entryKind entry = ''setInnerHTML''
      then applyStyleDangerousHtmlPayloadEntry host entry h
      else (None, h))"

text \<open>
  The loop over the entries; the number is \<open>rollbackLimit\<close>, the entries begun when the loop
  ends or throws.
\<close>
fun applyLoop :: "(payload_entry \<Rightarrow> 'h \<Rightarrow> 'h outcome) \<Rightarrow> payload_entry list \<Rightarrow> nat \<Rightarrow> 'h \<Rightarrow> dom_error option \<times> nat \<times> 'h" where
  "applyLoop f [] n h = (None, n, h)"
| "applyLoop f (e # es) n h =
     (case f e h of (Some err, h') \<Rightarrow> (Some err, n + 1, h') | (None, h') \<Rightarrow> applyLoop f es (n + 1) h')"

subsection \<open>Snapshots and rollback\<close>

datatype rollback_record =
    AttributeRollback string "string option"  \<comment> \<open>the value, \<open>None\<close> when \<open>hadAttribute\<close> is false\<close>
  | PropertyRollback string dval
  | StyleRollback string string string  \<comment> \<open>mutation, styleName, value\<close>
  | InnerHtmlRollback "nat list option" string  \<comment> \<open>childNodes, value\<close>

abbreviation unsupportedRollback :: "string \<Rightarrow> dom_error" where
  "unsupportedRollback msg \<equiv> CodedError ''FAST_REACT_DOM_UNSUPPORTED_PROPERTY_PAYLOAD_ROLLBACK_TARGET'' msg"

definition assertAttributeRollbackTarget :: "'h host_dom \<Rightarrow> 'h \<Rightarrow> dom_error option" where
  "assertAttributeRollbackTarget host h =
     (if hMethod host h ''setAttribute'' \<and> hMethod host h ''removeAttribute'' then None
      else Some (unsupportedRollback
        ''Cannot publish latest props from a node without reversible attribute mutation methods.''))"

definition getAttributeRollbackSnapshot :: "'h host_dom \<Rightarrow> 'h \<Rightarrow> string \<Rightarrow> dom_error + string option" where
  "getAttributeRollbackSnapshot host h a =
     (if hMethod host h ''hasAttribute'' \<and> hMethod host h ''getAttribute'' then Inr (hGetAttribute host h a)
      else if hAttributesMap host h then Inr (hMapAttribute host h a)
      else Inl (unsupportedRollback ''Cannot publish latest props from a node without attribute snapshot support.''))"

definition createAttributePayloadRollbackRecord :: "'h host_dom \<Rightarrow> 'h \<Rightarrow> string \<Rightarrow> dom_error + rollback_record" where
  "createAttributePayloadRollbackRecord host h a =
     (case assertAttributeRollbackTarget host h of
        Some e \<Rightarrow> Inl e
      | None \<Rightarrow> map_sum id (AttributeRollback a) (getAttributeRollbackSnapshot host h a))"

definition getStyleRollbackSnapshot :: "'h host_dom \<Rightarrow> 'h \<Rightarrow> string \<Rightarrow> string \<Rightarrow> dom_error + string" where
  "getStyleRollbackSnapshot host h mut s =
     (case assertStyleTarget host h of
        Some e \<Rightarrow> Inl e
      | None \<Rightarrow>
          if mut = ''setProperty'' \<and> hStyleMethod host h ''getPropertyValue'' then Inr (hStylePropertyValue host h s)
          else if mut = ''setProperty'' \<and> hStyleMap host h then Inr (hStyleMapValue host h s)
          else Inr (hStyleField host h s))"

definition getInnerHtmlRollbackSnapshot :: "'h host_dom \<Rightarrow> 'h \<Rightarrow> dom_error + string" where
  "getInnerHtmlRollbackSnapshot host h =
     (if hHasProperty host h ''innerHTML'' then Inr (hInnerHTML host h)
      else Inl (unsupportedRollback ''Cannot roll back an innerHTML payload on a node without innerHTML.''))"

definition createDomPropertyPayloadRollbackRecord :: "'h host_dom \<Rightarrow> 'h \<Rightarrow> payload_entry \<Rightarrow> dom_error + rollback_record option" where
  "createDomPropertyPayloadRollbackRecord host h entry =
     (case entry of
        SetAttribute k a v \<Rightarrow> map_sum id Some (createAttributePayloadRollbackRecord host h a)
      | RemoveAttribute k a \<Rightarrow> map_sum id Some (createAttributePayloadRollbackRecord host h a)
      | SetProperty k n v \<Rightarrow> Inr (Some (PropertyRollback n (hGetProperty host h n)))
      | RemoveProperty k n \<Rightarrow> Inr (Some (PropertyRollback n (hGetProperty host h n)))
      | SetStyle k s mut v \<Rightarrow> map_sum id (Some \<circ> StyleRollback mut s) (getStyleRollbackSnapshot host h mut s)
      | RemoveStyle k s mut v \<Rightarrow> map_sum id (Some \<circ> StyleRollback mut s) (getStyleRollbackSnapshot host h mut s)
      | SetInnerHtml k n v \<Rightarrow>
          map_sum id (Some \<circ> InnerHtmlRollback (hChildNodes host h)) (getInnerHtmlRollbackSnapshot host h)
      | _ \<Rightarrow> Inr None)"

definition createDomPropertyPayloadRollbackRecords ::
  "'h host_dom \<Rightarrow> 'h \<Rightarrow> payload_entry list \<Rightarrow> dom_error + rollback_record option list" where
  "createDomPropertyPayloadRollbackRecords host h entries =
     mapEntries (\<lambda>e i. createDomPropertyPayloadRollbackRecord host h e) entries 0"

text \<open>\<open>restoreRollbackChildNodes\<close>: give the node its earlier children back.\<close>
definition restoreRollbackChildNodes :: "'h host_dom \<Rightarrow> nat list option \<Rightarrow> 'h \<Rightarrow> 'h" where
  "restoreRollbackChildNodes host rollbackChildNodes h =
     (case (rollbackChildNodes, hChildNodes host h) of
        (Some nextChildren, Some current) \<Rightarrow>
          if current = nextChildren then h
          else
            (let h1 = foldl (\<lambda>g c. if hParentIs host g c \<and> c \<notin> set nextChildren then hClearParent host c g else g) h current;
                 h2 = foldl (\<lambda>g c. hSetParent host c g) h1 nextChildren
             in hSetChildNodes host nextChildren h2)
      | _ \<Rightarrow> h)"

definition innerHtmlRollbackRecordMatchesCurrentValue :: "'h host_dom \<Rightarrow> 'h \<Rightarrow> nat list option \<Rightarrow> string \<Rightarrow> dom_error + bool" where
  "innerHtmlRollbackRecordMatchesCurrentValue host h nodes v =
     (case getInnerHtmlRollbackSnapshot host h of
        Inl e \<Rightarrow> Inl e
      | Inr v' \<Rightarrow> Inr (v' = v \<and> (case nodes of None \<Rightarrow> True | Some ns \<Rightarrow> hChildNodes host h = Some ns)))"

definition applyInnerHtmlRollbackRecord :: "'h host_dom \<Rightarrow> nat list option \<Rightarrow> string \<Rightarrow> 'h \<Rightarrow> 'h outcome" where
  "applyInnerHtmlRollbackRecord host nodes v h =
     (case getInnerHtmlRollbackSnapshot host h of
        Inl e \<Rightarrow> (Some e, h)
      | Inr v' \<Rightarrow>
          (case (if v' \<noteq> v then hSetInnerHTML host v h else (None, h)) of
             (Some e, h1) \<Rightarrow> (Some e, h1)
           | (None, h1) \<Rightarrow> (None, restoreRollbackChildNodes host nodes h1)))"

definition applyStyleRollbackRecord :: "'h host_dom \<Rightarrow> string \<Rightarrow> string \<Rightarrow> string \<Rightarrow> 'h \<Rightarrow> 'h outcome" where
  "applyStyleRollbackRecord host mut s v h =
     (case assertStyleTarget host h of
        Some e \<Rightarrow> (Some e, h)
      | None \<Rightarrow>
          if mut = ''setProperty'' then
            (case assertStyleSetPropertyTarget host h of
               Some e \<Rightarrow> (Some e, h)
             | None \<Rightarrow> hStyleSetProperty host s v h)
          else hSetStyleField host s v h)"

definition applyDomPropertyPayloadRollbackRecord :: "'h host_dom \<Rightarrow> rollback_record \<Rightarrow> 'h \<Rightarrow> 'h outcome" where
  "applyDomPropertyPayloadRollbackRecord host r h =
     (case r of
        AttributeRollback a old \<Rightarrow>
          (case getAttributeRollbackSnapshot host h a of
             Inl e \<Rightarrow> (Some e, h)
           | Inr cur \<Rightarrow>
               if cur = old then (None, h)
               else (case old of Some v \<Rightarrow> hSetAttribute host a v h | None \<Rightarrow> hRemoveAttribute host a h))
      | PropertyRollback n v \<Rightarrow> if strictEq (hGetProperty host h n) v then (None, h) else hSetProperty host n v h
      | StyleRollback mut s v \<Rightarrow>
          (case getStyleRollbackSnapshot host h mut s of
             Inl e \<Rightarrow> (Some e, h)
           | Inr cur \<Rightarrow> if cur = v then (None, h) else applyStyleRollbackRecord host mut s v h)
      | InnerHtmlRollback nodes v \<Rightarrow>
          (case innerHtmlRollbackRecordMatchesCurrentValue host h nodes v of
             Inl e \<Rightarrow> (Some e, h)
           | Inr same \<Rightarrow> if same then (None, h) else applyInnerHtmlRollbackRecord host nodes v h))"

text \<open>The loop from \<open>rollbackLimit - 1\<close> down to 0; the first error is thrown at the end.\<close>
fun rollbackLoop :: "'h host_dom \<Rightarrow> rollback_record option list \<Rightarrow> dom_error option \<Rightarrow> 'h \<Rightarrow> 'h outcome" where
  "rollbackLoop host [] first h = (first, h)"
| "rollbackLoop host (None # rs) first h = rollbackLoop host rs first h"
| "rollbackLoop host (Some r # rs) first h =
     (case applyDomPropertyPayloadRollbackRecord host r h of
        (err, h') \<Rightarrow> rollbackLoop host rs (case first of None \<Rightarrow> err | Some e \<Rightarrow> Some e) h')"

definition rollbackDomPropertyPayloadEntries :: "'h host_dom \<Rightarrow> rollback_record option list \<Rightarrow> nat \<Rightarrow> 'h \<Rightarrow> 'h outcome" where
  "rollbackDomPropertyPayloadEntries host rollbackRecords rollbackLimit h =
     rollbackLoop host (rev (take rollbackLimit rollbackRecords)) None h"

subsection \<open>Records and commit operations\<close>

datatype applied_record =
    AppliedSetAttribute string string
  | AppliedRemoveAttribute string
  | AppliedProperty string string dval  \<comment> \<open>kind, propertyName, value\<close>
  | AppliedEntry payload_entry

definition createAppliedPropertyPayloadRecord :: "payload_entry \<Rightarrow> applied_record" where
  "createAppliedPropertyPayloadRecord entry =
     (case entry of
        SetAttribute k a v \<Rightarrow> AppliedSetAttribute a v
      | RemoveAttribute k a \<Rightarrow> AppliedRemoveAttribute a
      | SetProperty k n v \<Rightarrow> AppliedProperty ''setProperty'' n v
      | RemoveProperty k n \<Rightarrow> AppliedProperty ''removeProperty'' n DNull
      | _ \<Rightarrow> AppliedEntry entry)"

definition createAdmittedPropertyPayloadRecord :: "payload_entry \<Rightarrow> applied_record" where
  "createAdmittedPropertyPayloadRecord entry =
     (if isOrdinaryPropertyPayloadEntry entry then createAppliedPropertyPayloadRecord entry else AppliedEntry entry)"

text \<open>The payload the registries attach to the returned mutation records.\<close>
record mutation_payload =
  mpRecords :: "applied_record list"
  mpRollbackRecords :: "rollback_record option list"
  mpRollbackRecordCount :: nat

definition createDomPropertyPayloadMutationRecords :: "applied_record list \<Rightarrow> rollback_record option list \<Rightarrow> mutation_payload" where
  "createDomPropertyPayloadMutationRecords records rollbackRecords =
     \<lparr>mpRecords = records, mpRollbackRecords = rollbackRecords,
      mpRollbackRecordCount = length (filter (\<lambda>r. r \<noteq> None) rollbackRecords)\<rparr>"

definition applyDomPropertyPayload :: "'h host_dom \<Rightarrow> payload_entry list \<Rightarrow> 'h \<Rightarrow> (dom_error + applied_record list) \<times> 'h" where
  "applyDomPropertyPayload host payload h =
     (case mapEntries (normalizePropertyPayloadEntry host h) payload 0 of
        Inl e \<Rightarrow> (Inl e, h)
      | Inr entries \<Rightarrow>
          (case applyLoop (applyNormalizedPropertyPayloadEntry host) entries 0 h of
             (Some e, n, h') \<Rightarrow> (Inl e, h')
           | (None, n, h') \<Rightarrow> (Inr (map createAppliedPropertyPayloadRecord entries), h')))"

text \<open>
  The body \<open>applyAdmittedDomPropertyPayload\<close> and \<open>applyStyleDangerousHtmlPayload\<close> share: snapshot,
  apply, and on an error roll back what was begun and rethrow the original error, whatever the
  rollback itself throws.
\<close>
definition applyWithRollback ::
  "'h host_dom \<Rightarrow> (payload_entry \<Rightarrow> 'h \<Rightarrow> 'h outcome) \<Rightarrow> (payload_entry \<Rightarrow> applied_record) \<Rightarrow> payload_entry list \<Rightarrow> 'h \<Rightarrow>
   (dom_error + mutation_payload) \<times> 'h" where
  "applyWithRollback host f rec entries h =
     (case createDomPropertyPayloadRollbackRecords host h entries of
        Inl e \<Rightarrow> (Inl e, h)
      | Inr rollbackRecords \<Rightarrow>
          (case applyLoop f entries 0 h of
             (Some e, rollbackLimit, h') \<Rightarrow>
               (Inl e, snd (rollbackDomPropertyPayloadEntries host rollbackRecords rollbackLimit h'))
           | (None, n, h') \<Rightarrow>
               (Inr (createDomPropertyPayloadMutationRecords (map rec entries) rollbackRecords), h')))"

definition applyAdmittedDomPropertyPayload :: "'h host_dom \<Rightarrow> payload_entry list \<Rightarrow> 'h \<Rightarrow> (dom_error + mutation_payload) \<times> 'h" where
  "applyAdmittedDomPropertyPayload host payload h =
     (case mapEntries (normalizeAdmittedDomPropertyPayloadEntry host h) payload 0 of
        Inl e \<Rightarrow> (Inl e, h)
      | Inr entries \<Rightarrow>
          applyWithRollback host (applyAdmittedNormalizedPropertyPayloadEntry host) createAdmittedPropertyPayloadRecord entries h)"

definition applyStyleDangerousHtmlPayload :: "'h host_dom \<Rightarrow> payload_entry list \<Rightarrow> 'h \<Rightarrow> (dom_error + mutation_payload) \<times> 'h" where
  "applyStyleDangerousHtmlPayload host payload h =
     (case mapEntries (\<lambda>e i. validateStyleDangerousHtmlPayloadEntry host h e) payload 0 of
        Inl e \<Rightarrow> (Inl e, h)
      | Inr entries \<Rightarrow> applyWithRollback host (applyStyleDangerousHtmlPayloadEntry host) AppliedEntry entries h)"

definition commitDomPropertyUpdate ::
  "dom_env \<Rightarrow> 'h host_dom \<Rightarrow> dval \<Rightarrow> dval \<Rightarrow> dval \<Rightarrow> 'h \<Rightarrow> (dom_error + mutation_payload) \<times> 'h" where
  "commitDomPropertyUpdate env host tag lastProps nextProps h =
     (case diffDomPropertyPayload env tag lastProps nextProps of
        Inl e \<Rightarrow> (Inl e, h)
      | Inr payload \<Rightarrow> applyAdmittedDomPropertyPayload host payload h)"

definition rollbackDomPropertyPayloadMutationRecords :: "'h host_dom \<Rightarrow> mutation_payload option \<Rightarrow> 'h \<Rightarrow> (dom_error + nat) \<times> 'h" where
  "rollbackDomPropertyPayloadMutationRecords host records h =
     (case records of
        None \<Rightarrow> (Inl (CodedError ''FAST_REACT_DOM_INVALID_PROPERTY_PAYLOAD_MUTATION_ROLLBACK''
                  ''Cannot roll back invalid DOM property payload mutation records.''), h)
      | Some payload \<Rightarrow>
          (case rollbackDomPropertyPayloadEntries host (mpRollbackRecords payload) (length (mpRollbackRecords payload)) h of
             (Some e, h') \<Rightarrow> (Inl e, h')
           | (None, h') \<Rightarrow> (Inr (mpRollbackRecordCount payload), h')))"

subsection \<open>The latest-props handoff\<close>

record latest_commit =
  lcLatestProps :: dval
  lcPayloadRecords :: "payload_entry list"
  lcPayloadCount :: nat

record latest_handoff =
  lhMutationRecords :: "applied_record list"
  lhCommit :: latest_commit
  lhRollbackRecords :: "rollback_record option list"
  lhPayloadCount :: nat

record rollback_evidence =
  reNormalizedEntryCount :: nat
  reMutationAttempted :: bool
  reAppliedMutationCount :: nat
  reRollbackAttempted :: bool
  reRollbackApplied :: bool
  reRollbackRecordCount :: nat
  reUnsupportedRejected :: bool
  reRollbackError :: "dom_error option"

definition latestPropsSafePayloadKinds :: "string list" where
  "latestPropsSafePayloadKinds =
     [''setAttribute'', ''removeAttribute'', ''setProperty'', ''removeProperty'', ''setStyle'', ''removeStyle'',
      ''setInnerHTML'', ''nonPayload'']"

text \<open>
  The other fields \<open>cloneSafeLatestPropsPayloadRecord\<close> checks are strings in every entry; only the
  category of a skipped entry can be missing.
\<close>
definition cloneSafeLatestPropsPayloadRecord :: "payload_entry \<Rightarrow> nat \<Rightarrow> dom_error + payload_entry" where
  "cloneSafeLatestPropsPayloadRecord r index =
     (if entryKind r \<notin> set latestPropsSafePayloadKinds
      then Inl (CodedError ''FAST_REACT_DOM_UNSAFE_LATEST_PROPS_PAYLOAD_RECORD''
             (''Cannot publish latest props from unsafe payload record kind '' @ entryKind r @ ''.''))
      else (case r of
              NonPayload k None reason \<Rightarrow>
                Inl (CodedError ''FAST_REACT_DOM_INVALID_LATEST_PROPS_PAYLOAD_RECORD''
                  (''Cannot include latest-props payload record at index '' @ nat_str index @ '' without a string category.''))
            | _ \<Rightarrow> Inr r))"

definition createLatestPropsCommitRecord :: "dval \<Rightarrow> payload_entry list \<Rightarrow> dom_error + latest_commit" where
  "createLatestPropsCommitRecord latestProps payloadRecords =
     (case mapEntries cloneSafeLatestPropsPayloadRecord payloadRecords 0 of
        Inl e \<Rightarrow> Inl e
      | Inr rs \<Rightarrow> Inr \<lparr>lcLatestProps = (if latestProps = DUndef then DNull else latestProps), lcPayloadRecords = rs,
                       lcPayloadCount = length rs\<rparr>)"

fun isUnsupportedPropertyPayloadError :: "dom_error \<Rightarrow> bool" where
  "isUnsupportedPropertyPayloadError (CodedError code msg) =
     (code \<in> {''FAST_REACT_DOM_BLOCKED_PROPERTY_PAYLOAD_ENTRY'', ''FAST_REACT_DOM_UNSUPPORTED_PROPERTY_PAYLOAD_ENTRY''})"
| "isUnsupportedPropertyPayloadError (TypeError msg) = False"

definition attachLatestPropsPropertyRollbackEvidence ::
  "dom_error \<Rightarrow> payload_entry list option \<Rightarrow> rollback_record option list option \<Rightarrow> nat \<Rightarrow> bool \<Rightarrow> dom_error option \<Rightarrow> rollback_evidence" where
  "attachLatestPropsPropertyRollbackEvidence err entries rollbackRecords rollbackLimit rollbackApplied rollbackError =
     \<lparr>reNormalizedEntryCount = (case entries of None \<Rightarrow> 0 | Some es \<Rightarrow> length es),
      reMutationAttempted = (rollbackLimit > 0), reAppliedMutationCount = rollbackLimit,
      reRollbackAttempted = (rollbackRecords \<noteq> None \<and> rollbackLimit > 0), reRollbackApplied = rollbackApplied,
      reRollbackRecordCount = (case rollbackRecords of None \<Rightarrow> 0 | Some rs \<Rightarrow> length (filter (\<lambda>r. r \<noteq> None) rs)),
      reUnsupportedRejected = isUnsupportedPropertyPayloadError err, reRollbackError = rollbackError\<rparr>"

text \<open>The catch block: roll back when something was begun, record the evidence.\<close>
definition failLatestProps ::
  "'h host_dom \<Rightarrow> dom_error \<Rightarrow> payload_entry list option \<Rightarrow> rollback_record option list option \<Rightarrow> nat \<Rightarrow> 'h \<Rightarrow>
   ((dom_error \<times> rollback_evidence) + latest_handoff) \<times> 'h" where
  "failLatestProps host err entries rollbackRecords rollbackLimit h =
     (case rollbackRecords of
        Some rs \<Rightarrow>
          if rollbackLimit > 0 then
            (case rollbackDomPropertyPayloadEntries host rs rollbackLimit h of
               (rollbackError, h') \<Rightarrow>
                 (Inl (err, attachLatestPropsPropertyRollbackEvidence err entries rollbackRecords rollbackLimit
                              (rollbackError = None) rollbackError), h'))
          else (Inl (err, attachLatestPropsPropertyRollbackEvidence err entries rollbackRecords rollbackLimit False None), h)
      | None \<Rightarrow> (Inl (err, attachLatestPropsPropertyRollbackEvidence err entries None rollbackLimit False None), h))"

definition applyDomPropertyPayloadForLatestProps ::
  "'h host_dom \<Rightarrow> payload_entry list \<Rightarrow> dval \<Rightarrow> 'h \<Rightarrow> ((dom_error \<times> rollback_evidence) + latest_handoff) \<times> 'h" where
  "applyDomPropertyPayloadForLatestProps host payload latestProps h =
     (case mapEntries (normalizeLatestPropsSafeDomPropertyPayloadEntry host h) payload 0 of
        Inl e \<Rightarrow> failLatestProps host e None None 0 h
      | Inr entries \<Rightarrow>
          (case createDomPropertyPayloadRollbackRecords host h entries of
             Inl e \<Rightarrow> failLatestProps host e (Some entries) None 0 h
           | Inr rs \<Rightarrow>
               (case applyLoop (applyLatestPropsSafeDomPropertyPayloadEntry host) entries 0 h of
                  (Some e, n, h') \<Rightarrow> failLatestProps host e (Some entries) (Some rs) n h'
                | (None, n, h') \<Rightarrow>
                    (case createLatestPropsCommitRecord latestProps entries of
                       Inl e \<Rightarrow> failLatestProps host e (Some entries) (Some rs) n h'
                     | Inr c \<Rightarrow>
                         (Inr \<lparr>lhMutationRecords = map createAdmittedPropertyPayloadRecord entries, lhCommit = c,
                               lhRollbackRecords = rs, lhPayloadCount = length entries\<rparr>, h')))))"

definition commitDomPropertyUpdateForLatestProps ::
  "dom_env \<Rightarrow> 'h host_dom \<Rightarrow> dval \<Rightarrow> dval \<Rightarrow> dval \<Rightarrow> 'h \<Rightarrow> (((dom_error \<times> rollback_evidence option) + latest_handoff) \<times> 'h)" where
  "commitDomPropertyUpdateForLatestProps env host tag lastProps nextProps h =
     (case diffDomPropertyPayload env tag lastProps nextProps of
        Inl e \<Rightarrow> (Inl (e, None), h)
      | Inr payload \<Rightarrow>
          map_prod (map_sum (\<lambda>(e, ev). (e, Some ev)) id) id
            (applyDomPropertyPayloadForLatestProps host payload nextProps h))"

definition rollbackDomPropertyUpdateLatestPropsHandoff :: "'h host_dom \<Rightarrow> latest_handoff option \<Rightarrow> 'h \<Rightarrow> (dom_error + nat) \<times> 'h" where
  "rollbackDomPropertyUpdateLatestPropsHandoff host handoff h =
     (case handoff of
        None \<Rightarrow> (Inl (CodedError ''FAST_REACT_DOM_INVALID_LATEST_PROPS_MUTATION_HANDOFF_ROLLBACK''
                  ''Cannot roll back an invalid DOM property latest-props mutation handoff.''), h)
      | Some payload \<Rightarrow>
          (case rollbackDomPropertyPayloadEntries host (lhRollbackRecords payload) (length (lhRollbackRecords payload)) h of
             (Some e, h') \<Rightarrow> (Inl e, h')
           | (None, h') \<Rightarrow> (Inr (length (filter (\<lambda>r. r \<noteq> None) (lhRollbackRecords payload))), h')))"

end
