(* ===== verification/Host_Laws.thy ===== *)
theory Host_Laws
  imports Host_Mutation
begin

text \<open>
  What the payload code relies on of a host node, as a locale: each write changes the slot it
  names and nothing else the code can read, and after a write that returned, the slot has the
  written value. A write that throws may leave its own slot in any state. The locale carries the
  lemmas on single entries and rollback records; \<open>Host_Fake\<close> interprets it on the fake DOM
  element the repository runs this code against.
\<close>

subsection \<open>What the code can read\<close>

datatype hslot = HAttr string | HStyle string | HProp string | HHtml

datatype hval = HText "string option" | HString string | HVal dval | HContent string "nat list option"

definition readAttribute :: "'h host_dom \<Rightarrow> 'h \<Rightarrow> string \<Rightarrow> string option" where
  "readAttribute host h a =
     (if hMethod host h ''hasAttribute'' \<and> hMethod host h ''getAttribute'' then hGetAttribute host h a
      else hMapAttribute host h a)"

definition readStyle :: "'h host_dom \<Rightarrow> 'h \<Rightarrow> string \<Rightarrow> string" where
  "readStyle host h s =
     (if isCustomStyleProperty s \<and> hStyleMethod host h ''getPropertyValue'' then hStylePropertyValue host h s
      else if isCustomStyleProperty s \<and> hStyleMap host h then hStyleMapValue host h s
      else hStyleField host h s)"

fun hread :: "'h host_dom \<Rightarrow> 'h \<Rightarrow> hslot \<Rightarrow> hval" where
  "hread host h (HAttr a) = HText (readAttribute host h a)"
| "hread host h (HStyle s) = HString (readStyle host h s)"
| "hread host h (HProp n) = HVal (hGetProperty host h n)"
| "hread host h HHtml = HContent (hInnerHTML host h) (hChildNodes host h)"

text \<open>The methods and fields a node has; no write changes them.\<close>
definition sameCaps :: "'h host_dom \<Rightarrow> 'h \<Rightarrow> 'h \<Rightarrow> bool" where
  "sameCaps host h h' \<longleftrightarrow>
     hMethod host h' = hMethod host h \<and> hAttributesMap host h' = hAttributesMap host h \<and>
     hHasProperty host h' = hHasProperty host h \<and> hStyleObject host h' = hStyleObject host h \<and>
     hStyleMethod host h' = hStyleMethod host h \<and> hStyleMap host h' = hStyleMap host h \<and>
     (hChildNodes host h' = None) = (hChildNodes host h = None)"

definition frame :: "'h host_dom \<Rightarrow> 'h \<Rightarrow> hslot set \<Rightarrow> 'h \<Rightarrow> bool" where
  "frame host h X h' \<longleftrightarrow> sameCaps host h h' \<and> (\<forall>y. y \<notin> X \<longrightarrow> hread host h' y = hread host h y)"

definition writes :: "'h host_dom \<Rightarrow> 'h \<Rightarrow> 'h outcome \<Rightarrow> hslot \<Rightarrow> hval \<Rightarrow> bool" where
  "writes host h out x v \<longleftrightarrow> frame host h {x} (snd out) \<and> (fst out = None \<longrightarrow> hread host (snd out) x = v)"

locale host_laws =
  fixes host :: "'h host_dom"
  assumes set_attribute: "writes host h (hSetAttribute host a v h) (HAttr a) (HText (Some v))"
    and remove_attribute: "writes host h (hRemoveAttribute host a h) (HAttr a) (HText None)"
    and set_property: "isSafePayloadPropertyName n \<Longrightarrow> writes host h (hSetProperty host n w h) (HProp n) (HVal w)"
    and set_style_field: "\<not> isCustomStyleProperty s \<Longrightarrow> writes host h (hSetStyleField host s v h) (HStyle s) (HString v)"
    and style_set_property: "isCustomStyleProperty s \<Longrightarrow> writes host h (hStyleSetProperty host s v h) (HStyle s) (HString v)"
    and set_inner_html_frame: "frame host h {HHtml} (snd (hSetInnerHTML host v h))"
    and set_inner_html: "fst (hSetInnerHTML host v h) = None \<Longrightarrow> hInnerHTML host (snd (hSetInnerHTML host v h)) = v"
    and set_child_nodes_frame: "hChildNodes host h \<noteq> None \<Longrightarrow> frame host h {HHtml} (hSetChildNodes host ns h)"
    and set_child_nodes: "hread host (hSetChildNodes host ns h) HHtml = HContent (hInnerHTML host h) (Some ns)"
    and clear_parent: "frame host h {} (hClearParent host c h)"
    and set_parent: "frame host h {} (hSetParent host c h)"

text \<open>The host takes back the values it had in the state \<open>h0\<close> without throwing.\<close>
definition restorable :: "'h host_dom \<Rightarrow> 'h \<Rightarrow> bool" where
  "restorable host h0 \<longleftrightarrow>
     (\<forall>h a. case readAttribute host h0 a of
        Some v \<Rightarrow> fst (hSetAttribute host a v h) = None | None \<Rightarrow> fst (hRemoveAttribute host a h) = None) \<and>
     (\<forall>h s. fst (hSetStyleField host s (readStyle host h0 s) h) = None \<and>
        fst (hStyleSetProperty host s (readStyle host h0 s) h) = None) \<and>
     (\<forall>h n. fst (hSetProperty host n (hGetProperty host h0 n) h) = None) \<and>
     (\<forall>w n. strictEq w (hGetProperty host h0 n) \<longrightarrow> w = hGetProperty host h0 n) \<and>
     (\<forall>h. fst (hSetInnerHTML host (hInnerHTML host h0) h) = None)"

subsection \<open>Frames\<close>

lemma sameCaps_refl [simp]: "sameCaps host h h"
  by (simp add: sameCaps_def)

lemma frame_refl [simp]: "frame host h X h"
  by (simp add: frame_def)

lemma frame_trans: "frame host h X h1 \<Longrightarrow> frame host h1 Y h2 \<Longrightarrow> frame host h (X \<union> Y) h2"
  by (auto simp: frame_def sameCaps_def)

lemma frame_mono: "frame host h X h' \<Longrightarrow> X \<subseteq> Y \<Longrightarrow> frame host h Y h'"
  by (auto simp: frame_def)

lemma frame_caps: "frame host h X h' \<Longrightarrow> sameCaps host h h'"
  by (simp add: frame_def)

lemma frame_read: "frame host h X h' \<Longrightarrow> y \<notin> X \<Longrightarrow> hread host h' y = hread host h y"
  by (simp add: frame_def)

lemma frame_foldl:
  assumes "\<And>g c. frame host g X (f g c)"
  shows "frame host h X (foldl f h cs)"
proof (induction cs arbitrary: h)
  case (Cons c cs)
  then show ?case using frame_trans [OF assms Cons.IH] by simp
qed simp

subsection \<open>Entries and their slots\<close>

fun hslotOf :: "payload_entry \<Rightarrow> hslot option" where
  "hslotOf (SetAttribute _ a _) = Some (HAttr a)"
| "hslotOf (RemoveAttribute _ a) = Some (HAttr a)"
| "hslotOf (SetProperty _ n _) = Some (HProp n)"
| "hslotOf (RemoveProperty _ n) = Some (HProp n)"
| "hslotOf (SetStyle _ s _ _) = Some (HStyle s)"
| "hslotOf (RemoveStyle _ s _ _) = Some (HStyle s)"
| "hslotOf (SetInnerHtml _ _ _) = Some HHtml"
| "hslotOf _ = None"

text \<open>Entries as the diff makes them: the mutation fits the style name, property names are safe.\<close>
fun wellTargeted :: "payload_entry \<Rightarrow> bool" where
  "wellTargeted (SetStyle _ s mut _) = (mut = getStyleMutationTarget s)"
| "wellTargeted (RemoveStyle _ s mut v) = (mut = getStyleMutationTarget s \<and> v = [])"
| "wellTargeted (SetProperty _ n _) = isSafePayloadPropertyName n"
| "wellTargeted (RemoveProperty _ n) = isSafePayloadPropertyName n"
| "wellTargeted e = True"

text \<open>The attributes and styles of the node, as the slots of \<open>Payload_Props\<close>.\<close>
fun hostSlots :: "'h host_dom \<Rightarrow> 'h \<Rightarrow> slots" where
  "hostSlots host h (AttrSlot a) = readAttribute host h a"
| "hostSlots host h (StyleSlot s) = (if readStyle host h s = [] then None else Some (readStyle host h s))"

lemma hostSlots_read:
  "hread host h' (HAttr a) = hread host h (HAttr a) \<Longrightarrow> hostSlots host h' (AttrSlot a) = hostSlots host h (AttrSlot a)"
  "hread host h' (HStyle s) = hread host h (HStyle s) \<Longrightarrow> hostSlots host h' (StyleSlot s) = hostSlots host h (StyleSlot s)"
  by simp_all

lemma getStyleMutationTarget_iff [simp]:
  "getStyleMutationTarget s = ''setProperty'' \<longleftrightarrow> isCustomStyleProperty s"
  "getStyleMutationTarget s = ''propertyAssignment'' \<longleftrightarrow> \<not> isCustomStyleProperty s"
  by (simp_all add: getStyleMutationTarget_def)

lemma style_snapshot:
  "getStyleRollbackSnapshot host h (getStyleMutationTarget s) s = Inr v \<Longrightarrow> v = readStyle host h s \<and> hStyleObject host h"
  by (auto simp: getStyleRollbackSnapshot_def assertStyleTarget_def readStyle_def split: if_splits)

lemma attribute_snapshot: "getAttributeRollbackSnapshot host h a = Inr v \<Longrightarrow> v = readAttribute host h a"
  by (auto simp: getAttributeRollbackSnapshot_def readAttribute_def split: if_splits)

lemma snapshot_caps:
  assumes "sameCaps host h0 h"
  shows "getAttributeRollbackSnapshot host h0 a = Inr v \<Longrightarrow> getAttributeRollbackSnapshot host h a = Inr (readAttribute host h a)"
    and "getStyleRollbackSnapshot host h0 (getStyleMutationTarget s) s = Inr w \<Longrightarrow>
           getStyleRollbackSnapshot host h (getStyleMutationTarget s) s = Inr (readStyle host h s)"
    and "getInnerHtmlRollbackSnapshot host h0 = Inr w \<Longrightarrow> getInnerHtmlRollbackSnapshot host h = Inr (hInnerHTML host h)"
  using assms
  by (auto simp: sameCaps_def getAttributeRollbackSnapshot_def getStyleRollbackSnapshot_def getInnerHtmlRollbackSnapshot_def
      assertStyleTarget_def readAttribute_def readStyle_def split: if_splits)

context host_laws
begin

lemma style_entry_writes:
  "writes host h (applyStylePayloadEntry host s (getStyleMutationTarget s) v h) (HStyle s) (HString v)"
  using set_style_field style_set_property by (cases "isCustomStyleProperty s") (simp_all add: applyStylePayloadEntry_def)

text \<open>Applying one entry touches its slot only.\<close>
lemma entry_frame:
  assumes "wellTargeted e"
  shows "frame host h (set_option (hslotOf e)) (snd (applyAdmittedNormalizedPropertyPayloadEntry host e h))"
  using assms set_attribute remove_attribute set_property style_entry_writes set_inner_html_frame
  by (cases e)
     (auto simp: applyAdmittedNormalizedPropertyPayloadEntry_def applyNormalizedPropertyPayloadEntry_def
       applyStyleDangerousHtmlPayloadEntry_def isOrdinaryPropertyPayloadEntry_def isStyleDangerousHtmlPayloadEntry_def
       isNonPayloadPropertyPayloadEntry_def writes_def)

text \<open>An entry that was applied acts on the slots as the abstract payload does.\<close>
lemma entry_applied:
  assumes "wellTargeted e" "applyAdmittedNormalizedPropertyPayloadEntry host e h = (None, h')"
  shows "hostSlots host h' = applyEntry e (hostSlots host h)"
proof
  fix x
  have fr: "frame host h (set_option (hslotOf e)) h'" using entry_frame [OF assms(1), of h] assms(2) by simp
  note simps = applyAdmittedNormalizedPropertyPayloadEntry_def applyNormalizedPropertyPayloadEntry_def
       applyStyleDangerousHtmlPayloadEntry_def isOrdinaryPropertyPayloadEntry_def isStyleDangerousHtmlPayloadEntry_def
  have attr: "HAttr a \<notin> set_option (hslotOf e) \<Longrightarrow> readAttribute host h' a = readAttribute host h a" for a
    using frame_read [OF fr, of "HAttr a"] by simp
  have style: "HStyle s \<notin> set_option (hslotOf e) \<Longrightarrow> readStyle host h' s = readStyle host h s" for s
    using frame_read [OF fr, of "HStyle s"] by simp
  show "hostSlots host h' x = applyEntry e (hostSlots host h) x"
  proof (cases e)
    case (SetAttribute k a v)
    then show ?thesis using attr style set_attribute [of h a v] assms(2)
      by (cases x) (auto simp: applyEntry_def simps writes_def)
  next
    case (RemoveAttribute k a)
    then show ?thesis using attr style remove_attribute [of h a] assms(2)
      by (cases x) (auto simp: applyEntry_def simps writes_def)
  next
    case (SetStyle k s mut v)
    then show ?thesis using attr style style_entry_writes [of h s v] assms
      by (cases x) (auto simp: applyEntry_def simps writes_def)
  next
    case (RemoveStyle k s mut v)
    then show ?thesis using attr style style_entry_writes [of h s v] assms
      by (cases x) (auto simp: applyEntry_def simps writes_def)
  qed (use attr style in \<open>cases x; simp add: applyEntry_def\<close>)+
qed

lemma loop_frame:
  assumes "list_all wellTargeted es" "applyLoop (applyAdmittedNormalizedPropertyPayloadEntry host) es n h = (err, m, h')"
  shows "n \<le> m \<and> m \<le> n + length es \<and> frame host h (\<Union>e \<in> set (take (m - n) es). set_option (hslotOf e)) h' \<and>
    (err = None \<longrightarrow> m = n + length es \<and> hostSlots host h' = applyPayload es (hostSlots host h))"
  using assms
proof (induction es arbitrary: n h)
  case (Cons e es)
  obtain er h1 where step: "applyAdmittedNormalizedPropertyPayloadEntry host e h = (er, h1)" by fastforce
  have fr: "frame host h (set_option (hslotOf e)) h1" using entry_frame [of e h] step Cons.prems by simp
  show ?case
  proof (cases er)
    case None
    have loop: "applyLoop (applyAdmittedNormalizedPropertyPayloadEntry host) es (n + 1) h1 = (err, m, h')"
      using Cons.prems(2) step None by simp
    have IH: "n + 1 \<le> m \<and> m \<le> n + 1 + length es \<and> frame host h1 (\<Union>e \<in> set (take (m - (n + 1)) es). set_option (hslotOf e)) h' \<and>
        (err = None \<longrightarrow> m = n + 1 + length es \<and> hostSlots host h' = applyPayload es (hostSlots host h1))"
      by (rule Cons.IH [OF _ loop]) (use Cons.prems(1) in simp)
    have "n + 1 \<le> m" using IH by blast
    then have "m - n = Suc (m - (n + 1))" by arith
    then have "frame host h (\<Union>e \<in> set (take (m - n) (e # es)). set_option (hslotOf e)) h'"
      using frame_trans [OF fr] IH by simp
    then show ?thesis using IH entry_applied [OF _ step [unfolded None]] Cons.prems(1) by auto
  next
    case (Some x)
    then have "m = n + 1" "h' = h1" "err = Some x" using Cons.prems(2) step by simp_all
    then show ?thesis using fr by simp
  qed
qed simp

end

subsection \<open>Rollback\<close>

fun rslot :: "rollback_record \<Rightarrow> hslot" where
  "rslot (AttributeRollback a _) = HAttr a"
| "rslot (PropertyRollback n _) = HProp n"
| "rslot (StyleRollback _ s _) = HStyle s"
| "rslot (InnerHtmlRollback _ _) = HHtml"

text \<open>A record taken of the state \<open>h0\<close>.\<close>
fun snapshotOf :: "'h host_dom \<Rightarrow> 'h \<Rightarrow> rollback_record \<Rightarrow> bool" where
  "snapshotOf host h0 (AttributeRollback a v) = (getAttributeRollbackSnapshot host h0 a = Inr v)"
| "snapshotOf host h0 (PropertyRollback n v) = (v = hGetProperty host h0 n \<and> isSafePayloadPropertyName n)"
| "snapshotOf host h0 (StyleRollback mut s v) =
     (mut = getStyleMutationTarget s \<and> getStyleRollbackSnapshot host h0 mut s = Inr v \<and>
      (mut = ''setProperty'' \<longrightarrow> hStyleMethod host h0 ''setProperty''))"
| "snapshotOf host h0 (InnerHtmlRollback ns v) =
     (ns = hChildNodes host h0 \<and> getInnerHtmlRollbackSnapshot host h0 = Inr v)"

context host_laws
begin

lemma restore_children_frame:
  assumes "hChildNodes host h \<noteq> None \<or> ns = None"
  shows "frame host h {HHtml} (restoreRollbackChildNodes host ns h) \<and>
    hread host (restoreRollbackChildNodes host ns h) HHtml =
      HContent (hInnerHTML host h) (case ns of None \<Rightarrow> hChildNodes host h | Some xs \<Rightarrow> Some xs)"
proof (cases "\<exists>xs cur. ns = Some xs \<and> hChildNodes host h = Some cur \<and> cur \<noteq> xs")
  case True
  then obtain xs cur where ns: "ns = Some xs" "hChildNodes host h = Some cur" "cur \<noteq> xs" by blast
  define h1 where "h1 = foldl (\<lambda>g c. if hParentIs host g c \<and> c \<notin> set xs then hClearParent host c g else g) h cur"
  define h2 where "h2 = foldl (\<lambda>g c. hSetParent host c g) h1 xs"
  have f: "frame host h {} h2"
  proof -
    have "frame host h {} h1" unfolding h1_def by (rule frame_foldl) (simp add: clear_parent)
    moreover have "frame host h1 {} h2" unfolding h2_def by (rule frame_foldl) (rule set_parent)
    ultimately show ?thesis using frame_trans by fastforce
  qed
  then have h2: "hInnerHTML host h2 = hInnerHTML host h" "hChildNodes host h2 = Some cur"
    using frame_read [OF f, of HHtml] ns by simp_all
  have "restoreRollbackChildNodes host ns h = hSetChildNodes host xs h2"
    using ns by (simp add: restoreRollbackChildNodes_def h1_def h2_def Let_def)
  moreover have "frame host h {HHtml} (hSetChildNodes host xs h2)"
    using frame_trans [OF f set_child_nodes_frame [of h2 xs]] h2 by simp
  ultimately show ?thesis using set_child_nodes [of xs h2] ns h2 by simp
next
  case False
  then show ?thesis using assms by (auto simp: restoreRollbackChildNodes_def split: option.splits)
qed

lemma restore_html:
  assumes c: "sameCaps host h0 h" and s: "snapshotOf host h0 (InnerHtmlRollback ns v)" and r: "restorable host h0"
  shows "\<exists>h'. applyDomPropertyPayloadRollbackRecord host (InnerHtmlRollback ns v) h = (None, h') \<and>
    frame host h {HHtml} h' \<and> hread host h' HHtml = hread host h0 HHtml"
proof -
  have v: "ns = hChildNodes host h0" "v = hInnerHTML host h0" "getInnerHtmlRollbackSnapshot host h0 = Inr v"
    using s by (auto simp: getInnerHtmlRollbackSnapshot_def split: if_splits)
  have snap: "getInnerHtmlRollbackSnapshot host h = Inr (hInnerHTML host h)" by (rule snapshot_caps(3) [OF c v(3)])
  have arr: "hChildNodes host h = None \<longleftrightarrow> ns = None" using c v(1) by (simp add: sameCaps_def)
  show ?thesis
  proof (cases "hInnerHTML host h = v \<and> (case ns of None \<Rightarrow> True | Some xs \<Rightarrow> hChildNodes host h = Some xs)")
    case True
    then have "hread host h HHtml = hread host h0 HHtml" using v arr by (auto split: option.splits)
    moreover have "applyDomPropertyPayloadRollbackRecord host (InnerHtmlRollback ns v) h = (None, h)"
      using True snap by (simp add: applyDomPropertyPayloadRollbackRecord_def innerHtmlRollbackRecordMatchesCurrentValue_def)
    ultimately show ?thesis by auto
  next
    case False
    define out where "out = (if hInnerHTML host h \<noteq> v then hSetInnerHTML host v h else (None, h))"
    have o: "fst out = None" "frame host h {HHtml} (snd out)" "hInnerHTML host (snd out) = v"
      using r set_inner_html_frame set_inner_html v(2) by (auto simp: out_def restorable_def)
    have "hChildNodes host (snd out) \<noteq> None \<or> ns = None"
      using frame_caps [OF o(2)] arr by (auto simp: sameCaps_def)
    note rc = restore_children_frame [OF this]
    have "applyDomPropertyPayloadRollbackRecord host (InnerHtmlRollback ns v) h = (None, restoreRollbackChildNodes host ns (snd out))"
      using False snap o(1) by (cases out) (auto simp add: applyDomPropertyPayloadRollbackRecord_def
          innerHtmlRollbackRecordMatchesCurrentValue_def applyInnerHtmlRollbackRecord_def out_def [symmetric])
    moreover have "frame host h {HHtml} (restoreRollbackChildNodes host ns (snd out))"
      using frame_trans [OF o(2) conjunct1 [OF rc]] by simp
    moreover have "hread host (restoreRollbackChildNodes host ns (snd out)) HHtml = hread host h0 HHtml"
      using rc o(3) v arr frame_caps [OF o(2)] by (auto simp: sameCaps_def split: option.splits)
    ultimately show ?thesis by blast
  qed
qed

text \<open>A rollback record gives its slot the value it had and touches nothing else.\<close>
lemma restore_slot:
  assumes c: "sameCaps host h0 h" and s: "snapshotOf host h0 r" and rs: "restorable host h0"
  shows "\<exists>h'. applyDomPropertyPayloadRollbackRecord host r h = (None, h') \<and>
    frame host h {rslot r} h' \<and> hread host h' (rslot r) = hread host h0 (rslot r)"
proof (cases r)
  case (AttributeRollback a old)
  have old: "old = readAttribute host h0 a" and snap: "getAttributeRollbackSnapshot host h a = Inr (readAttribute host h a)"
    using s attribute_snapshot snapshot_caps(1) [OF c] by (auto simp: AttributeRollback)
  have ok: "case old of Some v \<Rightarrow> fst (hSetAttribute host a v h) = None | None \<Rightarrow> fst (hRemoveAttribute host a h) = None"
    using rs old by (simp add: restorable_def)
  show ?thesis
    using snap old ok set_attribute [of h a] remove_attribute [of h a]
    by (cases old) (fastforce simp: AttributeRollback applyDomPropertyPayloadRollbackRecord_def writes_def prod_eq_iff)+
next
  case (PropertyRollback n v)
  then have v: "v = hGetProperty host h0 n" "isSafePayloadPropertyName n" using s by auto
  show ?thesis
  proof (cases "strictEq (hGetProperty host h n) v")
    case True
    then have "hGetProperty host h n = v" using rs v(1) by (simp add: restorable_def)
    then show ?thesis using True v by (auto simp: PropertyRollback applyDomPropertyPayloadRollbackRecord_def)
  next
    case False
    then show ?thesis using rs v set_property [OF v(2), of h v]
      by (auto simp: PropertyRollback applyDomPropertyPayloadRollbackRecord_def writes_def restorable_def prod_eq_iff)
  qed
next
  case (StyleRollback mut st v)
  then have m: "mut = getStyleMutationTarget st" "getStyleRollbackSnapshot host h0 mut st = Inr v"
    "mut = ''setProperty'' \<longrightarrow> hStyleMethod host h ''setProperty''"
    using s c by (auto simp: sameCaps_def)
  then have v: "v = readStyle host h0 st" "hStyleObject host h"
    using style_snapshot [of host h0 st v] c by (auto simp: sameCaps_def)
  have snap: "getStyleRollbackSnapshot host h mut st = Inr (readStyle host h st)"
    using snapshot_caps(2) [OF c] m by simp
  have restore: "applyStyleRollbackRecord host mut st v h = applyStylePayloadEntry host st mut v h"
    using v(2) m(3) by (simp add: applyStyleRollbackRecord_def applyStylePayloadEntry_def assertStyleTarget_def assertStyleSetPropertyTarget_def)
  have "fst (applyStylePayloadEntry host st mut v h) = None"
    using rs v(1) by (simp add: applyStylePayloadEntry_def restorable_def)
  then show ?thesis
    using snap restore v(1) m(1) style_entry_writes [of h st v]
    by (auto simp: StyleRollback applyDomPropertyPayloadRollbackRecord_def writes_def prod_eq_iff)
next
  case (InnerHtmlRollback ns v)
  then show ?thesis using restore_html [OF c _ rs] s by simp
qed

lemma rollback_loop:
  assumes "sameCaps host h0 h" "restorable host h0" "\<And>r. Some r \<in> set rs \<Longrightarrow> snapshotOf host h0 r"
  shows "\<exists>h'. rollbackLoop host rs None h = (None, h') \<and> sameCaps host h0 h' \<and>
    (\<forall>x. hread host h' x = (if x \<in> rslot ` {r. Some r \<in> set rs} then hread host h0 x else hread host h x))"
  using assms
proof (induction rs arbitrary: h)
  case (Cons ro rs)
  show ?case
  proof (cases ro)
    case None
    then show ?thesis using Cons by simp
  next
    case (Some r)
    obtain h1 where h1: "applyDomPropertyPayloadRollbackRecord host r h = (None, h1)" "frame host h {rslot r} h1"
      "hread host h1 (rslot r) = hread host h0 (rslot r)"
      using restore_slot [OF Cons.prems(1) _ Cons.prems(2), of r] Cons.prems(3) Some by auto
    have "sameCaps host h0 h1" using frame_caps [OF h1(2)] Cons.prems(1) by (simp add: sameCaps_def)
    then obtain h' where h': "rollbackLoop host rs None h1 = (None, h')" "sameCaps host h0 h'"
      "\<And>x. hread host h' x = (if x \<in> rslot ` {r. Some r \<in> set rs} then hread host h0 x else hread host h1 x)"
      using Cons.IH [of h1] Cons.prems by auto
    have "hread host h' x = (if x \<in> rslot ` {r. Some r \<in> set (ro # rs)} then hread host h0 x else hread host h x)" for x
      using h'(3) [of x] h1(3) frame_read [OF h1(2), of x] Some by auto
    then show ?thesis using h' h1(1) Some by simp
  qed
qed simp

end

end
