(* ===== verification/Host_Fake.thy ===== *)
theory Host_Fake
  imports Host_Laws
begin

text \<open>
  The fake DOM element the repository applies payloads to in its own checks
  (\<open>tests/smoke/react-dom-mutation-adapter-shell.mjs\<close>, classes \<open>FakeElement\<close> and \<open>FakeStyle\<close>), with
  the attributes, styles, settable properties and content it keeps, as an instance of the laws
  of \<open>host_laws\<close>. A fault set lists writes that throw instead of writing.
\<close>

datatype fake_call =
    FakeSetAttribute string string
  | FakeRemoveAttribute string
  | FakeSetStyle string string
  | FakeSetProperty string dval
  | FakeSetInnerHTML string

record fake_element =
  feAttributes :: "string \<rightharpoonup> string"
  feStyleFields :: "string \<Rightarrow> string"
  feStyleProperties :: "string \<Rightarrow> string"
  feProperties :: "string \<Rightarrow> dval"
  feInnerHTML :: string
  feChildNodes :: "nat list"
  feOwnedChildren :: "nat set"

definition newFakeElement :: fake_element where
  "newFakeElement =
     \<lparr>feAttributes = Map.empty, feStyleFields = (\<lambda>_. []), feStyleProperties = (\<lambda>_. []),
      feProperties = (\<lambda>_. DNull), feInnerHTML = [], feChildNodes = [], feOwnedChildren = {}\<rparr>"

definition fakeWrite :: "fake_call set \<Rightarrow> fake_call \<Rightarrow> fake_element \<Rightarrow> fake_element \<Rightarrow> fake_element outcome" where
  "fakeWrite faults c h h' = (if c \<in> faults then (Some (TypeError ''fault''), h) else (None, h'))"

definition fakeDom :: "fake_call set \<Rightarrow> fake_element host_dom" where
  "fakeDom faults =
     \<lparr>hMethod = (\<lambda>h m. m \<in> {''setAttribute'', ''removeAttribute'', ''hasAttribute'', ''getAttribute''}),
      hAttributesMap = (\<lambda>h. True),
      hGetAttribute = (\<lambda>h a. feAttributes h a),
      hMapAttribute = (\<lambda>h a. feAttributes h a),
      hSetAttribute = (\<lambda>a v h. fakeWrite faults (FakeSetAttribute a v) h (h\<lparr>feAttributes := (feAttributes h)(a \<mapsto> v)\<rparr>)),
      hRemoveAttribute = (\<lambda>a h. fakeWrite faults (FakeRemoveAttribute a) h (h\<lparr>feAttributes := (feAttributes h)(a := None)\<rparr>)),
      hHasProperty = (\<lambda>h n. n \<in> {''innerHTML'', ''textContent'', ''boolProp'', ''objectProp''}),
      hGetProperty = (\<lambda>h n. feProperties h n),
      hSetProperty = (\<lambda>n w h. fakeWrite faults (FakeSetProperty n w) h (h\<lparr>feProperties := (feProperties h)(n := w)\<rparr>)),
      hStyleObject = (\<lambda>h. True),
      hStyleMethod = (\<lambda>h m. m = ''setProperty''),
      hStyleMap = (\<lambda>h. True),
      hStylePropertyValue = (\<lambda>h s. feStyleProperties h s),
      hStyleMapValue = (\<lambda>h s. feStyleProperties h s),
      hStyleField = (\<lambda>h s. feStyleFields h s),
      hStyleSetProperty = (\<lambda>s v h. fakeWrite faults (FakeSetStyle s v) h
         (h\<lparr>feStyleProperties := (feStyleProperties h)(s := v)\<rparr>)),
      hSetStyleField = (\<lambda>s v h. fakeWrite faults (FakeSetStyle s v) h
         (h\<lparr>feStyleFields := (feStyleFields h)(s := v), feStyleProperties := (feStyleProperties h)(s := v)\<rparr>)),
      hInnerHTML = feInnerHTML,
      hSetInnerHTML = (\<lambda>v h. fakeWrite faults (FakeSetInnerHTML v) h
         (h\<lparr>feInnerHTML := v, feChildNodes := [], feOwnedChildren := feOwnedChildren h - set (feChildNodes h)\<rparr>)),
      hChildNodes = (\<lambda>h. Some (feChildNodes h)),
      hSetChildNodes = (\<lambda>ns h. h\<lparr>feChildNodes := ns\<rparr>),
      hParentIs = (\<lambda>h c. c \<in> feOwnedChildren h),
      hClearParent = (\<lambda>c h. h\<lparr>feOwnedChildren := feOwnedChildren h - {c}\<rparr>),
      hSetParent = (\<lambda>c h. h\<lparr>feOwnedChildren := insert c (feOwnedChildren h)\<rparr>)\<rparr>"

lemma fake_reads:
  "hread (fakeDom F) h (HAttr a) = HText (feAttributes h a)"
  "hread (fakeDom F) h (HStyle s) = HString (if isCustomStyleProperty s then feStyleProperties h s else feStyleFields h s)"
  "hread (fakeDom F) h (HProp n) = HVal (feProperties h n)"
  "hread (fakeDom F) h HHtml = HContent (feInnerHTML h) (Some (feChildNodes h))"
  by (simp_all add: fakeDom_def readAttribute_def readStyle_def)

lemma fake_caps: "sameCaps (fakeDom F) h h'"
  by (simp add: fakeDom_def sameCaps_def)

lemma fake_frameI:
  assumes "\<And>a. HAttr a \<notin> X \<Longrightarrow> feAttributes h' a = feAttributes h a"
    and "\<And>s. HStyle s \<notin> X \<Longrightarrow> \<not> isCustomStyleProperty s \<Longrightarrow> feStyleFields h' s = feStyleFields h s"
    and "\<And>s. HStyle s \<notin> X \<Longrightarrow> isCustomStyleProperty s \<Longrightarrow> feStyleProperties h' s = feStyleProperties h s"
    and "\<And>n. HProp n \<notin> X \<Longrightarrow> feProperties h' n = feProperties h n"
    and "HHtml \<notin> X \<Longrightarrow> feInnerHTML h' = feInnerHTML h \<and> feChildNodes h' = feChildNodes h"
  shows "frame (fakeDom F) h X h'"
  unfolding frame_def
proof (intro conjI allI impI fake_caps)
  fix y assume "y \<notin> X"
  then show "hread (fakeDom F) h' y = hread (fakeDom F) h y"
    using assms by (cases y) (simp_all only: fake_reads split: if_split, auto)
qed

lemma fake_writesI:
  "out = fakeWrite F c h h' \<Longrightarrow> frame (fakeDom F) h {x} h' \<Longrightarrow> hread (fakeDom F) h' x = v \<Longrightarrow> writes (fakeDom F) h out x v"
  by (simp add: writes_def fakeWrite_def)

lemma fake_calls:
  "hSetAttribute (fakeDom F) a v h = fakeWrite F (FakeSetAttribute a v) h (h\<lparr>feAttributes := (feAttributes h)(a \<mapsto> v)\<rparr>)"
  "hRemoveAttribute (fakeDom F) a h = fakeWrite F (FakeRemoveAttribute a) h (h\<lparr>feAttributes := (feAttributes h)(a := None)\<rparr>)"
  "hSetProperty (fakeDom F) n w h = fakeWrite F (FakeSetProperty n w) h (h\<lparr>feProperties := (feProperties h)(n := w)\<rparr>)"
  "hSetStyleField (fakeDom F) s v h = fakeWrite F (FakeSetStyle s v) h
     (h\<lparr>feStyleFields := (feStyleFields h)(s := v), feStyleProperties := (feStyleProperties h)(s := v)\<rparr>)"
  "hStyleSetProperty (fakeDom F) s v h = fakeWrite F (FakeSetStyle s v) h (h\<lparr>feStyleProperties := (feStyleProperties h)(s := v)\<rparr>)"
  by (simp_all add: fakeDom_def)

interpretation fake: host_laws "fakeDom F" for F
proof (unfold_locales)
  fix h :: fake_element and a v s n w c ns
  show "writes (fakeDom F) h (hSetAttribute (fakeDom F) a v h) (HAttr a) (HText (Some v))"
    by (rule fake_writesI [OF fake_calls(1)], rule fake_frameI) (auto simp: fake_reads simp del: hread.simps)
  show "writes (fakeDom F) h (hRemoveAttribute (fakeDom F) a h) (HAttr a) (HText None)"
    by (rule fake_writesI [OF fake_calls(2)], rule fake_frameI) (auto simp: fake_reads simp del: hread.simps)
  show "writes (fakeDom F) h (hSetProperty (fakeDom F) n w h) (HProp n) (HVal w)"
    by (rule fake_writesI [OF fake_calls(3)], rule fake_frameI) (auto simp: fake_reads simp del: hread.simps)
  show "\<not> isCustomStyleProperty s \<Longrightarrow> writes (fakeDom F) h (hSetStyleField (fakeDom F) s v h) (HStyle s) (HString v)"
    by (rule fake_writesI [OF fake_calls(4)], rule fake_frameI) (auto simp: fake_reads simp del: hread.simps)
  show "isCustomStyleProperty s \<Longrightarrow> writes (fakeDom F) h (hStyleSetProperty (fakeDom F) s v h) (HStyle s) (HString v)"
    by (rule fake_writesI [OF fake_calls(5)], rule fake_frameI) (auto simp: fake_reads simp del: hread.simps)
  show "frame (fakeDom F) h {HHtml} (snd (hSetInnerHTML (fakeDom F) v h))"
    by (rule fake_frameI) (auto simp: fakeDom_def fakeWrite_def)
  show "fst (hSetInnerHTML (fakeDom F) v h) = None \<Longrightarrow> hInnerHTML (fakeDom F) (snd (hSetInnerHTML (fakeDom F) v h)) = v"
    by (auto simp: fakeDom_def fakeWrite_def split: if_splits)
  show "frame (fakeDom F) h {HHtml} (hSetChildNodes (fakeDom F) ns h)"
    by (rule fake_frameI) (auto simp: fakeDom_def)
  show "hread (fakeDom F) (hSetChildNodes (fakeDom F) ns h) HHtml = HContent (hInnerHTML (fakeDom F) h) (Some ns)"
    by (simp add: fakeDom_def)
  show "frame (fakeDom F) h {} (hClearParent (fakeDom F) c h)" "frame (fakeDom F) h {} (hSetParent (fakeDom F) c h)"
    by (rule fake_frameI; simp add: fakeDom_def)+
qed

end
