(* ===== verification/Host_Props.thy ===== *)
theory Host_Props
  imports Host_Fake
begin

text \<open>
  Correctness of the payload commit: a commit writes exactly what the abstract payload says, a
  commit that throws leaves the host node as it was, and a commit can be rolled back.
\<close>

subsection \<open>Normalisation and snapshots of a whole payload\<close>

lemma mapEntries_Inr:
  "mapEntries f es i = Inr xs \<Longrightarrow>
   length xs = length es \<and> (\<forall>j < length es. f (es ! j) (i + j) = Inr (xs ! j))"
proof (induction es arbitrary: i xs)
  case (Cons e es)
  then obtain x ys where x: "f e i = Inr x" "mapEntries f es (i + 1) = Inr ys" "xs = x # ys"
    by (auto split: sum.splits)
  have "f ((e # es) ! j) (i + j) = Inr (xs ! j)" if "j < length (e # es)" for j
    using Cons.IH [OF x(2)] x that by (cases j) auto
  then show ?case using Cons.IH [OF x(2)] x(3) by simp
qed simp

lemma mapEntries_total: "(\<And>e i. e \<in> set es \<Longrightarrow> \<exists>x. f e i = Inr x) \<Longrightarrow> \<exists>xs. mapEntries f es i = Inr xs"
proof (induction es arbitrary: i)
  case (Cons e es)
  obtain x ys where "f e i = Inr x" "mapEntries f es (i + 1) = Inr ys" using Cons by fastforce
  then show ?case by simp
qed simp

lemma checked_Inr: "checked cs x = Inr y \<longleftrightarrow> y = x \<and> (\<forall>c \<in> set cs. c = None)"
  by (induction cs x rule: checked.induct) auto

text \<open>What normalisation establishes of an entry.\<close>
fun hostAccepts :: "'h host_dom \<Rightarrow> 'h \<Rightarrow> payload_entry \<Rightarrow> bool" where
  "hostAccepts host h (SetAttribute k a v) = hMethod host h ''setAttribute''"
| "hostAccepts host h (RemoveAttribute k a) = hMethod host h ''removeAttribute''"
| "hostAccepts host h (SetProperty k n v) = hHasProperty host h n"
| "hostAccepts host h (RemoveProperty k n) = hHasProperty host h n"
| "hostAccepts host h (SetStyle k s mut v) = (hStyleObject host h \<and> (mut = ''setProperty'' \<longrightarrow> hStyleMethod host h ''setProperty''))"
| "hostAccepts host h (RemoveStyle k s mut v) = (hStyleObject host h \<and> (mut = ''setProperty'' \<longrightarrow> hStyleMethod host h ''setProperty''))"
| "hostAccepts host h (SetInnerHtml k n v) = hHasProperty host h ''innerHTML''"
| "hostAccepts host h _ = True"

lemmas normalize_defs =
  normalizeAdmittedDomPropertyPayloadEntry_def normalizePropertyPayloadEntry_def
  validateStyleDangerousHtmlPayloadEntry_def validateStylePayloadEntry_def validateInnerHtmlPayloadEntry_def
  normalizeNonPayloadPropertyPayloadEntry_def assertAttributePayloadTarget_def assertPropertyPayloadTarget_def
  assertStyleTarget_def assertStyleSetPropertyTarget_def normalizePayloadAttributeName_def
  normalizePayloadPropertyName_def normalizePayloadPropName_def
  isOrdinaryPropertyPayloadEntry_def isStyleDangerousHtmlPayloadEntry_def isNonPayloadPropertyPayloadEntry_def

lemma normalized_entry:
  "normalizeAdmittedDomPropertyPayloadEntry host h e i = Inr e' \<Longrightarrow> e' = e \<and> hostAccepts host h e"
  by (cases e) (auto simp: normalize_defs checked_Inr split: if_splits option.splits)

lemma normalized_payload:
  assumes "mapEntries (normalizeAdmittedDomPropertyPayloadEntry host h) payload 0 = Inr entries"
  shows "entries = payload \<and> list_all (hostAccepts host h) payload"
proof -
  have l: "length entries = length payload" using mapEntries_Inr [OF assms] by simp
  have j: "normalizeAdmittedDomPropertyPayloadEntry host h (payload ! j) j = Inr (entries ! j)" if "j < length payload" for j
    using mapEntries_Inr [OF assms] that by simp
  have "entries ! j = payload ! j \<and> hostAccepts host h (payload ! j)" if "j < length payload" for j
    by (rule normalized_entry [OF j [OF that]])
  then show ?thesis using l by (simp add: list_all_length nth_equalityI)
qed

lemma rollback_record_of:
  assumes "createDomPropertyPayloadRollbackRecord host h e = Inr ro" "wellTargeted e" "hostAccepts host h e"
  shows "map_option rslot ro = hslotOf e \<and> (\<forall>r. ro = Some r \<longrightarrow> snapshotOf host h r)"
  using assms
  by (cases e) (auto simp: createDomPropertyPayloadRollbackRecord_def createAttributePayloadRollbackRecord_def map_sum_def
      split: option.splits sum.splits)

lemma rollback_records_of:
  assumes "createDomPropertyPayloadRollbackRecords host h es = Inr rs" "list_all wellTargeted es" "list_all (hostAccepts host h) es"
  shows "map (map_option rslot) rs = map hslotOf es \<and> (\<forall>r. Some r \<in> set rs \<longrightarrow> snapshotOf host h r)"
proof -
  have l: "length rs = length es" "\<And>j. j < length es \<Longrightarrow> createDomPropertyPayloadRollbackRecord host h (es ! j) = Inr (rs ! j)"
    using mapEntries_Inr assms(1) unfolding createDomPropertyPayloadRollbackRecords_def by fastforce+
  have r: "map_option rslot (rs ! j) = hslotOf (es ! j) \<and> (\<forall>r. rs ! j = Some r \<longrightarrow> snapshotOf host h r)" if "j < length es" for j
    using rollback_record_of [OF l(2) [OF that]] assms(2,3) that by (simp add: list_all_length)
  then show ?thesis using l(1) by (auto intro!: nth_equalityI simp: in_set_conv_nth)
qed

lemma some_image: "Some x \<in> map_option f ` S \<longleftrightarrow> x \<in> f ` {r. Some r \<in> S}"
proof
  assume "Some x \<in> map_option f ` S"
  then obtain y where "y \<in> S" "Some x = map_option f y" by (rule imageE) blast
  then show "x \<in> f ` {r. Some r \<in> S}" by (cases y) auto
next
  assume "x \<in> f ` {r. Some r \<in> S}"
  then obtain r where "Some r \<in> S" "x = f r" by blast
  then show "Some x \<in> map_option f ` S" by (simp add: image_iff bexI [of _ "Some r"])
qed

lemma rslots_take:
  assumes "map (map_option rslot) rs = map hslotOf es"
  shows "rslot ` {r. Some r \<in> set (rev (take n rs))} = (\<Union>e \<in> set (take n es). set_option (hslotOf e))"
proof -
  have "map (map_option rslot) (take n rs) = map hslotOf (take n es)" using assms by (metis take_map)
  then have "set (map (map_option rslot) (take n rs)) = set (map hslotOf (take n es))" by (rule arg_cong)
  then have img: "map_option rslot ` set (take n rs) = hslotOf ` set (take n es)" by (simp only: set_map)
  have "x \<in> rslot ` {r. Some r \<in> set (rev (take n rs))} \<longleftrightarrow> Some x \<in> hslotOf ` set (take n es)" for x
    unfolding set_rev some_image [symmetric] img ..
  moreover have "Some x \<in> hslotOf ` set (take n es) \<longleftrightarrow> x \<in> (\<Union>e \<in> set (take n es). set_option (hslotOf e))" for x
    by (force simp: elem_set)
  ultimately show ?thesis by blast
qed

context host_laws
begin

text \<open>Rolling back the entries begun restores everything the code can read.\<close>
lemma rollback_restores:
  assumes rs: "createDomPropertyPayloadRollbackRecords host h es = Inr rs" and wt: "list_all wellTargeted es"
    and acc: "list_all (hostAccepts host h) es" and res: "restorable host h"
    and fr: "frame host h (\<Union>e \<in> set (take n es). set_option (hslotOf e)) h'"
  shows "\<exists>h''. rollbackDomPropertyPayloadEntries host rs n h' = (None, h'') \<and> hread host h'' = hread host h"
proof -
  note R = rollback_records_of [OF rs wt acc]
  have "\<And>r. Some r \<in> set (rev (take n rs)) \<Longrightarrow> snapshotOf host h r" using R by (auto dest: in_set_takeD)
  then obtain h'' where h'': "rollbackLoop host (rev (take n rs)) None h' = (None, h'')"
    "\<And>x. hread host h'' x = (if x \<in> rslot ` {r. Some r \<in> set (rev (take n rs))} then hread host h x else hread host h' x)"
    using rollback_loop [OF frame_caps [OF fr] res, of "rev (take n rs)"] by blast
  have "hread host h'' x = hread host h x" for x
    using h''(2) [of x] frame_read [OF fr, of x] unfolding rslots_take [OF conjunct1 [OF R]] by auto
  then show ?thesis using h''(1) by (auto simp: rollbackDomPropertyPayloadEntries_def)
qed

lemma apply_result:
  assumes wt: "list_all wellTargeted payload" and res: "restorable host h"
    and ap: "applyAdmittedDomPropertyPayload host payload h = (r, h')"
  shows "(case r of
      Inl e \<Rightarrow> hread host h' = hread host h
    | Inr recs \<Rightarrow> hostSlots host h' = applyPayload payload (hostSlots host h) \<and>
        (\<exists>h''. rollbackDomPropertyPayloadMutationRecords host (Some recs) h' = (Inr (length (filter (\<lambda>e. hslotOf e \<noteq> None) payload)), h'') \<and>
           hread host h'' = hread host h))"
proof (cases "mapEntries (normalizeAdmittedDomPropertyPayloadEntry host h) payload 0")
  case (Inl e)
  then show ?thesis using ap by (auto simp: applyAdmittedDomPropertyPayload_def)
next
  case (Inr entries)
  note N = normalized_payload [OF Inr]
  show ?thesis
  proof (cases "createDomPropertyPayloadRollbackRecords host h payload")
    case (Inl e)
    then show ?thesis using ap Inr N by (auto simp: applyAdmittedDomPropertyPayload_def applyWithRollback_def)
  next
    case rs: (Inr rs)
    obtain err n h1 where loop: "applyLoop (applyAdmittedNormalizedPropertyPayloadEntry host) payload 0 h = (err, n, h1)"
      by (cases "applyLoop (applyAdmittedNormalizedPropertyPayloadEntry host) payload 0 h")
    note L = loop_frame [OF wt loop, simplified]
    have undone: "\<exists>h''. rollbackDomPropertyPayloadEntries host rs n h1 = (None, h'') \<and> hread host h'' = hread host h"
      using rollback_restores [OF rs wt _ res] L N by blast
    show ?thesis
    proof (cases err)
      case (Some e)
      then have "r = Inl e" "h' = snd (rollbackDomPropertyPayloadEntries host rs n h1)"
        using ap Inr N rs loop by (auto simp: applyAdmittedDomPropertyPayload_def applyWithRollback_def)
      then show ?thesis using undone by auto
    next
      case None
      have len: "length rs = n"
        using arg_cong [OF conjunct1 [OF rollback_records_of [OF rs wt conjunct2 [OF N]]], of length] L None by simp
      have "r = Inr (createDomPropertyPayloadMutationRecords (map createAdmittedPropertyPayloadRecord payload) rs)" "h' = h1"
        using ap Inr N rs loop None by (auto simp: applyAdmittedDomPropertyPayload_def applyWithRollback_def)
      moreover have "length (filter (\<lambda>r. r \<noteq> None) rs) = length (filter (\<lambda>e. hslotOf e \<noteq> None) payload)"
      proof -
        have "length (filter (\<lambda>r. r \<noteq> None) rs) = length (filter (\<lambda>y. y \<noteq> None) (map (map_option rslot) rs))"
          by (simp add: filter_map comp_def)
        also have "\<dots> = length (filter (\<lambda>e. hslotOf e \<noteq> None) payload)"
          unfolding conjunct1 [OF rollback_records_of [OF rs wt conjunct2 [OF N]]] by (simp add: filter_map comp_def)
        finally show ?thesis .
      qed
      ultimately show ?thesis
        using undone L None len by (auto simp: rollbackDomPropertyPayloadMutationRecords_def createDomPropertyPayloadMutationRecords_def)
    qed
  qed
qed

end

subsection \<open>Payloads of the diff\<close>

lemma diff_wellTargeted:
  assumes "diffDomPropertyPayload env tag P C = Inr p"
  shows "list_all wellTargeted p"
proof -
  have "entrySafe tag C e \<Longrightarrow> wellTargeted e" for e by (cases e) (auto simp: styleEntrySafe_def)
  then show ?thesis using payload_entry_safe [OF assms] by (auto simp: list_all_iff)
qed

text \<open>A skipped entry with its category and reason; a prop named after a member of \<open>Object.prototype\<close> lacks them.\<close>
fun described :: "payload_entry \<Rightarrow> bool" where
  "described (NonPayload k c r) = (c \<noteq> None \<and> r \<noteq> None)"
| "described e = True"

lemma createEntries_described:
  assumes c: "createEntries env tag k v pv ps = Inr es" "e \<in> set es" and k: "k \<notin> set objectPrototypeNames"
  shows "described e"
proof -
  have r: "readTable reservedNonPayloadProps k \<noteq> Some None" using k by (auto simp: readTable_def split: option.splits)
  have kinds: "entryKind e \<noteq> ''nonPayload'' \<Longrightarrow> described e" by (cases e) auto
  have html: "described (createDangerousHtmlEntry k v ps)"
    by (auto simp: createDangerousHtmlEntry_def Let_def createSetInnerHtmlEntry_def split: dval.splits)
  have style: "e' \<in> set (createStyleEntries ''style'' v pv) \<Longrightarrow> described e'" for e'
    by (cases e') (auto simp: createStyleEntries_def Let_def createStyleValueEntryOrUnsupported_def
        createRemoveStyleEntryOrUnsupported_def unsupportedStyleName_def createRemoveStyleEntry_def createSetStyleEntry_def
        coerceStyleValue_def split: if_splits sum.splits dval.splits)
  have ordinary: "e' \<in> set (createOrdinaryEntries env k v) \<Longrightarrow> described e'" for e'
    by (cases e') (auto simp: createOrdinaryEntries_def createAttributeEntry_def coerceSetAttributeEntry_def
        split: if_splits option.splits)
  have form: "createControlledFormUnsupportedEntry env t k ps = Inr e' \<Longrightarrow> described e'" for t e'
    by (auto simp: createControlledFormUnsupportedEntry_def split: sum.splits)
  show ?thesis
  proof (cases "readTable reservedNonPayloadProps k")
    case (Some ro)
    then obtain x where "ro = Some x" using r by (cases ro) auto
    then show ?thesis using c Some by (auto simp: createEntries_def)
  next
    case None
    then show ?thesis
      using c html style ordinary form
      by (auto simp: createEntries_def map_sum_def split: option.splits if_splits sum.splits dval.splits)
  qed
qed

definition noPrototypeKeys :: "string list \<Rightarrow> bool" where
  "noPrototypeKeys ks = list_all (\<lambda>k. k \<notin> set objectPrototypeNames) ks"

lemma chunk_described:
  "e \<in> set (removalChunk env tag P C k) \<Longrightarrow> k \<notin> set objectPrototypeNames \<Longrightarrow> described e"
  "e \<in> set (updateChunk env tag P C k) \<Longrightarrow> k \<notin> set objectPrototypeNames \<Longrightarrow> described e"
  by (auto simp: removalChunk_def updateChunk_def in_okEntries split: if_splits intro: createEntries_described)

lemma diff_described:
  assumes "diffDomPropertyPayload env tag P C = Inr p" "noPrototypeKeys (objectKeys P @ objectKeys C)"
  shows "list_all described p"
proof -
  have "described e" if "e \<in> set p" for e
    using that assms chunk_described [of e env tag "normProps P" "normProps C"]
    by (auto simp: diff_Inr noPrototypeKeys_def list_all_iff)
  then show ?thesis by (simp add: list_all_iff)
qed

subsection \<open>Hosts that accept every payload\<close>

definition capable :: "'h host_dom \<Rightarrow> 'h \<Rightarrow> bool" where
  "capable host h \<longleftrightarrow>
     hMethod host h ''setAttribute'' \<and> hMethod host h ''removeAttribute'' \<and>
     (hMethod host h ''hasAttribute'' \<and> hMethod host h ''getAttribute'' \<or> hAttributesMap host h) \<and>
     hStyleObject host h \<and> hStyleMethod host h ''setProperty'' \<and> hHasProperty host h ''innerHTML''"

definition infallible :: "'h host_dom \<Rightarrow> bool" where
  "infallible host \<longleftrightarrow>
     (\<forall>a v h. fst (hSetAttribute host a v h) = None) \<and> (\<forall>a h. fst (hRemoveAttribute host a h) = None) \<and>
     (\<forall>s v h. fst (hSetStyleField host s v h) = None \<and> fst (hStyleSetProperty host s v h) = None) \<and>
     (\<forall>v h. fst (hSetInnerHTML host v h) = None)"

lemma getOrdinaryAttribute_empty: "map_option fst (getOrdinaryAttribute k) = Some a \<Longrightarrow> isAttributeNameSafe a \<Longrightarrow> k \<noteq> []"
  by (auto simp: getOrdinaryAttribute_def isAttributeNameSafe_def attributeAliases_def split: option.splits if_splits)

lemma normalizes:
  assumes "capable host h" "entrySafe tag C e" "\<not> isUnsupported e" "described e"
  shows "normalizeAdmittedDomPropertyPayloadEntry host h e i = Inr e"
proof (cases e)
  case (SetAttribute k a v)
  then have s: "isAttributeNameSafe a" "k \<noteq> []"
    using assms(2) getOrdinaryAttribute_empty by (auto simp: attributeSafe_def)
  then have "a \<noteq> []" by (auto simp: isAttributeNameSafe_def)
  then show ?thesis using s assms(1) by (simp add: SetAttribute normalize_defs capable_def)
next
  case (RemoveAttribute k a)
  then have s: "isAttributeNameSafe a" "k \<noteq> []"
    using assms(2) getOrdinaryAttribute_empty by (auto simp: attributeSafe_def)
  then have "a \<noteq> []" by (auto simp: isAttributeNameSafe_def)
  then show ?thesis using s assms(1) by (simp add: RemoveAttribute normalize_defs capable_def)
qed (use assms in \<open>auto simp: normalize_defs capable_def styleEntrySafe_def isUnsupported_def\<close>)

lemma snapshots:
  assumes "capable host h" "entrySafe tag C e"
  shows "\<exists>ro. createDomPropertyPayloadRollbackRecord host h e = Inr ro"
  using assms
  by (cases e) (auto simp: createDomPropertyPayloadRollbackRecord_def createAttributePayloadRollbackRecord_def
      assertAttributeRollbackTarget_def getAttributeRollbackSnapshot_def getStyleRollbackSnapshot_def assertStyleTarget_def
      getInnerHtmlRollbackSnapshot_def capable_def)

lemma applies:
  assumes "infallible host" "entrySafe tag C e" "\<not> isUnsupported e"
  shows "fst (applyAdmittedNormalizedPropertyPayloadEntry host e h) = None"
  using assms
  by (cases e) (auto simp: applyAdmittedNormalizedPropertyPayloadEntry_def applyNormalizedPropertyPayloadEntry_def
      applyStyleDangerousHtmlPayloadEntry_def applyStylePayloadEntry_def infallible_def isOrdinaryPropertyPayloadEntry_def
      isStyleDangerousHtmlPayloadEntry_def isNonPayloadPropertyPayloadEntry_def isUnsupported_def)

lemma loop_applies:
  assumes "\<And>e h. e \<in> set es \<Longrightarrow> fst (f e h) = None"
  shows "\<exists>m h'. applyLoop f es n h = (None, m, h')"
  using assms
proof (induction es arbitrary: n h)
  case (Cons e es)
  obtain h1 where "f e h = (None, h1)" using Cons.prems [of e h] by (cases "f e h") auto
  then show ?case using Cons by simp
qed simp

context host_laws
begin

lemma apply_succeeds:
  assumes h: "capable host h" "infallible host"
    and p: "\<And>e. e \<in> set p \<Longrightarrow> entrySafe tag C e \<and> \<not> isUnsupported e \<and> described e" and wt: "list_all wellTargeted p"
  shows "\<exists>recs h'. applyAdmittedDomPropertyPayload host p h = (Inr recs, h') \<and>
    hostSlots host h' = applyPayload p (hostSlots host h)"
proof -
  obtain entries where "mapEntries (normalizeAdmittedDomPropertyPayloadEntry host h) p 0 = Inr entries"
    using mapEntries_total [of p "normalizeAdmittedDomPropertyPayloadEntry host h" 0] normalizes [OF h(1)] p by blast
  then have n: "mapEntries (normalizeAdmittedDomPropertyPayloadEntry host h) p 0 = Inr p" using normalized_payload by metis
  obtain rs where rs: "createDomPropertyPayloadRollbackRecords host h p = Inr rs"
    using mapEntries_total [of p "\<lambda>e i. createDomPropertyPayloadRollbackRecord host h e" 0] snapshots [OF h(1)] p
    unfolding createDomPropertyPayloadRollbackRecords_def by blast
  obtain m h' where loop: "applyLoop (applyAdmittedNormalizedPropertyPayloadEntry host) p 0 h = (None, m, h')"
    using loop_applies [of p "applyAdmittedNormalizedPropertyPayloadEntry host" 0 h] applies [OF h(2)] p by blast
  have "applyAdmittedDomPropertyPayload host p h =
      (Inr (createDomPropertyPayloadMutationRecords (map createAdmittedPropertyPayloadRecord p) rs), h')"
    using n rs loop by (simp add: applyAdmittedDomPropertyPayload_def applyWithRollback_def)
  moreover have "hostSlots host h' = applyPayload p (hostSlots host h)" using loop_frame [OF wt loop] by simp
  ultimately show ?thesis by blast
qed

end


text \<open>The fake element showing \<open>demo_last\<close>.\<close>
definition demo_element :: fake_element where
  "demo_element = newFakeElement
     \<lparr>feAttributes := [''class'' \<mapsto> ''a'', ''title'' \<mapsto> ''t''],
      feStyleFields := (\<lambda>_. [])(''width'' := ''10px'', ''color'' := ''red'')\<rparr>"

definition demo_p0 :: "payload_entry list" where
  "demo_p0 = [SetAttribute ''className'' ''class'' ''a'', SetAttribute ''title'' ''title'' ''t'',
     SetStyle ''style'' ''width'' ''propertyAssignment'' ''10px'', SetStyle ''style'' ''color'' ''propertyAssignment'' ''red'']"

definition demo_p1 :: "payload_entry list" where
  "demo_p1 = [SetAttribute ''className'' ''class'' ''b'', SetAttribute ''hidden'' ''hidden'' [],
     SetStyle ''style'' ''width'' ''propertyAssignment'' ''0'', SetStyle ''style'' ''flex'' ''propertyAssignment'' ''2'']"

definition demo_p :: "payload_entry list" where
  "demo_p = [RemoveAttribute ''title'' ''title'', SetAttribute ''className'' ''class'' ''b'', SetAttribute ''hidden'' ''hidden'' [],
     RemoveStyle ''style'' ''color'' ''propertyAssignment'' [], SetStyle ''style'' ''width'' ''propertyAssignment'' ''0'',
     SetStyle ''style'' ''flex'' ''propertyAssignment'' ''2'']"

lemma demo_diffs:
  "diffDomPropertyPayload demo_env (DStr ''div'') DNull demo_last = Inr demo_p0"
  "diffDomPropertyPayload demo_env (DStr ''div'') DNull demo_next = Inr demo_p1"
  "diffDomPropertyPayload demo_env (DStr ''div'') demo_last demo_next = Inr demo_p"
  by code_simp+

lemma demo_facts:
  "diffable demo_last demo_next" "noPrototypeKeys (objectKeys demo_last @ objectKeys demo_next)"
  "supported demo_p0" "supported demo_p1" "supported demo_p"
  by code_simp+

lemma demo_names: "\<not> isCustomStyleProperty ''width''" "\<not> isCustomStyleProperty ''color''"
  by code_simp+

lemma demo_shows_last: "hostSlots (fakeDom F) demo_element = applyPayload demo_p0 Map.empty"
proof
  fix x show "hostSlots (fakeDom F) demo_element x = applyPayload demo_p0 Map.empty x"
    by (cases x) (auto simp: fakeDom_def readAttribute_def readStyle_def demo_element_def newFakeElement_def demo_p0_def
        applyEntry_def demo_names)
qed

lemma fake_capable: "capable (fakeDom F) h"
  by (simp add: capable_def fakeDom_def)

lemma fake_infallible: "infallible (fakeDom {})"
  by (simp add: infallible_def fakeDom_def fakeWrite_def)


text \<open>
  C34: a prop commit is all or nothing. Whenever \<open>commitDomPropertyUpdate\<close> throws, whether the
  diff, a malformed entry, a missing method or any host write failed, and wherever in the payload,
  everything the code can read of the node is as before, provided the host takes its earlier
  values back.
\<close>
theorem commit_all_or_nothing:
  assumes "host_laws host" "restorable host h"
    and "commitDomPropertyUpdate env host tag lastProps nextProps h = (Inl err, h')"
  shows "hread host h' = hread host h"
proof (cases "diffDomPropertyPayload env tag lastProps nextProps")
  case (Inr p)
  then have "applyAdmittedDomPropertyPayload host p h = (Inl err, h')" using assms(3) by (simp add: commitDomPropertyUpdate_def)
  then show ?thesis using host_laws.apply_result [OF assms(1) diff_wellTargeted [OF Inr] assms(2)] by fastforce
qed (use assms(3) in \<open>simp add: commitDomPropertyUpdate_def\<close>)

lemma demo_restorable:
  assumes "\<And>c. c \<in> F \<Longrightarrow> c \<in> {FakeSetStyle ''flex'' ''2''}"
  shows "restorable (fakeDom F) demo_element"
proof -
  have n: "FakeSetAttribute a v \<notin> F" "FakeRemoveAttribute a \<notin> F" "FakeSetProperty n w \<notin> F" "FakeSetInnerHTML v \<notin> F" for a v n w
    using assms by blast+
  have st: "readStyle (fakeDom F) demo_element s \<noteq> ''2''" for s
    by (auto simp: readStyle_def fakeDom_def demo_element_def newFakeElement_def)
  have "FakeSetStyle s (readStyle (fakeDom F) demo_element s) \<notin> F" for s
    using assms st [of s] by blast
  moreover have "hGetProperty (fakeDom F) demo_element n = DNull" for n
    by (simp add: fakeDom_def demo_element_def newFakeElement_def)
  moreover have "strictEq w DNull \<Longrightarrow> w = DNull" for w by (cases w) auto
  ultimately show ?thesis
    using n by (auto simp: restorable_def fake_calls fakeWrite_def split: option.splits) (simp_all add: fakeDom_def fakeWrite_def n)
qed

theorem commit_all_or_nothing_witness:
  "\<exists>h'. commitDomPropertyUpdate demo_env (fakeDom {FakeSetStyle ''flex'' ''2''}) (DStr ''div'') demo_last demo_next demo_element =
       (Inl (TypeError ''fault''), h') \<and>
     hread (fakeDom {FakeSetStyle ''flex'' ''2''}) h' = hread (fakeDom {FakeSetStyle ''flex'' ''2''}) demo_element"
proof -
  let ?F = "{FakeSetStyle ''flex'' ''2''}"
  have "fst (commitDomPropertyUpdate demo_env (fakeDom ?F) (DStr ''div'') demo_last demo_next demo_element) = Inl (TypeError ''fault'')"
    by code_simp
  then obtain h' where h': "commitDomPropertyUpdate demo_env (fakeDom ?F) (DStr ''div'') demo_last demo_next demo_element =
      (Inl (TypeError ''fault''), h')" by (metis prod.collapse)
  then show ?thesis
    using commit_all_or_nothing [OF fake.host_laws_axioms demo_restorable h'] by blast
qed

text \<open>
  C35: rolling back a commit is its inverse. After a successful \<open>commitDomPropertyUpdate\<close>,
  \<open>rollbackDomPropertyPayloadMutationRecords\<close> on the returned records succeeds and restores
  everything the code can read of the node, and returns the number of entries it undid.
\<close>
theorem rollback_undoes_commit:
  assumes "host_laws host" "restorable host h"
    and "diffDomPropertyPayload env tag lastProps nextProps = Inr p"
    and "commitDomPropertyUpdate env host tag lastProps nextProps h = (Inr recs, h')"
  shows "\<exists>h''. rollbackDomPropertyPayloadMutationRecords host (Some recs) h' =
      (Inr (length (filter (\<lambda>e. hslotOf e \<noteq> None) p)), h'') \<and> hread host h'' = hread host h"
proof -
  have "applyAdmittedDomPropertyPayload host p h = (Inr recs, h')" using assms(3,4) by (simp add: commitDomPropertyUpdate_def)
  then show ?thesis using host_laws.apply_result [OF assms(1) diff_wellTargeted [OF assms(3)] assms(2)] by fastforce
qed

theorem rollback_undoes_commit_witness:
  "\<exists>recs h' h''. commitDomPropertyUpdate demo_env (fakeDom {}) (DStr ''div'') demo_last demo_next demo_element = (Inr recs, h') \<and>
     rollbackDomPropertyPayloadMutationRecords (fakeDom {}) (Some recs) h' = (Inr 6, h'') \<and>
     hread (fakeDom {}) h'' = hread (fakeDom {}) demo_element"
proof -
  have "\<not> isl (fst (commitDomPropertyUpdate demo_env (fakeDom {}) (DStr ''div'') demo_last demo_next demo_element))" by code_simp
  then obtain recs h' where c: "commitDomPropertyUpdate demo_env (fakeDom {}) (DStr ''div'') demo_last demo_next demo_element = (Inr recs, h')"
    by (cases "commitDomPropertyUpdate demo_env (fakeDom {}) (DStr ''div'') demo_last demo_next demo_element") (auto simp: isl_def, metis sum.exhaust)
  have "length (filter (\<lambda>e. hslotOf e \<noteq> None) demo_p) = 6" by code_simp
  then show ?thesis
    using rollback_undoes_commit [OF fake.host_laws_axioms demo_restorable demo_diffs(3) c] c by auto
qed

subsection \<open>Names inherited from \<open>Object.prototype\<close>\<close>

text \<open>
  The tables are read with \<open>table[name]\<close>, which finds inherited members: a prop named
  \<open>constructor\<close> counts as reserved without a category, which the commit then refuses, and a host
  tag of such a name makes the diff throw.
\<close>
lemma prototype_named_prop_throws:
  "commitDomPropertyUpdate demo_env (fakeDom {}) (DStr ''div'') DNull (DObject 1 [(''constructor'', DStr ''x'')]) h =
     (Inl (invalidEntry ''Cannot skip non-payload DOM property payload entry 0 without string metadata.''), h)"
proof -
  have "diffDomPropertyPayload demo_env (DStr ''div'') DNull (DObject 1 [(''constructor'', DStr ''x'')]) =
      Inr [NonPayload ''constructor'' None None]" by code_simp
  moreover have "nat_str 0 = ''0''" by code_simp
  ultimately show ?thesis
    by (simp add: commitDomPropertyUpdate_def applyAdmittedDomPropertyPayload_def normalize_defs)
qed

lemma prototype_named_tag_throws:
  "diffDomPropertyPayload demo_env (DStr ''constructor'') DNull (DObject 1 [(''title'', DStr ''x'')]) =
     Inl (TypeError ''controlledProps.has is not a function'')"
  by code_simp

end
