(* ===== verification/Host_Tree.thy ===== *)
theory Host_Tree
  imports DOM_Values
begin

text \<open>
  \<open>packages/react-dom/src/dom-host/mutation.js\<close>, the part that moves nodes and writes text: the
  child list operations with their checks, clearing of a container, text updates, and the
  creation of host nodes.

  Nodes are numbers; a value that is no node object is \<open>None\<close>. The host's own methods and fields
  are the parameter \<open>tree_host\<close> over a state \<open>'h\<close>. The walk up the parents and the loop that clears a
  container may not end on a cyclic or uncooperative host; they return \<open>None\<close> then.
\<close>

record 'h tree_host =
  tMethod :: "'h \<Rightarrow> nat \<Rightarrow> string \<Rightarrow> bool"  \<comment> \<open>\<open>typeof node[name] === 'function'\<close>\<close>
  tHasField :: "'h \<Rightarrow> nat \<Rightarrow> string \<Rightarrow> bool"  \<comment> \<open>\<open>name in node\<close>\<close>
  tParent :: "'h \<Rightarrow> nat \<Rightarrow> nat option"  \<comment> \<open>\<open>node.parentNode || null\<close>\<close>
  tChildNodes :: "'h \<Rightarrow> nat \<Rightarrow> nat list option"  \<comment> \<open>\<open>node.childNodes\<close> when it is an array\<close>
  tFirstChild :: "'h \<Rightarrow> nat \<Rightarrow> nat option option"  \<comment> \<open>\<open>node.firstChild\<close>, \<open>None\<close> when undefined\<close>
  tLastChild :: "'h \<Rightarrow> nat \<Rightarrow> nat option option"
  tIsTextNode :: "'h \<Rightarrow> nat \<Rightarrow> bool"  \<comment> \<open>\<open>nodeType === 3 || nodeName === '#text'\<close>\<close>
  tAppendChild :: "nat \<Rightarrow> nat \<Rightarrow> 'h \<Rightarrow> dom_error option \<times> 'h"
  tInsertBefore :: "nat \<Rightarrow> nat \<Rightarrow> nat \<Rightarrow> 'h \<Rightarrow> dom_error option \<times> 'h"
  tRemoveChild :: "nat \<Rightarrow> nat \<Rightarrow> 'h \<Rightarrow> dom_error option \<times> 'h"
  tSetText :: "string \<Rightarrow> nat \<Rightarrow> string \<Rightarrow> 'h \<Rightarrow> dom_error option \<times> 'h"  \<comment> \<open>\<open>node[field] = text\<close>\<close>

subsection \<open>Checks\<close>

definition assertDomLikeObject :: "nat option \<Rightarrow> string \<Rightarrow> bool \<Rightarrow> dom_error + nat" where
  "assertDomLikeObject v operation isParent =
     (case v of
        Some n \<Rightarrow> Inr n
      | None \<Rightarrow> Inl (CodedError
          (if isParent then ''FAST_REACT_DOM_INVALID_PARENT_NODE'' else ''FAST_REACT_DOM_INVALID_CHILD_NODE'')
          (''Cannot '' @ operation @ '' with an invalid '' @ (if isParent then ''parent'' else ''child'') @ '' node.'')))"

text \<open>\<open>assertAppendParent\<close>, \<open>assertInsertParent\<close> and \<open>assertRemoveParent\<close> differ in the method they want.\<close>
definition assertParentWith :: "'h tree_host \<Rightarrow> 'h \<Rightarrow> string \<Rightarrow> nat option \<Rightarrow> string \<Rightarrow> dom_error + nat" where
  "assertParentWith host h methodName parent operation =
     (case assertDomLikeObject parent operation True of
        Inl e \<Rightarrow> Inl e
      | Inr p \<Rightarrow>
          if tMethod host h p methodName then Inr p
          else Inl (CodedError ''FAST_REACT_DOM_INVALID_PARENT_NODE''
                 (''Cannot '' @ operation @ '' on a parent without '' @ methodName @ ''.'')))"

definition assertAppendParent :: "'h tree_host \<Rightarrow> 'h \<Rightarrow> nat option \<Rightarrow> string \<Rightarrow> dom_error + nat" where
  "assertAppendParent host h = assertParentWith host h ''appendChild''"

definition assertInsertParent :: "'h tree_host \<Rightarrow> 'h \<Rightarrow> nat option \<Rightarrow> string \<Rightarrow> dom_error + nat" where
  "assertInsertParent host h = assertParentWith host h ''insertBefore''"

definition assertRemoveParent :: "'h tree_host \<Rightarrow> 'h \<Rightarrow> nat option \<Rightarrow> string \<Rightarrow> dom_error + nat" where
  "assertRemoveParent host h = assertParentWith host h ''removeChild''"

partial_function (option) isAncestorOf :: "'h tree_host \<Rightarrow> 'h \<Rightarrow> nat \<Rightarrow> nat \<Rightarrow> bool option" where
  [code]: "isAncestorOf host h candidateAncestor current =
     (if current = candidateAncestor then Some True
      else (case tParent host h current of
              None \<Rightarrow> Some False
            | Some p \<Rightarrow> isAncestorOf host h candidateAncestor p))"

text \<open>\<open>None\<close> when the walk does not end, otherwise whether the move is refused.\<close>
definition assertCanMoveIntoParent :: "'h tree_host \<Rightarrow> 'h \<Rightarrow> nat \<Rightarrow> nat \<Rightarrow> string \<Rightarrow> dom_error option option" where
  "assertCanMoveIntoParent host h parent child operation =
     (let err = CodedError ''FAST_REACT_DOM_INVALID_MUTATION_TARGET''
            (''Cannot '' @ operation @ '' a parent into itself or one of its descendants.'')
      in if parent = child then Some (Some err)
         else map_option (\<lambda>b. if b then Some err else None) (isAncestorOf host h child parent))"

definition assertCurrentChild :: "'h tree_host \<Rightarrow> 'h \<Rightarrow> nat \<Rightarrow> nat \<Rightarrow> string \<Rightarrow> string \<Rightarrow> dom_error option" where
  "assertCurrentChild host h parent child code message =
     (if tParent host h child = Some parent then None
      else (case tChildNodes host h parent of
              Some ns \<Rightarrow> if child \<in> set ns then None else Some (CodedError code message)
            | None \<Rightarrow> Some (CodedError code message)))"

definition getFirstChild :: "'h tree_host \<Rightarrow> 'h \<Rightarrow> nat \<Rightarrow> nat option" where
  "getFirstChild host h parent =
     (case tFirstChild host h parent of
        Some c \<Rightarrow> c
      | None \<Rightarrow> (case tChildNodes host h parent of Some (c # cs) \<Rightarrow> Some c | _ \<Rightarrow> None))"

definition getLastChild :: "'h tree_host \<Rightarrow> 'h \<Rightarrow> nat \<Rightarrow> nat option" where
  "getLastChild host h parent =
     (case tLastChild host h parent of
        Some c \<Rightarrow> c
      | None \<Rightarrow> (case tChildNodes host h parent of Some (c # cs) \<Rightarrow> Some (last (c # cs)) | _ \<Rightarrow> None))"

subsection \<open>Child list operations\<close>

text \<open>A call that returned gives the node or the error, with the state it left; \<open>None\<close> is a call that does not return.\<close>
type_synonym 'h node_result = "((dom_error + nat) \<times> 'h) option"

definition hostCall :: "nat \<Rightarrow> dom_error option \<times> 'h \<Rightarrow> (dom_error + nat) \<times> 'h" where
  "hostCall result out = (case out of (Some e, h) \<Rightarrow> (Inl e, h) | (None, h) \<Rightarrow> (Inr result, h))"

definition appendChild :: "'h tree_host \<Rightarrow> nat option \<Rightarrow> nat option \<Rightarrow> 'h \<Rightarrow> 'h node_result" where
  "appendChild host parentInstance child h =
     (case assertAppendParent host h parentInstance ''appendChild'' of
        Inl e \<Rightarrow> Some (Inl e, h)
      | Inr p \<Rightarrow>
          (case assertDomLikeObject child ''appendChild'' False of
             Inl e \<Rightarrow> Some (Inl e, h)
           | Inr c \<Rightarrow>
               (case assertCanMoveIntoParent host h p c ''appendChild'' of
                  None \<Rightarrow> None
                | Some (Some e) \<Rightarrow> Some (Inl e, h)
                | Some None \<Rightarrow> Some (hostCall c (tAppendChild host p c h)))))"

definition appendInitialChild :: "'h tree_host \<Rightarrow> nat option \<Rightarrow> nat option \<Rightarrow> 'h \<Rightarrow> 'h node_result" where
  "appendInitialChild host parentInstance child h = appendChild host parentInstance child h"

definition appendChildToContainer :: "'h tree_host \<Rightarrow> nat option \<Rightarrow> nat option \<Rightarrow> 'h \<Rightarrow> 'h node_result" where
  "appendChildToContainer host container child h = appendChild host container child h"

definition insertBefore :: "'h tree_host \<Rightarrow> nat option \<Rightarrow> nat option \<Rightarrow> nat option \<Rightarrow> 'h \<Rightarrow> 'h node_result" where
  "insertBefore host parentInstance child beforeChild h =
     (case assertInsertParent host h parentInstance ''insertBefore'' of
        Inl e \<Rightarrow> Some (Inl e, h)
      | Inr p \<Rightarrow>
          (case assertDomLikeObject child ''insertBefore'' False of
             Inl e \<Rightarrow> Some (Inl e, h)
           | Inr c \<Rightarrow>
               (case assertDomLikeObject beforeChild ''insertBefore'' False of
                  Inl e \<Rightarrow> Some (Inl e, h)
                | Inr b \<Rightarrow>
                    (case assertCanMoveIntoParent host h p c ''insertBefore'' of
                       None \<Rightarrow> None
                     | Some (Some e) \<Rightarrow> Some (Inl e, h)
                     | Some None \<Rightarrow>
                         (case assertCurrentChild host h p b ''FAST_REACT_DOM_MISSING_INSERTION_TARGET''
                                 ''Cannot insert before a node that is not a child of the supplied parent.'' of
                            Some e \<Rightarrow> Some (Inl e, h)
                          | None \<Rightarrow> Some (hostCall c (tInsertBefore host p c b h)))))))"

definition insertInContainerBefore :: "'h tree_host \<Rightarrow> nat option \<Rightarrow> nat option \<Rightarrow> nat option \<Rightarrow> 'h \<Rightarrow> 'h node_result" where
  "insertInContainerBefore host container child beforeChild h = insertBefore host container child beforeChild h"

definition removeChild :: "'h tree_host \<Rightarrow> nat option \<Rightarrow> nat option \<Rightarrow> 'h \<Rightarrow> (dom_error + nat) \<times> 'h" where
  "removeChild host parentInstance child h =
     (case assertRemoveParent host h parentInstance ''removeChild'' of
        Inl e \<Rightarrow> (Inl e, h)
      | Inr p \<Rightarrow>
          (case assertDomLikeObject child ''removeChild'' False of
             Inl e \<Rightarrow> (Inl e, h)
           | Inr c \<Rightarrow>
               (case assertCurrentChild host h p c ''FAST_REACT_DOM_MISSING_REMOVAL_TARGET''
                       ''Cannot remove a node that is not a child of the supplied parent.'' of
                  Some e \<Rightarrow> (Inl e, h)
                | None \<Rightarrow> hostCall c (tRemoveChild host p c h))))"

definition removeChildFromContainer :: "'h tree_host \<Rightarrow> nat option \<Rightarrow> nat option \<Rightarrow> 'h \<Rightarrow> (dom_error + nat) \<times> 'h" where
  "removeChildFromContainer host container child h = removeChild host container child h"

text \<open>
  The loop \<open>while (firstChild !== null) container.removeChild(firstChild)\<close>, collecting what it
  removed as \<open>clearContainerForRootUnmount\<close> does.
\<close>
partial_function (option) clearLoop ::
  "'h tree_host \<Rightarrow> nat \<Rightarrow> nat list \<Rightarrow> 'h \<Rightarrow> (dom_error option \<times> nat list \<times> 'h) option" where
  [code]: "clearLoop host container removed h =
     (case getFirstChild host h container of
        None \<Rightarrow> Some (None, removed, h)
      | Some c \<Rightarrow>
          (case tRemoveChild host container c h of
             (Some e, h') \<Rightarrow> Some (Some e, removed @ [c], h')
           | (None, h') \<Rightarrow> clearLoop host container (removed @ [c]) h'))"

definition clearContainer :: "'h tree_host \<Rightarrow> nat option \<Rightarrow> 'h \<Rightarrow> (dom_error option \<times> 'h) option" where
  "clearContainer host container h =
     (case assertRemoveParent host h container ''clearContainer'' of
        Inl e \<Rightarrow> Some (Some e, h)
      | Inr c \<Rightarrow> map_option (\<lambda>(err, removed, h'). (err, h')) (clearLoop host c [] h))"

text \<open>The returned record, with the children it removed, in order; the container descriptions are left out.\<close>
record unmount_record =
  urContainer :: nat
  urRemovedChildren :: "nat list"
  urRemovedChildCount :: nat
  urRemovedChildRecords :: "(nat \<times> nat) list"  \<comment> \<open>index and child\<close>

definition createRootUnmountRemovedChildCleanupRecords :: "nat list \<Rightarrow> (nat \<times> nat) list" where
  "createRootUnmountRemovedChildCleanupRecords removedChildren = zip [0..<length removedChildren] removedChildren"

definition clearContainerForRootUnmount :: "'h tree_host \<Rightarrow> nat option \<Rightarrow> 'h \<Rightarrow> ((dom_error + unmount_record) \<times> 'h) option" where
  "clearContainerForRootUnmount host container h =
     (case assertRemoveParent host h container ''clearContainerForRootUnmount'' of
        Inl e \<Rightarrow> Some (Inl e, h)
      | Inr c \<Rightarrow>
          map_option
            (\<lambda>(err, removed, h').
               case err of
                 Some e \<Rightarrow> (Inl e, h')
               | None \<Rightarrow>
                   (Inr \<lparr>urContainer = c, urRemovedChildren = removed, urRemovedChildCount = length removed,
                         urRemovedChildRecords = createRootUnmountRemovedChildCleanupRecords removed\<rparr>, h'))
            (clearLoop host c [] h))"

subsection \<open>Text\<close>

definition setTextNodeValue :: "'h tree_host \<Rightarrow> nat option \<Rightarrow> string \<Rightarrow> string \<Rightarrow> 'h \<Rightarrow> dom_error option \<times> 'h" where
  "setTextNodeValue host textInstance text operation h =
     (case assertDomLikeObject textInstance operation False of
        Inl e \<Rightarrow> (Some e, h)
      | Inr t \<Rightarrow>
          if tHasField host h t ''nodeValue'' then tSetText host ''nodeValue'' t text h
          else if tHasField host h t ''data'' then tSetText host ''data'' t text h
          else if tHasField host h t ''textContent'' then tSetText host ''textContent'' t text h
          else (Some (CodedError ''FAST_REACT_DOM_INVALID_TEXT_INSTANCE''
                  (''Cannot '' @ operation @ '' on a text node without data, nodeValue, or textContent.'')), h))"

definition commitTextUpdate :: "'h tree_host \<Rightarrow> nat option \<Rightarrow> string \<Rightarrow> string \<Rightarrow> 'h \<Rightarrow> dom_error option \<times> 'h" where
  "commitTextUpdate host textInstance oldText newText h = setTextNodeValue host textInstance newText ''commitTextUpdate'' h"

definition setNodeTextContent :: "'h tree_host \<Rightarrow> nat option \<Rightarrow> string \<Rightarrow> string \<Rightarrow> 'h \<Rightarrow> dom_error option \<times> 'h" where
  "setNodeTextContent host instanc text operation h =
     (case assertDomLikeObject instanc operation True of
        Inl e \<Rightarrow> (Some e, h)
      | Inr n \<Rightarrow>
          if \<not> tHasField host h n ''textContent'' then
            (Some (CodedError ''FAST_REACT_DOM_INVALID_TEXT_CONTENT_TARGET''
               (''Cannot '' @ operation @ '' on a node without textContent.'')), h)
          else
            (case getFirstChild host h n of
               Some c \<Rightarrow>
                 if text \<noteq> [] \<and> getLastChild host h n = Some c \<and> tIsTextNode host h c
                 then setTextNodeValue host (Some c) text operation h
                 else tSetText host ''textContent'' n text h
             | None \<Rightarrow> tSetText host ''textContent'' n text h))"

definition setTextContent :: "'h tree_host \<Rightarrow> nat option \<Rightarrow> string \<Rightarrow> 'h \<Rightarrow> dom_error option \<times> 'h" where
  "setTextContent host instanc text h = setNodeTextContent host instanc text ''setTextContent'' h"

definition resetTextContent :: "'h tree_host \<Rightarrow> nat option \<Rightarrow> 'h \<Rightarrow> dom_error option \<times> 'h" where
  "resetTextContent host instanc h = setNodeTextContent host instanc [] ''resetTextContent'' h"

end
