(* ===== verification/Tree_Props.thy ===== *)
theory Tree_Props
  imports Host_Tree
begin

text \<open>
  The child list operations keep the host's nodes a forest. The locale \<open>tree_laws\<close> states what the
  host's own \<open>appendChild\<close>, \<open>insertBefore\<close> and \<open>removeChild\<close> do to parents and child lists; it is
  interpreted on the fake nodes of the repository's checks.
\<close>

subsection \<open>Forests\<close>

definition parentRel :: "'h tree_host \<Rightarrow> 'h \<Rightarrow> nat \<Rightarrow> nat \<Rightarrow> bool" where
  "parentRel host h c p \<longleftrightarrow> tParent host h c = Some p"

text \<open>\<open>ancestor a n\<close>: \<open>a\<close> is \<open>n\<close> or above it.\<close>
definition ancestor :: "'h tree_host \<Rightarrow> 'h \<Rightarrow> nat \<Rightarrow> nat \<Rightarrow> bool" where
  "ancestor host h a n = (parentRel host h)\<^sup>*\<^sup>* n a"

definition forest :: "'h tree_host \<Rightarrow> ('h \<Rightarrow> nat \<Rightarrow> nat list) \<Rightarrow> 'h \<Rightarrow> bool" where
  "forest host kids h \<longleftrightarrow>
     (\<forall>c p. tParent host h c = Some p \<longleftrightarrow> c \<in> set (kids h p)) \<and> (\<forall>p. distinct (kids h p)) \<and>
     (\<exists>rank :: nat \<Rightarrow> nat. \<forall>c p. tParent host h c = Some p \<longrightarrow> rank p < rank c)"

definition sameTree :: "'h tree_host \<Rightarrow> ('h \<Rightarrow> nat \<Rightarrow> nat list) \<Rightarrow> 'h \<Rightarrow> 'h \<Rightarrow> bool" where
  "sameTree host kids h h' \<longleftrightarrow> tParent host h' = tParent host h \<and> kids h' = kids h"

text \<open>The child \<open>c\<close> is now under \<open>p\<close>, whose list is \<open>ns\<close>; it left every other list.\<close>
definition moved :: "'h tree_host \<Rightarrow> ('h \<Rightarrow> nat \<Rightarrow> nat list) \<Rightarrow> 'h \<Rightarrow> 'h \<Rightarrow> nat \<Rightarrow> nat \<Rightarrow> nat list \<Rightarrow> bool" where
  "moved host kids h h' c p ns \<longleftrightarrow>
     tParent host h' = (tParent host h)(c := Some p) \<and> kids h' = (\<lambda>q. if q = p then ns else removeAll c (kids h q))"

definition detached :: "'h tree_host \<Rightarrow> ('h \<Rightarrow> nat \<Rightarrow> nat list) \<Rightarrow> 'h \<Rightarrow> 'h \<Rightarrow> nat \<Rightarrow> bool" where
  "detached host kids h h' c \<longleftrightarrow>
     tParent host h' = (tParent host h)(c := None) \<and> kids h' = (\<lambda>q. removeAll c (kids h q))"

definition insertedBefore :: "nat \<Rightarrow> nat \<Rightarrow> nat list \<Rightarrow> nat list" where
  "insertedBefore c b ns =
     (let ms = removeAll c ns in takeWhile (\<lambda>x. x \<noteq> b) ms @ c # dropWhile (\<lambda>x. x \<noteq> b) ms)"

lemma set_insertedBefore [simp]: "set (insertedBefore c b ns) = insert c (set ns)"
proof -
  have "set (takeWhile P xs) \<union> set (dropWhile P xs) = set xs" for P and xs :: "nat list"
    by (metis set_append takeWhile_dropWhile_id)
  then have "set (takeWhile (\<lambda>x. x \<noteq> b) (removeAll c ns)) \<union> set (dropWhile (\<lambda>x. x \<noteq> b) (removeAll c ns)) = set ns - {c}"
    by (simp add: set_removeAll)
  then show ?thesis by (auto simp: insertedBefore_def Let_def)
qed

lemma distinct_insertedBefore:
  assumes "distinct ns"
  shows "distinct (insertedBefore c b ns)"
proof -
  let ?ms = "removeAll c ns"
  have d: "distinct (takeWhile (\<lambda>x. x \<noteq> b) ?ms @ dropWhile (\<lambda>x. x \<noteq> b) ?ms)"
    using assms by (simp add: distinct_removeAll)
  have "c \<notin> set (takeWhile (\<lambda>x. x \<noteq> b) ?ms @ dropWhile (\<lambda>x. x \<noteq> b) ?ms)" by simp
  then show ?thesis using d unfolding insertedBefore_def Let_def by (auto simp del: takeWhile_dropWhile_id)
qed

lemma ancestor_refl [simp]: "ancestor host h n n"
  by (simp add: ancestor_def)

lemma ancestor_step:
  "ancestor host h a n \<longleftrightarrow> a = n \<or> (\<exists>p. tParent host h n = Some p \<and> ancestor host h a p)"
  unfolding ancestor_def by (auto simp: parentRel_def intro: converse_rtranclp_into_rtranclp elim: converse_rtranclpE)

lemma forestD:
  assumes "forest host kids h"
  shows "tParent host h c = Some p \<longleftrightarrow> c \<in> set (kids h p)" and "distinct (kids h p)"
  using assms by (simp_all add: forest_def)

lemma sameTree_forest: "sameTree host kids h h' \<Longrightarrow> forest host kids h \<Longrightarrow> forest host kids h'"
  unfolding sameTree_def forest_def by (elim conjE) (simp only:, blast)

text \<open>Moving a node under one that is not below it keeps the forest.\<close>
lemma moved_forest:
  assumes f: "forest host kids h" and m: "moved host kids h h' c p ns" and a: "\<not> ancestor host h c p"
    and ns: "set ns = insert c (set (kids h p))" "distinct ns"
  shows "forest host kids h'"
proof -
  obtain rank :: "nat \<Rightarrow> nat" where rank: "\<And>c p. tParent host h c = Some p \<Longrightarrow> rank p < rank c"
    using f unfolding forest_def by blast
  define rank' where "rank' n = (if ancestor host h c n then rank p + 1 + rank n else rank n)" for n
  have "rank' q < rank' n" if q: "tParent host h' n = Some q" for n q
  proof (cases "n = c")
    case True
    then have "q = p" using q m by (simp add: moved_def)
    then show ?thesis using True a by (simp add: rank'_def)
  next
    case False
    then have old: "tParent host h n = Some q" using q m by (simp add: moved_def)
    then have "ancestor host h c n \<longleftrightarrow> ancestor host h c q" using False ancestor_step [of host h c n] by auto
    then show ?thesis using rank [OF old] by (simp add: rank'_def)
  qed
  moreover have "tParent host h' n = Some q \<longleftrightarrow> n \<in> set (kids h' q)" for n q
    using m ns(1) forestD(1) [OF f] by (auto simp: moved_def)
  moreover have "distinct (kids h' q)" for q
    using m ns(2) forestD(2) [OF f] by (auto simp: moved_def distinct_removeAll)
  ultimately show ?thesis unfolding forest_def by blast
qed

lemma detached_forest:
  assumes f: "forest host kids h" and d: "detached host kids h h' c"
  shows "forest host kids h'"
proof -
  obtain rank :: "nat \<Rightarrow> nat" where rank: "\<And>c p. tParent host h c = Some p \<Longrightarrow> rank p < rank c"
    using f unfolding forest_def by blast
  have "rank q < rank n" if "tParent host h' n = Some q" for n q
    using that d rank by (auto simp: detached_def split: if_splits)
  moreover have "tParent host h' n = Some q \<longleftrightarrow> n \<in> set (kids h' q)" for n q
    using d forestD(1) [OF f] by (auto simp: detached_def)
  moreover have "distinct (kids h' q)" for q
    using d forestD(2) [OF f] by (auto simp: detached_def distinct_removeAll)
  ultimately show ?thesis unfolding forest_def by blast
qed

text \<open>On a forest the walk up the parents ends and decides ancestry.\<close>
lemma isAncestorOf_correct:
  assumes "forest host kids h"
  shows "isAncestorOf host h a n = Some (ancestor host h a n)"
proof -
  obtain rank :: "nat \<Rightarrow> nat" where rank: "\<And>c p. tParent host h c = Some p \<Longrightarrow> rank p < rank c"
    using assms unfolding forest_def by blast
  show ?thesis
  proof (induction n rule: measure_induct_rule [of rank])
    case (less n)
    show ?case
    proof (cases "tParent host h n")
      case None
      then show ?thesis using ancestor_step [of host h a n] by (subst isAncestorOf.simps) auto
    next
      case (Some p)
      then have "isAncestorOf host h a p = Some (ancestor host h a p)" using less rank by blast
      then show ?thesis using Some ancestor_step [of host h a n] by (subst isAncestorOf.simps) auto
    qed
  qed
qed

subsection \<open>What the host's methods do\<close>

locale tree_laws =
  fixes host :: "'h tree_host" and kids :: "'h \<Rightarrow> nat \<Rightarrow> nat list"
  assumes child_nodes: "tChildNodes host h p = Some ns \<Longrightarrow> ns = kids h p"
    and first_child: "tFirstChild host h p = Some f \<Longrightarrow> f = (case kids h p of [] \<Rightarrow> None | x # xs \<Rightarrow> Some x)"
    and readable: "tFirstChild host h p \<noteq> None \<or> tChildNodes host h p \<noteq> None"
    and append_child: "forest host kids h \<Longrightarrow> \<not> ancestor host h c p \<Longrightarrow> tAppendChild host p c h = (e, h') \<Longrightarrow>
        (case e of None \<Rightarrow> moved host kids h h' c p (removeAll c (kids h p) @ [c]) | Some x \<Rightarrow> sameTree host kids h h')"
    and insert_before: "forest host kids h \<Longrightarrow> \<not> ancestor host h c p \<Longrightarrow> b \<in> set (kids h p) \<Longrightarrow> b \<noteq> c \<Longrightarrow>
        tInsertBefore host p c b h = (e, h') \<Longrightarrow>
        (case e of None \<Rightarrow> moved host kids h h' c p (insertedBefore c b (kids h p)) | Some x \<Rightarrow> sameTree host kids h h')"
    and insert_before_itself: "forest host kids h \<Longrightarrow> c \<in> set (kids h p) \<Longrightarrow> tInsertBefore host p c c h = (e, h') \<Longrightarrow>
        sameTree host kids h h'"
    and remove_child: "forest host kids h \<Longrightarrow> c \<in> set (kids h p) \<Longrightarrow> tRemoveChild host p c h = (e, h') \<Longrightarrow>
        (case e of None \<Rightarrow> detached host kids h h' c | Some x \<Rightarrow> sameTree host kids h h')"
    and same_methods: "tRemoveChild host p c h = (e, h') \<Longrightarrow> tMethod host h' = tMethod host h"
begin

lemma getFirstChild_kids: "getFirstChild host h p = (case kids h p of [] \<Rightarrow> None | x # xs \<Rightarrow> Some x)"
  using first_child [of h p] child_nodes [of h p] readable [of h p]
  by (auto simp: getFirstChild_def split: option.splits list.splits)

lemma assertCurrentChild_forest:
  "forest host kids h \<Longrightarrow> assertCurrentChild host h p c code msg = (if c \<in> set (kids h p) then None else Some (CodedError code msg))"
  using forestD(1) [of host kids h c p] child_nodes [of h p]
  by (auto simp: assertCurrentChild_def split: option.splits)

lemma canMove:
  "forest host kids h \<Longrightarrow> \<exists>r. assertCanMoveIntoParent host h p c op = Some r \<and> (r = None \<longleftrightarrow> \<not> ancestor host h c p)"
  using isAncestorOf_correct [of host kids h c p] by (auto simp: assertCanMoveIntoParent_def Let_def)

lemma append_result:
  assumes f: "forest host kids h"
  shows "\<exists>r h'. appendChild host parent child h = Some (r, h') \<and> forest host kids h' \<and>
    (case r of Inl e \<Rightarrow> sameTree host kids h h'
     | Inr c \<Rightarrow> \<exists>p. parent = Some p \<and> child = Some c \<and> \<not> ancestor host h c p \<and>
         moved host kids h h' c p (removeAll c (kids h p) @ [c]))"
proof (cases "\<exists>p c. parent = Some p \<and> child = Some c \<and> tMethod host h p ''appendChild'' \<and> \<not> ancestor host h c p")
  case True
  then obtain p c where pc: "parent = Some p" "child = Some c" "tMethod host h p ''appendChild''" "\<not> ancestor host h c p" by blast
  obtain e h' where call: "tAppendChild host p c h = (e, h')" by fastforce
  note L = append_child [OF f pc(4) call]
  have "assertCanMoveIntoParent host h p c op = Some None" for op using canMove [OF f, of p c op] pc(4) by auto
  then have ap: "appendChild host parent child h = Some (hostCall c (e, h'))"
    using pc call by (simp add: appendChild_def assertAppendParent_def assertParentWith_def assertDomLikeObject_def)
  show ?thesis
  proof (cases e)
    case None
    have "forest host kids h'"
      by (rule moved_forest [OF f L [unfolded None option.case] pc(4)]) (use forestD(2) [OF f] in \<open>auto simp: distinct_removeAll\<close>)
    then show ?thesis using ap L None pc by (simp add: hostCall_def)
  next
    case (Some x)
    then show ?thesis using ap L f sameTree_forest by (auto simp: hostCall_def)
  qed
next
  case False
  have st: "sameTree host kids h h" by (simp add: sameTree_def)
  show ?thesis
  proof (cases "\<exists>p c. parent = Some p \<and> child = Some c")
    case True
    then obtain p c where pc: "parent = Some p" "child = Some c" by blast
    obtain r where "assertCanMoveIntoParent host h p c ''appendChild'' = Some r" "r = None \<longleftrightarrow> \<not> ancestor host h c p"
      using canMove [OF f, of p c "''appendChild''"] by blast
    then show ?thesis using False pc f st
      by (auto simp: appendChild_def assertAppendParent_def assertParentWith_def assertDomLikeObject_def split: option.splits)
  next
    case False
    then show ?thesis using f st
      by (cases parent; cases child)
         (auto simp: appendChild_def assertAppendParent_def assertParentWith_def assertDomLikeObject_def)
  qed
qed

end

context tree_laws
begin

lemma insert_result:
  assumes f: "forest host kids h"
  shows "\<exists>r h'. insertBefore host parent child before h = Some (r, h') \<and> forest host kids h' \<and>
    (case r of Inl e \<Rightarrow> sameTree host kids h h'
     | Inr c \<Rightarrow> \<exists>p b. parent = Some p \<and> child = Some c \<and> before = Some b \<and> \<not> ancestor host h c p \<and> b \<in> set (kids h p) \<and>
         (if c = b then sameTree host kids h h' else moved host kids h h' c p (insertedBefore c b (kids h p))))"
proof -
  note simps = insertBefore_def assertInsertParent_def assertParentWith_def assertDomLikeObject_def
  have st: "sameTree host kids h h" by (simp add: sameTree_def)
  consider (bad) "parent = None \<or> child = None \<or> before = None"
    | (nodes) p c b where "parent = Some p" "child = Some c" "before = Some b"
    by (cases parent; cases child; cases before) auto
  then show ?thesis
  proof cases
    case bad
    then show ?thesis using f st by (cases parent; cases child; cases before) (auto simp: simps)
  next
    case nodes
    obtain r where r: "assertCanMoveIntoParent host h p c ''insertBefore'' = Some r" "r = None \<longleftrightarrow> \<not> ancestor host h c p"
      using canMove [OF f, of p c "''insertBefore''"] by blast
    show ?thesis
    proof (cases "tMethod host h p ''insertBefore'' \<and> \<not> ancestor host h c p \<and> b \<in> set (kids h p)")
      case True
      obtain e h' where call: "tInsertBefore host p c b h = (e, h')" by fastforce
      have ins: "insertBefore host parent child before h = Some (hostCall c (e, h'))"
        using nodes True r call by (simp add: simps assertCurrentChild_forest [OF f])
      show ?thesis
      proof (cases "b = c")
        case same: True
        then have "sameTree host kids h h'" using insert_before_itself [OF f, of c p e h'] True call by simp
        then show ?thesis using ins f nodes True same sameTree_forest by (cases e) (auto simp: hostCall_def)
      next
        case False
        note L = insert_before [OF f _ _ False call]
        show ?thesis
        proof (cases e)
          case None
          then have mv: "moved host kids h h' c p (insertedBefore c b (kids h p))" using L True by simp
          have "forest host kids h'"
            by (rule moved_forest [OF f mv]) (use True forestD(2) [OF f] distinct_insertedBefore in auto)
          then show ?thesis using ins mv nodes True None False by (auto simp: hostCall_def)
        next
          case (Some x)
          then show ?thesis using ins L True f sameTree_forest by (auto simp: hostCall_def)
        qed
      qed
    next
      case False
      have "\<exists>e. insertBefore host parent child before h = Some (Inl e, h)"
        using nodes False r by (auto simp: simps assertCurrentChild_forest [OF f] split: option.splits)
      then show ?thesis using f st by auto
    qed
  qed
qed

lemma remove_result:
  assumes f: "forest host kids h" and rm: "removeChild host parent child h = (r, h')"
  shows "forest host kids h' \<and>
    (case r of Inl e \<Rightarrow> sameTree host kids h h'
     | Inr c \<Rightarrow> \<exists>p. parent = Some p \<and> child = Some c \<and> c \<in> set (kids h p) \<and> detached host kids h h' c)"
proof -
  note simps = removeChild_def assertRemoveParent_def assertParentWith_def assertDomLikeObject_def
  have st: "sameTree host kids h h" by (simp add: sameTree_def)
  show ?thesis
  proof (cases "\<exists>p c. parent = Some p \<and> child = Some c \<and> tMethod host h p ''removeChild'' \<and> c \<in> set (kids h p)")
    case True
    then obtain p c where pc: "parent = Some p" "child = Some c" "tMethod host h p ''removeChild''" "c \<in> set (kids h p)" by blast
    obtain e h1 where call: "tRemoveChild host p c h = (e, h1)" by fastforce
    note L = remove_child [OF f pc(4) call]
    have "(r, h') = hostCall c (e, h1)" using rm pc call by (simp add: simps assertCurrentChild_forest [OF f])
    then show ?thesis
      using L pc f detached_forest [OF f] sameTree_forest by (cases e) (auto simp: hostCall_def)
  next
    case False
    have "h' = h" "\<exists>e. r = Inl e"
      using rm False by (auto simp: simps assertCurrentChild_forest [OF f] split: option.splits if_splits)
    then show ?thesis using f st by auto
  qed
qed

text \<open>Clearing removes the children from the first to the last and ends.\<close>
lemma clearLoop_result:
  assumes f: "forest host kids h" and ok: "\<And>c g. forest host kids g \<Longrightarrow> c \<in> set (kids g p) \<Longrightarrow> fst (tRemoveChild host p c g) = None"
  shows "\<exists>h'. clearLoop host p removed h = Some (None, removed @ kids h p, h') \<and> forest host kids h' \<and> kids h' p = [] \<and>
    (\<forall>c. tParent host h' c = (if c \<in> set (kids h p) then None else tParent host h c)) \<and> (\<forall>q. q \<noteq> p \<longrightarrow> kids h' q = kids h q)"
  using f
proof (induction "length (kids h p)" arbitrary: h removed)
  case 0
  then show ?case by (subst clearLoop.simps) (auto simp: getFirstChild_kids)
next
  case (Suc n)
  then obtain c cs where k: "kids h p = c # cs" by (cases "kids h p") auto
  have c: "c \<in> set (kids h p)" using k by simp
  obtain h1 where call: "tRemoveChild host p c h = (None, h1)" using ok [OF Suc.prems c] by (cases "tRemoveChild host p c h") auto
  have d: "detached host kids h h1 c" using remove_child [OF Suc.prems c call] by simp
  have dist: "c \<notin> set cs" using forestD(2) [OF Suc.prems, of p] k by simp
  have k1: "kids h1 p = cs" using d k dist by (simp add: detached_def removeAll_id)
  have "q \<noteq> p \<Longrightarrow> c \<notin> set (kids h q)" for q
    using forestD(1) [OF Suc.prems, of c p] forestD(1) [OF Suc.prems, of c q] c by auto
  then have others: "q \<noteq> p \<Longrightarrow> kids h1 q = kids h q" for q using d by (simp add: detached_def removeAll_id)
  obtain h' where h': "clearLoop host p (removed @ [c]) h1 = Some (None, (removed @ [c]) @ kids h1 p, h')" "forest host kids h'"
    "kids h' p = []" "\<forall>x. tParent host h' x = (if x \<in> set (kids h1 p) then None else tParent host h1 x)"
    "\<forall>q. q \<noteq> p \<longrightarrow> kids h' q = kids h1 q"
    using Suc.hyps(1) [of h1 "removed @ [c]"] Suc.hyps(2) k k1 detached_forest [OF Suc.prems d] by auto
  have "clearLoop host p removed h = Some (None, removed @ kids h p, h')"
    using h'(1) call k k1 by (subst clearLoop.simps) (simp add: getFirstChild_kids)
  then show ?case using h' k k1 d others by (auto simp: detached_def)
qed

end

text \<open>
  C36: the child list operations are correct and keep the host a forest. On a forest,
  \<open>appendChild\<close>, \<open>insertBefore\<close> and \<open>removeChild\<close> always return. If they throw, parents and child
  lists are unchanged. Otherwise the child is in exactly the place asked for (at the end, before
  the given sibling, or nowhere), every other child list lost only that child, and the nodes still
  form a forest: no move ever creates a cycle.
\<close>
theorem child_operations_keep_forest:
  assumes "tree_laws host kids" "forest host kids h"
  shows "(\<exists>r h'. appendChild host parent child h = Some (r, h') \<and> forest host kids h' \<and>
      (case r of Inl e \<Rightarrow> sameTree host kids h h'
       | Inr c \<Rightarrow> \<exists>p. parent = Some p \<and> child = Some c \<and> \<not> ancestor host h c p \<and>
           moved host kids h h' c p (removeAll c (kids h p) @ [c]))) \<and>
    (\<exists>r h'. insertBefore host parent child before h = Some (r, h') \<and> forest host kids h' \<and>
      (case r of Inl e \<Rightarrow> sameTree host kids h h'
       | Inr c \<Rightarrow> \<exists>p b. parent = Some p \<and> child = Some c \<and> before = Some b \<and> \<not> ancestor host h c p \<and> b \<in> set (kids h p) \<and>
           (if c = b then sameTree host kids h h' else moved host kids h h' c p (insertedBefore c b (kids h p))))) \<and>
    (\<exists>r h'. removeChild host parent child h = (r, h') \<and> forest host kids h' \<and>
      (case r of Inl e \<Rightarrow> sameTree host kids h h'
       | Inr c \<Rightarrow> \<exists>p. parent = Some p \<and> child = Some c \<and> c \<in> set (kids h p) \<and> detached host kids h h' c))"
proof (intro conjI)
  show "\<exists>r h'. removeChild host parent child h = (r, h') \<and> forest host kids h' \<and>
      (case r of Inl e \<Rightarrow> sameTree host kids h h'
       | Inr c \<Rightarrow> \<exists>p. parent = Some p \<and> child = Some c \<and> c \<in> set (kids h p) \<and> detached host kids h h' c)"
    using tree_laws.remove_result [OF assms] by (cases "removeChild host parent child h") blast
qed (rule tree_laws.append_result [OF assms] tree_laws.insert_result [OF assms])+

text \<open>
  C37: clearing a root container terminates and empties it: on a host whose \<open>removeChild\<close> does not
  throw for a current child, \<open>clearContainerForRootUnmount\<close> returns a record that lists exactly the former children in
  order, the container has no children, each of them has no parent, and every other node keeps its
  parent and its child list.
\<close>
theorem clear_container_empties:
  assumes "tree_laws host kids" "forest host kids h"
    and "tMethod host h p ''removeChild''"
    and "\<And>c g. forest host kids g \<Longrightarrow> c \<in> set (kids g p) \<Longrightarrow> fst (tRemoveChild host p c g) = None"
  shows "\<exists>rec h'. clearContainerForRootUnmount host (Some p) h = Some (Inr rec, h') \<and>
      urRemovedChildren rec = kids h p \<and> urRemovedChildCount rec = length (kids h p) \<and>
      kids h' p = [] \<and> forest host kids h' \<and>
      (\<forall>c. tParent host h' c = (if c \<in> set (kids h p) then None else tParent host h c)) \<and>
      (\<forall>q. q \<noteq> p \<longrightarrow> kids h' q = kids h q)"
  using tree_laws.clearLoop_result [OF assms(1,2,4), of "[]"] assms(3)
  by (auto simp: clearContainerForRootUnmount_def assertRemoveParent_def assertParentWith_def assertDomLikeObject_def)

end
