(* ===== verification/Tree_Fake.thy ===== *)
theory Tree_Fake
  imports Tree_Props
begin

text \<open>
  The fake nodes of \<open>tests/smoke/react-dom-mutation-adapter-shell.mjs\<close> (class \<open>FakeNode\<close>) as a
  \<open>tree_host\<close>. The fake's own ancestor check repeats the one \<open>mutation.js\<close> makes before it
  calls the method and is left out.
\<close>

record fake_tree =
  ftParent :: "nat \<Rightarrow> nat option"
  ftChildren :: "nat \<Rightarrow> nat list"
  ftText :: "nat \<Rightarrow> string"
  ftTextNodes :: "nat list"

definition fakeDetach :: "nat \<Rightarrow> fake_tree \<Rightarrow> fake_tree" where
  "fakeDetach c t =
     (case ftParent t c of
        None \<Rightarrow> t
      | Some p \<Rightarrow> t\<lparr>ftChildren := (ftChildren t)(p := remove1 c (ftChildren t p)), ftParent := (ftParent t)(c := None)\<rparr>)"

definition fakeAttach :: "nat \<Rightarrow> nat \<Rightarrow> nat list \<Rightarrow> fake_tree \<Rightarrow> fake_tree" where
  "fakeAttach p c ns t = t\<lparr>ftChildren := (ftChildren t)(p := ns), ftParent := (ftParent t)(c := Some p)\<rparr>"

definition fakeAppend :: "nat \<Rightarrow> nat \<Rightarrow> fake_tree \<Rightarrow> dom_error option \<times> fake_tree" where
  "fakeAppend p c t = (let t1 = fakeDetach c t in (None, fakeAttach p c (ftChildren t1 p @ [c]) t1))"

definition fakeInsert :: "nat \<Rightarrow> nat \<Rightarrow> nat \<Rightarrow> fake_tree \<Rightarrow> dom_error option \<times> fake_tree" where
  "fakeInsert p c b t =
     (if ftParent t b \<noteq> Some p then (Some (TypeError ''Fake DOM insertBefore target is not a child.''), t)
      else if c = b then (None, t)
      else (let t1 = fakeDetach c t; ns = ftChildren t1 p
            in (None, fakeAttach p c (takeWhile (\<lambda>x. x \<noteq> b) ns @ c # dropWhile (\<lambda>x. x \<noteq> b) ns) t1)))"

definition fakeRemove :: "nat \<Rightarrow> nat \<Rightarrow> fake_tree \<Rightarrow> dom_error option \<times> fake_tree" where
  "fakeRemove p c t =
     (if ftParent t c \<noteq> Some p then (Some (TypeError ''Fake DOM removeChild target is not a child.''), t)
      else (None, fakeDetach c t))"

definition fakeTree :: "fake_tree tree_host" where
  "fakeTree =
     \<lparr>tMethod = (\<lambda>t n m. m \<in> {''appendChild'', ''insertBefore'', ''removeChild''}),
      tHasField = (\<lambda>t n f. f = ''textContent'' \<or> n \<in> set (ftTextNodes t) \<and> f \<in> {''nodeValue'', ''data''}),
      tParent = ftParent, tChildNodes = (\<lambda>t n. Some (ftChildren t n)),
      tFirstChild = (\<lambda>t n. Some (case ftChildren t n of [] \<Rightarrow> None | c # cs \<Rightarrow> Some c)),
      tLastChild = (\<lambda>t n. Some (case ftChildren t n of [] \<Rightarrow> None | c # cs \<Rightarrow> Some (last (c # cs)))),
      tIsTextNode = (\<lambda>t n. n \<in> set (ftTextNodes t)),
      tAppendChild = fakeAppend, tInsertBefore = fakeInsert, tRemoveChild = fakeRemove,
      tSetText = (\<lambda>f n s t. (None, t\<lparr>ftText := (ftText t)(n := s)\<rparr>))\<rparr>"

lemma fakeTree_reads [simp]: "tParent fakeTree = ftParent" "tMethod fakeTree t n ''removeChild''"
  by (simp_all add: fakeTree_def)

lemma fakeDetach_forest:
  assumes "forest fakeTree ftChildren t"
  shows "ftParent (fakeDetach c t) = (ftParent t)(c := None)" "ftChildren (fakeDetach c t) = (\<lambda>q. removeAll c (ftChildren t q))"
proof -
  have p: "ftParent t c = Some q \<longleftrightarrow> c \<in> set (ftChildren t q)" for q using forestD(1) [OF assms] by simp
  show "ftParent (fakeDetach c t) = (ftParent t)(c := None)"
    by (auto simp: fakeDetach_def split: option.splits)
  show "ftChildren (fakeDetach c t) = (\<lambda>q. removeAll c (ftChildren t q))"
  proof
    fix q
    have "removeAll c (ftChildren t q) = (if ftParent t c = Some q then remove1 c (ftChildren t q) else ftChildren t q)"
      using p forestD(2) [OF assms, of q] by (simp add: distinct_remove1_removeAll removeAll_id)
    then show "ftChildren (fakeDetach c t) q = removeAll c (ftChildren t q)"
      by (auto simp: fakeDetach_def split: option.splits)
  qed
qed

interpretation fakes: tree_laws fakeTree ftChildren
proof
  fix h :: fake_tree and p c b e h'
  assume f: "forest fakeTree ftChildren h"
  note D = fakeDetach_forest [OF f, of c]
  show "case e of None \<Rightarrow> moved fakeTree ftChildren h h' c p (removeAll c (ftChildren h p) @ [c])
      | Some x \<Rightarrow> sameTree fakeTree ftChildren h h'"
    if "\<not> ancestor fakeTree h c p" "tAppendChild fakeTree p c h = (e, h')"
    using that D by (auto simp: fakeTree_def fakeAppend_def Let_def moved_def fakeAttach_def)
  show "case e of None \<Rightarrow> moved fakeTree ftChildren h h' c p (insertedBefore c b (ftChildren h p))
      | Some x \<Rightarrow> sameTree fakeTree ftChildren h h'"
    if "b \<in> set (ftChildren h p)" "b \<noteq> c" "tInsertBefore fakeTree p c b h = (e, h')"
    using that D forestD(1) [OF f, of b p] by (auto simp: fakeTree_def fakeInsert_def Let_def moved_def fakeAttach_def insertedBefore_def)
  show "sameTree fakeTree ftChildren h h'"
    if "c \<in> set (ftChildren h p)" "tInsertBefore fakeTree p c c h = (e, h')"
    using that forestD(1) [OF f, of c p] by (auto simp: fakeTree_def fakeInsert_def sameTree_def)
  show "case e of None \<Rightarrow> detached fakeTree ftChildren h h' c | Some x \<Rightarrow> sameTree fakeTree ftChildren h h'"
    if "c \<in> set (ftChildren h p)" "tRemoveChild fakeTree p c h = (e, h')"
    using that D forestD(1) [OF f, of c p] by (auto simp: fakeTree_def fakeRemove_def detached_def)
qed (auto simp: fakeTree_def)

subsection \<open>A concrete tree\<close>

text \<open>The root 0 has the children 1 and 2, and 1 has the child 3.\<close>
definition demo_tree :: fake_tree where
  "demo_tree = \<lparr>ftParent = [1 \<mapsto> 0, 2 \<mapsto> 0, 3 \<mapsto> 1], ftChildren = (\<lambda>_. [])(0 := [1, 2], 1 := [3]),
     ftText = (\<lambda>_. []), ftTextNodes = []\<rparr>"

lemma demo_forest: "forest fakeTree ftChildren demo_tree"
  unfolding forest_def
proof (intro conjI allI exI [of _ id] impI)
  show "tParent fakeTree demo_tree c = Some p \<Longrightarrow> id p < id c" for c p
    by (auto simp: demo_tree_def split: if_splits)
qed (auto simp: demo_tree_def split: if_splits)

theorem child_operations_keep_forest_witness:
  "(\<exists>r h'. appendChild fakeTree (Some 2) (Some 1) demo_tree = Some (r, h') \<and> forest fakeTree ftChildren h') \<and>
   (\<exists>r h'. removeChild fakeTree (Some 0) (Some 1) demo_tree = (r, h') \<and> forest fakeTree ftChildren h')"
  using child_operations_keep_forest [OF fakes.tree_laws_axioms demo_forest, of "Some 2" "Some 1" "Some 3"]
    child_operations_keep_forest [OF fakes.tree_laws_axioms demo_forest, of "Some 0" "Some 1" "Some 3"] by blast

theorem clear_container_empties_witness:
  "\<exists>rec h'. clearContainerForRootUnmount fakeTree (Some 0) demo_tree = Some (Inr rec, h') \<and>
     urRemovedChildren rec = [1, 2] \<and> ftChildren h' 0 = [] \<and> forest fakeTree ftChildren h' \<and> ftChildren h' 1 = [3]"
proof -
  have ok: "fst (tRemoveChild fakeTree 0 c g) = None" if "forest fakeTree ftChildren g" "c \<in> set (ftChildren g 0)" for c g
    using forestD(1) [OF that(1), of c 0] that(2) by (simp add: fakeTree_def fakeRemove_def)
  have kids: "ftChildren demo_tree 0 = [1, 2]" "ftChildren demo_tree 1 = [3]" by (simp_all add: demo_tree_def)
  show ?thesis
    using clear_container_empties [OF fakes.tree_laws_axioms demo_forest fakeTree_reads(2) ok] kids by force
qed

end
