(* ===== verification/Root_Markers.thy ===== *)
theory Root_Markers
  imports DOM_Values
begin

text \<open>
  \<open>packages/react-dom/src/client/dom-container.js\<close> and \<open>packages/react-dom/src/client/root-markers.js\<close>:
  which values are root containers, the marker property a root puts on its container, and the
  reversible marking with its private records.

  Containers are objects of a heap. The part of an object the code reads is a \<open>container_obj\<close>: the
  DOM fields, and the own enumerable string-keyed properties in the order of \<open>Object.keys\<close>. A value
  that is no object is a \<open>dval\<close> of its own in \<open>container_arg\<close>. The random suffix of the marker key and
  \<open>NODE_ENV\<close> are the record \<open>marker_env\<close>. The two \<open>WeakMap\<close>s are maps from record numbers.
\<close>

record container_obj =
  coNodeType :: dval
  coNodeName :: dval
  coOwnerDocument :: dval
  coChildNodes :: "nat option"  \<comment> \<open>the length of \<open>childNodes\<close> when it is an array\<close>
  coCanRemoveChild :: bool
  coOwn :: "(string \<times> dval) list"

datatype container_arg = ObjectArg nat | ValueArg dval

record marker_env =
  meRandomKey :: string
  meProduction :: bool  \<comment> \<open>\<open>process.env.NODE_ENV === 'production'\<close>\<close>

type_synonym container_heap = "nat \<Rightarrow> container_obj"

subsection \<open>dom-container.js\<close>

definition ELEMENT_NODE :: int where "ELEMENT_NODE = 1"
definition TEXT_NODE :: int where "TEXT_NODE = 3"
definition COMMENT_NODE :: int where "COMMENT_NODE = 8"
definition DOCUMENT_NODE :: int where "DOCUMENT_NODE = 9"
definition DOCUMENT_FRAGMENT_NODE :: int where "DOCUMENT_FRAGMENT_NODE = 11"

definition isValidContainer :: "container_heap \<Rightarrow> container_arg \<Rightarrow> bool" where
  "isValidContainer H container =
     (case container of
        ValueArg v \<Rightarrow> False
      | ObjectArg c \<Rightarrow>
          coNodeType (H c) \<in> DNum ` Fin ` {ELEMENT_NODE, DOCUMENT_NODE, DOCUMENT_FRAGMENT_NODE})"

text \<open>The option \<open>production\<close> counts only when it is a boolean.\<close>
definition isProductionMode :: "marker_env \<Rightarrow> bool option \<Rightarrow> bool" where
  "isProductionMode env production = (case production of Some b \<Rightarrow> b | None \<Rightarrow> meProduction env)"

definition invalidContainerDevelopmentMessage :: string where
  "invalidContainerDevelopmentMessage = ''Target container is not a DOM element.''"

definition invalidContainerProductionMessage :: string where
  "invalidContainerProductionMessage =
     ''Minified React error #299; visit https://react.dev/errors/299 for the full message or use the non-minified dev environment for full errors and additional helpful warnings.''"

definition createInvalidContainerError :: "marker_env \<Rightarrow> bool option \<Rightarrow> dom_error" where
  "createInvalidContainerError env production =
     CodedError ''FAST_REACT_DOM_INVALID_CONTAINER''
       (if isProductionMode env production then invalidContainerProductionMessage
        else invalidContainerDevelopmentMessage)"

definition assertValidContainer :: "marker_env \<Rightarrow> container_heap \<Rightarrow> container_arg \<Rightarrow> bool option \<Rightarrow> dom_error + nat" where
  "assertValidContainer env H container production =
     (if \<not> isValidContainer H container then Inl (createInvalidContainerError env production)
      else (case container of ObjectArg c \<Rightarrow> Inr c | ValueArg v \<Rightarrow> Inl (createInvalidContainerError env production)))"

text \<open>\<open>None\<close> is \<open>null\<close>; \<open>Some (Inl c)\<close> the container itself, \<open>Some (Inr d)\<close> its \<open>ownerDocument\<close>.\<close>
definition getOwnerDocument :: "container_heap \<Rightarrow> container_arg \<Rightarrow> (nat + dval) option" where
  "getOwnerDocument H container =
     (case container of
        ValueArg v \<Rightarrow> None
      | ObjectArg c \<Rightarrow>
          if coNodeType (H c) = DNum (Fin DOCUMENT_NODE) then Some (Inl c)
          else if dtruthy (coOwnerDocument (H c)) then Some (Inr (coOwnerDocument (H c)))
          else None)"

record container_info =
  ciKind :: string
  ciNodeName :: "dval option"  \<comment> \<open>\<open>None\<close> where the description has no \<open>nodeName\<close>\<close>
  ciNodeType :: "js_num option"

definition describeContainer :: "container_heap \<Rightarrow> container_arg \<Rightarrow> container_info" where
  "describeContainer H container =
     (case container of
        ValueArg v \<Rightarrow>
          \<lparr>ciKind = (if v = DUndef then ''undefined'' else if v = DNull then ''null'' else typeOf v),
           ciNodeName = None, ciNodeType = None\<rparr>
      | ObjectArg c \<Rightarrow>
          \<lparr>ciKind = ''object'',
           ciNodeName = Some (if dtruthy (coNodeName (H c)) then coNodeName (H c) else DNull),
           ciNodeType = (case coNodeType (H c) of DNum n \<Rightarrow> Some n | _ \<Rightarrow> None)\<rparr>)"

record cleanup_target = container_info +
  ctCanRemoveChild :: bool
  ctChildNodeCount :: nat
  ctCleanupTarget :: bool
  ctFakeDomCleanupTarget :: bool
  ctHasChildNodesArray :: bool

definition describeContainerCleanupTarget :: "container_heap \<Rightarrow> container_arg \<Rightarrow> cleanup_target" where
  "describeContainerCleanupTarget H container =
     (let info = describeContainer H container in
      case container of
        ValueArg v \<Rightarrow>
          \<lparr>ciKind = ciKind info, ciNodeName = ciNodeName info, ciNodeType = ciNodeType info,
           ctCanRemoveChild = False, ctChildNodeCount = 0, ctCleanupTarget = False,
           ctFakeDomCleanupTarget = False, ctHasChildNodesArray = False\<rparr>
      | ObjectArg c \<Rightarrow>
          (let hasChildNodesArray = (coChildNodes (H c) \<noteq> None) in
           \<lparr>ciKind = ciKind info, ciNodeName = ciNodeName info, ciNodeType = ciNodeType info,
            ctCanRemoveChild = coCanRemoveChild (H c),
            ctChildNodeCount = (case coChildNodes (H c) of Some n \<Rightarrow> n | None \<Rightarrow> 0),
            ctCleanupTarget = isValidContainer H container,
            ctFakeDomCleanupTarget =
              (isValidContainer H container \<and> hasChildNodesArray \<and> coCanRemoveChild (H c)),
            ctHasChildNodesArray = hasChildNodesArray\<rparr>))"

subsection \<open>Property access on containers\<close>

text \<open>\<open>o[k] = v\<close>: an existing key keeps its place, a new one goes to the end.\<close>
fun setOwn :: "string \<Rightarrow> dval \<Rightarrow> (string \<times> dval) list \<Rightarrow> (string \<times> dval) list" where
  "setOwn k v [] = [(k, v)]"
| "setOwn k v ((k', w) # ps) = (if k' = k then (k, v) # ps else (k', w) # setOwn k v ps)"

text \<open>\<open>delete o[k]\<close>\<close>
definition deleteOwn :: "string \<Rightarrow> (string \<times> dval) list \<Rightarrow> (string \<times> dval) list" where
  "deleteOwn k ps = filter (\<lambda>(k', v). k' \<noteq> k) ps"

definition getOwn :: "string \<Rightarrow> (string \<times> dval) list \<Rightarrow> dval" where
  "getOwn k ps = (case map_of ps k of Some v \<Rightarrow> v | None \<Rightarrow> DUndef)"

definition writeContainer :: "nat \<Rightarrow> ((string \<times> dval) list \<Rightarrow> (string \<times> dval) list) \<Rightarrow> container_heap \<Rightarrow> container_heap" where
  "writeContainer c f H = H(c := (H c)\<lparr>coOwn := f (coOwn (H c))\<rparr>)"

subsection \<open>root-markers.js: markers\<close>

definition containerMarkerPrefix :: string where
  "containerMarkerPrefix = ''__reactContainer$''"

definition legacyRootContainerKey :: string where
  "legacyRootContainerKey = ''_reactRootContainer''"

definition internalContainerInstanceKey :: "marker_env \<Rightarrow> string" where
  "internalContainerInstanceKey env = containerMarkerPrefix @ meRandomKey env"

definition duplicateCreateRootWarning :: string where
  "duplicateCreateRootWarning =
     ''You are calling ReactDOMClient.createRoot() on a container that has already been passed to createRoot() before. Instead, call root.render() on the existing root instead if you want to update it.''"

definition legacyRootWarning :: string where
  "legacyRootWarning =
     ''You are calling ReactDOMClient.createRoot() on a container that was previously passed to ReactDOM.render(). This is not supported.''"

definition readMarker :: "marker_env \<Rightarrow> container_heap \<Rightarrow> nat \<Rightarrow> dval" where
  "readMarker env H c = getOwn (internalContainerInstanceKey env) (coOwn (H c))"

definition missingRootOwnerError :: dom_error where
  "missingRootOwnerError =
     CodedError ''FAST_REACT_DOM_MISSING_ROOT_OWNER'' ''Cannot mark a React DOM container without a root owner.''"

definition markContainerAsRoot :: "marker_env \<Rightarrow> dval \<Rightarrow> container_arg \<Rightarrow> container_heap \<Rightarrow> (dom_error + dval) \<times> container_heap" where
  "markContainerAsRoot env rootOwner container H =
     (case assertValidContainer env H container None of
        Inl e \<Rightarrow> (Inl e, H)
      | Inr c \<Rightarrow>
          if nullish rootOwner then (Inl missingRootOwnerError, H)
          else (Inr rootOwner, writeContainer c (setOwn (internalContainerInstanceKey env) rootOwner) H))"

definition unmarkContainerAsRoot :: "marker_env \<Rightarrow> container_arg \<Rightarrow> container_heap \<Rightarrow> dom_error option \<times> container_heap" where
  "unmarkContainerAsRoot env container H =
     (case assertValidContainer env H container None of
        Inl e \<Rightarrow> (Some e, H)
      | Inr c \<Rightarrow> (None, writeContainer c (setOwn (internalContainerInstanceKey env) DNull) H))"

definition getContainerRoot :: "marker_env \<Rightarrow> container_heap \<Rightarrow> container_arg \<Rightarrow> dval" where
  "getContainerRoot env H container =
     (case container of
        ValueArg v \<Rightarrow> DNull
      | ObjectArg c \<Rightarrow> if dtruthy (readMarker env H c) then readMarker env H c else DNull)"

definition isContainerMarkedAsRoot :: "marker_env \<Rightarrow> container_heap \<Rightarrow> container_arg \<Rightarrow> bool" where
  "isContainerMarkedAsRoot env H container \<longleftrightarrow> getContainerRoot env H container \<noteq> DNull"

definition hasLegacyRootMarker :: "container_heap \<Rightarrow> container_arg \<Rightarrow> bool" where
  "hasLegacyRootMarker H container =
     (case container of
        ValueArg v \<Rightarrow> False
      | ObjectArg c \<Rightarrow> dtruthy (getOwn legacyRootContainerKey (coOwn (H c))))"

text \<open>The option \<open>development\<close> counts only when it is a boolean.\<close>
definition getCreateRootWarning :: "marker_env \<Rightarrow> container_heap \<Rightarrow> container_arg \<Rightarrow> bool option \<Rightarrow> string option" where
  "getCreateRootWarning env H container development =
     (if \<not> (case development of Some b \<Rightarrow> b | None \<Rightarrow> \<not> meProduction env) then None
      else if hasLegacyRootMarker H container then Some legacyRootWarning
      else if isContainerMarkedAsRoot env H container then Some duplicateCreateRootWarning
      else None)"

text \<open>The result, and the messages it logs when the console has an \<open>error\<close> method.\<close>
definition warnIfContainerAlreadyRoot ::
  "marker_env \<Rightarrow> container_heap \<Rightarrow> container_arg \<Rightarrow> bool option \<Rightarrow> bool \<Rightarrow> bool \<times> string list" where
  "warnIfContainerAlreadyRoot env H container development hasErrorMethod =
     (case getCreateRootWarning env H container development of
        None \<Rightarrow> (False, [])
      | Some message \<Rightarrow> (True, if hasErrorMethod then [message] else []))"

definition describeCreateRootWarning :: "string option \<Rightarrow> (string \<times> string) option" where
  "describeCreateRootWarning message =
     map_option
       (\<lambda>text. (text, if text = duplicateCreateRootWarning then ''duplicate-create-root''
                      else if text = legacyRootWarning then ''legacy-root-container''
                      else ''unknown''))
       message"

definition describeMarkerValue :: "dval \<Rightarrow> string" where
  "describeMarkerValue v =
     (if v = DNull then ''null'' else if v = DUndef then ''undefined''
      else if dtruthy v then ''truthy'' else ''falsy'')"

record marker_property =
  mpValueState :: string
  mpValueType :: string

record marker_inspection =
  miInspectable :: bool
  miNullCount :: nat
  miPropertyCount :: nat
  miTruthyCount :: nat
  miProperties :: "marker_property list"

text \<open>Every key of \<open>Object.keys\<close> is enumerable, so the flag \<open>enumerable\<close> of a row is true.\<close>
definition inspectContainerRootMarker :: "container_heap \<Rightarrow> container_arg \<Rightarrow> marker_inspection" where
  "inspectContainerRootMarker H container =
     (case container of
        ValueArg v \<Rightarrow>
          \<lparr>miInspectable = False, miNullCount = 0, miPropertyCount = 0, miTruthyCount = 0, miProperties = []\<rparr>
      | ObjectArg c \<Rightarrow>
          (let properties =
             map (\<lambda>(key, value). \<lparr>mpValueState = describeMarkerValue value,
                                   mpValueType = (if value = DNull then ''null'' else typeOf value)\<rparr>)
               (filter (\<lambda>(key, value). startsWith key containerMarkerPrefix) (coOwn (H c)))
           in \<lparr>miInspectable = True,
               miNullCount = length (filter (\<lambda>p. mpValueState p = ''null'') properties),
               miPropertyCount = length properties,
               miTruthyCount = length (filter (\<lambda>p. mpValueState p = ''truthy'') properties),
               miProperties = properties\<rparr>))"

text \<open>\<open>rootOwner.kind || rootOwner.$$typeof || 'object'\<close>, with a symbol turned into its text.\<close>
definition describeRootOwnerKind :: "dval \<Rightarrow> dval" where
  "describeRootOwnerKind rootOwner =
     (if nullish rootOwner then DStr (if rootOwner = DNull then ''null'' else ''undefined'')
      else if typeOf rootOwner \<noteq> ''object'' then DStr (typeOf rootOwner)
      else (let ownerKind =
              (if dtruthy (readProp rootOwner ''kind'') then readProp rootOwner ''kind''
               else if dtruthy (readProp rootOwner ''$$typeof'') then readProp rootOwner ''$$typeof''
               else DStr ''object'')
            in case ownerKind of DSym i d \<Rightarrow> DStr (''Symbol('' @ d @ '')'') | v \<Rightarrow> v))"

subsection \<open>root-markers.js: reversible marking\<close>

record mutation_record =
  mrBeforeMarker :: marker_inspection
  mrAfterMarker :: marker_inspection
  mrHadPreviousMarker :: bool
  mrPreviousValueState :: string
  mrRootOwnerKind :: dval
  mrWarning :: "(string \<times> string) option"

record cleanup_record =
  clBeforeMarker :: marker_inspection
  clAfterMarker :: marker_inspection

record mutation_payload_entry =
  mpActive :: bool
  mpContainer :: nat
  mpHadOwnMarker :: bool
  mpPreviousValue :: dval
  mpRootOwner :: dval

text \<open>
  The heap and the two weak maps. Records are numbered in the order of their creation; the record
  of number \<open>r\<close> is \<open>msRecords r\<close>.
\<close>
record marker_state =
  msHeap :: container_heap
  msNext :: nat
  msRecords :: "nat \<rightharpoonup> mutation_record"
  msPayloads :: "nat \<rightharpoonup> mutation_payload_entry"
  msCleanups :: "nat \<rightharpoonup> cleanup_record"

definition markContainerAsRootWithRevertRecord ::
  "marker_env \<Rightarrow> dval \<Rightarrow> container_arg \<Rightarrow> bool option \<Rightarrow> marker_state \<Rightarrow> (dom_error + nat) \<times> marker_state" where
  "markContainerAsRootWithRevertRecord env rootOwner container development s =
     (case assertValidContainer env (msHeap s) container None of
        Inl e \<Rightarrow> (Inl e, s)
      | Inr c \<Rightarrow>
          if nullish rootOwner then (Inl missingRootOwnerError, s)
          else
            (let key = internalContainerInstanceKey env;
                 hadOwnMarker = (key \<in> fst ` set (coOwn (msHeap s c)));
                 previousValue = (if hadOwnMarker then readMarker env (msHeap s) c else DUndef)
             in if \<not> nullish previousValue then
                  (Inl (CodedError ''FAST_REACT_DOM_ROOT_MARKER_OCCUPIED''
                     ''Cannot apply a private React DOM root marker over an existing root marker.''), s)
                else
                  (let beforeMarker = inspectContainerRootMarker (msHeap s) container;
                       warningMessage = getCreateRootWarning env (msHeap s) container development
                   in case markContainerAsRoot env rootOwner container (msHeap s) of
                        (Inl e, H) \<Rightarrow> (Inl e, s\<lparr>msHeap := H\<rparr>)
                      | (Inr v, H) \<Rightarrow>
                          (Inr (msNext s),
                           s\<lparr>msHeap := H, msNext := msNext s + 1,
                             msRecords := (msRecords s)(msNext s \<mapsto>
                               \<lparr>mrBeforeMarker = beforeMarker,
                                mrAfterMarker = inspectContainerRootMarker H container,
                                mrHadPreviousMarker = hadOwnMarker,
                                mrPreviousValueState = describeMarkerValue previousValue,
                                mrRootOwnerKind = describeRootOwnerKind rootOwner,
                                mrWarning = describeCreateRootWarning warningMessage\<rparr>),
                             msPayloads := (msPayloads s)(msNext s \<mapsto>
                               \<lparr>mpActive = True, mpContainer = c, mpHadOwnMarker = hadOwnMarker,
                                mpPreviousValue = previousValue, mpRootOwner = rootOwner\<rparr>)\<rparr>))))"

definition revertContainerRootMarkerMutation ::
  "marker_env \<Rightarrow> nat \<Rightarrow> marker_state \<Rightarrow> (dom_error + cleanup_record) \<times> marker_state" where
  "revertContainerRootMarkerMutation env record s =
     (case msPayloads s record of
        None \<Rightarrow>
          (Inl (CodedError ''FAST_REACT_DOM_INVALID_ROOT_MARKER_RECORD''
             ''Expected a private React DOM root marker mutation record.''), s)
      | Some payload \<Rightarrow>
          (case (if mpActive payload then None else msCleanups s record) of
             Some existingCleanup \<Rightarrow> (Inr existingCleanup, s)
           | None \<Rightarrow>
               (let c = mpContainer payload; key = internalContainerInstanceKey env in
                case assertValidContainer env (msHeap s) (ObjectArg c) None of
                  Inl e \<Rightarrow> (Inl e, s)
                | Inr _ \<Rightarrow>
                    if \<not> strictEq (readMarker env (msHeap s) c) (mpRootOwner payload) then
                      (Inl (CodedError ''FAST_REACT_DOM_ROOT_MARKER_CHANGED''
                         ''Cannot revert a private React DOM root marker after the container marker changed.''), s)
                    else
                      (let beforeMarker = inspectContainerRootMarker (msHeap s) (ObjectArg c);
                           H = writeContainer c
                                 (if mpHadOwnMarker payload then setOwn key (mpPreviousValue payload) else deleteOwn key)
                                 (msHeap s);
                           cleanup = \<lparr>clBeforeMarker = beforeMarker,
                                      clAfterMarker = inspectContainerRootMarker H (ObjectArg c)\<rparr>
                       in (Inr cleanup,
                           s\<lparr>msHeap := H,
                             msPayloads := (msPayloads s)(record \<mapsto> payload\<lparr>mpActive := False\<rparr>),
                             msCleanups := (msCleanups s)(record \<mapsto> cleanup)\<rparr>)))))"

subsection \<open>Properties of the marker\<close>

lemma getOwn_setOwn [simp]: "getOwn k (setOwn k v ps) = v"
  by (induction k v ps rule: setOwn.induct) (auto simp: getOwn_def)

lemma map_of_setOwn_other: "k \<noteq> k' \<Longrightarrow> map_of (setOwn k v ps) k' = map_of ps k'"
  by (induction k v ps rule: setOwn.induct) auto

lemma map_of_deleteOwn: "map_of (deleteOwn k ps) k' = (if k' = k then None else map_of ps k')"
  by (induction ps) (auto simp: deleteOwn_def)

lemma map_of_setOwn: "map_of (setOwn k v ps) k = Some v"
  by (induction k v ps rule: setOwn.induct) auto

lemma setOwn_restore: "k \<in> fst ` set ps \<Longrightarrow> setOwn k (getOwn k ps) (setOwn k v ps) = ps"
  by (induction k v ps rule: setOwn.induct) (auto simp: getOwn_def)

lemma setOwn_absent: "k \<notin> fst ` set ps \<Longrightarrow> setOwn k v ps = ps @ [(k, v)]"
  by (induction k v ps rule: setOwn.induct) auto

lemma deleteOwn_absent: "k \<notin> fst ` set ps \<Longrightarrow> deleteOwn k ps = ps"
  by (force simp: deleteOwn_def filter_id_conv)

lemma deleteOwn_restore: "k \<notin> fst ` set ps \<Longrightarrow> deleteOwn k (setOwn k v ps) = ps"
proof -
  assume k: "k \<notin> fst ` set ps"
  then have "deleteOwn k (setOwn k v ps) = deleteOwn k ps" by (simp add: setOwn_absent deleteOwn_def)
  then show ?thesis using k by (simp add: deleteOwn_absent)
qed

lemma writeContainer_own [simp]: "coOwn (writeContainer c f H c) = f (coOwn (H c))"
  by (simp add: writeContainer_def)

lemma writeContainer_other [simp]: "d \<noteq> c \<Longrightarrow> writeContainer c f H d = H d"
  by (simp add: writeContainer_def)

lemma writeContainer_twice: "g (f (coOwn (H c))) = coOwn (H c) \<Longrightarrow> writeContainer c g (writeContainer c f H) = H"
  by (auto simp: writeContainer_def fun_eq_iff)

lemma isValidContainer_write [simp]: "isValidContainer (writeContainer c f H) x = isValidContainer H x"
  by (auto simp: isValidContainer_def writeContainer_def split: container_arg.splits)

lemma assertValidContainer_Inr: "assertValidContainer env H x p = Inr c \<longleftrightarrow> x = ObjectArg c \<and> isValidContainer H x"
  by (auto simp: assertValidContainer_def split: container_arg.splits)

lemma readMarker_write: "readMarker env (writeContainer c f H) c = getOwn (internalContainerInstanceKey env) (f (coOwn (H c)))"
  by (simp add: readMarker_def)

text \<open>What a successful marking did.\<close>
lemma mark_success:
  assumes "markContainerAsRootWithRevertRecord env owner container dev s = (Inr record, s')"
  obtains c where "container = ObjectArg c" "isValidContainer (msHeap s) container" "\<not> nullish owner"
    "msHeap s' = writeContainer c (setOwn (internalContainerInstanceKey env) owner) (msHeap s)"
    "nullish (readMarker env (msHeap s) c)"
    "msPayloads s' record = Some \<lparr>mpActive = True, mpContainer = c,
       mpHadOwnMarker = (internalContainerInstanceKey env \<in> fst ` set (coOwn (msHeap s c))),
       mpPreviousValue = readMarker env (msHeap s) c, mpRootOwner = owner\<rparr>"
    "\<exists>r. msRecords s' record = Some r \<and> mrBeforeMarker r = inspectContainerRootMarker (msHeap s) container"
proof -
  have absent: "internalContainerInstanceKey env \<notin> fst ` set (coOwn (msHeap s c)) \<Longrightarrow> readMarker env (msHeap s) c = DUndef" for c
    by (auto simp: readMarker_def getOwn_def map_of_eq_None_iff [symmetric] split: option.splits)
  obtain c where v: "assertValidContainer env (msHeap s) container None = Inr c"
    using assms by (auto simp: markContainerAsRootWithRevertRecord_def split: sum.splits)
  then have c: "container = ObjectArg c" "isValidContainer (msHeap s) container" by (auto simp: assertValidContainer_Inr)
  show thesis
    by (rule that [OF c])
      (use assms v absent [of c] in \<open>auto simp: markContainerAsRootWithRevertRecord_def markContainerAsRoot_def Let_def
         split: if_splits\<close>)
qed

lemma revert_active:
  assumes "msPayloads s record = Some \<lparr>mpActive = True, mpContainer = c, mpHadOwnMarker = had, mpPreviousValue = prev, mpRootOwner = owner\<rparr>"
    "isValidContainer (msHeap s) (ObjectArg c)" "strictEq (readMarker env (msHeap s) c) owner"
  shows "\<exists>cleanup s'. revertContainerRootMarkerMutation env record s = (Inr cleanup, s') \<and>
    msHeap s' = writeContainer c
      (if had then setOwn (internalContainerInstanceKey env) prev else deleteOwn (internalContainerInstanceKey env)) (msHeap s) \<and>
    clAfterMarker cleanup = inspectContainerRootMarker (msHeap s') (ObjectArg c) \<and>
    revertContainerRootMarkerMutation env record s' = (Inr cleanup, s')"
  using assms by (auto simp: revertContainerRootMarkerMutation_def assertValidContainer_def Let_def)

text \<open>
  C38: marking a container is undone exactly. After a successful
  \<open>markContainerAsRootWithRevertRecord\<close> the container belongs to the given owner, and reverting the record at once
  restores every property of every container, in their order, with the marker inspection of before;
  a second revert returns the same cleanup record and changes nothing. If other code ran in
  between, the revert restores only the marker when it is still the owner's, and otherwise fails
  with \<open>FAST_REACT_DOM_ROOT_MARKER_CHANGED\<close> and changes nothing.
\<close>
theorem root_marker_round_trip:
  assumes "markContainerAsRootWithRevertRecord env owner (ObjectArg c) dev s = (Inr record, s1)" "owner \<noteq> DNum NaN"
  shows "readMarker env (msHeap s1) c = owner \<and>
    (\<exists>cleanup s2 r. revertContainerRootMarkerMutation env record s1 = (Inr cleanup, s2) \<and> msHeap s2 = msHeap s \<and>
       msRecords s1 record = Some r \<and> clAfterMarker cleanup = mrBeforeMarker r \<and>
       revertContainerRootMarkerMutation env record s2 = (Inr cleanup, s2)) \<and>
    (\<forall>t. msPayloads t record = msPayloads s1 record \<and> isValidContainer (msHeap t) (ObjectArg c) \<longrightarrow>
       (if strictEq (readMarker env (msHeap t) c) owner then
          \<exists>cleanup t'. revertContainerRootMarkerMutation env record t = (Inr cleanup, t') \<and>
            readMarker env (msHeap t') c = readMarker env (msHeap s) c \<and>
            (\<forall>k. k \<noteq> internalContainerInstanceKey env \<longrightarrow> map_of (coOwn (msHeap t' c)) k = map_of (coOwn (msHeap t c)) k) \<and>
            (\<forall>d. d \<noteq> c \<longrightarrow> msHeap t' d = msHeap t d)
        else \<exists>message. revertContainerRootMarkerMutation env record t = (Inl (CodedError ''FAST_REACT_DOM_ROOT_MARKER_CHANGED'' message), t)))"
proof -
  let ?key = "internalContainerInstanceKey env"
  from mark_success [OF assms(1)]
  have valid: "isValidContainer (msHeap s) (ObjectArg c)"
    and heap: "msHeap s1 = writeContainer c (setOwn ?key owner) (msHeap s)"
    and payload: "msPayloads s1 record = Some \<lparr>mpActive = True, mpContainer = c,
       mpHadOwnMarker = (?key \<in> fst ` set (coOwn (msHeap s c))), mpPreviousValue = readMarker env (msHeap s) c, mpRootOwner = owner\<rparr>"
    and rec: "\<exists>r. msRecords s1 record = Some r \<and> mrBeforeMarker r = inspectContainerRootMarker (msHeap s) (ObjectArg c)"
    by auto
  have marker: "readMarker env (msHeap s1) c = owner" by (simp add: heap readMarker_write)
  have absent: "?key \<notin> fst ` set (coOwn (msHeap s c)) \<Longrightarrow> readMarker env (msHeap s) c = DUndef"
    by (auto simp: readMarker_def getOwn_def map_of_eq_None_iff [symmetric] split: option.splits)
  have undo: "writeContainer c (if ?key \<in> fst ` set (coOwn (msHeap s c)) then setOwn ?key (readMarker env (msHeap s) c) else deleteOwn ?key)
      (msHeap s1) = msHeap s"
    unfolding heap by (rule writeContainer_twice) (auto simp: setOwn_restore deleteOwn_restore readMarker_def)
  have now: "\<exists>cleanup s2 r. revertContainerRootMarkerMutation env record s1 = (Inr cleanup, s2) \<and> msHeap s2 = msHeap s \<and>
       msRecords s1 record = Some r \<and> clAfterMarker cleanup = mrBeforeMarker r \<and>
       revertContainerRootMarkerMutation env record s2 = (Inr cleanup, s2)"
  proof -
    have "isValidContainer (msHeap s1) (ObjectArg c)" using valid by (simp add: heap)
    then obtain cleanup s2 where "revertContainerRootMarkerMutation env record s1 = (Inr cleanup, s2)" "msHeap s2 = msHeap s"
      "clAfterMarker cleanup = inspectContainerRootMarker (msHeap s2) (ObjectArg c)"
      "revertContainerRootMarkerMutation env record s2 = (Inr cleanup, s2)"
      using revert_active [OF payload, of env] marker assms(2) undo by fastforce
    then show ?thesis using rec by auto
  qed
  have later: "if strictEq (readMarker env (msHeap t) c) owner then
          \<exists>cleanup t'. revertContainerRootMarkerMutation env record t = (Inr cleanup, t') \<and>
            readMarker env (msHeap t') c = readMarker env (msHeap s) c \<and>
            (\<forall>k. k \<noteq> ?key \<longrightarrow> map_of (coOwn (msHeap t' c)) k = map_of (coOwn (msHeap t c)) k) \<and>
            (\<forall>d. d \<noteq> c \<longrightarrow> msHeap t' d = msHeap t d)
        else \<exists>message. revertContainerRootMarkerMutation env record t = (Inl (CodedError ''FAST_REACT_DOM_ROOT_MARKER_CHANGED'' message), t)"
    if t: "msPayloads t record = msPayloads s1 record" "isValidContainer (msHeap t) (ObjectArg c)" for t
  proof (cases "strictEq (readMarker env (msHeap t) c) owner")
    case True
    obtain cleanup t' where R: "revertContainerRootMarkerMutation env record t = (Inr cleanup, t')"
      "msHeap t' = writeContainer c (if ?key \<in> fst ` set (coOwn (msHeap s c)) then setOwn ?key (readMarker env (msHeap s) c)
         else deleteOwn ?key) (msHeap t)"
      using revert_active [OF t(1) [unfolded payload], of env] t(2) True by auto
    have "readMarker env (msHeap t') c = readMarker env (msHeap s) c"
      using absent by (auto simp: R(2) readMarker_write) (auto simp: getOwn_def map_of_deleteOwn)
    then show ?thesis using True R(1) by (auto simp: R(2) map_of_setOwn_other map_of_deleteOwn)
  next
    case False
    then show ?thesis using t payload
      by (auto simp: revertContainerRootMarkerMutation_def assertValidContainer_def Let_def)
  qed
  show ?thesis using marker now later by blast
qed

definition demo_container :: container_obj where
  "demo_container = \<lparr>coNodeType = DNum (Fin 1), coNodeName = DStr ''DIV'', coOwnerDocument = DNull,
     coChildNodes = Some 0, coCanRemoveChild = True, coOwn = [(''id'', DStr ''app'')]\<rparr>"

definition marker_demo_env :: marker_env where
  "marker_demo_env = \<lparr>meRandomKey = ''k3x'', meProduction = False\<rparr>"

definition demo_markers :: marker_state where
  "demo_markers = \<lparr>msHeap = (\<lambda>_. demo_container), msNext = 0, msRecords = Map.empty, msPayloads = Map.empty, msCleanups = Map.empty\<rparr>"

theorem root_marker_round_trip_witness:
  "\<exists>s1 cleanup s2. markContainerAsRootWithRevertRecord marker_demo_env (DObject 7 []) (ObjectArg 0) None demo_markers = (Inr 0, s1) \<and>
     readMarker marker_demo_env (msHeap s1) 0 = DObject 7 [] \<and>
     revertContainerRootMarkerMutation marker_demo_env 0 s1 = (Inr cleanup, s2) \<and> msHeap s2 0 = demo_container"
proof -
  have "fst (markContainerAsRootWithRevertRecord marker_demo_env (DObject 7 []) (ObjectArg 0) None demo_markers) = Inr 0"
    by code_simp
  then obtain s1 where m: "markContainerAsRootWithRevertRecord marker_demo_env (DObject 7 []) (ObjectArg 0) None demo_markers = (Inr 0, s1)"
    by (cases "markContainerAsRootWithRevertRecord marker_demo_env (DObject 7 []) (ObjectArg 0) None demo_markers") auto
  show ?thesis using root_marker_round_trip [OF m] m by (auto simp: demo_markers_def)
qed

end
