(* ===== verification/Hydration_Markers.thy ===== *)
theory Hydration_Markers
  imports Root_Markers
begin

text \<open>
  \<open>packages/react-dom/src/client/hydration-marker-parser.js\<close>: the depth-first scan of a container
  for the markers a server render left in it, and the resolution of the child paths its rows carry.

  A node is a number; its DOM fields are in the heap of \<open>Root_Markers\<close> and in \<open>hnode\<close>. An entry of a
  child list that is no object is \<open>None\<close>. Names of nodes are strings; the empty string stands for a
  missing one. Marker contracts have string fields, \<open>None\<close> for \<open>null\<close>. The scan may not end on an
  unbounded tree; it returns \<open>None\<close> then.
\<close>

datatype child_nodes =
    NoChildNodes
  | ChildArray "nat option list"
  | ChildList "int option" "nat \<Rightarrow> nat option"  \<comment> \<open>array-like: \<open>length\<close> when a number, the indexed entries\<close>

datatype attr_value =
    AttrNullish
  | AttrWithValue "string option"  \<comment> \<open>an object with \<open>value\<close>, \<open>None\<close> when that is nullish\<close>
  | AttrText string

datatype attr_source =
    GetAttribute "string \<Rightarrow> string option"
  | AttrBag "(string \<times> attr_value) list" "(string \<times> string option) list"
      \<comment> \<open>own named entries; the indexed entries when there is a numeric \<open>length\<close>\<close>
  | NoAttributes

record hnode =
  hnTagName :: string
  hnLocalName :: string
  hnData :: "string option"
  hnNodeValue :: "string option"
  hnTextContent :: "string option"
  hnChildNodes :: child_nodes
  hnAttributes :: attr_source
  hnOwn :: "(string \<times> string) list"

record hyd_world =
  hwContainers :: container_heap
  hwNodes :: "nat \<Rightarrow> hnode"

record marker_contract =
  mcId :: string
  mcArea :: string
  mcSerializedMarker :: string
  mcCommentData :: "string option"
  mcCompanionNode :: "string option"
  mcLifecycle :: string

subsection \<open>Reading nodes\<close>

definition readNodeType :: "hyd_world \<Rightarrow> nat \<Rightarrow> js_num option" where
  "readNodeType w n = (case coNodeType (hwContainers w n) of DNum k \<Rightarrow> Some k | _ \<Rightarrow> None)"

definition nodeNameText :: "hyd_world \<Rightarrow> nat \<Rightarrow> string" where
  "nodeNameText w n = (case coNodeName (hwContainers w n) of DStr s \<Rightarrow> s | _ \<Rightarrow> [])"

definition readChildNodes :: "hyd_world \<Rightarrow> nat \<Rightarrow> nat option list" where
  "readChildNodes w n =
     (case hnChildNodes (hwNodes w n) of
        NoChildNodes \<Rightarrow> []
      | ChildArray xs \<Rightarrow> xs
      | ChildList len entry \<Rightarrow>
          (case len of
             Some l \<Rightarrow> if l \<ge> 0 then map entry [0..<nat l] else []
           | None \<Rightarrow> []))"

definition upperChar :: "char \<Rightarrow> char" where
  "upperChar c =
     (let n = of_char c :: nat in
      if 97 \<le> n \<and> n \<le> 122 \<or> 224 \<le> n \<and> n \<le> 254 \<and> n \<noteq> 247 then char_of (n - 32) else c)"

definition toUpperCase :: "string \<Rightarrow> string" where
  "toUpperCase s = map upperChar s"

definition isTemplateElement :: "hyd_world \<Rightarrow> nat option \<Rightarrow> bool" where
  "isTemplateElement w node =
     (case node of
        None \<Rightarrow> False
      | Some n \<Rightarrow>
          if readNodeType w n \<noteq> Some (Fin ELEMENT_NODE) then False
          else (let nodeName = (if nodeNameText w n \<noteq> [] then nodeNameText w n else hnTagName (hwNodes w n))
                in toUpperCase nodeName = ''TEMPLATE'' \<or> toLowerCase (hnLocalName (hwNodes w n)) = ''template''))"

record node_info =
  niNodeName :: "string option"
  niNodeType :: "js_num option"

definition createNodeInfo :: "hyd_world \<Rightarrow> nat \<Rightarrow> node_info" where
  "createNodeInfo w n =
     \<lparr>niNodeName = (if nodeNameText w n \<noteq> [] then Some (nodeNameText w n) else None),
      niNodeType = readNodeType w n\<rparr>"

fun findIndexed :: "string \<Rightarrow> (string \<times> string option) list \<Rightarrow> string option" where
  "findIndexed name [] = None"
| "findIndexed name ((k, v) # rest) = (if k = name then Some (case v of None \<Rightarrow> [] | Some s \<Rightarrow> s) else findIndexed name rest)"

definition readNodeAttribute :: "hyd_world \<Rightarrow> nat \<Rightarrow> string \<Rightarrow> string option" where
  "readNodeAttribute w n name =
     (let own = map_of (hnOwn (hwNodes w n)) name in
      case hnAttributes (hwNodes w n) of
        GetAttribute f \<Rightarrow> f name
      | NoAttributes \<Rightarrow> own
      | AttrBag named indexed \<Rightarrow>
          (case map_of named name of
             Some AttrNullish \<Rightarrow> Some []
           | Some (AttrWithValue v) \<Rightarrow> Some (case v of None \<Rightarrow> [] | Some s \<Rightarrow> s)
           | Some (AttrText s) \<Rightarrow> Some s
           | None \<Rightarrow>
               (case findIndexed name indexed of
                  Some s \<Rightarrow> Some s
                | None \<Rightarrow> own)))"

definition readCommentData :: "hyd_world \<Rightarrow> nat \<Rightarrow> string option" where
  "readCommentData w n =
     (case hnData (hwNodes w n) of Some s \<Rightarrow> Some s | None \<Rightarrow> hnNodeValue (hwNodes w n))"

definition readHydrationTextNodeValue :: "hyd_world \<Rightarrow> nat \<Rightarrow> string option" where
  "readHydrationTextNodeValue w n =
     (if readNodeType w n \<noteq> Some (Fin TEXT_NODE) then None
      else (case hnNodeValue (hwNodes w n) of
              Some s \<Rightarrow> Some s
            | None \<Rightarrow> (case hnData (hwNodes w n) of
                         Some s \<Rightarrow> Some s
                       | None \<Rightarrow> (case hnTextContent (hwNodes w n) of Some s \<Rightarrow> Some s | None \<Rightarrow> Some []))))"

subsection \<open>Marker identifiers\<close>

record marker_id =
  midFull :: string
  midPrefix :: string
  midKind :: char
  midHex :: string

definition isHexDigit :: "char \<Rightarrow> bool" where
  "isHexDigit c \<longleftrightarrow> c \<in> set ''0123456789abcdefABCDEF''"

definition isLineTerminator :: "char \<Rightarrow> bool" where
  "isLineTerminator c \<longleftrightarrow> of_char c \<in> {10, 13 :: nat}"

text \<open>
  The match of \<open>/^(.*)([BPS]):([0-9a-fA-F]+)$/u\<close>: the last colon splits off the digits, the
  letter before it is the kind, and the dot excludes line terminators from the prefix.
\<close>
definition parseHydrationMarkerId :: "string option \<Rightarrow> marker_id option" where
  "parseHydrationMarkerId v =
     (case v of
        None \<Rightarrow> None
      | Some value \<Rightarrow>
          (let hexr = takeWhile (\<lambda>c. c \<noteq> CHR '':'') (rev value);
               rest = dropWhile (\<lambda>c. c \<noteq> CHR '':'') (rev value)
           in case rest of
                colon # kind # prefixr \<Rightarrow>
                  if hexr \<noteq> [] \<and> list_all isHexDigit hexr \<and> kind \<in> set ''BPS'' \<and> list_all (\<lambda>c. \<not> isLineTerminator c) prefixr
                  then Some \<lparr>midFull = value, midPrefix = rev prefixr, midKind = kind, midHex = rev hexr\<rparr>
                  else None
              | _ \<Rightarrow> None))"

text \<open>The text of an identifier, as the server writes it.\<close>
definition markerIdText :: "string \<Rightarrow> char \<Rightarrow> string \<Rightarrow> string" where
  "markerIdText prefix kind hex = prefix @ kind # '':'' @ hex"

lemma parse_marker_id_text:
  assumes "list_all isHexDigit hex" "hex \<noteq> []" "kind \<in> set ''BPS''" "list_all (\<lambda>c. \<not> isLineTerminator c) prefix"
  shows "parseHydrationMarkerId (Some (markerIdText prefix kind hex)) =
    Some \<lparr>midFull = markerIdText prefix kind hex, midPrefix = prefix, midKind = kind, midHex = hex\<rparr>"
proof -
  have c: "\<not> isHexDigit CHR '':''" by (simp add: isHexDigit_def)
  have no: "x \<noteq> CHR '':''" if "x \<in> set (rev hex)" for x
    using assms(1) c that by (auto simp: list_all_iff)
  have r: "rev (markerIdText prefix kind hex) = rev hex @ CHR '':'' # kind # rev prefix" by (simp add: markerIdText_def)
  have "takeWhile (\<lambda>c. c \<noteq> CHR '':'') (rev (markerIdText prefix kind hex)) = rev hex"
    "dropWhile (\<lambda>c. c \<noteq> CHR '':'') (rev (markerIdText prefix kind hex)) = CHR '':'' # kind # rev prefix"
    unfolding r using no by (auto simp: takeWhile_tail dropWhile_append3 takeWhile_append2 dropWhile_append2)
  then show ?thesis using assms by (simp add: parseHydrationMarkerId_def list_all_iff)
qed

subsection \<open>Template markers\<close>

definition templateAttributeNames :: "string list" where
  "templateAttributeNames =
     [''id'', ''data-rsi'', ''data-rci'', ''data-rri'', ''data-rxi'', ''data-bid'', ''data-sid'', ''data-pid'',
      ''data-sty'', ''data-dgst'', ''data-msg'', ''data-stck'', ''data-cstck'']"

definition createTemplateAttributeSnapshot :: "hyd_world \<Rightarrow> nat \<Rightarrow> (string \<times> string) list" where
  "createTemplateAttributeSnapshot w n =
     List.map_filter (\<lambda>name. map_option (\<lambda>value. (name, value)) (readNodeAttribute w n name)) templateAttributeNames"

record template_info =
  tiAttributes :: "(string \<times> string) list"
  tiAttributePresence :: "string list"  \<comment> \<open>the names whose flag is true\<close>
  tiId :: "string option"
  tiIdParts :: "marker_id option"
  tiDataBid :: "string option"
  tiDataBidParts :: "marker_id option"
  tiDataPid :: "string option"
  tiDataPidParts :: "marker_id option"
  tiDataSid :: "string option"
  tiDataSidParts :: "marker_id option"
  tiDigest :: "string option"
  tiMessage :: "string option"
  tiStack :: "string option"
  tiComponentStack :: "string option"

text \<open>\<open>attributes[name] || null\<close>: an empty text counts as missing.\<close>
definition attributeOrNull :: "(string \<times> string) list \<Rightarrow> string \<Rightarrow> string option" where
  "attributeOrNull attributes name =
     (case map_of attributes name of Some s \<Rightarrow> if s = [] then None else Some s | None \<Rightarrow> None)"

definition createTemplateInfo :: "hyd_world \<Rightarrow> nat \<Rightarrow> template_info" where
  "createTemplateInfo w n =
     (let attributes = createTemplateAttributeSnapshot w n; get = attributeOrNull attributes
      in \<lparr>tiAttributes = attributes, tiAttributePresence = map fst attributes,
          tiId = get ''id'', tiIdParts = parseHydrationMarkerId (get ''id''),
          tiDataBid = get ''data-bid'', tiDataBidParts = parseHydrationMarkerId (get ''data-bid''),
          tiDataPid = get ''data-pid'', tiDataPidParts = parseHydrationMarkerId (get ''data-pid''),
          tiDataSid = get ''data-sid'', tiDataSidParts = parseHydrationMarkerId (get ''data-sid''),
          tiDigest = get ''data-dgst'', tiMessage = get ''data-msg'',
          tiStack = get ''data-stck'', tiComponentStack = get ''data-cstck''\<rparr>)"

definition hasAnyAttribute :: "string list \<Rightarrow> string list \<Rightarrow> bool" where
  "hasAnyAttribute attributePresence names \<longleftrightarrow> list_ex (\<lambda>name. name \<in> set attributePresence) names"

definition runtimeAttributes :: "string list" where
  "runtimeAttributes = [''data-rsi'', ''data-rci'', ''data-rri'', ''data-rxi'']"

definition hasKind :: "marker_id option \<Rightarrow> char \<Rightarrow> bool" where
  "hasKind parts kind = (case parts of Some p \<Rightarrow> midKind p = kind | None \<Rightarrow> False)"

definition findCommentContract :: "marker_contract list \<Rightarrow> string option \<Rightarrow> marker_contract option" where
  "findCommentContract contracts commentData =
     find (\<lambda>c. mcCommentData c \<noteq> None \<and> mcCommentData c = commentData) contracts"

definition findContract :: "marker_contract list \<Rightarrow> string \<Rightarrow> marker_contract option" where
  "findContract contracts i = find (\<lambda>c. mcId c = i) contracts"

definition classifyTemplateContract :: "marker_contract list \<Rightarrow> template_info \<Rightarrow> marker_contract option" where
  "classifyTemplateContract contracts info =
     (let present = tiAttributePresence info in
      if hasKind (tiIdParts info) CHR ''P'' \<and> \<not> hasAnyAttribute present runtimeAttributes
      then findContract contracts ''segment-placeholder''
      else if ''data-rsi'' \<in> set present \<and> hasKind (tiDataSidParts info) CHR ''S'' \<and> hasKind (tiDataPidParts info) CHR ''P''
      then findContract contracts ''external-runtime-complete-segment''
      else if ''data-rci'' \<in> set present \<and> hasKind (tiDataBidParts info) CHR ''B'' \<and> hasKind (tiDataSidParts info) CHR ''S''
      then findContract contracts ''external-runtime-complete-boundary''
      else if ''data-rri'' \<in> set present \<and> ''data-sty'' \<in> set present \<and>
              hasKind (tiDataBidParts info) CHR ''B'' \<and> hasKind (tiDataSidParts info) CHR ''S''
      then findContract contracts ''external-runtime-complete-boundary-with-styles''
      else if ''data-rxi'' \<in> set present \<and> hasKind (tiDataBidParts info) CHR ''B''
      then findContract contracts ''external-runtime-client-render-boundary''
      else None)"

definition looksLikeHydrationTemplate :: "template_info \<Rightarrow> bool" where
  "looksLikeHydrationTemplate info \<longleftrightarrow>
     tiIdParts info \<noteq> None \<or> tiDataBidParts info \<noteq> None \<or> tiDataPidParts info \<noteq> None \<or>
     tiDataSidParts info \<noteq> None \<or> hasAnyAttribute (tiAttributePresence info) runtimeAttributes"

definition looksLikeHydrationCommentData :: "string option \<Rightarrow> bool" where
  "looksLikeHydrationCommentData commentData =
     (case commentData of
        None \<Rightarrow> False
      | Some d \<Rightarrow>
          startsWith d ''$'' \<or> startsWith d ''/'' \<or> d = ''&'' \<or> d = ''/&'' \<or> d = ''F'' \<or> d = ''F!'' \<or>
          d = ''html'' \<or> d = ''head'' \<or> d = ''body'')"

subsection \<open>The scan\<close>

record companion =
  cpPath :: string
  cpStatus :: string
  cpExpected :: string
  cpContractId :: string
  cpTemplateInfo :: "template_info option"
  cpNodeInfo :: "node_info option"
  cpAcceptedEvidence :: bool

record marker_row =
  rwKind :: string
  rwMarkerId :: string
  rwPath :: string
  rwDepth :: nat
  rwIndex :: nat
  rwContractId :: string
  rwArea :: string
  rwLifecycle :: string
  rwCommentData :: "string option"
  rwSerializedMarker :: string
  rwCompanion :: "companion option"
  rwCompanionNode :: "string option"
  rwTemplateInfo :: "template_info option"
  rwNodeInfo :: node_info

record unrecognized_row =
  ukKind :: string
  ukPath :: string
  ukNodeInfo :: node_info
  ukCommentData :: "string option"
  ukTemplateInfo :: "template_info option"
  ukStatus :: string

record scan_state =
  hsAcceptedMarkerCount :: nat
  hsCommentMarkerCount :: nat
  hsCompanionPaths :: "string list"
  hsMarkerRows :: "marker_row list"
  hsNodeCount :: nat
  hsSummaryCounts :: "string \<Rightarrow> nat"
  hsTemplateMarkerCount :: nat
  hsUnrecognizedRows :: "unrecognized_row list"
  hsVisitedNodes :: "nat list"

definition pushMarkerRow :: "marker_row \<Rightarrow> scan_state \<Rightarrow> scan_state" where
  "pushMarkerRow row s =
     s\<lparr>hsMarkerRows := hsMarkerRows s @ [row], hsAcceptedMarkerCount := hsAcceptedMarkerCount s + 1,
       hsSummaryCounts := (hsSummaryCounts s)(rwContractId row := hsSummaryCounts s (rwContractId row) + 1)\<rparr>"

definition createMarkerRowId :: "string \<Rightarrow> string \<Rightarrow> string" where
  "createMarkerRowId contractId path = contractId @ ''@'' @ path"

definition classifyCommentCompanion :: "hyd_world \<Rightarrow> marker_contract \<Rightarrow> nat option \<Rightarrow> string \<times> template_info option" where
  "classifyCommentCompanion w contract nextNode =
     (case nextNode of
        Some n \<Rightarrow>
          if \<not> isTemplateElement w nextNode then (''missing-template-companion'', None)
          else (let info = createTemplateInfo w n in
                if mcId contract = ''suspense-pending-start'' \<or> mcId contract = ''suspense-queued-start''
                then (if hasKind (tiIdParts info) CHR ''B'' then ''matched'' else ''template-companion-without-boundary-id'', Some info)
                else if mcId contract = ''suspense-client-rendered-start'' then (''matched'', Some info)
                else (''unsupported-companion-contract'', Some info))
      | None \<Rightarrow> (''missing-template-companion'', None))"

definition inspectCommentCompanion :: "hyd_world \<Rightarrow> marker_contract \<Rightarrow> nat option \<Rightarrow> string \<Rightarrow> companion option" where
  "inspectCommentCompanion w contract nextNode nextPath =
     (case mcCompanionNode contract of
        None \<Rightarrow> None
      | Some expected \<Rightarrow>
          (let (status, info) = classifyCommentCompanion w contract nextNode in
           Some \<lparr>cpPath = nextPath, cpStatus = status, cpExpected = expected, cpContractId = mcId contract,
                 cpTemplateInfo = info, cpNodeInfo = map_option (createNodeInfo w) nextNode,
                 cpAcceptedEvidence = (status = ''matched'')\<rparr>))"

definition inspectCommentMarker ::
  "hyd_world \<Rightarrow> marker_contract list \<Rightarrow> nat \<Rightarrow> nat \<Rightarrow> nat option \<Rightarrow> string \<Rightarrow> nat \<Rightarrow> string \<Rightarrow> scan_state \<Rightarrow> scan_state" where
  "inspectCommentMarker w contracts depth index nextNode nextPath n path s =
     (let commentData = readCommentData w n; nodeInfo = createNodeInfo w n in
      case findCommentContract contracts commentData of
        None \<Rightarrow>
          if looksLikeHydrationCommentData commentData
          then s\<lparr>hsUnrecognizedRows := hsUnrecognizedRows s @
                 [\<lparr>ukKind = ''comment'', ukPath = path, ukNodeInfo = nodeInfo, ukCommentData = commentData,
                   ukTemplateInfo = None, ukStatus = ''unrecognized-hydration-comment-marker''\<rparr>]\<rparr>
          else s
      | Some contract \<Rightarrow>
          (let companion = inspectCommentCompanion w contract nextNode nextPath;
               s1 = (case companion of
                       None \<Rightarrow> s
                     | Some c \<Rightarrow> if cpPath c \<noteq> [] then s\<lparr>hsCompanionPaths := cpPath c # hsCompanionPaths s\<rparr> else s);
               s2 = pushMarkerRow
                      \<lparr>rwKind = ''comment'', rwMarkerId = createMarkerRowId (mcId contract) path, rwPath = path,
                       rwDepth = depth, rwIndex = index, rwContractId = mcId contract, rwArea = mcArea contract,
                       rwLifecycle = mcLifecycle contract, rwCommentData = commentData,
                       rwSerializedMarker = mcSerializedMarker contract, rwCompanion = companion,
                       rwCompanionNode = None, rwTemplateInfo = None, rwNodeInfo = nodeInfo\<rparr> s1
           in s2\<lparr>hsCommentMarkerCount := hsCommentMarkerCount s2 + 1\<rparr>))"

definition inspectTemplateMarker ::
  "hyd_world \<Rightarrow> marker_contract list \<Rightarrow> nat \<Rightarrow> nat \<Rightarrow> nat \<Rightarrow> string \<Rightarrow> scan_state \<Rightarrow> scan_state" where
  "inspectTemplateMarker w contracts depth index n path s =
     (let info = createTemplateInfo w n in
      case classifyTemplateContract contracts info of
        None \<Rightarrow>
          if looksLikeHydrationTemplate info
          then s\<lparr>hsUnrecognizedRows := hsUnrecognizedRows s @
                 [\<lparr>ukKind = ''template'', ukPath = path, ukNodeInfo = createNodeInfo w n, ukCommentData = None,
                   ukTemplateInfo = Some info, ukStatus = ''unrecognized-hydration-template-marker''\<rparr>]\<rparr>
          else s
      | Some contract \<Rightarrow>
          (let s1 = pushMarkerRow
                      \<lparr>rwKind = ''template'', rwMarkerId = createMarkerRowId (mcId contract) path, rwPath = path,
                       rwDepth = depth, rwIndex = index, rwContractId = mcId contract, rwArea = mcArea contract,
                       rwLifecycle = mcLifecycle contract, rwCommentData = None,
                       rwSerializedMarker = mcSerializedMarker contract, rwCompanion = None,
                       rwCompanionNode = mcCompanionNode contract, rwTemplateInfo = Some info,
                       rwNodeInfo = createNodeInfo w n\<rparr> s
           in s1\<lparr>hsTemplateMarkerCount := hsTemplateMarkerCount s1 + 1\<rparr>))"

definition inspectHydrationNode ::
  "hyd_world \<Rightarrow> marker_contract list \<Rightarrow> nat \<Rightarrow> nat \<Rightarrow> nat option \<Rightarrow> string \<Rightarrow> nat \<Rightarrow> string \<Rightarrow> scan_state \<Rightarrow> scan_state" where
  "inspectHydrationNode w contracts depth index nextNode nextPath n path s =
     (if readNodeType w n = Some (Fin COMMENT_NODE)
      then inspectCommentMarker w contracts depth index nextNode nextPath n path s
      else if isTemplateElement w (Some n) then inspectTemplateMarker w contracts depth index n path s
      else s)"

definition childPath :: "string \<Rightarrow> nat \<Rightarrow> string" where
  "childPath parentPath index = parentPath @ ''.childNodes['' @ nat_str index @ '']''"

text \<open>The body of the loop for one node that was not visited before, up to the recursive call.\<close>
definition visitNode ::
  "hyd_world \<Rightarrow> marker_contract list \<Rightarrow> string \<Rightarrow> nat \<Rightarrow> nat \<Rightarrow> nat \<Rightarrow> nat option list \<Rightarrow> scan_state \<Rightarrow> scan_state" where
  "visitNode w contracts parentPath depth index n rest s =
     (let s1 = s\<lparr>hsVisitedNodes := n # hsVisitedNodes s, hsNodeCount := hsNodeCount s + 1\<rparr>;
          path = childPath parentPath index
      in if path \<in> set (hsCompanionPaths s1) then s1
         else inspectHydrationNode w contracts depth index (case rest of [] \<Rightarrow> None | x # _ \<Rightarrow> x)
                (childPath parentPath (index + 1)) n path s1)"

text \<open>The loop of \<open>scanChildNodes\<close> from \<open>index\<close> on, over the remaining entries of the child list.\<close>
partial_function (option) scanList ::
  "hyd_world \<Rightarrow> marker_contract list \<Rightarrow> string \<Rightarrow> nat \<Rightarrow> nat \<Rightarrow> nat option list \<Rightarrow> scan_state \<Rightarrow> scan_state option" where
  [code]: "scanList w contracts parentPath depth index nodes s =
     (case nodes of
        [] \<Rightarrow> Some s
      | None # rest \<Rightarrow> scanList w contracts parentPath depth (index + 1) rest s
      | Some n # rest \<Rightarrow>
          if n \<in> set (hsVisitedNodes s) then scanList w contracts parentPath depth (index + 1) rest s
          else Option.bind
                 (scanList w contracts (childPath parentPath index) (depth + 1) 0 (readChildNodes w n)
                    (visitNode w contracts parentPath depth index n rest s))
                 (scanList w contracts parentPath depth (index + 1) rest))"

definition scanChildNodes ::
  "hyd_world \<Rightarrow> marker_contract list \<Rightarrow> nat \<Rightarrow> string \<Rightarrow> nat \<Rightarrow> scan_state \<Rightarrow> scan_state option" where
  "scanChildNodes w contracts parentNode parentPath depth s =
     scanList w contracts parentPath depth 0 (readChildNodes w parentNode) s"

definition normalizeAcceptedMarkerContracts :: "marker_contract list option \<Rightarrow> dom_error + marker_contract list" where
  "normalizeAcceptedMarkerContracts markerContracts =
     (case markerContracts of
        None \<Rightarrow> Inl (CodedError ''FAST_REACT_DOM_HYDRATION_MARKER_CONTRACTS_REQUIRED''
                 ''Hydration marker parser requires accepted marker contracts.'')
      | Some cs \<Rightarrow> Inr cs)"

definition createSummaryByContract :: "marker_contract list \<Rightarrow> scan_state \<Rightarrow> (string \<times> nat) list" where
  "createSummaryByContract contracts s = map (\<lambda>c. (mcId c, hsSummaryCounts s (mcId c))) contracts"

definition initialScanState :: scan_state where
  "initialScanState =
     \<lparr>hsAcceptedMarkerCount = 0, hsCommentMarkerCount = 0, hsCompanionPaths = [], hsMarkerRows = [],
      hsNodeCount = 0, hsSummaryCounts = (\<lambda>_. 0), hsTemplateMarkerCount = 0, hsUnrecognizedRows = [],
      hsVisitedNodes = []\<rparr>"

record marker_report =
  rpContainerInfo :: container_info
  rpMarkerContractCount :: nat
  rpNodeCount :: nat
  rpAcceptedMarkerCount :: nat
  rpCommentMarkerCount :: nat
  rpTemplateMarkerCount :: nat
  rpUnrecognizedMarkerCount :: nat
  rpMarkers :: "marker_row list"
  rpUnrecognizedMarkers :: "unrecognized_row list"
  rpSummaryByContract :: "(string \<times> nat) list"

text \<open>\<open>None\<close> when the scan does not end; the constant capability flags of the record are left out.\<close>
definition inspectHydrationContainerMarkers ::
  "marker_env \<Rightarrow> hyd_world \<Rightarrow> container_arg \<Rightarrow> bool option \<Rightarrow> marker_contract list option \<Rightarrow> (dom_error + marker_report) option" where
  "inspectHydrationContainerMarkers env w container production markerContracts =
     (case assertValidContainer env (hwContainers w) container production of
        Inl e \<Rightarrow> Some (Inl e)
      | Inr c \<Rightarrow>
          (case normalizeAcceptedMarkerContracts markerContracts of
             Inl e \<Rightarrow> Some (Inl e)
           | Inr contracts \<Rightarrow>
               map_option
                 (\<lambda>s. Inr \<lparr>rpContainerInfo = describeContainer (hwContainers w) container,
                           rpMarkerContractCount = length contracts, rpNodeCount = hsNodeCount s,
                           rpAcceptedMarkerCount = hsAcceptedMarkerCount s,
                           rpCommentMarkerCount = hsCommentMarkerCount s,
                           rpTemplateMarkerCount = hsTemplateMarkerCount s,
                           rpUnrecognizedMarkerCount = length (hsUnrecognizedRows s),
                           rpMarkers = hsMarkerRows s, rpUnrecognizedMarkers = hsUnrecognizedRows s,
                           rpSummaryByContract = createSummaryByContract contracts s\<rparr>)
                 (scanChildNodes w contracts c ''container'' 0 initialScanState)))"

subsection \<open>Child paths\<close>

definition isDigit :: "char \<Rightarrow> bool" where
  "isDigit c \<longleftrightarrow> c \<in> set ''0123456789''"

text \<open>\<open>Number(digits)\<close>, exact.\<close>
definition digitsValue :: "string \<Rightarrow> nat" where
  "digitsValue ds = foldl (\<lambda>n c. 10 * n + (of_char c - 48)) 0 ds"

text \<open>The match of \<open>/^\.childNodes\[(\d+)\]/u\<close>: the index and what follows the match.\<close>
definition matchSegment :: "string \<Rightarrow> (nat \<times> string) option" where
  "matchSegment s =
     (if \<not> startsWith s ''.childNodes['' then None
      else (let r = drop (length ''.childNodes['') s; ds = takeWhile isDigit r
            in case dropWhile isDigit r of
                 c # rest \<Rightarrow> if ds \<noteq> [] \<and> c = CHR '']'' then Some (digitsValue ds, rest) else None
               | [] \<Rightarrow> None))"

lemma matchSegment_shorter: "matchSegment s = Some (i, rest) \<Longrightarrow> length rest < length s"
proof -
  assume m: "matchSegment s = Some (i, rest)"
  define r where "r = drop (length ''.childNodes['') s"
  obtain c where "dropWhile isDigit r = c # rest"
    using m by (auto simp: matchSegment_def r_def Let_def split: if_splits list.splits)
  then have "length rest < length r" using length_dropWhile_le [of isDigit r] by simp
  then show ?thesis by (simp add: r_def)
qed

function parseSegments :: "string \<Rightarrow> nat list option" where
  "parseSegments s =
     (if s = [] then Some []
      else (case matchSegment s of
              None \<Rightarrow> None
            | Some (i, rest) \<Rightarrow> map_option (\<lambda>is. i # is) (parseSegments rest)))"
  by pat_completeness auto
termination
  by (relation "measure length") (auto dest: matchSegment_shorter)

declare parseSegments.simps [simp del]

definition parseHydrationContainerChildPath :: "string \<Rightarrow> nat list option" where
  "parseHydrationContainerChildPath path =
     (if \<not> startsWith path ''container'' then None
      else (case parseSegments (drop (length ''container'') path) of
              Some [] \<Rightarrow> None
            | r \<Rightarrow> r))"

record resolution =
  rsPath :: string
  rsResolvedPath :: string
  rsStatus :: string
  rsNode :: "nat option"
  rsNodeInfo :: "node_info option"
  rsParentNode :: nat
  rsParentPath :: string
  rsIndex :: nat
  rsSegmentCount :: nat

text \<open>\<open>childNodes[childIndex] || null\<close>, with an entry that is no object as \<open>None\<close>.\<close>
definition childAt :: "hyd_world \<Rightarrow> nat \<Rightarrow> nat \<Rightarrow> nat option" where
  "childAt w node childIndex =
     (let childNodes = readChildNodes w node in if childIndex < length childNodes then childNodes ! childIndex else None)"

text \<open>The loop from one segment on; \<open>node\<close> and \<open>resolvedPath\<close> are where the walk is.\<close>
fun resolveLoop :: "hyd_world \<Rightarrow> string \<Rightarrow> nat \<Rightarrow> nat list \<Rightarrow> nat \<Rightarrow> string \<Rightarrow> resolution option" where
  "resolveLoop w path segmentCount [] node resolvedPath = None"
| "resolveLoop w path segmentCount (childIndex # rest) node resolvedPath =
     (let childResolved = childPath resolvedPath childIndex
      in case childAt w node childIndex of
           None \<Rightarrow>
             Some \<lparr>rsPath = path, rsResolvedPath = childResolved, rsStatus = ''missing-node'', rsNode = None,
                   rsNodeInfo = None, rsParentNode = node, rsParentPath = resolvedPath, rsIndex = childIndex,
                   rsSegmentCount = segmentCount\<rparr>
         | Some child \<Rightarrow>
             if rest = [] then
               Some \<lparr>rsPath = path, rsResolvedPath = childResolved,
                     rsStatus = (if childResolved = path then ''resolved'' else ''resolved-path-mismatch''),
                     rsNode = Some child, rsNodeInfo = Some (createNodeInfo w child), rsParentNode = node,
                     rsParentPath = resolvedPath, rsIndex = childIndex, rsSegmentCount = segmentCount\<rparr>
             else resolveLoop w path segmentCount rest child childResolved)"

text \<open>\<open>Inr None\<close> is the result \<open>null\<close> for a text that is no child path.\<close>
definition resolveHydrationContainerNodePath ::
  "marker_env \<Rightarrow> hyd_world \<Rightarrow> container_arg \<Rightarrow> string \<Rightarrow> bool option \<Rightarrow> dom_error + resolution option" where
  "resolveHydrationContainerNodePath env w container path production =
     (case assertValidContainer env (hwContainers w) container production of
        Inl e \<Rightarrow> Inl e
      | Inr c \<Rightarrow>
          (case parseHydrationContainerChildPath path of
             None \<Rightarrow> Inr None
           | Some segments \<Rightarrow> Inr (resolveLoop w path (length segments) segments c ''container'')))"

end
