(* ===== verification/Hydration_Props.thy ===== *)
theory Hydration_Props
  imports Hydration_Markers
begin

text \<open>
  The scan of \<open>Hydration_Markers\<close> ends on every finite tree, visits exactly the nodes below the container,
  and the path of every row leads back to the node it describes.
\<close>

subsection \<open>Paths\<close>

definition segmentText :: "nat \<Rightarrow> string" where
  "segmentText i = ''.childNodes['' @ nat_str i @ '']''"

definition pathText :: "nat list \<Rightarrow> string" where
  "pathText is = foldl childPath ''container'' is"

fun follow :: "hyd_world \<Rightarrow> nat \<Rightarrow> nat list \<Rightarrow> nat option" where
  "follow w n [] = Some n"
| "follow w n (i # is) =
     (case childAt w n i of
        None \<Rightarrow> None
      | Some c \<Rightarrow> follow w c is)"

definition below :: "hyd_world \<Rightarrow> nat \<Rightarrow> nat set" where
  "below w c = {n. \<exists>is. is \<noteq> [] \<and> follow w c is = Some n}"

lemma isDigit_digit_char [simp]: "isDigit (digit_char n)"
proof -
  have small: "isDigit (char_of (48 + k))" if "k < 10" for k :: nat
  proof -
    have "k = 0 \<or> k = 1 \<or> k = 2 \<or> k = 3 \<or> k = 4 \<or> k = 5 \<or> k = 6 \<or> k = 7 \<or> k = 8 \<or> k = 9" using that by arith
    then show ?thesis unfolding isDigit_def by (elim disjE) (simp_all add: char_of_def bit_0)
  qed
  show ?thesis unfolding digit_char_def by (rule small) simp
qed

lemma of_char_digit_char: "(of_char (digit_char n) :: nat) = 48 + n mod 10"
  by (simp add: digit_char_def)

lemma nat_str_digits: "list_all isDigit (nat_str n)"
proof (induction n rule: nat_str.induct)
  case (1 n)
  then show ?case by (subst nat_str.simps) auto
qed

lemma digitsValue_snoc: "digitsValue (ds @ [c]) = 10 * digitsValue ds + (of_char c - 48)"
  by (simp add: digitsValue_def)

lemma digitsValue_nat_str [simp]: "digitsValue (nat_str n) = n"
proof (induction n rule: nat_str.induct)
  case (1 n)
  show ?case
  proof (cases "n < 10")
    case True
    then show ?thesis by (subst nat_str.simps) (simp add: digitsValue_def of_char_digit_char)
  next
    case False
    then show ?thesis using 1 by (subst nat_str.simps) (simp add: digitsValue_snoc of_char_digit_char)
  qed
qed

lemma matchSegment_text: "matchSegment (segmentText i @ rest) = Some (i, rest)"
proof -
  have d: "\<forall>c\<in>set (nat_str i). isDigit c" using nat_str_digits by (simp add: list_all_iff)
  have b: "\<not> isDigit CHR '']''" by (simp add: isDigit_def)
  have "takeWhile isDigit (nat_str i @ CHR '']'' # rest) = nat_str i"
    "dropWhile isDigit (nat_str i @ CHR '']'' # rest) = CHR '']'' # rest"
    using d b by (simp_all add: takeWhile_append2 dropWhile_append2)
  then show ?thesis by (simp add: matchSegment_def segmentText_def startsWith_def)
qed

lemma parseSegments_text: "parseSegments (concat (map segmentText is)) = Some is"
proof (induction "is")
  case Nil
  then show ?case by (simp add: parseSegments.simps)
next
  case (Cons i "is")
  have "segmentText i @ concat (map segmentText is) \<noteq> []" by (simp add: segmentText_def)
  then show ?case using Cons by (subst parseSegments.simps) (simp add: matchSegment_text)
qed

lemma foldl_childPath: "foldl childPath p is = p @ concat (map segmentText is)"
  by (induction "is" arbitrary: p) (simp_all add: childPath_def segmentText_def)

lemma pathText_text: "pathText is = ''container'' @ concat (map segmentText is)"
  by (simp only: pathText_def foldl_childPath)

lemma parse_pathText: "is \<noteq> [] \<Longrightarrow> parseHydrationContainerChildPath (pathText is) = Some is"
  using parseSegments_text [of "is"]
  by (cases "is") (simp_all add: parseHydrationContainerChildPath_def pathText_text startsWith_def)

lemma pathText_snoc: "pathText (is @ [i]) = childPath (pathText is) i"
  by (simp add: pathText_def)

lemma pathText_inject: "is \<noteq> [] \<Longrightarrow> js \<noteq> [] \<Longrightarrow> pathText is = pathText js \<Longrightarrow> is = js"
  using parse_pathText by (metis option.inject)

lemma follow_append: "follow w n (is @ js) = Option.bind (follow w n is) (\<lambda>m. follow w m js)"
  by (induction "is" arbitrary: n) (auto split: option.splits)

lemma resolveLoop_follow:
  assumes "is \<noteq> []" "follow w n is = Some m"
  shows "\<exists>r. resolveLoop w path k is n p = Some r \<and> rsNode r = Some m \<and> rsIndex r = last is \<and> rsSegmentCount r = k \<and>
    rsStatus r = (if foldl childPath p is = path then ''resolved'' else ''resolved-path-mismatch'')"
  using assms
proof (induction "is" arbitrary: n p)
  case (Cons i "is")
  then show ?case by (cases "is = []"; cases "childAt w n i") (auto simp: Let_def)
qed simp

lemma resolve_pathText:
  assumes "isValidContainer (hwContainers w) (ObjectArg c)" "is \<noteq> []" "follow w c is = Some m"
  shows "\<exists>r. resolveHydrationContainerNodePath env w (ObjectArg c) (pathText is) production = Inr (Some r) \<and>
    rsStatus r = ''resolved'' \<and> rsNode r = Some m \<and> rsIndex r = last is \<and> rsSegmentCount r = length is"
  using resolveLoop_follow [OF assms(2,3), of "pathText is" "length is" "''container''"] assms(1)
  by (auto simp: resolveHydrationContainerNodePath_def assertValidContainer_def parse_pathText [OF assms(2)] pathText_def [symmetric])

subsection \<open>What the state of the scan means\<close>

definition kids :: "hyd_world \<Rightarrow> nat \<Rightarrow> nat set" where
  "kids w n = {c. Some c \<in> set (readChildNodes w n)}"

text \<open>The row \<open>r\<close> describes the node \<open>n\<close> under one of the contracts.\<close>
definition marksNode :: "hyd_world \<Rightarrow> marker_contract list \<Rightarrow> marker_row \<Rightarrow> nat \<Rightarrow> bool" where
  "marksNode w contracts r n \<longleftrightarrow>
     rwNodeInfo r = createNodeInfo w n \<and>
     (\<exists>k\<in>set contracts. rwContractId r = mcId k \<and> rwArea r = mcArea k \<and>
        (rwKind r = ''comment'' \<and> readNodeType w n = Some (Fin COMMENT_NODE) \<and> mcCommentData k \<noteq> None \<and>
           readCommentData w n = mcCommentData k \<and> rwCommentData r = mcCommentData k \<or>
         rwKind r = ''template'' \<and> isTemplateElement w (Some n) \<and>
           classifyTemplateContract contracts (createTemplateInfo w n) = Some k))"

definition rowOk :: "hyd_world \<Rightarrow> marker_contract list \<Rightarrow> nat \<Rightarrow> nat set \<Rightarrow> marker_row \<Rightarrow> bool" where
  "rowOk w contracts c V r \<longleftrightarrow>
     (\<exists>is n. is \<noteq> [] \<and> rwPath r = pathText is \<and> follow w c is = Some n \<and> n \<in> V \<and>
        rwIndex r = last is \<and> length is = rwDepth r + 1 \<and> marksNode w contracts r n)"

definition claims :: "marker_row \<Rightarrow> string \<Rightarrow> bool" where
  "claims r path \<longleftrightarrow> rwPath r = path \<or> (\<exists>cp. rwCompanion r = Some cp \<and> cpPath cp = path)"

definition isMarkerComment :: "hyd_world \<Rightarrow> marker_contract list \<Rightarrow> nat \<Rightarrow> bool" where
  "isMarkerComment w contracts n \<longleftrightarrow>
     readNodeType w n = Some (Fin COMMENT_NODE) \<and> findCommentContract contracts (readCommentData w n) \<noteq> None"

text \<open>The node is reported, or another reported marker claims its place as its companion.\<close>
definition accounted :: "hyd_world \<Rightarrow> nat \<Rightarrow> marker_row list \<Rightarrow> nat \<Rightarrow> bool" where
  "accounted w c rows n \<longleftrightarrow> (\<exists>is. is \<noteq> [] \<and> follow w c is = Some n \<and> (\<exists>r\<in>set rows. claims r (pathText is)))"

definition countsOk :: "scan_state \<Rightarrow> bool" where
  "countsOk s \<longleftrightarrow>
     hsAcceptedMarkerCount s = length (hsMarkerRows s) \<and>
     hsCommentMarkerCount s + hsTemplateMarkerCount s = length (hsMarkerRows s) \<and>
     hsSummaryCounts s = (\<lambda>i. length (filter (\<lambda>r. rwContractId r = i) (hsMarkerRows s))) \<and>
     hsNodeCount s = length (hsVisitedNodes s) \<and> distinct (hsVisitedNodes s)"

definition scanOk :: "hyd_world \<Rightarrow> marker_contract list \<Rightarrow> nat \<Rightarrow> scan_state \<Rightarrow> bool" where
  "scanOk w contracts c s \<longleftrightarrow>
     countsOk s \<and> set (hsVisitedNodes s) \<subseteq> below w c \<and>
     (\<forall>r\<in>set (hsMarkerRows s). rowOk w contracts c (set (hsVisitedNodes s)) r) \<and>
     distinct (map rwPath (hsMarkerRows s)) \<and>
     (\<forall>p\<in>set (hsCompanionPaths s). \<exists>r\<in>set (hsMarkerRows s). claims r p) \<and>
     (\<forall>n\<in>set (hsVisitedNodes s). isMarkerComment w contracts n \<longrightarrow> accounted w c (hsMarkerRows s) n)"

lemma scanOkD:
  assumes "scanOk w contracts c s"
  shows "countsOk s" "set (hsVisitedNodes s) \<subseteq> below w c"
    "r \<in> set (hsMarkerRows s) \<Longrightarrow> rowOk w contracts c (set (hsVisitedNodes s)) r"
    "distinct (map rwPath (hsMarkerRows s))"
    "p \<in> set (hsCompanionPaths s) \<Longrightarrow> \<exists>r\<in>set (hsMarkerRows s). claims r p"
    "n \<in> set (hsVisitedNodes s) \<Longrightarrow> isMarkerComment w contracts n \<Longrightarrow> accounted w c (hsMarkerRows s) n"
  using assms by (auto simp: scanOk_def)

lemma rowOk_mono: "rowOk w contracts c V r \<Longrightarrow> V \<subseteq> V' \<Longrightarrow> rowOk w contracts c V' r"
  unfolding rowOk_def by blast

lemma findCommentContract_Some:
  assumes "findCommentContract contracts d = Some k"
  shows "k \<in> set contracts" "mcCommentData k = d" "mcCommentData k \<noteq> None"
  using assms by (auto simp: findCommentContract_def find_Some_iff in_set_conv_nth)

lemma classify_in: "classifyTemplateContract contracts info = Some k \<Longrightarrow> k \<in> set contracts"
  by (auto simp: classifyTemplateContract_def findContract_def Let_def find_Some_iff in_set_conv_nth split: if_splits)

text \<open>A step on a new node: at most one row is added, for that node and path; the companion path it claims is recorded.\<close>
definition inspected :: "hyd_world \<Rightarrow> marker_contract list \<Rightarrow> nat \<Rightarrow> nat \<Rightarrow> nat \<Rightarrow> string \<Rightarrow> scan_state \<Rightarrow> scan_state \<Rightarrow> bool" where
  "inspected w contracts depth index n path s s' \<longleftrightarrow>
     hsVisitedNodes s' = hsVisitedNodes s \<and> hsNodeCount s' = hsNodeCount s \<and>
     (hsMarkerRows s' = hsMarkerRows s \<and> hsCompanionPaths s' = hsCompanionPaths s \<and> (countsOk s \<longrightarrow> countsOk s') \<and>
        \<not> isMarkerComment w contracts n \<or>
      (\<exists>r. hsMarkerRows s' = hsMarkerRows s @ [r] \<and> rwPath r = path \<and> rwIndex r = index \<and> rwDepth r = depth \<and>
         marksNode w contracts r n \<and> (countsOk s \<longrightarrow> countsOk s') \<and>
         (\<forall>p\<in>set (hsCompanionPaths s'). p \<in> set (hsCompanionPaths s) \<or> claims r p)))"

lemma countsOk_push:
  assumes "countsOk s" "hsVisitedNodes s' = hsVisitedNodes s" "hsNodeCount s' = hsNodeCount s"
    "hsMarkerRows s' = hsMarkerRows s @ [r]" "hsAcceptedMarkerCount s' = hsAcceptedMarkerCount s + 1"
    "hsCommentMarkerCount s' + hsTemplateMarkerCount s' = hsCommentMarkerCount s + hsTemplateMarkerCount s + 1"
    "hsSummaryCounts s' = (hsSummaryCounts s)(rwContractId r := hsSummaryCounts s (rwContractId r) + 1)"
  shows "countsOk s'"
  using assms by (auto simp: countsOk_def)

lemma countsOk_simple [simp]: "countsOk (s\<lparr>hsUnrecognizedRows := us\<rparr>) = countsOk s" "countsOk (s\<lparr>hsCompanionPaths := ps\<rparr>) = countsOk s"
  by (simp_all add: countsOk_def)

lemma comment_inspected:
  assumes "readNodeType w n = Some (Fin COMMENT_NODE)"
  shows "inspected w contracts depth index n path s (inspectCommentMarker w contracts depth index nextNode nextPath n path s)"
proof (cases "findCommentContract contracts (readCommentData w n)")
  case None
  then show ?thesis by (auto simp: inspected_def inspectCommentMarker_def Let_def isMarkerComment_def)
next
  case (Some k)
  note K = findCommentContract_Some [OF Some]
  let ?s = "inspectCommentMarker w contracts depth index nextNode nextPath n path s"
  let ?cp = "inspectCommentCompanion w k nextNode nextPath"
  obtain r where r: "hsMarkerRows ?s = hsMarkerRows s @ [r]" "rwPath r = path" "rwIndex r = index" "rwDepth r = depth"
    "rwCompanion r = ?cp" "rwContractId r = mcId k" "rwArea r = mcArea k" "rwKind r = ''comment''"
    "rwCommentData r = readCommentData w n" "rwNodeInfo r = createNodeInfo w n"
    "hsSummaryCounts ?s = (hsSummaryCounts s)(mcId k := hsSummaryCounts s (mcId k) + 1)"
    using Some by (auto simp: inspectCommentMarker_def pushMarkerRow_def Let_def split: option.splits)
  have f: "hsVisitedNodes ?s = hsVisitedNodes s" "hsNodeCount ?s = hsNodeCount s"
    "hsAcceptedMarkerCount ?s = hsAcceptedMarkerCount s + 1" "hsCommentMarkerCount ?s = hsCommentMarkerCount s + 1"
    "hsTemplateMarkerCount ?s = hsTemplateMarkerCount s"
    "\<forall>p\<in>set (hsCompanionPaths ?s). p \<in> set (hsCompanionPaths s) \<or> (\<exists>cp. ?cp = Some cp \<and> cpPath cp = p)"
    using Some by (auto simp: inspectCommentMarker_def pushMarkerRow_def Let_def split: option.splits if_splits)
  have "marksNode w contracts r n" using K r assms by (auto simp: marksNode_def)
  moreover have "countsOk s \<longrightarrow> countsOk ?s"
  proof
    assume "countsOk s"
    then show "countsOk ?s" by (rule countsOk_push [OF _ f(1,2) r(1)]) (use f r in simp_all)
  qed
  ultimately show ?thesis using r f by (auto simp: inspected_def claims_def)
qed

lemma template_inspected:
  assumes "readNodeType w n \<noteq> Some (Fin COMMENT_NODE)" "isTemplateElement w (Some n)"
  shows "inspected w contracts depth index n path s (inspectTemplateMarker w contracts depth index n path s)"
proof (cases "classifyTemplateContract contracts (createTemplateInfo w n)")
  case None
  then show ?thesis using assms(1) by (auto simp: inspected_def inspectTemplateMarker_def Let_def isMarkerComment_def)
next
  case (Some k)
  let ?s = "inspectTemplateMarker w contracts depth index n path s"
  obtain r where r: "hsMarkerRows ?s = hsMarkerRows s @ [r]" "rwPath r = path" "rwIndex r = index" "rwDepth r = depth"
    "rwContractId r = mcId k" "rwArea r = mcArea k" "rwKind r = ''template''" "rwNodeInfo r = createNodeInfo w n"
    "hsSummaryCounts ?s = (hsSummaryCounts s)(mcId k := hsSummaryCounts s (mcId k) + 1)"
    using Some by (auto simp: inspectTemplateMarker_def pushMarkerRow_def Let_def)
  have f: "hsVisitedNodes ?s = hsVisitedNodes s" "hsNodeCount ?s = hsNodeCount s"
    "hsAcceptedMarkerCount ?s = hsAcceptedMarkerCount s + 1" "hsCommentMarkerCount ?s = hsCommentMarkerCount s"
    "hsTemplateMarkerCount ?s = hsTemplateMarkerCount s + 1" "hsCompanionPaths ?s = hsCompanionPaths s"
    using Some by (auto simp: inspectTemplateMarker_def pushMarkerRow_def Let_def)
  have "marksNode w contracts r n" using classify_in [OF Some] Some r assms by (auto simp: marksNode_def)
  moreover have "countsOk s \<longrightarrow> countsOk ?s"
  proof
    assume "countsOk s"
    then show "countsOk ?s" by (rule countsOk_push [OF _ f(1,2) r(1)]) (use f r in simp_all)
  qed
  ultimately show ?thesis using r f by (auto simp: inspected_def)
qed

lemma node_inspected:
  "inspected w contracts depth index n path s (inspectHydrationNode w contracts depth index nextNode nextPath n path s)"
  using comment_inspected template_inspected
  by (cases "readNodeType w n = Some (Fin COMMENT_NODE)"; cases "isTemplateElement w (Some n)")
    (auto simp: inspectHydrationNode_def, auto simp: inspected_def isMarkerComment_def)

subsection \<open>The scan\<close>

lemma accounted_mono: "accounted w c rows n \<Longrightarrow> set rows \<subseteq> set rows' \<Longrightarrow> accounted w c rows' n"
  unfolding accounted_def by blast

lemma rowOk_new_path:
  assumes "rowOk w contracts c V r" "n \<notin> V" "is \<noteq> []" "follow w c is = Some n"
  shows "rwPath r \<noteq> pathText is"
proof
  assume eq: "rwPath r = pathText is"
  obtain js m where js: "js \<noteq> []" "rwPath r = pathText js" "follow w c js = Some m" "m \<in> V"
    using assms(1) by (auto simp: rowOk_def)
  then have "js = is" using pathText_inject [OF js(1) assms(3)] eq by (metis js(2))
  then show False using js assms(2,4) by simp
qed

lemma visit_ok:
  assumes ok: "scanOk w contracts c s" and new: "n \<notin> set (hsVisitedNodes s)" and pos: "follow w c (is @ [index]) = Some n"
    and s'_def: "s' = visitNode w contracts (pathText is) (length is) index n rest s"
  shows "scanOk w contracts c s'" "set (hsVisitedNodes s') = insert n (set (hsVisitedNodes s))"
proof -
  let ?path = "childPath (pathText is) index"
  have path: "?path = pathText (is @ [index])" by (simp add: pathText_snoc)
  define s1 where "s1 = s\<lparr>hsVisitedNodes := n # hsVisitedNodes s, hsNodeCount := hsNodeCount s + 1\<rparr>"
  note D = scanOkD [OF ok]
  have c1: "countsOk s1" using D(1) new by (auto simp: countsOk_def s1_def)
  have sub: "set (hsVisitedNodes s1) \<subseteq> below w c" using D(2) pos by (auto simp: s1_def below_def)
  have V1: "set (hsVisitedNodes s1) = insert n (set (hsVisitedNodes s))" by (simp add: s1_def)
  have rows1: "rowOk w contracts c (set (hsVisitedNodes s1)) r" if "r \<in> set (hsMarkerRows s)" for r
    by (rule rowOk_mono [OF D(3) [OF that]]) (auto simp: s1_def)
  have both: "scanOk w contracts c s' \<and> set (hsVisitedNodes s') = insert n (set (hsVisitedNodes s))"
  proof (cases "?path \<in> set (hsCompanionPaths s)")
    case True
    then have s': "s' = s1" by (simp add: s'_def visitNode_def s1_def Let_def)
    have "accounted w c (hsMarkerRows s) n"
      using D(5) [OF True] pos unfolding accounted_def path by blast
    then show ?thesis using c1 sub rows1 D unfolding scanOk_def s' by (auto simp: s1_def)
  next
    case False
    then have "s' = inspectHydrationNode w contracts (length is) index (case rest of [] \<Rightarrow> None | x # _ \<Rightarrow> x)
        (childPath (pathText is) (index + 1)) n ?path s1"
      by (simp add: s'_def visitNode_def s1_def Let_def)
    then have ins: "inspected w contracts (length is) index n ?path s1 s'" using node_inspected by metis
    then have V': "hsVisitedNodes s' = hsVisitedNodes s1" by (simp add: inspected_def)
    have r1: "hsMarkerRows s1 = hsMarkerRows s" "hsCompanionPaths s1 = hsCompanionPaths s" by (simp_all add: s1_def)
    consider (none) "hsMarkerRows s' = hsMarkerRows s" "hsCompanionPaths s' = hsCompanionPaths s" "countsOk s'" "\<not> isMarkerComment w contracts n"
      | (row) r where "hsMarkerRows s' = hsMarkerRows s @ [r]" "rwPath r = ?path" "rwIndex r = index" "rwDepth r = length is"
          "marksNode w contracts r n" "countsOk s'" "\<forall>p\<in>set (hsCompanionPaths s'). p \<in> set (hsCompanionPaths s) \<or> claims r p"
      using ins c1 unfolding inspected_def r1 by blast
    then show ?thesis
    proof cases
      case none
      then show ?thesis using sub rows1 D V1 unfolding scanOk_def V' by auto
    next
      case row
      have new_ok: "rowOk w contracts c (set (hsVisitedNodes s1)) r"
        unfolding rowOk_def by (rule exI [of _ "is @ [index]"], rule exI [of _ n]) (use row pos path V1 in auto)
      have fresh: "?path \<notin> rwPath ` set (hsMarkerRows s)"
        using rowOk_new_path [OF D(3) new _ pos] path by force
      have here: "accounted w c (hsMarkerRows s') n"
        unfolding accounted_def by (rule exI [of _ "is @ [index]"]) (use row pos path in \<open>auto simp: claims_def\<close>)
      have old: "accounted w c (hsMarkerRows s') m" if "m \<in> set (hsVisitedNodes s)" "isMarkerComment w contracts m" for m
        by (rule accounted_mono [OF D(6) [OF that]]) (auto simp: row)
      have comps: "\<exists>r\<in>set (hsMarkerRows s'). claims r p" if "p \<in> set (hsCompanionPaths s')" for p
        using that row(1,7) D(5) by fastforce
      have all_rows: "rowOk w contracts c (set (hsVisitedNodes s')) x" if "x \<in> set (hsMarkerRows s')" for x
        using that row(1) rows1 new_ok V' by auto
      have dist: "distinct (map rwPath (hsMarkerRows s'))" using D(4) fresh row(1,2) by simp
      have accs: "accounted w c (hsMarkerRows s') m" if "m \<in> set (hsVisitedNodes s')" "isMarkerComment w contracts m" for m
        using that here old V1 V' by auto
      show ?thesis unfolding scanOk_def using row(6) sub all_rows dist comps accs V1 V' by simp
    qed
  qed
  then show "scanOk w contracts c s'" "set (hsVisitedNodes s') = insert n (set (hsVisitedNodes s))" by simp_all
qed

lemma scanList_ok:
  assumes fin: "finite (below w c)"
  shows "scanOk w contracts c s \<Longrightarrow> card (below w c - set (hsVisitedNodes s)) \<le> k \<Longrightarrow> follow w c is = Some parent \<Longrightarrow>
    readChildNodes w parent = pre @ nodes \<Longrightarrow>
    \<exists>s'. scanList w contracts (pathText is) (length is) (length pre) nodes s = Some s' \<and> scanOk w contracts c s' \<and>
      set (hsVisitedNodes s) \<subseteq> set (hsVisitedNodes s') \<and> {n. Some n \<in> set nodes} \<subseteq> set (hsVisitedNodes s') \<and>
      (\<forall>n\<in>set (hsVisitedNodes s') - set (hsVisitedNodes s). kids w n \<subseteq> set (hsVisitedNodes s'))"
proof (induction k arbitrary: s "is" parent pre nodes rule: less_induct)
  case (less k)
  note outer = less.IH
  show ?case using less.prems
  proof (induction nodes arbitrary: pre s)
    case Nil
    then show ?case by (subst scanList.simps) simp
  next
    case (Cons x nodes)
    have rest: "readChildNodes w parent = (pre @ [x]) @ nodes" using Cons.prems(4) by simp
    note inner = Cons.IH [OF _ _ Cons.prems(3) rest]
    show ?case
    proof (cases "x = None \<or> x \<in> Some ` set (hsVisitedNodes s)")
      case True
      then have "scanList w contracts (pathText is) (length is) (length pre) (x # nodes) s =
          scanList w contracts (pathText is) (length is) (length (pre @ [x])) nodes s"
        by (subst scanList.simps) auto
      then show ?thesis using inner [OF Cons.prems(1,2)] True by auto
    next
      case False
      then obtain n where x: "x = Some n" and new: "n \<notin> set (hsVisitedNodes s)" by (cases x) auto
      have step: "follow w c (is @ [length pre]) = Some n"
        using Cons.prems(3,4) x by (simp add: follow_append childAt_def nth_append)
      define s1 where "s1 = visitNode w contracts (pathText is) (length is) (length pre) n nodes s"
      have ok1: "scanOk w contracts c s1" and V1: "set (hsVisitedNodes s1) = insert n (set (hsVisitedNodes s))"
        by (rule visit_ok [OF Cons.prems(1) new step s1_def])+
      have n: "n \<in> below w c" using step unfolding below_def by blast
      have lt: "card (below w c - set (hsVisitedNodes s1)) < card (below w c - set (hsVisitedNodes s))"
        by (rule psubset_card_mono) (use fin n new V1 in auto)
      obtain s2 where s2: "scanList w contracts (pathText (is @ [length pre])) (length (is @ [length pre])) 0 (readChildNodes w n) s1 = Some s2"
        "scanOk w contracts c s2" "set (hsVisitedNodes s1) \<subseteq> set (hsVisitedNodes s2)" "{m. Some m \<in> set (readChildNodes w n)} \<subseteq> set (hsVisitedNodes s2)"
        "\<forall>m\<in>set (hsVisitedNodes s2) - set (hsVisitedNodes s1). kids w m \<subseteq> set (hsVisitedNodes s2)"
        using outer [OF _ ok1 order_refl step, of "[]"] lt Cons.prems(2) by auto
      have le: "card (below w c - set (hsVisitedNodes s2)) \<le> k"
      proof -
        have "card (below w c - set (hsVisitedNodes s2)) \<le> card (below w c - set (hsVisitedNodes s1))"
          by (rule card_mono) (use fin s2(3) in auto)
        then show ?thesis using lt Cons.prems(2) by simp
      qed
      obtain s3 where s3: "scanList w contracts (pathText is) (length is) (length (pre @ [x])) nodes s2 = Some s3"
        "scanOk w contracts c s3" "set (hsVisitedNodes s2) \<subseteq> set (hsVisitedNodes s3)" "{m. Some m \<in> set nodes} \<subseteq> set (hsVisitedNodes s3)"
        "\<forall>m\<in>set (hsVisitedNodes s3) - set (hsVisitedNodes s2). kids w m \<subseteq> set (hsVisitedNodes s3)"
        using inner [OF s2(2) le] by blast
      have run: "scanList w contracts (pathText is) (length is) (length pre) (x # nodes) s = Some s3"
        using s2(1) s3(1) new by (subst scanList.simps) (simp add: x s1_def [symmetric] pathText_snoc)
      have closed: "kids w m \<subseteq> set (hsVisitedNodes s3)" if m: "m \<in> set (hsVisitedNodes s3) - set (hsVisitedNodes s)" for m
      proof -
        consider "m \<in> set (hsVisitedNodes s3) - set (hsVisitedNodes s2)" | "m \<in> set (hsVisitedNodes s2) - set (hsVisitedNodes s1)" | "m = n"
          using m V1 by (cases "m = n"; cases "m \<in> set (hsVisitedNodes s2)") simp_all
        then show ?thesis
        proof cases
          case 1
          then show ?thesis using s3(5) by blast
        next
          case 2
          then show ?thesis using s2(5) s3(3) by blast
        next
          case 3
          then show ?thesis using s2(4) s3(3) unfolding kids_def by blast
        qed
      qed
      have vis: "set (hsVisitedNodes s) \<subseteq> set (hsVisitedNodes s3)" "n \<in> set (hsVisitedNodes s3)"
        using V1 s2(3) s3(3) by blast+
      have "{m. Some m \<in> set (x # nodes)} \<subseteq> set (hsVisitedNodes s3)" using s3(4) vis(2) unfolding x by auto
      then show ?thesis using run s3(2) closed vis(1) by blast
    qed
  qed
qed

lemma childAt_kids: "childAt w m i = Some n \<Longrightarrow> n \<in> kids w m"
  unfolding childAt_def kids_def Let_def by (auto split: if_splits) (metis nth_mem)

lemma closed_covers_below:
  assumes "kids w c \<subseteq> V" "\<forall>n\<in>V. kids w n \<subseteq> V"
  shows "below w c \<subseteq> V"
proof -
  have "is \<noteq> [] \<Longrightarrow> follow w c is = Some n \<Longrightarrow> n \<in> V" for "is" n
  proof (induction "is" arbitrary: n rule: rev_induct)
    case (snoc i js)
    then obtain m where m: "follow w c js = Some m" "childAt w m i = Some n"
      by (auto simp: follow_append bind_eq_Some_conv split: option.splits)
    then have "js = [] \<Longrightarrow> m = c" by simp
    then show ?case using snoc.IH [OF _ m(1)] assms childAt_kids [OF m(2)] by (cases "js = []") auto
  qed simp
  then show ?thesis unfolding below_def by blast
qed

lemma scan_result:
  assumes fin: "finite (below w c)"
  shows "\<exists>s. scanChildNodes w contracts c ''container'' 0 initialScanState = Some s \<and> scanOk w contracts c s \<and>
    set (hsVisitedNodes s) = below w c"
proof -
  have ok: "scanOk w contracts c initialScanState"
    by (simp add: scanOk_def countsOk_def initialScanState_def)
  obtain s where s: "scanList w contracts (pathText []) (length ([] :: nat list)) (length ([] :: nat option list)) (readChildNodes w c) initialScanState = Some s"
    "scanOk w contracts c s" "{n. Some n \<in> set (readChildNodes w c)} \<subseteq> set (hsVisitedNodes s)"
    "\<forall>n\<in>set (hsVisitedNodes s) - set (hsVisitedNodes initialScanState). kids w n \<subseteq> set (hsVisitedNodes s)"
    using scanList_ok [OF fin ok order_refl, of "[]" c "[]" "readChildNodes w c"] by auto
  have "below w c \<subseteq> set (hsVisitedNodes s)"
    by (rule closed_covers_below) (use s(3,4) in \<open>auto simp: kids_def initialScanState_def\<close>)
  then have "set (hsVisitedNodes s) = below w c" using scanOkD(2) [OF s(2)] by blast
  then show ?thesis using s(1,2) by (auto simp: scanChildNodes_def pathText_def)
qed

text \<open>
  C39: the hydration marker scan is sound, complete and consistent with the path resolution. On every
  valid container with finitely many nodes below it the scan returns a report. It visited each
  node below the container exactly once; its counters and its summary by contract count its rows;
  no path occurs in two rows. The path of every row, given to
  \<open>resolveHydrationContainerNodePath\<close>, resolves to a node that is a marker of the row's contract, with
  the row's index and depth. Every comment node that matches a contract is reported, or a
  reported marker claims its place as its companion.
\<close>
theorem hydration_scan_resolves:
  assumes "isValidContainer (hwContainers w) (ObjectArg c)" "finite (below w c)"
  shows "\<exists>rp. inspectHydrationContainerMarkers env w (ObjectArg c) production (Some contracts) = Some (Inr rp) \<and>
    rpNodeCount rp = card (below w c) \<and>
    rpAcceptedMarkerCount rp = length (rpMarkers rp) \<and>
    rpCommentMarkerCount rp + rpTemplateMarkerCount rp = length (rpMarkers rp) \<and>
    rpSummaryByContract rp = map (\<lambda>k. (mcId k, length (filter (\<lambda>r. rwContractId r = mcId k) (rpMarkers rp)))) contracts \<and>
    distinct (map rwPath (rpMarkers rp)) \<and>
    (\<forall>r\<in>set (rpMarkers rp). \<exists>res n. resolveHydrationContainerNodePath env w (ObjectArg c) (rwPath r) production = Inr (Some res) \<and>
       rsStatus res = ''resolved'' \<and> rsNode res = Some n \<and> rsIndex res = rwIndex r \<and> rsSegmentCount res = rwDepth r + 1 \<and>
       marksNode w contracts r n) \<and>
    (\<forall>n\<in>below w c. isMarkerComment w contracts n \<longrightarrow>
       (\<exists>path res. resolveHydrationContainerNodePath env w (ObjectArg c) path production = Inr (Some res) \<and> rsNode res = Some n \<and>
          (\<exists>r\<in>set (rpMarkers rp). claims r path)))"
proof -
  obtain s where s: "scanChildNodes w contracts c ''container'' 0 initialScanState = Some s" "scanOk w contracts c s"
    "set (hsVisitedNodes s) = below w c" using scan_result [OF assms(2)] by blast
  note D = scanOkD [OF s(2)]
  have counts: "hsAcceptedMarkerCount s = length (hsMarkerRows s)"
    "hsCommentMarkerCount s + hsTemplateMarkerCount s = length (hsMarkerRows s)"
    "hsSummaryCounts s = (\<lambda>i. length (filter (\<lambda>r. rwContractId r = i) (hsMarkerRows s)))"
    "hsNodeCount s = card (below w c)"
    using D(1) s(3) distinct_card [of "hsVisitedNodes s"] by (auto simp: countsOk_def)
  have rows: "\<exists>res n. resolveHydrationContainerNodePath env w (ObjectArg c) (rwPath r) production = Inr (Some res) \<and>
       rsStatus res = ''resolved'' \<and> rsNode res = Some n \<and> rsIndex res = rwIndex r \<and> rsSegmentCount res = rwDepth r + 1 \<and>
       marksNode w contracts r n" if r: "r \<in> set (hsMarkerRows s)" for r
  proof -
    obtain "is" n where i: "is \<noteq> []" "rwPath r = pathText is" "follow w c is = Some n" "rwIndex r = last is"
      "length is = rwDepth r + 1" "marksNode w contracts r n" using D(3) [OF r] unfolding rowOk_def by auto
    show ?thesis using resolve_pathText [OF assms(1) i(1,3), of env production] i by auto
  qed
  have comments: "\<exists>path res. resolveHydrationContainerNodePath env w (ObjectArg c) path production = Inr (Some res) \<and> rsNode res = Some n \<and>
      (\<exists>r\<in>set (hsMarkerRows s). claims r path)" if n: "n \<in> below w c" "isMarkerComment w contracts n" for n
  proof -
    obtain "is" where i: "is \<noteq> []" "follow w c is = Some n" "\<exists>r\<in>set (hsMarkerRows s). claims r (pathText is)"
      using D(6) [of n] n s(3) unfolding accounted_def by auto
    then show ?thesis using resolve_pathText [OF assms(1) i(1,2), of env production] by blast
  qed
  obtain rp where rp: "inspectHydrationContainerMarkers env w (ObjectArg c) production (Some contracts) = Some (Inr rp)"
    "rpNodeCount rp = hsNodeCount s" "rpAcceptedMarkerCount rp = hsAcceptedMarkerCount s" "rpMarkers rp = hsMarkerRows s"
    "rpCommentMarkerCount rp = hsCommentMarkerCount s" "rpTemplateMarkerCount rp = hsTemplateMarkerCount s"
    "rpSummaryByContract rp = createSummaryByContract contracts s"
    using s(1) assms(1)
    by (auto simp: inspectHydrationContainerMarkers_def assertValidContainer_def normalizeAcceptedMarkerContracts_def)
  show ?thesis
    by (rule exI [of _ rp]) (use rp counts rows comments D(4) in \<open>simp add: createSummaryByContract_def\<close>)
qed

subsection \<open>A concrete container\<close>

definition hyd_object :: "int \<Rightarrow> string \<Rightarrow> container_obj" where
  "hyd_object ty name = \<lparr>coNodeType = DNum (Fin ty), coNodeName = DStr name, coOwnerDocument = DNull, coChildNodes = None,
     coCanRemoveChild = False, coOwn = []\<rparr>"

definition hyd_node :: "string option \<Rightarrow> nat option list \<Rightarrow> hnode" where
  "hyd_node d cs = \<lparr>hnTagName = [], hnLocalName = [], hnData = d, hnNodeValue = None, hnTextContent = None,
     hnChildNodes = ChildArray cs, hnAttributes = NoAttributes, hnOwn = []\<rparr>"

definition hyd_contract :: "string \<Rightarrow> string \<Rightarrow> string option \<Rightarrow> marker_contract" where
  "hyd_contract i d companion = \<lparr>mcId = i, mcArea = ''suspense'', mcSerializedMarker = ''<!--'' @ d @ ''-->'', mcCommentData = Some d,
     mcCompanionNode = companion, mcLifecycle = ''boundary''\<rparr>"

text \<open>The container 0 holds the comments 1 (\<open>$?\<close>) and 2 (\<open>/$\<close>), with no template in between.\<close>
definition hyd_demo :: hyd_world where
  "hyd_demo = \<lparr>hwContainers = (\<lambda>n. if n = 0 then hyd_object 1 ''DIV'' else hyd_object 8 ''#comment''),
     hwNodes = (\<lambda>n. if n = 0 then hyd_node None [Some 1, Some 2] else if n = 1 then hyd_node (Some ''$?'') []
       else hyd_node (Some ''/$'') [])\<rparr>"

definition hyd_contracts :: "marker_contract list" where
  "hyd_contracts = [hyd_contract ''suspense-pending-start'' ''$?'' (Some ''template placeholder with boundary id''),
     hyd_contract ''suspense-end'' ''/$'' None]"

lemma hyd_demo_below: "below hyd_demo 0 = {1, 2}"
proof
  have k: "kids hyd_demo n = (if n = 0 then {1, 2} else {})" for n
    by (auto simp: kids_def readChildNodes_def hyd_demo_def hyd_node_def)
  show "below hyd_demo 0 \<subseteq> {1, 2}" by (rule closed_covers_below) (auto simp: k)
  have "follow hyd_demo 0 [0] = Some 1" "follow hyd_demo 0 [1] = Some 2" by code_simp+
  then show "{1, 2} \<subseteq> below hyd_demo 0" unfolding below_def by blast
qed

theorem hydration_scan_resolves_witness:
  "\<exists>rp. inspectHydrationContainerMarkers marker_demo_env hyd_demo (ObjectArg 0) None (Some hyd_contracts) = Some (Inr rp) \<and>
     rpNodeCount rp = 2 \<and> (\<forall>r\<in>set (rpMarkers rp). \<exists>res n. resolveHydrationContainerNodePath marker_demo_env hyd_demo (ObjectArg 0)
       (rwPath r) None = Inr (Some res) \<and> rsNode res = Some n \<and> marksNode hyd_demo hyd_contracts r n)"
proof -
  have v: "isValidContainer (hwContainers hyd_demo) (ObjectArg 0)" by code_simp
  show ?thesis using hydration_scan_resolves [OF v, of marker_demo_env None hyd_contracts] by (fastforce simp: hyd_demo_below)
qed

text \<open>
  A comment marker whose companion template is missing still claims the place after it, so the
  marker there is not reported: the end of the boundary is neither a row nor an unrecognised one.
\<close>
lemma missing_companion_hides_marker:
  "map_option (map_sum id (\<lambda>rp. (map rwPath (rpMarkers rp), rpUnrecognizedMarkerCount rp)))
     (inspectHydrationContainerMarkers marker_demo_env hyd_demo (ObjectArg 0) None (Some hyd_contracts)) =
   Some (Inr ([''container.childNodes[0]''], 0))"
  by code_simp

end
