(* ===== verification/Events.thy ===== *)
theory Events
  imports DOM_Values "HOL-Library.Word"
begin

text \<open>
  The small modules of \<open>packages/react-dom/src/events\<close>: \<open>event-names.js\<close>, \<open>event-priorities.js\<close>,
  \<open>event-system-flags.js\<close>, \<open>get-event-target.js\<close>, the wrapper records of \<open>react-dom-event-listener.js\<close>, and
  \<open>listener-registry.js\<close>.

  Event targets are numbers. A value that is no object is \<open>EvVal\<close>. The dispatch that a wrapper's
  listener runs belongs to \<open>plugin-event-system.js\<close> and is not part of the wrapper record. The two
  \<open>WeakMap\<close>s of the listener queue are maps from numbers of targets and records.
\<close>

unbundle bit_operations_syntax

subsection \<open>event-names.js\<close>

definition allNativeEvents :: "string list" where
  "allNativeEvents =
     [''abort'', ''animationend'', ''animationiteration'', ''animationstart'', ''auxclick'', ''beforetoggle'',
      ''cancel'', ''canplay'', ''canplaythrough'', ''change'', ''click'', ''close'', ''compositionend'',
      ''compositionstart'', ''compositionupdate'', ''contextmenu'', ''copy'', ''cut'', ''dblclick'', ''drag'',
      ''dragend'', ''dragenter'', ''dragexit'', ''dragleave'', ''dragover'', ''dragstart'', ''drop'',
      ''durationchange'', ''emptied'', ''encrypted'', ''ended'', ''error'', ''focusin'', ''focusout'',
      ''gotpointercapture'', ''input'', ''invalid'', ''keydown'', ''keypress'', ''keyup'', ''load'',
      ''loadeddata'', ''loadedmetadata'', ''loadstart'', ''lostpointercapture'', ''mousedown'', ''mousemove'',
      ''mouseout'', ''mouseover'', ''mouseup'', ''paste'', ''pause'', ''play'', ''playing'', ''pointercancel'',
      ''pointerdown'', ''pointermove'', ''pointerout'', ''pointerover'', ''pointerup'', ''progress'',
      ''ratechange'', ''reset'', ''resize'', ''scroll'', ''scrollend'', ''seeked'', ''seeking'',
      ''selectionchange'', ''stalled'', ''submit'', ''suspend'', ''textInput'', ''timeupdate'', ''toggle'',
      ''touchcancel'', ''touchend'', ''touchmove'', ''touchstart'', ''transitioncancel'', ''transitionend'',
      ''transitionrun'', ''transitionstart'', ''volumechange'', ''waiting'', ''wheel'']"

definition mediaEventTypes :: "string list" where
  "mediaEventTypes =
     [''abort'', ''canplay'', ''canplaythrough'', ''durationchange'', ''emptied'', ''encrypted'', ''ended'',
      ''error'', ''loadeddata'', ''loadedmetadata'', ''loadstart'', ''pause'', ''play'', ''playing'', ''progress'',
      ''ratechange'', ''resize'', ''seeked'', ''seeking'', ''stalled'', ''suspend'', ''timeupdate'',
      ''volumechange'', ''waiting'']"

definition nonDelegatedEvents :: "string list" where
  "nonDelegatedEvents =
     [''beforetoggle'', ''cancel'', ''close'', ''invalid'', ''load'', ''scroll'', ''scrollend'', ''toggle''] @ mediaEventTypes"

definition passiveBrowserEvents :: "string list" where
  "passiveBrowserEvents = [''touchstart'', ''touchmove'', ''wheel'']"

definition isKnownNativeEvent :: "string \<Rightarrow> bool" where
  "isKnownNativeEvent domEventName \<longleftrightarrow> domEventName \<in> set allNativeEvents"

definition isNonDelegatedEvent :: "string \<Rightarrow> bool" where
  "isNonDelegatedEvent domEventName \<longleftrightarrow> domEventName \<in> set nonDelegatedEvents"

definition isPassiveBrowserEvent :: "string \<Rightarrow> bool" where
  "isPassiveBrowserEvent domEventName \<longleftrightarrow> domEventName \<in> set passiveBrowserEvents"

subsection \<open>event-priorities.js\<close>

definition NoEventPriority :: int where "NoEventPriority = 0"
definition DiscreteEventPriority :: int where "DiscreteEventPriority = 2"
definition ContinuousEventPriority :: int where "ContinuousEventPriority = 8"
definition DefaultEventPriority :: int where "DefaultEventPriority = 32"
definition IdleEventPriority :: int where "IdleEventPriority = 268435456"

definition ImmediateSchedulerPriority :: int where "ImmediateSchedulerPriority = 1"
definition UserBlockingSchedulerPriority :: int where "UserBlockingSchedulerPriority = 2"
definition NormalSchedulerPriority :: int where "NormalSchedulerPriority = 3"
definition LowSchedulerPriority :: int where "LowSchedulerPriority = 4"
definition IdleSchedulerPriority :: int where "IdleSchedulerPriority = 5"

definition discreteEventNames :: "string list" where
  "discreteEventNames =
     [''beforetoggle'', ''cancel'', ''click'', ''close'', ''contextmenu'', ''copy'', ''cut'', ''auxclick'',
      ''dblclick'', ''dragend'', ''dragstart'', ''drop'', ''focusin'', ''focusout'', ''input'', ''invalid'',
      ''keydown'', ''keypress'', ''keyup'', ''mousedown'', ''mouseup'', ''paste'', ''pause'', ''play'',
      ''pointercancel'', ''pointerdown'', ''pointerup'', ''ratechange'', ''reset'', ''resize'', ''seeked'',
      ''submit'', ''toggle'', ''touchcancel'', ''touchend'', ''touchstart'', ''volumechange'', ''change'',
      ''selectionchange'', ''textInput'', ''compositionstart'', ''compositionend'', ''compositionupdate'',
      ''beforeblur'', ''afterblur'', ''beforeinput'', ''blur'', ''fullscreenchange'', ''focus'', ''hashchange'',
      ''popstate'', ''select'', ''selectstart'']"

definition continuousEventNames :: "string list" where
  "continuousEventNames =
     [''drag'', ''dragenter'', ''dragexit'', ''dragleave'', ''dragover'', ''mousemove'', ''mouseout'',
      ''mouseover'', ''pointermove'', ''pointerout'', ''pointerover'', ''scroll'', ''touchmove'', ''wheel'',
      ''mouseenter'', ''mouseleave'', ''pointerenter'', ''pointerleave'']"

definition schedulerPriorityToEventPriority :: "dval \<Rightarrow> int" where
  "schedulerPriorityToEventPriority schedulerPriority =
     (if schedulerPriority = DNum (Fin ImmediateSchedulerPriority) then DiscreteEventPriority
      else if schedulerPriority = DNum (Fin UserBlockingSchedulerPriority) then ContinuousEventPriority
      else if schedulerPriority = DNum (Fin NormalSchedulerPriority) \<or> schedulerPriority = DNum (Fin LowSchedulerPriority)
      then DefaultEventPriority
      else if schedulerPriority = DNum (Fin IdleSchedulerPriority) then IdleEventPriority
      else DefaultEventPriority)"

text \<open>The own option \<open>schedulerPriority\<close>, and what the option function returns when it is one.\<close>
record priority_options =
  poSchedulerPriority :: "dval option"
  poCurrentLevel :: "dval option"

definition resolveCurrentSchedulerPriority :: "priority_options \<Rightarrow> dval" where
  "resolveCurrentSchedulerPriority options =
     (case poSchedulerPriority options of
        Some p \<Rightarrow> p
      | None \<Rightarrow> (case poCurrentLevel options of Some p \<Rightarrow> p | None \<Rightarrow> DNum (Fin NormalSchedulerPriority)))"

definition getEventPriority :: "string \<Rightarrow> priority_options \<Rightarrow> int" where
  "getEventPriority domEventName options =
     (if domEventName \<in> set discreteEventNames then DiscreteEventPriority
      else if domEventName \<in> set continuousEventNames then ContinuousEventPriority
      else if domEventName = ''message''
      then schedulerPriorityToEventPriority (resolveCurrentSchedulerPriority options)
      else DefaultEventPriority)"

definition eventPriorityNames :: "(int \<times> string) list" where
  "eventPriorityNames =
     [(NoEventPriority, ''NoEventPriority''), (DiscreteEventPriority, ''DiscreteEventPriority''),
      (ContinuousEventPriority, ''ContinuousEventPriority''), (DefaultEventPriority, ''DefaultEventPriority''),
      (IdleEventPriority, ''IdleEventPriority'')]"

definition eventPriorityLabels :: "(int \<times> string) list" where
  "eventPriorityLabels =
     [(NoEventPriority, ''none''), (DiscreteEventPriority, ''discrete''), (ContinuousEventPriority, ''continuous''),
      (DefaultEventPriority, ''default''), (IdleEventPriority, ''idle'')]"

definition getEventPriorityName :: "int \<Rightarrow> string" where
  "getEventPriorityName priority =
     (case map_of eventPriorityNames priority of Some s \<Rightarrow> s | None \<Rightarrow> ''DefaultEventPriority'')"

definition getEventPriorityLabel :: "int \<Rightarrow> string" where
  "getEventPriorityLabel priority =
     (case map_of eventPriorityLabels priority of Some s \<Rightarrow> s | None \<Rightarrow> ''default'')"

definition eventPriorityToLane :: "int \<Rightarrow> int" where
  "eventPriorityToLane updatePriority = updatePriority"

record priority_record =
  prDomEventName :: string
  prEventPriority :: int
  prEventPriorityLabel :: string
  prEventPriorityLane :: int
  prEventPriorityName :: string

definition createEventPriorityRecordFromPriority :: "string \<Rightarrow> int \<Rightarrow> priority_record" where
  "createEventPriorityRecordFromPriority domEventName eventPriority =
     \<lparr>prDomEventName = domEventName, prEventPriority = eventPriority,
      prEventPriorityLabel = getEventPriorityLabel eventPriority,
      prEventPriorityLane = eventPriorityToLane eventPriority,
      prEventPriorityName = getEventPriorityName eventPriority\<rparr>"

definition createEventPriorityRecord :: "string \<Rightarrow> priority_options \<Rightarrow> priority_record" where
  "createEventPriorityRecord domEventName options =
     createEventPriorityRecordFromPriority domEventName (getEventPriority domEventName options)"

subsection \<open>event-system-flags.js\<close>

type_synonym flags = "32 word"

definition IS_EVENT_HANDLE_NON_MANAGED_NODE :: flags where "IS_EVENT_HANDLE_NON_MANAGED_NODE = 1"
definition IS_NON_DELEGATED :: flags where "IS_NON_DELEGATED = push_bit 1 1"
definition IS_CAPTURE_PHASE :: flags where "IS_CAPTURE_PHASE = push_bit 2 1"
definition IS_PASSIVE :: flags where "IS_PASSIVE = push_bit 3 1"
definition IS_LEGACY_FB_SUPPORT_MODE :: flags where "IS_LEGACY_FB_SUPPORT_MODE = push_bit 4 1"

definition SHOULD_NOT_DEFER_CLICK_FOR_FB_SUPPORT_MODE :: flags where
  "SHOULD_NOT_DEFER_CLICK_FOR_FB_SUPPORT_MODE = (IS_LEGACY_FB_SUPPORT_MODE OR IS_CAPTURE_PHASE)"

definition SHOULD_NOT_PROCESS_POLYFILL_EVENT_PLUGINS :: flags where
  "SHOULD_NOT_PROCESS_POLYFILL_EVENT_PLUGINS =
     (IS_EVENT_HANDLE_NON_MANAGED_NODE OR IS_NON_DELEGATED OR IS_CAPTURE_PHASE)"

definition hasEventSystemFlag :: "flags \<Rightarrow> flags \<Rightarrow> bool" where
  "hasEventSystemFlag eventSystemFlags flag \<longleftrightarrow> (eventSystemFlags AND flag) \<noteq> 0"

definition isCapturePhase :: "flags \<Rightarrow> bool" where
  "isCapturePhase eventSystemFlags = hasEventSystemFlag eventSystemFlags IS_CAPTURE_PHASE"

definition isNonDelegatedEventSystem :: "flags \<Rightarrow> bool" where
  "isNonDelegatedEventSystem eventSystemFlags = hasEventSystemFlag eventSystemFlags IS_NON_DELEGATED"

definition isEventHandleNonManagedNode :: "flags \<Rightarrow> bool" where
  "isEventHandleNonManagedNode eventSystemFlags = hasEventSystemFlag eventSystemFlags IS_EVENT_HANDLE_NON_MANAGED_NODE"

definition shouldProcessPolyfillEventPlugins :: "flags \<Rightarrow> bool" where
  "shouldProcessPolyfillEventPlugins eventSystemFlags \<longleftrightarrow>
     (eventSystemFlags AND SHOULD_NOT_PROCESS_POLYFILL_EVENT_PLUGINS) = 0"

subsection \<open>get-event-target.js\<close>

datatype ev_value = EvObj nat | EvVal dval

record ev_object =
  eoCorrespondingUseElement :: ev_value
  eoNodeType :: dval
  eoParentNode :: ev_value

record native_event =
  neTarget :: ev_value
  neSrcElement :: ev_value
  neType :: dval

fun evTruthy :: "ev_value \<Rightarrow> bool" where
  "evTruthy (EvObj _) = True"
| "evTruthy (EvVal v) = dtruthy v"

text \<open>\<open>v || null\<close>\<close>
definition orNull :: "ev_value \<Rightarrow> ev_value" where
  "orNull v = (if evTruthy v then v else EvVal DNull)"

text \<open>\<open>None\<close> is a native event that is no object.\<close>
definition getEventTarget :: "(nat \<Rightarrow> ev_object) \<Rightarrow> native_event option \<Rightarrow> ev_value \<Rightarrow> ev_value" where
  "getEventTarget H nativeEvent fallbackTarget =
     (let target0 =
            (case nativeEvent of
               Some e \<Rightarrow> if evTruthy (neTarget e) then neTarget e else orNull (neSrcElement e)
             | None \<Rightarrow> EvVal DNull);
          target1 = (if target0 = EvVal DNull \<or> target0 = EvVal DUndef then orNull fallbackTarget else target0);
          target2 =
            (case target1 of
               EvObj o' \<Rightarrow> if evTruthy (eoCorrespondingUseElement (H o')) then eoCorrespondingUseElement (H o') else target1
             | EvVal v \<Rightarrow> target1)
      in case target2 of
           EvObj o' \<Rightarrow> if eoNodeType (H o') = DNum (Fin 3) then orNull (eoParentNode (H o')) else target2
         | EvVal v \<Rightarrow> target2)"

definition getNativeEventType :: "native_event option \<Rightarrow> dval \<Rightarrow> dval" where
  "getNativeEventType nativeEvent fallbackEventName =
     (case nativeEvent of
        Some e \<Rightarrow> (case neType e of DStr s \<Rightarrow> DStr s | _ \<Rightarrow> fallbackEventName)
      | None \<Rightarrow> fallbackEventName)"

subsection \<open>react-dom-event-listener.js\<close>

record wrapper_record =
  wrDispatcherName :: string
  wrDomEventName :: string
  wrEventPriority :: int
  wrEventPriorityLabel :: string
  wrEventPriorityLane :: int
  wrEventPriorityName :: string
  wrEventSystemFlags :: flags
  wrPriorityRecord :: priority_record
  wrTargetContainer :: nat
  wrWrapperKind :: string

definition createInertEventListenerWrapperRecord ::
  "string \<Rightarrow> string \<Rightarrow> int \<Rightarrow> nat \<Rightarrow> string \<Rightarrow> flags \<Rightarrow> wrapper_record" where
  "createInertEventListenerWrapperRecord dispatcherName wrapperKind eventPriority targetContainer domEventName eventSystemFlags =
     \<lparr>wrDispatcherName = dispatcherName, wrDomEventName = domEventName, wrEventPriority = eventPriority,
      wrEventPriorityLabel = getEventPriorityLabel eventPriority,
      wrEventPriorityLane = eventPriorityToLane eventPriority,
      wrEventPriorityName = getEventPriorityName eventPriority,
      wrEventSystemFlags = eventSystemFlags,
      wrPriorityRecord = createEventPriorityRecordFromPriority domEventName eventPriority,
      wrTargetContainer = targetContainer, wrWrapperKind = wrapperKind\<rparr>"

definition createEventListenerWrapperRecord :: "nat \<Rightarrow> string \<Rightarrow> flags \<Rightarrow> wrapper_record" where
  "createEventListenerWrapperRecord targetContainer domEventName eventSystemFlags =
     createInertEventListenerWrapperRecord ''dispatchEvent'' ''default'' DefaultEventPriority targetContainer domEventName eventSystemFlags"

definition createEventListenerWrapperRecordWithPriority ::
  "nat \<Rightarrow> string \<Rightarrow> flags \<Rightarrow> priority_options \<Rightarrow> wrapper_record" where
  "createEventListenerWrapperRecordWithPriority targetContainer domEventName eventSystemFlags options =
     (let eventPriority = getEventPriority domEventName options in
      if eventPriority = DiscreteEventPriority then
        createInertEventListenerWrapperRecord ''dispatchDiscreteEvent'' ''discrete'' eventPriority targetContainer domEventName eventSystemFlags
      else if eventPriority = ContinuousEventPriority then
        createInertEventListenerWrapperRecord ''dispatchContinuousEvent'' ''continuous'' eventPriority targetContainer domEventName eventSystemFlags
      else
        createInertEventListenerWrapperRecord ''dispatchEvent'' ''default'' eventPriority targetContainer domEventName eventSystemFlags)"

subsection \<open>listener-registry.js\<close>

record queue_entry =
  qeCapture :: bool
  qeDomEventName :: string
  qeListenerQueueIndex :: nat
  qeListenerQueueKey :: string
  qeListenerType :: string

record queue_payload =
  qpActive :: bool
  qpCapture :: bool
  qpDomEventName :: string
  qpListener :: dval
  qpListenerSetKey :: string
  qpTarget :: nat

text \<open>
  \<open>lrHasAdd\<close>: \<open>typeof target.addEventListener === 'function'\<close>. \<open>lrSets\<close>: the listener set of a target;
  \<open>lrOwn\<close>: its other own enumerable properties.
\<close>
record listener_state =
  lrRandomKey :: string
  lrHasAdd :: "nat \<Rightarrow> bool"
  lrSets :: "nat \<rightharpoonup> string list"
  lrOwn :: "nat \<Rightarrow> (string \<times> dval) list"
  lrQueues :: "nat \<rightharpoonup> nat list"
  lrPayloads :: "nat \<rightharpoonup> queue_payload"
  lrRecords :: "nat \<rightharpoonup> queue_entry"
  lrNext :: nat

definition assertEventTarget :: "listener_state \<Rightarrow> ev_value \<Rightarrow> dom_error + nat" where
  "assertEventTarget s target =
     (let err = CodedError ''FAST_REACT_DOM_INVALID_EVENT_TARGET''
            ''Cannot install React DOM listeners on a target without addEventListener.''
      in case target of
           EvVal v \<Rightarrow> Inl err
         | EvObj t \<Rightarrow> if lrHasAdd s t then Inr t else Inl err)"

definition getEventListenerSet :: "ev_value \<Rightarrow> listener_state \<Rightarrow> (dom_error + string list) \<times> listener_state" where
  "getEventListenerSet target s =
     (case assertEventTarget s target of
        Inl e \<Rightarrow> (Inl e, s)
      | Inr t \<Rightarrow>
          (case lrSets s t of
             Some listenerSet \<Rightarrow> (Inr listenerSet, s)
           | None \<Rightarrow> (Inr [], s\<lparr>lrSets := (lrSets s)(t \<mapsto> [])\<rparr>)))"

definition getListenerSetKey :: "string \<Rightarrow> bool \<Rightarrow> string" where
  "getListenerSetKey domEventName capture = domEventName @ ''__'' @ (if capture then ''capture'' else ''bubble'')"

definition listeningMarkerPrefix :: string where
  "listeningMarkerPrefix = ''_reactListening''"

definition internalListeningMarker :: "listener_state \<Rightarrow> string" where
  "internalListeningMarker s = listeningMarkerPrefix @ lrRandomKey s"

text \<open>\<open>o[k] = true\<close> keeps the place of an existing key.\<close>
fun putTrue :: "string \<Rightarrow> (string \<times> dval) list \<Rightarrow> (string \<times> dval) list" where
  "putTrue k [] = [(k, DBool True)]"
| "putTrue k ((k', v) # ps) = (if k' = k then (k, DBool True) # ps else (k', v) # putTrue k ps)"

definition markTargetAsListening :: "ev_value \<Rightarrow> listener_state \<Rightarrow> dom_error option \<times> listener_state" where
  "markTargetAsListening target s =
     (case assertEventTarget s target of
        Inl e \<Rightarrow> (Some e, s)
      | Inr t \<Rightarrow> (None, s\<lparr>lrOwn := (lrOwn s)(t := putTrue (internalListeningMarker s) (lrOwn s t))\<rparr>))"

definition hasListeningMarker :: "listener_state \<Rightarrow> ev_value \<Rightarrow> bool" where
  "hasListeningMarker s target =
     (case target of
        EvVal v \<Rightarrow> False
      | EvObj t \<Rightarrow> (case map_of (lrOwn s t) (internalListeningMarker s) of Some v \<Rightarrow> dtruthy v | None \<Rightarrow> False))"

text \<open>\<open>inspectable\<close>, \<open>propertyCount\<close> and \<open>trueValueCount\<close>\<close>
definition inspectListeningMarker :: "listener_state \<Rightarrow> ev_value \<Rightarrow> bool \<times> nat \<times> nat" where
  "inspectListeningMarker s target =
     (case target of
        EvVal v \<Rightarrow> (False, 0, 0)
      | EvObj t \<Rightarrow>
          (let properties = filter (\<lambda>(k, v). startsWith k listeningMarkerPrefix) (lrOwn s t)
           in (True, length properties, length (filter (\<lambda>(k, v). v = DBool True) properties))))"

definition createPrivateEventListenerQueueError :: "string \<Rightarrow> dom_error" where
  "createPrivateEventListenerQueueError message =
     CodedError ''FAST_REACT_DOM_INVALID_PRIVATE_EVENT_LISTENER_QUEUE_ENTRY'' message"

text \<open>The test of the two \<open>filter\<close> calls.\<close>
definition isActiveEntry :: "listener_state \<Rightarrow> string \<Rightarrow> bool \<Rightarrow> nat \<Rightarrow> bool" where
  "isActiveEntry s domEventName capture entryRecord =
     (case lrPayloads s entryRecord of
        None \<Rightarrow> False
      | Some payload \<Rightarrow> qpActive payload \<and> qpDomEventName payload = domEventName \<and> qpCapture payload = capture)"

definition targetQueueOf :: "listener_state \<Rightarrow> nat \<Rightarrow> nat list" where
  "targetQueueOf s t = (case lrQueues s t of Some q \<Rightarrow> q | None \<Rightarrow> [])"

definition registerPrivateEventListenerQueueEntry ::
  "ev_value \<Rightarrow> dval \<Rightarrow> dval \<Rightarrow> dval \<Rightarrow> string option \<Rightarrow> listener_state \<Rightarrow> (dom_error + nat) \<times> listener_state" where
  "registerPrivateEventListenerQueueEntry target domEventName capture listener listenerType s =
     (case target of
        EvVal v \<Rightarrow>
          (Inl (createPrivateEventListenerQueueError
             ''Cannot register a private React DOM event listener queue entry on a non-object target.''), s)
      | EvObj t \<Rightarrow>
          (case domEventName of
             DStr name \<Rightarrow>
               if name = [] then
                 (Inl (createPrivateEventListenerQueueError
                    ''Private React DOM event listener queue entries require a native event name.''), s)
               else if typeOf listener \<noteq> ''function'' then
                 (Inl (createPrivateEventListenerQueueError
                    ''Private React DOM event listener queue entries require a function listener.''), s)
               else
                 (let inCapturePhase = (capture = DBool True);
                      listenerSetKey = getListenerSetKey name inCapturePhase;
                      targetQueue = targetQueueOf s t;
                      record = lrNext s
                  in (Inr record,
                      s\<lparr>lrQueues := (lrQueues s)(t \<mapsto> targetQueue @ [record]),
                        lrPayloads := (lrPayloads s)(record \<mapsto>
                          \<lparr>qpActive = True, qpCapture = inCapturePhase, qpDomEventName = name, qpListener = listener,
                           qpListenerSetKey = listenerSetKey, qpTarget = t\<rparr>),
                        lrRecords := (lrRecords s)(record \<mapsto>
                          \<lparr>qeCapture = inCapturePhase, qeDomEventName = name,
                           qeListenerQueueIndex = length (filter (isActiveEntry s name inCapturePhase) targetQueue),
                           qeListenerQueueKey = listenerSetKey,
                           qeListenerType = (case listenerType of Some ty \<Rightarrow> ty | None \<Rightarrow> ''private-event-listener-queue'')\<rparr>),
                        lrNext := record + 1\<rparr>))
           | _ \<Rightarrow>
               (Inl (createPrivateEventListenerQueueError
                  ''Private React DOM event listener queue entries require a native event name.''), s)))"

definition getPrivateEventListenerQueueEntryPayload :: "listener_state \<Rightarrow> nat \<Rightarrow> queue_payload option" where
  "getPrivateEventListenerQueueEntryPayload s record = lrPayloads s record"

definition isPrivateEventListenerQueueEntryRecord :: "listener_state \<Rightarrow> nat \<Rightarrow> bool" where
  "isPrivateEventListenerQueueEntryRecord s record \<longleftrightarrow> getPrivateEventListenerQueueEntryPayload s record \<noteq> None"

definition removePrivateEventListenerQueueEntry :: "nat \<Rightarrow> listener_state \<Rightarrow> (dom_error + bool) \<times> listener_state" where
  "removePrivateEventListenerQueueEntry record s =
     (case getPrivateEventListenerQueueEntryPayload s record of
        None \<Rightarrow>
          (Inl (createPrivateEventListenerQueueError
             ''Expected a private React DOM event listener queue entry record.''), s)
      | Some payload \<Rightarrow>
          if \<not> qpActive payload then (Inr False, s)
          else (Inr True, s\<lparr>lrPayloads := (lrPayloads s)(record \<mapsto> payload\<lparr>qpActive := False\<rparr>)\<rparr>))"

definition getPrivateEventListenerQueueEntries :: "listener_state \<Rightarrow> ev_value \<Rightarrow> string \<Rightarrow> dval \<Rightarrow> nat list" where
  "getPrivateEventListenerQueueEntries s target domEventName capture =
     (case target of
        EvVal v \<Rightarrow> []
      | EvObj t \<Rightarrow> filter (isActiveEntry s domEventName (capture = DBool True)) (targetQueueOf s t))"

subsection \<open>The listener queue implements a map of lists\<close>

text \<open>
  The abstract queues: for a target, an event name and a phase, the active records in the order
  of their registration.
\<close>
type_synonym listener_queues = "nat \<times> string \<times> bool \<Rightarrow> nat list"

definition absEnqueue :: "nat \<times> string \<times> bool \<Rightarrow> nat \<Rightarrow> listener_queues \<Rightarrow> listener_queues" where
  "absEnqueue key r q = q(key := q key @ [r])"

definition absRemove :: "nat \<Rightarrow> listener_queues \<Rightarrow> listener_queues" where
  "absRemove r q = (\<lambda>key. filter (\<lambda>x. x \<noteq> r) (q key))"

definition absQueues :: "listener_state \<Rightarrow> listener_queues" where
  "absQueues s = (\<lambda>(t, name, capture). filter (isActiveEntry s name capture) (targetQueueOf s t))"

inductive registry_reachable :: "listener_state \<Rightarrow> bool" where
  registry_init: "lrQueues s = Map.empty \<Longrightarrow> lrPayloads s = Map.empty \<Longrightarrow> registry_reachable s"
| registry_register: "registry_reachable s \<Longrightarrow>
    registry_reachable (snd (registerPrivateEventListenerQueueEntry target name capture listener ty s))"
| registry_remove: "registry_reachable s \<Longrightarrow> registry_reachable (snd (removePrivateEventListenerQueueEntry r s))"
| registry_set: "registry_reachable s \<Longrightarrow> registry_reachable (snd (getEventListenerSet target s))"
| registry_mark: "registry_reachable s \<Longrightarrow> registry_reachable (snd (markTargetAsListening target s))"

text \<open>Every queued record has a payload, is numbered below the next one, and is queued once, under its own target.\<close>
definition registryOk :: "listener_state \<Rightarrow> bool" where
  "registryOk s \<longleftrightarrow>
     (\<forall>t r. r \<in> set (targetQueueOf s t) \<longleftrightarrow> (\<exists>p. lrPayloads s r = Some p \<and> qpTarget p = t)) \<and>
     (\<forall>r. lrPayloads s r \<noteq> None \<longrightarrow> r < lrNext s) \<and> (\<forall>t. distinct (targetQueueOf s t))"

lemma registryOkD:
  assumes "registryOk s"
  shows "r \<in> set (targetQueueOf s t) \<longleftrightarrow> (\<exists>p. lrPayloads s r = Some p \<and> qpTarget p = t)"
    "lrPayloads s r = Some p \<Longrightarrow> r < lrNext s" "distinct (targetQueueOf s t)" "lrPayloads s (lrNext s) = None"
    "lrNext s \<notin> set (targetQueueOf s t)"
  using assms unfolding registryOk_def by (metis less_irrefl option.distinct(1) not_None_eq)+

text \<open>The arguments \<open>registerPrivateEventListenerQueueEntry\<close> accepts.\<close>
definition acceptsEntry :: "ev_value \<Rightarrow> dval \<Rightarrow> dval \<Rightarrow> bool" where
  "acceptsEntry target name listener \<longleftrightarrow>
     (\<exists>t n. target = EvObj t \<and> name = DStr n \<and> n \<noteq> []) \<and> typeOf listener = ''function''"

lemma register_rejects:
  "\<not> acceptsEntry target name listener \<Longrightarrow>
   \<exists>message. registerPrivateEventListenerQueueEntry target name capture listener ty s =
     (Inl (CodedError ''FAST_REACT_DOM_INVALID_PRIVATE_EVENT_LISTENER_QUEUE_ENTRY'' message), s)"
  by (cases target; cases name)
    (auto simp: acceptsEntry_def registerPrivateEventListenerQueueEntry_def createPrivateEventListenerQueueError_def)

lemma registryOk_register:
  assumes ok: "registryOk s"
  shows "registryOk (snd (registerPrivateEventListenerQueueEntry target name capture listener ty s))"
proof (cases "acceptsEntry target name listener")
  case True
  then obtain t n where a: "target = EvObj t" "name = DStr n" "n \<noteq> []" "typeOf listener = ''function''"
    by (auto simp: acceptsEntry_def)
  note D = registryOkD [OF ok]
  show ?thesis
    unfolding registryOk_def using a D(1,3,4,5) D(2)
    by (auto simp: registerPrivateEventListenerQueueEntry_def Let_def targetQueueOf_def less_Suc_eq split: if_splits)
next
  case False
  then obtain message where "registerPrivateEventListenerQueueEntry target name capture listener ty s =
      (Inl (CodedError ''FAST_REACT_DOM_INVALID_PRIVATE_EVENT_LISTENER_QUEUE_ENTRY'' message), s)"
    using register_rejects by blast
  then show ?thesis using ok by simp
qed

lemma registryOk_remove:
  assumes ok: "registryOk s"
  shows "registryOk (snd (removePrivateEventListenerQueueEntry r s))"
  using registryOkD [OF ok] unfolding registryOk_def
  by (auto simp: removePrivateEventListenerQueueEntry_def getPrivateEventListenerQueueEntryPayload_def targetQueueOf_def
      split: option.splits)

lemma reachable_registryOk: "registry_reachable s \<Longrightarrow> registryOk s"
proof (induction rule: registry_reachable.induct)
  case (registry_init s)
  then show ?case by (simp add: registryOk_def targetQueueOf_def)
next
  case (registry_set s target)
  then show ?case
    by (auto simp: getEventListenerSet_def registryOk_def targetQueueOf_def split: sum.splits option.splits)
next
  case (registry_mark s target)
  then show ?case by (auto simp: markTargetAsListening_def registryOk_def targetQueueOf_def split: sum.splits)
qed (simp_all add: registryOk_register registryOk_remove)

lemma register_refines:
  assumes ok: "registryOk s" and a: "target = EvObj t" "name = DStr n" "n \<noteq> []" "typeOf listener = ''function''"
    and run: "registerPrivateEventListenerQueueEntry target name capture listener ty s = (res, s')"
  shows "res = Inr (lrNext s)" "absQueues s' = absEnqueue (t, n, capture = DBool True) (lrNext s) (absQueues s)"
    "lrNext s \<notin> set (absQueues s key)"
    "map_option qeListenerQueueIndex (lrRecords s' (lrNext s)) = Some (length (absQueues s (t, n, capture = DBool True)))"
proof -
  note D = registryOkD [OF ok]
  have q: "targetQueueOf s' u = (if u = t then targetQueueOf s t @ [lrNext s] else targetQueueOf s u)" for u
    using run a by (auto simp: registerPrivateEventListenerQueueEntry_def Let_def targetQueueOf_def)
  have act: "isActiveEntry s' m c r = (if r = lrNext s then m = n \<and> c = (capture = DBool True) else isActiveEntry s m c r)" for m c r
    using run a by (auto simp: registerPrivateEventListenerQueueEntry_def Let_def isActiveEntry_def)
  have old: "filter (isActiveEntry s' m c) (targetQueueOf s u) = filter (isActiveEntry s m c) (targetQueueOf s u)" for m c u
    by (rule filter_cong) (use D(5) [of u] in \<open>auto simp: act\<close>)
  have "absQueues s' (u, m, c) = absEnqueue (t, n, capture = DBool True) (lrNext s) (absQueues s) (u, m, c)" for u m c
    by (cases "u = t") (simp_all add: absQueues_def absEnqueue_def q old act)
  then show "absQueues s' = absEnqueue (t, n, capture = DBool True) (lrNext s) (absQueues s)" by auto
  show "lrNext s \<notin> set (absQueues s key)" using D(5) by (auto simp: absQueues_def split: prod.splits)
  show "res = Inr (lrNext s)" "map_option qeListenerQueueIndex (lrRecords s' (lrNext s)) = Some (length (absQueues s (t, n, capture = DBool True)))"
    using run a by (auto simp: registerPrivateEventListenerQueueEntry_def Let_def absQueues_def)
qed

lemma remove_refines:
  assumes ok: "registryOk s" and run: "removePrivateEventListenerQueueEntry r s = (Inr b, s')"
  shows "absQueues s' = absRemove r (absQueues s)" "b \<longleftrightarrow> (\<exists>key. r \<in> set (absQueues s key))"
proof -
  note D = registryOkD [OF ok]
  obtain p where p: "lrPayloads s r = Some p" and b: "b = qpActive p"
    using run by (auto simp: removePrivateEventListenerQueueEntry_def getPrivateEventListenerQueueEntryPayload_def split: option.splits if_splits)
  have q: "targetQueueOf s' = targetQueueOf s"
    using run by (auto simp: removePrivateEventListenerQueueEntry_def getPrivateEventListenerQueueEntryPayload_def targetQueueOf_def
        fun_eq_iff split: option.splits if_splits)
  have act: "isActiveEntry s' m c x \<longleftrightarrow> isActiveEntry s m c x \<and> x \<noteq> r" for m c x
    using run p by (auto simp: removePrivateEventListenerQueueEntry_def getPrivateEventListenerQueueEntryPayload_def isActiveEntry_def
        split: option.splits if_splits)
  show "absQueues s' = absRemove r (absQueues s)"
    by (auto simp: absQueues_def absRemove_def q act fun_eq_iff intro!: filter_cong)
  show "b \<longleftrightarrow> (\<exists>key. r \<in> set (absQueues s key))"
  proof
    assume b
    then have "r \<in> set (absQueues s (qpTarget p, qpDomEventName p, qpCapture p))"
      using p b D(1) [of r "qpTarget p"] by (auto simp: absQueues_def isActiveEntry_def)
    then show "\<exists>key. r \<in> set (absQueues s key)" by blast
  next
    assume "\<exists>key. r \<in> set (absQueues s key)"
    then show b using p b by (auto simp: absQueues_def isActiveEntry_def)
  qed
qed

text \<open>
  C40: the listener registry implements queues per target, event name and phase. In every reachable
  state, reading a queue returns exactly the abstract queue; registering with a target object, a
  non-empty event name and a function appends a fresh record to that queue and no other, with the
  former length as its index, and any other call throws and changes nothing; removing a record
  deletes it from the queues and tells whether it was in one, and an unknown record throws and
  changes nothing.
\<close>
theorem listener_queue_refines_lists:
  assumes "registry_reachable s"
  shows "getPrivateEventListenerQueueEntries s (EvObj t) name cap = absQueues s (t, name, cap = DBool True) \<and>
    (case registerPrivateEventListenerQueueEntry target nm capture listener ty s of
       (Inl e, s') \<Rightarrow> s' = s \<and> \<not> acceptsEntry target nm listener
     | (Inr r, s') \<Rightarrow> acceptsEntry target nm listener \<and> (\<forall>key. r \<notin> set (absQueues s key)) \<and>
         (\<exists>u n. target = EvObj u \<and> nm = DStr n \<and> absQueues s' = absEnqueue (u, n, capture = DBool True) r (absQueues s) \<and>
            map_option qeListenerQueueIndex (lrRecords s' r) = Some (length (absQueues s (u, n, capture = DBool True))))) \<and>
    (case removePrivateEventListenerQueueEntry rec s of
       (Inl e, s') \<Rightarrow> s' = s \<and> (\<forall>key. rec \<notin> set (absQueues s key))
     | (Inr b, s') \<Rightarrow> absQueues s' = absRemove rec (absQueues s) \<and> (b \<longleftrightarrow> (\<exists>key. rec \<in> set (absQueues s key))))"
    (is "?get \<and> ?reg \<and> ?rem")
proof (intro conjI)
  have ok: "registryOk s" using reachable_registryOk [OF assms] .
  show ?get by (simp add: getPrivateEventListenerQueueEntries_def absQueues_def)
  show ?reg
  proof (cases "acceptsEntry target nm listener")
    case True
    then obtain u n where a: "target = EvObj u" "nm = DStr n" "n \<noteq> []" "typeOf listener = ''function''"
      by (auto simp: acceptsEntry_def)
    obtain res s' where run: "registerPrivateEventListenerQueueEntry target nm capture listener ty s = (res, s')" by fastforce
    show ?thesis using register_refines [OF ok a run] True run a by simp
  next
    case False
    then show ?thesis using register_rejects [OF False, of capture ty s] by auto
  qed
  show ?rem
  proof (cases "removePrivateEventListenerQueueEntry rec s")
    case (Pair res s')
    show ?thesis
    proof (cases res)
      case (Inl e)
      then have "s' = s \<and> lrPayloads s rec = None"
        using Pair by (auto simp: removePrivateEventListenerQueueEntry_def getPrivateEventListenerQueueEntryPayload_def split: option.splits if_splits)
      then show ?thesis using Pair Inl by (auto simp: absQueues_def isActiveEntry_def)
    next
      case (Inr b)
      then show ?thesis using remove_refines [OF ok, of rec b s'] Pair by simp
    qed
  qed
qed

definition demo_registry :: listener_state where
  "demo_registry = \<lparr>lrRandomKey = ''k3x'', lrHasAdd = (\<lambda>_. True), lrSets = Map.empty, lrOwn = (\<lambda>_. []), lrQueues = Map.empty,
     lrPayloads = Map.empty, lrRecords = Map.empty, lrNext = 0\<rparr>"

definition demo_registered :: listener_state where
  "demo_registered = snd (registerPrivateEventListenerQueueEntry (EvObj 4) (DStr ''click'') (DBool True) (DFunction 1 []) None demo_registry)"

theorem listener_queue_refines_lists_witness:
  "registry_reachable demo_registered \<and>
   getPrivateEventListenerQueueEntries demo_registered (EvObj 4) ''click'' (DBool True) = [0] \<and>
   absQueues (snd (removePrivateEventListenerQueueEntry 0 demo_registered)) = absRemove 0 (absQueues demo_registered)"
proof -
  have r: "registry_reachable demo_registered"
    unfolding demo_registered_def by (intro registry_register registry_init) (simp_all add: demo_registry_def)
  have e: "absQueues demo_registered (4, ''click'', True) = [0]"
    "fst (removePrivateEventListenerQueueEntry 0 demo_registered) = Inr True" by code_simp+
  show ?thesis
    using r e listener_queue_refines_lists [OF r, of 4 "''click''" "DBool True" _ _ _ _ _ 0]
    by (cases "removePrivateEventListenerQueueEntry 0 demo_registered") auto
qed

end
