(* ===== verification/Component_Tree.thy ===== *)
theory Component_Tree
  imports Hydration_Markers
begin

text \<open>
  \<open>packages/react-dom/src/client/component-tree.js\<close>: the tokens that stand for host instances, the two
  way map between tokens and DOM nodes, latest props, event target normalisation, dispatch paths,
  listener lookup and detaching of subtrees.

  Nodes and tokens are numbers; a node argument that is no object, and a token argument without the
  token brand, is \<open>None\<close>. The DOM around the nodes is \<open>ct_world\<close>, with the root markers of
  \<open>Root_Markers\<close>; the state of the module, its weak maps and the two private properties of nodes, is
  \<open>ct_state\<close>. Owners and latest props are values, compared with \<open>strictEq\<close>. Walks up the parents and down the children return \<open>None\<close>
  when they do not end. The handoff batches, which roll DOM mutations back, are not modelled.
\<close>

record ct_world =
  cwEnv :: marker_env
  cwHeap :: container_heap
  cwParent :: "nat \<Rightarrow> nat option"  \<comment> \<open>\<open>parentNode\<close> when it is an object\<close>
  cwChildNodes :: "nat \<Rightarrow> child_nodes"
  cwTagName :: "nat \<Rightarrow> dval"
  cwLocalName :: "nat \<Rightarrow> dval"
  cwNamespaceURI :: "nat \<Rightarrow> dval"
  cwTextContent :: "nat \<Rightarrow> dval"
  cwData :: "nat \<Rightarrow> dval"
  cwNodeValue :: "nat \<Rightarrow> dval"

text \<open>The payload of a private host instance node record.\<close>
record node_payload =
  npNode :: nat
  npToken :: nat
  npHostOwner :: dval
  npRootOwner :: dval
  npLatestProps :: dval
  npLatestRef :: "dval option"

record ct_state =
  ctMetadata :: "nat \<rightharpoonup> dval \<times> dval"  \<comment> \<open>\<open>tokenMetadata\<close>: host owner and root owner\<close>
  ctTokenNode :: "nat \<rightharpoonup> nat"  \<comment> \<open>\<open>tokenToNode\<close>\<close>
  ctNodeToken :: "nat \<rightharpoonup> nat"  \<comment> \<open>the own property \<open>internalHostInstanceTokenKey\<close>\<close>
  ctNodeProps :: "nat \<rightharpoonup> dval"  \<comment> \<open>the own property \<open>internalLatestPropsKey\<close>\<close>
  ctNextToken :: nat
  ctNodeRecords :: "nat \<rightharpoonup> node_payload"
  ctNextRecord :: nat

definition isHostInstanceNode :: "ct_world \<Rightarrow> nat option \<Rightarrow> bool" where
  "isHostInstanceNode w node =
     (case node of
        None \<Rightarrow> False
      | Some n \<Rightarrow> coNodeType (cwHeap w n) = DNum (Fin ELEMENT_NODE) \<or> coNodeType (cwHeap w n) = DNum (Fin TEXT_NODE))"

definition assertHostInstanceNode :: "ct_world \<Rightarrow> nat option \<Rightarrow> dom_error + nat" where
  "assertHostInstanceNode w node =
     (let err = CodedError ''FAST_REACT_DOM_INVALID_HOST_INSTANCE_NODE''
            ''Cannot attach React DOM component tree metadata to a non-host DOM node.''
      in case node of
           None \<Rightarrow> Inl err
         | Some n \<Rightarrow> if isHostInstanceNode w node then Inr n else Inl err)"

definition createHostInstanceToken :: "dval \<Rightarrow> dval \<Rightarrow> ct_state \<Rightarrow> (dom_error + nat) \<times> ct_state" where
  "createHostInstanceToken hostOwner rootOwner s =
     (if nullish hostOwner then
        (Inl (CodedError ''FAST_REACT_DOM_MISSING_HOST_OWNER''
           ''Cannot create a React DOM host instance token without a host owner.''), s)
      else if nullish rootOwner then
        (Inl (CodedError ''FAST_REACT_DOM_MISSING_ROOT_OWNER''
           ''Cannot create a React DOM host instance token without a root owner.''), s)
      else (Inr (ctNextToken s),
            s\<lparr>ctMetadata := (ctMetadata s)(ctNextToken s \<mapsto> (hostOwner, rootOwner)), ctNextToken := ctNextToken s + 1\<rparr>))"

definition getHostInstanceMetadata :: "ct_state \<Rightarrow> nat option \<Rightarrow> (dval \<times> dval) option" where
  "getHostInstanceMetadata s token = (case token of None \<Rightarrow> None | Some t \<Rightarrow> ctMetadata s t)"

definition assertKnownHostInstanceToken :: "ct_state \<Rightarrow> nat option \<Rightarrow> dom_error + nat" where
  "assertKnownHostInstanceToken s token =
     (case (token, getHostInstanceMetadata s token) of
        (Some t, Some m) \<Rightarrow> Inr t
      | _ \<Rightarrow> Inl (CodedError ''FAST_REACT_DOM_INVALID_HOST_INSTANCE_TOKEN''
               ''Cannot use an unknown or detached React DOM host instance token.''))"

definition getMountedHostInstanceNodeFromToken :: "ct_state \<Rightarrow> nat option \<Rightarrow> nat option" where
  "getMountedHostInstanceNodeFromToken s token =
     (case token of
        None \<Rightarrow> None
      | Some t \<Rightarrow>
          if getHostInstanceMetadata s token = None then None
          else (case ctTokenNode s t of
                  None \<Rightarrow> None
                | Some n \<Rightarrow> if ctNodeToken s n = Some t then Some n else None))"

definition assertMountedHostInstanceToken :: "ct_state \<Rightarrow> nat option \<Rightarrow> dom_error + nat" where
  "assertMountedHostInstanceToken s token =
     (case assertKnownHostInstanceToken s token of
        Inl e \<Rightarrow> Inl e
      | Inr t \<Rightarrow>
          (case getMountedHostInstanceNodeFromToken s token of
             None \<Rightarrow> Inl (CodedError ''FAST_REACT_DOM_UNMOUNTED_HOST_INSTANCE_TOKEN''
                       ''Cannot use an unmounted React DOM host instance token.'')
           | Some n \<Rightarrow> Inr n))"

definition getAttachedNodeFromHostInstanceToken :: "ct_state \<Rightarrow> nat option \<Rightarrow> nat option" where
  "getAttachedNodeFromHostInstanceToken s token = getMountedHostInstanceNodeFromToken s token"

definition getHostInstanceTokenFromNode :: "ct_state \<Rightarrow> nat option \<Rightarrow> nat option" where
  "getHostInstanceTokenFromNode s node =
     (case node of
        None \<Rightarrow> None
      | Some n \<Rightarrow>
          (case ctNodeToken s n of
             None \<Rightarrow> None
           | Some t \<Rightarrow>
               if getHostInstanceMetadata s (Some t) = None then None
               else if ctTokenNode s t = Some n then Some t else None))"

definition getMountedHostInstanceTokenFromNode :: "ct_state \<Rightarrow> nat option \<Rightarrow> nat option" where
  "getMountedHostInstanceTokenFromNode s node = getHostInstanceTokenFromNode s node"

text \<open>\<open>getContainerRoot(node) !== null\<close>\<close>
definition nodeRootOwner :: "ct_world \<Rightarrow> nat \<Rightarrow> dval" where
  "nodeRootOwner w n = getContainerRoot (cwEnv w) (cwHeap w) (ObjectArg n)"

partial_function (option) closestLoop :: "ct_world \<Rightarrow> ct_state \<Rightarrow> nat \<Rightarrow> nat option option" where
  [code]: "closestLoop w s currentNode =
     (case getMountedHostInstanceTokenFromNode s (Some currentNode) of
        Some token \<Rightarrow> Some (Some token)
      | None \<Rightarrow>
          if nodeRootOwner w currentNode \<noteq> DNull then Some None
          else (case cwParent w currentNode of
                  None \<Rightarrow> Some None
                | Some p \<Rightarrow> closestLoop w s p))"

definition getClosestMountedHostInstanceTokenFromNode :: "ct_world \<Rightarrow> ct_state \<Rightarrow> nat option \<Rightarrow> nat option option" where
  "getClosestMountedHostInstanceTokenFromNode w s targetNode =
     (case targetNode of None \<Rightarrow> Some None | Some n \<Rightarrow> closestLoop w s n)"

definition getClosestMountedHostInstanceNodeFromNode :: "ct_world \<Rightarrow> ct_state \<Rightarrow> nat option \<Rightarrow> nat option option" where
  "getClosestMountedHostInstanceNodeFromNode w s targetNode =
     map_option (getMountedHostInstanceNodeFromToken s) (getClosestMountedHostInstanceTokenFromNode w s targetNode)"

definition getHostInstanceOwnerFromToken :: "ct_state \<Rightarrow> nat option \<Rightarrow> dval" where
  "getHostInstanceOwnerFromToken s token = (case getHostInstanceMetadata s token of None \<Rightarrow> DNull | Some (h, r) \<Rightarrow> h)"

definition getRootOwnerFromHostInstanceToken :: "ct_state \<Rightarrow> nat option \<Rightarrow> dval" where
  "getRootOwnerFromHostInstanceToken s token = (case getHostInstanceMetadata s token of None \<Rightarrow> DNull | Some (h, r) \<Rightarrow> r)"

definition getHostInstanceOwnerFromNode :: "ct_state \<Rightarrow> nat option \<Rightarrow> dval" where
  "getHostInstanceOwnerFromNode s node = getHostInstanceOwnerFromToken s (getHostInstanceTokenFromNode s node)"

definition getRootOwnerFromNode :: "ct_state \<Rightarrow> nat option \<Rightarrow> dval" where
  "getRootOwnerFromNode s node = getRootOwnerFromHostInstanceToken s (getHostInstanceTokenFromNode s node)"

definition getLatestPropsFromNode :: "ct_state \<Rightarrow> nat option \<Rightarrow> dval" where
  "getLatestPropsFromNode s node =
     (case node of
        None \<Rightarrow> DNull
      | Some n \<Rightarrow>
          if getHostInstanceTokenFromNode s node = None then DNull
          else (case ctNodeProps s n of Some v \<Rightarrow> v | None \<Rightarrow> DNull))"

definition getLatestPropsFromHostInstanceToken :: "ct_state \<Rightarrow> nat option \<Rightarrow> dval" where
  "getLatestPropsFromHostInstanceToken s token = getLatestPropsFromNode s (getMountedHostInstanceNodeFromToken s token)"

subsection \<open>Attaching, updating and detaching\<close>

text \<open>\<open>latestProps === undefined ? null : latestProps\<close>\<close>
definition propsOrNull :: "dval \<Rightarrow> dval" where
  "propsOrNull latestProps = (if latestProps = DUndef then DNull else latestProps)"

definition attachHostInstanceNode ::
  "ct_world \<Rightarrow> nat option \<Rightarrow> nat option \<Rightarrow> dval \<Rightarrow> ct_state \<Rightarrow> (dom_error + nat) \<times> ct_state" where
  "attachHostInstanceNode w node token latestProps s =
     (case assertHostInstanceNode w node of
        Inl e \<Rightarrow> (Inl e, s)
      | Inr n \<Rightarrow>
          (case assertKnownHostInstanceToken s token of
             Inl e \<Rightarrow> (Inl e, s)
           | Inr t \<Rightarrow>
               if ctTokenNode s t \<noteq> None \<and> ctTokenNode s t \<noteq> Some n then
                 (Inl (CodedError ''FAST_REACT_DOM_HOST_INSTANCE_TOKEN_ALREADY_ATTACHED''
                    ''Cannot attach one React DOM host instance token to multiple nodes.''), s)
               else if getHostInstanceTokenFromNode s node \<noteq> None \<and> getHostInstanceTokenFromNode s node \<noteq> Some t then
                 (Inl (CodedError ''FAST_REACT_DOM_HOST_INSTANCE_NODE_ALREADY_ATTACHED''
                    ''Cannot attach multiple React DOM host instance tokens to one node.''), s)
               else
                 (Inr t,
                  s\<lparr>ctNodeToken := (ctNodeToken s)(n \<mapsto> t), ctNodeProps := (ctNodeProps s)(n \<mapsto> propsOrNull latestProps),
                    ctTokenNode := (ctTokenNode s)(t \<mapsto> n)\<rparr>)))"

definition updateLatestPropsForNode :: "nat option \<Rightarrow> dval \<Rightarrow> ct_state \<Rightarrow> (dom_error + dval) \<times> ct_state" where
  "updateLatestPropsForNode node latestProps s =
     (case (node, getHostInstanceTokenFromNode s node) of
        (Some n, Some t) \<Rightarrow>
          (Inr (propsOrNull latestProps), s\<lparr>ctNodeProps := (ctNodeProps s)(n \<mapsto> propsOrNull latestProps)\<rparr>)
      | _ \<Rightarrow> (Inl (CodedError ''FAST_REACT_DOM_UNATTACHED_HOST_INSTANCE_NODE''
               ''Cannot update latest props for an unattached React DOM host instance node.''), s))"

definition updateLatestPropsForHostInstanceToken :: "nat option \<Rightarrow> dval \<Rightarrow> ct_state \<Rightarrow> (dom_error + dval) \<times> ct_state" where
  "updateLatestPropsForHostInstanceToken token latestProps s =
     (case assertMountedHostInstanceToken s token of
        Inl e \<Rightarrow> (Inl e, s)
      | Inr n \<Rightarrow> updateLatestPropsForNode (Some n) latestProps s)"

text \<open>The payload of a latest props commit record: its node and props.\<close>
definition assertAttachedLatestPropsCommitPayload :: "ct_state \<Rightarrow> nat option \<times> dval \<Rightarrow> dom_error option" where
  "assertAttachedLatestPropsCommitPayload s payload =
     (if getHostInstanceTokenFromNode s (fst payload) = None then
        Some (CodedError ''FAST_REACT_DOM_UNATTACHED_HOST_INSTANCE_NODE''
          ''Cannot commit latest props for an unattached React DOM host instance node.'')
      else None)"

text \<open>The \<open>WeakMap\<close> of \<open>mutation.js\<close> that holds the payloads is the argument \<open>payloads\<close>.\<close>
definition getLatestPropsCommitPayload :: "(nat \<rightharpoonup> nat option \<times> dval) \<Rightarrow> nat \<Rightarrow> dom_error + nat option \<times> dval" where
  "getLatestPropsCommitPayload payloads record =
     (case payloads record of
        None \<Rightarrow> Inl (CodedError ''FAST_REACT_DOM_INVALID_LATEST_PROPS_COMMIT_RECORD''
                 ''Cannot commit latest props from an invalid mutation record.'')
      | Some p \<Rightarrow> Inr p)"

definition commitLatestPropsFromMutationRecord ::
  "(nat \<rightharpoonup> nat option \<times> dval) \<Rightarrow> nat \<Rightarrow> ct_state \<Rightarrow> (dom_error + dval) \<times> ct_state" where
  "commitLatestPropsFromMutationRecord payloads record s =
     (case getLatestPropsCommitPayload payloads record of
        Inl e \<Rightarrow> (Inl e, s)
      | Inr payload \<Rightarrow>
          (case assertAttachedLatestPropsCommitPayload s payload of
             Some e \<Rightarrow> (Inl e, s)
           | None \<Rightarrow> updateLatestPropsForNode (fst payload) (snd payload) s))"

fun normalizeRecords :: "(nat \<rightharpoonup> nat option \<times> dval) \<Rightarrow> nat list \<Rightarrow> dom_error + (nat option \<times> dval) list" where
  "normalizeRecords payloads [] = Inr []"
| "normalizeRecords payloads (r # rs) =
     (case getLatestPropsCommitPayload payloads r of
        Inl e \<Rightarrow> Inl e
      | Inr p \<Rightarrow> (case normalizeRecords payloads rs of Inl e \<Rightarrow> Inl e | Inr ps \<Rightarrow> Inr (p # ps)))"

text \<open>\<open>None\<close> is a batch that is no array.\<close>
definition normalizeLatestPropsCommitRecords ::
  "(nat \<rightharpoonup> nat option \<times> dval) \<Rightarrow> nat list option \<Rightarrow> dom_error + (nat option \<times> dval) list" where
  "normalizeLatestPropsCommitRecords payloads records =
     (case records of
        None \<Rightarrow> Inl (CodedError ''FAST_REACT_DOM_INVALID_LATEST_PROPS_COMMIT_BATCH''
                 ''Cannot commit latest props from a non-array mutation record batch.'')
      | Some rs \<Rightarrow> normalizeRecords payloads rs)"

fun firstUnattached :: "ct_state \<Rightarrow> (nat option \<times> dval) list \<Rightarrow> dom_error option" where
  "firstUnattached s [] = None"
| "firstUnattached s (p # ps) = (case assertAttachedLatestPropsCommitPayload s p of Some e \<Rightarrow> Some e | None \<Rightarrow> firstUnattached s ps)"

fun updateAll :: "(nat option \<times> dval) list \<Rightarrow> ct_state \<Rightarrow> dom_error option \<times> ct_state" where
  "updateAll [] s = (None, s)"
| "updateAll (p # ps) s =
     (case updateLatestPropsForNode (fst p) (snd p) s of
        (Inl e, s') \<Rightarrow> (Some e, s')
      | (Inr v, s') \<Rightarrow> updateAll ps s')"

definition commitLatestPropsFromMutationRecords ::
  "(nat \<rightharpoonup> nat option \<times> dval) \<Rightarrow> nat list option \<Rightarrow> ct_state \<Rightarrow> (dom_error + nat) \<times> ct_state" where
  "commitLatestPropsFromMutationRecords payloads records s =
     (case normalizeLatestPropsCommitRecords payloads records of
        Inl e \<Rightarrow> (Inl e, s)
      | Inr ps \<Rightarrow>
          (case firstUnattached s ps of
             Some e \<Rightarrow> (Inl e, s)
           | None \<Rightarrow>
               (case updateAll ps s of
                  (Some e, s') \<Rightarrow> (Inl e, s')
                | (None, s') \<Rightarrow> (Inr (length ps), s'))))"

definition detachHostInstanceNode :: "nat option \<Rightarrow> ct_state \<Rightarrow> nat option \<times> ct_state" where
  "detachHostInstanceNode node s =
     (case node of
        None \<Rightarrow> (None, s)
      | Some n \<Rightarrow>
          (let s1 = s\<lparr>ctNodeToken := (ctNodeToken s)(n := None), ctNodeProps := (ctNodeProps s)(n := None)\<rparr>
           in case getHostInstanceTokenFromNode s node of
                None \<Rightarrow> (None, s1)
              | Some t \<Rightarrow>
                  (Some t, s1\<lparr>ctTokenNode := (ctTokenNode s1)(t := None), ctMetadata := (ctMetadata s1)(t := None)\<rparr>)))"

definition detachHostInstanceToken :: "nat option \<Rightarrow> ct_state \<Rightarrow> nat option \<times> ct_state" where
  "detachHostInstanceToken token s =
     (case token of
        None \<Rightarrow> (None, s)
      | Some t \<Rightarrow>
          if getHostInstanceMetadata s token = None then (None, s)
          else
            (let s1 = (case ctTokenNode s t of
                         None \<Rightarrow> s
                       | Some n \<Rightarrow>
                           (if ctNodeToken s n = Some t
                            then s\<lparr>ctNodeToken := (ctNodeToken s)(n := None), ctNodeProps := (ctNodeProps s)(n := None)\<rparr>
                            else s)\<lparr>ctTokenNode := (ctTokenNode s)(t := None)\<rparr>)
             in (Some t, s1\<lparr>ctMetadata := (ctMetadata s1)(t := None)\<rparr>)))"

definition getChildNodesSnapshot :: "ct_world \<Rightarrow> nat option \<Rightarrow> nat option list" where
  "getChildNodesSnapshot w node =
     (case node of
        None \<Rightarrow> []
      | Some n \<Rightarrow>
          (case cwChildNodes w n of
             ChildArray xs \<Rightarrow> xs
           | ChildList (Some l) entry \<Rightarrow> if 0 \<le> l \<and> l < 2 ^ 53 then map entry [0..<nat l] else []
           | _ \<Rightarrow> []))"

text \<open>The calls of \<open>collectHostInstanceSubtreeNodes\<close> for the entries of a child list, in order.\<close>
partial_function (option) collectNodes :: "ct_world \<Rightarrow> nat option list \<Rightarrow> nat list \<Rightarrow> nat list option" where
  [code]: "collectNodes w entries nodes =
     (case entries of
        [] \<Rightarrow> Some nodes
      | None # rest \<Rightarrow> collectNodes w rest nodes
      | Some n # rest \<Rightarrow>
          Option.bind (collectNodes w (getChildNodesSnapshot w (Some n)) nodes)
            (\<lambda>nodes1. collectNodes w rest (nodes1 @ [n])))"

definition collectHostInstanceSubtreeNodes :: "ct_world \<Rightarrow> nat option \<Rightarrow> nat list \<Rightarrow> nat list option" where
  "collectHostInstanceSubtreeNodes w node nodes = collectNodes w [node] nodes"

fun detachAll :: "nat list \<Rightarrow> nat list \<Rightarrow> ct_state \<Rightarrow> nat list \<times> ct_state" where
  "detachAll [] detachedTokens s = (detachedTokens, s)"
| "detachAll (n # ns) detachedTokens s =
     (case detachHostInstanceNode (Some n) s of
        (None, s') \<Rightarrow> detachAll ns detachedTokens s'
      | (Some t, s') \<Rightarrow> detachAll ns (detachedTokens @ [t]) s')"

record detach_record =
  drDetachedTokens :: "nat list"
  drIncludeRoot :: bool
  drRootNodeType :: "js_num option"
  drVisitedNodes :: "nat list"

definition nodeTypeNumber :: "ct_world \<Rightarrow> nat option \<Rightarrow> js_num option" where
  "nodeTypeNumber w node =
     (case node of None \<Rightarrow> None | Some n \<Rightarrow> (case coNodeType (cwHeap w n) of DNum k \<Rightarrow> Some k | _ \<Rightarrow> None))"

definition detachHostInstanceSubtree :: "ct_world \<Rightarrow> nat option \<Rightarrow> bool \<Rightarrow> ct_state \<Rightarrow> (detach_record \<times> ct_state) option" where
  "detachHostInstanceSubtree w rootNode includeRoot s =
     map_option
       (\<lambda>nodes.
          let (detachedTokens, s') = detachAll nodes [] s
          in (\<lparr>drDetachedTokens = detachedTokens, drIncludeRoot = includeRoot, drRootNodeType = nodeTypeNumber w rootNode,
               drVisitedNodes = nodes\<rparr>, s'))
       (if includeRoot then collectHostInstanceSubtreeNodes w rootNode []
        else collectNodes w (getChildNodesSnapshot w rootNode) [])"

subsection \<open>Event targets\<close>

record target_record =
  trClosestNode :: "nat option"
  trClosestToken :: "nat option"
  trDirectToken :: "nat option"
  trHostOwner :: dval
  trIsDirect :: bool
  trLatestPropsStatus :: string
  trMountedFound :: bool
  trRootOwner :: dval
  trStatus :: string
  trTargetNode :: "nat option"
  trTargetNodeType :: "js_num option"

definition createEventTargetNormalizationRecord :: "ct_world \<Rightarrow> ct_state \<Rightarrow> nat option \<Rightarrow> target_record option" where
  "createEventTargetNormalizationRecord w s targetNode =
     map_option
       (\<lambda>closest.
          let direct = getMountedHostInstanceTokenFromNode s targetNode;
              latestProps = (if closest = None then DNull else getLatestPropsFromHostInstanceToken s closest)
          in \<lparr>trClosestNode = (if closest = None then None else getMountedHostInstanceNodeFromToken s closest),
              trClosestToken = closest, trDirectToken = direct,
              trHostOwner = (if closest = None then DNull else getHostInstanceOwnerFromToken s closest),
              trIsDirect = (direct \<noteq> None \<and> direct = closest),
              trLatestPropsStatus = (if latestProps = DNull then ''missing'' else ''present''),
              trMountedFound = (closest \<noteq> None),
              trRootOwner = (if closest = None then DNull else getRootOwnerFromHostInstanceToken s closest),
              trStatus = (if closest = None then ''no-mounted-host-instance'' else ''mounted-host-instance''),
              trTargetNode = targetNode, trTargetNodeType = nodeTypeNumber w targetNode\<rparr>)
       (getClosestMountedHostInstanceTokenFromNode w s targetNode)"

text \<open>\<open>None\<close> is a value that is no target normalisation record.\<close>
definition assertEventTargetNormalizationRecord :: "target_record option \<Rightarrow> dom_error + target_record" where
  "assertEventTargetNormalizationRecord record =
     (case record of
        None \<Rightarrow> Inl (CodedError ''FAST_REACT_DOM_INVALID_EVENT_TARGET_NORMALIZATION_RECORD''
                 ''Cannot look up a React DOM event listener without a private target normalization record.'')
      | Some r \<Rightarrow>
          if (trClosestToken r \<noteq> None) \<noteq> (trStatus r = ''mounted-host-instance'') then
            Inl (CodedError ''FAST_REACT_DOM_INVALID_EVENT_TARGET_NORMALIZATION_RECORD''
              ''Cannot look up a React DOM event listener from an inconsistent target normalization record.'')
          else Inr r)"

definition assertTargetNodeDoesNotHaveMismatchedHostInstanceToken :: "ct_state \<Rightarrow> nat option \<Rightarrow> dom_error option" where
  "assertTargetNodeDoesNotHaveMismatchedHostInstanceToken s targetNode =
     (case targetNode of
        None \<Rightarrow> None
      | Some n \<Rightarrow>
          if ctNodeToken s n = None then None
          else if getHostInstanceTokenFromNode s targetNode = None then
            Some (CodedError ''FAST_REACT_DOM_EVENT_LISTENER_TARGET_LOOKUP_NODE_MISMATCH''
              ''Cannot look up a React DOM event listener from a target node with mismatched host instance metadata.'')
          else None)"

record path_entry =
  peHostOwner :: dval
  peIndex :: nat
  peIsDirectEventTarget :: bool
  peIsTargetHostInstance :: bool
  peLatestPropsStatus :: string
  peNodeType :: "js_num option"
  peRootOwner :: dval
  peNode :: nat
  peToken :: nat

definition createEventTargetDispatchPathEntryRecord ::
  "ct_world \<Rightarrow> ct_state \<Rightarrow> nat \<Rightarrow> nat \<Rightarrow> nat \<Rightarrow> target_record \<Rightarrow> path_entry" where
  "createEventTargetDispatchPathEntryRecord w s index n t target =
     \<lparr>peHostOwner = getHostInstanceOwnerFromToken s (Some t), peIndex = index,
      peIsDirectEventTarget = (trDirectToken target = Some t), peIsTargetHostInstance = (index = 0),
      peLatestPropsStatus = (if getLatestPropsFromNode s (Some n) = DNull then ''missing'' else ''present''),
      peNodeType = nodeTypeNumber w (Some n), peRootOwner = getRootOwnerFromHostInstanceToken s (Some t),
      peNode = n, peToken = t\<rparr>"

text \<open>Where the walk up the parents goes on, and the container root it stopped at.\<close>
type_synonym next_stop = "nat option \<times> (nat \<times> dval) option"

partial_function (option) parentLoop :: "ct_world \<Rightarrow> ct_state \<Rightarrow> nat option \<Rightarrow> (dom_error + next_stop) option" where
  [code]: "parentLoop w s parentNode =
     (case parentNode of
        None \<Rightarrow> Some (Inr (None, None))
      | Some p \<Rightarrow>
          (case assertTargetNodeDoesNotHaveMismatchedHostInstanceToken s parentNode of
             Some e \<Rightarrow> Some (Inl e)
           | None \<Rightarrow>
               if nodeRootOwner w p \<noteq> DNull then Some (Inr (None, Some (p, nodeRootOwner w p)))
               else if getMountedHostInstanceTokenFromNode s parentNode \<noteq> None then Some (Inr (Some p, None))
               else parentLoop w s (cwParent w p)))"

partial_function (option) pathLoop ::
  "ct_world \<Rightarrow> ct_state \<Rightarrow> target_record \<Rightarrow> nat option \<Rightarrow> path_entry list \<Rightarrow>
   (dom_error + path_entry list \<times> (nat \<times> dval) option) option" where
  [code]: "pathLoop w s target currentNode entries =
     (case currentNode of
        None \<Rightarrow> Some (Inr (entries, None))
      | Some n \<Rightarrow>
          (case assertTargetNodeDoesNotHaveMismatchedHostInstanceToken s currentNode of
             Some e \<Rightarrow> Some (Inl e)
           | None \<Rightarrow>
               (let entries1 = (case getMountedHostInstanceTokenFromNode s currentNode of
                                  None \<Rightarrow> entries
                                | Some t \<Rightarrow> entries @ [createEventTargetDispatchPathEntryRecord w s (length entries) n t target])
                in Option.bind (parentLoop w s (cwParent w n))
                     (\<lambda>r. case r of
                            Inl e \<Rightarrow> Some (Inl e)
                          | Inr (next, Some boundary) \<Rightarrow> Some (Inr (entries1, Some boundary))
                          | Inr (next, None) \<Rightarrow> pathLoop w s target next entries1))))"

record dispatch_path =
  dpBoundaryNode :: "nat option"
  dpBoundaryOwner :: dval
  dpBoundaryStatus :: string
  dpRootOwnerMatchesTargetRoot :: "bool option"
  dpEntries :: "path_entry list"
  dpOwnerRootPreserved :: bool
  dpOwnerRootPreservedForeign :: bool
  dpRootOwner :: dval
  dpStatus :: string
  dpTargetNode :: "nat option"
  dpTargetInst :: "nat option"
  dpMatchCount :: nat
  dpMismatchCount :: nat

definition createDispatchPath :: "path_entry list \<Rightarrow> (nat \<times> dval) option \<Rightarrow> dispatch_path" where
  "createDispatchPath entries boundary =
     (let targetRootOwner = (case entries of [] \<Rightarrow> DNull | e # es \<Rightarrow> peRootOwner e);
          targetInst = (case entries of [] \<Rightarrow> None | e # es \<Rightarrow> Some (peToken e));
          boundaryOwner = (case boundary of None \<Rightarrow> DNull | Some (n, owner) \<Rightarrow> owner);
          matchCount = (if targetRootOwner = DNull then 0 else length (filter (\<lambda>e. strictEq (peRootOwner e) targetRootOwner) entries));
          mismatchCount = (if targetRootOwner = DNull then 0 else length entries - matchCount);
          matchesRoot = (if boundaryOwner = DNull \<or> targetRootOwner = DNull then None else Some (strictEq boundaryOwner targetRootOwner));
          preserved = (boundaryOwner \<noteq> DNull \<and> targetRootOwner \<noteq> DNull \<and> mismatchCount = 0)
      in \<lparr>dpBoundaryNode = map_option fst boundary, dpBoundaryOwner = boundaryOwner,
          dpBoundaryStatus = (if boundaryOwner = DNull then ''no-container-root-boundary'' else ''stopped-at-container-root''),
          dpRootOwnerMatchesTargetRoot = matchesRoot, dpEntries = entries, dpOwnerRootPreserved = preserved,
          dpOwnerRootPreservedForeign = (preserved \<and> matchesRoot = Some False), dpRootOwner = targetRootOwner,
          dpStatus = (if targetInst = None then ''no-mounted-host-instance'' else ''resolved-component-tree-dispatch-path''),
          dpTargetNode = (case entries of [] \<Rightarrow> None | e # es \<Rightarrow> Some (peNode e)), dpTargetInst = targetInst,
          dpMatchCount = matchCount, dpMismatchCount = mismatchCount\<rparr>)"

definition createEventTargetDispatchPathRecord :: "ct_world \<Rightarrow> ct_state \<Rightarrow> target_record option \<Rightarrow> (dom_error + dispatch_path) option" where
  "createEventTargetDispatchPathRecord w s record =
     (case assertEventTargetNormalizationRecord record of
        Inl e \<Rightarrow> Some (Inl e)
      | Inr target \<Rightarrow>
          map_option
            (\<lambda>r. case r of Inl e \<Rightarrow> Inl e | Inr (entries, boundary) \<Rightarrow> Inr (createDispatchPath entries boundary))
            (pathLoop w s target (trClosestNode target) []))"

subsection \<open>Host node names and records\<close>

definition asString :: "dval \<Rightarrow> string option" where
  "asString v = (case v of DStr s \<Rightarrow> Some s | _ \<Rightarrow> None)"

definition getHostNodeName :: "ct_world \<Rightarrow> nat \<Rightarrow> string" where
  "getHostNodeName w n =
     (case asString (coNodeName (cwHeap w n)) of
        Some s \<Rightarrow> toLowerCase s
      | None \<Rightarrow> (case asString (cwTagName w n) of Some s \<Rightarrow> toLowerCase s | None \<Rightarrow> []))"

definition nonEmpty :: "string option \<Rightarrow> string option" where
  "nonEmpty t = (case t of Some s \<Rightarrow> if s = [] then None else Some s | None \<Rightarrow> None)"

definition getHostNodeLocalName :: "ct_world \<Rightarrow> nat \<Rightarrow> string option" where
  "getHostNodeLocalName w n =
     (case nonEmpty (asString (cwLocalName w n)) of
        Some s \<Rightarrow> Some (toLowerCase s)
      | None \<Rightarrow> nonEmpty (Some (getHostNodeName w n)))"

definition getHostNodeDisplayName :: "ct_world \<Rightarrow> nat \<Rightarrow> string option" where
  "getHostNodeDisplayName w n =
     (case nonEmpty (asString (coNodeName (cwHeap w n))) of
        Some s \<Rightarrow> Some s
      | None \<Rightarrow>
          (case nonEmpty (asString (cwTagName w n)) of
             Some s \<Rightarrow> Some s
           | None \<Rightarrow> map_option toUpperCase (getHostNodeLocalName w n)))"

definition getTextNodeContent :: "ct_world \<Rightarrow> nat \<Rightarrow> string" where
  "getTextNodeContent w n =
     (case asString (cwTextContent w n) of
        Some s \<Rightarrow> s
      | None \<Rightarrow> (case asString (cwData w n) of
                   Some s \<Rightarrow> s
                 | None \<Rightarrow> (case asString (cwNodeValue w n) of Some s \<Rightarrow> s | None \<Rightarrow> [])))"

datatype fake_host_node =
    FakeText string
  | FakeElement "string option" "string option" "string option" "js_num option"
      \<comment> \<open>\<open>localName\<close>, \<open>namespaceURI\<close>, \<open>nodeName\<close>, \<open>nodeType\<close>\<close>

definition createFakeHostNodeFromHostInstance :: "ct_world \<Rightarrow> nat \<Rightarrow> fake_host_node" where
  "createFakeHostNodeFromHostInstance w n =
     (if nodeTypeNumber w (Some n) = Some (Fin TEXT_NODE) then FakeText (getTextNodeContent w n)
      else FakeElement (getHostNodeLocalName w n) (asString (cwNamespaceURI w n)) (getHostNodeDisplayName w n)
             (nodeTypeNumber w (Some n)))"

definition createMountedHostInstanceNodeRecord :: "nat option \<Rightarrow> ct_state \<Rightarrow> (dom_error + nat) \<times> ct_state" where
  "createMountedHostInstanceNodeRecord token s =
     (case assertKnownHostInstanceToken s token of
        Inl e \<Rightarrow> (Inl e, s)
      | Inr t \<Rightarrow>
          (case getMountedHostInstanceNodeFromToken s token of
             None \<Rightarrow>
               (Inl (CodedError ''FAST_REACT_DOM_UNMOUNTED_HOST_INSTANCE_TOKEN''
                  ''Cannot create a React DOM host instance node record from an unmounted token.''), s)
           | Some n \<Rightarrow>
               (let latestProps = getLatestPropsFromNode s (Some n);
                    hasLatestRef = (typeOf latestProps = ''object'' \<and> latestProps \<noteq> DNull \<and> hasOwn latestProps ''ref'')
                in (Inr (ctNextRecord s),
                    s\<lparr>ctNodeRecords := (ctNodeRecords s)(ctNextRecord s \<mapsto>
                        \<lparr>npNode = n, npToken = t, npHostOwner = getHostInstanceOwnerFromToken s token,
                         npRootOwner = getRootOwnerFromHostInstanceToken s token, npLatestProps = latestProps,
                         npLatestRef = (if hasLatestRef then Some (readProp latestProps ''ref'') else None)\<rparr>),
                      ctNextRecord := ctNextRecord s + 1\<rparr>))))"

definition createRefCallbackFakeHostNodeRecord :: "ct_world \<Rightarrow> ct_state \<Rightarrow> nat \<Rightarrow> dom_error + fake_host_node" where
  "createRefCallbackFakeHostNodeRecord w s hostNodeRecord =
     (case ctNodeRecords s hostNodeRecord of
        None \<Rightarrow> Inl (CodedError ''FAST_REACT_DOM_INVALID_REF_CALLBACK_HOST_NODE_RECORD''
                 ''Cannot create a fake ref callback host node without a private component-tree host node record.'')
      | Some payload \<Rightarrow> Inr (createFakeHostNodeFromHostInstance w (npNode payload)))"

subsection \<open>Listener lookup\<close>

definition disabledMouseEventRegistrationNames :: "string list" where
  "disabledMouseEventRegistrationNames =
     [''onClick'', ''onClickCapture'', ''onDoubleClick'', ''onDoubleClickCapture'', ''onMouseDown'', ''onMouseDownCapture'',
      ''onMouseMove'', ''onMouseMoveCapture'', ''onMouseUp'', ''onMouseUpCapture'', ''onMouseEnter'']"

definition interactiveTagNames :: "string list" where
  "interactiveTagNames = [''button'', ''input'', ''select'', ''textarea'']"

definition shouldPreventMouseEvent :: "ct_world \<Rightarrow> string \<Rightarrow> nat \<Rightarrow> dval \<Rightarrow> bool" where
  "shouldPreventMouseEvent w registrationName n latestProps \<longleftrightarrow>
     dtruthy (readProp latestProps ''disabled'') \<and> registrationName \<in> set disabledMouseEventRegistrationNames \<and>
     getHostNodeName w n \<in> set interactiveTagNames"

definition normalizeEventListenerRegistrationName :: "dval \<Rightarrow> dom_error + string option" where
  "normalizeEventListenerRegistrationName registrationName =
     (if nullish registrationName then Inr None
      else (case nonEmpty (asString registrationName) of
              Some s \<Rightarrow> Inr (Some s)
            | None \<Rightarrow> Inl (CodedError ''FAST_REACT_DOM_INVALID_EVENT_LISTENER_REGISTRATION_NAME''
                       ''Cannot look up a React DOM event listener without a valid registration name.'')))"

record listener_lookup =
  llNode :: "nat option"
  llToken :: "nat option"
  llLatestProps :: dval
  llListener :: dval
  llListenerFound :: bool
  llListenerStatus :: string
  llListenerType :: string
  llRegistrationName :: "string option"

definition lookupRecord :: "nat option \<Rightarrow> nat option \<Rightarrow> dval \<Rightarrow> dval \<Rightarrow> string \<Rightarrow> string \<Rightarrow> string option \<Rightarrow> listener_lookup" where
  "lookupRecord n t ps listener status ty nm =
     \<lparr>llNode = n, llToken = t, llLatestProps = ps, llListener = listener, llListenerFound = (listener \<noteq> DNull),
      llListenerStatus = status, llListenerType = ty, llRegistrationName = nm\<rparr>"

definition createEventListenerTargetLookupRecord ::
  "ct_world \<Rightarrow> ct_state \<Rightarrow> target_record option \<Rightarrow> dval \<Rightarrow> dom_error + listener_lookup" where
  "createEventListenerTargetLookupRecord w s record registrationName =
     (case assertEventTargetNormalizationRecord record of
        Inl e \<Rightarrow> Inl e
      | Inr target \<Rightarrow>
          (case normalizeEventListenerRegistrationName registrationName of
             Inl e \<Rightarrow> Inl e
           | Inr nm \<Rightarrow>
               (case assertTargetNodeDoesNotHaveMismatchedHostInstanceToken s (trTargetNode target) of
                  Some e \<Rightarrow> Inl e
                | None \<Rightarrow>
                    (case trClosestToken target of
                       None \<Rightarrow>
                         Inr (lookupRecord None None DNull DNull
                                (if nm = None then ''not-applicable'' else ''no-mounted-host-instance'') ''missing'' nm)
                     | Some t \<Rightarrow>
                         (case getMountedHostInstanceNodeFromToken s (Some t) of
                            None \<Rightarrow> Inl (CodedError ''FAST_REACT_DOM_EVENT_LISTENER_TARGET_LOOKUP_UNMOUNTED''
                                      ''Cannot look up a React DOM event listener for an unmounted host instance token.'')
                          | Some n \<Rightarrow>
                              if trClosestNode target \<noteq> Some n then
                                Inl (CodedError ''FAST_REACT_DOM_EVENT_LISTENER_TARGET_LOOKUP_NODE_MISMATCH''
                                  ''Cannot look up a React DOM event listener when the target record node does not match the mounted host instance token.'')
                              else
                                (let ps = getLatestPropsFromNode s (Some n) in
                                 if ps = DNull then Inr (lookupRecord (Some n) (Some t) DNull DNull ''missing-latest-props'' ''missing'' nm)
                                 else if typeOf ps \<noteq> ''object'' \<and> typeOf ps \<noteq> ''function'' then
                                   Inl (CodedError ''FAST_REACT_DOM_INVALID_EVENT_LISTENER_LATEST_PROPS''
                                     ''Cannot look up a React DOM event listener from non-object latest props.'')
                                 else
                                   (case nm of
                                      None \<Rightarrow> Inr (lookupRecord (Some n) (Some t) ps DNull ''not-applicable'' ''missing'' None)
                                    | Some name \<Rightarrow>
                                        (let listener = (if hasOwn ps name then readProp ps name else DNull) in
                                         if \<not> nullish listener \<and> shouldPreventMouseEvent w name n ps then
                                           Inr (lookupRecord (Some n) (Some t) ps DNull ''disabled-interactive-blocked'' ''blocked'' nm)
                                         else if \<not> nullish listener \<and> typeOf listener \<noteq> ''function'' then
                                           Inl (CodedError ''FAST_REACT_DOM_INVALID_EVENT_LISTENER''
                                             (''Expected `'' @ name @ ''` listener to be a function, instead got a value of `'' @
                                              typeOf listener @ ''` type.''))
                                         else if nullish listener then
                                           Inr (lookupRecord (Some n) (Some t) ps DNull ''missing'' ''missing'' nm)
                                         else Inr (lookupRecord (Some n) (Some t) ps listener ''present'' ''function'' nm)))))))))"

end
