(* ===== verification/Component_Props.thy ===== *)
theory Component_Props
  imports Component_Tree
begin

text \<open>
  The component tree is a one to one relation between tokens and nodes, kept by every operation; and
  the dispatch path of an event is the list of mounted host instances from the target outwards, up
  to the first container root.
\<close>

subsection \<open>Tokens and nodes\<close>

inductive ct_reachable :: "ct_state \<Rightarrow> bool" where
  ct_init: "ct_reachable \<lparr>ctMetadata = Map.empty, ctTokenNode = Map.empty, ctNodeToken = Map.empty, ctNodeProps = Map.empty,
    ctNextToken = 0, ctNodeRecords = Map.empty, ctNextRecord = 0\<rparr>"
| ct_create: "ct_reachable s \<Longrightarrow> ct_reachable (snd (createHostInstanceToken hostOwner rootOwner s))"
| ct_attach: "ct_reachable s \<Longrightarrow> ct_reachable (snd (attachHostInstanceNode w node token latestProps s))"
| ct_update: "ct_reachable s \<Longrightarrow> ct_reachable (snd (updateLatestPropsForNode node latestProps s))"
| ct_update_token: "ct_reachable s \<Longrightarrow> ct_reachable (snd (updateLatestPropsForHostInstanceToken token latestProps s))"
| ct_commit: "ct_reachable s \<Longrightarrow> ct_reachable (snd (commitLatestPropsFromMutationRecord payloads r s))"
| ct_commit_all: "ct_reachable s \<Longrightarrow> ct_reachable (snd (commitLatestPropsFromMutationRecords payloads records s))"
| ct_record: "ct_reachable s \<Longrightarrow> ct_reachable (snd (createMountedHostInstanceNodeRecord token s))"
| ct_detach: "ct_reachable s \<Longrightarrow> ct_reachable (snd (detachHostInstanceNode node s))"
| ct_detach_token: "ct_reachable s \<Longrightarrow> ct_reachable (snd (detachHostInstanceToken token s))"
| ct_detach_subtree: "ct_reachable s \<Longrightarrow> detachHostInstanceSubtree w rootNode includeRoot s = Some (rec, s') \<Longrightarrow> ct_reachable s'"

definition treeOk :: "ct_state \<Rightarrow> bool" where
  "treeOk s \<longleftrightarrow>
     (\<forall>t n. ctTokenNode s t = Some n \<longleftrightarrow> ctNodeToken s n = Some t) \<and>
     (\<forall>t n. ctTokenNode s t = Some n \<longrightarrow> ctMetadata s t \<noteq> None) \<and>
     (\<forall>t. ctMetadata s t \<noteq> None \<longrightarrow> t < ctNextToken s)"

lemma treeOkD:
  assumes "treeOk s"
  shows "ctTokenNode s t = Some n \<longleftrightarrow> ctNodeToken s n = Some t"
    "ctTokenNode s t = Some n \<Longrightarrow> ctMetadata s t \<noteq> None" "ctMetadata s t \<noteq> None \<Longrightarrow> t < ctNextToken s"
    "ctNodeToken s n = Some t \<Longrightarrow> ctMetadata s t \<noteq> None"
  using assms unfolding treeOk_def by blast+

lemma treeOk_cong:
  assumes "ctTokenNode s' = ctTokenNode s" "ctNodeToken s' = ctNodeToken s" "ctMetadata s' = ctMetadata s" "ctNextToken s' = ctNextToken s"
  shows "treeOk s' \<longleftrightarrow> treeOk s"
  using assms by (simp add: treeOk_def)

text \<open>In a well-formed tree both lookups read one map.\<close>
lemma token_of_node:
  assumes "treeOk s"
  shows "getHostInstanceTokenFromNode s (Some n) = ctNodeToken s n"
proof (cases "ctNodeToken s n")
  case (Some t)
  then show ?thesis using treeOkD(1) [OF assms, of t n] treeOkD(4) [OF assms Some]
    by (simp add: getHostInstanceTokenFromNode_def getHostInstanceMetadata_def)
qed (simp add: getHostInstanceTokenFromNode_def)

lemma node_of_token:
  assumes "treeOk s"
  shows "getMountedHostInstanceNodeFromToken s (Some t) = ctTokenNode s t"
proof (cases "ctTokenNode s t")
  case (Some n)
  then show ?thesis using treeOkD(1) [OF assms, of t n] treeOkD(2) [OF assms Some]
    by (simp add: getMountedHostInstanceNodeFromToken_def getHostInstanceMetadata_def)
qed (simp add: getMountedHostInstanceNodeFromToken_def)

lemma updateLatestProps_maps:
  "ctTokenNode (snd (updateLatestPropsForNode node p s)) = ctTokenNode s"
  "ctNodeToken (snd (updateLatestPropsForNode node p s)) = ctNodeToken s"
  "ctMetadata (snd (updateLatestPropsForNode node p s)) = ctMetadata s"
  "ctNextToken (snd (updateLatestPropsForNode node p s)) = ctNextToken s"
  by (auto simp: updateLatestPropsForNode_def split: option.splits)

lemma treeOk_update: "treeOk s \<Longrightarrow> treeOk (snd (updateLatestPropsForNode node p s))"
  by (rule treeOk_cong [THEN iffD2]) (simp_all add: updateLatestProps_maps)

lemma treeOk_updateAll: "treeOk s \<Longrightarrow> treeOk (snd (updateAll ps s))"
proof (induction ps s rule: updateAll.induct)
  case (2 p ps s)
  show ?case
  proof (cases "updateLatestPropsForNode (fst p) (snd p) s")
    case (Pair r s')
    then show ?thesis using 2 treeOk_update [OF "2.prems", of "fst p" "snd p"] by (cases r) auto
  qed
qed simp

lemma treeOk_attach:
  assumes "treeOk s"
  shows "treeOk (snd (attachHostInstanceNode w node token p s))"
proof (cases "\<exists>n t. node = Some n \<and> token = Some t \<and> ctMetadata s t \<noteq> None \<and> (ctTokenNode s t = None \<or> ctTokenNode s t = Some n) \<and>
    (ctNodeToken s n = None \<or> ctNodeToken s n = Some t)")
  case True
  then obtain n t where a: "node = Some n" "token = Some t" "ctMetadata s t \<noteq> None" "ctTokenNode s t = None \<or> ctTokenNode s t = Some n"
    "ctNodeToken s n = None \<or> ctNodeToken s n = Some t" by blast
  note D = treeOkD [OF assms]
  have o1: "ctNodeToken s m \<noteq> Some t" if "m \<noteq> n" for m using D(1) [of t m] that a(4) by auto
  have o2: "ctTokenNode s u \<noteq> Some n" if "u \<noteq> t" for u using D(1) [of u n] that a(5) by auto
  show ?thesis
  proof (cases "isHostInstanceNode w (Some n)")
    case True
    then have r: "snd (attachHostInstanceNode w node token p s) =
        s\<lparr>ctNodeToken := (ctNodeToken s)(n \<mapsto> t), ctNodeProps := (ctNodeProps s)(n \<mapsto> propsOrNull p), ctTokenNode := (ctTokenNode s)(t \<mapsto> n)\<rparr>"
      using a token_of_node [OF assms, of n]
      by (auto simp: attachHostInstanceNode_def assertHostInstanceNode_def assertKnownHostInstanceToken_def getHostInstanceMetadata_def)
    show ?thesis unfolding r treeOk_def using D o1 o2 a(3) by auto
  next
    case False
    then show ?thesis using a assms by (simp add: attachHostInstanceNode_def assertHostInstanceNode_def)
  qed
next
  case False
  then have "snd (attachHostInstanceNode w node token p s) = s"
    using token_of_node [OF assms]
    by (auto simp: attachHostInstanceNode_def assertHostInstanceNode_def assertKnownHostInstanceToken_def getHostInstanceMetadata_def
        Let_def split: option.splits)
  then show ?thesis using assms by simp
qed

lemma detachNode_maps:
  assumes "treeOk s"
  shows "fst (detachHostInstanceNode (Some n) s) = ctNodeToken s n"
    "ctNodeToken (snd (detachHostInstanceNode (Some n) s)) = (ctNodeToken s)(n := None)"
    "treeOk (snd (detachHostInstanceNode (Some n) s))"
proof -
  note D = treeOkD [OF assms]
  show "fst (detachHostInstanceNode (Some n) s) = ctNodeToken s n"
    "ctNodeToken (snd (detachHostInstanceNode (Some n) s)) = (ctNodeToken s)(n := None)"
    by (auto simp: detachHostInstanceNode_def token_of_node [OF assms] Let_def split: option.splits)
  show "treeOk (snd (detachHostInstanceNode (Some n) s))"
  proof (cases "ctNodeToken s n")
    case None
    then have "(ctNodeToken s)(n := None) = ctNodeToken s" by auto
    then show ?thesis using None assms
      by (auto simp: detachHostInstanceNode_def token_of_node [OF assms] Let_def treeOk_def)
  next
    case (Some t)
    have "ctTokenNode s t = Some n" using D(1) Some by simp
    then have others: "ctNodeToken s m \<noteq> Some t" if "m \<noteq> n" for m using D(1) [of t m] that by simp
    have others': "ctTokenNode s u \<noteq> Some n" if "u \<noteq> t" for u using D(1) [of u n] that Some by simp
    show ?thesis unfolding treeOk_def using Some others others' D
      by (auto simp: detachHostInstanceNode_def token_of_node [OF assms] Let_def)
  qed
qed

lemma detachToken_maps:
  assumes "treeOk s"
  shows "treeOk (snd (detachHostInstanceToken token s))"
    "token = Some t \<Longrightarrow> ctNodeToken (snd (detachHostInstanceToken token s)) = (\<lambda>m. if ctNodeToken s m = Some t then None else ctNodeToken s m)"
    "token = Some t \<Longrightarrow> ctMetadata (snd (detachHostInstanceToken token s)) = (ctMetadata s)(t := None)"
proof -
  note D = treeOkD [OF assms]
  show meta: "ctMetadata (snd (detachHostInstanceToken token s)) = (ctMetadata s)(t := None)" if "token = Some t" for t
    using that by (auto simp: detachHostInstanceToken_def getHostInstanceMetadata_def Let_def split: option.splits)
  show tok: "ctNodeToken (snd (detachHostInstanceToken token s)) = (\<lambda>m. if ctNodeToken s m = Some t then None else ctNodeToken s m)"
    if "token = Some t" for t
  proof (cases "ctTokenNode s t")
    case None
    then have "ctNodeToken s m \<noteq> Some t" for m using D(1) [of t m] by simp
    then show ?thesis using None that by (auto simp: detachHostInstanceToken_def Let_def)
  next
    case (Some n)
    have n: "ctNodeToken s m = Some t \<longleftrightarrow> m = n" for m using D(1) [of t m] Some by auto
    then show ?thesis using Some that D(2) [OF Some]
      by (auto simp: detachHostInstanceToken_def getHostInstanceMetadata_def Let_def)
  qed
  have nodes: "ctTokenNode (snd (detachHostInstanceToken token s)) = (ctTokenNode s)(t := None)" if "token = Some t" for t
    using that D(2) [of t] by (auto simp: detachHostInstanceToken_def getHostInstanceMetadata_def Let_def fun_eq_iff split: option.splits)
  have nxt: "ctNextToken (snd (detachHostInstanceToken token s)) = ctNextToken s"
    by (auto simp: detachHostInstanceToken_def Let_def split: option.splits)
  show "treeOk (snd (detachHostInstanceToken token s))"
  proof (cases token)
    case None
    then show ?thesis using assms by (simp add: detachHostInstanceToken_def)
  next
    case (Some t)
    show ?thesis
      unfolding treeOk_def meta [OF Some] tok [OF Some] nodes [OF Some] nxt using D by auto
  qed
qed

lemma detachAll_result:
  assumes "treeOk s"
  shows "treeOk (snd (detachAll ns ts s)) \<and>
    ctNodeToken (snd (detachAll ns ts s)) = (\<lambda>m. if m \<in> set ns then None else ctNodeToken s m) \<and>
    (\<exists>new. fst (detachAll ns ts s) = ts @ new \<and> set new = {t. \<exists>n\<in>set ns. ctNodeToken s n = Some t} \<and> distinct new)"
  using assms
proof (induction ns arbitrary: ts s)
  case (Cons n ns)
  define s1 where "s1 = snd (detachHostInstanceNode (Some n) s)"
  have d: "detachHostInstanceNode (Some n) s = (ctNodeToken s n, s1)" and k1: "ctNodeToken s1 = (ctNodeToken s)(n := None)" and ok1: "treeOk s1"
    using detachNode_maps [OF Cons.prems, of n] by (auto simp: s1_def prod_eq_iff)
  show ?case
  proof (cases "ctNodeToken s n")
    case None
    have same: "ctNodeToken s1 = ctNodeToken s" using k1 None by auto
    show ?thesis using Cons.IH [OF ok1, of ts] d None by (auto simp: same fun_eq_iff)
  next
    case (Some t)
    have only: "m = n" if "ctNodeToken s m = Some t" for m
      using treeOkD(1) [OF Cons.prems] that Some by (metis option.inject)
    obtain new where new: "fst (detachAll ns (ts @ [t]) s1) = (ts @ [t]) @ new"
      "set new = {u. \<exists>m\<in>set ns. ctNodeToken s1 m = Some u}" "distinct new"
      using Cons.IH [OF ok1, of "ts @ [t]"] by blast
    have t: "t \<notin> set new" using new(2) only k1 by auto
    have all: "{u. \<exists>m\<in>set (n # ns). ctNodeToken s m = Some u} = insert t (set new)"
      unfolding new(2) k1 using Some by (auto split: if_splits) (metis option.inject)
    show ?thesis
      using Cons.IH [OF ok1, of "ts @ [t]"] d Some new t all k1
      by (auto simp: fun_eq_iff intro!: exI [of _ "t # new"])
  qed
qed simp

lemma subtree_result:
  assumes "detachHostInstanceSubtree w rootNode includeRoot s = Some (rec, s')"
  shows "drDetachedTokens rec = fst (detachAll (drVisitedNodes rec) [] s)" "s' = snd (detachAll (drVisitedNodes rec) [] s)"
  using assms unfolding detachHostInstanceSubtree_def Let_def by (auto simp: case_prod_beta)

lemma reachable_treeOk: "ct_reachable s \<Longrightarrow> treeOk s"
proof (induction rule: ct_reachable.induct)
  case ct_init
  then show ?case by (simp add: treeOk_def)
next
  case (ct_create s hostOwner rootOwner)
  note D = treeOkD [OF ct_create.IH]
  show ?case
  proof (cases "nullish hostOwner \<or> nullish rootOwner")
    case True
    then show ?thesis using ct_create.IH by (auto simp: createHostInstanceToken_def)
  next
    case False
    then show ?thesis using D by (auto simp: createHostInstanceToken_def treeOk_def less_Suc_eq)
  qed
next
  case (ct_update_token s token latestProps)
  then show ?case using treeOk_update by (auto simp: updateLatestPropsForHostInstanceToken_def split: sum.splits)
next
  case (ct_commit s payloads r)
  then show ?case using treeOk_update by (auto simp: commitLatestPropsFromMutationRecord_def split: sum.splits option.splits)
next
  case (ct_commit_all s payloads records)
  have "treeOk (snd (updateAll ps s))" for ps using treeOk_updateAll [OF ct_commit_all.IH] .
  then show ?case using ct_commit_all.IH
    by (auto simp: commitLatestPropsFromMutationRecords_def split: sum.splits option.splits prod.splits) (metis snd_conv)+
next
  case (ct_record s token)
  then show ?case
    by (auto simp: createMountedHostInstanceNodeRecord_def Let_def treeOk_def split: sum.splits option.splits)
next
  case (ct_detach s node)
  then show ?case using detachNode_maps(3) by (cases node) (auto simp: detachHostInstanceNode_def)
next
  case (ct_detach_subtree s w rootNode includeRoot rec s')
  then show ?case using subtree_result(2) [OF ct_detach_subtree.hyps(2)] detachAll_result [OF ct_detach_subtree.IH] by simp
qed (simp_all add: treeOk_attach treeOk_update detachToken_maps)

text \<open>The subtree of a node, by the child lists; without the root only what is below it.\<close>
definition childNode :: "ct_world \<Rightarrow> nat \<Rightarrow> nat \<Rightarrow> bool" where
  "childNode w n m \<longleftrightarrow> Some m \<in> set (getChildNodesSnapshot w (Some n))"

definition inSubtree :: "ct_world \<Rightarrow> nat option \<Rightarrow> bool \<Rightarrow> nat \<Rightarrow> bool" where
  "inSubtree w rootNode includeRoot k \<longleftrightarrow>
     (\<exists>r. rootNode = Some r \<and> (if includeRoot then (childNode w)\<^sup>*\<^sup>* r k else (childNode w)\<^sup>+\<^sup>+ r k))"

definition acyclic_children :: "ct_world \<Rightarrow> bool" where
  "acyclic_children w \<longleftrightarrow> (\<exists>f :: nat \<Rightarrow> nat. \<forall>n m. childNode w n m \<longrightarrow> f m < f n)"

text \<open>Each node of the list comes after all its children.\<close>
definition childrenFirst :: "ct_world \<Rightarrow> nat list \<Rightarrow> bool" where
  "childrenFirst w ns \<longleftrightarrow> (\<forall>us k vs m. ns = us @ k # vs \<longrightarrow> childNode w k m \<longrightarrow> m \<in> set us)"

lemma childrenFirst_nil [simp]: "childrenFirst w []"
  by (simp add: childrenFirst_def)

lemma childrenFirst_snoc: "childrenFirst w ns \<Longrightarrow> (\<And>m. childNode w n m \<Longrightarrow> m \<in> set ns) \<Longrightarrow> childrenFirst w (ns @ [n])"
  by (auto simp: childrenFirst_def append_eq_append_conv2 Cons_eq_append_conv append_eq_Cons_conv)

lemma child_subtree: "(childNode w)\<^sup>*\<^sup>* n k \<longleftrightarrow> k = n \<or> (\<exists>m. Some m \<in> set (getChildNodesSnapshot w (Some n)) \<and> (childNode w)\<^sup>*\<^sup>* m k)"
  by (auto simp: childNode_def elim: converse_rtranclpE intro: converse_rtranclp_into_rtranclp)

lemma collectNodes_set:
  "collectNodes w entries nodes = Some out \<Longrightarrow> childrenFirst w nodes \<Longrightarrow>
   set out = set nodes \<union> {k. \<exists>n. Some n \<in> set entries \<and> (childNode w)\<^sup>*\<^sup>* n k} \<and> childrenFirst w out"
proof (induction rule: collectNodes.raw_induct [rotated, consumes 1, case_names step])
  case (step self w entries nodes out)
  show ?case
  proof (cases entries)
    case Nil
    then show ?thesis using step by simp
  next
    case (Cons e rest)
    show ?thesis
    proof (cases e)
      case None
      then show ?thesis using step Cons by auto
    next
      case (Some n)
      obtain nodes1 where n1: "self w (getChildNodesSnapshot w (Some n)) nodes = Some nodes1" "self w rest (nodes1 @ [n]) = Some out"
        using step(2) Cons Some by (auto split: Option.bind_splits)
      have I1: "set nodes1 = set nodes \<union> {k. \<exists>m. Some m \<in> set (getChildNodesSnapshot w (Some n)) \<and> (childNode w)\<^sup>*\<^sup>* m k}"
        "childrenFirst w nodes1" using step(1) [OF n1(1) step(3)] by simp_all
      have "m \<in> set nodes1" if "childNode w n m" for m using that I1(1) by (auto simp: childNode_def)
      then have I2: "set out = insert n (set nodes1) \<union> {k. \<exists>n. Some n \<in> set rest \<and> (childNode w)\<^sup>*\<^sup>* n k}" "childrenFirst w out"
        using step(1) [OF n1(2) childrenFirst_snoc [OF I1(2)]] by auto
      have "{k. (childNode w)\<^sup>*\<^sup>* n k} = insert n {k. \<exists>m. Some m \<in> set (getChildNodesSnapshot w (Some n)) \<and> (childNode w)\<^sup>*\<^sup>* m k}"
        by (subst child_subtree) auto
      then show ?thesis using I1(1) I2 Cons Some by auto
    qed
  qed
qed

lemma collect_below:
  assumes "\<forall>n m. childNode w n m \<longrightarrow> f m < f n"
  shows "\<forall>n. Some n \<in> set entries \<longrightarrow> f n < (b :: nat) \<Longrightarrow> \<exists>out. collectNodes w entries nodes = Some out"
proof (induction b arbitrary: entries nodes)
  case 0
  then have "\<forall>e\<in>set entries. e = None" by (auto simp: all_set_conv_all_nth in_set_conv_nth) (metis not_None_eq)
  then show ?case by (induction entries) (simp_all add: collectNodes.simps)
next
  case (Suc b)
  show ?case using Suc.prems
  proof (induction entries arbitrary: nodes)
    case Nil
    then show ?case by (simp add: collectNodes.simps)
  next
    case (Cons e rest)
    have rest: "\<exists>out. collectNodes w rest ns = Some out" for ns using Cons by simp
    show ?case
    proof (cases e)
      case None
      then show ?thesis using rest by (subst collectNodes.simps) simp
    next
      case (Some n)
      have "f m < b" if "Some m \<in> set (getChildNodesSnapshot w (Some n))" for m
        using assms that Cons.prems Some by (fastforce simp: childNode_def)
      then obtain nodes1 where "collectNodes w (getChildNodesSnapshot w (Some n)) nodes = Some nodes1" using Suc.IH by blast
      then show ?thesis using rest Some by (subst collectNodes.simps) simp
    qed
  qed
qed

lemma collect_total: "acyclic_children w \<Longrightarrow> \<exists>out. collectNodes w entries nodes = Some out"
proof -
  assume "acyclic_children w"
  then obtain f :: "nat \<Rightarrow> nat" where f: "\<forall>n m. childNode w n m \<longrightarrow> f m < f n" by (auto simp: acyclic_children_def)
  have "f n \<le> sum_list (map (case_option 0 f) entries)" if "Some n \<in> set entries" for n
    using that by (induction entries) auto
  then have "\<forall>n. Some n \<in> set entries \<longrightarrow> f n < Suc (sum_list (map (case_option 0 f) entries))" by (simp add: less_Suc_eq_le)
  then show ?thesis using collect_below [OF f] by blast
qed

lemma subtree_visits:
  assumes "detachHostInstanceSubtree w rootNode includeRoot s = Some (rec, s')"
  shows "drIncludeRoot rec = includeRoot" "set (drVisitedNodes rec) = {k. inSubtree w rootNode includeRoot k}"
    "childrenFirst w (drVisitedNodes rec)"
proof -
  show "drIncludeRoot rec = includeRoot"
    using assms by (auto simp: detachHostInstanceSubtree_def Let_def case_prod_beta)
  have c: "collectNodes w (if includeRoot then [rootNode] else getChildNodesSnapshot w rootNode) [] = Some (drVisitedNodes rec)"
    using assms by (auto simp: detachHostInstanceSubtree_def Let_def collectHostInstanceSubtreeNodes_def case_prod_beta split: if_splits)
  have below: "(childNode w)\<^sup>+\<^sup>+ r k \<longleftrightarrow> (\<exists>n. childNode w r n \<and> (childNode w)\<^sup>*\<^sup>* n k)" for r k
    by (meson rtranclp_into_tranclp2 tranclpD)
  have "getChildNodesSnapshot w None = []" by (simp add: getChildNodesSnapshot_def)
  then show "set (drVisitedNodes rec) = {k. inSubtree w rootNode includeRoot k}" "childrenFirst w (drVisitedNodes rec)"
    using collectNodes_set [OF c] by (cases rootNode; auto simp: inSubtree_def below childNode_def)+
qed

text \<open>
  C16: the component tree is a one to one map. In every state the module's operations reach, a token
  leads to a node exactly when the node leads to the token. A successful attach links exactly the
  given pair, stores the latest props and leaves every other node alone; a failed one changes
  nothing. Detaching a token makes it unknown and unmounts its node only. Detaching the subtree of a node visits
  exactly the nodes that the child lists lead to from it, the node itself only when it is included, children before
  their parent. It unmounts exactly these nodes, and the record lists exactly the tokens they had, each once. It
  returns when the child lists have no cycle.
\<close>
theorem component_tree_one_to_one:
  assumes "ct_reachable s"
  shows "(getMountedHostInstanceNodeFromToken s (Some t) = Some n \<longleftrightarrow> getHostInstanceTokenFromNode s (Some n) = Some t) \<and>
    (case attachHostInstanceNode w node token latestProps s of
       (Inl e, s') \<Rightarrow> s' = s
     | (Inr u, s') \<Rightarrow> token = Some u \<and> (\<exists>m. node = Some m \<and> getHostInstanceTokenFromNode s' node = Some u \<and>
         getLatestPropsFromNode s' node = propsOrNull latestProps \<and>
         (\<forall>k. k \<noteq> m \<longrightarrow> getHostInstanceTokenFromNode s' (Some k) = getHostInstanceTokenFromNode s (Some k)))) \<and>
    (case detachHostInstanceToken (Some t) s of
       (r, s') \<Rightarrow> getHostInstanceMetadata s' (Some t) = None \<and>
         (\<forall>k. getHostInstanceTokenFromNode s' (Some k) =
            (if getHostInstanceTokenFromNode s (Some k) = Some t then None else getHostInstanceTokenFromNode s (Some k)))) \<and>
    (\<forall>rec s'. detachHostInstanceSubtree w root' includeRoot s = Some (rec, s') \<longrightarrow>
       drIncludeRoot rec = includeRoot \<and>
       set (drVisitedNodes rec) = {k. inSubtree w root' includeRoot k} \<and> childrenFirst w (drVisitedNodes rec) \<and>
       (\<forall>k. getHostInstanceTokenFromNode s' (Some k) =
          (if inSubtree w root' includeRoot k then None else getHostInstanceTokenFromNode s (Some k))) \<and>
       distinct (drDetachedTokens rec) \<and>
       set (drDetachedTokens rec) = {u. \<exists>k. inSubtree w root' includeRoot k \<and> getHostInstanceTokenFromNode s (Some k) = Some u}) \<and>
    (acyclic_children w \<longrightarrow> (\<exists>rec s'. detachHostInstanceSubtree w root' includeRoot s = Some (rec, s')))"
    (is "?bij \<and> ?att \<and> ?det \<and> ?sub \<and> ?total")
proof (intro conjI)
  have ok: "treeOk s" using reachable_treeOk [OF assms] .
  show ?bij using treeOkD(1) [OF ok] by (simp add: token_of_node [OF ok] node_of_token [OF ok])
  show ?att
  proof (cases "attachHostInstanceNode w node token latestProps s")
    case (Pair r s')
    show ?thesis
    proof (cases r)
      case (Inl e)
      then show ?thesis using Pair
        by (auto simp: attachHostInstanceNode_def split: sum.splits if_splits)
    next
      case (Inr u)
      obtain m where m: "node = Some m" "token = Some u"
        "s' = s\<lparr>ctNodeToken := (ctNodeToken s)(m \<mapsto> u), ctNodeProps := (ctNodeProps s)(m \<mapsto> propsOrNull latestProps), ctTokenNode := (ctTokenNode s)(u \<mapsto> m)\<rparr>"
        using Pair Inr
        by (auto simp: attachHostInstanceNode_def assertHostInstanceNode_def assertKnownHostInstanceToken_def Let_def
            split: sum.splits if_splits option.splits)
      have ok': "treeOk s'" using treeOk_attach [OF ok, of w node token latestProps] Pair by simp
      show ?thesis using Pair Inr m(1,2)
        by (auto simp: token_of_node [OF ok'] token_of_node [OF ok] getLatestPropsFromNode_def) (auto simp: m(3))
    qed
  qed
  show ?det
  proof (cases "detachHostInstanceToken (Some t) s")
    case (Pair r s')
    have ok': "treeOk s'" using detachToken_maps(1) [OF ok, of "Some t"] Pair by simp
    show ?thesis using detachToken_maps(2,3) [OF ok refl, of t] Pair
      by (simp add: token_of_node [OF ok'] token_of_node [OF ok] getHostInstanceMetadata_def)
  qed
  show ?sub
  proof (intro allI impI)
    fix rec s'
    assume d: "detachHostInstanceSubtree w root' includeRoot s = Some (rec, s')"
    note R = detachAll_result [OF ok, of "drVisitedNodes rec" "[]"]
    have ok': "treeOk s'" using R subtree_result(2) [OF d] by simp
    note V = subtree_visits [OF d]
    show "drIncludeRoot rec = includeRoot \<and>
       set (drVisitedNodes rec) = {k. inSubtree w root' includeRoot k} \<and> childrenFirst w (drVisitedNodes rec) \<and>
       (\<forall>k. getHostInstanceTokenFromNode s' (Some k) =
          (if inSubtree w root' includeRoot k then None else getHostInstanceTokenFromNode s (Some k))) \<and>
       distinct (drDetachedTokens rec) \<and>
       set (drDetachedTokens rec) = {u. \<exists>k. inSubtree w root' includeRoot k \<and> getHostInstanceTokenFromNode s (Some k) = Some u}"
      using R V subtree_result(1) [OF d] unfolding subtree_result(2) [OF d, symmetric] token_of_node [OF ok'] token_of_node [OF ok] by auto
  qed
  show ?total
  proof
    assume "acyclic_children w"
    then have "\<exists>out. collectNodes w entries [] = Some out" for entries by (rule collect_total)
    then show "\<exists>rec s'. detachHostInstanceSubtree w root' includeRoot s = Some (rec, s')"
      by (simp add: detachHostInstanceSubtree_def collectHostInstanceSubtreeNodes_def case_prod_beta Let_def)
  qed
qed

subsection \<open>Dispatch paths\<close>

definition mounted :: "ct_state \<Rightarrow> nat \<Rightarrow> bool" where
  "mounted s n \<longleftrightarrow> getHostInstanceTokenFromNode s (Some n) \<noteq> None"

lemma mountedI [simp]: "getHostInstanceTokenFromNode s (Some n) = Some t \<Longrightarrow> mounted s n"
  by (simp add: mounted_def)

lemma not_mountedI [simp]: "getHostInstanceTokenFromNode s (Some n) = None \<Longrightarrow> \<not> mounted s n"
  by (simp add: mounted_def)

text \<open>The nodes from a node up to the first container root, that one included.\<close>
inductive climb :: "ct_world \<Rightarrow> nat \<Rightarrow> nat list \<Rightarrow> bool" for w where
  climb_last: "nodeRootOwner w n \<noteq> DNull \<or> cwParent w n = None \<Longrightarrow> climb w n [n]"
| climb_up: "nodeRootOwner w n = DNull \<Longrightarrow> cwParent w n = Some p \<Longrightarrow> climb w p ns \<Longrightarrow> climb w n (n # ns)"

text \<open>The nodes from a parent on, up to the first container root, that one excluded and named apart.\<close>
inductive ascend :: "ct_world \<Rightarrow> nat option \<Rightarrow> nat list \<Rightarrow> nat option \<Rightarrow> bool" for w where
  ascend_top: "ascend w None [] None"
| ascend_root: "nodeRootOwner w p \<noteq> DNull \<Longrightarrow> ascend w (Some p) [] (Some p)"
| ascend_up: "nodeRootOwner w p = DNull \<Longrightarrow> ascend w (cwParent w p) ns b \<Longrightarrow> ascend w (Some p) (p # ns) b"

text \<open>No node is above itself.\<close>
definition acyclic_parents :: "ct_world \<Rightarrow> bool" where
  "acyclic_parents w \<longleftrightarrow> (\<exists>rank :: nat \<Rightarrow> nat. \<forall>n p. cwParent w n = Some p \<longrightarrow> rank p < rank n)"

lemma climb_exists:
  assumes "acyclic_parents w"
  shows "\<exists>ns. climb w n ns"
proof -
  obtain rank :: "nat \<Rightarrow> nat" where rank: "\<forall>n p. cwParent w n = Some p \<longrightarrow> rank p < rank n"
    using assms by (auto simp: acyclic_parents_def)
  show ?thesis
  proof (induction "rank n" arbitrary: n rule: less_induct)
    case less
    show ?case
    proof (cases "nodeRootOwner w n \<noteq> DNull \<or> cwParent w n = None")
      case False
      then show ?thesis using less rank climb_up by (metis not_None_eq)
    qed (blast intro: climb_last)
  qed
qed

lemma ascend_exists:
  assumes "acyclic_parents w"
  shows "\<exists>ns b. ascend w q ns b"
proof (cases q)
  case (Some n)
  obtain rank :: "nat \<Rightarrow> nat" where rank: "\<forall>n p. cwParent w n = Some p \<longrightarrow> rank p < rank n"
    using assms by (auto simp: acyclic_parents_def)
  have "\<exists>ns b. ascend w (Some n) ns b"
  proof (induction "rank n" arbitrary: n rule: less_induct)
    case less
    show ?case
    proof (cases "nodeRootOwner w n \<noteq> DNull")
      case False
      then show ?thesis using less rank ascend_up ascend_top by (metis not_None_eq)
    qed (blast intro: ascend_root)
  qed
  then show ?thesis by (simp add: Some)
qed (blast intro: ascend_top)

lemma closest_is_first:
  assumes "climb w n ns"
  shows "closestLoop w s n = Some (Option.bind (find (mounted s) ns) (\<lambda>m. getHostInstanceTokenFromNode s (Some m)))"
  using assms
proof induction
  case (climb_last n)
  then show ?case
    by (cases "getHostInstanceTokenFromNode s (Some n)"; subst closestLoop.simps)
      (auto simp: getMountedHostInstanceTokenFromNode_def)
next
  case (climb_up n p ns)
  then show ?case
    by (cases "getHostInstanceTokenFromNode s (Some n)"; subst closestLoop.simps)
      (auto simp: getMountedHostInstanceTokenFromNode_def)
qed

lemma no_mismatch: "treeOk s \<Longrightarrow> assertTargetNodeDoesNotHaveMismatchedHostInstanceToken s q = None"
  by (auto simp: assertTargetNodeDoesNotHaveMismatchedHostInstanceToken_def token_of_node split: option.splits)

text \<open>The entries a list of mounted nodes gives, with consecutive indices.\<close>
definition pathEntries :: "ct_state \<Rightarrow> nat \<Rightarrow> nat list \<Rightarrow> path_entry list \<Rightarrow> bool" where
  "pathEntries s k ns es \<longleftrightarrow>
     map peNode es = ns \<and> map peIndex es = [k..<k + length es] \<and>
     (\<forall>e\<in>set es. getHostInstanceTokenFromNode s (Some (peNode e)) = Some (peToken e) \<and>
        peRootOwner e = getRootOwnerFromHostInstanceToken s (Some (peToken e)))"

lemma pathEntries_Cons:
  assumes "getHostInstanceTokenFromNode s (Some n) = Some t" "pathEntries s (Suc k) ns es"
  shows "pathEntries s k (n # ns) (createEventTargetDispatchPathEntryRecord w s k n t target # es)"
  using assms by (auto simp: pathEntries_def createEventTargetDispatchPathEntryRecord_def upt_rec [of k])

lemma walk_up:
  assumes "ascend w q ns b" and ok: "treeOk s"
  shows "\<exists>new. pathEntries s (length es) (filter (mounted s) ns) new \<and>
    Option.bind (parentLoop w s q)
      (\<lambda>r. case r of Inl e \<Rightarrow> Some (Inl e) | Inr (next, Some boundary) \<Rightarrow> Some (Inr (es, Some boundary))
           | Inr (next, None) \<Rightarrow> pathLoop w s target next es) =
    Some (Inr (es @ new, map_option (\<lambda>p. (p, nodeRootOwner w p)) b))"
  using assms(1)
proof (induction arbitrary: es)
  case ascend_top
  then show ?case by (subst parentLoop.simps, subst pathLoop.simps) (simp add: pathEntries_def)
next
  case (ascend_root p)
  then show ?case by (subst parentLoop.simps) (simp add: pathEntries_def no_mismatch [OF ok])
next
  case (ascend_up p ns b)
  show ?case
  proof (cases "getHostInstanceTokenFromNode s (Some p)")
    case None
    then have "parentLoop w s (Some p) = parentLoop w s (cwParent w p)"
      using ascend_up.hyps(1) by (subst parentLoop.simps) (simp add: no_mismatch [OF ok] getMountedHostInstanceTokenFromNode_def)
    then show ?thesis using ascend_up.IH [of es] None by simp
  next
    case (Some t)
    let ?e = "createEventTargetDispatchPathEntryRecord w s (length es) p t target"
    have up: "parentLoop w s (Some p) = Some (Inr (Some p, None))"
      using ascend_up.hyps(1) Some by (subst parentLoop.simps) (simp add: no_mismatch [OF ok] getMountedHostInstanceTokenFromNode_def)
    obtain new where new: "pathEntries s (length (es @ [?e])) (filter (mounted s) ns) new"
      "Option.bind (parentLoop w s (cwParent w p))
        (\<lambda>r. case r of Inl e \<Rightarrow> Some (Inl e) | Inr (next, Some boundary) \<Rightarrow> Some (Inr (es @ [?e], Some boundary))
             | Inr (next, None) \<Rightarrow> pathLoop w s target next (es @ [?e])) =
       Some (Inr ((es @ [?e]) @ new, map_option (\<lambda>p. (p, nodeRootOwner w p)) b))"
      using ascend_up.IH [of "es @ [?e]"] by blast
    have "pathLoop w s target (Some p) es = Some (Inr ((es @ [?e]) @ new, map_option (\<lambda>p. (p, nodeRootOwner w p)) b))"
      using new(2) Some by (subst pathLoop.simps) (simp add: no_mismatch [OF ok] getMountedHostInstanceTokenFromNode_def)
    then show ?thesis
      using pathEntries_Cons [OF Some, of "length es" "filter (mounted s) ns" new w target] new(1) Some up
      by (intro exI [of _ "?e # new"]) simp
  qed
qed

lemma dispatch_path_of_target:
  assumes "ct_reachable s" "acyclic_parents w"
  shows "\<exists>target path up. createEventTargetNormalizationRecord w s (Some n) = Some target \<and>
    createEventTargetDispatchPathRecord w s (Some target) = Some (Inr path) \<and>
    climb w n up \<and> trClosestNode target = find (mounted s) up \<and>
    (case trClosestNode target of
       None \<Rightarrow> dpEntries path = [] \<and> dpStatus path = ''no-mounted-host-instance''
     | Some c \<Rightarrow> \<exists>ns b. ascend w (cwParent w c) ns b \<and> pathEntries s 0 (c # filter (mounted s) ns) (dpEntries path) \<and>
         dpBoundaryNode path = b \<and> dpTargetNode path = Some c \<and> dpStatus path = ''resolved-component-tree-dispatch-path'' \<and>
         (\<forall>p. b = Some p \<longrightarrow> dpBoundaryOwner path = nodeRootOwner w p))"
proof -
  have ok: "treeOk s" using reachable_treeOk [OF assms(1)] .
  obtain up where up: "climb w n up" using climb_exists [OF assms(2)] by blast
  let ?tok = "\<lambda>m. getHostInstanceTokenFromNode s (Some m)"
  have closest: "getClosestMountedHostInstanceTokenFromNode w s (Some n) = Some (Option.bind (find (mounted s) up) ?tok)"
    using closest_is_first [OF up] by (simp add: getClosestMountedHostInstanceTokenFromNode_def)
  obtain target where target: "createEventTargetNormalizationRecord w s (Some n) = Some target"
    "trClosestToken target = Option.bind (find (mounted s) up) ?tok"
    "trClosestNode target = (if trClosestToken target = None then None else getMountedHostInstanceNodeFromToken s (trClosestToken target))"
    "trStatus target = (if trClosestToken target = None then ''no-mounted-host-instance'' else ''mounted-host-instance'')"
    using closest by (simp add: createEventTargetNormalizationRecord_def Let_def)
  have accepted: "assertEventTargetNormalizationRecord (Some target) = Inr target"
    using target(4) by (simp add: assertEventTargetNormalizationRecord_def)
  show ?thesis
  proof (cases "find (mounted s) up")
    case None
    have "pathLoop w s target None [] = Some (Inr ([], None))" by (subst pathLoop.simps) simp
    then show ?thesis using None target accepted up
      by (auto simp: createEventTargetDispatchPathRecord_def createDispatchPath_def Let_def)
  next
    case (Some c)
    then obtain t where t: "?tok c = Some t" by (auto simp: find_Some_iff mounted_def)
    have node: "getMountedHostInstanceNodeFromToken s (Some t) = Some c"
      using t treeOkD(1) [OF ok] by (simp add: token_of_node [OF ok] node_of_token [OF ok])
    have c: "trClosestNode target = Some c" using target(2,3) Some t node by simp
    let ?e = "createEventTargetDispatchPathEntryRecord w s 0 c t target"
    obtain ns b where asc: "ascend w (cwParent w c) ns b" using ascend_exists [OF assms(2)] by blast
    obtain new where new: "pathEntries s 1 (filter (mounted s) ns) new"
      "Option.bind (parentLoop w s (cwParent w c))
        (\<lambda>r. case r of Inl e \<Rightarrow> Some (Inl e) | Inr (next, Some boundary) \<Rightarrow> Some (Inr ([?e], Some boundary))
             | Inr (next, None) \<Rightarrow> pathLoop w s target next [?e]) =
       Some (Inr ([?e] @ new, map_option (\<lambda>p. (p, nodeRootOwner w p)) b))"
      using walk_up [OF asc ok, of "[?e]" target] by auto
    have run: "pathLoop w s target (Some c) [] = Some (Inr (?e # new, map_option (\<lambda>p. (p, nodeRootOwner w p)) b))"
      using new(2) t by (subst pathLoop.simps) (simp add: no_mismatch [OF ok] getMountedHostInstanceTokenFromNode_def)
    define path where "path = createDispatchPath (?e # new) (map_option (\<lambda>p. (p, nodeRootOwner w p)) b)"
    have path: "createEventTargetDispatchPathRecord w s (Some target) = Some (Inr path)"
      using accepted c run by (simp add: createEventTargetDispatchPathRecord_def path_def)
    have fields: "dpEntries path = ?e # new" "dpBoundaryNode path = b" "dpTargetNode path = Some c"
      "dpStatus path = ''resolved-component-tree-dispatch-path''" "\<forall>p. b = Some p \<longrightarrow> dpBoundaryOwner path = nodeRootOwner w p"
      by (auto simp: path_def createDispatchPath_def Let_def createEventTargetDispatchPathEntryRecord_def option.map_comp comp_def option.map_ident)
    show ?thesis
      using target(1) path up c Some asc fields pathEntries_Cons [OF t, of 0 "filter (mounted s) ns" new w target] new(1) by auto
  qed
qed

text \<open>
  C18: the dispatch path of an event. In every reachable state, on a DOM in which no node is above
  itself, normalising a target node and computing its dispatch path always returns. The closest
  host instance is the first mounted node on the way up from the target, up to and including the
  first container root. If there is none the path is empty. Otherwise it starts at that node and
  lists, in order and with consecutive indices, exactly the mounted nodes from there up to the
  first container root above, which is excluded and reported as the boundary with its owner.
\<close>
theorem dispatch_path_is_mounted_ancestors:
  assumes "ct_reachable s" "acyclic_parents w"
  shows "\<exists>target path up. createEventTargetNormalizationRecord w s (Some n) = Some target \<and>
    createEventTargetDispatchPathRecord w s (Some target) = Some (Inr path) \<and>
    climb w n up \<and> trClosestNode target = find (mounted s) up \<and>
    (case trClosestNode target of
       None \<Rightarrow> dpEntries path = [] \<and> dpStatus path = ''no-mounted-host-instance''
     | Some c \<Rightarrow> \<exists>ns b. ascend w (cwParent w c) ns b \<and> pathEntries s 0 (c # filter (mounted s) ns) (dpEntries path) \<and>
         dpBoundaryNode path = b \<and> dpTargetNode path = Some c \<and> dpStatus path = ''resolved-component-tree-dispatch-path'' \<and>
         (\<forall>p. b = Some p \<longrightarrow> dpBoundaryOwner path = nodeRootOwner w p))"
  by (rule dispatch_path_of_target [OF assms])

subsection \<open>A concrete tree\<close>

text \<open>The container 0 with the element 1 in it and the text 2 in that; 1 is attached to the token 0.\<close>
definition ct_demo_world :: ct_world where
  "ct_demo_world = \<lparr>cwEnv = marker_demo_env,
     cwHeap = (\<lambda>n. if n = 2 then demo_container\<lparr>coNodeType := DNum (Fin 3)\<rparr> else demo_container),
     cwParent = [1 \<mapsto> 0, 2 \<mapsto> 1], cwChildNodes = (\<lambda>n. if n = 0 then ChildArray [Some 1] else if n = 1 then ChildArray [Some 2] else NoChildNodes),
     cwTagName = (\<lambda>_. DUndef), cwLocalName = (\<lambda>_. DUndef), cwNamespaceURI = (\<lambda>_. DUndef),
     cwTextContent = (\<lambda>_. DUndef), cwData = (\<lambda>_. DUndef), cwNodeValue = (\<lambda>_. DUndef)\<rparr>"

definition ct_demo_empty :: ct_state where
  "ct_demo_empty = \<lparr>ctMetadata = Map.empty, ctTokenNode = Map.empty, ctNodeToken = Map.empty, ctNodeProps = Map.empty,
    ctNextToken = 0, ctNodeRecords = Map.empty, ctNextRecord = 0\<rparr>"

definition ct_demo :: ct_state where
  "ct_demo = snd (attachHostInstanceNode ct_demo_world (Some 1) (Some 0) (DObject 5 [])
     (snd (createHostInstanceToken (DObject 1 []) (DObject 2 []) ct_demo_empty)))"

lemma ct_demo_reachable: "ct_reachable ct_demo"
  unfolding ct_demo_def ct_demo_empty_def by (intro ct_attach ct_create ct_init)

lemma ct_demo_acyclic: "acyclic_parents ct_demo_world"
  unfolding acyclic_parents_def by (rule exI [of _ id]) (auto simp: ct_demo_world_def split: if_splits)

lemma ct_demo_children: "childNode ct_demo_world n m \<longleftrightarrow> n = 0 \<and> m = 1 \<or> n = 1 \<and> m = 2"
  by (auto simp: childNode_def getChildNodesSnapshot_def ct_demo_world_def split: if_splits)

lemma ct_demo_below: "(childNode ct_demo_world)\<^sup>+\<^sup>+ 0 k \<longleftrightarrow> k = 1 \<or> k = 2"
proof
  assume "(childNode ct_demo_world)\<^sup>+\<^sup>+ 0 k"
  then show "k = 1 \<or> k = 2" by (induction rule: tranclp_induct) (auto simp: ct_demo_children)
next
  have "childNode ct_demo_world 0 1" "childNode ct_demo_world 1 2" by (simp_all add: ct_demo_children)
  then show "k = 1 \<or> k = 2 \<Longrightarrow> (childNode ct_demo_world)\<^sup>+\<^sup>+ 0 k" by (auto intro: tranclp.intros)
qed

text \<open>Detaching what is below the container 0 visits its element and the element's text, and unmounts the element.\<close>
theorem component_tree_one_to_one_witness:
  "getHostInstanceTokenFromNode ct_demo (Some 1) = Some 0 \<and> getMountedHostInstanceNodeFromToken ct_demo (Some 0) = Some 1 \<and>
   (\<exists>rec s'. detachHostInstanceSubtree ct_demo_world (Some 0) False ct_demo = Some (rec, s') \<and>
      set (drVisitedNodes rec) = {1, 2} \<and> set (drDetachedTokens rec) = {0} \<and> getHostInstanceTokenFromNode s' (Some 1) = None)"
proof -
  have t: "getHostInstanceTokenFromNode ct_demo (Some 1) = Some 0" "getHostInstanceTokenFromNode ct_demo (Some 2) = None" by code_simp+
  have "acyclic_children ct_demo_world"
    unfolding acyclic_children_def ct_demo_children by (rule exI [of _ "\<lambda>n. 2 - n"]) auto
  then obtain rec s' where d: "detachHostInstanceSubtree ct_demo_world (Some 0) False ct_demo = Some (rec, s')"
    using component_tree_one_to_one [OF ct_demo_reachable, where w = ct_demo_world and root' = "Some 0" and includeRoot = False] by blast
  have "inSubtree ct_demo_world (Some 0) False k \<longleftrightarrow> k = 1 \<or> k = 2" for k by (simp add: inSubtree_def ct_demo_below)
  note S = component_tree_one_to_one [OF ct_demo_reachable, where w = ct_demo_world and root' = "Some 0" and includeRoot = False and t = 0 and n = 1, unfolded this]
  have "getMountedHostInstanceNodeFromToken ct_demo (Some 0) = Some 1" using S t(1) by blast
  moreover have "set (drVisitedNodes rec) = {1, 2}" "getHostInstanceTokenFromNode s' (Some 1) = None"
    "set (drDetachedTokens rec) = {u. \<exists>k. (k = 1 \<or> k = 2) \<and> getHostInstanceTokenFromNode ct_demo (Some k) = Some u}"
    using S d by auto
  ultimately show ?thesis using t d by auto
qed

theorem dispatch_path_is_mounted_ancestors_witness:
  "\<exists>target path up. createEventTargetNormalizationRecord ct_demo_world ct_demo (Some 2) = Some target \<and>
     createEventTargetDispatchPathRecord ct_demo_world ct_demo (Some target) = Some (Inr path) \<and>
     climb ct_demo_world 2 up \<and> trClosestNode target = find (mounted ct_demo) up"
  using dispatch_path_is_mounted_ancestors [OF ct_demo_reachable ct_demo_acyclic, of 2] by blast

end
