(* ===== verification/DOM_Context.thy ===== *)
theory DOM_Context
  imports Root_Markers Property_Payload
begin

text \<open>
  \<open>packages/react-dom/src/client/dom-namespaces.js\<close>, \<open>client/dom-host-context.js\<close>, \<open>dom-host/text-content.js\<close> and
  \<open>client/dom-property-operations.js\<close>: the namespace an element is created in, the host contexts that
  carry it down the tree, when a host element holds text directly, and the diagnostic that says which
  content updates a prop change needs.

  Owner documents are numbers; what their two factory methods return is the parameter \<open>doc_host\<close>.
\<close>

subsection \<open>dom-namespaces.js\<close>

definition HTML_NAMESPACE :: string where "HTML_NAMESPACE = ''http://www.w3.org/1999/xhtml''"
definition MATH_NAMESPACE :: string where "MATH_NAMESPACE = ''http://www.w3.org/1998/Math/MathML''"
definition SVG_NAMESPACE :: string where "SVG_NAMESPACE = ''http://www.w3.org/2000/svg''"

definition normalizeDOMNamespace :: "dval \<Rightarrow> string" where
  "normalizeDOMNamespace namespaceURI =
     (if namespaceURI = DStr SVG_NAMESPACE then SVG_NAMESPACE
      else if namespaceURI = DStr MATH_NAMESPACE then MATH_NAMESPACE
      else HTML_NAMESPACE)"

text \<open>The inner \<open>switch\<close> on the type, shared by the two functions.\<close>
definition namespaceInHtml :: "string \<Rightarrow> string" where
  "namespaceInHtml type = (if type = ''svg'' then SVG_NAMESPACE else if type = ''math'' then MATH_NAMESPACE else HTML_NAMESPACE)"

definition getDOMElementNamespace :: "dval \<Rightarrow> string \<Rightarrow> string" where
  "getDOMElementNamespace parentNamespaceURI type =
     (let parentNamespace = normalizeDOMNamespace parentNamespaceURI in
      if parentNamespace = HTML_NAMESPACE then namespaceInHtml type else parentNamespace)"

definition getChildDOMNamespace :: "dval \<Rightarrow> string \<Rightarrow> string" where
  "getChildDOMNamespace parentNamespaceURI type =
     (let parentNamespace = normalizeDOMNamespace parentNamespaceURI in
      if parentNamespace = HTML_NAMESPACE then namespaceInHtml type
      else if parentNamespace = SVG_NAMESPACE \<and> type = ''foreignObject'' then HTML_NAMESPACE
      else parentNamespace)"

subsection \<open>dom-host-context.js\<close>

record host_context =
  hcNamespaceURI :: dval
  hcOwnerDocument :: "nat option"  \<comment> \<open>\<open>None\<close> when it is no object\<close>

text \<open>What the container functions read beside \<open>container_obj\<close>.\<close>
record container_names =
  cnLocalName :: dval
  cnTagName :: dval
  cnNamespaceURI :: dval
  cnDocumentElement :: "dval option"  \<comment> \<open>the \<open>namespaceURI\<close> of \<open>documentElement\<close>, \<open>None\<close> when that is no object\<close>

text \<open>The factory methods of a document, \<open>None\<close> when missing; they return a node or throw.\<close>
record 'n doc_host =
  dhCreateElement :: "nat \<Rightarrow> (string \<Rightarrow> dom_error + 'n) option"
  dhCreateElementNS :: "nat \<Rightarrow> (string \<Rightarrow> string \<Rightarrow> dom_error + 'n) option"

definition createDOMHostContextError :: "string \<Rightarrow> dom_error" where
  "createDOMHostContextError message = CodedError ''FAST_REACT_DOM_HOST_CONTEXT'' message"

definition createDOMHostContext :: "nat option \<Rightarrow> dval \<Rightarrow> dom_error + host_context" where
  "createDOMHostContext ownerDocument namespaceURI =
     (case ownerDocument of
        None \<Rightarrow> Inl (createDOMHostContextError ''React DOM host context requires an owner document.'')
      | Some d \<Rightarrow> Inr \<lparr>hcNamespaceURI = DStr (normalizeDOMNamespace namespaceURI), hcOwnerDocument = Some d\<rparr>)"

definition requireDOMHostContext :: "host_context option \<Rightarrow> dom_error + host_context \<times> nat" where
  "requireDOMHostContext hostContext =
     (case hostContext of
        None \<Rightarrow> Inl (createDOMHostContextError ''React DOM host context requires an owner document.'')
      | Some c \<Rightarrow>
          (case hcOwnerDocument c of
             None \<Rightarrow> Inl (createDOMHostContextError ''React DOM host context requires an owner document.'')
           | Some d \<Rightarrow> Inr (c, d)))"

text \<open>\<open>localName || tagName || nodeName || ''\<close> for string fields.\<close>
definition getContainerType :: "container_obj \<Rightarrow> container_names \<Rightarrow> string" where
  "getContainerType obj names =
     (let first = List.find dtruthy [cnLocalName names, cnTagName names, coNodeName obj]
      in case first of Some (DStr s) \<Rightarrow> s | _ \<Rightarrow> [])"

definition getRootDOMNamespace :: "container_heap \<Rightarrow> (nat \<Rightarrow> container_names) \<Rightarrow> container_arg \<Rightarrow> string" where
  "getRootDOMNamespace H names container =
     (case container of
        ValueArg v \<Rightarrow> HTML_NAMESPACE
      | ObjectArg c \<Rightarrow>
          if coNodeType (H c) = DNum (Fin DOCUMENT_NODE) \<or> coNodeType (H c) = DNum (Fin DOCUMENT_FRAGMENT_NODE)
          then (case cnDocumentElement (names c) of Some ns \<Rightarrow> normalizeDOMNamespace ns | None \<Rightarrow> HTML_NAMESPACE)
          else getChildDOMNamespace (cnNamespaceURI (names c)) (getContainerType (H c) (names c)))"

text \<open>The document of a container: itself, or its \<open>ownerDocument\<close>, whose number is \<open>docOf\<close> when it is an object.\<close>
definition createRootDOMHostContext ::
  "container_heap \<Rightarrow> (nat \<Rightarrow> container_names) \<Rightarrow> (dval \<Rightarrow> nat option) \<Rightarrow> container_arg \<Rightarrow> dom_error + host_context" where
  "createRootDOMHostContext H names docOf container =
     (let ownerDocument = (case getOwnerDocument H container of None \<Rightarrow> None | Some (Inl c) \<Rightarrow> Some c | Some (Inr d) \<Rightarrow> docOf d)
      in createDOMHostContext ownerDocument (DStr (getRootDOMNamespace H names container)))"

definition getChildDOMHostContext :: "host_context option \<Rightarrow> string \<Rightarrow> dom_error + host_context" where
  "getChildDOMHostContext parentHostContext type =
     (case requireDOMHostContext parentHostContext of
        Inl e \<Rightarrow> Inl e
      | Inr (context, d) \<Rightarrow>
          (let parentNamespace = normalizeDOMNamespace (hcNamespaceURI context);
               namespaceURI = getChildDOMNamespace (DStr parentNamespace) type
           in if namespaceURI = parentNamespace \<and> hcNamespaceURI context = DStr parentNamespace then Inr context
              else createDOMHostContext (Some d) (DStr namespaceURI)))"

definition createDOMElement :: "'n doc_host \<Rightarrow> string \<Rightarrow> host_context option \<Rightarrow> dom_error + 'n" where
  "createDOMElement docs type hostContext =
     (case requireDOMHostContext hostContext of
        Inl e \<Rightarrow> Inl e
      | Inr (context, d) \<Rightarrow>
          (let namespaceURI = getDOMElementNamespace (hcNamespaceURI context) type in
           if namespaceURI = HTML_NAMESPACE then
             (case dhCreateElement docs d of
                None \<Rightarrow> Inl (createDOMHostContextError ''React DOM host context owner document is missing createElement.'')
              | Some f \<Rightarrow> f type)
           else
             (case dhCreateElementNS docs d of
                None \<Rightarrow> Inl (createDOMHostContextError ''React DOM host context owner document is missing createElementNS.'')
              | Some f \<Rightarrow> f namespaceURI type)))"

subsection \<open>text-content.js\<close>

definition isTextValue :: "dval \<Rightarrow> bool" where
  "isTextValue v \<longleftrightarrow> typeOf v \<in> {''string'', ''number'', ''bigint''}"

definition shouldSetTextContent :: "string \<Rightarrow> dval \<Rightarrow> bool" where
  "shouldSetTextContent type ps =
     (if \<not> isDomObjectLike ps then False
      else if type = ''textarea'' \<or> type = ''noscript'' then False
      else if isTextValue (readProp ps ''children'') then True
      else (let html = readProp ps ''dangerouslySetInnerHTML''
            in \<not> nullish html \<and> typeOf html = ''object'' \<and> \<not> nullish (readProp html ''__html'')))"

subsection \<open>dom-property-operations.js\<close>

definition createDomPropertyOperationsError :: "string \<Rightarrow> string \<Rightarrow> dom_error" where
  "createDomPropertyOperationsError code message = CodedError code message"

definition normalizeOperationProps :: "dval \<Rightarrow> string \<Rightarrow> dom_error + dval" where
  "normalizeOperationProps ps phase =
     (if nullish ps then Inr emptyProps
      else if typeOf ps \<noteq> ''object'' \<and> typeOf ps \<noteq> ''function'' then
        Inl (createDomPropertyOperationsError ''FAST_REACT_DOM_INVALID_HOST_PROPS''
          (''Cannot create a DOM property operations diagnostic with invalid '' @ phase @ '' props.''))
      else Inr ps)"

definition getPrimitiveChildrenText :: "dval \<Rightarrow> string option" where
  "getPrimitiveChildrenText ps =
     (if \<not> hasOwn ps ''children'' then None
      else (case readProp ps ''children'' of
              DStr s \<Rightarrow> Some s
            | DNum n \<Rightarrow> Some (numText n)
            | DBigInt n \<Rightarrow> Some (int_str n)
            | _ \<Rightarrow> None))"

definition hasDangerousHtmlProp :: "dval \<Rightarrow> bool" where
  "hasDangerousHtmlProp ps = hasOwn ps ''dangerouslySetInnerHTML''"

definition getDangerousHtmlText :: "dval \<Rightarrow> string option" where
  "getDangerousHtmlText ps =
     (if \<not> hasDangerousHtmlProp ps then None
      else (let html = readProp ps ''dangerouslySetInnerHTML'' in
            if html = DNull \<or> typeOf html \<noteq> ''object'' \<or> \<not> hasOwn html ''__html'' then None
            else (case readProp html ''__html'' of DStr s \<Rightarrow> Some s | _ \<Rightarrow> None)))"

record text_description =
  tdContentSource :: string
  tdHtml :: "string option"
  tdProps :: dval
  tdShouldSetTextContent :: bool
  tdText :: "string option"

definition describeTextOrHtmlProps :: "string \<Rightarrow> dval \<Rightarrow> string \<Rightarrow> dom_error + text_description" where
  "describeTextOrHtmlProps tag ps phase =
     (case normalizeOperationProps ps phase of
        Inl e \<Rightarrow> Inl e
      | Inr normalizedProps \<Rightarrow>
          (let text = getPrimitiveChildrenText normalizedProps; html = getDangerousHtmlText normalizedProps
           in Inr \<lparr>tdContentSource =
                     (if text \<noteq> None \<and> html \<noteq> None then ''children-and-dangerouslySetInnerHTML''
                      else if text \<noteq> None then ''children''
                      else if html \<noteq> None then ''dangerouslySetInnerHTML''
                      else if hasDangerousHtmlProp normalizedProps then ''dangerouslySetInnerHTML-nullish-or-unsupported''
                      else if hasOwn normalizedProps ''children'' then ''children-non-text''
                      else ''none''),
                   tdHtml = html, tdProps = normalizedProps,
                   tdShouldSetTextContent = shouldSetTextContent tag normalizedProps, tdText = text\<rparr>))"

record reset_decision =
  rdPrevious :: bool
  rdNext :: bool
  rdShouldReset :: bool
  rdReason :: string

definition createTextResetDecision :: "text_description \<Rightarrow> text_description \<Rightarrow> reset_decision" where
  "createTextResetDecision previous nxt =
     (let p = tdShouldSetTextContent previous; n = tdShouldSetTextContent nxt
      in \<lparr>rdPrevious = p, rdNext = n, rdShouldReset = (p \<and> \<not> n),
          rdReason =
            (if p \<and> \<not> n then ''previous-direct-text-or-html-to-managed-children''
             else if p \<and> n then ''next-direct-text-or-html-overwrites-previous-content''
             else if \<not> p \<and> n then ''next-direct-text-or-html-update''
             else ''no-text-content-reset'')\<rparr>)"

datatype blocked_row =
    UnsupportedRow string string string  \<comment> \<open>prop name, category, reason\<close>
  | ResetTextRow
  | SetInnerHtmlRow string string string  \<comment> \<open>prop name, property name, value\<close>
  | SetTextRow string

fun unsupportedRow :: "payload_entry \<Rightarrow> blocked_row option" where
  "unsupportedRow (Unsupported k category reason details) = Some (UnsupportedRow k category reason)"
| "unsupportedRow _ = None"

fun innerHtmlRow :: "payload_entry \<Rightarrow> blocked_row option" where
  "innerHtmlRow (SetInnerHtml k name value) = Some (SetInnerHtmlRow k name value)"
| "innerHtmlRow _ = None"

definition createBlockedHostUpdateRows :: "text_description \<Rightarrow> reset_decision \<Rightarrow> payload_entry list \<Rightarrow> blocked_row list" where
  "createBlockedHostUpdateRows nxt decision rows =
     (let unsupportedRows = List.map_filter unsupportedRow rows in
      if unsupportedRows \<noteq> [] then unsupportedRows
      else (if rdShouldReset decision then [ResetTextRow] else []) @ List.map_filter innerHtmlRow rows @
           (case tdText nxt of Some text \<Rightarrow> [SetTextRow text] | None \<Rightarrow> []))"

record text_reset_diagnostic =
  tdgPrevious :: text_description
  tdgNext :: text_description
  tdgDecision :: reset_decision
  tdgPayloadRows :: "payload_entry list"
  tdgPayloadRowsAccepted :: bool
  tdgBlockedRows :: "blocked_row list"
  tdgCommitMetadataAvailable :: bool

definition createDangerousHtmlTextResetDiagnostic :: "dom_env \<Rightarrow> dval \<Rightarrow> dval \<Rightarrow> dval \<Rightarrow> dom_error + text_reset_diagnostic" where
  "createDangerousHtmlTextResetDiagnostic env tag previousProps nextProps =
     (let noTag = Inl (createDomPropertyOperationsError ''FAST_REACT_DOM_INVALID_HOST_TAG''
            ''Cannot create a DOM property operations diagnostic without a host tag.'')
      in case tag of
           DStr t \<Rightarrow>
             if t = [] then noTag
             else
               (case describeTextOrHtmlProps t previousProps ''previous'' of
                  Inl e \<Rightarrow> Inl e
                | Inr previous \<Rightarrow>
                    (case describeTextOrHtmlProps t nextProps ''next'' of
                       Inl e \<Rightarrow> Inl e
                     | Inr nxt \<Rightarrow>
                         (case diffDomPropertyPayload env tag (tdProps previous) (tdProps nxt) of
                            Inl e \<Rightarrow> Inl e
                          | Inr rows \<Rightarrow>
                              (let decision = createTextResetDecision previous nxt;
                                   blocked = createBlockedHostUpdateRows nxt decision rows;
                                   accepted = list_all (\<lambda>r. entryKind r \<noteq> ''unsupported'') rows
                               in Inr \<lparr>tdgPrevious = previous, tdgNext = nxt, tdgDecision = decision, tdgPayloadRows = rows,
                                       tdgPayloadRowsAccepted = accepted, tdgBlockedRows = blocked,
                                       tdgCommitMetadataAvailable = (accepted \<and> blocked \<noteq> [])\<rparr>))))
         | _ \<Rightarrow> noTag)"

subsection \<open>Contexts and diagnostics\<close>

definition knownNamespaces :: "string set" where
  "knownNamespaces = {HTML_NAMESPACE, SVG_NAMESPACE, MATH_NAMESPACE}"

lemma namespaces_distinct [simp]:
  "SVG_NAMESPACE \<noteq> HTML_NAMESPACE" "MATH_NAMESPACE \<noteq> HTML_NAMESPACE" "SVG_NAMESPACE \<noteq> MATH_NAMESPACE"
  "HTML_NAMESPACE \<noteq> SVG_NAMESPACE" "HTML_NAMESPACE \<noteq> MATH_NAMESPACE" "MATH_NAMESPACE \<noteq> SVG_NAMESPACE"
  by (simp_all add: HTML_NAMESPACE_def SVG_NAMESPACE_def MATH_NAMESPACE_def)

text \<open>
  The context below an element carries the namespace the element itself was created in, except
  below a \<open>foreignObject\<close> in SVG, where it is the HTML namespace again.
\<close>
lemma child_context_namespace:
  assumes "hcOwnerDocument context = Some d"
  shows "\<exists>child. getChildDOMHostContext (Some context) type = Inr child \<and> hcOwnerDocument child = Some d \<and>
    hcNamespaceURI child \<in> DStr ` knownNamespaces \<and>
    hcNamespaceURI child =
      DStr (if normalizeDOMNamespace (hcNamespaceURI context) = SVG_NAMESPACE \<and> type = ''foreignObject'' then HTML_NAMESPACE
            else getDOMElementNamespace (hcNamespaceURI context) type)"
  using assms
  by (auto simp: getChildDOMHostContext_def requireDOMHostContext_def createDOMHostContext_def getChildDOMNamespace_def
      getDOMElementNamespace_def namespaceInHtml_def normalizeDOMNamespace_def knownNamespaces_def Let_def)

lemma accepted_iff_no_unsupported: "list_all (\<lambda>r. entryKind r \<noteq> ''unsupported'') rows \<longleftrightarrow> List.map_filter unsupportedRow rows = []"
proof -
  have "entryKind r \<noteq> ''unsupported'' \<longleftrightarrow> unsupportedRow r = None" for r by (cases r) auto
  then show ?thesis by (induction rows) (auto simp: List.map_filter_def)
qed

text \<open>
  The diagnostic offers commit metadata exactly when no payload row is unsupported and the update
  touches the content: it resets text, writes HTML, or writes text.
\<close>
lemma commit_metadata_available:
  assumes "createDangerousHtmlTextResetDiagnostic env tag previousProps nextProps = Inr d"
  shows "tdgCommitMetadataAvailable d \<longleftrightarrow>
    List.map_filter unsupportedRow (tdgPayloadRows d) = [] \<and>
    (tdShouldSetTextContent (tdgPrevious d) \<and> \<not> tdShouldSetTextContent (tdgNext d) \<or>
     List.map_filter innerHtmlRow (tdgPayloadRows d) \<noteq> [] \<or> tdText (tdgNext d) \<noteq> None)"
  using assms
  by (auto simp: createDangerousHtmlTextResetDiagnostic_def createBlockedHostUpdateRows_def createTextResetDecision_def
      accepted_iff_no_unsupported Let_def split: dval.splits if_splits sum.splits option.splits)

end
