(* ===== verification/Root_Listeners.thy ===== *)
theory Root_Listeners
  imports Events Root_Markers
begin

text \<open>
  \<open>packages/react-dom/src/events/root-listeners.js\<close>: installing the listener shells of all supported
  events on a root container and its document, taking them back, and the listener intents of a
  portal.

  \<open>addEventListener\<close> and \<open>removeEventListener\<close> belong to the host: they are the operations \<open>ewAdd\<close> and
  \<open>ewRemove\<close> of an \<open>event_world\<close>, over a host state of its own; either may throw. \<open>ewRegistrations\<close> is
  the array \<open>__registrations\<close> of a target that has one. Listener functions, options objects and
  records are numbered by one counter. The option \<open>passiveBrowserEventsSupported\<close> is the argument
  \<open>passiveSupported\<close>: false exactly when the option is \<open>false\<close>.
\<close>

text \<open>\<open>capture\<close> as a boolean, or an options object with its identity, \<open>capture\<close> and \<open>passive\<close>.\<close>
datatype listener_options = BoolOptions bool | ObjOptions nat bool bool

record registration =
  rgType :: string
  rgListener :: nat
  rgOptions :: listener_options

record 'h event_world =
  ewAdd :: "nat \<Rightarrow> registration \<Rightarrow> 'h \<Rightarrow> dom_error option \<times> 'h"
  ewRemove :: "nat \<Rightarrow> registration \<Rightarrow> 'h \<Rightarrow> dom_error option \<times> 'h"
  ewHasRemove :: "nat \<Rightarrow> bool"
  ewRegistrations :: "'h \<Rightarrow> nat \<Rightarrow> registration list option"
  ewContainers :: container_heap
  ewDocOf :: "dval \<Rightarrow> nat option"  \<comment> \<open>the number of an \<open>ownerDocument\<close> that is an object\<close>

text \<open>The properties a listener shell carries.\<close>
record shell =
  shTarget :: nat
  shName :: string
  shFlags :: flags
  shWrapper :: wrapper_record

text \<open>\<open>capture\<close>, \<open>passive\<close>, \<open>type\<close>\<close>
record options_info =
  oiCapture :: bool
  oiPassive :: bool
  oiType :: string

record installed_listener =
  ilDomEventName :: string
  ilEventSystemFlags :: flags
  ilIsCapturePhaseListener :: bool
  ilListener :: nat
  ilListenerOptions :: listener_options
  ilListenerOptionsInfo :: options_info
  ilListenerSetKey :: string
  ilTarget :: nat

record target_info =
  tiBrowserRegistrationCount :: nat
  tiBrowserRegistrationInspectable :: bool
  tiCanInstallListeners :: bool
  tiEventListenerSetSize :: nat
  tiListeningMarker :: "bool \<times> nat \<times> nat"  \<comment> \<open>\<open>inspectable\<close>, \<open>propertyCount\<close>, \<open>trueValueCount\<close>\<close>

record target_snapshot =
  snTarget :: ev_value
  snHadEventHandlersKey :: bool
  snHadListeningMarker :: bool
  snListeningMarkerValue :: dval
  snBeforeInfo :: target_info
  snAfterInfo :: "target_info option"

record listener_summary =
  lsDomEventName :: string
  lsEventSystemFlags :: flags
  lsIsCapturePhaseListener :: bool
  lsListenerOptions :: options_info
  lsListenerSetKey :: string
  lsTargetInfo :: container_info

record registration_record =
  rrRootEventTargetInfo :: container_info
  rrOwnerDocumentInfo :: "container_info option"
  rrTargetCount :: nat
  rrRegistrationCount :: nat
  rrRootRegistrationCount :: nat
  rrOwnerDocumentRegistrationCount :: nat
  rrTargetSnapshotsBefore :: "target_info list"
  rrTargetSnapshotsAfter :: "target_info list"
  rrListenerRecords :: "listener_summary list"

record registration_payload =
  rpActive :: bool
  rpInstalledListeners :: "installed_listener list"
  rpOwnerDocument :: ev_value
  rpRecord :: registration_record
  rpRootContainerElement :: nat
  rpTargetSnapshots :: "target_snapshot list"

record cleanup_record =
  crListenerRemovalCount :: nat
  crListenerSetKeyRemovalCount :: nat
  crRestoredTargetCount :: nat
  crTargetSnapshotsAfter :: "target_info list"

record 'h rl_state =
  rlReg :: listener_state
  rlHost :: 'h
  rlShells :: "nat \<rightharpoonup> shell"
  rlRegistrations :: "nat \<rightharpoonup> registration_payload"
  rlCleanups :: "nat \<rightharpoonup> cleanup_record"
  rlNext :: nat

subsection \<open>Listener shells and options\<close>

text \<open>The wrapper record is made without options.\<close>
definition createEventListenerShell :: "nat \<Rightarrow> string \<Rightarrow> flags \<Rightarrow> 'h rl_state \<Rightarrow> nat \<times> 'h rl_state" where
  "createEventListenerShell target domEventName eventSystemFlags s =
     (rlNext s,
      s\<lparr>rlShells := (rlShells s)(rlNext s \<mapsto>
          \<lparr>shTarget = target, shName = domEventName, shFlags = eventSystemFlags,
           shWrapper = createEventListenerWrapperRecordWithPriority target domEventName eventSystemFlags
             \<lparr>poSchedulerPriority = None, poCurrentLevel = None\<rparr>\<rparr>),
        rlNext := rlNext s + 1\<rparr>)"

text \<open>\<open>oid\<close> is the identity of the options object, when one is made.\<close>
definition getAddEventListenerOptions :: "nat \<Rightarrow> string \<Rightarrow> bool \<Rightarrow> bool \<Rightarrow> listener_options" where
  "getAddEventListenerOptions oid domEventName isCapturePhaseListener passiveSupported =
     (if passiveSupported \<and> isPassiveBrowserEvent domEventName then
        (if isCapturePhaseListener then ObjOptions oid True True else ObjOptions oid False True)
      else BoolOptions isCapturePhaseListener)"

fun describeListenerOptions :: "listener_options \<Rightarrow> options_info" where
  "describeListenerOptions (BoolOptions b) = \<lparr>oiCapture = b, oiPassive = False, oiType = ''boolean''\<rparr>"
| "describeListenerOptions (ObjOptions _ c p) = \<lparr>oiCapture = c, oiPassive = p, oiType = ''object''\<rparr>"

text \<open>The call \<open>target.addEventListener(domEventName, listener, listenerOptions)\<close>.\<close>
definition addShell ::
  "'h event_world \<Rightarrow> nat \<Rightarrow> string \<Rightarrow> flags \<Rightarrow> bool \<Rightarrow> bool \<Rightarrow> 'h rl_state \<Rightarrow>
     (dom_error + nat \<times> listener_options) \<times> 'h rl_state" where
  "addShell w target domEventName eventSystemFlags isCapturePhaseListener passiveSupported s =
     (let (listener, s1) = createEventListenerShell target domEventName eventSystemFlags s;
          listenerOptions = getAddEventListenerOptions (rlNext s1) domEventName isCapturePhaseListener passiveSupported;
          s2 = s1\<lparr>rlNext := rlNext s1 + 1\<rparr>
      in case ewAdd w target \<lparr>rgType = domEventName, rgListener = listener, rgOptions = listenerOptions\<rparr> (rlHost s2) of
           (Some e, h) \<Rightarrow> (Inl e, s2\<lparr>rlHost := h\<rparr>)
         | (None, h) \<Rightarrow> (Inr (listener, listenerOptions), s2\<lparr>rlHost := h\<rparr>))"

definition addTrappedEventListener ::
  "'h event_world \<Rightarrow> ev_value \<Rightarrow> string \<Rightarrow> flags \<Rightarrow> bool \<Rightarrow> bool \<Rightarrow> 'h rl_state \<Rightarrow> (dom_error + nat) \<times> 'h rl_state" where
  "addTrappedEventListener w target domEventName eventSystemFlags isCapturePhaseListener passiveSupported s =
     (case assertEventTarget (rlReg s) target of
        Inl e \<Rightarrow> (Inl e, s)
      | Inr t \<Rightarrow>
          (case addShell w t domEventName eventSystemFlags isCapturePhaseListener passiveSupported s of
             (Inl e, s') \<Rightarrow> (Inl e, s')
           | (Inr (listener, _), s') \<Rightarrow> (Inr listener, s')))"

definition addTrappedEventListenerRecord ::
  "'h event_world \<Rightarrow> nat \<Rightarrow> string \<Rightarrow> flags \<Rightarrow> bool \<Rightarrow> bool \<Rightarrow> 'h rl_state \<Rightarrow>
     (dom_error + installed_listener) \<times> 'h rl_state" where
  "addTrappedEventListenerRecord w target domEventName eventSystemFlags isCapturePhaseListener passiveSupported s =
     (case addShell w target domEventName eventSystemFlags isCapturePhaseListener passiveSupported s of
        (Inl e, s') \<Rightarrow> (Inl e, s')
      | (Inr (listener, listenerOptions), s') \<Rightarrow>
          (Inr \<lparr>ilDomEventName = domEventName, ilEventSystemFlags = eventSystemFlags,
                ilIsCapturePhaseListener = isCapturePhaseListener, ilListener = listener,
                ilListenerOptions = listenerOptions,
                ilListenerOptionsInfo = describeListenerOptions listenerOptions,
                ilListenerSetKey = getListenerSetKey domEventName isCapturePhaseListener,
                ilTarget = target\<rparr>, s'))"

subsection \<open>Listening to one event\<close>

text \<open>\<open>listenerSet.add(key)\<close> on the set of the target\<close>
definition addSetKey :: "nat \<Rightarrow> string \<Rightarrow> 'h rl_state \<Rightarrow> 'h rl_state" where
  "addSetKey t key s =
     (let listenerSet = (case lrSets (rlReg s) t of Some ks \<Rightarrow> ks | None \<Rightarrow> []) in
      s\<lparr>rlReg := (rlReg s)\<lparr>lrSets := (lrSets (rlReg s))(t \<mapsto>
          (if key \<in> set listenerSet then listenerSet else listenerSet @ [key]))\<rparr>\<rparr>)"

text \<open>
  The part the two listen functions share: nothing when the set has the key already (\<open>None\<close>), and
  else the new listener and its key.
\<close>
definition listenWithKey ::
  "'h event_world \<Rightarrow> string \<Rightarrow> bool \<Rightarrow> flags \<Rightarrow> ev_value \<Rightarrow> bool \<Rightarrow> 'h rl_state \<Rightarrow>
     (dom_error + installed_listener option) \<times> 'h rl_state" where
  "listenWithKey w domEventName isCapturePhaseListener eventSystemFlags target passiveSupported s =
     (case getEventListenerSet target (rlReg s) of
        (Inl e, r) \<Rightarrow> (Inl e, s\<lparr>rlReg := r\<rparr>)
      | (Inr listenerSet, r) \<Rightarrow>
          (let s1 = s\<lparr>rlReg := r\<rparr>;
               listenerSetKey = getListenerSetKey domEventName isCapturePhaseListener
           in if listenerSetKey \<in> set listenerSet then (Inr None, s1)
              else (case target of
                 EvVal v \<Rightarrow> (Inr None, s1)  \<comment> \<open>not reached: such a target has no listener set\<close>
               | EvObj t \<Rightarrow>
                   (case addTrappedEventListenerRecord w t domEventName eventSystemFlags isCapturePhaseListener
                           passiveSupported s1 of
                      (Inl e, s2) \<Rightarrow> (Inl e, s2)
                    | (Inr listenerRecord, s2) \<Rightarrow> (Inr (Some listenerRecord), addSetKey t listenerSetKey s2)))))"

definition listenToNativeEventRecord ::
  "'h event_world \<Rightarrow> string \<Rightarrow> bool \<Rightarrow> ev_value \<Rightarrow> bool \<Rightarrow> 'h rl_state \<Rightarrow>
     (dom_error + installed_listener option) \<times> 'h rl_state" where
  "listenToNativeEventRecord w domEventName isCapturePhaseListener target passiveSupported s =
     (if \<not> isKnownNativeEvent domEventName then
        (Inl (CodedError ''FAST_REACT_DOM_UNKNOWN_NATIVE_EVENT''
           (''Unsupported native React DOM event \"'' @ domEventName @ ''\".'')), s)
      else if isNonDelegatedEvent domEventName \<and> \<not> isCapturePhaseListener then
        (Inl (CodedError ''FAST_REACT_DOM_NON_DELEGATED_BUBBLE_LISTENER''
           (''Cannot install non-delegated React DOM event \"'' @ domEventName @ ''\" in the bubble phase.'')), s)
      else
        listenWithKey w domEventName isCapturePhaseListener
          (if isCapturePhaseListener then 0 OR IS_CAPTURE_PHASE else 0) target passiveSupported s)"

definition listenToNativeEvent ::
  "'h event_world \<Rightarrow> string \<Rightarrow> bool \<Rightarrow> ev_value \<Rightarrow> bool \<Rightarrow> 'h rl_state \<Rightarrow> (dom_error + nat option) \<times> 'h rl_state" where
  "listenToNativeEvent w domEventName isCapturePhaseListener target passiveSupported s =
     (case listenToNativeEventRecord w domEventName isCapturePhaseListener target passiveSupported s of
        (Inl e, s') \<Rightarrow> (Inl e, s')
      | (Inr r, s') \<Rightarrow> (Inr (map_option ilListener r), s'))"

definition listenToNonDelegatedEventRecord ::
  "'h event_world \<Rightarrow> string \<Rightarrow> ev_value \<Rightarrow> bool \<Rightarrow> 'h rl_state \<Rightarrow>
     (dom_error + installed_listener option) \<times> 'h rl_state" where
  "listenToNonDelegatedEventRecord w domEventName target passiveSupported s =
     (if \<not> isNonDelegatedEvent domEventName then
        (Inl (CodedError ''FAST_REACT_DOM_EXPECTED_NON_DELEGATED_EVENT''
           (''Expected \"'' @ domEventName @ ''\" to be a non-delegated React DOM event.'')), s)
      else listenWithKey w domEventName False IS_NON_DELEGATED target passiveSupported s)"

definition listenToNonDelegatedEvent ::
  "'h event_world \<Rightarrow> string \<Rightarrow> ev_value \<Rightarrow> bool \<Rightarrow> 'h rl_state \<Rightarrow> (dom_error + nat option) \<times> 'h rl_state" where
  "listenToNonDelegatedEvent w domEventName target passiveSupported s =
     (case listenToNonDelegatedEventRecord w domEventName target passiveSupported s of
        (Inl e, s') \<Rightarrow> (Inl e, s')
      | (Inr r, s') \<Rightarrow> (Inr (map_option ilListener r), s'))"

subsection \<open>Targets and snapshots\<close>

definition asContainerArg :: "ev_value \<Rightarrow> container_arg" where
  "asContainerArg v = (case v of EvObj t \<Rightarrow> ObjectArg t | EvVal d \<Rightarrow> ValueArg d)"

text \<open>\<open>getOwnerDocument\<close> as an event target; \<open>null\<close> is \<open>EvVal DNull\<close>.\<close>
definition ownerDocumentTarget :: "'h event_world \<Rightarrow> ev_value \<Rightarrow> ev_value" where
  "ownerDocumentTarget w target =
     (case getOwnerDocument (ewContainers w) (asContainerArg target) of
        None \<Rightarrow> EvVal DNull
      | Some (Inl c) \<Rightarrow> EvObj c
      | Some (Inr d) \<Rightarrow> (case ewDocOf w d of Some n \<Rightarrow> EvObj n | None \<Rightarrow> EvVal d))"

definition describeTarget :: "'h event_world \<Rightarrow> ev_value \<Rightarrow> container_info" where
  "describeTarget w target = describeContainer (ewContainers w) (asContainerArg target)"

definition canInstallListener :: "'h rl_state \<Rightarrow> ev_value \<Rightarrow> bool" where
  "canInstallListener s target = (case target of EvObj t \<Rightarrow> lrHasAdd (rlReg s) t | EvVal v \<Rightarrow> False)"

definition getRootEventTargetOwnerDocument :: "'h event_world \<Rightarrow> ev_value \<Rightarrow> ev_value" where
  "getRootEventTargetOwnerDocument w target =
     (case target of
        EvObj t \<Rightarrow> if coNodeType (ewContainers w t) = DNum (Fin DOCUMENT_NODE) then target else ownerDocumentTarget w target
      | EvVal v \<Rightarrow> ownerDocumentTarget w target)"

definition assertReversibleEventTarget :: "'h event_world \<Rightarrow> 'h rl_state \<Rightarrow> ev_value \<Rightarrow> dom_error option" where
  "assertReversibleEventTarget w s target =
     (case assertEventTarget (rlReg s) target of
        Inl e \<Rightarrow> Some e
      | Inr t \<Rightarrow>
          if \<not> ewHasRemove w t then
            Some (CodedError ''FAST_REACT_DOM_LISTENER_REVERT_UNSUPPORTED''
              ''Cannot register reversible React DOM root listeners on a target without removeEventListener.'')
          else None)"

fun assertReversibleTargets :: "'h event_world \<Rightarrow> 'h rl_state \<Rightarrow> ev_value list \<Rightarrow> dom_error option" where
  "assertReversibleTargets w s [] = None"
| "assertReversibleTargets w s (t # ts) =
     (case assertReversibleEventTarget w s t of Some e \<Rightarrow> Some e | None \<Rightarrow> assertReversibleTargets w s ts)"

fun uniqueTargetsFrom :: "ev_value list \<Rightarrow> ev_value list \<Rightarrow> ev_value list" where
  "uniqueTargetsFrom unique [] = unique"
| "uniqueTargetsFrom unique (target # targets) =
     (if target = EvVal DNull \<or> target = EvVal DUndef then uniqueTargetsFrom unique targets
      else if target \<notin> set unique then uniqueTargetsFrom (unique @ [target]) targets
      else uniqueTargetsFrom unique targets)"

definition uniqueTargets :: "ev_value list \<Rightarrow> ev_value list" where
  "uniqueTargets targets = uniqueTargetsFrom [] targets"

definition isTargetRegistrationInspectable :: "'h event_world \<Rightarrow> 'h rl_state \<Rightarrow> ev_value \<Rightarrow> bool" where
  "isTargetRegistrationInspectable w s target =
     (case target of EvObj t \<Rightarrow> ewRegistrations w (rlHost s) t \<noteq> None | EvVal v \<Rightarrow> False)"

definition getTargetRegistrationCount :: "'h event_world \<Rightarrow> 'h rl_state \<Rightarrow> ev_value \<Rightarrow> nat" where
  "getTargetRegistrationCount w s target =
     (case target of
        EvObj t \<Rightarrow> (case ewRegistrations w (rlHost s) t of Some rs \<Rightarrow> length rs | None \<Rightarrow> 0)
      | EvVal v \<Rightarrow> 0)"

definition describeListenerTargetSnapshot :: "'h event_world \<Rightarrow> 'h rl_state \<Rightarrow> ev_value \<Rightarrow> target_info" where
  "describeListenerTargetSnapshot w s target =
     \<lparr>tiBrowserRegistrationCount = getTargetRegistrationCount w s target,
      tiBrowserRegistrationInspectable = isTargetRegistrationInspectable w s target,
      tiCanInstallListeners = canInstallListener s target,
      tiEventListenerSetSize =
        (case target of
           EvObj t \<Rightarrow> (case lrSets (rlReg s) t of Some ks \<Rightarrow> length ks | None \<Rightarrow> 0)
         | EvVal v \<Rightarrow> 0),
      tiListeningMarker = inspectListeningMarker (rlReg s) target\<rparr>"

definition snapshotListenerTarget :: "'h event_world \<Rightarrow> 'h rl_state \<Rightarrow> ev_value \<Rightarrow> target_snapshot" where
  "snapshotListenerTarget w s target =
     (let own = (case target of EvObj t \<Rightarrow> lrOwn (rlReg s) t | EvVal v \<Rightarrow> []);
          marker = internalListeningMarker (rlReg s)
      in \<lparr>snTarget = target,
          snHadEventHandlersKey = (case target of EvObj t \<Rightarrow> lrSets (rlReg s) t \<noteq> None | EvVal v \<Rightarrow> False),
          snHadListeningMarker = (map_of own marker \<noteq> None),
          snListeningMarkerValue = getOwn marker own,
          snBeforeInfo = describeListenerTargetSnapshot w s target,
          snAfterInfo = None\<rparr>)"

subsection \<open>Cleaning up\<close>

text \<open>One iteration of the first loop; \<open>listenerSet.delete(key)\<close> counts when the target has a set.\<close>
definition removeInstalledListener ::
  "'h event_world \<Rightarrow> installed_listener \<Rightarrow> nat \<times> nat \<Rightarrow> 'h rl_state \<Rightarrow> dom_error option \<times> (nat \<times> nat) \<times> 'h rl_state" where
  "removeInstalledListener w listenerRecord counts s =
     (let t = ilTarget listenerRecord;
          (listenerRemovalCount, listenerSetKeyRemovalCount) = counts
      in case ewRemove w t \<lparr>rgType = ilDomEventName listenerRecord, rgListener = ilListener listenerRecord,
                            rgOptions = ilListenerOptions listenerRecord\<rparr> (rlHost s) of
           (Some e, h) \<Rightarrow> (Some e, counts, s\<lparr>rlHost := h\<rparr>)
         | (None, h) \<Rightarrow>
             (case lrSets (rlReg s) t of
                None \<Rightarrow> (None, (listenerRemovalCount + 1, listenerSetKeyRemovalCount), s\<lparr>rlHost := h\<rparr>)
              | Some ks \<Rightarrow>
                  (None, (listenerRemovalCount + 1, listenerSetKeyRemovalCount + 1),
                   s\<lparr>rlHost := h,
                     rlReg := (rlReg s)\<lparr>lrSets := (lrSets (rlReg s))(t \<mapsto> removeAll (ilListenerSetKey listenerRecord) ks)\<rparr>\<rparr>)))"

text \<open>The list is the reverse of \<open>installedListeners\<close>.\<close>
fun removeInstalledListeners ::
  "'h event_world \<Rightarrow> installed_listener list \<Rightarrow> nat \<times> nat \<Rightarrow> 'h rl_state \<Rightarrow> dom_error option \<times> (nat \<times> nat) \<times> 'h rl_state" where
  "removeInstalledListeners w [] counts s = (None, counts, s)"
| "removeInstalledListeners w (l # ls) counts s =
     (case removeInstalledListener w l counts s of
        (Some e, counts', s') \<Rightarrow> (Some e, counts', s')
      | (None, counts', s') \<Rightarrow> removeInstalledListeners w ls counts' s')"

definition restoreSnapshot :: "target_snapshot \<Rightarrow> 'h rl_state \<Rightarrow> 'h rl_state" where
  "restoreSnapshot snapshot s =
     (case snTarget snapshot of
        EvVal v \<Rightarrow> s
      | EvObj t \<Rightarrow>
          (let r = rlReg s;
               marker = internalListeningMarker r;
               r1 = r\<lparr>lrOwn := (lrOwn r)(t :=
                 (if snHadListeningMarker snapshot then setOwn marker (snListeningMarkerValue snapshot) (lrOwn r t)
                  else deleteOwn marker (lrOwn r t)))\<rparr>;
               r2 = (if \<not> snHadEventHandlersKey snapshot \<and> lrSets r1 t = Some []
                     then r1\<lparr>lrSets := (lrSets r1)(t := None)\<rparr> else r1)
           in s\<lparr>rlReg := r2\<rparr>))"

definition cleanupInstalledRootListeners ::
  "'h event_world \<Rightarrow> installed_listener list \<Rightarrow> target_snapshot list \<Rightarrow> 'h rl_state \<Rightarrow>
     (dom_error + nat \<times> nat \<times> nat) \<times> 'h rl_state" where
  "cleanupInstalledRootListeners w installedListeners targetSnapshots s =
     (case removeInstalledListeners w (rev installedListeners) (0, 0) s of
        (Some e, counts, s1) \<Rightarrow> (Inl e, s1)
      | (None, (listenerRemovalCount, listenerSetKeyRemovalCount), s1) \<Rightarrow>
          (Inr (listenerRemovalCount, listenerSetKeyRemovalCount, length targetSnapshots),
           fold restoreSnapshot targetSnapshots s1))"

subsection \<open>Registering all supported events\<close>

definition pushListenerRecord :: "installed_listener list \<Rightarrow> installed_listener option \<Rightarrow> installed_listener list" where
  "pushListenerRecord installedListeners listenerRecord =
     (case listenerRecord of None \<Rightarrow> installedListeners | Some r \<Rightarrow> installedListeners @ [r])"

text \<open>One statement \<open>pushListenerRecord(installedListeners, listenToNativeEventRecord(...))\<close>.\<close>
definition listenAndPush ::
  "'h event_world \<Rightarrow> string \<Rightarrow> bool \<Rightarrow> ev_value \<Rightarrow> bool \<Rightarrow> installed_listener list \<times> 'h rl_state \<Rightarrow>
     dom_error option \<times> installed_listener list \<times> 'h rl_state" where
  "listenAndPush w domEventName capture target passiveSupported acc =
     (case listenToNativeEventRecord w domEventName capture target passiveSupported (snd acc) of
        (Inl e, s') \<Rightarrow> (Some e, fst acc, s')
      | (Inr r, s') \<Rightarrow> (None, pushListenerRecord (fst acc) r, s'))"

fun listenToEvents ::
  "'h event_world \<Rightarrow> ev_value \<Rightarrow> bool \<Rightarrow> string list \<Rightarrow> installed_listener list \<times> 'h rl_state \<Rightarrow>
     dom_error option \<times> installed_listener list \<times> 'h rl_state" where
  "listenToEvents w target passiveSupported [] acc = (None, acc)"
| "listenToEvents w target passiveSupported (domEventName # names) acc =
     (if domEventName = ''selectionchange'' then listenToEvents w target passiveSupported names acc
      else
        (case (if isNonDelegatedEvent domEventName then (None, acc)
               else listenAndPush w domEventName False target passiveSupported acc) of
           (Some e, acc1) \<Rightarrow> (Some e, acc1)
         | (None, acc1) \<Rightarrow>
             (case listenAndPush w domEventName True target passiveSupported acc1 of
                (Some e, acc2) \<Rightarrow> (Some e, acc2)
              | (None, acc2) \<Rightarrow> listenToEvents w target passiveSupported names acc2)))"

text \<open>The body of the \<open>try\<close> block.\<close>
definition installRootListeners ::
  "'h event_world \<Rightarrow> ev_value \<Rightarrow> ev_value \<Rightarrow> bool \<Rightarrow> 'h rl_state \<Rightarrow>
     dom_error option \<times> installed_listener list \<times> 'h rl_state" where
  "installRootListeners w rootContainerElement ownerDocument passiveSupported s =
     (case listenToEvents w rootContainerElement passiveSupported allNativeEvents ([], s) of
        (Some e, acc) \<Rightarrow> (Some e, acc)
      | (None, installed, s1) \<Rightarrow>
          if ownerDocument = EvVal DNull then (None, installed, s1)
          else
            (case markTargetAsListening ownerDocument (rlReg s1) of
               (Some e, r) \<Rightarrow> (Some e, installed, s1\<lparr>rlReg := r\<rparr>)
             | (None, r) \<Rightarrow>
                 listenAndPush w ''selectionchange'' False ownerDocument passiveSupported (installed, s1\<lparr>rlReg := r\<rparr>)))"

definition summarizeInstalledListenerRecord :: "'h event_world \<Rightarrow> installed_listener \<Rightarrow> listener_summary" where
  "summarizeInstalledListenerRecord w r =
     \<lparr>lsDomEventName = ilDomEventName r, lsEventSystemFlags = ilEventSystemFlags r,
      lsIsCapturePhaseListener = ilIsCapturePhaseListener r, lsListenerOptions = ilListenerOptionsInfo r,
      lsListenerSetKey = ilListenerSetKey r, lsTargetInfo = describeTarget w (EvObj (ilTarget r))\<rparr>"

text \<open>
  \<open>Some (Inr record)\<close> the number of the registration record, \<open>None\<close> in its place when the call is not
  reversible. \<open>rootContainerElement\<close> has passed \<open>assertEventTarget\<close>.
\<close>
definition registerSupportedRootListeners ::
  "'h event_world \<Rightarrow> nat \<Rightarrow> bool \<Rightarrow> bool \<Rightarrow> 'h rl_state \<Rightarrow> (dom_error + nat option) \<times> 'h rl_state" where
  "registerSupportedRootListeners w rootContainerElement passiveSupported reversible s =
     (let root = EvObj rootContainerElement;
          ownerDocument = ownerDocumentTarget w root;
          targets = uniqueTargets [root, ownerDocument]
      in case (if reversible then assertReversibleTargets w s targets else None) of
           Some e \<Rightarrow> (Inl e, s)
         | None \<Rightarrow>
             (let targetSnapshots = map (snapshotListenerTarget w s) targets in
              case markTargetAsListening root (rlReg s) of
                (Some e, r) \<Rightarrow> (Inl e, s\<lparr>rlReg := r\<rparr>)
              | (None, r) \<Rightarrow>
                  (case installRootListeners w root ownerDocument passiveSupported (s\<lparr>rlReg := r\<rparr>) of
                     (Some e, installed, s1) \<Rightarrow>
                       if reversible then
                         (case cleanupInstalledRootListeners w installed targetSnapshots s1 of
                            (Inl e', s2) \<Rightarrow> (Inl e', s2)
                          | (Inr _, s2) \<Rightarrow> (Inl e, s2))
                       else (Inl e, s1)
                   | (None, installed, s1) \<Rightarrow>
                       if \<not> reversible then (Inr None, s1)
                       else
                         (let afterSnapshots =
                                map (\<lambda>sn. sn\<lparr>snAfterInfo := Some (describeListenerTargetSnapshot w s1 (snTarget sn))\<rparr>)
                                  targetSnapshots;
                              record =
                                \<lparr>rrRootEventTargetInfo = describeTarget w root,
                                 rrOwnerDocumentInfo =
                                   (if ownerDocument = EvVal DNull then None else Some (describeTarget w ownerDocument)),
                                 rrTargetCount = length targets,
                                 rrRegistrationCount = length installed,
                                 rrRootRegistrationCount = length (filter (\<lambda>l. EvObj (ilTarget l) = root) installed),
                                 rrOwnerDocumentRegistrationCount =
                                   (if ownerDocument = EvVal DNull then 0
                                    else length (filter (\<lambda>l. EvObj (ilTarget l) = ownerDocument) installed)),
                                 rrTargetSnapshotsBefore = map snBeforeInfo afterSnapshots,
                                 rrTargetSnapshotsAfter = map (the \<circ> snAfterInfo) afterSnapshots,
                                 rrListenerRecords = map (summarizeInstalledListenerRecord w) installed\<rparr>;
                              k = rlNext s1
                          in (Inr (Some k),
                              s1\<lparr>rlRegistrations := (rlRegistrations s1)(k \<mapsto>
                                  \<lparr>rpActive = True, rpInstalledListeners = installed, rpOwnerDocument = ownerDocument,
                                   rpRecord = record, rpRootContainerElement = rootContainerElement,
                                   rpTargetSnapshots = afterSnapshots\<rparr>),
                                rlNext := k + 1\<rparr>)))))"

definition listenToAllSupportedEvents ::
  "'h event_world \<Rightarrow> ev_value \<Rightarrow> bool \<Rightarrow> 'h rl_state \<Rightarrow> (dom_error + nat option) \<times> 'h rl_state" where
  "listenToAllSupportedEvents w rootContainerElement passiveSupported s =
     (case assertEventTarget (rlReg s) rootContainerElement of
        Inl e \<Rightarrow> (Inl e, s)
      | Inr t \<Rightarrow> registerSupportedRootListeners w t passiveSupported False s)"

definition registerRootListenersForPrivateRoot ::
  "'h event_world \<Rightarrow> ev_value \<Rightarrow> bool \<Rightarrow> 'h rl_state \<Rightarrow> (dom_error + nat option) \<times> 'h rl_state" where
  "registerRootListenersForPrivateRoot w rootContainerElement passiveSupported s =
     (case assertEventTarget (rlReg s) rootContainerElement of
        Inl e \<Rightarrow> (Inl e, s)
      | Inr t \<Rightarrow> registerSupportedRootListeners w t passiveSupported True s)"

definition listenToPortalContainerEvents ::
  "'h event_world \<Rightarrow> ev_value \<Rightarrow> bool \<Rightarrow> 'h rl_state \<Rightarrow> (dom_error + nat option) \<times> 'h rl_state" where
  "listenToPortalContainerEvents w portalContainer passiveSupported s =
     listenToAllSupportedEvents w portalContainer passiveSupported s"

text \<open>The argument is the number of a record; a value that is none has no payload.\<close>
definition revertRootListenersForPrivateRoot ::
  "'h event_world \<Rightarrow> nat \<Rightarrow> 'h rl_state \<Rightarrow> (dom_error + cleanup_record) \<times> 'h rl_state" where
  "revertRootListenersForPrivateRoot w registrationRecord s =
     (case rlRegistrations s registrationRecord of
        None \<Rightarrow>
          (Inl (CodedError ''FAST_REACT_DOM_INVALID_ROOT_LISTENER_RECORD''
             ''Expected a private React DOM root listener registration record.''), s)
      | Some payload \<Rightarrow>
          (case (rpActive payload, rlCleanups s registrationRecord) of
             (False, Some existingCleanup) \<Rightarrow> (Inr existingCleanup, s)
           | _ \<Rightarrow>
               (case cleanupInstalledRootListeners w (rpInstalledListeners payload) (rpTargetSnapshots payload) s of
                  (Inl e, s1) \<Rightarrow> (Inl e, s1)
                | (Inr (listenerRemovalCount, listenerSetKeyRemovalCount, restoredTargetCount), s1) \<Rightarrow>
                    (let cleanupRecord =
                           \<lparr>crListenerRemovalCount = listenerRemovalCount,
                            crListenerSetKeyRemovalCount = listenerSetKeyRemovalCount,
                            crRestoredTargetCount = restoredTargetCount,
                            crTargetSnapshotsAfter =
                              map (\<lambda>sn. describeListenerTargetSnapshot w s1 (snTarget sn)) (rpTargetSnapshots payload)\<rparr>
                     in (Inr cleanupRecord,
                         s1\<lparr>rlRegistrations := (rlRegistrations s1)(registrationRecord \<mapsto> payload\<lparr>rpActive := False\<rparr>),
                           rlCleanups := (rlCleanups s1)(registrationRecord \<mapsto> cleanupRecord)\<rparr>)))))"

subsection \<open>Portal listener intents\<close>

record listener_intent =
  liDomEventName :: string
  liEventSystemFlags :: flags
  liIsCapturePhaseListener :: bool
  liIsNonDelegatedEvent :: bool
  liListenerOptions :: options_info
  liListenerSetKey :: string
  liTargetInfo :: container_info
  liTargetRole :: string

definition createListenerIntentRecord ::
  "'h event_world \<Rightarrow> ev_value \<Rightarrow> string \<Rightarrow> bool \<Rightarrow> string \<Rightarrow> bool \<Rightarrow> listener_intent" where
  "createListenerIntentRecord w target domEventName isCapturePhaseListener targetRole passiveSupported =
     \<lparr>liDomEventName = domEventName,
      liEventSystemFlags = (if isCapturePhaseListener then 0 OR IS_CAPTURE_PHASE else 0),
      liIsCapturePhaseListener = isCapturePhaseListener,
      liIsNonDelegatedEvent = isNonDelegatedEvent domEventName,
      liListenerOptions =
        describeListenerOptions (getAddEventListenerOptions 0 domEventName isCapturePhaseListener passiveSupported),
      liListenerSetKey = getListenerSetKey domEventName isCapturePhaseListener,
      liTargetInfo = describeTarget w target, liTargetRole = targetRole\<rparr>"

fun supportedListenerIntents ::
  "'h event_world \<Rightarrow> ev_value \<Rightarrow> string \<Rightarrow> bool \<Rightarrow> string list \<Rightarrow> listener_intent list \<Rightarrow> listener_intent list" where
  "supportedListenerIntents w target targetRole passiveSupported [] listenerIntents = listenerIntents"
| "supportedListenerIntents w target targetRole passiveSupported (domEventName # names) listenerIntents =
     (if domEventName = ''selectionchange'' then
        supportedListenerIntents w target targetRole passiveSupported names listenerIntents
      else
        supportedListenerIntents w target targetRole passiveSupported names
          (listenerIntents
           @ (if \<not> isNonDelegatedEvent domEventName
              then [createListenerIntentRecord w target domEventName False targetRole passiveSupported] else [])
           @ [createListenerIntentRecord w target domEventName True targetRole passiveSupported]))"

definition createAllSupportedListenerIntentRecords ::
  "'h event_world \<Rightarrow> ev_value \<Rightarrow> string \<Rightarrow> bool \<Rightarrow> listener_intent list" where
  "createAllSupportedListenerIntentRecords w target targetRole passiveSupported =
     supportedListenerIntents w target targetRole passiveSupported allNativeEvents []"

record intent_counts =
  icBubble :: nat
  icCapture :: nat
  icNonDelegated :: nat
  icPassive :: nat

fun countListenerIntents :: "listener_intent list \<Rightarrow> intent_counts \<Rightarrow> intent_counts" where
  "countListenerIntents [] c = c"
| "countListenerIntents (i # is) c =
     (let c1 = (if liIsCapturePhaseListener i then c\<lparr>icCapture := icCapture c + 1\<rparr> else c\<lparr>icBubble := icBubble c + 1\<rparr>);
          c2 = (if liIsNonDelegatedEvent i then c1\<lparr>icNonDelegated := icNonDelegated c1 + 1\<rparr> else c1);
          c3 = (if oiPassive (liListenerOptions i) then c2\<lparr>icPassive := icPassive c2 + 1\<rparr> else c2)
      in countListenerIntents is c3)"

definition summarizeListenerIntentCounts :: "listener_intent list \<Rightarrow> intent_counts" where
  "summarizeListenerIntentCounts listenerIntents =
     countListenerIntents listenerIntents \<lparr>icBubble = 0, icCapture = 0, icNonDelegated = 0, icPassive = 0\<rparr>"

text \<open>The snapshot, the target info and the role.\<close>
definition describeListenerTargetIntentSnapshot ::
  "'h event_world \<Rightarrow> 'h rl_state \<Rightarrow> ev_value \<Rightarrow> string \<Rightarrow> target_info \<times> container_info \<times> string" where
  "describeListenerTargetIntentSnapshot w s target targetRole =
     (describeListenerTargetSnapshot w s target, describeTarget w target, targetRole)"

record portal_intent =
  piListenToAllSupportedEventsIntent :: bool
  piPortalAlreadyListening :: bool
  piOwnerDocumentAlreadyListening :: bool
  piPortalListenerIntents :: "listener_intent list"
  piOwnerDocumentListenerIntents :: "listener_intent list"
  piListenerIntents :: "listener_intent list"
  piCounts :: intent_counts
  piPortalEventTargetInfo :: container_info
  piOwnerDocumentInfo :: "container_info option"
  piTargetSnapshotsBefore :: "(target_info \<times> container_info \<times> string) list"

definition createPortalPrepareMountListenerIntentRecord ::
  "'h event_world \<Rightarrow> ev_value \<Rightarrow> bool \<Rightarrow> 'h rl_state \<Rightarrow> dom_error + portal_intent" where
  "createPortalPrepareMountListenerIntentRecord w portalContainer passiveSupported s =
     (case assertEventTarget (rlReg s) portalContainer of
        Inl e \<Rightarrow> Inl e
      | Inr _ \<Rightarrow>
          (let ownerDocument = ownerDocumentTarget w portalContainer;
               portalAlreadyListening = hasListeningMarker (rlReg s) portalContainer;
               ownerDocumentAlreadyListening = hasListeningMarker (rlReg s) ownerDocument;
               portalListenerIntents =
                 (if portalAlreadyListening then []
                  else createAllSupportedListenerIntentRecords w portalContainer ''portal-container'' passiveSupported);
               ownerDocumentNeedsSelectionChange =
                 (\<not> portalAlreadyListening \<and> ownerDocument \<noteq> EvVal DNull \<and> ownerDocument \<noteq> portalContainer \<and>
                  \<not> ownerDocumentAlreadyListening);
               ownerDocumentListenerIntents =
                 (if ownerDocumentNeedsSelectionChange
                  then [createListenerIntentRecord w ownerDocument ''selectionchange'' False ''owner-document'' passiveSupported]
                  else []);
               listenerIntents = portalListenerIntents @ ownerDocumentListenerIntents
           in case (if ownerDocumentNeedsSelectionChange then assertEventTarget (rlReg s) ownerDocument else Inr 0) of
                Inl e \<Rightarrow> Inl e
              | Inr _ \<Rightarrow>
                  Inr \<lparr>piListenToAllSupportedEventsIntent = (\<not> portalAlreadyListening),
                       piPortalAlreadyListening = portalAlreadyListening,
                       piOwnerDocumentAlreadyListening = ownerDocumentAlreadyListening,
                       piPortalListenerIntents = portalListenerIntents,
                       piOwnerDocumentListenerIntents = ownerDocumentListenerIntents,
                       piListenerIntents = listenerIntents,
                       piCounts = summarizeListenerIntentCounts listenerIntents,
                       piPortalEventTargetInfo = describeTarget w portalContainer,
                       piOwnerDocumentInfo =
                         (if ownerDocument = EvVal DNull then None else Some (describeTarget w ownerDocument)),
                       piTargetSnapshotsBefore =
                         describeListenerTargetIntentSnapshot w s portalContainer ''portal-container''
                         # (if ownerDocument = EvVal DNull then []
                            else [describeListenerTargetIntentSnapshot w s ownerDocument ''owner-document''])\<rparr>))"

subsection \<open>Listener guards\<close>

record listener_guard =
  lgAction :: string
  lgCanInstallListeners :: bool
  lgHasListeningMarker :: bool
  lgOwnerDocumentCanInstallSelectionChange :: bool
  lgOwnerDocumentHasSelectionChangeMarker :: bool
  lgOwnerDocumentInfo :: "container_info option"
  lgEventTargetInfo :: container_info

text \<open>The option \<open>action\<close> when it is a string.\<close>
definition describeListenerGuard ::
  "'h event_world \<Rightarrow> 'h rl_state \<Rightarrow> string \<Rightarrow> ev_value \<Rightarrow> string option \<Rightarrow> listener_guard" where
  "describeListenerGuard w s defaultAction container action =
     (let ownerDocument = ownerDocumentTarget w container in
      \<lparr>lgAction = (case action of Some a \<Rightarrow> a | None \<Rightarrow> defaultAction),
       lgCanInstallListeners = canInstallListener s container,
       lgHasListeningMarker = hasListeningMarker (rlReg s) container,
       lgOwnerDocumentCanInstallSelectionChange = canInstallListener s ownerDocument,
       lgOwnerDocumentHasSelectionChangeMarker = hasListeningMarker (rlReg s) ownerDocument,
       lgOwnerDocumentInfo = (if ownerDocument = EvVal DNull then None else Some (describeTarget w ownerDocument)),
       lgEventTargetInfo = describeTarget w container\<rparr>)"

definition describePortalContainerListenerGuard ::
  "'h event_world \<Rightarrow> 'h rl_state \<Rightarrow> ev_value \<Rightarrow> string option \<Rightarrow> listener_guard" where
  "describePortalContainerListenerGuard w s portalContainer action =
     describeListenerGuard w s ''defer-listen-to-portal-container-events'' portalContainer action"

definition describeRootListenerGuard ::
  "'h event_world \<Rightarrow> 'h rl_state \<Rightarrow> ev_value \<Rightarrow> string option \<Rightarrow> listener_guard" where
  "describeRootListenerGuard w s rootContainerElement action =
     describeListenerGuard w s ''defer-listen-to-all-supported-events'' rootContainerElement action"

end
