(* ===== verification/Listener_Host.thy ===== *)
theory Listener_Host
  imports Root_Listeners
begin

text \<open>
  What the root listeners rely on of \<open>addEventListener\<close> and \<open>removeEventListener\<close>, as a locale: a new
  listener goes to the end of the registrations of its target, an \<open>addEventListener\<close> that throws
  registers nothing, and \<open>removeEventListener\<close> takes away a listener that is registered once. The
  locale carries the lemmas on installing and cleaning up; it is interpreted on the event target
  class the repository's tests run this code against.
\<close>

locale event_host_laws =
  fixes w :: "'h event_world"
    and regs :: "'h \<Rightarrow> nat \<Rightarrow> registration list"
  assumes add_ok: "\<forall>q \<in> set (regs h t). rgListener q \<noteq> rgListener r \<Longrightarrow> ewAdd w t r h = (None, h') \<Longrightarrow>
      regs h' = (regs h)(t := regs h t @ [r])"
    and add_throws: "ewAdd w t r h = (Some e, h') \<Longrightarrow> regs h' = regs h"
    and remove_ok: "regs h t = xs @ r # ys \<Longrightarrow> \<forall>q \<in> set (xs @ ys). rgListener q \<noteq> rgListener r \<Longrightarrow>
      \<exists>h'. ewRemove w t r h = (None, h') \<and> regs h' = (regs h)(t := xs @ ys)"
    and inspect: "ewRegistrations w h t = Some rs \<Longrightarrow> rs = regs h t"
    and inspect_add: "(ewRegistrations w (snd (ewAdd w t r h)) u = None) = (ewRegistrations w h u = None)"
    and inspect_remove: "(ewRegistrations w (snd (ewRemove w t r h)) u = None) = (ewRegistrations w h u = None)"

subsection \<open>The listeners of a target\<close>

definition setOf :: "'h rl_state \<Rightarrow> nat \<Rightarrow> string list" where
  "setOf s t = (case lrSets (rlReg s) t of Some ks \<Rightarrow> ks | None \<Rightarrow> [])"

definition regOf :: "installed_listener \<Rightarrow> registration" where
  "regOf l = \<lparr>rgType = ilDomEventName l, rgListener = ilListener l, rgOptions = ilListenerOptions l\<rparr>"

definition onTarget :: "nat \<Rightarrow> installed_listener list \<Rightarrow> installed_listener list" where
  "onTarget t = filter (\<lambda>l. ilTarget l = t)"

lemma onTarget_simps [simp]:
  "onTarget t [] = []" "onTarget t (ls @ ms) = onTarget t ls @ onTarget t ms"
  "onTarget t [l] = (if ilTarget l = t then [l] else [])"
  by (simp_all add: onTarget_def)

lemma set_onTarget [simp]: "set (onTarget t ls) = {l \<in> set ls. ilTarget l = t}"
  by (auto simp: onTarget_def)

lemma regOf_listener [simp]: "rgListener (regOf l) = ilListener l"
  by (simp add: regOf_def)

text \<open>The properties of the shell of an installed listener.\<close>
definition shellOf :: "installed_listener \<Rightarrow> shell" where
  "shellOf l = \<lparr>shTarget = ilTarget l, shName = ilDomEventName l, shFlags = ilEventSystemFlags l,
     shWrapper = createEventListenerWrapperRecordWithPriority (ilTarget l) (ilDomEventName l) (ilEventSystemFlags l)
       \<lparr>poSchedulerPriority = None, poCurrentLevel = None\<rparr>\<rparr>"

text \<open>The numbers of the listeners registered so far are used up.\<close>
definition numbered :: "('h \<Rightarrow> nat \<Rightarrow> registration list) \<Rightarrow> 'h rl_state \<Rightarrow> bool" where
  "numbered regs s \<longleftrightarrow> (\<forall>t. \<forall>r \<in> set (regs (rlHost s) t). rgListener r < rlNext s)"

text \<open>The part of the registry that listening does not touch.\<close>
definition restOf :: "listener_state \<Rightarrow> string \<times> (nat \<Rightarrow> bool) \<times> (nat \<rightharpoonup> nat list) \<times> (nat \<rightharpoonup> queue_payload) \<times> (nat \<rightharpoonup> queue_entry) \<times> nat" where
  "restOf r = (lrRandomKey r, lrHasAdd r, lrQueues r, lrPayloads r, lrRecords r, lrNext r)"

text \<open>The state \<open>s\<close> is \<open>s0\<close> with the listeners \<open>ls\<close> installed on targets of \<open>T\<close>, some of them marked.\<close>

definition installed ::
  "('h \<Rightarrow> nat \<Rightarrow> registration list) \<Rightarrow> nat set \<Rightarrow> 'h rl_state \<Rightarrow> installed_listener list \<Rightarrow> 'h rl_state \<Rightarrow> bool" where
  "installed regs T s0 ls s \<longleftrightarrow>
     (\<forall>t. regs (rlHost s) t = regs (rlHost s0) t @ map regOf (onTarget t ls)) \<and>
     (\<forall>t. setOf s t = setOf s0 t @ map ilListenerSetKey (onTarget t ls)) \<and>
     (\<forall>t. distinct (map ilListenerSetKey (onTarget t ls)) \<and>
          set (setOf s0 t) \<inter> ilListenerSetKey ` set (onTarget t ls) = {}) \<and>
     (\<forall>t. lrSets (rlReg s0) t \<noteq> None \<longrightarrow> lrSets (rlReg s) t \<noteq> None) \<and>
     (\<forall>t. t \<notin> T \<longrightarrow> lrSets (rlReg s) t = lrSets (rlReg s0) t \<and> lrOwn (rlReg s) t = lrOwn (rlReg s0) t) \<and>
     (\<forall>t. lrOwn (rlReg s) t = lrOwn (rlReg s0) t \<or>
          lrOwn (rlReg s) t = putTrue (internalListeningMarker (rlReg s0)) (lrOwn (rlReg s0) t)) \<and>
     restOf (rlReg s) = restOf (rlReg s0) \<and>
     distinct (map ilListener ls) \<and> (\<forall>l \<in> set ls. rlNext s0 \<le> ilListener l \<and> ilListener l < rlNext s) \<and>
     rlNext s0 \<le> rlNext s \<and> ilTarget ` set ls \<subseteq> T \<and>
     (\<forall>l \<in> set ls. rlShells s (ilListener l) = Some (shellOf l)) \<and>
     rlRegistrations s = rlRegistrations s0 \<and> rlCleanups s = rlCleanups s0"

lemma installedD:
  assumes "installed regs T s0 ls s"
  shows "regs (rlHost s) t = regs (rlHost s0) t @ map regOf (onTarget t ls)"
    "setOf s t = setOf s0 t @ map ilListenerSetKey (onTarget t ls)"
    "distinct (map ilListenerSetKey (onTarget t ls))"
    "set (setOf s0 t) \<inter> ilListenerSetKey ` set (onTarget t ls) = {}"
    "lrSets (rlReg s0) t \<noteq> None \<Longrightarrow> lrSets (rlReg s) t \<noteq> None"
    "t \<notin> T \<Longrightarrow> lrSets (rlReg s) t = lrSets (rlReg s0) t"
    "t \<notin> T \<Longrightarrow> lrOwn (rlReg s) t = lrOwn (rlReg s0) t"
    "lrOwn (rlReg s) t = lrOwn (rlReg s0) t \<or>
       lrOwn (rlReg s) t = putTrue (internalListeningMarker (rlReg s0)) (lrOwn (rlReg s0) t)"
    "restOf (rlReg s) = restOf (rlReg s0)"
    "distinct (map ilListener ls)" "l \<in> set ls \<Longrightarrow> rlNext s0 \<le> ilListener l \<and> ilListener l < rlNext s"
    "rlNext s0 \<le> rlNext s" "ilTarget ` set ls \<subseteq> T"
    "rlRegistrations s = rlRegistrations s0" "rlCleanups s = rlCleanups s0"
    "l \<in> set ls \<Longrightarrow> rlShells s (ilListener l) = Some (shellOf l)"
  using assms by (simp_all add: installed_def)

lemma installed_refl [simp]: "installed regs T s [] s"
  by (simp add: installed_def)

lemma installed_const:
  assumes "installed regs T s0 ls s"
  shows "lrHasAdd (rlReg s) = lrHasAdd (rlReg s0)" "internalListeningMarker (rlReg s) = internalListeningMarker (rlReg s0)"
  using installedD(9) [OF assms] by (simp_all add: internalListeningMarker_def restOf_def)

lemma putTrue_idem [simp]: "putTrue k (putTrue k ps) = putTrue k ps"
  by (induction k ps rule: putTrue.induct) auto

lemma putTrue_own: "map_of (putTrue k ps) k = Some (DBool True)"
  by (induction k ps rule: putTrue.induct) auto

text \<open>Steps that leave listener sets and markers alone.\<close>
lemma installed_host:
  assumes "installed regs T s0 ls s" "regs h = regs (rlHost s)" "rlNext s \<le> n" "\<And>k. k < rlNext s \<Longrightarrow> sh k = rlShells s k"
  shows "installed regs T s0 ls (s\<lparr>rlHost := h, rlShells := sh, rlNext := n\<rparr>)"
  using assms unfolding installed_def setOf_def by fastforce

text \<open>\<open>getEventListenerSet\<close> gives a target of \<open>T\<close> a listener set.\<close>
lemma installed_get_set:
  assumes inst: "installed regs T s0 ls s" and t: "t \<in> T"
  shows "installed regs T s0 ls (s\<lparr>rlReg := (rlReg s)\<lparr>lrSets := (lrSets (rlReg s))(t \<mapsto> setOf s t)\<rparr>\<rparr>)"
    (is "installed regs T s0 ls ?s")
proof -
  have "setOf ?s u = setOf s u" for u by (simp add: setOf_def)
  moreover have "restOf (rlReg ?s) = restOf (rlReg s0)"
    using installedD(9) [OF inst] by (simp add: restOf_def)
  ultimately show ?thesis using inst t unfolding installed_def by auto
qed

lemma installed_mark:
  assumes inst: "installed regs T s0 ls s" and t: "t \<in> T" and run: "markTargetAsListening (EvObj t) (rlReg s) = (e, r)"
  shows "installed regs T s0 ls (s\<lparr>rlReg := r\<rparr>)"
proof (cases "lrHasAdd (rlReg s) t")
  case True
  let ?m = "internalListeningMarker (rlReg s0)"
  have r: "r = (rlReg s)\<lparr>lrOwn := (lrOwn (rlReg s))(t := putTrue ?m (lrOwn (rlReg s) t))\<rparr>"
    using run True installed_const [OF inst] by (simp add: markTargetAsListening_def assertEventTarget_def)
  have own: "putTrue ?m (lrOwn (rlReg s) t) = putTrue ?m (lrOwn (rlReg s0) t)"
    using installedD(8) [OF inst, of t] by auto
  have "restOf r = restOf (rlReg s0)" using installedD(9) [OF inst] r by (simp add: restOf_def)
  moreover have "lrOwn r u = lrOwn (rlReg s0) u \<or> lrOwn r u = putTrue ?m (lrOwn (rlReg s0) u)" for u
    using r own installedD(8) [OF inst, of u] by simp
  ultimately show ?thesis using inst t r unfolding installed_def setOf_def by simp
next
  case False
  then have "r = rlReg s" using run by (auto simp: markTargetAsListening_def assertEventTarget_def Let_def)
  then show ?thesis using inst by simp
qed

text \<open>A new listener with a new key.\<close>
lemma installed_add:
  assumes inst: "installed regs T s0 ls s" and t: "ilTarget l \<in> T" and key: "ilListenerSetKey l \<notin> set (setOf s (ilTarget l))"
    and host: "regs h = (regs (rlHost s))(ilTarget l := regs (rlHost s) (ilTarget l) @ [regOf l])"
    and nxt: "ilListener l = rlNext s" "rlNext s < n"
    and sh: "sh (rlNext s) = Some (shellOf l)" "\<And>k. k < rlNext s \<Longrightarrow> sh k = rlShells s k"
  shows "installed regs T s0 (ls @ [l]) (addSetKey (ilTarget l) (ilListenerSetKey l) (s\<lparr>rlHost := h, rlShells := sh, rlNext := n\<rparr>))"
    (is "installed regs T s0 _ ?s")
proof -
  let ?t = "ilTarget l" and ?k = "ilListenerSetKey l"
  note D = installedD [OF inst]
  have reg: "rlReg ?s = (rlReg s)\<lparr>lrSets := (lrSets (rlReg s))(?t \<mapsto> setOf s ?t @ [?k])\<rparr>"
    using key by (simp add: addSetKey_def setOf_def Let_def split: option.splits)
  have sets: "setOf ?s u = (if u = ?t then setOf s ?t @ [?k] else setOf s u)" for u
    using reg by (simp add: setOf_def)
  have rest: "rlHost ?s = h" "rlNext ?s = n" "rlRegistrations ?s = rlRegistrations s" "rlCleanups ?s = rlCleanups s"
    "rlShells ?s = sh"
    by (simp_all add: addSetKey_def Let_def)
  have eq: "restOf (rlReg ?s) = restOf (rlReg s0)" using D(9) unfolding reg by (simp add: restOf_def)
  have fresh: "ilListener l \<notin> ilListener ` set ls" using D(11) nxt by fastforce
  have num: "rlNext s0 \<le> ilListener m \<and> ilListener m < n" if "m \<in> set (ls @ [l])" for m
    using that D(11) [of m] D(12) nxt by auto
  have keys: "distinct (map ilListenerSetKey (onTarget u (ls @ [l]))) \<and>
      set (setOf s0 u) \<inter> ilListenerSetKey ` set (onTarget u (ls @ [l])) = {}" for u
    using D(2-4) [of u] key by auto
  have own: "lrOwn (rlReg ?s) = lrOwn (rlReg s)" and dom: "u \<noteq> ?t \<Longrightarrow> lrSets (rlReg ?s) u = lrSets (rlReg s) u"
    "lrSets (rlReg ?s) ?t \<noteq> None" for u
    using reg by simp_all
  have outside: "lrSets (rlReg ?s) u = lrSets (rlReg s0) u" if "u \<notin> T" for u
    using that t dom(1) [of u] D(6) [OF that] by auto
  show ?thesis
    unfolding installed_def
  proof (intro conjI)
    show "\<forall>u. lrSets (rlReg s0) u \<noteq> None \<longrightarrow> lrSets (rlReg ?s) u \<noteq> None" using dom D(5) by metis
    show "\<forall>u. distinct (map ilListenerSetKey (onTarget u (ls @ [l]))) \<and>
      set (setOf s0 u) \<inter> ilListenerSetKey ` set (onTarget u (ls @ [l])) = {}" using keys by blast
    show "restOf (rlReg ?s) = restOf (rlReg s0)" by (rule eq)
    show "\<forall>m \<in> set (ls @ [l]). rlShells ?s (ilListener m) = Some (shellOf m)"
      using D(11,16) sh nxt(1) rest(5) by auto
    show "rlNext s0 \<le> rlNext ?s" using D(12) nxt(2) rest(2) by linarith
  qed (use D rest host sets own outside fresh num t in \<open>auto simp: nxt\<close>)
qed

subsection \<open>Installing\<close>

text \<open>The listener record \<open>listenToNativeEventRecord\<close> makes for an event and a phase, up to numbers.\<close>
definition listens :: "nat \<Rightarrow> string \<Rightarrow> bool \<Rightarrow> flags \<Rightarrow> bool \<Rightarrow> installed_listener \<Rightarrow> bool" where
  "listens t name capture fl passive l \<longleftrightarrow>
     ilTarget l = t \<and> ilDomEventName l = name \<and> ilIsCapturePhaseListener l = capture \<and> ilEventSystemFlags l = fl \<and>
     ilListenerSetKey l = getListenerSetKey name capture \<and>
     ilListenerOptions l = getAddEventListenerOptions (ilListener l + 1) name capture passive \<and>
     ilListenerOptionsInfo l = describeListenerOptions (ilListenerOptions l)"

lemma getEventListenerSet_object:
  "lrHasAdd (rlReg s) t \<Longrightarrow>
   getEventListenerSet (EvObj t) (rlReg s) = (Inr (setOf s t), (rlReg s)\<lparr>lrSets := (lrSets (rlReg s))(t \<mapsto> setOf s t)\<rparr>)"
  by (cases "rlReg s") (auto simp: getEventListenerSet_def assertEventTarget_def setOf_def fun_upd_idem split: option.splits)

context event_host_laws
begin

lemma addRecord_cases:
  assumes num: "\<forall>q \<in> set (regs (rlHost s) t). rgListener q < rlNext s"
    and run: "addTrappedEventListenerRecord w t name fl capture passive s = (res, s')"
  obtains e h sh where "res = Inl e" "regs h = regs (rlHost s)" "s' = s\<lparr>rlHost := h, rlShells := sh, rlNext := rlNext s + 2\<rparr>"
      "\<And>k. k < rlNext s \<Longrightarrow> sh k = rlShells s k"
  | l h sh where "res = Inr l" "listens t name capture fl passive l" "ilListener l = rlNext s"
      "regs h = (regs (rlHost s))(t := regs (rlHost s) t @ [regOf l])"
      "s' = s\<lparr>rlHost := h, rlShells := sh, rlNext := rlNext s + 2\<rparr>"
      "sh (rlNext s) = Some (shellOf l)" "\<And>k. k < rlNext s \<Longrightarrow> sh k = rlShells s k"
proof -
  let ?o = "getAddEventListenerOptions (rlNext s + 1) name capture passive"
  let ?r = "\<lparr>rgType = name, rgListener = rlNext s, rgOptions = ?o\<rparr>"
  have new: "\<forall>q \<in> set (regs (rlHost s) t). rgListener q \<noteq> rgListener ?r" using num by fastforce
  obtain e h where add: "ewAdd w t ?r (rlHost s) = (e, h)" by fastforce
  let ?l = "\<lparr>ilDomEventName = name, ilEventSystemFlags = fl, ilIsCapturePhaseListener = capture, ilListener = rlNext s,
      ilListenerOptions = ?o, ilListenerOptionsInfo = describeListenerOptions ?o,
      ilListenerSetKey = getListenerSetKey name capture, ilTarget = t\<rparr>"
  let ?sh = "(rlShells s)(rlNext s \<mapsto> \<lparr>shTarget = t, shName = name, shFlags = fl,
      shWrapper = createEventListenerWrapperRecordWithPriority t name fl \<lparr>poSchedulerPriority = None, poCurrentLevel = None\<rparr>\<rparr>)"
  let ?s = "s\<lparr>rlHost := h, rlShells := ?sh, rlNext := rlNext s + 2\<rparr>"
  have run': "(res, s') = (case e of Some err \<Rightarrow> (Inl err, ?s) | None \<Rightarrow> (Inr ?l, ?s))"
    using run add by (cases e) (auto simp: addTrappedEventListenerRecord_def addShell_def createEventListenerShell_def)
  show thesis
  proof (cases e)
    case None
    have l: "listens t name capture fl passive ?l" "regOf ?l = ?r" "?sh (rlNext s) = Some (shellOf ?l)"
      by (simp_all add: listens_def regOf_def shellOf_def)
    have h: "regs h = (regs (rlHost s))(t := regs (rlHost s) t @ [regOf ?l])"
      using add_ok [OF new] add None unfolding l(2) by blast
    show thesis by (rule that(2) [of ?l h ?sh]) (use run' None l h in simp_all)
  next
    case (Some err)
    show thesis by (rule that(1) [of err h ?sh]) (use run' Some add add_throws in auto)
  qed
qed

text \<open>One call: an error, a key the set has already, or a new listener.\<close>
lemma listenWithKey_cases:
  assumes inst: "installed regs T s0 ls s" and num: "numbered regs s0" and t: "t \<in> T" and has: "lrHasAdd (rlReg s0) t"
    and run: "listenWithKey w name capture fl (EvObj t) passive s = (res, s')"
  obtains e where "res = Inl e" "installed regs T s0 ls s'"
  | "res = Inr None" "getListenerSetKey name capture \<in> set (setOf s t)" "installed regs T s0 ls s'" "setOf s' = setOf s"
      "rlHost s' = rlHost s"
  | l where "res = Inr (Some l)" "getListenerSetKey name capture \<notin> set (setOf s t)" "listens t name capture fl passive l"
      "installed regs T s0 (ls @ [l]) s'"
proof -
  let ?k = "getListenerSetKey name capture"
  let ?s = "s\<lparr>rlReg := (rlReg s)\<lparr>lrSets := (lrSets (rlReg s))(t \<mapsto> setOf s t)\<rparr>\<rparr>"
  have inst1: "installed regs T s0 ls ?s" by (rule installed_get_set [OF inst t])
  have same: "setOf ?s = setOf s" by (rule ext) (simp add: setOf_def)
  have get: "getEventListenerSet (EvObj t) (rlReg s) = (Inr (setOf s t), rlReg ?s)"
    using getEventListenerSet_object [of s t] has installed_const(1) [OF inst] by simp
  show thesis
  proof (cases "?k \<in> set (setOf s t)")
    case True
    then have "res = Inr None" "s' = ?s" using run get by (simp_all add: listenWithKey_def)
    then show thesis using that(2) True inst1 same by simp
  next
    case False
    obtain res1 s1 where add: "addTrappedEventListenerRecord w t name fl capture passive ?s = (res1, s1)" by fastforce
    have low: "\<forall>q \<in> set (regs (rlHost ?s) t). rgListener q < rlNext ?s"
      using num installedD(1,11,12) [OF inst] by (fastforce simp: numbered_def)
    show thesis
      using low add
    proof (cases rule: addRecord_cases)
      case (1 e h sh)
      then show thesis using that(1) [of e] run get add False installed_host [OF inst1, of h "rlNext s + 2" sh]
        by (simp add: listenWithKey_def)
    next
      case (2 l h sh)
      have l: "ilTarget l = t" "ilListenerSetKey l = ?k" using 2(2) by (simp_all add: listens_def)
      have "installed regs T s0 (ls @ [l]) (addSetKey t ?k s1)"
        using installed_add [OF inst1, of l h "rlNext s + 2" sh] 2 l t False same by simp
      then show thesis using that(3) [of l] run get add False 2(1,2) by (simp add: listenWithKey_def)
    qed
  qed
qed

end

subsection \<open>The events of a root\<close>

fun listenPairs ::
  "'h event_world \<Rightarrow> ev_value \<Rightarrow> bool \<Rightarrow> (string \<times> bool) list \<Rightarrow> installed_listener list \<times> 'h rl_state \<Rightarrow>
     dom_error option \<times> installed_listener list \<times> 'h rl_state" where
  "listenPairs w target passive [] acc = (None, acc)"
| "listenPairs w target passive ((name, capture) # ps) acc =
     (case listenAndPush w name capture target passive acc of
        (Some e, acc') \<Rightarrow> (Some e, acc')
      | (None, acc') \<Rightarrow> listenPairs w target passive ps acc')"

definition listenerPairs :: "string list \<Rightarrow> (string \<times> bool) list" where
  "listenerPairs names =
     concat (map (\<lambda>n. if n = ''selectionchange'' then [] else (if isNonDelegatedEvent n then [] else [(n, False)]) @ [(n, True)]) names)"

lemma listenToEvents_pairs: "listenToEvents w target passive names acc = listenPairs w target passive (listenerPairs names) acc"
  by (induction names arbitrary: acc) (auto simp: listenerPairs_def split: prod.splits option.splits)

lemma listenPairs_append:
  "listenPairs w target passive (ps @ qs) acc =
     (case listenPairs w target passive ps acc of
        (Some e, acc') \<Rightarrow> (Some e, acc')
      | (None, acc') \<Rightarrow> listenPairs w target passive qs acc')"
  by (induction ps arbitrary: acc) (auto split: prod.splits option.splits)

text \<open>The pairs \<open>listenToNativeEventRecord\<close> accepts.\<close>
definition listenable :: "string \<times> bool \<Rightarrow> bool" where
  "listenable p \<longleftrightarrow> isKnownNativeEvent (fst p) \<and> (isNonDelegatedEvent (fst p) \<longrightarrow> snd p)"

definition phaseFlags :: "bool \<Rightarrow> flags" where
  "phaseFlags capture = (if capture then 0 OR IS_CAPTURE_PHASE else 0)"

lemma listenerPairs_listenable: "p \<in> set (listenerPairs allNativeEvents) \<Longrightarrow> listenable p"
  by (auto simp: listenerPairs_def listenable_def isKnownNativeEvent_def split: if_splits)

lemma getListenerSetKey_inject: "getListenerSetKey n c = getListenerSetKey n' c' \<longleftrightarrow> n = n' \<and> c = c'"
proof -
  have "rev (getListenerSetKey n True) ! 1 \<noteq> rev (getListenerSetKey n' False) ! 1" for n n' by (simp add: getListenerSetKey_def)
  then have "getListenerSetKey n True \<noteq> getListenerSetKey n' False" for n n' by metis
  then show ?thesis by (cases c; cases c') (auto simp: getListenerSetKey_def dest: sym)
qed

context event_host_laws
begin

lemma listenAndPush_cases:
  assumes inst: "installed regs T s0 ls s" and num: "numbered regs s0" and t: "t \<in> T" and has: "lrHasAdd (rlReg s0) t"
    and ok: "listenable (name, capture)"
    and run: "listenAndPush w name capture (EvObj t) passive (ls, s) = (err, ls', s')"
  obtains e where "err = Some e" "ls' = ls" "installed regs T s0 ls s'"
  | "err = None" "ls' = ls" "getListenerSetKey name capture \<in> set (setOf s t)" "installed regs T s0 ls s'" "setOf s' = setOf s"
      "rlHost s' = rlHost s"
  | l where "err = None" "ls' = ls @ [l]" "getListenerSetKey name capture \<notin> set (setOf s t)"
      "listens t name capture (phaseFlags capture) passive l" "installed regs T s0 (ls @ [l]) s'"
proof -
  obtain res s1 where go: "listenWithKey w name capture (phaseFlags capture) (EvObj t) passive s = (res, s1)" by fastforce
  have run': "(err, ls', s') = (case res of Inl e \<Rightarrow> (Some e, ls, s1) | Inr r \<Rightarrow> (None, pushListenerRecord ls r, s1))"
    using run go ok by (cases res) (auto simp: listenAndPush_def listenToNativeEventRecord_def listenable_def phaseFlags_def)
  show thesis
    using inst num t has go
    by (cases rule: listenWithKey_cases) (use run' that in \<open>auto simp: pushListenerRecord_def\<close>)
qed

text \<open>The listeners a run adds, in order: one per pair whose key the set does not have.\<close>
lemma listenPairs_installed:
  assumes inst: "installed regs T s0 ls s" and num: "numbered regs s0" and t: "t \<in> T" and has: "lrHasAdd (rlReg s0) t"
    and ok: "\<forall>p \<in> set ps. listenable p" and dist: "distinct ps"
    and run: "listenPairs w (EvObj t) passive ps (ls, s) = (err, ls', s')"
  shows "\<exists>new. ls' = ls @ new \<and> installed regs T s0 ls' s' \<and> ilTarget ` set new \<subseteq> {t} \<and>
     (err = None \<longrightarrow> list_all2 (\<lambda>p l. listens t (fst p) (snd p) (phaseFlags (snd p)) passive l)
        (filter (\<lambda>p. getListenerSetKey (fst p) (snd p) \<notin> set (setOf s t)) ps) new)"
  using inst ok dist run
proof (induction ps arbitrary: ls s)
  case Nil
  then show ?case by simp
next
  case (Cons p ps)
  obtain name capture where p: "p = (name, capture)" by fastforce
  obtain e1 ls1 s1 where go: "listenAndPush w name capture (EvObj t) passive (ls, s) = (e1, ls1, s1)" by (metis prod_cases3)
  have here: "listenable (name, capture)" using Cons.prems(2) p by simp
  let ?fresh = "\<lambda>s p. getListenerSetKey (fst p) (snd p) \<notin> set (setOf s t)"
  show ?case
    using Cons.prems(1) num t has here go
  proof (cases rule: listenAndPush_cases)
    case (1 e)
    then show ?thesis using Cons.prems(4) go p by auto
  next
    case 2
    then show ?thesis using Cons.IH [of ls s1] Cons.prems(2-4) go p by (simp add: 2(5))
  next
    case (3 l)
    have tl: "ilTarget l = t" "ilListenerSetKey l = getListenerSetKey name capture" using 3(4) by (simp_all add: listens_def)
    have set1: "setOf s1 t = setOf s t @ [getListenerSetKey name capture]"
      using installedD(2) [OF 3(5), of t] installedD(2) [OF Cons.prems(1), of t] tl by simp
    have other: "getListenerSetKey (fst q) (snd q) \<noteq> getListenerSetKey name capture" if "q \<in> set ps" for q
    proof -
      have "q \<noteq> (name, capture)" using that Cons.prems(3) p by auto
      then show ?thesis by (auto simp: getListenerSetKey_inject prod_eq_iff)
    qed
    have same: "filter (?fresh s1) ps = filter (?fresh s) ps"
      by (rule filter_cong) (use other set1 in auto)
    obtain new where "ls' = (ls @ [l]) @ new" "installed regs T s0 ls' s'" "ilTarget ` set new \<subseteq> {t}"
      "err = None \<longrightarrow> list_all2 (\<lambda>p l. listens t (fst p) (snd p) (phaseFlags (snd p)) passive l) (filter (?fresh s) ps) new"
      using Cons.IH [OF 3(5)] Cons.prems(2-4) go p 3(1,2) same by auto
    then show ?thesis using 3(3,4) p tl by (intro exI [of _ "l # new"]) simp
  qed
qed

end

lemma allNativeEvents_distinct: "distinct allNativeEvents"
  by (simp add: allNativeEvents_def)

lemma listenerPairs_distinct: "distinct names \<Longrightarrow> distinct (listenerPairs names)"
  by (induction names) (auto simp: listenerPairs_def split: if_splits)

lemma selectionchange_listenable: "listenable (''selectionchange'', False)"
  by (simp add: listenable_def isKnownNativeEvent_def isNonDelegatedEvent_def allNativeEvents_def nonDelegatedEvents_def mediaEventTypes_def)

subsection \<open>Cleaning up\<close>

context event_host_laws
begin

lemma installRootListeners_installed:
  assumes inst: "installed regs T s0 [] s" and num: "numbered regs s0" and t: "t \<in> T" and has: "lrHasAdd (rlReg s0) t"
    and doc: "doc = EvVal DNull \<or> (\<exists>d. doc = EvObj d \<and> d \<in> T)"
    and run: "installRootListeners w (EvObj t) doc passive s = (err, ls, s')"
  shows "installed regs T s0 ls s'"
proof -
  obtain e1 ls1 s1 where go: "listenToEvents w (EvObj t) passive allNativeEvents ([], s) = (e1, ls1, s1)" by (metis prod_cases3)
  have i1: "installed regs T s0 ls1 s1"
    using listenPairs_installed [OF inst num t has, of "listenerPairs allNativeEvents"] go
      listenerPairs_listenable listenerPairs_distinct [OF allNativeEvents_distinct]
    by (fastforce simp: listenToEvents_pairs)
  show ?thesis
  proof (cases "e1 = None \<and> doc \<noteq> EvVal DNull")
    case True
    then obtain d where d: "doc = EvObj d" "d \<in> T" using doc by blast
    obtain e2 r where mark: "markTargetAsListening (EvObj d) (rlReg s1) = (e2, r)" by fastforce
    have i2: "installed regs T s0 ls1 (s1\<lparr>rlReg := r\<rparr>)" by (rule installed_mark [OF i1 d(2) mark])
    show ?thesis
    proof (cases e2)
      case None
      then have has_d: "lrHasAdd (rlReg s0) d" using mark installed_const(1) [OF i1]
        by (auto simp: markTargetAsListening_def assertEventTarget_def Let_def split: if_splits)
      have "listenAndPush w ''selectionchange'' False (EvObj d) passive (ls1, s1\<lparr>rlReg := r\<rparr>) = (err, ls, s')"
        using run go True d mark None by (simp add: installRootListeners_def)
      with i2 num d(2) has_d selectionchange_listenable show ?thesis
        by (cases rule: listenAndPush_cases) simp_all
    qed (use run go True d mark i2 in \<open>simp add: installRootListeners_def\<close>)
  qed (use run go i1 in \<open>auto simp: installRootListeners_def split: option.splits if_splits\<close>)
qed

lemma removeInstalledListener_undoes:
  assumes inst: "installed regs T s0 (ls @ [l]) s" and num: "numbered regs s0"
  shows "\<exists>s'. removeInstalledListener w l (a, b) s = (None, (a + 1, b + 1), s') \<and> installed regs T s0 ls s'"
proof -
  let ?t = "ilTarget l" and ?k = "ilListenerSetKey l"
  note D = installedD [OF inst]
  have old: "rgListener q < rlNext s0" if "q \<in> set (regs (rlHost s0) u)" for q u
    using num that by (auto simp: numbered_def)
  have once: "\<forall>q \<in> set (regs (rlHost s0) ?t @ map regOf (onTarget ?t ls)). rgListener q \<noteq> rgListener (regOf l)"
  proof
    fix q assume "q \<in> set (regs (rlHost s0) ?t @ map regOf (onTarget ?t ls))"
    then consider "q \<in> set (regs (rlHost s0) ?t)" | m where "m \<in> set ls" "q = regOf m" by auto
    then show "rgListener q \<noteq> rgListener (regOf l)"
    proof cases
      case 1
      then show ?thesis using old [of q ?t] D(11) [of l] by simp
    next
      case 2
      have "ilListener l \<notin> ilListener ` set ls" using D(10) by simp
      then have "ilListener m \<noteq> ilListener l" using imageI [OF 2(1), of ilListener] by metis
      then show ?thesis using 2(2) by simp
    qed
  qed
  obtain h where rm: "ewRemove w ?t (regOf l) (rlHost s) = (None, h)"
      and h: "regs h = (regs (rlHost s))(?t := regs (rlHost s0) ?t @ map regOf (onTarget ?t ls))"
    using remove_ok [of "rlHost s" ?t "regs (rlHost s0) ?t @ map regOf (onTarget ?t ls)" "regOf l" "[]"] D(1) [of ?t] once by auto
  have set: "lrSets (rlReg s) ?t = Some (setOf s ?t)"
    using D(2) [of ?t] by (auto simp: setOf_def split: option.splits)
  have del: "removeAll ?k (setOf s ?t) = setOf s0 ?t @ map ilListenerSetKey (onTarget ?t ls)"
    using D(2-4) [of ?t] by (auto simp: removeAll_id)
  let ?s = "s\<lparr>rlHost := h, rlReg := (rlReg s)\<lparr>lrSets := (lrSets (rlReg s))(?t \<mapsto> removeAll ?k (setOf s ?t))\<rparr>\<rparr>"
  have step: "removeInstalledListener w l (a, b) s = (None, (a + 1, b + 1), ?s)"
    using rm set by (simp add: removeInstalledListener_def regOf_def Let_def)
  have sets: "setOf ?s u = setOf s0 u @ map ilListenerSetKey (onTarget u ls)" for u
    using D(2) [of u] del by (auto simp: setOf_def)
  have "installed regs T s0 ls ?s"
    unfolding installed_def
  proof (intro conjI)
    show "\<forall>u. regs (rlHost ?s) u = regs (rlHost s0) u @ map regOf (onTarget u ls)" using h D(1) by auto
    show "\<forall>u. distinct (map ilListenerSetKey (onTarget u ls)) \<and> set (setOf s0 u) \<inter> ilListenerSetKey ` set (onTarget u ls) = {}"
    proof
      fix u
      show "distinct (map ilListenerSetKey (onTarget u ls)) \<and> set (setOf s0 u) \<inter> ilListenerSetKey ` set (onTarget u ls) = {}"
        using D(3) [of u] D(4) [of u] by (simp add: image_Un Int_Un_distrib)
    qed
    show "restOf (rlReg ?s) = restOf (rlReg s0)" using D(9) by (simp add: restOf_def)
    show "\<forall>u. u \<notin> T \<longrightarrow> lrSets (rlReg ?s) u = lrSets (rlReg s0) u \<and> lrOwn (rlReg ?s) u = lrOwn (rlReg s0) u"
      using D(6,7,13) by auto
  qed (use D sets in auto)
  then show ?thesis using step by blast
qed

lemma removeInstalledListeners_undoes:
  assumes "installed regs T s0 ls s" "numbered regs s0"
  shows "\<exists>s'. removeInstalledListeners w (rev ls) (a, b) s = (None, (a + length ls, b + length ls), s') \<and> installed regs T s0 [] s'"
  using assms
proof (induction ls arbitrary: s a b rule: rev_induct)
  case (snoc l ls)
  then obtain s1 where "removeInstalledListener w l (a, b) s = (None, (a + 1, b + 1), s1)" "installed regs T s0 ls s1"
    using removeInstalledListener_undoes by blast
  then show ?case using snoc.IH [of s1 "a + 1" "b + 1"] snoc.prems(2) by auto
qed auto

end

subsection \<open>Restoring the targets\<close>

lemma setOwn_putTrue: "map_of ps k = Some v \<Longrightarrow> setOwn k v (putTrue k ps) = ps"
  by (induction k ps rule: putTrue.induct) (auto split: if_splits)

lemma setOwn_own: "map_of ps k = Some v \<Longrightarrow> setOwn k v ps = ps"
  by (induction ps) (auto split: if_splits)

lemma deleteOwn_unmapped: "map_of ps k = None \<Longrightarrow> deleteOwn k ps = ps"
  by (induction ps) (auto simp: deleteOwn_def split: if_splits)

lemma deleteOwn_putTrue: "map_of ps k = None \<Longrightarrow> deleteOwn k (putTrue k ps) = ps"
  by (induction k ps rule: putTrue.induct) (auto simp: deleteOwn_def deleteOwn_unmapped [unfolded deleteOwn_def] split: if_splits)

text \<open>A snapshot gives its target back the marker and the absence of a listener set.\<close>
lemma restoreSnapshot_target:
  assumes inst: "installed regs T s0 [] s" and t: "t \<in> T"
    and snap: "snTarget sn = EvObj t" "snHadEventHandlersKey sn = snHadEventHandlersKey (snapshotListenerTarget w s0 (EvObj t))"
      "snHadListeningMarker sn = snHadListeningMarker (snapshotListenerTarget w s0 (EvObj t))"
      "snListeningMarkerValue sn = snListeningMarkerValue (snapshotListenerTarget w s0 (EvObj t))"
  shows "installed regs (T - {t}) s0 [] (restoreSnapshot sn s)"
proof -
  let ?r = "rlReg s" and ?old = "rlReg s0" and ?s = "restoreSnapshot sn s"
  let ?m = "internalListeningMarker ?old"
  note D = installedD [OF inst]
  have m: "internalListeningMarker ?r = ?m" by (rule installed_const(2) [OF inst])
  have had: "snHadListeningMarker sn \<longleftrightarrow> map_of (lrOwn ?old t) ?m \<noteq> None"
      "snListeningMarkerValue sn = getOwn ?m (lrOwn ?old t)" "snHadEventHandlersKey sn \<longleftrightarrow> lrSets ?old t \<noteq> None"
    using snap(2-4) by (simp_all add: snapshotListenerTarget_def Let_def)
  have own: "lrOwn (rlReg ?s) = (lrOwn ?r)(t := lrOwn ?old t)"
    using D(8) [of t] m had(1,2) snap(1)
    by (auto simp: restoreSnapshot_def Let_def getOwn_def setOwn_own setOwn_putTrue deleteOwn_unmapped deleteOwn_putTrue)
  have eq: "setOf s u = setOf s0 u" for u using D(2) [of u] by simp
  have same: "lrSets ?r t = lrSets ?old t \<or> lrSets ?r t = Some [] \<and> lrSets ?old t = None"
    using eq [of t] D(5) [of t] by (auto simp: setOf_def split: option.splits)
  have sets: "lrSets (rlReg ?s) = (lrSets ?r)(t := lrSets ?old t)"
    using same had(3) snap(1) by (auto simp: restoreSnapshot_def Let_def fun_eq_iff)
  have eqs: "setOf ?s u = setOf s0 u" for u using eq [of u] sets by (auto simp: setOf_def)
  have rest: "restOf (rlReg ?s) = restOf ?r" "rlHost ?s = rlHost s" "rlNext ?s = rlNext s"
      "rlRegistrations ?s = rlRegistrations s" "rlCleanups ?s = rlCleanups s"
    using snap(1) by (simp_all add: restoreSnapshot_def Let_def restOf_def)
  show ?thesis
    unfolding installed_def
  proof (intro conjI)
    show "\<forall>u. lrSets ?old u \<noteq> None \<longrightarrow> lrSets (rlReg ?s) u \<noteq> None" using D(5) sets by auto
    show "\<forall>u. u \<notin> T - {t} \<longrightarrow> lrSets (rlReg ?s) u = lrSets ?old u \<and> lrOwn (rlReg ?s) u = lrOwn ?old u"
      using D(6,7) own sets by auto
    show "restOf (rlReg ?s) = restOf ?old" using rest(1) D(9) by simp
    show "\<forall>u. lrOwn (rlReg ?s) u = lrOwn ?old u \<or> lrOwn (rlReg ?s) u = putTrue ?m (lrOwn ?old u)"
      using D(8) own by auto
  qed (use D rest eqs in auto)
qed

text \<open>The targets as they were: the whole registry, and the registrations of the host.\<close>
definition targetsAsBefore :: "('h \<Rightarrow> nat \<Rightarrow> registration list) \<Rightarrow> 'h rl_state \<Rightarrow> 'h rl_state \<Rightarrow> bool" where
  "targetsAsBefore regs s0 s \<longleftrightarrow> rlReg s = rlReg s0 \<and> regs (rlHost s) = regs (rlHost s0)"

lemma installed_nothing: "installed regs {} s0 [] s \<Longrightarrow> targetsAsBefore regs s0 s"
  using installedD(1,6,7,9) [of regs "{}" s0 "[]" s]
  by (auto simp: targetsAsBefore_def restOf_def fun_eq_iff intro!: listener_state.equality)

lemma restoreSnapshots_targets:
  assumes "installed regs T s0 [] s" "T = {t. EvObj t \<in> snTarget ` set sns}"
    "\<forall>sn \<in> set sns. \<exists>t. snTarget sn = EvObj t \<and> snHadEventHandlersKey sn = snHadEventHandlersKey (snapshotListenerTarget w s0 (EvObj t)) \<and>
      snHadListeningMarker sn = snHadListeningMarker (snapshotListenerTarget w s0 (EvObj t)) \<and>
      snListeningMarkerValue sn = snListeningMarkerValue (snapshotListenerTarget w s0 (EvObj t))"
    "distinct (map snTarget sns)"
  shows "installed regs {} s0 [] (fold restoreSnapshot sns s)"
  using assms
proof (induction sns arbitrary: T s)
  case (Cons sn sns)
  then obtain t where t: "snTarget sn = EvObj t"
      "snHadEventHandlersKey sn = snHadEventHandlersKey (snapshotListenerTarget w s0 (EvObj t))"
      "snHadListeningMarker sn = snHadListeningMarker (snapshotListenerTarget w s0 (EvObj t))"
      "snListeningMarkerValue sn = snListeningMarkerValue (snapshotListenerTarget w s0 (EvObj t))" by auto
  have "installed regs (T - {t}) s0 [] (restoreSnapshot sn s)"
    by (rule restoreSnapshot_target [OF Cons.prems(1) _ t]) (use Cons.prems(2) t(1) in auto)
  moreover have "T - {t} = {u. EvObj u \<in> snTarget ` set sns}"
    using Cons.prems(2,4) t(1) by (auto simp: image_iff)
  ultimately show ?case using Cons.IH Cons.prems(3,4) by simp
qed simp

end
