(* ===== verification/Listener_Props.thy ===== *)
theory Listener_Props
  imports Listener_Host
begin

text \<open>
  The root listeners as a whole: registering and reverting, what a failed registration leaves
  behind, what is installed, and the intents of a portal. The host is the locale
  \<open>event_host_laws\<close>; the event target class of the repository's tests is its instance here.
\<close>

subsection \<open>The event target of the tests\<close>

record fake_targets =
  ftRegistrations :: "nat \<Rightarrow> registration list"
  ftRemovals :: "nat \<Rightarrow> registration list"

definition fakeAddEventListener :: "nat \<Rightarrow> registration \<Rightarrow> fake_targets \<Rightarrow> dom_error option \<times> fake_targets" where
  "fakeAddEventListener t r h =
     (None, h\<lparr>ftRegistrations := (ftRegistrations h)(t := ftRegistrations h t @ [r])\<rparr>)"

definition fakeRemoveEventListener :: "nat \<Rightarrow> registration \<Rightarrow> fake_targets \<Rightarrow> dom_error option \<times> fake_targets" where
  "fakeRemoveEventListener t r h =
     (None, h\<lparr>ftRegistrations := (ftRegistrations h)(t := remove1 r (ftRegistrations h t)),
              ftRemovals := (ftRemovals h)(t := ftRemovals h t @ [r])\<rparr>)"

definition fakeEventWorld :: "container_heap \<Rightarrow> (dval \<Rightarrow> nat option) \<Rightarrow> fake_targets event_world" where
  "fakeEventWorld H docOf =
     \<lparr>ewAdd = fakeAddEventListener, ewRemove = fakeRemoveEventListener, ewHasRemove = (\<lambda>t. True),
      ewRegistrations = (\<lambda>h t. Some (ftRegistrations h t)), ewContainers = H, ewDocOf = docOf\<rparr>"

interpretation fake_host: event_host_laws "fakeEventWorld H docOf" ftRegistrations for H docOf
proof unfold_locales
  fix h :: fake_targets and t xs r ys
  assume "ftRegistrations h t = xs @ r # ys" "\<forall>q \<in> set (xs @ ys). rgListener q \<noteq> rgListener r"
  then have "remove1 r (ftRegistrations h t) = xs @ ys" by (auto simp: remove1_append)
  then show "\<exists>h'. ewRemove (fakeEventWorld H docOf) t r h = (None, h') \<and> ftRegistrations h' = (ftRegistrations h)(t := xs @ ys)"
    by (simp add: fakeEventWorld_def fakeRemoveEventListener_def)
qed (auto simp: fakeEventWorld_def fakeAddEventListener_def fakeRemoveEventListener_def)

subsection \<open>Registering\<close>

definition rootTargets :: "'h event_world \<Rightarrow> nat \<Rightarrow> ev_value list" where
  "rootTargets w t = uniqueTargets [EvObj t, ownerDocumentTarget w (EvObj t)]"

lemma rootTargets_cases:
  "rootTargets w t = [EvObj t] \<and> ownerDocumentTarget w (EvObj t) \<in> {EvObj t, EvVal DNull, EvVal DUndef} \<or>
   rootTargets w t = [EvObj t, ownerDocumentTarget w (EvObj t)] \<and>
     ownerDocumentTarget w (EvObj t) \<notin> {EvObj t, EvVal DNull, EvVal DUndef}"
  by (auto simp: rootTargets_def uniqueTargets_def)

lemma snapshotListenerTarget_target [simp]: "snTarget (snapshotListenerTarget w s v) = v"
  by (simp add: snapshotListenerTarget_def Let_def)

lemma assertReversibleTargets_ok:
  "assertReversibleTargets w s ts = None \<Longrightarrow> v \<in> set ts \<Longrightarrow> \<exists>t. v = EvObj t \<and> lrHasAdd (rlReg s) t \<and> ewHasRemove w t"
  by (induction ts)
    (auto simp: assertReversibleEventTarget_def assertEventTarget_def Let_def split: option.splits sum.splits ev_value.splits if_splits)

lemma ownerDocumentTarget_not_undef: "(\<forall>d. dtruthy d \<longrightarrow> d \<noteq> DUndef) \<Longrightarrow> ownerDocumentTarget w v \<noteq> EvVal DUndef"
  by (auto simp: ownerDocumentTarget_def getOwnerDocument_def split: option.splits sum.splits container_arg.splits if_splits)

lemma rootTargets_simps:
  "distinct (rootTargets w t)" "EvObj t \<in> set (rootTargets w t)"
  "ownerDocumentTarget w (EvObj t) \<noteq> EvVal DNull \<Longrightarrow> ownerDocumentTarget w (EvObj t) \<in> set (rootTargets w t)"
proof -
  have u: "ownerDocumentTarget w (EvObj t) \<noteq> EvVal DUndef"
    by (rule ownerDocumentTarget_not_undef) (metis dtruthy.simps(1))
  show "distinct (rootTargets w t)" "EvObj t \<in> set (rootTargets w t)"
    "ownerDocumentTarget w (EvObj t) \<noteq> EvVal DNull \<Longrightarrow> ownerDocumentTarget w (EvObj t) \<in> set (rootTargets w t)"
    using rootTargets_cases [of w t] u by (auto simp del: insert_iff simp: insert_iff)
qed

definition targetNumbers :: "'h event_world \<Rightarrow> nat \<Rightarrow> nat set" where
  "targetNumbers w t = {u. EvObj u \<in> set (rootTargets w t)}"

context event_host_laws
begin

lemma cleanup_undoes:
  assumes inst: "installed regs (targetNumbers w t) s0 ls s" and num: "numbered regs s0"
    and objs: "assertReversibleTargets w s0 (rootTargets w t) = None"
    and sns: "map snTarget sns = rootTargets w t"
      "\<forall>sn \<in> set sns. snHadEventHandlersKey sn = snHadEventHandlersKey (snapshotListenerTarget w s0 (snTarget sn)) \<and>
        snHadListeningMarker sn = snHadListeningMarker (snapshotListenerTarget w s0 (snTarget sn)) \<and>
        snListeningMarkerValue sn = snListeningMarkerValue (snapshotListenerTarget w s0 (snTarget sn))"
  shows "\<exists>s'. cleanupInstalledRootListeners w ls sns s = (Inr (length ls, length ls, length sns), s') \<and>
     installed regs {} s0 [] s'"
proof -
  obtain s1 where rm: "removeInstalledListeners w (rev ls) (0, 0) s = (None, (length ls, length ls), s1)"
      and i: "installed regs (targetNumbers w t) s0 [] s1"
    using removeInstalledListeners_undoes [OF inst num, of 0 0] by auto
  have tg: "snTarget ` set sns = set (rootTargets w t)" using arg_cong [OF sns(1), of set] by simp
  have obj: "\<exists>u. snTarget sn = EvObj u" if "sn \<in> set sns" for sn
    using assertReversibleTargets_ok [OF objs] that tg by blast
  have "installed regs {} s0 [] (fold restoreSnapshot sns s1)"
    by (rule restoreSnapshots_targets [OF i, where w = w])
      (use obj sns(2) tg rootTargets_simps(1) [of w t] in \<open>fastforce simp: targetNumbers_def sns(1)\<close>)+
  then show ?thesis using rm by (simp add: cleanupInstalledRootListeners_def)
qed

lemma installed_trans_nothing:
  "installed regs {} s0 [] s \<Longrightarrow> rlRegistrations s = rlRegistrations s0 \<and> rlCleanups s = rlCleanups s0"
  using installedD(14,15) by blast

text \<open>The two outcomes of a reversible registration.\<close>
lemma register_cases:
  assumes num: "numbered regs s" and has: "lrHasAdd (rlReg s) t"
    and run: "registerSupportedRootListeners w t passive True s = (res, s')"
  obtains e where "res = Inl e" "installed regs {} s [] s'"
  | ls s1 r sns where "res = Inr (Some (rlNext s1))" "installed regs (targetNumbers w t) s ls s1"
      "assertReversibleTargets w s (rootTargets w t) = None"
      "installRootListeners w (EvObj t) (ownerDocumentTarget w (EvObj t)) passive (s\<lparr>rlReg := r\<rparr>) = (None, ls, s1)"
      "markTargetAsListening (EvObj t) (rlReg s) = (None, r)"
      "sns = map (\<lambda>v. (snapshotListenerTarget w s v)\<lparr>snAfterInfo := Some (describeListenerTargetSnapshot w s1 v)\<rparr>) (rootTargets w t)"
      "rlRegistrations s' = (rlRegistrations s1)(rlNext s1 \<mapsto>
         \<lparr>rpActive = True, rpInstalledListeners = ls, rpOwnerDocument = ownerDocumentTarget w (EvObj t),
          rpRecord = rpRecord (the (rlRegistrations s' (rlNext s1))), rpRootContainerElement = t, rpTargetSnapshots = sns\<rparr>)"
      "rrRegistrationCount (rpRecord (the (rlRegistrations s' (rlNext s1)))) = length ls"
      "rrListenerRecords (rpRecord (the (rlRegistrations s' (rlNext s1)))) = map (summarizeInstalledListenerRecord w) ls"
      "s' = s1\<lparr>rlRegistrations := rlRegistrations s', rlNext := rlNext s1 + 1\<rparr>"
proof -
  let ?doc = "ownerDocumentTarget w (EvObj t)" and ?T = "targetNumbers w t"
  note unf = registerSupportedRootListeners_def rootTargets_def [symmetric] Let_def
  show thesis
  proof (cases "assertReversibleTargets w s (rootTargets w t)")
    case (Some e)
    then show thesis using that(1) [of e] run by (simp add: unf)
  next
    case None
    obtain m r where mark: "markTargetAsListening (EvObj t) (rlReg s) = (m, r)" by fastforce
    have m: "m = None" using mark has by (auto simp: markTargetAsListening_def assertEventTarget_def)
    have t: "t \<in> ?T" using rootTargets_simps(2) [of t w] by (simp add: targetNumbers_def)
    have i0: "installed regs ?T s [] (s\<lparr>rlReg := r\<rparr>)" by (rule installed_mark [OF installed_refl t mark])
    have doc: "?doc = EvVal DNull \<or> (\<exists>d. ?doc = EvObj d \<and> d \<in> ?T)"
      using assertReversibleTargets_ok [OF None] rootTargets_simps(3) [of w t] by (fastforce simp: targetNumbers_def)
    obtain err ls s1 where go: "installRootListeners w (EvObj t) ?doc passive (s\<lparr>rlReg := r\<rparr>) = (err, ls, s1)"
      by (metis prod_cases3)
    have i1: "installed regs ?T s ls s1" by (rule installRootListeners_installed [OF i0 num t has doc go])
    show thesis
    proof (cases err)
      case (Some e)
      obtain s2 where "cleanupInstalledRootListeners w ls (map (snapshotListenerTarget w s) (rootTargets w t)) s1 =
            (Inr (length ls, length ls, length (rootTargets w t)), s2)" "installed regs {} s [] s2"
        using cleanup_undoes [OF i1 num None, of "map (snapshotListenerTarget w s) (rootTargets w t)"]
        by (auto simp: snapshotListenerTarget_def Let_def comp_def)
      then show thesis using that(1) [of e] run None mark m go Some by (simp add: unf)
    next
      case None': None
      show thesis
        by (rule that(2) [of s1 ls r, OF _ i1 None _ _ refl])
          (use run None mark m go None' in \<open>auto simp: unf comp_def\<close>)
    qed
  qed
qed

end

subsection \<open>What is installed\<close>

text \<open>The listeners a root wants: every supported event but \<open>selectionchange\<close> on the container, that one on its document.\<close>
definition rootListeners :: "nat \<Rightarrow> ev_value \<Rightarrow> (nat \<times> string \<times> bool) list" where
  "rootListeners t doc =
     map (Pair t) (listenerPairs allNativeEvents)
     @ (case doc of EvObj d \<Rightarrow> [(d, ''selectionchange'', False)] | EvVal v \<Rightarrow> [])"

text \<open>Those whose key the listener set of the target does not have.\<close>
definition missingListeners :: "(nat \<Rightarrow> string list) \<Rightarrow> nat \<Rightarrow> ev_value \<Rightarrow> (nat \<times> string \<times> bool) list" where
  "missingListeners sets t doc = filter (\<lambda>(u, n, c). getListenerSetKey n c \<notin> set (sets u)) (rootListeners t doc)"

definition listensTo :: "bool \<Rightarrow> nat \<times> string \<times> bool \<Rightarrow> installed_listener \<Rightarrow> bool" where
  "listensTo passive = (\<lambda>(u, n, c) l. listens u n c (phaseFlags c) passive l)"

lemma selectionchange_not_paired: "(''selectionchange'', c) \<notin> set (listenerPairs names)"
  by (auto simp: listenerPairs_def split: if_splits)

lemma list_all2_right: "list_all2 P xs ys \<Longrightarrow> y \<in> set ys \<Longrightarrow> \<exists>x \<in> set xs. P x y"
  by (induction xs ys rule: list_all2_induct) auto

lemma list_all2_left: "list_all2 P xs ys \<Longrightarrow> x \<in> set xs \<Longrightarrow> \<exists>y \<in> set ys. P x y"
  by (induction xs ys rule: list_all2_induct) auto

lemma list_all2_listensTo_map:
  "list_all2 (\<lambda>p l. listens t (fst p) (snd p) (phaseFlags (snd p)) passive l) ps ls \<longleftrightarrow>
   list_all2 (listensTo passive) (map (Pair t) ps) ls"
  by (simp add: list_all2_map1 listensTo_def case_prod_beta)

lemma filter_map_pairs:
  "map (Pair t) (filter (\<lambda>p. getListenerSetKey (fst p) (snd p) \<notin> set (sets t)) ps) =
   filter (\<lambda>(u, n, c). getListenerSetKey n c \<notin> set (sets u)) (map (Pair t) ps)"
  by (induction ps) auto

context event_host_laws
begin

lemma installRootListeners_list:
  assumes inst: "installed regs T s0 [] s" and num: "numbered regs s0" and t: "t \<in> T" and has: "lrHasAdd (rlReg s0) t"
    and doc: "doc = EvVal DNull \<or> (\<exists>d. doc = EvObj d \<and> d \<in> T)"
    and run: "installRootListeners w (EvObj t) doc passive s = (None, ls, s')"
  shows "list_all2 (listensTo passive) (missingListeners (setOf s0) t doc) ls" "installed regs T s0 ls s'"
proof -
  let ?ps = "listenerPairs allNativeEvents" and ?sel = "getListenerSetKey ''selectionchange'' False"
  have same: "setOf s = setOf s0" using installedD(2) [OF inst] by auto
  obtain e1 ls1 s1 where go: "listenToEvents w (EvObj t) passive allNativeEvents ([], s) = (e1, ls1, s1)" by (metis prod_cases3)
  have e1: "e1 = None" using run go by (cases e1) (simp_all add: installRootListeners_def)
  obtain i1: "installed regs T s0 ls1 s1" and tg: "ilTarget ` set ls1 \<subseteq> {t}" and
    l1: "list_all2 (listensTo passive) (map (Pair t) (filter (\<lambda>p. getListenerSetKey (fst p) (snd p) \<notin> set (setOf s0 t)) ?ps)) ls1"
    using listenPairs_installed [OF inst num t has, where ps = ?ps and err = e1 and ls' = ls1 and s' = s1] go e1
      listenerPairs_listenable listenerPairs_distinct [OF allNativeEvents_distinct]
    by (auto simp: listenToEvents_pairs same list_all2_listensTo_map)
  show "installed regs T s0 ls s'" by (rule installRootListeners_installed [OF inst num t has doc run])
  have keys: "?sel \<notin> ilListenerSetKey ` set ls1"
  proof
    assume "?sel \<in> ilListenerSetKey ` set ls1"
    then obtain l where "l \<in> set ls1" "ilListenerSetKey l = ?sel" by auto
    then obtain n c where "(n, c) \<in> set ?ps" "listensTo passive (t, n, c) l" using list_all2_right [OF l1] by fastforce
    then show False using selectionchange_not_paired [of False] \<open>ilListenerSetKey l = ?sel\<close>
      by (auto simp: listensTo_def listens_def getListenerSetKey_inject)
  qed
  have root: "list_all2 (listensTo passive) (missingListeners (setOf s0) t (EvVal v)) ls1" for v
    using l1 by (simp add: missingListeners_def rootListeners_def filter_map_pairs)
  show "list_all2 (listensTo passive) (missingListeners (setOf s0) t doc) ls"
  proof (cases "doc = EvVal DNull")
    case True
    then show ?thesis using run go e1 root by (simp add: installRootListeners_def)
  next
    case False
    then obtain d where d: "doc = EvObj d" "d \<in> T" using doc by blast
    obtain e2 r where mark: "markTargetAsListening (EvObj d) (rlReg s1) = (e2, r)" by fastforce
    have e2: "e2 = None" using run go e1 d mark by (cases e2) (simp_all add: installRootListeners_def)
    have i2: "installed regs T s0 ls1 (s1\<lparr>rlReg := r\<rparr>)" by (rule installed_mark [OF i1 d(2) mark])
    have has_d: "lrHasAdd (rlReg s0) d" using mark e2 installed_const(1) [OF i1]
      by (auto simp: markTargetAsListening_def assertEventTarget_def Let_def split: if_splits)
    have sel: "?sel \<in> set (setOf (s1\<lparr>rlReg := r\<rparr>) d) \<longleftrightarrow> ?sel \<in> set (setOf s0 d)"
      using installedD(2) [OF i2, of d] keys by auto
    have "listenAndPush w ''selectionchange'' False (EvObj d) passive (ls1, s1\<lparr>rlReg := r\<rparr>) = (None, ls, s')"
      using run go e1 d mark e2 by (simp add: installRootListeners_def)
    with i2 num d(2) has_d selectionchange_listenable show ?thesis
    proof (cases rule: listenAndPush_cases)
      case 2
      then show ?thesis using root [of DNull] sel d(1) by (simp add: missingListeners_def rootListeners_def)
    next
      case (3 l)
      then show ?thesis using root [of DNull] sel d(1)
        by (auto simp: missingListeners_def rootListeners_def listensTo_def intro: list_all2_appendI)
    qed simp
  qed
qed

end

subsection \<open>Listening again\<close>

definition marked :: "'h rl_state \<Rightarrow> nat \<Rightarrow> bool" where
  "marked s t \<longleftrightarrow> map_of (lrOwn (rlReg s) t) (internalListeningMarker (rlReg s)) = Some (DBool True)"

lemma putTrue_true: "map_of ps k = Some (DBool True) \<Longrightarrow> putTrue k ps = ps"
  by (induction k ps rule: putTrue.induct) (auto split: if_splits)

lemma mark_marked: "lrHasAdd (rlReg s) t \<Longrightarrow> marked s t \<Longrightarrow> markTargetAsListening (EvObj t) (rlReg s) = (None, rlReg s)"
  by (cases "rlReg s") (simp add: markTargetAsListening_def assertEventTarget_def marked_def putTrue_true fun_upd_idem)

lemma mark_marks: "markTargetAsListening (EvObj t) (rlReg s) = (None, r) \<Longrightarrow> marked (s\<lparr>rlReg := r\<rparr>) t"
  by (auto simp: markTargetAsListening_def assertEventTarget_def marked_def internalListeningMarker_def putTrue_own Let_def split: if_splits)

lemma mark_keeps: "markTargetAsListening v (rlReg s) = (e, r) \<Longrightarrow> marked s t \<Longrightarrow> marked (s\<lparr>rlReg := r\<rparr>) t"
  by (auto simp: markTargetAsListening_def marked_def internalListeningMarker_def putTrue_own split: sum.splits)

text \<open>Listening changes listener sets only.\<close>
definition sameMarks :: "'h rl_state \<Rightarrow> 'h rl_state \<Rightarrow> bool" where
  "sameMarks s s' \<longleftrightarrow> lrOwn (rlReg s') = lrOwn (rlReg s) \<and> lrRandomKey (rlReg s') = lrRandomKey (rlReg s)"

lemma sameMarks_marked: "sameMarks s s' \<Longrightarrow> marked s' t = marked s t"
  by (simp add: sameMarks_def marked_def internalListeningMarker_def)

lemma listenWithKey_marks: "listenWithKey w n c fl v p s = (res, s') \<Longrightarrow> sameMarks s s'"
  by (auto simp: listenWithKey_def getEventListenerSet_def sameMarks_def addTrappedEventListenerRecord_def addShell_def
      createEventListenerShell_def addSetKey_def Let_def split: sum.splits option.splits ev_value.splits prod.splits if_splits)

lemma listenAndPush_marks: "listenAndPush w n c v p acc = (e, ls, s') \<Longrightarrow> sameMarks (snd acc) s'"
  by (auto simp: listenAndPush_def listenToNativeEventRecord_def split: sum.splits prod.splits if_splits dest: listenWithKey_marks)
    (simp_all add: sameMarks_def)

lemma listenPairs_marks: "listenPairs w v p ps acc = (e, ls, s') \<Longrightarrow> sameMarks (snd acc) s'"
proof (induction ps arbitrary: acc)
  case (Cons q ps)
  then show ?case
    by (cases q) (fastforce simp: sameMarks_def split: prod.splits option.splits dest: listenAndPush_marks)
qed (simp add: sameMarks_def)

lemma installRootListeners_marks:
  assumes run: "installRootListeners w (EvObj t) doc p s = (None, ls, s')" and m: "marked s t"
  shows "marked s' t" "doc = EvObj d \<Longrightarrow> marked s' d"
proof -
  obtain e1 ls1 s1 where go: "listenToEvents w (EvObj t) p allNativeEvents ([], s) = (e1, ls1, s1)" by (metis prod_cases3)
  have e1: "e1 = None" using run go by (cases e1) (simp_all add: installRootListeners_def)
  have m1: "marked s1 t" using listenPairs_marks [of w "EvObj t" p _ "([], s)"] go m sameMarks_marked
    by (fastforce simp: listenToEvents_pairs)
  have "marked s' t \<and> (doc = EvObj d \<longrightarrow> marked s' d)"
  proof (cases "doc = EvVal DNull")
    case True
    then show ?thesis using run go e1 m1 by (simp add: installRootListeners_def)
  next
    case False
    obtain e2 r where mark: "markTargetAsListening doc (rlReg s1) = (e2, r)" by fastforce
    have e2: "e2 = None" using run go e1 False mark by (cases e2) (simp_all add: installRootListeners_def)
    have "listenAndPush w ''selectionchange'' False doc p (ls1, s1\<lparr>rlReg := r\<rparr>) = (None, ls, s')"
      using run go e1 False mark e2 by (simp add: installRootListeners_def)
    then have "sameMarks (s1\<lparr>rlReg := r\<rparr>) s'" using listenAndPush_marks by fastforce
    then show ?thesis using mark_keeps [OF mark m1] mark_marks mark e2 sameMarks_marked by metis
  qed
  then show "marked s' t" "doc = EvObj d \<Longrightarrow> marked s' d" by blast+
qed

lemma listenAndPush_present:
  assumes "lrHasAdd (rlReg s) t" "listenable (n, c)" "getListenerSetKey n c \<in> set (setOf s t)"
  shows "listenAndPush w n c (EvObj t) p (ls, s) = (None, ls, s)"
proof -
  have "lrSets (rlReg s) t = Some (setOf s t)" using assms(3) by (cases "lrSets (rlReg s) t") (simp_all add: setOf_def)
  then have "getEventListenerSet (EvObj t) (rlReg s) = (Inr (setOf s t), rlReg s)"
    using assms(1) by (simp add: getEventListenerSet_def assertEventTarget_def)
  then show ?thesis using assms(2,3)
    by (simp add: listenAndPush_def listenToNativeEventRecord_def listenWithKey_def listenable_def pushListenerRecord_def)
qed

lemma listenPairs_present:
  assumes "lrHasAdd (rlReg s) t" "\<forall>q \<in> set ps. listenable q \<and> getListenerSetKey (fst q) (snd q) \<in> set (setOf s t)"
  shows "listenPairs w (EvObj t) p ps (ls, s) = (None, ls, s)"
  using assms(2)
proof (induction ps)
  case (Cons q ps)
  then show ?case using listenAndPush_present [OF assms(1)] by (cases q) simp
qed simp

lemma installRootListeners_present:
  assumes has: "lrHasAdd (rlReg s) t" "doc = EvVal DNull \<or> (\<exists>d. doc = EvObj d \<and> lrHasAdd (rlReg s) d \<and> marked s d)"
    and none: "missingListeners (setOf s) t doc = []"
  shows "installRootListeners w (EvObj t) doc p s = (None, [], s)"
proof -
  have keys: "getListenerSetKey n c \<in> set (setOf s u)" if "(u, n, c) \<in> set (rootListeners t doc)" for u n c
    using none that by (force simp: missingListeners_def filter_empty_conv)
  have "\<forall>q \<in> set (listenerPairs allNativeEvents). listenable q \<and> getListenerSetKey (fst q) (snd q) \<in> set (setOf s t)"
    using keys listenerPairs_listenable by (fastforce simp: rootListeners_def)
  then have "listenToEvents w (EvObj t) p allNativeEvents ([], s) = (None, [], s)"
    using listenPairs_present [OF has(1)] by (simp add: listenToEvents_pairs)
  then show ?thesis
    using has(2) keys mark_marked [of s] listenAndPush_present [OF _ selectionchange_listenable, of s]
    by (auto simp: installRootListeners_def rootListeners_def)
qed

subsection \<open>Properties\<close>

text \<open>The records of registrations do not matter to what is installed.\<close>
lemma installed_records:
  "installed regs T s0 ls s \<Longrightarrow> rlNext s \<le> n \<Longrightarrow>
   installed regs T (s0\<lparr>rlRegistrations := R\<rparr>) ls (s\<lparr>rlRegistrations := R, rlNext := n\<rparr>)"
  unfolding installed_def setOf_def by fastforce

lemma snapshot_records [simp]:
  "snapshotListenerTarget w (s\<lparr>rlRegistrations := R\<rparr>) v = snapshotListenerTarget w s v"
  "assertReversibleTargets w (s\<lparr>rlRegistrations := R\<rparr>) vs = assertReversibleTargets w s vs"
  "numbered regs (s\<lparr>rlRegistrations := R\<rparr>) = numbered regs s"
  "targetsAsBefore regs (s\<lparr>rlRegistrations := R\<rparr>) s' = targetsAsBefore regs s s'"
proof -
  show "snapshotListenerTarget w (s\<lparr>rlRegistrations := R\<rparr>) v = snapshotListenerTarget w s v"
    by (cases v) (simp_all add: snapshotListenerTarget_def describeListenerTargetSnapshot_def getTargetRegistrationCount_def
        isTargetRegistrationInspectable_def canInstallListener_def)
  have "assertReversibleEventTarget w (s\<lparr>rlRegistrations := R\<rparr>) v = assertReversibleEventTarget w s v" for v
    by (simp add: assertReversibleEventTarget_def)
  then show "assertReversibleTargets w (s\<lparr>rlRegistrations := R\<rparr>) vs = assertReversibleTargets w s vs"
    by (induction vs) (simp_all split: option.splits)
qed (simp_all add: numbered_def targetsAsBefore_def)

lemma private_root_target:
  assumes "registerRootListenersForPrivateRoot w target passive s = (res, s')"
  obtains e where "res = Inl e" "s' = s"
  | t where "target = EvObj t" "lrHasAdd (rlReg s) t" "registerSupportedRootListeners w t passive True s = (res, s')"
  using assms by (cases target)
    (auto simp: registerRootListenersForPrivateRoot_def assertEventTarget_def Let_def split: if_splits)

context event_host_laws
begin

lemma register_then_revert:
  assumes num: "numbered regs s"
    and run: "registerRootListenersForPrivateRoot w target passive s = (Inr (Some k), s1)"
  shows "\<exists>c s2 p. revertRootListenersForPrivateRoot w k s1 = (Inr c, s2) \<and> targetsAsBefore regs s s2 \<and>
     rlRegistrations s1 k = Some p \<and> crListenerRemovalCount c = rrRegistrationCount (rpRecord p) \<and>
     revertRootListenersForPrivateRoot w k s2 = (Inr c, s2)"
  using run
proof (cases rule: private_root_target)
  case tgt: (2 t)
  show ?thesis
    using num tgt(2,3)
  proof (cases rule: register_cases)
    case inst: (2 ls s' r sns)
    let ?R = "rlRegistrations s1"
    have k: "k = rlNext s'" using inst(1) by simp
    obtain p where p: "?R k = Some p" "rpActive p" "rpInstalledListeners p = ls" "rpTargetSnapshots p = sns"
        "rrRegistrationCount (rpRecord p) = length ls"
      using inst(7,8) k by (metis fun_upd_same option.sel registration_payload.select_convs(1,2,6))
    have i: "installed regs (targetNumbers w t) (s\<lparr>rlRegistrations := ?R\<rparr>) ls s1"
      using installed_records [OF inst(2), of "rlNext s' + 1" ?R] inst(10) by simp
    obtain s2 where c: "cleanupInstalledRootListeners w ls sns s1 = (Inr (length ls, length ls, length sns), s2)"
        and i2: "installed regs {} (s\<lparr>rlRegistrations := ?R\<rparr>) [] s2"
      using cleanup_undoes [OF i, of sns] num inst(3,6)
      by (auto simp: comp_def)
    have before: "targetsAsBefore regs s s2" using installed_nothing [OF i2] by simp
    let ?c = "\<lparr>crListenerRemovalCount = length ls, crListenerSetKeyRemovalCount = length ls,
        crRestoredTargetCount = length sns,
        crTargetSnapshotsAfter = map (\<lambda>sn. describeListenerTargetSnapshot w s2 (snTarget sn)) sns\<rparr>"
    let ?s = "s2\<lparr>rlRegistrations := (rlRegistrations s2)(k \<mapsto> p\<lparr>rpActive := False\<rparr>),
        rlCleanups := (rlCleanups s2)(k \<mapsto> ?c)\<rparr>"
    have once: "revertRootListenersForPrivateRoot w k s1 = (Inr ?c, ?s)"
      using p(1-4) c by (simp add: revertRootListenersForPrivateRoot_def Let_def)
    have twice: "revertRootListenersForPrivateRoot w k ?s = (Inr ?c, ?s)"
      by (simp add: revertRootListenersForPrivateRoot_def)
    have "targetsAsBefore regs s ?s" using before by (simp add: targetsAsBefore_def)
    then show ?thesis using once twice p(1,5) by fastforce
  qed simp
qed simp

lemma register_failed:
  assumes num: "numbered regs s" and run: "registerRootListenersForPrivateRoot w target passive s = (Inl e, s1)"
  shows "targetsAsBefore regs s s1 \<and> rlRegistrations s1 = rlRegistrations s \<and> rlCleanups s1 = rlCleanups s"
  using run
proof (cases rule: private_root_target)
  case 1
  then show ?thesis by (simp add: targetsAsBefore_def)
next
  case tgt: (2 t)
  show ?thesis
    using num tgt(2,3)
  proof (cases rule: register_cases)
    case 1
    then show ?thesis using installed_nothing installed_trans_nothing by blast
  qed simp
qed

end

text \<open>
  C12. Registering the listeners of a private root and reverting the registration puts everything
  back: the markers, the listener sets and the listeners the host has registered are those from
  before, as many listeners are removed as were registered, and a second revert returns the same
  cleanup record and changes nothing. The host is any that keeps the laws of \<open>event_host_laws\<close>.
\<close>
theorem root_listeners_round_trip:
  assumes laws: "event_host_laws w regs" and num: "numbered regs s"
    and run: "registerRootListenersForPrivateRoot w target passive s = (Inr (Some k), s1)"
  shows "\<exists>c s2 p. revertRootListenersForPrivateRoot w k s1 = (Inr c, s2) \<and> rlReg s2 = rlReg s \<and>
     regs (rlHost s2) = regs (rlHost s) \<and> rlRegistrations s1 k = Some p \<and>
     crListenerRemovalCount c = rrRegistrationCount (rpRecord p) \<and>
     revertRootListenersForPrivateRoot w k s2 = (Inr c, s2)"
  using event_host_laws.register_then_revert [OF laws num run] by (auto simp: targetsAsBefore_def)

text \<open>A concrete root: the container 3 in the document 2, nothing listening yet.\<close>
definition demoWorld :: "fake_targets event_world" where
  "demoWorld = fakeEventWorld
     (\<lambda>n. \<lparr>coNodeType = DNum (Fin (if n = 2 then DOCUMENT_NODE else ELEMENT_NODE)), coNodeName = DStr ''DIV'',
           coOwnerDocument = DObject 2 [], coChildNodes = None, coCanRemoveChild = True, coOwn = []\<rparr>)
     (\<lambda>d. case d of DObject n _ \<Rightarrow> Some n | _ \<Rightarrow> None)"

definition demoListeners :: "fake_targets rl_state" where
  "demoListeners =
     \<lparr>rlReg = \<lparr>lrRandomKey = ''k'', lrHasAdd = (\<lambda>t. True), lrSets = Map.empty, lrOwn = (\<lambda>t. []), lrQueues = Map.empty,
        lrPayloads = Map.empty, lrRecords = Map.empty, lrNext = 0\<rparr>,
      rlHost = \<lparr>ftRegistrations = (\<lambda>t. []), ftRemovals = (\<lambda>t. [])\<rparr>,
      rlShells = Map.empty, rlRegistrations = Map.empty, rlCleanups = Map.empty, rlNext = 0\<rparr>"

lemma fake_listenAndPush_returns:
  "lrHasAdd (rlReg s) t \<Longrightarrow> listenable (n, c) \<Longrightarrow>
   \<exists>ls' s'. listenAndPush (fakeEventWorld H docOf) n c (EvObj t) p (ls, s) = (None, ls', s') \<and> lrHasAdd (rlReg s') = lrHasAdd (rlReg s)"
  by (auto simp: listenAndPush_def listenToNativeEventRecord_def listenable_def listenWithKey_def getEventListenerSet_def
      assertEventTarget_def addTrappedEventListenerRecord_def addShell_def createEventListenerShell_def fakeEventWorld_def
      fakeAddEventListener_def addSetKey_def Let_def split: option.splits)

lemma fake_listenPairs_returns:
  "\<forall>q \<in> set ps. listenable q \<Longrightarrow> lrHasAdd (rlReg s) t \<Longrightarrow>
   \<exists>ls' s'. listenPairs (fakeEventWorld H docOf) (EvObj t) p ps (ls, s) = (None, ls', s') \<and> lrHasAdd (rlReg s') = lrHasAdd (rlReg s)"
proof (induction ps arbitrary: ls s)
  case (Cons q ps)
  obtain n c where q: "q = (n, c)" by fastforce
  then obtain ls1 s1 where s1: "listenAndPush (fakeEventWorld H docOf) n c (EvObj t) p (ls, s) = (None, ls1, s1)"
      "lrHasAdd (rlReg s1) = lrHasAdd (rlReg s)"
    using fake_listenAndPush_returns [of s t n c H docOf p ls] Cons.prems by auto
  then show ?case using Cons.IH [of s1 ls1] Cons.prems q by auto
qed simp

lemma demo_registers: "\<exists>k s1. registerRootListenersForPrivateRoot demoWorld (EvObj 3) True demoListeners = (Inr (Some k), s1)"
proof -
  let ?s = "demoListeners\<lparr>rlReg := (rlReg demoListeners)\<lparr>lrOwn := (\<lambda>t. [])(3 := [(internalListeningMarker (rlReg demoListeners), DBool True)])\<rparr>\<rparr>"
  obtain H docOf where w: "demoWorld = fakeEventWorld H docOf" by (simp add: demoWorld_def)
  have mark: "markTargetAsListening (EvObj 3) (rlReg demoListeners) = (None, rlReg ?s)"
    by (simp add: markTargetAsListening_def assertEventTarget_def demoListeners_def)
  obtain ls1 s1 where go: "listenToEvents demoWorld (EvObj 3) True allNativeEvents ([], ?s) = (None, ls1, s1)"
      and has: "lrHasAdd (rlReg s1) = (\<lambda>t. True)"
    using fake_listenPairs_returns [of "listenerPairs allNativeEvents" ?s 3 H docOf True "[]"] listenerPairs_listenable
    by (auto simp: listenToEvents_pairs w demoListeners_def)
  obtain r where m2: "markTargetAsListening (EvObj 2) (rlReg s1) = (None, r)" "lrHasAdd r = (\<lambda>t. True)"
    using has by (simp add: markTargetAsListening_def assertEventTarget_def)
  obtain ls2 s2 where "listenAndPush demoWorld ''selectionchange'' False (EvObj 2) True (ls1, s1\<lparr>rlReg := r\<rparr>) = (None, ls2, s2)"
    using fake_listenAndPush_returns [OF _ selectionchange_listenable, of "s1\<lparr>rlReg := r\<rparr>" 2 H docOf True ls1] m2(2) w by auto
  then have inst: "installRootListeners demoWorld (EvObj 3) (EvObj 2) True ?s = (None, ls2, s2)"
    using go m2(1) by (simp add: installRootListeners_def)
  have doc: "ownerDocumentTarget demoWorld (EvObj 3) = EvObj 2"
    by (simp add: demoWorld_def fakeEventWorld_def ownerDocumentTarget_def getOwnerDocument_def asContainerArg_def
        ELEMENT_NODE_def DOCUMENT_NODE_def)
  have rev: "assertReversibleTargets demoWorld demoListeners [EvObj 3, EvObj 2] = None"
    by (simp add: assertReversibleEventTarget_def assertEventTarget_def demoWorld_def fakeEventWorld_def demoListeners_def)
  show ?thesis
    using mark inst doc rev
    by (simp add: registerRootListenersForPrivateRoot_def registerSupportedRootListeners_def assertEventTarget_def uniqueTargets_def
        demoListeners_def Let_def)
qed

lemma demo_numbered: "numbered ftRegistrations demoListeners"
  by (simp add: numbered_def demoListeners_def)

lemma demo_laws: "event_host_laws demoWorld ftRegistrations"
  unfolding demoWorld_def by (rule fake_host.event_host_laws_axioms)

theorem root_listeners_round_trip_witness:
  "\<exists>k s1 c s2. registerRootListenersForPrivateRoot demoWorld (EvObj 3) True demoListeners = (Inr (Some k), s1) \<and>
     revertRootListenersForPrivateRoot demoWorld k s1 = (Inr c, s2) \<and> rlReg s2 = rlReg demoListeners"
  using demo_registers root_listeners_round_trip [OF demo_laws demo_numbered] by blast

text \<open>
  C17. A registration for a private root that throws, be it on a target that cannot take listeners or
  because the host refuses one of the listeners half way, leaves no trace: the markers, the listener
  sets and the registered listeners are those from before, and there is no registration record.
\<close>
theorem failed_registration_leaves_no_trace:
  assumes laws: "event_host_laws w regs" and num: "numbered regs s"
    and run: "registerRootListenersForPrivateRoot w target passive s = (Inl e, s1)"
  shows "rlReg s1 = rlReg s \<and> regs (rlHost s1) = regs (rlHost s) \<and> rlRegistrations s1 = rlRegistrations s"
  using event_host_laws.register_failed [OF laws num run] by (simp add: targetsAsBefore_def)

text \<open>A host that refuses \<open>animationend\<close>, the second of the events.\<close>
definition refusingWorld :: "fake_targets event_world" where
  "refusingWorld = demoWorld\<lparr>ewAdd := (\<lambda>t r h. if rgType r = ''animationend'' then (Some (TypeError ''refused''), h)
     else fakeAddEventListener t r h)\<rparr>"

lemma refusing_laws: "event_host_laws refusingWorld ftRegistrations"
proof
  fix h :: fake_targets and t xs r ys
  assume "ftRegistrations h t = xs @ r # ys" "\<forall>q \<in> set (xs @ ys). rgListener q \<noteq> rgListener r"
  then show "\<exists>h'. ewRemove refusingWorld t r h = (None, h') \<and> ftRegistrations h' = (ftRegistrations h)(t := xs @ ys)"
    using event_host_laws.remove_ok [OF demo_laws] by (simp add: refusingWorld_def)
qed (auto simp: refusingWorld_def demoWorld_def fakeEventWorld_def fakeAddEventListener_def fakeRemoveEventListener_def split: if_splits)

lemma refusing_install:
  assumes "lrHasAdd r = (\<lambda>t. True)" "lrSets r = Map.empty"
  shows "\<exists>e ls s1. installRootListeners refusingWorld (EvObj 3) doc True (demoListeners\<lparr>rlReg := r\<rparr>) = (Some e, ls, s1)"
proof -
  have "\<exists>e acc. listenToEvents refusingWorld (EvObj 3) True allNativeEvents ([], demoListeners\<lparr>rlReg := r\<rparr>) = (Some e, acc)"
    using assms
    by (auto simp: allNativeEvents_def listenAndPush_def listenToNativeEventRecord_def listenable_def listenWithKey_def
        getEventListenerSet_def assertEventTarget_def addTrappedEventListenerRecord_def addShell_def
        createEventListenerShell_def refusingWorld_def fakeAddEventListener_def addSetKey_def isKnownNativeEvent_def
        isNonDelegatedEvent_def nonDelegatedEvents_def mediaEventTypes_def getListenerSetKey_def Let_def)
  then show ?thesis by (auto simp: installRootListeners_def)
qed

lemma refusing_fails: "\<exists>e s1. registerRootListenersForPrivateRoot refusingWorld (EvObj 3) True demoListeners = (Inl e, s1)"
proof -
  obtain r where mark: "markTargetAsListening (EvObj 3) (rlReg demoListeners) = (None, r)"
      and r: "lrHasAdd r = (\<lambda>t. True)" "lrSets r = Map.empty"
    by (simp add: markTargetAsListening_def assertEventTarget_def demoListeners_def)
  show ?thesis
    using mark refusing_install [OF r, of "ownerDocumentTarget refusingWorld (EvObj 3)"]
    by (auto simp: registerRootListenersForPrivateRoot_def registerSupportedRootListeners_def assertEventTarget_def
        demoListeners_def Let_def split: option.splits sum.splits prod.splits)
qed

theorem failed_registration_leaves_no_trace_witness:
  "\<exists>e s1. registerRootListenersForPrivateRoot refusingWorld (EvObj 3) True demoListeners = (Inl e, s1) \<and>
     rlReg s1 = rlReg demoListeners"
  using refusing_fails failed_registration_leaves_no_trace [OF refusing_laws demo_numbered] by blast

context event_host_laws
begin

lemma register_installs:
  assumes num: "numbered regs s" and has: "lrHasAdd (rlReg s) t"
    and run: "registerSupportedRootListeners w t passive True s = (Inr (Some k), s1)"
  obtains p where "rlRegistrations s1 k = Some p" "installed regs (targetNumbers w t) s (rpInstalledListeners p) (s1\<lparr>rlRegistrations := rlRegistrations s\<rparr>)"
    "list_all2 (listensTo passive) (missingListeners (setOf s) t (ownerDocumentTarget w (EvObj t))) (rpInstalledListeners p)"
    "rrRegistrationCount (rpRecord p) = length (rpInstalledListeners p)"
    "rrListenerRecords (rpRecord p) = map (summarizeInstalledListenerRecord w) (rpInstalledListeners p)"
    "marked s1 t" "ownerDocumentTarget w (EvObj t) = EvObj d \<Longrightarrow> marked s1 d"
    "assertReversibleTargets w s (rootTargets w t) = None"
  using num has run
proof (cases rule: register_cases)
  case inst: (2 ls s' r sns)
  let ?doc = "ownerDocumentTarget w (EvObj t)" and ?T = "targetNumbers w t"
  have t: "t \<in> ?T" using rootTargets_simps(2) [of t w] by (simp add: targetNumbers_def)
  have doc: "?doc = EvVal DNull \<or> (\<exists>d. ?doc = EvObj d \<and> d \<in> ?T)"
    using assertReversibleTargets_ok [OF inst(3)] rootTargets_simps(3) [of w t] by (fastforce simp: targetNumbers_def)
  have i0: "installed regs ?T s [] (s\<lparr>rlReg := r\<rparr>)" by (rule installed_mark [OF installed_refl t inst(5)])
  obtain p where p: "rlRegistrations s1 k = Some p" "rpInstalledListeners p = ls"
      "rrRegistrationCount (rpRecord p) = length ls" "rrListenerRecords (rpRecord p) = map (summarizeInstalledListenerRecord w) ls"
    using inst(1,7-9) by (metis fun_upd_same option.sel registration_payload.select_convs(2) sum.inject(2))
  have reg: "rlReg s1 = rlReg s'" using arg_cong [OF inst(10), of rlReg] by simp
  have i: "installed regs ?T s ls (s1\<lparr>rlRegistrations := rlRegistrations s\<rparr>)"
    using installed_records [OF inst(2), of "rlNext s' + 1" "rlRegistrations s"] inst(10) by (metis le_add1 rl_state.surjective
        rl_state.update_convs(4) rl_state.update_convs(6))
  show thesis
  proof (rule that [OF p(1)])
    show "list_all2 (listensTo passive) (missingListeners (setOf s) t ?doc) (rpInstalledListeners p)"
      using installRootListeners_list(1) [OF i0 num t has doc inst(4)] p(2) by simp
    show "marked s1 t" "?doc = EvObj d \<Longrightarrow> marked s1 d"
      using installRootListeners_marks [OF inst(4) mark_marks [OF inst(5)]] reg by (simp_all add: marked_def)
  qed (use p i inst(3) in simp_all)
qed simp

lemma installed_missing:
  assumes i: "installed regs T s ls s'" and l: "list_all2 (listensTo passive) (missingListeners (setOf s) t doc) ls"
  shows "missingListeners (setOf s') t doc = []"
proof -
  have "getListenerSetKey n c \<in> set (setOf s' u)" if "(u, n, c) \<in> set (rootListeners t doc)" for u n c
  proof (cases "getListenerSetKey n c \<in> set (setOf s u)")
    case True
    then show ?thesis using installedD(2) [OF i, of u] by simp
  next
    case False
    then have "(u, n, c) \<in> set (missingListeners (setOf s) t doc)" using that by (simp add: missingListeners_def)
    then obtain l where "l \<in> set ls" "listensTo passive (u, n, c) l"
      using list_all2_left [OF l] by blast
    then show ?thesis using installedD(2) [OF i, of u] by (force simp: listensTo_def listens_def)
  qed
  then show ?thesis by (force simp: missingListeners_def filter_empty_conv)
qed

end

lemma targetsReversible_same:
  "lrHasAdd (rlReg s') = lrHasAdd (rlReg s) \<Longrightarrow> assertReversibleTargets w s' vs = assertReversibleTargets w s vs"
proof (induction vs)
  case (Cons v vs)
  have "assertReversibleEventTarget w s' v = assertReversibleEventTarget w s v"
    using Cons.prems by (cases v) (simp_all add: assertReversibleEventTarget_def assertEventTarget_def)
  then show ?case using Cons by (simp split: option.splits)
qed simp

lemma register_present:
  assumes "assertReversibleTargets w s (rootTargets w t) = None" "marked s t"
    "\<And>d. ownerDocumentTarget w (EvObj t) = EvObj d \<Longrightarrow> marked s d"
    "missingListeners (setOf s) t (ownerDocumentTarget w (EvObj t)) = []"
  shows "\<exists>s2 q. registerSupportedRootListeners w t passive True s = (Inr (Some (rlNext s)), s2) \<and> rlReg s2 = rlReg s \<and>
     rlHost s2 = rlHost s \<and> rlRegistrations s2 (rlNext s) = Some q \<and> rpInstalledListeners q = [] \<and> rrRegistrationCount (rpRecord q) = 0"
proof -
  let ?doc = "ownerDocumentTarget w (EvObj t)"
  note ok = assertReversibleTargets_ok [OF assms(1)]
  have has: "lrHasAdd (rlReg s) t" using ok rootTargets_simps(2) by blast
  have doc: "?doc = EvVal DNull \<or> (\<exists>d. ?doc = EvObj d \<and> lrHasAdd (rlReg s) d \<and> marked s d)"
    using ok rootTargets_simps(3) assms(3) by metis
  have "s\<lparr>rlReg := rlReg s\<rparr> = s" by simp
  then show ?thesis
    using assms(1) mark_marked [OF has assms(2)] installRootListeners_present [OF has doc assms(4)]
    by (simp add: registerSupportedRootListeners_def rootTargets_def Let_def)
qed

context event_host_laws
begin

lemma register_and_again:
  assumes num: "numbered regs s"
    and run: "registerRootListenersForPrivateRoot w (EvObj t) passive s = (Inr (Some k), s1)"
  shows "(\<exists>p. rlRegistrations s1 k = Some p \<and>
       list_all2 (listensTo passive) (missingListeners (setOf s) t (ownerDocumentTarget w (EvObj t))) (rpInstalledListeners p) \<and>
       (\<forall>u. regs (rlHost s1) u = regs (rlHost s) u @ map regOf (onTarget u (rpInstalledListeners p)))) \<and>
     (\<exists>s2 q. registerRootListenersForPrivateRoot w (EvObj t) passive2 s1 = (Inr (Some (rlNext s1)), s2) \<and>
       rlReg s2 = rlReg s1 \<and> rlHost s2 = rlHost s1 \<and> rlRegistrations s2 (rlNext s1) = Some q \<and> rpInstalledListeners q = [])"
proof -
  have go: "lrHasAdd (rlReg s) t" "registerSupportedRootListeners w t passive True s = (Inr (Some k), s1)"
    using run by (auto simp: registerRootListenersForPrivateRoot_def assertEventTarget_def Let_def split: if_splits)
  let ?doc = "ownerDocumentTarget w (EvObj t)" and ?s = "s1\<lparr>rlRegistrations := rlRegistrations s\<rparr>"
  obtain p where p: "rlRegistrations s1 k = Some p" "installed regs (targetNumbers w t) s (rpInstalledListeners p) ?s"
      "list_all2 (listensTo passive) (missingListeners (setOf s) t ?doc) (rpInstalledListeners p)" "marked s1 t"
      "\<And>d. ?doc = EvObj d \<Longrightarrow> marked s1 d" "assertReversibleTargets w s (rootTargets w t) = None"
    using register_installs [OF num go] by metis
  have same: "setOf ?s = setOf s1" "lrHasAdd (rlReg s1) = lrHasAdd (rlReg s)"
    using installed_const(1) [OF p(2)] by (simp_all add: setOf_def fun_eq_iff)
  have missing: "missingListeners (setOf s1) t ?doc = []" using installed_missing [OF p(2,3)] same(1) by simp
  have has: "lrHasAdd (rlReg s1) t" using same(2) go(1) by simp
  obtain s2 q where "registerSupportedRootListeners w t passive2 True s1 = (Inr (Some (rlNext s1)), s2)" "rlReg s2 = rlReg s1"
      "rlHost s2 = rlHost s1" "rlRegistrations s2 (rlNext s1) = Some q" "rpInstalledListeners q = []"
    using register_present [of w s1 t] p(4-6) missing targetsReversible_same [OF same(2)] by metis
  then have "registerRootListenersForPrivateRoot w (EvObj t) passive2 s1 = (Inr (Some (rlNext s1)), s2)"
    using has by (simp add: registerRootListenersForPrivateRoot_def assertEventTarget_def)
  moreover have "regs (rlHost s1) u = regs (rlHost s) u @ map regOf (onTarget u (rpInstalledListeners p))" for u
    using installedD(1) [OF p(2), of u] by simp
  ultimately show ?thesis using p(1,3) \<open>rlReg s2 = rlReg s1\<close> \<open>rlHost s2 = rlHost s1\<close> \<open>rlRegistrations s2 (rlNext s1) = Some q\<close>
      \<open>rpInstalledListeners q = []\<close> by blast
qed

end

text \<open>
  C15. A successful registration for a private root installs exactly the listeners that are missing:
  for every supported event in order, the bubble phase unless the event is not delegated and then the
  capture phase on the container, and \<open>selectionchange\<close> on its document, less those whose key the
  listener set of the target has; each is appended to the registered listeners of its target. A
  second registration of the same container returns, registers nothing and changes neither markers
  nor listener sets.
\<close>
theorem registration_installs_what_is_missing:
  assumes laws: "event_host_laws w regs" and num: "numbered regs s"
    and run: "registerRootListenersForPrivateRoot w (EvObj t) passive s = (Inr (Some k), s1)"
  shows "(\<exists>p. rlRegistrations s1 k = Some p \<and>
       list_all2 (listensTo passive) (missingListeners (setOf s) t (ownerDocumentTarget w (EvObj t))) (rpInstalledListeners p) \<and>
       (\<forall>u. regs (rlHost s1) u = regs (rlHost s) u @ map regOf (onTarget u (rpInstalledListeners p)))) \<and>
     (\<exists>s2 q. registerRootListenersForPrivateRoot w (EvObj t) passive2 s1 = (Inr (Some (rlNext s1)), s2) \<and>
       rlReg s2 = rlReg s1 \<and> rlHost s2 = rlHost s1 \<and> rlRegistrations s2 (rlNext s1) = Some q \<and> rpInstalledListeners q = [])"
  by (rule event_host_laws.register_and_again [OF laws num run])

theorem registration_installs_what_is_missing_witness:
  "\<exists>k s1 s2 q. registerRootListenersForPrivateRoot demoWorld (EvObj 3) True demoListeners = (Inr (Some k), s1) \<and>
     registerRootListenersForPrivateRoot demoWorld (EvObj 3) True s1 = (Inr (Some (rlNext s1)), s2) \<and>
     rlRegistrations s2 (rlNext s1) = Some q \<and> rpInstalledListeners q = []"
  using demo_registers registration_installs_what_is_missing [OF demo_laws demo_numbered] by blast

subsection \<open>Summaries, intents and bounds\<close>

text \<open>What the record of a registration says of a listener.\<close>
definition expectedSummary :: "'h event_world \<Rightarrow> bool \<Rightarrow> nat \<times> string \<times> bool \<Rightarrow> listener_summary" where
  "expectedSummary w passive = (\<lambda>(u, n, c).
     \<lparr>lsDomEventName = n, lsEventSystemFlags = phaseFlags c, lsIsCapturePhaseListener = c,
      lsListenerOptions = describeListenerOptions (getAddEventListenerOptions 0 n c passive),
      lsListenerSetKey = getListenerSetKey n c, lsTargetInfo = describeTarget w (EvObj u)\<rparr>)"

definition intentSummary :: "listener_intent \<Rightarrow> listener_summary" where
  "intentSummary i =
     \<lparr>lsDomEventName = liDomEventName i, lsEventSystemFlags = liEventSystemFlags i,
      lsIsCapturePhaseListener = liIsCapturePhaseListener i, lsListenerOptions = liListenerOptions i,
      lsListenerSetKey = liListenerSetKey i, lsTargetInfo = liTargetInfo i\<rparr>"

lemma options_info_number:
  "describeListenerOptions (getAddEventListenerOptions (Suc k) n c p) = describeListenerOptions (getAddEventListenerOptions 0 n c p)"
  by (simp add: getAddEventListenerOptions_def)

lemma listensTo_summary: "listensTo passive x l \<Longrightarrow> summarizeInstalledListenerRecord w l = expectedSummary w passive x"
  by (cases x) (simp add: listensTo_def listens_def summarizeInstalledListenerRecord_def expectedSummary_def options_info_number)

lemma listensTo_summaries:
  "list_all2 (listensTo passive) xs ls \<Longrightarrow> map (summarizeInstalledListenerRecord w) ls = map (expectedSummary w passive) xs"
  by (induction xs ls rule: list_all2_induct) (simp_all add: listensTo_summary)

lemma supportedListenerIntents_pairs:
  "supportedListenerIntents w v role p names acc =
     acc @ map (\<lambda>(n, c). createListenerIntentRecord w v n c role p) (listenerPairs names)"
  by (induction names arbitrary: acc) (simp_all add: listenerPairs_def)

lemma intentSummary_create:
  "intentSummary (createListenerIntentRecord w (EvObj u) n c role p) = expectedSummary w p (u, n, c)"
  by (simp add: intentSummary_def createListenerIntentRecord_def expectedSummary_def phaseFlags_def)

lemma listenerPairs_count:
  "length (listenerPairs ns) = length (filter (\<lambda>n. n \<noteq> ''selectionchange'') ns) +
     length (filter (\<lambda>n. n \<noteq> ''selectionchange'' \<and> \<not> isNonDelegatedEvent n) ns)"
  by (induction ns) (auto simp: listenerPairs_def)

lemma nativeEvents_counts:
  "length (filter (\<lambda>n. n \<noteq> ''selectionchange'') allNativeEvents) = 85"
  "length (filter (\<lambda>n. n \<noteq> ''selectionchange'' \<and> \<not> isNonDelegatedEvent n) allNativeEvents) = 53"
  by (simp_all add: allNativeEvents_def isNonDelegatedEvent_def nonDelegatedEvents_def mediaEventTypes_def)

lemma listenerPairs_length: "length (listenerPairs allNativeEvents) = 138"
  by (simp add: listenerPairs_count nativeEvents_counts)

lemma rootListeners_length: "length (rootListeners t doc) \<le> 139" "length (rootListeners t (EvObj d)) = 139"
  by (simp_all add: rootListeners_def listenerPairs_length split: ev_value.splits)

lemma phaseFlags_facts:
  "unat (phaseFlags c) = (if c then 4 else 0)" "isCapturePhase (phaseFlags c) = c" "\<not> isNonDelegatedEventSystem (phaseFlags c)"
  by (simp_all add: phaseFlags_def IS_CAPTURE_PHASE_def IS_NON_DELEGATED_def isCapturePhase_def isNonDelegatedEventSystem_def
      hasEventSystemFlag_def)

context event_host_laws
begin

lemma register_record:
  assumes num: "numbered regs s"
    and run: "registerRootListenersForPrivateRoot w (EvObj t) passive s = (Inr (Some k), s1)"
  obtains p where "rlRegistrations s1 k = Some p"
    "list_all2 (listensTo passive) (missingListeners (setOf s) t (ownerDocumentTarget w (EvObj t))) (rpInstalledListeners p)"
    "rrRegistrationCount (rpRecord p) = length (rpInstalledListeners p)"
    "rrListenerRecords (rpRecord p) = map (summarizeInstalledListenerRecord w) (rpInstalledListeners p)"
proof -
  have go: "lrHasAdd (rlReg s) t" "registerSupportedRootListeners w t passive True s = (Inr (Some k), s1)"
    using run by (auto simp: registerRootListenersForPrivateRoot_def assertEventTarget_def Let_def split: if_splits)
  show thesis using register_installs [OF num go] that by metis
qed

lemma register_bounds:
  assumes num: "numbered regs s"
    and run: "registerRootListenersForPrivateRoot w (EvObj t) passive s = (Inr (Some k), s1)"
  shows "\<exists>p. rlRegistrations s1 k = Some p \<and> rrRegistrationCount (rpRecord p) \<le> 139 \<and>
     (ownerDocumentTarget w (EvObj t) = EvObj d \<longrightarrow> setOf s t = [] \<longrightarrow> setOf s d = [] \<longrightarrow> rrRegistrationCount (rpRecord p) = 139) \<and>
     (\<forall>l \<in> set (rrListenerRecords (rpRecord p)). unat (lsEventSystemFlags l) \<le> 4 \<and>
        isCapturePhase (lsEventSystemFlags l) = lsIsCapturePhaseListener l \<and> \<not> isNonDelegatedEventSystem (lsEventSystemFlags l))"
  using num run
proof (cases rule: register_record)
  case (1 p)
  let ?doc = "ownerDocumentTarget w (EvObj t)"
  have len: "rrRegistrationCount (rpRecord p) = length (missingListeners (setOf s) t ?doc)"
    using 1(2,3) by (simp add: list_all2_lengthD)
  have "length (missingListeners (setOf s) t ?doc) \<le> length (rootListeners t ?doc)" by (simp add: missingListeners_def)
  then have max: "rrRegistrationCount (rpRecord p) \<le> 139" using rootListeners_length(1) [of t ?doc] len by linarith
  have all: "rrRegistrationCount (rpRecord p) = 139" if "?doc = EvObj d" "setOf s t = []" "setOf s d = []"
  proof -
    have "missingListeners (setOf s) t (EvObj d) = rootListeners t (EvObj d)"
      using that(2,3) by (auto simp: missingListeners_def rootListeners_def intro!: filter_True)
    then show ?thesis using len rootListeners_length(2) [of t d] that(1) by simp
  qed
  have "rrListenerRecords (rpRecord p) = map (expectedSummary w passive) (missingListeners (setOf s) t ?doc)"
    using listensTo_summaries [OF 1(2), of w] 1(4) by simp
  then show ?thesis using 1(1) max all by (auto simp: expectedSummary_def phaseFlags_facts)
qed

lemma register_intents:
  assumes num: "numbered regs s"
    and run: "registerRootListenersForPrivateRoot w (EvObj t) passive s = (Inr (Some k), s1)"
    and intent: "createPortalPrepareMountListenerIntentRecord w (EvObj t) passive s = Inr i"
    and fresh: "\<forall>u. setOf s u = [] \<and> \<not> hasListeningMarker (rlReg s) (EvObj u)"
  shows "\<exists>p. rlRegistrations s1 k = Some p \<and>
     rrListenerRecords (rpRecord p) = map intentSummary (piListenerIntents i) @
       (if ownerDocumentTarget w (EvObj t) = EvObj t then [expectedSummary w passive (t, ''selectionchange'', False)] else [])"
  using num run
proof (cases rule: register_record)
  case (1 p)
  let ?doc = "ownerDocumentTarget w (EvObj t)"
  have "missingListeners (setOf s) t ?doc = rootListeners t ?doc"
    using fresh by (auto simp: missingListeners_def intro!: filter_True)
  then have rec: "rrListenerRecords (rpRecord p) = map (expectedSummary w passive) (rootListeners t ?doc)"
    using listensTo_summaries [OF 1(2), of w] 1(4) by simp
  have docs: "?doc = EvVal DNull \<or> (\<exists>d. ?doc = EvObj d)"
    using intent fresh by (auto simp: createPortalPrepareMountListenerIntentRecord_def assertEventTarget_def hasListeningMarker_def
        Let_def split: ev_value.splits if_splits)
  have i: "piListenerIntents i = createAllSupportedListenerIntentRecords w (EvObj t) ''portal-container'' passive @
      (if ?doc \<noteq> EvVal DNull \<and> ?doc \<noteq> EvObj t
       then [createListenerIntentRecord w ?doc ''selectionchange'' False ''owner-document'' passive] else [])"
    using intent fresh docs by (auto simp: createPortalPrepareMountListenerIntentRecord_def hasListeningMarker_def Let_def
        split: sum.splits if_splits)
  have "map intentSummary (createAllSupportedListenerIntentRecords w (EvObj t) ''portal-container'' passive) =
      map (expectedSummary w passive) (map (Pair t) (listenerPairs allNativeEvents))"
    by (simp add: createAllSupportedListenerIntentRecords_def supportedListenerIntents_pairs intentSummary_create split_beta)
  then show ?thesis using 1(1) rec i docs by (auto simp: rootListeners_def intentSummary_create)
qed

end

text \<open>
  C32. Bounds of a registration: at most 139 listeners, exactly 139 for a container in a document
  when neither listens yet, and the event system flags of every listener, read as a 32-bit number,
  are at most 4: the capture bit exactly for capture listeners and never the bit of non-delegated
  events.
\<close>
theorem registration_bounds:
  assumes laws: "event_host_laws w regs" and num: "numbered regs s"
    and run: "registerRootListenersForPrivateRoot w (EvObj t) passive s = (Inr (Some k), s1)"
  shows "\<exists>p. rlRegistrations s1 k = Some p \<and> rrRegistrationCount (rpRecord p) \<le> 139 \<and>
     (ownerDocumentTarget w (EvObj t) = EvObj d \<longrightarrow> setOf s t = [] \<longrightarrow> setOf s d = [] \<longrightarrow> rrRegistrationCount (rpRecord p) = 139) \<and>
     (\<forall>l \<in> set (rrListenerRecords (rpRecord p)). unat (lsEventSystemFlags l) \<le> 4 \<and>
        isCapturePhase (lsEventSystemFlags l) = lsIsCapturePhaseListener l \<and> \<not> isNonDelegatedEventSystem (lsEventSystemFlags l))"
  by (rule event_host_laws.register_bounds [OF laws num run])

lemma demo_document: "ownerDocumentTarget demoWorld (EvObj 3) = EvObj 2"
  by (simp add: demoWorld_def fakeEventWorld_def ownerDocumentTarget_def getOwnerDocument_def asContainerArg_def
      ELEMENT_NODE_def DOCUMENT_NODE_def)

lemma demo_sets: "setOf demoListeners u = []"
  by (simp add: setOf_def demoListeners_def)

theorem registration_bounds_witness:
  "\<exists>k s1 p. registerRootListenersForPrivateRoot demoWorld (EvObj 3) True demoListeners = (Inr (Some k), s1) \<and>
     rlRegistrations s1 k = Some p \<and> rrRegistrationCount (rpRecord p) = 139"
  using demo_registers registration_bounds [OF demo_laws demo_numbered, where t = 3 and d = 2] demo_document demo_sets by metis



end
