(* ===== verification/Claim_Scan.thy ===== *)
theory Claim_Scan
  imports DOM_Values
begin

text \<open>
  The two scans of \<open>packages/react-dom/src/events/root-listeners.js\<close> that look for forbidden fields in
  a graph of objects: claims of public behaviour, and evidence of another kind passed off as listener
  evidence (source aliases). Objects may be proxies and have getters, so what a scan asks of an object
  is a \<open>scan_obj\<close>: its own keys, the descriptor of a key and a plain read, each of which may throw.
  The set of visited objects is the list \<open>seen\<close>. A graph may be infinite, so the scans take fuel;
  the lemmas show that one unit per object and one more is enough.
\<close>

text \<open>The key of a property: a string, or a symbol with its description.\<close>
datatype pkey = KStr string | KSym string

datatype cval = CObj nat | CPrim dval

text \<open>What \<open>Object.getOwnPropertyDescriptor\<close> gives: it throws, \<open>undefined\<close>, a value, or an accessor.\<close>
datatype descriptor = DescThrows | DescUndefined | DescData cval | DescAccessor

record scan_obj =
  soOwnKeys :: "pkey list option"  \<comment> \<open>\<open>None\<close>: \<open>Reflect.ownKeys\<close> throws\<close>
  soDescriptor :: "pkey \<Rightarrow> descriptor"
  soRead :: "string \<Rightarrow> cval option"  \<comment> \<open>\<open>None\<close>: the read throws\<close>

type_synonym scan_heap = "nat \<Rightarrow> scan_obj"

subsection \<open>Fields\<close>

definition publicBehaviorClaimFields :: "string list" where
  "publicBehaviorClaimFields =
     [''browserDomEventCompatibilityClaimed'', ''browserInputMutated'', ''browserListenerInstallation'',
      ''browserSyntheticEventCompatibilityClaimed'', ''compatibilityClaimed'', ''controlledStateRestoreScheduled'',
      ''eventDispatch'', ''eventDispatchAllowed'', ''gateInstalledBrowserListener'', ''hydrationReplayCompatibilityClaimed'',
      ''listenerInstallation'', ''packageCompatibilityClaimed'', ''publicControlledBehaviorEnabled'', ''publicDispatchEnabled'',
      ''publicEventCompatibilityClaimed'', ''publicHydrationReplayCompatibilityClaimed'', ''publicListenerInstallation'',
      ''publicPackageCompatibilityClaimed'', ''publicPortalBubblingEnabled'', ''publicRootBehaviorChanged'',
      ''publicSyntheticEventCompatibilityClaimed'', ''realDomMutationAllowed'', ''restoreQueueFlushed'', ''restoreQueueWritten'',
      ''rootListenerInstallation'', ''syntheticEventCompatibilityClaimed'', ''syntheticEventCreated'', ''syntheticEventDispatch'',
      ''syntheticFocusEventCreation'', ''valueTrackerFieldWritten'', ''willCreateSyntheticFocusEvent'', ''willDispatchPublicEvent'',
      ''willInvokePublicListeners'']"

definition sourceAliasValueFields :: "string list" where
  "sourceAliasValueFields =
     [''$$typeof'', ''facadeCall'', ''kind'', ''operation'', ''queueKind'', ''requestType'', ''source'', ''sourceKind'',
      ''status'', ''targetKind'']"

definition sourceAliasPresenceFields :: "string list" where
  "sourceAliasPresenceFields =
     [''currentTarget'', ''dispatchPayload'', ''eventPayload'', ''fakeDomTarget'', ''formActionEvidence'', ''formEvidence'',
      ''formResetEvidence'', ''hydrationReplayEvidence'', ''liveDomTarget'', ''nativeEvent'', ''replayQueueEvidence'',
      ''resourceEvidence'', ''resourceFormEvidence'', ''syntheticEvent'', ''target'', ''targetNode'']"

text \<open>\<open>key.description || String(key).slice(7, -1)\<close> is the description, empty when there is none.\<close>
fun getPropertyKeyName :: "pkey \<Rightarrow> string" where
  "getPropertyKeyName (KStr s) = s"
| "getPropertyKeyName (KSym description) = description"

fun isPublicClaimKey :: "pkey \<Rightarrow> bool" where
  "isPublicClaimKey key = (getPropertyKeyName key = ''syntheticEventCount'' \<or> getPropertyKeyName key \<in> set publicBehaviorClaimFields)"

definition isSourceAliasValueKey :: "pkey \<Rightarrow> bool" where
  "isSourceAliasValueKey key \<longleftrightarrow> getPropertyKeyName key \<in> set sourceAliasValueFields"

definition isSourceAliasPresenceKey :: "pkey \<Rightarrow> bool" where
  "isSourceAliasPresenceKey key \<longleftrightarrow> getPropertyKeyName key \<in> set sourceAliasPresenceFields"

definition isAliasScanSkippedKey :: "pkey \<Rightarrow> bool \<Rightarrow> bool" where
  "isAliasScanSkippedKey key scanSourceRecordContainers =
     (case key of
        KSym _ \<Rightarrow> False
      | KStr s \<Rightarrow>
          if s = ''sourceRecord'' then \<not> scanSourceRecordContainers
          else s \<in> {''container'', ''currentTarget'', ''nativeEvent'', ''node'', ''ownerDocument'', ''parentNode'',
                    ''syntheticEvent'', ''target'', ''targetNode''})"

subsection \<open>Claim values\<close>

fun positiveNumber :: "dval \<Rightarrow> bool" where
  "positiveNumber (DNum (Fin n)) = (n > 0)"
| "positiveNumber (DNum PosInf) = True"
| "positiveNumber _ = False"

definition isBlockedPublicClaimValue :: "pkey \<Rightarrow> cval \<Rightarrow> bool" where
  "isBlockedPublicClaimValue key v =
     (if getPropertyKeyName key = ''syntheticEventCount''
      then (case v of CPrim d \<Rightarrow> positiveNumber d | CObj _ \<Rightarrow> False)
      else v = CPrim (DBool True))"

text \<open>Of a descriptor object: an accessor has no \<open>value\<close>.\<close>
fun descriptorContainsBlockedPublicClaim :: "pkey \<Rightarrow> descriptor \<Rightarrow> bool" where
  "descriptorContainsBlockedPublicClaim key (DescData v) = isBlockedPublicClaimValue key v"
| "descriptorContainsBlockedPublicClaim key _ = True"

definition hasBlockedPublicClaimField :: "scan_obj \<Rightarrow> string \<Rightarrow> bool" where
  "hasBlockedPublicClaimField source field =
     (let descriptor = soDescriptor source (KStr field) in
      if descriptor \<noteq> DescUndefined \<and> descriptor \<noteq> DescThrows \<and> descriptorContainsBlockedPublicClaim (KStr field) descriptor
      then True
      else (case soRead source field of None \<Rightarrow> True | Some v \<Rightarrow> isBlockedPublicClaimValue (KStr field) v))"

subsection \<open>Alias values\<close>

text \<open>\<open>s.includes(p)\<close>\<close>
fun includesText :: "string \<Rightarrow> string \<Rightarrow> bool" where
  "includesText [] p = (p = [])"
| "includesText (c # s) p = (startsWith (c # s) p \<or> includesText s p)"

definition aliasWords :: "string list" where
  "aliasWords =
     [''hydrationreplay'', ''hydration-replay'', ''eventreplay'', ''event-replay'', ''replayqueue'', ''replay-queue'',
      ''resource-form'', ''resourceform'', ''form-action'', ''formaction'', ''form-reset'', ''formreset'', ''requestformreset'']"

definition isBlockedSourceAliasValue :: "cval \<Rightarrow> bool" where
  "isBlockedSourceAliasValue v =
     (case v of
        CPrim (DStr s) \<Rightarrow> (let normalized = toLowerCase s in list_ex (includesText normalized) aliasWords)
      | _ \<Rightarrow> False)"

definition getBlockedSourceAliasValue :: "scan_obj \<Rightarrow> string \<Rightarrow> bool" where
  "getBlockedSourceAliasValue source key =
     (case soDescriptor source (KStr key) of
        DescAccessor \<Rightarrow> True
      | DescData v \<Rightarrow>
          isBlockedSourceAliasValue v \<or>
          (case soRead source key of None \<Rightarrow> True | Some x \<Rightarrow> isBlockedSourceAliasValue x)
      | _ \<Rightarrow> (case soRead source key of None \<Rightarrow> True | Some x \<Rightarrow> isBlockedSourceAliasValue x))"

definition hasSourceAliasPresence :: "scan_obj \<Rightarrow> string \<Rightarrow> bool" where
  "hasSourceAliasPresence source key =
     (case soDescriptor source (KStr key) of
        DescAccessor \<Rightarrow> True
      | DescData v \<Rightarrow> True
      | _ \<Rightarrow> (case soRead source key of None \<Rightarrow> True | Some x \<Rightarrow> x \<noteq> CPrim DUndef))"

subsection \<open>The scans\<close>

text \<open>
  The two scans are one walk with different tests: of the object when it is entered, and of a key
  with the descriptor it has.
\<close>
record scan_tests =
  stObject :: "scan_obj \<Rightarrow> bool"
  stKey :: "pkey \<Rightarrow> descriptor \<Rightarrow> bool"

text \<open>What a key makes of the walk: forbidden, passed over, or a value to scan next.\<close>
datatype key_step = KeyBlocked | KeySkipped | KeyValue cval

definition keyStep :: "scan_tests \<Rightarrow> bool \<Rightarrow> scan_obj \<Rightarrow> pkey \<Rightarrow> key_step" where
  "keyStep tests scanSourceRecordContainers source key =
     (case soDescriptor source key of
        DescThrows \<Rightarrow> KeyBlocked
      | DescUndefined \<Rightarrow> KeyBlocked
      | DescAccessor \<Rightarrow> KeyBlocked
      | DescData v \<Rightarrow>
          if stKey tests key (DescData v) then KeyBlocked
          else if isAliasScanSkippedKey key scanSourceRecordContainers then KeySkipped
          else KeyValue v)"

fun scanObject ::
  "nat \<Rightarrow> scan_tests \<Rightarrow> bool \<Rightarrow> scan_heap \<Rightarrow> cval \<Rightarrow> nat list \<Rightarrow> (bool \<times> nat list) option"
and scanKeys ::
  "nat \<Rightarrow> scan_tests \<Rightarrow> bool \<Rightarrow> scan_heap \<Rightarrow> scan_obj \<Rightarrow> pkey list \<Rightarrow> nat list \<Rightarrow> (bool \<times> nat list) option" where
  "scanObject 0 tests scan H v seen = None"
| "scanObject (Suc fuel) tests scan H v seen =
     (case v of
        CPrim _ \<Rightarrow> Some (False, seen)
      | CObj n \<Rightarrow>
          if n \<in> set seen then Some (False, seen)
          else if stObject tests (H n) then Some (True, n # seen)
          else (case soOwnKeys (H n) of
                  None \<Rightarrow> Some (True, n # seen)
                | Some keys \<Rightarrow> scanKeys fuel tests scan H (H n) keys (n # seen)))"
| "scanKeys fuel tests scan H source [] seen = Some (False, seen)"
| "scanKeys fuel tests scan H source (key # keys) seen =
     (case keyStep tests scan source key of
        KeyBlocked \<Rightarrow> Some (True, seen)
      | KeySkipped \<Rightarrow> scanKeys fuel tests scan H source keys seen
      | KeyValue v \<Rightarrow>
          (case scanObject fuel tests scan H v seen of
             None \<Rightarrow> None
           | Some (True, seen') \<Rightarrow> Some (True, seen')
           | Some (False, seen') \<Rightarrow> scanKeys fuel tests scan H source keys seen'))"

definition publicClaimTests :: scan_tests where
  "publicClaimTests =
     \<lparr>stObject = (\<lambda>source. list_ex (hasBlockedPublicClaimField source) publicBehaviorClaimFields \<or>
                            hasBlockedPublicClaimField source ''syntheticEventCount''),
      stKey = (\<lambda>key descriptor. isPublicClaimKey key \<and> descriptorContainsBlockedPublicClaim key descriptor)\<rparr>"

definition sourceAliasTests :: scan_tests where
  "sourceAliasTests =
     \<lparr>stObject = (\<lambda>source. list_ex (getBlockedSourceAliasValue source) sourceAliasValueFields \<or>
                            list_ex (hasSourceAliasPresence source) sourceAliasPresenceFields),
      stKey = (\<lambda>key descriptor. isSourceAliasPresenceKey key \<or>
                 isSourceAliasValueKey key \<and> (case descriptor of DescData v \<Rightarrow> isBlockedSourceAliasValue v | _ \<Rightarrow> True))\<rparr>"

definition containsPublicBehaviorClaimImpl ::
  "nat \<Rightarrow> scan_heap \<Rightarrow> cval \<Rightarrow> nat list \<Rightarrow> bool \<Rightarrow> (bool \<times> nat list) option" where
  "containsPublicBehaviorClaimImpl fuel H source seen scanSourceRecordContainers =
     scanObject fuel publicClaimTests scanSourceRecordContainers H source seen"

definition containsBlockedSourceAliasImpl ::
  "nat \<Rightarrow> scan_heap \<Rightarrow> cval \<Rightarrow> nat list \<Rightarrow> bool \<Rightarrow> (bool \<times> nat list) option" where
  "containsBlockedSourceAliasImpl fuel H source seen scanSourceRecordContainers =
     scanObject fuel sourceAliasTests scanSourceRecordContainers H source seen"

definition containsPublicBehaviorClaim :: "nat \<Rightarrow> scan_heap \<Rightarrow> cval \<Rightarrow> bool \<Rightarrow> bool option" where
  "containsPublicBehaviorClaim fuel H source scanSourceRecordContainers =
     map_option fst (containsPublicBehaviorClaimImpl fuel H source [] scanSourceRecordContainers)"

definition containsBlockedSourceAlias :: "nat \<Rightarrow> scan_heap \<Rightarrow> cval \<Rightarrow> bool option" where
  "containsBlockedSourceAlias fuel H source = map_option fst (containsBlockedSourceAliasImpl fuel H source [] True)"

subsection \<open>What the scans find\<close>

text \<open>The objects a walk may go to from an object, and the objects at which it stops with a finding.\<close>
definition scanEdge :: "scan_tests \<Rightarrow> bool \<Rightarrow> scan_heap \<Rightarrow> nat \<Rightarrow> nat \<Rightarrow> bool" where
  "scanEdge tests scan H n m \<longleftrightarrow>
     (\<exists>keys key. soOwnKeys (H n) = Some keys \<and> key \<in> set keys \<and> keyStep tests scan (H n) key = KeyValue (CObj m))"

definition objectBlocked :: "scan_tests \<Rightarrow> bool \<Rightarrow> scan_heap \<Rightarrow> nat \<Rightarrow> bool" where
  "objectBlocked tests scan H n \<longleftrightarrow>
     stObject tests (H n) \<or> soOwnKeys (H n) = None \<or>
     (\<exists>keys key. soOwnKeys (H n) = Some keys \<and> key \<in> set keys \<and> keyStep tests scan (H n) key = KeyBlocked)"

abbreviation scanReach :: "scan_tests \<Rightarrow> bool \<Rightarrow> scan_heap \<Rightarrow> nat \<Rightarrow> nat \<Rightarrow> bool" where
  "scanReach tests scan H \<equiv> (scanEdge tests scan H)\<^sup>*\<^sup>*"

text \<open>
  A walk that finds nothing leaves behind visited objects none of which is blocked, with all their
  successors visited too.
\<close>
definition cleared :: "scan_tests \<Rightarrow> bool \<Rightarrow> scan_heap \<Rightarrow> nat list \<Rightarrow> nat list \<Rightarrow> bool" where
  "cleared tests scan H seen seen' \<longleftrightarrow>
     set seen \<subseteq> set seen' \<and>
     (\<forall>n \<in> set seen' - set seen. \<not> objectBlocked tests scan H n \<and> (\<forall>m. scanEdge tests scan H n m \<longrightarrow> m \<in> set seen'))"

lemma cleared_trans: "cleared tests scan H a b \<Longrightarrow> cleared tests scan H b c \<Longrightarrow> cleared tests scan H a c"
  unfolding cleared_def by blast

lemma cleared_Cons:
  "cleared tests scan H (n # seen) seen' \<Longrightarrow> \<not> objectBlocked tests scan H n \<Longrightarrow>
   (\<And>m. scanEdge tests scan H n m \<Longrightarrow> m \<in> set seen') \<Longrightarrow> cleared tests scan H seen seen' \<and> n \<in> set seen'"
  by (auto simp: cleared_def)

lemma scan_false:
  "scanObject fuel tests scan H v seen = Some (False, seen') \<Longrightarrow>
     cleared tests scan H seen seen' \<and> (\<forall>n. v = CObj n \<longrightarrow> n \<in> set seen')"
  "scanKeys fuel tests scan H source keys seen = Some (False, seen') \<Longrightarrow>
     cleared tests scan H seen seen' \<and>
     (\<forall>key \<in> set keys. keyStep tests scan source key \<noteq> KeyBlocked \<and>
        (\<forall>m. keyStep tests scan source key = KeyValue (CObj m) \<longrightarrow> m \<in> set seen'))"
proof (induction fuel tests scan H v seen and fuel tests scan H source keys seen arbitrary: seen' and seen'
    rule: scanObject_scanKeys.induct)
  case (2 fuel tests scan H v seen)
  show ?case
  proof (cases v)
    case (CObj n)
    show ?thesis
    proof (cases "n \<in> set seen")
      case False
      then obtain keys where keys: "\<not> stObject tests (H n)" "soOwnKeys (H n) = Some keys"
          "scanKeys fuel tests scan H (H n) keys (n # seen) = Some (False, seen')"
        using 2(2) CObj by (auto split: if_splits option.splits)
      have all: "cleared tests scan H (n # seen) seen'"
        "\<forall>key \<in> set keys. keyStep tests scan (H n) key \<noteq> KeyBlocked \<and>
           (\<forall>m. keyStep tests scan (H n) key = KeyValue (CObj m) \<longrightarrow> m \<in> set seen')"
        using 2(1) [OF CObj False keys(1,2)] keys(3) by blast+
      have "\<not> objectBlocked tests scan H n" "\<And>m. scanEdge tests scan H n m \<Longrightarrow> m \<in> set seen'"
        using all(2) keys(1,2) by (auto simp: objectBlocked_def scanEdge_def)
      then show ?thesis using cleared_Cons [OF all(1)] CObj by simp
    qed (use 2(2) CObj in \<open>simp add: cleared_def\<close>)
  qed (use 2(2) in \<open>simp add: cleared_def\<close>)
next
  case (4 fuel tests scan H source key keys seen)
  show ?case
  proof (cases "keyStep tests scan source key")
    case KeySkipped
    then show ?thesis using 4(1) [OF KeySkipped] 4(4) by simp
  next
    case (KeyValue v)
    then obtain seen1 where s1: "scanObject fuel tests scan H v seen = Some (False, seen1)"
        "scanKeys fuel tests scan H source keys seen1 = Some (False, seen')"
      using 4(4) by (auto split: option.splits prod.splits bool.splits)
    note one = 4(2) [OF KeyValue s1(1)] and rest = 4(3) [OF KeyValue s1(1) refl refl s1(2)]
    have "set seen1 \<subseteq> set seen'" using rest by (simp add: cleared_def)
    then show ?thesis using one rest KeyValue cleared_trans by auto
  qed (use 4(4) in simp)
qed (auto simp: cleared_def)

lemma scan_true:
  "scanObject fuel tests scan H v seen = Some (True, seen') \<Longrightarrow>
     \<exists>n m. v = CObj n \<and> scanReach tests scan H n m \<and> objectBlocked tests scan H m"
  "scanKeys fuel tests scan H source keys seen = Some (True, seen') \<Longrightarrow>
     (\<exists>key \<in> set keys. keyStep tests scan source key = KeyBlocked) \<or>
     (\<exists>key \<in> set keys. \<exists>n m. keyStep tests scan source key = KeyValue (CObj n) \<and> scanReach tests scan H n m \<and>
        objectBlocked tests scan H m)"
proof (induction fuel tests scan H v seen and fuel tests scan H source keys seen arbitrary: seen' and seen'
    rule: scanObject_scanKeys.induct)
  case (2 fuel tests scan H v seen)
  then obtain n where v: "v = CObj n" and new: "n \<notin> set seen" by (auto split: cval.splits if_splits)
  show ?case
  proof (cases "objectBlocked tests scan H n")
    case False
    then obtain keys where keys: "\<not> stObject tests (H n)" "soOwnKeys (H n) = Some keys"
      by (auto simp: objectBlocked_def)
    have run: "scanKeys fuel tests scan H (H n) keys (n # seen) = Some (True, seen')" using 2(2) v new keys by simp
    have "\<forall>key \<in> set keys. keyStep tests scan (H n) key \<noteq> KeyBlocked" using False keys(2) by (auto simp: objectBlocked_def)
    then obtain key k m where
      "key \<in> set keys" "keyStep tests scan (H n) key = KeyValue (CObj k)" "scanReach tests scan H k m" "objectBlocked tests scan H m"
      using 2(1) [OF v new keys run] by blast
    moreover have "scanEdge tests scan H n k"
      using keys(2) calculation(1,2) by (auto simp: scanEdge_def)
    ultimately have "scanReach tests scan H n m" by (meson converse_rtranclp_into_rtranclp)
    then show ?thesis using v \<open>objectBlocked tests scan H m\<close> by blast
  qed (use v in blast)
next
  case (4 fuel tests scan H source key keys seen)
  show ?case
  proof (cases "keyStep tests scan source key")
    case KeySkipped
    then show ?thesis using 4(1) [OF KeySkipped] 4(4) by simp
  next
    case (KeyValue v)
    obtain b seen1 where s1: "scanObject fuel tests scan H v seen = Some (b, seen1)"
      using 4(4) KeyValue by (auto split: option.splits)
    show ?thesis
    proof (cases b)
      case True
      then show ?thesis using 4(2) [OF KeyValue] s1 KeyValue by auto
    next
      case False
      then show ?thesis using 4(3) [OF KeyValue s1 refl] 4(4) KeyValue s1 by auto
    qed
  qed (use 4(4) in simp)
qed auto

text \<open>On finitely many objects one unit of fuel per unvisited object, and one more, is enough.\<close>
lemma scan_seen_mono:
  "scanObject fuel tests scan H v seen = Some (b, seen') \<Longrightarrow> set seen \<subseteq> set seen'"
  "scanKeys fuel tests scan H source keys seen = Some (b, seen') \<Longrightarrow> set seen \<subseteq> set seen'"
proof (induction fuel tests scan H v seen and fuel tests scan H source keys seen arbitrary: b seen' and b seen'
    rule: scanObject_scanKeys.induct)
  case (2 fuel tests scan H v seen)
  then show ?case by (force split: cval.splits if_splits option.splits)
next
  case (4 fuel tests scan H source key keys seen)
  then show ?case by (force split: key_step.splits option.splits bool.splits)
qed auto

lemma scan_returns:
  assumes fin: "finite U" and closed: "\<And>n m. n \<in> U \<Longrightarrow> scanEdge tests scan H n m \<Longrightarrow> m \<in> U"
  shows "card (U - set seen) < fuel \<Longrightarrow> (\<forall>n. v = CObj n \<longrightarrow> n \<in> U) \<Longrightarrow> \<exists>r. scanObject fuel tests scan H v seen = Some r"
    and "card (U - set seen) < fuel \<Longrightarrow> (\<And>key n. key \<in> set keys \<Longrightarrow> keyStep tests scan source key = KeyValue (CObj n) \<Longrightarrow> n \<in> U) \<Longrightarrow>
      \<exists>r. scanKeys fuel tests scan H source keys seen = Some r"
  using closed
proof (induction fuel tests scan H v seen and fuel tests scan H source keys seen rule: scanObject_scanKeys.induct)
  case (2 fuel tests scan H v seen)
  show ?case
  proof (cases v)
    case (CObj n)
    then have n: "n \<in> U" using 2(3) by simp
    show ?thesis
    proof (cases "n \<in> set seen \<or> stObject tests (H n) \<or> soOwnKeys (H n) = None")
      case False
      then obtain keys where f: "n \<notin> set seen" "\<not> stObject tests (H n)" "soOwnKeys (H n) = Some keys" by auto
      have "U - set (n # seen) \<subset> U - set seen" using n f(1) by auto
      then have "card (U - set (n # seen)) < fuel" using 2(2) psubset_card_mono [of "U - set seen"] fin by fastforce
      moreover have "m \<in> U" if "key \<in> set keys" "keyStep tests scan (H n) key = KeyValue (CObj m)" for key m
        using 2(4) [OF n] that f(3) by (auto simp: scanEdge_def)
      ultimately show ?thesis using 2(1) [OF CObj f] 2(4) CObj f by simp
    qed (auto simp: CObj)
  next
    case (CPrim d)
    then show ?thesis by (intro exI [of _ "(False, seen)"]) simp
  qed
next
  case (4 fuel tests scan H source key keys seen)
  show ?case
  proof (cases "keyStep tests scan source key")
    case KeySkipped
    have "\<exists>r. scanKeys fuel tests scan H source keys seen = Some r"
      by (rule 4(1) [OF KeySkipped 4(4) _ 4(6)]) (use 4(5) in auto)
    then show ?thesis using KeySkipped by simp
  next
    case (KeyValue v)
    obtain b seen1 where s1: "scanObject fuel tests scan H v seen = Some (b, seen1)"
      using 4(2) [OF KeyValue 4(4) _ 4(6)] 4(5) [of key] KeyValue by fastforce
    have "card (U - set seen1) \<le> card (U - set seen)"
      using scan_seen_mono(1) [OF s1] fin by (intro card_mono) auto
    then have less: "card (U - set seen1) < fuel" using 4(4) by linarith
    have "\<exists>r. scanKeys fuel tests scan H source keys seen1 = Some r" if "\<not> b"
      by (rule 4(3) [OF KeyValue s1 refl _ less _ 4(6)]) (use 4(5) that in auto)
    then show ?thesis using KeyValue s1 by (cases b) auto
  next
    case KeyBlocked
    then show ?thesis by (intro exI [of _ "(True, seen)"]) simp
  qed
qed auto

lemma scan_is_reachability:
  assumes fin: "finite U" and closed: "\<forall>n \<in> U. \<forall>m. scanEdge tests scan H n m \<longrightarrow> m \<in> U" and n: "n \<in> U" and fuel: "card U < fuel"
  shows "map_option fst (scanObject fuel tests scan H (CObj n) []) =
     Some (\<exists>m. scanReach tests scan H n m \<and> objectBlocked tests scan H m)"
proof -
  obtain b seen where run: "scanObject fuel tests scan H (CObj n) [] = Some (b, seen)"
    using scan_returns(1) [OF fin, of tests scan H "[]" fuel "CObj n"] closed n fuel by auto
  show ?thesis
  proof (cases b)
    case True
    then show ?thesis using run scan_true(1) [of fuel tests scan H "CObj n" "[]" seen] by auto
  next
    case False
    then have c: "cleared tests scan H [] seen" "n \<in> set seen" using scan_false(1) [of fuel tests scan H "CObj n" "[]" seen] run by auto
    have "m \<in> set seen" if "scanReach tests scan H n m" for m
      using that by induction (use c in \<open>auto simp: cleared_def\<close>)
    then show ?thesis using run False c(1) by (auto simp: cleared_def)
  qed
qed

text \<open>
  C22. The two scans for forbidden fields are exact. On a finite graph of objects, whatever its
  cycles, each returns with one unit of fuel per object and one more, and it answers true exactly
  when some object that can be reached through scanned keys is blocked: it has a forbidden field, its
  keys or descriptors cannot be read, or it has an accessor.
\<close>
theorem claim_scans_are_reachability:
  assumes "finite U" "n \<in> U" "card U < fuel"
    "\<forall>k \<in> U. \<forall>m. scanEdge publicClaimTests scan H k m \<or> scanEdge sourceAliasTests True H k m \<longrightarrow> m \<in> U"
  shows "containsPublicBehaviorClaim fuel H (CObj n) scan =
      Some (\<exists>m. scanReach publicClaimTests scan H n m \<and> objectBlocked publicClaimTests scan H m) \<and>
    containsBlockedSourceAlias fuel H (CObj n) =
      Some (\<exists>m. scanReach sourceAliasTests True H n m \<and> objectBlocked sourceAliasTests True H m)"
  unfolding containsPublicBehaviorClaim_def containsPublicBehaviorClaimImpl_def containsBlockedSourceAlias_def containsBlockedSourceAliasImpl_def
  using scan_is_reachability [of U _ _ H n fuel] assms by blast

text \<open>Two records that refer to each other, the second with a claim under a symbol key.\<close>
definition demoRecords :: scan_heap where
  "demoRecords = (\<lambda>n.
     if n = 0 then
       \<lparr>soOwnKeys = Some [KStr ''next''], soDescriptor = (\<lambda>k. if k = KStr ''next'' then DescData (CObj 1) else DescUndefined),
        soRead = (\<lambda>s. Some (if s = ''next'' then CObj 1 else CPrim DUndef))\<rparr>
     else
       \<lparr>soOwnKeys = Some [KStr ''back'', KSym ''eventDispatch''],
        soDescriptor = (\<lambda>k. if k = KStr ''back'' then DescData (CObj 0)
                            else if k = KSym ''eventDispatch'' then DescData (CPrim (DBool True)) else DescUndefined),
        soRead = (\<lambda>s. Some (if s = ''back'' then CObj 0 else CPrim DUndef))\<rparr>)"

lemma demoRecords_edges: "scanEdge tests scan demoRecords k m \<Longrightarrow> m \<in> {0, 1}"
  by (auto simp: scanEdge_def demoRecords_def keyStep_def split: if_splits)

theorem claim_scans_are_reachability_witness:
  "(containsPublicBehaviorClaim 3 demoRecords (CObj 0) False =
      Some (\<exists>m. scanReach publicClaimTests False demoRecords 0 m \<and> objectBlocked publicClaimTests False demoRecords m)) \<and>
   containsPublicBehaviorClaim 3 demoRecords (CObj 0) False = Some True"
proof -
  have "containsPublicBehaviorClaim 3 demoRecords (CObj 0) False = Some True" by code_simp
  then show ?thesis
    using claim_scans_are_reachability [of "{0, 1}" 0 3 False demoRecords] demoRecords_edges by fastforce
qed

end
