(* ===== verification/Listener_Gate.thy ===== *)
theory Listener_Gate
  imports Listener_Props Claim_Scan
begin

text \<open>
  The currentness gate of \<open>packages/react-dom/src/events/root-listeners.js\<close>: a registration of root
  listeners is compared with the listener sets, markers and registered listeners as they are now, row
  by row; the gate record is made when everything is current and stays so over the caller's hook, and
  is checked again before an event is admitted.

  Options and source records are objects of a \<open>scan_heap\<close>; \<open>gwFunction\<close> tells which values are
  functions and what calling one does. The gate record's payload is what the \<open>WeakMap\<close> holds for it.
\<close>

datatype gate_error = GateError string string | HookThrew dom_error | ReadThrew

record 'h gate_world =
  gwEvents :: "'h event_world"
  gwHeap :: scan_heap
  gwFuel :: nat
  gwFunction :: "cval \<Rightarrow> ('h rl_state \<Rightarrow> dom_error option \<times> 'h rl_state) option"

subsection \<open>Rows\<close>

record target_row =
  trTargetRole :: string
  trTargetInfo :: container_info
  trCurrent :: bool
  trInstalledListenerCount :: nat
  trExpectedBrowserRegistrationCount :: nat
  trCurrentBrowserRegistrationCount :: nat
  trBrowserRegistrationInspectable :: bool
  trExpectedListenerSetSize :: nat
  trCurrentListenerSetSize :: nat
  trExpectedListeningMarkerTrueValueCount :: nat
  trCurrentListeningMarkerTrueValueCount :: nat
  trExpectedListeningMarkerPropertyCount :: nat
  trCurrentListeningMarkerPropertyCount :: nat
  trDedupeEvidence :: bool
  trSameContainerDedupeEvidence :: bool
  trSameDocumentDedupeEvidence :: bool

record listener_row =
  lwRowIndex :: nat
  lwTargetRole :: string
  lwDomEventName :: string
  lwPhase :: string
  lwEventSystemFlags :: flags
  lwListenerSetKey :: string
  lwListenerOptions :: options_info
  lwCurrent :: bool
  lwListenerSetHasKey :: bool
  lwBrowserRegistrationInspectable :: bool
  lwBrowserRegistrationPresent :: bool
  lwListenerShellOwned :: bool

record gate_state =
  gsTargetRows :: "target_row list"
  gsListenerRows :: "listener_row list"

definition getRootListenerCurrentnessTargetRole :: "registration_payload \<Rightarrow> ev_value \<Rightarrow> string" where
  "getRootListenerCurrentnessTargetRole payload target =
     (if target = EvObj (rpRootContainerElement payload) then ''root-container''
      else if target = rpOwnerDocument payload then ''owner-document''
      else ''unknown-target'')"

definition targetHasEventListenerSetKey :: "'h rl_state \<Rightarrow> ev_value \<Rightarrow> string \<Rightarrow> bool" where
  "targetHasEventListenerSetKey s target listenerSetKey =
     (case target of
        EvVal v \<Rightarrow> False
      | EvObj t \<Rightarrow> (case lrSets (rlReg s) t of Some ks \<Rightarrow> listenerSetKey \<in> set ks | None \<Rightarrow> False))"

text \<open>\<open>current\<close>, \<open>inspectable\<close>, \<open>present\<close>\<close>
definition getTargetListenerRegistrationStatus :: "'h event_world \<Rightarrow> 'h rl_state \<Rightarrow> installed_listener \<Rightarrow> bool \<times> bool \<times> bool" where
  "getTargetListenerRegistrationStatus w s listenerRecord =
     (case ewRegistrations w (rlHost s) (ilTarget listenerRecord) of
        None \<Rightarrow> (True, False, False)
      | Some registrations \<Rightarrow>
          (let present = list_ex (\<lambda>r. rgType r = ilDomEventName listenerRecord \<and> rgListener r = ilListener listenerRecord \<and>
                 rgOptions r = ilListenerOptions listenerRecord) registrations
           in (present, True, present)))"

definition createRootListenerCurrentnessTargetRow ::
  "'h event_world \<Rightarrow> 'h rl_state \<Rightarrow> registration_payload \<Rightarrow> target_snapshot \<Rightarrow> target_row" where
  "createRootListenerCurrentnessTargetRow w s payload snapshot =
     (let target = snTarget snapshot;
          targetRole = getRootListenerCurrentnessTargetRole payload target;
          currentInfo = describeListenerTargetSnapshot w s target;
          afterInfo = (case snAfterInfo snapshot of Some i \<Rightarrow> i | None \<Rightarrow> currentInfo);
          installedListenerCount = length (filter (\<lambda>l. EvObj (ilTarget l) = target) (rpInstalledListeners payload));
          dedupeEvidence = (installedListenerCount = 0);
          (_, afterProperties, afterTrue) = tiListeningMarker afterInfo;
          (_, currentProperties, currentTrue) = tiListeningMarker currentInfo;
          browserRegistrationCountCurrent =
            (\<not> tiBrowserRegistrationInspectable afterInfo \<or>
             tiBrowserRegistrationCount afterInfo = tiBrowserRegistrationCount currentInfo);
          eventListenerSetSizeCurrent = (tiEventListenerSetSize afterInfo = tiEventListenerSetSize currentInfo);
          listeningMarkerCurrent = (afterTrue = currentTrue \<and> afterProperties = currentProperties)
      in \<lparr>trTargetRole = targetRole, trTargetInfo = describeTarget w target,
          trCurrent = (rpActive payload \<and> browserRegistrationCountCurrent \<and> eventListenerSetSizeCurrent \<and> listeningMarkerCurrent),
          trInstalledListenerCount = installedListenerCount,
          trExpectedBrowserRegistrationCount = tiBrowserRegistrationCount afterInfo,
          trCurrentBrowserRegistrationCount = tiBrowserRegistrationCount currentInfo,
          trBrowserRegistrationInspectable = tiBrowserRegistrationInspectable afterInfo,
          trExpectedListenerSetSize = tiEventListenerSetSize afterInfo,
          trCurrentListenerSetSize = tiEventListenerSetSize currentInfo,
          trExpectedListeningMarkerTrueValueCount = afterTrue,
          trCurrentListeningMarkerTrueValueCount = currentTrue,
          trExpectedListeningMarkerPropertyCount = afterProperties,
          trCurrentListeningMarkerPropertyCount = currentProperties,
          trDedupeEvidence = dedupeEvidence,
          trSameContainerDedupeEvidence = (dedupeEvidence \<and> targetRole = ''root-container''),
          trSameDocumentDedupeEvidence = (dedupeEvidence \<and> targetRole = ''owner-document'')\<rparr>)"

definition createRootListenerCurrentnessListenerRow ::
  "'h event_world \<Rightarrow> 'h rl_state \<Rightarrow> registration_payload \<Rightarrow> installed_listener \<Rightarrow> nat \<Rightarrow> listener_row" where
  "createRootListenerCurrentnessListenerRow w s payload listenerRecord index =
     (let target = EvObj (ilTarget listenerRecord);
          listenerSetHasKey = targetHasEventListenerSetKey s target (ilListenerSetKey listenerRecord);
          (current, inspectable, present) = getTargetListenerRegistrationStatus w s listenerRecord;
          listenerShellOwned =
            (case rlShells s (ilListener listenerRecord) of
               None \<Rightarrow> False
             | Some sh \<Rightarrow> shTarget sh = ilTarget listenerRecord \<and> shName sh = ilDomEventName listenerRecord \<and>
                 shFlags sh = ilEventSystemFlags listenerRecord)
      in \<lparr>lwRowIndex = index, lwTargetRole = getRootListenerCurrentnessTargetRole payload target,
          lwDomEventName = ilDomEventName listenerRecord,
          lwPhase = (if ilIsCapturePhaseListener listenerRecord then ''capture'' else ''bubble''),
          lwEventSystemFlags = ilEventSystemFlags listenerRecord, lwListenerSetKey = ilListenerSetKey listenerRecord,
          lwListenerOptions = ilListenerOptionsInfo listenerRecord,
          lwCurrent = (rpActive payload \<and> listenerSetHasKey \<and> current \<and> listenerShellOwned),
          lwListenerSetHasKey = listenerSetHasKey, lwBrowserRegistrationInspectable = inspectable,
          lwBrowserRegistrationPresent = present, lwListenerShellOwned = listenerShellOwned\<rparr>)"

definition createRootListenerCurrentnessGateState :: "'h event_world \<Rightarrow> 'h rl_state \<Rightarrow> registration_payload \<Rightarrow> gate_state" where
  "createRootListenerCurrentnessGateState w s payload =
     \<lparr>gsTargetRows = map (createRootListenerCurrentnessTargetRow w s payload) (rpTargetSnapshots payload),
      gsListenerRows = map (\<lambda>(l, i). createRootListenerCurrentnessListenerRow w s payload l i)
        (zip (rpInstalledListeners payload) [0..<length (rpInstalledListeners payload)])\<rparr>"

definition assertRootListenerCurrentnessGateStateCurrent :: "gate_state \<Rightarrow> gate_error option" where
  "assertRootListenerCurrentnessGateStateCurrent st =
     (if list_ex (\<lambda>r. \<not> trCurrent r) (gsTargetRows st) then
        Some (GateError ''Private root listener currentness diagnostics found listener target state that no longer matches the registration record.''
          ''listener-count-mutated-after-registration'')
      else if list_ex (\<lambda>r. \<not> lwCurrent r) (gsListenerRows st) then
        Some (GateError ''Private root listener currentness diagnostics found a stale root listener registration.''
          ''listener-registration-not-current'')
      else None)"

definition targetRowsMatch :: "target_row \<Rightarrow> target_row \<Rightarrow> bool" where
  "targetRowsMatch l r \<longleftrightarrow>
     trCurrentBrowserRegistrationCount l = trCurrentBrowserRegistrationCount r \<and>
     trCurrentListenerSetSize l = trCurrentListenerSetSize r \<and>
     trCurrentListeningMarkerTrueValueCount l = trCurrentListeningMarkerTrueValueCount r \<and>
     trCurrentListeningMarkerPropertyCount l = trCurrentListeningMarkerPropertyCount r"

definition listenerRowsMatch :: "listener_row \<Rightarrow> listener_row \<Rightarrow> bool" where
  "listenerRowsMatch l r \<longleftrightarrow>
     lwCurrent l = lwCurrent r \<and> lwListenerSetHasKey l = lwListenerSetHasKey r \<and>
     lwBrowserRegistrationPresent l = lwBrowserRegistrationPresent r \<and> lwListenerShellOwned l = lwListenerShellOwned r"

definition rootListenerCurrentnessGateStateMatches :: "gate_state \<Rightarrow> gate_state \<Rightarrow> bool" where
  "rootListenerCurrentnessGateStateMatches left right \<longleftrightarrow>
     length (gsTargetRows left) = length (gsTargetRows right) \<and> length (gsListenerRows left) = length (gsListenerRows right) \<and>
     list_all (\<lambda>(l, r). targetRowsMatch l r) (zip (gsTargetRows left) (gsTargetRows right)) \<and>
     list_all (\<lambda>(l, r). listenerRowsMatch l r) (zip (gsListenerRows left) (gsListenerRows right))"

subsection \<open>Options and source records\<close>

fun cvalTruthy :: "cval \<Rightarrow> bool" where
  "cvalTruthy (CObj _) = True"
| "cvalTruthy (CPrim d) = dtruthy d"

text \<open>A read of a field of the options; of a value that is no object, of the empty object in its place.\<close>
definition readOption :: "scan_heap \<Rightarrow> cval \<Rightarrow> string \<Rightarrow> gate_error + cval" where
  "readOption H v field =
     (case v of
        CPrim _ \<Rightarrow> Inr (CPrim DUndef)
      | CObj n \<Rightarrow> (case soRead (H n) field of None \<Rightarrow> Inl ReadThrew | Some x \<Rightarrow> Inr x))"

definition publicBehaviorClaimed :: gate_error where
  "publicBehaviorClaimed =
     GateError ''Private root listener currentness diagnostics cannot claim public DOM event behavior.'' ''public-behavior-claimed''"

text \<open>\<open>None\<close> when the scan has not enough fuel.\<close>
definition assertNoPublicBehaviorClaims :: "'h gate_world \<Rightarrow> cval \<Rightarrow> gate_error option option" where
  "assertNoPublicBehaviorClaims g options =
     (case containsPublicBehaviorClaim (gwFuel g) (gwHeap g) options False of
        None \<Rightarrow> None
      | Some True \<Rightarrow> Some (Some publicBehaviorClaimed)
      | Some False \<Rightarrow>
          Some (case options of
                  CPrim _ \<Rightarrow> None
                | CObj n \<Rightarrow>
                    if list_ex (hasBlockedPublicClaimField (gwHeap g n)) publicBehaviorClaimFields \<or>
                       hasBlockedPublicClaimField (gwHeap g n) ''syntheticEventCount''
                    then Some publicBehaviorClaimed else None))"

definition normalizeSourceKind :: "cval \<Rightarrow> gate_error + string" where
  "normalizeSourceKind sourceKind =
     (case sourceKind of
        CPrim (DStr k) \<Rightarrow>
          if k \<in> {''createRoot'', ''hydrateRoot'', ''portal''} then Inr k
          else Inl (GateError ''Private root listener currentness diagnostics require a createRoot, hydrateRoot, or portal source kind.''
                 ''unsupported-source-kind'')
      | _ \<Rightarrow> Inl (GateError ''Private root listener currentness diagnostics require a createRoot, hydrateRoot, or portal source kind.''
                 ''unsupported-source-kind''))"

text \<open>\<open>a || b || c || 'createRoot'\<close>, each read only when those before it are falsy.\<close>
fun firstTruthyOption :: "scan_heap \<Rightarrow> cval \<Rightarrow> string list \<Rightarrow> gate_error + cval" where
  "firstTruthyOption H options [] = Inr (CPrim (DStr ''createRoot''))"
| "firstTruthyOption H options (field # rest) =
     (case readOption H options field of
        Inl e \<Rightarrow> Inl e
      | Inr v \<Rightarrow> if cvalTruthy v then Inr v else firstTruthyOption H options rest)"

text \<open>The hook, when it is a function, the source kind, and the source record, when it is an object.\<close>
record 'h gate_options =
  goHook :: "('h rl_state \<Rightarrow> dom_error option \<times> 'h rl_state) option"
  goSourceKind :: string
  goSourceRecord :: "nat option"

definition normalizeGateOptions :: "'h gate_world \<Rightarrow> cval \<Rightarrow> (gate_error + 'h gate_options) option" where
  "normalizeGateOptions g options =
     (case assertNoPublicBehaviorClaims g options of
        None \<Rightarrow> None
      | Some (Some e) \<Rightarrow> Some (Inl e)
      | Some None \<Rightarrow>
          Some (case firstTruthyOption (gwHeap g) options [''sourceKind'', ''facadeCall'', ''operation''] of
                  Inl e \<Rightarrow> Inl e
                | Inr k \<Rightarrow>
                    (case normalizeSourceKind k of
                       Inl e \<Rightarrow> Inl e
                     | Inr sourceKind \<Rightarrow>
                         (case (readOption (gwHeap g) options ''afterDiagnosticsHook'', readOption (gwHeap g) options ''sourceRecord'') of
                            (Inr hook, Inr sourceRecord) \<Rightarrow>
                              Inr \<lparr>goHook = gwFunction g hook, goSourceKind = sourceKind,
                                   goSourceRecord = (case sourceRecord of CObj n \<Rightarrow> Some n | CPrim _ \<Rightarrow> None)\<rparr>
                          | _ \<Rightarrow> Inl ReadThrew))))"

definition getMaybeStringProperty :: "scan_heap \<Rightarrow> nat option \<Rightarrow> string \<Rightarrow> gate_error + string option" where
  "getMaybeStringProperty H v propertyName =
     (case v of
        None \<Rightarrow> Inr None
      | Some n \<Rightarrow>
          (case soRead (H n) propertyName of
             None \<Rightarrow> Inl ReadThrew
           | Some (CPrim (DStr s)) \<Rightarrow> Inr (Some s)
           | Some _ \<Rightarrow> Inr None))"

definition isHydrationReplaySourceAlias :: "string option \<Rightarrow> bool" where
  "isHydrationReplaySourceAlias v =
     (case v of
        None \<Rightarrow> False
      | Some s \<Rightarrow> list_ex (includesText (toLowerCase s))
          [''hydrationreplay'', ''hydration-replay'', ''eventreplay'', ''event-replay'', ''replayqueue'', ''replay-queue''])"

fun maybeStringProperties :: "scan_heap \<Rightarrow> nat option \<Rightarrow> string list \<Rightarrow> gate_error + string option list" where
  "maybeStringProperties H v [] = Inr []"
| "maybeStringProperties H v (p # ps) =
     (case getMaybeStringProperty H v p of
        Inl e \<Rightarrow> Inl e
      | Inr x \<Rightarrow> (case maybeStringProperties H v ps of Inl e \<Rightarrow> Inl e | Inr xs \<Rightarrow> Inr (x # xs)))"

definition replayAliasError :: gate_error where
  "replayAliasError =
     GateError ''Private root listener currentness diagnostics cannot consume hydration replay evidence as root listener source evidence.''
       ''hydration-replay-source-alias''"

definition assertSourceRecord :: "'h gate_world \<Rightarrow> nat option \<Rightarrow> string \<Rightarrow> gate_error option option" where
  "assertSourceRecord g sourceRecord sourceKind =
     (case sourceRecord of
        None \<Rightarrow> Some None
      | Some n \<Rightarrow>
          (case containsBlockedSourceAlias (gwFuel g) (gwHeap g) (CObj n) of
             None \<Rightarrow> None
           | Some True \<Rightarrow> Some (Some replayAliasError)
           | Some False \<Rightarrow>
               (case containsPublicBehaviorClaim (gwFuel g) (gwHeap g) (CObj n) True of
                  None \<Rightarrow> None
                | Some True \<Rightarrow> Some (Some publicBehaviorClaimed)
                | Some False \<Rightarrow>
                    Some (case maybeStringProperties (gwHeap g) sourceRecord
                                 [''requestType'', ''facadeCall'', ''operation'', ''source'', ''kind'', ''status''] of
                            Inl e \<Rightarrow> Some e
                          | Inr vs \<Rightarrow>
                              (let requestType = vs ! 0; facadeCall = vs ! 1; operation = vs ! 2 in
                               if list_ex isHydrationReplaySourceAlias vs then Some replayAliasError
                               else if sourceKind = ''createRoot'' \<and>
                                    (requestType = Some ''hydrateRoot'' \<or> facadeCall = Some ''hydrateRoot'' \<or>
                                     operation = Some ''hydrateRoot'' \<or> operation = Some ''hydrate-root-marker-listener-preflight'')
                               then Some (GateError ''Private root listener currentness diagnostics cannot consume hydrateRoot evidence through a createRoot source alias.''
                                      ''source-kind-alias-mismatch'')
                               else if sourceKind = ''hydrateRoot'' \<and>
                                    (requestType = Some ''createRoot'' \<or> facadeCall = Some ''createRoot'' \<or>
                                     operation = Some ''createRoot'' \<or> operation = Some ''public-facade-marker-listener-preflight'')
                               then Some (GateError ''Private root listener currentness diagnostics cannot consume createRoot evidence through a hydrateRoot source alias.''
                                      ''source-kind-alias-mismatch'')
                               else None)))))"

subsection \<open>The gate record\<close>

definition assertGateRegistrationPayload :: "'h rl_state \<Rightarrow> nat \<Rightarrow> gate_error + registration_payload" where
  "assertGateRegistrationPayload s registrationRecord =
     (case rlRegistrations s registrationRecord of
        None \<Rightarrow> Inl (GateError ''Expected a source-owned private React DOM root listener registration record.'' ''invalid-registration-record'')
      | Some payload \<Rightarrow>
          if \<not> rpActive payload then
            Inl (GateError ''Cannot validate private React DOM root listener currentness after the registration was reverted.''
              ''stale-registration-record'')
          else Inr payload)"

record gate_record =
  grSourceKind :: string
  grSourceRecordProvided :: bool
  grSourceRequestType :: "string option"
  grSourceFacadeCall :: "string option"
  grSourceOperation :: "string option"
  grRegistrationCount :: nat
  grListenerRowCount :: nat
  grCurrentListenerRowCount :: nat
  grRootListenerRowCount :: nat
  grOwnerDocumentListenerRowCount :: nat
  grOwnerDocumentSelectionChangeCurrent :: bool
  grOwnerDocumentSelectionChangeRowCount :: nat
  grTargetRowCount :: nat
  grSameContainerDedupeCurrent :: bool
  grSameContainerDedupeRowCount :: nat
  grSameDocumentDedupeCurrent :: bool
  grSameDocumentDedupeRowCount :: nat
  grTargetRows :: "target_row list"
  grListenerRows :: "listener_row list"

record gate_payload =
  gpAfterState :: gate_state
  gpBeforeState :: gate_state
  gpListenerRegistrationRecord :: nat
  gpSourceRecord :: "nat option"

definition makeGateRecord :: "registration_payload \<Rightarrow> string \<Rightarrow> nat option \<Rightarrow> string option list \<Rightarrow> gate_state \<Rightarrow> gate_record" where
  "makeGateRecord payload sourceKind sourceRecord strings afterState =
     (let listenerRows = gsListenerRows afterState;
          targetRows = gsTargetRows afterState;
          selectionRows = filter (\<lambda>r. lwTargetRole r = ''owner-document'' \<and> lwDomEventName r = ''selectionchange'') listenerRows;
          documentDedupe = filter trSameDocumentDedupeEvidence targetRows;
          containerDedupe = filter trSameContainerDedupeEvidence targetRows
      in \<lparr>grSourceKind = sourceKind, grSourceRecordProvided = (sourceRecord \<noteq> None), grSourceRequestType = strings ! 0,
          grSourceFacadeCall = strings ! 1, grSourceOperation = strings ! 2,
          grRegistrationCount = rrRegistrationCount (rpRecord payload),
          grListenerRowCount = length listenerRows,
          grCurrentListenerRowCount = length (filter lwCurrent listenerRows),
          grRootListenerRowCount = length (filter (\<lambda>r. lwTargetRole r = ''root-container'') listenerRows),
          grOwnerDocumentListenerRowCount = length (filter (\<lambda>r. lwTargetRole r = ''owner-document'') listenerRows),
          grOwnerDocumentSelectionChangeCurrent = (length selectionRows > 0 \<or> length documentDedupe > 0),
          grOwnerDocumentSelectionChangeRowCount = length selectionRows,
          grTargetRowCount = length targetRows,
          grSameContainerDedupeCurrent = (length containerDedupe > 0 \<and> list_all trCurrent containerDedupe),
          grSameContainerDedupeRowCount = length containerDedupe,
          grSameDocumentDedupeCurrent = (length documentDedupe > 0 \<and> list_all trCurrent documentDedupe),
          grSameDocumentDedupeRowCount = length documentDedupe,
          grTargetRows = targetRows, grListenerRows = listenerRows\<rparr>)"

text \<open>
  The registration record is given by its number. The hook runs between the two states and may
  change anything, the registration included; \<open>None\<close> when a scan has not enough fuel.
\<close>
definition createPrivateRootListenerCurrentnessGateRecord ::
  "'h gate_world \<Rightarrow> nat \<Rightarrow> cval \<Rightarrow> 'h rl_state \<Rightarrow> ((gate_error + gate_record \<times> gate_payload) \<times> 'h rl_state) option" where
  "createPrivateRootListenerCurrentnessGateRecord g registrationRecord options s =
     (let w = gwEvents g in
      case normalizeGateOptions g options of
        None \<Rightarrow> None
      | Some (Inl e) \<Rightarrow> Some (Inl e, s)
      | Some (Inr opts) \<Rightarrow>
          (case assertGateRegistrationPayload s registrationRecord of
             Inl e \<Rightarrow> Some (Inl e, s)
           | Inr payload0 \<Rightarrow>
               (case assertSourceRecord g (goSourceRecord opts) (goSourceKind opts) of
                  None \<Rightarrow> None
                | Some (Some e) \<Rightarrow> Some (Inl e, s)
                | Some None \<Rightarrow>
                    (let beforeState = createRootListenerCurrentnessGateState w s payload0 in
                     case assertRootListenerCurrentnessGateStateCurrent beforeState of
                       Some e \<Rightarrow> Some (Inl e, s)
                     | None \<Rightarrow>
                         (case (case goHook opts of None \<Rightarrow> (None, s) | Some hook \<Rightarrow> hook s) of
                            (Some e, s1) \<Rightarrow> Some (Inl (HookThrew e), s1)
                          | (None, s1) \<Rightarrow>
                              (let payload = (case rlRegistrations s1 registrationRecord of Some p \<Rightarrow> p | None \<Rightarrow> payload0);
                                   afterState = createRootListenerCurrentnessGateState w s1 payload
                               in if \<not> rootListenerCurrentnessGateStateMatches beforeState afterState then
                                    Some (Inl (GateError ''Private root listener currentness diagnostics observed listener state mutation while collecting evidence.''
                                      ''listener-state-mutated-during-diagnostics''), s1)
                                  else
                                    (case assertRootListenerCurrentnessGateStateCurrent afterState of
                                       Some e \<Rightarrow> Some (Inl e, s1)
                                     | None \<Rightarrow>
                                         (case maybeStringProperties (gwHeap g) (goSourceRecord opts) [''requestType'', ''facadeCall'', ''operation''] of
                                            Inl e \<Rightarrow> Some (Inl e, s1)
                                          | Inr strings \<Rightarrow>
                                              Some (Inr (makeGateRecord payload (goSourceKind opts) (goSourceRecord opts) strings afterState,
                                                \<lparr>gpAfterState = afterState, gpBeforeState = beforeState,
                                                 gpListenerRegistrationRecord = registrationRecord,
                                                 gpSourceRecord = goSourceRecord opts\<rparr>), s1)))))))))"

text \<open>\<open>reason\<close> when not accepted, the number of matching rows when accepted.\<close>
definition validatePrivateRootListenerCurrentnessGateForEvent ::
  "'h event_world \<Rightarrow> 'h rl_state \<Rightarrow> gate_payload option \<Rightarrow> ev_value \<Rightarrow> string \<Rightarrow> bool \<Rightarrow> string + nat" where
  "validatePrivateRootListenerCurrentnessGateForEvent w s gate targetContainer domEventName capturePhase =
     (case gate of
        None \<Rightarrow> Inl ''root-listener-currentness-not-source-owned''
      | Some payload \<Rightarrow>
          (case rlRegistrations s (gpListenerRegistrationRecord payload) of
             None \<Rightarrow> Inl ''root-listener-currentness-registration-missing''
           | Some registrationPayload \<Rightarrow>
               if EvObj (rpRootContainerElement registrationPayload) \<noteq> targetContainer then Inl ''root-listener-currentness-container-mismatch''
               else if \<not> rpActive registrationPayload then Inl ''root-listener-currentness-not-current''
               else
                 (let currentState = createRootListenerCurrentnessGateState w s registrationPayload in
                  if \<not> list_all trCurrent (gsTargetRows currentState) \<or> \<not> list_all lwCurrent (gsListenerRows currentState)
                  then Inl ''root-listener-currentness-not-current''
                  else if \<not> rootListenerCurrentnessGateStateMatches (gpAfterState payload) currentState
                  then Inl ''root-listener-currentness-state-mutated''
                  else
                    (let phase = (if capturePhase then ''capture'' else ''bubble'');
                         eventRows = filter (\<lambda>r. lwTargetRole r = ''root-container'' \<and> lwDomEventName r = domEventName \<and> lwPhase r = phase \<and>
                            lwCurrent r \<and> lwListenerShellOwned r) (gsListenerRows currentState)
                     in if eventRows = [] then Inl ''root-listener-currentness-event-type-mismatch''
                        else Inr (length eventRows)))))"

subsection \<open>The gate of a fresh registration\<close>

lemma describe_records [simp]:
  "describeListenerTargetSnapshot w (s\<lparr>rlRegistrations := R, rlNext := n\<rparr>) v = describeListenerTargetSnapshot w s v"
  by (cases v) (simp_all add: describeListenerTargetSnapshot_def getTargetRegistrationCount_def isTargetRegistrationInspectable_def
      canInstallListener_def)

lemma gateState_current:
  assumes active: "rpActive p"
    and snaps: "\<forall>sn \<in> set (rpTargetSnapshots p). snAfterInfo sn = Some (describeListenerTargetSnapshot w s (snTarget sn))"
    and rows: "\<forall>l \<in> set (rpInstalledListeners p). targetHasEventListenerSetKey s (EvObj (ilTarget l)) (ilListenerSetKey l) \<and>
      fst (getTargetListenerRegistrationStatus w s l) \<and> rlShells s (ilListener l) = Some (shellOf l)"
  shows "list_all trCurrent (gsTargetRows (createRootListenerCurrentnessGateState w s p))"
    "list_all (\<lambda>r. lwCurrent r \<and> lwListenerShellOwned r) (gsListenerRows (createRootListenerCurrentnessGateState w s p))"
proof -
  show "list_all trCurrent (gsTargetRows (createRootListenerCurrentnessGateState w s p))"
    using active snaps
    by (auto simp: createRootListenerCurrentnessGateState_def list_all_iff createRootListenerCurrentnessTargetRow_def Let_def
        split: prod.splits)
  have "lwCurrent (createRootListenerCurrentnessListenerRow w s p l i) \<and> lwListenerShellOwned (createRootListenerCurrentnessListenerRow w s p l i)"
    if "l \<in> set (rpInstalledListeners p)" for l i
    using rows that active by (auto simp: createRootListenerCurrentnessListenerRow_def Let_def shellOf_def split: prod.splits)
  then show "list_all (\<lambda>r. lwCurrent r \<and> lwListenerShellOwned r) (gsListenerRows (createRootListenerCurrentnessGateState w s p))"
    by (auto simp: createRootListenerCurrentnessGateState_def list_all_iff dest: set_zip_leftD)
qed

lemma assertGateState_current:
  "list_all trCurrent (gsTargetRows st) \<Longrightarrow> list_all lwCurrent (gsListenerRows st) \<Longrightarrow>
   assertRootListenerCurrentnessGateStateCurrent st = None"
  by (auto simp: assertRootListenerCurrentnessGateStateCurrent_def list_all_iff list_ex_iff)

lemma gateState_matches_refl [simp]: "rootListenerCurrentnessGateStateMatches st st"
  by (auto simp: rootListenerCurrentnessGateStateMatches_def list_all_iff targetRowsMatch_def listenerRowsMatch_def set_zip)

context event_host_laws
begin

lemma register_current:
  assumes num: "numbered regs s" and has: "lrHasAdd (rlReg s) t"
    and run: "registerSupportedRootListeners w t passive True s = (Inr (Some k), s1)"
  obtains p where "rlRegistrations s1 k = Some p" "rpActive p" "rpRootContainerElement p = t"
    "rrRegistrationCount (rpRecord p) = length (rpInstalledListeners p)"
    "list_all2 (listensTo passive) (missingListeners (setOf s) t (ownerDocumentTarget w (EvObj t))) (rpInstalledListeners p)"
    "list_all trCurrent (gsTargetRows (createRootListenerCurrentnessGateState w s1 p))"
    "list_all (\<lambda>r. lwCurrent r \<and> lwListenerShellOwned r) (gsListenerRows (createRootListenerCurrentnessGateState w s1 p))"
  using num has run
proof (cases rule: register_cases)
  case inst: (2 ls s' r sns)
  obtain p where p: "rlRegistrations s1 k = Some p" "rpActive p" "rpInstalledListeners p = ls" "rpTargetSnapshots p = sns"
      "rpRootContainerElement p = t" "rrRegistrationCount (rpRecord p) = length ls"
    using inst(1,7,8) by (metis fun_upd_same option.sel registration_payload.select_convs(1,2,5,6) sum.inject(2))
  have same: "rlReg s1 = rlReg s'" "rlHost s1 = rlHost s'" "rlShells s1 = rlShells s'"
    using arg_cong [OF inst(10), of rlReg] arg_cong [OF inst(10), of rlHost] arg_cong [OF inst(10), of rlShells] by simp_all
  have desc: "describeListenerTargetSnapshot w s1 v = describeListenerTargetSnapshot w s' v" for v
    by (subst inst(10)) simp
  have rows: "targetHasEventListenerSetKey s1 (EvObj (ilTarget l)) (ilListenerSetKey l) \<and>
      fst (getTargetListenerRegistrationStatus w s1 l) \<and> rlShells s1 (ilListener l) = Some (shellOf l)" if l: "l \<in> set ls" for l
  proof (intro conjI)
    have "ilListenerSetKey l \<in> set (setOf s' (ilTarget l))" using installedD(2) [OF inst(2), of "ilTarget l"] l by simp
    then show "targetHasEventListenerSetKey s1 (EvObj (ilTarget l)) (ilListenerSetKey l)"
      using same(1) by (cases "lrSets (rlReg s') (ilTarget l)") (simp_all add: targetHasEventListenerSetKey_def setOf_def)
    have "regOf l \<in> set (regs (rlHost s') (ilTarget l))" using installedD(1) [OF inst(2), of "ilTarget l"] l by simp
    then show "fst (getTargetListenerRegistrationStatus w s1 l)"
      using same(2) inspect [of "rlHost s'" "ilTarget l"]
      by (auto simp: getTargetListenerRegistrationStatus_def list_ex_iff regOf_def Let_def split: option.splits intro!: bexI [of _ "regOf l"])
    show "rlShells s1 (ilListener l) = Some (shellOf l)" using installedD(16) [OF inst(2) l] same(3) by simp
  qed
  obtain p' where p': "rlRegistrations s1 k = Some p'"
      "list_all2 (listensTo passive) (missingListeners (setOf s) t (ownerDocumentTarget w (EvObj t))) (rpInstalledListeners p')"
    using register_installs [OF num has run] by metis
  have "list_all trCurrent (gsTargetRows (createRootListenerCurrentnessGateState w s1 p))"
    "list_all (\<lambda>r. lwCurrent r \<and> lwListenerShellOwned r) (gsListenerRows (createRootListenerCurrentnessGateState w s1 p))"
    using gateState_current [OF p(2), of w s1] rows p(3,4) inst(6) desc by auto
  then show thesis using that [of p] p p' by simp
qed simp

end

lemma gate_without_options:
  assumes "0 < gwFuel g" "gwFunction g (CPrim DUndef) = None" "rlRegistrations s k = Some p" "rpActive p"
    "list_all trCurrent (gsTargetRows (createRootListenerCurrentnessGateState (gwEvents g) s p))"
    "list_all lwCurrent (gsListenerRows (createRootListenerCurrentnessGateState (gwEvents g) s p))"
  shows "createPrivateRootListenerCurrentnessGateRecord g k (CPrim DUndef) s =
    (let st = createRootListenerCurrentnessGateState (gwEvents g) s p in
     Some (Inr (makeGateRecord p ''createRoot'' None [None, None, None] st,
       \<lparr>gpAfterState = st, gpBeforeState = st, gpListenerRegistrationRecord = k, gpSourceRecord = None\<rparr>), s))"
proof -
  obtain f where f: "gwFuel g = Suc f" using assms(1) by (cases "gwFuel g") auto
  have "normalizeGateOptions g (CPrim DUndef) = Some (Inr \<lparr>goHook = None, goSourceKind = ''createRoot'', goSourceRecord = None\<rparr>)"
    using assms(2) f by (simp add: normalizeGateOptions_def assertNoPublicBehaviorClaims_def containsPublicBehaviorClaim_def
        containsPublicBehaviorClaimImpl_def readOption_def normalizeSourceKind_def)
  then show ?thesis
    using assms(3,4) assertGateState_current [OF assms(5,6)]
    by (simp add: createPrivateRootListenerCurrentnessGateRecord_def assertGateRegistrationPayload_def assertSourceRecord_def
        getMaybeStringProperty_def Let_def)
qed

text \<open>The rows of an event are the installed listeners for it on the container.\<close>
lemma gate_event_rows:
  assumes l: "list_all2 (listensTo passive) xs (rpInstalledListeners p)"
  shows "(\<exists>r \<in> set (gsListenerRows (createRootListenerCurrentnessGateState w s p)). lwTargetRole r = ''root-container'' \<and>
      lwDomEventName r = name \<and> lwPhase r = (if capture then ''capture'' else ''bubble'')) \<longleftrightarrow>
    (rpRootContainerElement p, name, capture) \<in> set xs"
proof -
  let ?row = "\<lambda>l i. createRootListenerCurrentnessListenerRow w s p l i"
  have row: "lwTargetRole (?row l i) = ''root-container'' \<and> lwDomEventName (?row l i) = name \<and>
      lwPhase (?row l i) = (if capture then ''capture'' else ''bubble'') \<longleftrightarrow>
    ilTarget l = rpRootContainerElement p \<and> ilDomEventName l = name \<and> ilIsCapturePhaseListener l = capture" for l i
    by (auto simp: createRootListenerCurrentnessListenerRow_def getRootListenerCurrentnessTargetRole_def Let_def split: prod.splits)
  have rows: "set (gsListenerRows (createRootListenerCurrentnessGateState w s p)) =
      {?row (rpInstalledListeners p ! i) i | i. i < length (rpInstalledListeners p)}"
    unfolding set_conv_nth by (force simp: createRootListenerCurrentnessGateState_def)
  have "(\<exists>r \<in> set (gsListenerRows (createRootListenerCurrentnessGateState w s p)). lwTargetRole r = ''root-container'' \<and>
      lwDomEventName r = name \<and> lwPhase r = (if capture then ''capture'' else ''bubble'')) \<longleftrightarrow>
    (\<exists>l \<in> set (rpInstalledListeners p). ilTarget l = rpRootContainerElement p \<and> ilDomEventName l = name \<and>
       ilIsCapturePhaseListener l = capture)"
    unfolding rows Bex_def mem_Collect_eq in_set_conv_nth using row by blast
  also have "\<dots> \<longleftrightarrow> (rpRootContainerElement p, name, capture) \<in> set xs"
    using list_all2_left [OF l] list_all2_right [OF l] by (fastforce simp: listensTo_def listens_def)
  finally show ?thesis .
qed

context event_host_laws
begin

lemma gate_of_registration:
  assumes num: "numbered regs s" and ew: "gwEvents g = w" and fuel: "0 < gwFuel g" and undef: "gwFunction g (CPrim DUndef) = None"
    and run: "registerRootListenersForPrivateRoot w (EvObj t) passive s = (Inr (Some k), s1)"
  shows "\<exists>rec pl. createPrivateRootListenerCurrentnessGateRecord g k (CPrim DUndef) s1 = Some (Inr (rec, pl), s1) \<and>
     grCurrentListenerRowCount rec = grRegistrationCount rec \<and>
     (\<forall>name capture. (\<exists>n. validatePrivateRootListenerCurrentnessGateForEvent w s1 (Some pl) (EvObj t) name capture = Inr n) \<longleftrightarrow>
        (t, name, capture) \<in> set (missingListeners (setOf s) t (ownerDocumentTarget w (EvObj t)))) \<and>
     (\<forall>c s2 name capture. revertRootListenersForPrivateRoot w k s1 = (Inr c, s2) \<longrightarrow>
        validatePrivateRootListenerCurrentnessGateForEvent w s2 (Some pl) (EvObj t) name capture =
          Inl ''root-listener-currentness-not-current'')"
proof -
  have go: "lrHasAdd (rlReg s) t" "registerSupportedRootListeners w t passive True s = (Inr (Some k), s1)"
    using run by (auto simp: registerRootListenersForPrivateRoot_def assertEventTarget_def Let_def split: if_splits)
  obtain p where p: "rlRegistrations s1 k = Some p" "rpActive p" "rpRootContainerElement p = t"
    "rrRegistrationCount (rpRecord p) = length (rpInstalledListeners p)"
    "list_all2 (listensTo passive) (missingListeners (setOf s) t (ownerDocumentTarget w (EvObj t))) (rpInstalledListeners p)"
    "list_all trCurrent (gsTargetRows (createRootListenerCurrentnessGateState w s1 p))"
    "list_all (\<lambda>r. lwCurrent r \<and> lwListenerShellOwned r) (gsListenerRows (createRootListenerCurrentnessGateState w s1 p))"
    by (rule register_current [OF num go])
  let ?st = "createRootListenerCurrentnessGateState w s1 p"
  let ?rec = "makeGateRecord p ''createRoot'' None [None, None, None] ?st"
  let ?pl = "\<lparr>gpAfterState = ?st, gpBeforeState = ?st, gpListenerRegistrationRecord = k, gpSourceRecord = None\<rparr>"
  have cur: "list_all lwCurrent (gsListenerRows ?st)" using p(7) by (simp add: list_all_iff)
  have made: "createPrivateRootListenerCurrentnessGateRecord g k (CPrim DUndef) s1 = Some (Inr (?rec, ?pl), s1)"
    using gate_without_options [OF fuel undef p(1,2)] p(6) cur ew by (simp add: Let_def)
  have count: "grCurrentListenerRowCount ?rec = grRegistrationCount ?rec"
    using cur p(4) by (simp add: makeGateRecord_def Let_def list_all_iff filter_True createRootListenerCurrentnessGateState_def)
  have event: "(\<exists>n. validatePrivateRootListenerCurrentnessGateForEvent w s1 (Some ?pl) (EvObj t) name capture = Inr n) \<longleftrightarrow>
      (t, name, capture) \<in> set (missingListeners (setOf s) t (ownerDocumentTarget w (EvObj t)))" for name capture
    using gate_event_rows [OF p(5), of w s1 name capture] p(1-3,6,7) cur
    by (auto simp: validatePrivateRootListenerCurrentnessGateForEvent_def Let_def filter_empty_conv list_all_iff)
  have gone: "validatePrivateRootListenerCurrentnessGateForEvent w s2 (Some ?pl) (EvObj t) name capture =
      Inl ''root-listener-currentness-not-current''" if "revertRootListenersForPrivateRoot w k s1 = (Inr c, s2)" for c s2 name capture
    using that p(1-3)
    by (auto simp: revertRootListenersForPrivateRoot_def validatePrivateRootListenerCurrentnessGateForEvent_def Let_def
        split: sum.splits prod.splits)
  show ?thesis using made count event gone by blast
qed

end

text \<open>
  C9. The currentness gate of a registration: right after the registration of a private root the gate
  record is made, with every row current; it admits an event in a phase for the container exactly when
  the registration installed a listener for it there; and once the registration is reverted it admits
  nothing.
\<close>
theorem gate_admits_exactly_registered_events:
  assumes laws: "event_host_laws (gwEvents g) regs" and num: "numbered regs s" and fuel: "0 < gwFuel g"
    and undef: "gwFunction g (CPrim DUndef) = None"
    and run: "registerRootListenersForPrivateRoot (gwEvents g) (EvObj t) passive s = (Inr (Some k), s1)"
  shows "\<exists>rec pl. createPrivateRootListenerCurrentnessGateRecord g k (CPrim DUndef) s1 = Some (Inr (rec, pl), s1) \<and>
     grCurrentListenerRowCount rec = grRegistrationCount rec \<and>
     (\<forall>name capture. (\<exists>n. validatePrivateRootListenerCurrentnessGateForEvent (gwEvents g) s1 (Some pl) (EvObj t) name capture = Inr n) \<longleftrightarrow>
        (t, name, capture) \<in> set (missingListeners (setOf s) t (ownerDocumentTarget (gwEvents g) (EvObj t)))) \<and>
     (\<forall>c s2 name capture. revertRootListenersForPrivateRoot (gwEvents g) k s1 = (Inr c, s2) \<longrightarrow>
        validatePrivateRootListenerCurrentnessGateForEvent (gwEvents g) s2 (Some pl) (EvObj t) name capture =
          Inl ''root-listener-currentness-not-current'')"
  by (rule event_host_laws.gate_of_registration [OF laws num refl fuel undef run])

definition demoGate :: "fake_targets gate_world" where
  "demoGate = \<lparr>gwEvents = demoWorld, gwHeap = demoRecords, gwFuel = 3, gwFunction = (\<lambda>_. None)\<rparr>"

theorem gate_admits_exactly_registered_events_witness:
  "\<exists>k s1 rec pl. registerRootListenersForPrivateRoot demoWorld (EvObj 3) True demoListeners = (Inr (Some k), s1) \<and>
     createPrivateRootListenerCurrentnessGateRecord demoGate k (CPrim DUndef) s1 = Some (Inr (rec, pl), s1) \<and>
     (\<exists>n. validatePrivateRootListenerCurrentnessGateForEvent demoWorld s1 (Some pl) (EvObj 3) ''click'' True = Inr n) \<and>
     \<not> (\<exists>n. validatePrivateRootListenerCurrentnessGateForEvent demoWorld s1 (Some pl) (EvObj 3) ''load'' False = Inr n)"
proof -
  have g: "gwEvents demoGate = demoWorld" "0 < gwFuel demoGate" "gwFunction demoGate (CPrim DUndef) = None"
    by (simp_all add: demoGate_def)
  obtain k s1 where run: "registerRootListenersForPrivateRoot demoWorld (EvObj 3) True demoListeners = (Inr (Some k), s1)"
    using demo_registers by blast
  have click: "(''click'', True) \<in> set (listenerPairs allNativeEvents)" and load: "(''load'', False) \<notin> set (listenerPairs allNativeEvents)"
    by (auto simp: listenerPairs_def allNativeEvents_def isNonDelegatedEvent_def nonDelegatedEvents_def)
  have "(3, ''click'', True) \<in> set (missingListeners (setOf demoListeners) 3 (EvObj 2))"
    "(3, ''load'', False) \<notin> set (missingListeners (setOf demoListeners) 3 (EvObj 2))"
    using click load by (auto simp: missingListeners_def rootListeners_def demo_sets)
  then show ?thesis
    using gate_admits_exactly_registered_events [of demoGate, unfolded g(1), OF demo_laws demo_numbered g(2,3) run] run
    unfolding demo_document by blast
qed

end
