(* ===== verification/Plugin_Dispatch.thy ===== *)
theory Plugin_Dispatch
  imports Component_Props Events
begin

text \<open>
  \<open>packages/react-dom/src/events/plugin-event-system.js\<close>, first part: the names of simple events, and
  how a native event that reaches an event wrapper becomes a dispatch record with the queue of the
  listeners to call.

  The modules the extraction reads are bundled in \<open>dispatch_world\<close>: the DOM, the component tree and
  the listener registry. A native event is a number (\<open>None\<close>: no object) whose fields
  \<open>dwEvents\<close> gives. The records are compared by identity, so every listener record carries the number
  \<open>dlId\<close> it was created with; what the module keeps in weak maps beside a record (the listener, the
  latest props, the native event) are further fields of the record. Fields that are constants of the
  code are left out.
\<close>

subsection \<open>Simple event names\<close>

definition simpleEventPluginEvents :: "string list" where
  "simpleEventPluginEvents =
    [''abort'', ''auxClick'', ''beforeToggle'', ''cancel'', ''canPlay'', ''canPlayThrough'', ''click'', ''close'',
     ''contextMenu'', ''copy'', ''cut'', ''drag'', ''dragEnd'', ''dragEnter'', ''dragExit'', ''dragLeave'',
     ''dragOver'', ''dragStart'', ''drop'', ''durationChange'', ''emptied'', ''encrypted'', ''ended'', ''error'',
     ''gotPointerCapture'', ''input'', ''invalid'', ''keyDown'', ''keyPress'', ''keyUp'', ''load'', ''loadedData'',
     ''loadedMetadata'', ''loadStart'', ''lostPointerCapture'', ''mouseDown'', ''mouseMove'', ''mouseOut'',
     ''mouseOver'', ''mouseUp'', ''paste'', ''pause'', ''play'', ''playing'', ''pointerCancel'', ''pointerDown'',
     ''pointerMove'', ''pointerOut'', ''pointerOver'', ''pointerUp'', ''progress'', ''rateChange'', ''reset'',
     ''resize'', ''seeked'', ''seeking'', ''stalled'', ''submit'', ''suspend'', ''timeUpdate'', ''touchCancel'',
     ''touchEnd'', ''touchMove'', ''touchStart'', ''volumeChange'', ''scroll'', ''scrollEnd'', ''toggle'',
     ''waiting'', ''wheel'']"

text \<open>\<open>eventName[0].toUpperCase() + eventName.slice(1)\<close>\<close>
definition capitalise :: "string \<Rightarrow> string" where
  "capitalise s = (case s of [] \<Rightarrow> [] | c # cs \<Rightarrow> upperChar c # cs)"

definition createSimpleEventReactNameMap :: "string \<rightharpoonup> string" where
  "createSimpleEventReactNameMap =
     (fold (\<lambda>eventName m. m(toLowerCase eventName \<mapsto> ''on'' @ capitalise eventName)) simpleEventPluginEvents Map.empty)
       (''animationend'' \<mapsto> ''onAnimationEnd'',
        ''animationiteration'' \<mapsto> ''onAnimationIteration'',
        ''animationstart'' \<mapsto> ''onAnimationStart'',
        ''dblclick'' \<mapsto> ''onDoubleClick'',
        ''focusin'' \<mapsto> ''onFocus'',
        ''focusout'' \<mapsto> ''onBlur'',
        ''transitioncancel'' \<mapsto> ''onTransitionCancel'',
        ''transitionend'' \<mapsto> ''onTransitionEnd'',
        ''transitionrun'' \<mapsto> ''onTransitionRun'',
        ''transitionstart'' \<mapsto> ''onTransitionStart'')"

definition getSimpleEventReactName :: "string \<Rightarrow> string option" where
  "getSimpleEventReactName domEventName = createSimpleEventReactNameMap domEventName"

definition getSimpleEventRegistrationName :: "string \<Rightarrow> flags \<Rightarrow> string option" where
  "getSimpleEventRegistrationName domEventName eventSystemFlags =
     (case getSimpleEventReactName domEventName of
        None \<Rightarrow> None
      | Some reactName \<Rightarrow> Some (if isCapturePhase eventSystemFlags then reactName @ ''Capture'' else reactName))"

subsection \<open>Records\<close>

record dispatch_world =
  dwTree :: ct_world
  dwState :: ct_state
  dwRegistry :: listener_state
  dwObjects :: "nat \<Rightarrow> ev_object"
  dwEvents :: "nat \<Rightarrow> native_event"

definition nativeFields :: "dispatch_world \<Rightarrow> nat option \<Rightarrow> native_event option" where
  "nativeFields W nativeEvent = map_option (dwEvents W) nativeEvent"

text \<open>\<open>dlQueue\<close>: index and key of a private listener queue entry, \<open>None\<close> for a listener found in the props.\<close>
record dispatch_listener =
  dlId :: nat
  dlCurrentTarget :: nat
  dlDispatchPathIndex :: nat
  dlDomEventName :: string
  dlHostOwner :: dval
  dlInCapturePhase :: bool
  dlLatestPropsStatus :: string
  dlListenerFound :: bool
  dlListenerStatus :: string
  dlListenerType :: string
  dlNativeEventTarget :: ev_value
  dlNativeEventType :: dval
  dlPhase :: string
  dlQueue :: "(nat \<times> string) option"
  dlRegistrationName :: "string option"
  dlRootOwner :: dval
  dlTargetInst :: nat
  dlLatestProps :: dval
  dlListener :: dval
  dlNativeEvent :: "nat option"

record queue_entry_record =
  deDomEventName :: string
  deInCapturePhase :: bool
  deListeners :: "dispatch_listener list"
  deProcessingListenerRecords :: "dispatch_listener list"
  deNativeEventTarget :: ev_value
  deNativeEventType :: dval
  deProcessingOrder :: string
  deReactName :: "string option"
  deRegistrationName :: "string option"
  deNativeEvent :: "nat option"

definition deListenerCount :: "queue_entry_record \<Rightarrow> nat" where
  "deListenerCount e = length (deListeners e)"

record dispatch_queue =
  dqEntries :: "queue_entry_record list"
  dqListenerCount :: nat
  dqCanaryStatus :: string
  dqStatus :: string

definition createDispatchQueueRecord :: "queue_entry_record list \<Rightarrow> dispatch_queue" where
  "createDispatchQueueRecord entries =
     (let listenerCount = fold (\<lambda>entry count. count + deListenerCount entry) entries 0 in
      \<lparr>dqEntries = entries, dqListenerCount = listenerCount,
       dqCanaryStatus = (if listenerCount = 0 then ''unavailable-no-listeners'' else ''available-private-helper-only''),
       dqStatus = (if entries = [] then ''empty'' else ''blocked-listener-metadata-recorded'')\<rparr>)"

record plugin_record =
  prBlockedReason :: "string option"
  prDispatchEntryCount :: nat
  prExtractionStatus :: string
  prListenerMetadataCount :: nat
  prPluginName :: string

definition createPluginRecord :: "string \<Rightarrow> string \<Rightarrow> string option \<Rightarrow> (nat \<times> nat) option \<Rightarrow> plugin_record" where
  "createPluginRecord pluginName extractionStatus blockedReason metadata =
     \<lparr>prBlockedReason = blockedReason,
      prDispatchEntryCount = (case metadata of None \<Rightarrow> 0 | Some (entries, listeners) \<Rightarrow> entries),
      prExtractionStatus = extractionStatus,
      prListenerMetadataCount = (case metadata of None \<Rightarrow> 0 | Some (entries, listeners) \<Rightarrow> listeners),
      prPluginName = pluginName\<rparr>"

definition POLYFILL_EVENT_PLUGIN_NAMES :: "string list" where
  "POLYFILL_EVENT_PLUGIN_NAMES =
     [''enter-leave-event-plugin'', ''change-event-plugin'', ''select-event-plugin'', ''before-input-event-plugin'',
      ''form-action-event-plugin'']"

definition PLUGIN_EXTRACTION_BLOCKED_CODE :: string where
  "PLUGIN_EXTRACTION_BLOCKED_CODE = ''FAST_REACT_DOM_PLUGIN_EXTRACTION_BLOCKED''"

definition createPluginRecords :: "flags \<Rightarrow> dispatch_queue \<Rightarrow> plugin_record list" where
  "createPluginRecords eventSystemFlags dispatchQueue =
     (let processPolyfills = shouldProcessPolyfillEventPlugins eventSystemFlags in
      [createPluginRecord ''simple-event-plugin'' ''blocked'' (Some PLUGIN_EXTRACTION_BLOCKED_CODE)
         (Some (length (dqEntries dispatchQueue), dqListenerCount dispatchQueue))] @
      map (\<lambda>pluginName. createPluginRecord pluginName
             (if processPolyfills then ''blocked'' else ''skipped-by-event-system-flags'')
             (if processPolyfills then Some PLUGIN_EXTRACTION_BLOCKED_CODE else None) None) POLYFILL_EVENT_PLUGIN_NAMES @
      [createPluginRecord ''scroll-end-event-plugin'' ''blocked-by-feature-gate'' (Some PLUGIN_EXTRACTION_BLOCKED_CODE) None])"

subsection \<open>Listener records\<close>

definition createDispatchListenerRecord ::
  "dispatch_world \<Rightarrow> nat \<Rightarrow> wrapper_record \<Rightarrow> nat option \<Rightarrow> ev_value \<Rightarrow> path_entry \<Rightarrow> listener_lookup \<Rightarrow> dispatch_listener" where
  "createDispatchListenerRecord W i wrapperRecord nativeEvent nativeEventTarget pathEntry lookup =
     (let inCapturePhase = isCapturePhase (wrEventSystemFlags wrapperRecord) in
      \<lparr>dlId = i, dlCurrentTarget = peNode pathEntry, dlDispatchPathIndex = peIndex pathEntry,
       dlDomEventName = wrDomEventName wrapperRecord, dlHostOwner = peHostOwner pathEntry,
       dlInCapturePhase = inCapturePhase,
       dlLatestPropsStatus = (if llLatestProps lookup = DNull then ''missing'' else ''present''),
       dlListenerFound = llListenerFound lookup, dlListenerStatus = llListenerStatus lookup,
       dlListenerType = llListenerType lookup, dlNativeEventTarget = nativeEventTarget,
       dlNativeEventType = getNativeEventType (nativeFields W nativeEvent) (DStr (wrDomEventName wrapperRecord)),
       dlPhase = (if inCapturePhase then ''capture'' else ''bubble''), dlQueue = None,
       dlRegistrationName = llRegistrationName lookup, dlRootOwner = peRootOwner pathEntry,
       dlTargetInst = peToken pathEntry, dlLatestProps = llLatestProps lookup,
       dlListener = llListener lookup, dlNativeEvent = nativeEvent\<rparr>)"

definition createPrivateEventListenerQueueDispatchListenerRecord ::
  "dispatch_world \<Rightarrow> nat \<Rightarrow> wrapper_record \<Rightarrow> nat option \<Rightarrow> ev_value \<Rightarrow> path_entry \<Rightarrow> nat \<Rightarrow> dispatch_listener" where
  "createPrivateEventListenerQueueDispatchListenerRecord W i wrapperRecord nativeEvent nativeEventTarget pathEntry queueEntryRecord =
     (let inCapturePhase = isCapturePhase (wrEventSystemFlags wrapperRecord);
          entry = lrRecords (dwRegistry W) queueEntryRecord in
      \<lparr>dlId = i, dlCurrentTarget = peNode pathEntry, dlDispatchPathIndex = peIndex pathEntry,
       dlDomEventName = wrDomEventName wrapperRecord, dlHostOwner = peHostOwner pathEntry,
       dlInCapturePhase = inCapturePhase, dlLatestPropsStatus = peLatestPropsStatus pathEntry,
       dlListenerFound = True, dlListenerStatus = ''present'', dlListenerType = (case entry of None \<Rightarrow> [] | Some e \<Rightarrow> qeListenerType e),
       dlNativeEventTarget = nativeEventTarget,
       dlNativeEventType = getNativeEventType (nativeFields W nativeEvent) (DStr (wrDomEventName wrapperRecord)),
       dlPhase = (if inCapturePhase then ''capture'' else ''bubble''),
       dlQueue = map_option (\<lambda>e. (qeListenerQueueIndex e, qeListenerQueueKey e)) entry,
       dlRegistrationName = getSimpleEventRegistrationName (wrDomEventName wrapperRecord) (wrEventSystemFlags wrapperRecord),
       dlRootOwner = peRootOwner pathEntry, dlTargetInst = peToken pathEntry, dlLatestProps = DNull,
       dlListener = (case getPrivateEventListenerQueueEntryPayload (dwRegistry W) queueEntryRecord of
                       None \<Rightarrow> DNull
                     | Some payload \<Rightarrow> qpListener payload),
       dlNativeEvent = nativeEvent\<rparr>)"

text \<open>The records are numbered from \<open>i\<close> on.\<close>
definition createPrivateEventListenerQueueDispatchListenerRecords ::
  "dispatch_world \<Rightarrow> nat \<Rightarrow> wrapper_record \<Rightarrow> nat option \<Rightarrow> ev_value \<Rightarrow> path_entry \<Rightarrow> dispatch_listener list" where
  "createPrivateEventListenerQueueDispatchListenerRecords W i wrapperRecord nativeEvent nativeEventTarget pathEntry =
     (let queueEntries = getPrivateEventListenerQueueEntries (dwRegistry W) (EvObj (peNode pathEntry))
            (wrDomEventName wrapperRecord) (DBool (isCapturePhase (wrEventSystemFlags wrapperRecord)))
      in map (\<lambda>(j, q). createPrivateEventListenerQueueDispatchListenerRecord W (i + j) wrapperRecord nativeEvent
                          nativeEventTarget pathEntry q)
           (enumerate 0 queueEntries))"

definition createDispatchQueueEntryRecord ::
  "dispatch_world \<Rightarrow> wrapper_record \<Rightarrow> nat option \<Rightarrow> ev_value \<Rightarrow> dispatch_listener list \<Rightarrow> queue_entry_record" where
  "createDispatchQueueEntryRecord W wrapperRecord nativeEvent nativeEventTarget listenerRecords =
     (let inCapturePhase = isCapturePhase (wrEventSystemFlags wrapperRecord) in
      \<lparr>deDomEventName = wrDomEventName wrapperRecord, deInCapturePhase = inCapturePhase, deListeners = listenerRecords,
       deProcessingListenerRecords = (if inCapturePhase then rev listenerRecords else listenerRecords),
       deNativeEventTarget = nativeEventTarget,
       deNativeEventType = getNativeEventType (nativeFields W nativeEvent) (DStr (wrDomEventName wrapperRecord)),
       deProcessingOrder = (if inCapturePhase then ''root-to-target'' else ''target-to-root''),
       deReactName = getSimpleEventReactName (wrDomEventName wrapperRecord),
       deRegistrationName = (case listenerRecords of [] \<Rightarrow> None | l # ls \<Rightarrow> dlRegistrationName l),
       deNativeEvent = nativeEvent\<rparr>)"

subsection \<open>Extraction\<close>

text \<open>\<open>registrationName\<close> as the value the lookup is called with.\<close>
definition registrationValue :: "string option \<Rightarrow> dval" where
  "registrationValue registrationName = (case registrationName of None \<Rightarrow> DNull | Some s \<Rightarrow> DStr s)"

text \<open>The listeners of one path entry: the private queue of the node, then the listener of the props.\<close>
definition entryListeners ::
  "dispatch_world \<Rightarrow> nat \<Rightarrow> wrapper_record \<Rightarrow> nat option \<Rightarrow> ev_value \<Rightarrow> path_entry \<Rightarrow> listener_lookup \<Rightarrow> dispatch_listener list" where
  "entryListeners W i wrapperRecord nativeEvent nativeEventTarget pathEntry lookup =
     (let queued = createPrivateEventListenerQueueDispatchListenerRecords W i wrapperRecord nativeEvent nativeEventTarget pathEntry in
      if llListenerFound lookup then
        queued @ [createDispatchListenerRecord W (i + length queued) wrapperRecord nativeEvent nativeEventTarget pathEntry lookup]
      else queued)"

text \<open>
  The loop over the path entries; the numbers of the listener records go on from \<open>i\<close>. \<open>None\<close>: the
  walk to the closest mounted host instance does not end.
\<close>
fun pathEntryLoop ::
  "dispatch_world \<Rightarrow> wrapper_record \<Rightarrow> nat option \<Rightarrow> ev_value \<Rightarrow> target_record \<Rightarrow> path_entry list \<Rightarrow>
   listener_lookup list \<Rightarrow> dispatch_listener list \<Rightarrow> nat \<Rightarrow>
   (dom_error + listener_lookup list \<times> dispatch_listener list) option" where
  "pathEntryLoop W wrapperRecord nativeEvent nativeEventTarget target [] lookups listenerRecords i =
     Some (Inr (lookups, listenerRecords))"
| "pathEntryLoop W wrapperRecord nativeEvent nativeEventTarget target (pathEntry # entries) lookups listenerRecords i =
     Option.bind
       (if peIndex pathEntry = 0 then Some target
        else createEventTargetNormalizationRecord (dwTree W) (dwState W) (Some (peNode pathEntry)))
       (\<lambda>listenerTarget.
          case createEventListenerTargetLookupRecord (dwTree W) (dwState W) (Some listenerTarget)
                 (registrationValue (getSimpleEventRegistrationName (wrDomEventName wrapperRecord) (wrEventSystemFlags wrapperRecord))) of
            Inl e \<Rightarrow> Some (Inl e)
          | Inr lookup \<Rightarrow>
              (let added = entryListeners W i wrapperRecord nativeEvent nativeEventTarget pathEntry lookup in
               pathEntryLoop W wrapperRecord nativeEvent nativeEventTarget target entries (lookups @ [lookup])
                 (listenerRecords @ added) (i + length added)))"

record simple_metadata =
  smDispatchQueue :: dispatch_queue
  smTargetListenerLookupRecord :: "listener_lookup option"
  smTargetListenerLookupRecords :: "listener_lookup list"

definition createSimpleEventDispatchMetadata ::
  "dispatch_world \<Rightarrow> nat \<Rightarrow> wrapper_record \<Rightarrow> nat option \<Rightarrow> ev_value \<Rightarrow> target_record \<Rightarrow> dispatch_path \<Rightarrow>
   (dom_error + simple_metadata) option" where
  "createSimpleEventDispatchMetadata W i wrapperRecord nativeEvent nativeEventTarget target path =
     (let finish = (\<lambda>lookups listenerRecords.
            \<lparr>smDispatchQueue = createDispatchQueueRecord
               (if listenerRecords = [] then []
                else [createDispatchQueueEntryRecord W wrapperRecord nativeEvent nativeEventTarget listenerRecords]),
             smTargetListenerLookupRecord = (case lookups of [] \<Rightarrow> None | l # ls \<Rightarrow> Some l),
             smTargetListenerLookupRecords = lookups\<rparr>) in
      if dpEntries path = [] then
        (case createEventListenerTargetLookupRecord (dwTree W) (dwState W) (Some target)
                (registrationValue (getSimpleEventRegistrationName (wrDomEventName wrapperRecord) (wrEventSystemFlags wrapperRecord))) of
           Inl e \<Rightarrow> Some (Inl e)
         | Inr lookup \<Rightarrow> Some (Inr (finish [lookup] [])))
      else
        map_option (\<lambda>r. case r of Inl e \<Rightarrow> Inl e | Inr (lookups, listenerRecords) \<Rightarrow> Inr (finish lookups listenerRecords))
          (pathEntryLoop W wrapperRecord nativeEvent nativeEventTarget target (dpEntries path) [] [] i))"

record extraction_record =
  erDispatchQueue :: dispatch_queue
  erDomEventName :: string
  erEventSystemFlags :: flags
  erInCapturePhase :: bool
  erNativeEventTarget :: ev_value
  erNativeEventType :: dval
  erPluginRecords :: "plugin_record list"
  erShouldProcessPolyfillPlugins :: bool
  erTargetContainer :: nat
  erTargetDispatchPathRecord :: dispatch_path
  erTargetListenerFound :: bool
  erTargetListenerLookupRecord :: "listener_lookup option"
  erTargetListenerLookupRecords :: "listener_lookup list"
  erTargetListenerLookupStatus :: string
  erTargetListenerRegistrationName :: "string option"
  erTargetNormalizationRecord :: target_record

text \<open>
  The lookup record the caller may pass is left out: every call in the file passes \<open>undefined\<close>, and
  the path record is always given.
\<close>
definition createPluginExtractionRecord ::
  "dispatch_world \<Rightarrow> nat \<Rightarrow> wrapper_record \<Rightarrow> nat option \<Rightarrow> ev_value \<Rightarrow> target_record \<Rightarrow> dispatch_path \<Rightarrow>
   (dom_error + extraction_record) option" where
  "createPluginExtractionRecord W i wrapperRecord nativeEvent nativeEventTarget target path =
     map_option
       (\<lambda>r. case r of
              Inl e \<Rightarrow> Inl e
            | Inr metadata \<Rightarrow>
                (let lookup = smTargetListenerLookupRecord metadata in
                 Inr \<lparr>erDispatchQueue = smDispatchQueue metadata, erDomEventName = wrDomEventName wrapperRecord,
                      erEventSystemFlags = wrEventSystemFlags wrapperRecord,
                      erInCapturePhase = isCapturePhase (wrEventSystemFlags wrapperRecord),
                      erNativeEventTarget = nativeEventTarget,
                      erNativeEventType = getNativeEventType (nativeFields W nativeEvent) (DStr (wrDomEventName wrapperRecord)),
                      erPluginRecords = createPluginRecords (wrEventSystemFlags wrapperRecord) (smDispatchQueue metadata),
                      erShouldProcessPolyfillPlugins = shouldProcessPolyfillEventPlugins (wrEventSystemFlags wrapperRecord),
                      erTargetContainer = wrTargetContainer wrapperRecord, erTargetDispatchPathRecord = path,
                      erTargetListenerFound = (case lookup of None \<Rightarrow> False | Some l \<Rightarrow> llListenerFound l),
                      erTargetListenerLookupRecord = lookup,
                      erTargetListenerLookupRecords = smTargetListenerLookupRecords metadata,
                      erTargetListenerLookupStatus = (case lookup of None \<Rightarrow> ''not-applicable'' | Some l \<Rightarrow> llListenerStatus l),
                      erTargetListenerRegistrationName = (case lookup of None \<Rightarrow> None | Some l \<Rightarrow> llRegistrationName l),
                      erTargetNormalizationRecord = target\<rparr>))
       (createSimpleEventDispatchMetadata W i wrapperRecord nativeEvent nativeEventTarget target path)"

record dispatch_record =
  edDispatchQueue :: dispatch_queue
  edDomEventName :: string
  edExtractionRecord :: extraction_record
  edInCapturePhase :: bool
  edIsEventHandleNonManagedNode :: bool
  edIsNonDelegatedEvent :: bool
  edNativeEvent :: "nat option"
  edNativeEventTarget :: ev_value
  edNativeEventType :: dval
  edTargetDispatchPathRecord :: dispatch_path
  edTargetHostInstanceNode :: "nat option"
  edTargetHostInstanceToken :: "nat option"
  edTargetInst :: "nat option"
  edTargetNormalizationRecord :: target_record
  edTargetResolutionStatus :: string
  edWrapperRecord :: wrapper_record

text \<open>The node of a value; what is no object is no node.\<close>
definition valueNode :: "ev_value \<Rightarrow> nat option" where
  "valueNode v = (case v of EvObj n \<Rightarrow> Some n | EvVal x \<Rightarrow> None)"

text \<open>\<open>listenerOrWrapperRecord\<close> is \<open>None\<close> when it neither is nor carries a wrapper record of the right shape.\<close>
definition assertEventListenerWrapperRecord :: "wrapper_record option \<Rightarrow> dom_error + wrapper_record" where
  "assertEventListenerWrapperRecord listenerOrWrapperRecord =
     (case listenerOrWrapperRecord of
        None \<Rightarrow> Inl (CodedError ''FAST_REACT_DOM_INVALID_EVENT_WRAPPER_RECORD''
                 ''Cannot create a React DOM event dispatch record without a private listener wrapper record.'')
      | Some wrapperRecord \<Rightarrow> Inr wrapperRecord)"

definition createEventDispatchRecordFromWrapperRecord ::
  "dispatch_world \<Rightarrow> nat \<Rightarrow> wrapper_record option \<Rightarrow> nat option \<Rightarrow> (dom_error + dispatch_record) option" where
  "createEventDispatchRecordFromWrapperRecord W i listenerOrWrapperRecord nativeEvent =
     (case assertEventListenerWrapperRecord listenerOrWrapperRecord of
        Inl e \<Rightarrow> Some (Inl e)
      | Inr wrapperRecord \<Rightarrow>
          (let eventSystemFlags = wrEventSystemFlags wrapperRecord;
               nativeEventTarget = getEventTarget (dwObjects W) (nativeFields W nativeEvent) (EvObj (wrTargetContainer wrapperRecord))
           in Option.bind (createEventTargetNormalizationRecord (dwTree W) (dwState W) (valueNode nativeEventTarget))
                (\<lambda>target. Option.bind (createEventTargetDispatchPathRecord (dwTree W) (dwState W) (Some target))
                   (\<lambda>r. case r of
                          Inl e \<Rightarrow> Some (Inl e)
                        | Inr path \<Rightarrow>
                            map_option
                              (\<lambda>r. case r of
                                     Inl e \<Rightarrow> Inl e
                                   | Inr extraction \<Rightarrow>
                                       Inr \<lparr>edDispatchQueue = erDispatchQueue extraction,
                                            edDomEventName = wrDomEventName wrapperRecord, edExtractionRecord = extraction,
                                            edInCapturePhase = isCapturePhase eventSystemFlags,
                                            edIsEventHandleNonManagedNode = isEventHandleNonManagedNode eventSystemFlags,
                                            edIsNonDelegatedEvent = isNonDelegatedEventSystem eventSystemFlags,
                                            edNativeEvent = nativeEvent, edNativeEventTarget = nativeEventTarget,
                                            edNativeEventType = getNativeEventType (nativeFields W nativeEvent) (DStr (wrDomEventName wrapperRecord)),
                                            edTargetDispatchPathRecord = path, edTargetHostInstanceNode = trClosestNode target,
                                            edTargetHostInstanceToken = trClosestToken target, edTargetInst = dpTargetInst path,
                                            edTargetNormalizationRecord = target,
                                            edTargetResolutionStatus = (if dpTargetInst path \<noteq> None then ''resolved'' else ''blocked''),
                                            edWrapperRecord = wrapperRecord\<rparr>)
                              (createPluginExtractionRecord W i wrapperRecord nativeEvent nativeEventTarget target path)))))"

end
