(* ===== verification/Plugin_Invocation.thy ===== *)
theory Plugin_Invocation
  imports Plugin_Dispatch
begin

text \<open>
  \<open>packages/react-dom/src/events/plugin-event-system.js\<close>, second part: calling the listeners of dispatch
  records (\<open>invokeDispatchQueueCanaryFromDispatchRecords\<close> and what it calls), with \<open>stopPropagation\<close>,
  \<open>preventDefault\<close> and the native \<open>stopImmediatePropagation\<close>.

  A listener is arbitrary code: a \<open>listener_prog\<close> acts on the event or on a native event, sees after each
  action whether it threw and what the event then shows, and in the end returns or throws. The
  methods of native events belong to the browser: \<open>native_methods\<close> is a parameter. The call counters that
  native events carry are integers.
\<close>

subsection \<open>Native events\<close>

record native_state =
  nsDefaultPrevented :: dval
  nsReturnValue :: dval
  nsCancelBubble :: dval
  nsPreventDefaultCallCount :: "int option"  \<comment> \<open>\<open>None\<close>: no number\<close>
  nsStopPropagationCallCount :: "int option"
  nsStopImmediatePropagationCallCount :: "int option"
  nsImmediatePropagationStopped :: dval

text \<open>The methods a native event has; \<open>True\<close> in a result: the method throws.\<close>
record native_methods =
  nmPreventDefault :: "(native_state \<Rightarrow> bool \<times> native_state) option"
  nmStopPropagation :: "(native_state \<Rightarrow> bool \<times> native_state) option"

type_synonym natives = "nat \<Rightarrow> native_state"

definition getNativeEventDefaultPrevented :: "natives \<Rightarrow> nat option \<Rightarrow> bool" where
  "getNativeEventDefaultPrevented N nativeEvent =
     (case nativeEvent of
        None \<Rightarrow> False
      | Some e \<Rightarrow> if \<not> nullish (nsDefaultPrevented (N e)) then nsDefaultPrevented (N e) = DBool True
                 else nsReturnValue (N e) = DBool False)"

definition getNativeEventPreventDefaultCallCount :: "natives \<Rightarrow> nat option \<Rightarrow> int option" where
  "getNativeEventPreventDefaultCallCount N nativeEvent =
     (case nativeEvent of None \<Rightarrow> None | Some e \<Rightarrow> nsPreventDefaultCallCount (N e))"

definition getNativeEventPreventDefaultDiagnosticCallCount :: "natives \<Rightarrow> nat option \<Rightarrow> int" where
  "getNativeEventPreventDefaultDiagnosticCallCount N nativeEvent =
     (case getNativeEventPreventDefaultCallCount N nativeEvent of None \<Rightarrow> 0 | Some c \<Rightarrow> c)"

definition getNativeStopPropagationCallCount :: "natives \<Rightarrow> nat option \<Rightarrow> int" where
  "getNativeStopPropagationCallCount N nativeEvent =
     (case nativeEvent of
        None \<Rightarrow> 0
      | Some e \<Rightarrow> (case nsStopPropagationCallCount (N e) of None \<Rightarrow> 0 | Some c \<Rightarrow> c))"

definition getNativeStopImmediatePropagationCallCount :: "natives \<Rightarrow> nat option \<Rightarrow> int" where
  "getNativeStopImmediatePropagationCallCount N nativeEvent =
     (case nativeEvent of
        None \<Rightarrow> 0
      | Some e \<Rightarrow>
          (case nsStopImmediatePropagationCallCount (N e) of
             Some c \<Rightarrow> c
           | None \<Rightarrow> if nsImmediatePropagationStopped (N e) = DBool True then 1 else 0))"

text \<open>The test \<open>typeof nativeEvent.returnValue !== 'unknown'\<close> always holds.\<close>
definition routeCanaryPreventDefaultToNativeEvent :: "(nat \<Rightarrow> native_methods) \<Rightarrow> nat option \<Rightarrow> natives \<Rightarrow> bool \<times> natives" where
  "routeCanaryPreventDefaultToNativeEvent M nativeEvent N =
     (case nativeEvent of
        None \<Rightarrow> (False, N)
      | Some e \<Rightarrow>
          (case nmPreventDefault (M e) of
             Some f \<Rightarrow> (let (threw, n) = f (N e) in (threw, N(e := n)))
           | None \<Rightarrow> (False, N(e := (N e)\<lparr>nsReturnValue := DBool False\<rparr>))))"

definition routeCanaryStopPropagationToNativeEvent :: "(nat \<Rightarrow> native_methods) \<Rightarrow> nat option \<Rightarrow> natives \<Rightarrow> bool \<times> natives" where
  "routeCanaryStopPropagationToNativeEvent M nativeEvent N =
     (case nativeEvent of
        None \<Rightarrow> (False, N)
      | Some e \<Rightarrow>
          (case nmStopPropagation (M e) of
             Some f \<Rightarrow> (let (threw, n) = f (N e) in (threw, N(e := n)))
           | None \<Rightarrow> (False, N(e := (N e)\<lparr>nsCancelBubble := DBool True\<rparr>))))"

subsection \<open>State of a dispatch\<close>

record canary_options =
  coDefaultPrevented :: bool
  coListenerErrorRouting :: bool
  coNativeStopImmediate :: bool
  coPropagationStop :: bool
  coUseProcessingOrder :: bool

text \<open>The options as values; \<open>DUndef\<close> for a field that is missing.\<close>
record canary_option_values =
  cvEnableDefaultPrevented :: dval
  cvEnableListenerErrorRouting :: dval
  cvEnableNativeStopImmediate :: dval
  cvEnablePropagationStop :: dval
  cvUseProcessingOrder :: dval

definition normalizeDispatchQueueCanaryOptions :: "canary_option_values option \<Rightarrow> canary_options" where
  "normalizeDispatchQueueCanaryOptions options =
     (case options of
        None \<Rightarrow> \<lparr>coDefaultPrevented = False, coListenerErrorRouting = False, coNativeStopImmediate = False,
                 coPropagationStop = False, coUseProcessingOrder = True\<rparr>
      | Some v \<Rightarrow> \<lparr>coDefaultPrevented = (cvEnableDefaultPrevented v = DBool True),
                   coListenerErrorRouting = (cvEnableListenerErrorRouting v = DBool True),
                   coNativeStopImmediate = (cvEnableNativeStopImmediate v = DBool True),
                   coPropagationStop = (cvEnablePropagationStop v = DBool True),
                   coUseProcessingOrder = (cvUseProcessingOrder v \<noteq> DBool False)\<rparr>)"

record propagation_state =
  psCurrentRecord :: "dispatch_listener option"
  psCurrentTarget :: "nat option"
  psEnableNativeStopImmediate :: bool
  psEnablePropagationStop :: bool
  psNativeImmediatePropagationStopped :: bool
  psNativeEvent :: "nat option"
  psNativeStopImmediateCallCount :: int
  psNativeStopImmediateNativeCallCount :: int
  psNativeStopImmediateSource :: "dispatch_listener option"
  psNativeStopImmediateStoppedEvent :: "nat option"
  psNativeStopPropagationCallCount :: int
  psPropagationStopped :: bool
  psStoppedNativeEvent :: "nat option"
  psStopPropagationCallCount :: nat
  psStopSource :: "dispatch_listener option"

definition createDispatchQueuePropagationDiagnosticState :: "canary_options \<Rightarrow> propagation_state option" where
  "createDispatchQueuePropagationDiagnosticState options =
     (if \<not> coPropagationStop options \<and> \<not> coNativeStopImmediate options then None
      else Some \<lparr>psCurrentRecord = None, psCurrentTarget = None, psEnableNativeStopImmediate = coNativeStopImmediate options,
                 psEnablePropagationStop = coPropagationStop options, psNativeImmediatePropagationStopped = False,
                 psNativeEvent = None, psNativeStopImmediateCallCount = 0, psNativeStopImmediateNativeCallCount = 0,
                 psNativeStopImmediateSource = None, psNativeStopImmediateStoppedEvent = None,
                 psNativeStopPropagationCallCount = 0, psPropagationStopped = False, psStoppedNativeEvent = None,
                 psStopPropagationCallCount = 0, psStopSource = None\<rparr>)"

record default_state =
  dsCurrentRecord :: "dispatch_listener option"
  dsCurrentTarget :: "nat option"
  dsDefaultPrevented :: bool
  dsInitialDefaultPrevented :: bool
  dsInitialNativePreventDefaultCallCount :: int
  dsNativeEvent :: "nat option"
  dsNativeEventPreventDefaultCallCount :: int
  dsPreventDefaultCallCount :: nat
  dsPreventDefaultSource :: "dispatch_listener option"

definition createDispatchQueueDefaultPreventedDiagnosticState :: "canary_options \<Rightarrow> default_state option" where
  "createDispatchQueueDefaultPreventedDiagnosticState options =
     (if \<not> coDefaultPrevented options then None
      else Some \<lparr>dsCurrentRecord = None, dsCurrentTarget = None, dsDefaultPrevented = False, dsInitialDefaultPrevented = False,
                 dsInitialNativePreventDefaultCallCount = 0, dsNativeEvent = None, dsNativeEventPreventDefaultCallCount = 0,
                 dsPreventDefaultCallCount = 0, dsPreventDefaultSource = None\<rparr>)"

text \<open>\<open>csCurrentTarget\<close> and \<open>csCurrentRecord\<close>: the \<open>currentTargetState\<close> of the queue entry being processed.\<close>
record canary_state =
  csNatives :: natives
  csPropagation :: "propagation_state option"
  csDefault :: "default_state option"
  csCurrentRecord :: "dispatch_listener option"
  csCurrentTarget :: "nat option"

definition syncDefaultPreventedDiagnosticStateFromNative :: "natives \<Rightarrow> default_state \<Rightarrow> default_state" where
  "syncDefaultPreventedDiagnosticStateFromNative N ds =
     ds\<lparr>dsNativeEventPreventDefaultCallCount := getNativeEventPreventDefaultDiagnosticCallCount N (dsNativeEvent ds),
        dsDefaultPrevented := (getNativeEventDefaultPrevented N (dsNativeEvent ds) \<or> dsDefaultPrevented ds)\<rparr>"

definition initializeDefaultPreventedDiagnosticStateForNativeEvent :: "natives \<Rightarrow> nat option \<Rightarrow> default_state \<Rightarrow> default_state" where
  "initializeDefaultPreventedDiagnosticStateForNativeEvent N nativeEvent ds =
     (if dsNativeEvent ds \<noteq> nativeEvent then
        (let prevented = getNativeEventDefaultPrevented N nativeEvent;
             calls = getNativeEventPreventDefaultDiagnosticCallCount N nativeEvent in
         ds\<lparr>dsNativeEvent := nativeEvent, dsInitialDefaultPrevented := prevented,
            dsInitialNativePreventDefaultCallCount := calls, dsDefaultPrevented := prevented,
            dsNativeEventPreventDefaultCallCount := calls\<rparr>)
      else syncDefaultPreventedDiagnosticStateFromNative N ds)"

subsection \<open>Event contexts\<close>

definition setCurrent :: "dispatch_listener option \<Rightarrow> canary_state \<Rightarrow> canary_state" where
  "setCurrent l s =
     (let t = map_option dlCurrentTarget l in
      s\<lparr>csCurrentRecord := l, csCurrentTarget := t,
        csPropagation := map_option (\<lambda>ps. ps\<lparr>psCurrentRecord := l, psCurrentTarget := t\<rparr>) (csPropagation s),
        csDefault := map_option (\<lambda>ds. ds\<lparr>dsCurrentRecord := l, dsCurrentTarget := t\<rparr>) (csDefault s)\<rparr>)"

definition prepareDispatchQueueCanaryEventForListener :: "dispatch_listener \<Rightarrow> canary_state \<Rightarrow> canary_state" where
  "prepareDispatchQueueCanaryEventForListener l s = setCurrent (Some l) s"

definition resetDispatchQueueCanaryEventAfterListener :: "canary_state \<Rightarrow> canary_state" where
  "resetDispatchQueueCanaryEventAfterListener s = setCurrent None s"

text \<open>The fields of the event object that do not change; the rest is read from the state.\<close>
record canary_event =
  ceDefaultPreventedEnabled :: bool
  ceDomEventName :: string
  ceNativeStopImmediateEnabled :: bool
  ceNativeEventType :: dval
  cePhase :: string
  cePropagationStopEnabled :: bool
  ceRegistrationName :: "string option"
  ceTarget :: ev_value
  ceTargetInst :: "nat option"

definition createDispatchListenerCanaryEvent ::
  "dispatch_listener \<Rightarrow> propagation_state option \<Rightarrow> default_state option \<Rightarrow> nat option \<Rightarrow> canary_event" where
  "createDispatchListenerCanaryEvent l propagationState defaultPreventedState targetInst =
     \<lparr>ceDefaultPreventedEnabled = (defaultPreventedState \<noteq> None), ceDomEventName = dlDomEventName l,
      ceNativeStopImmediateEnabled =
        (case propagationState of None \<Rightarrow> False | Some ps \<Rightarrow> psEnableNativeStopImmediate ps),
      ceNativeEventType = dlNativeEventType l, cePhase = dlPhase l,
      cePropagationStopEnabled = (case propagationState of None \<Rightarrow> False | Some ps \<Rightarrow> psEnablePropagationStop ps),
      ceRegistrationName = dlRegistrationName l, ceTarget = dlNativeEventTarget l, ceTargetInst = targetInst\<rparr>"

text \<open>The state a queue entry starts in, and its event; an entry without listeners has none.\<close>
definition createDispatchQueueCanaryEventContext ::
  "dispatch_record \<Rightarrow> dispatch_listener list \<Rightarrow> canary_state \<Rightarrow> canary_event option \<times> canary_state" where
  "createDispatchQueueCanaryEventContext dispatchRecord listenerRecords s =
     (case listenerRecords of
        [] \<Rightarrow> (None, s)
      | l # ls \<Rightarrow>
          (let nativeEvent = dlNativeEvent l;
               propagation = map_option
                 (\<lambda>ps. ps\<lparr>psNativeEvent := nativeEvent,
                        psPropagationStopped := (psStoppedNativeEvent ps = nativeEvent \<and> psPropagationStopped ps),
                        psNativeStopPropagationCallCount := getNativeStopPropagationCallCount (csNatives s) nativeEvent,
                        psNativeImmediatePropagationStopped :=
                          (psNativeStopImmediateStoppedEvent ps = nativeEvent \<and> psNativeImmediatePropagationStopped ps),
                        psNativeStopImmediateNativeCallCount :=
                          getNativeStopImmediatePropagationCallCount (csNatives s) nativeEvent\<rparr>) (csPropagation s);
               default = map_option (initializeDefaultPreventedDiagnosticStateForNativeEvent (csNatives s) nativeEvent) (csDefault s)
           in (Some (createDispatchListenerCanaryEvent l propagation default (edTargetInst dispatchRecord)),
               s\<lparr>csPropagation := propagation, csDefault := default, csCurrentRecord := None, csCurrentTarget := None\<rparr>)))"

definition shouldSkipDispatchListenerForPropagationStop :: "dispatch_listener \<Rightarrow> nat option \<Rightarrow> canary_state \<Rightarrow> bool" where
  "shouldSkipDispatchListenerForPropagationStop l previousInstance s =
     (case csPropagation s of
        None \<Rightarrow> False
      | Some ps \<Rightarrow> psPropagationStopped ps \<and> Some (dlTargetInst l) \<noteq> previousInstance)"

definition shouldSkipDispatchListenerForNativeStopImmediatePropagation :: "dispatch_listener \<Rightarrow> canary_state \<Rightarrow> bool" where
  "shouldSkipDispatchListenerForNativeStopImmediatePropagation l s =
     (case csPropagation s of
        None \<Rightarrow> False
      | Some ps \<Rightarrow> psEnableNativeStopImmediate ps \<and> psNativeImmediatePropagationStopped ps \<and>
          Some (dlId l) \<noteq> map_option dlId (psNativeStopImmediateSource ps))"

subsection \<open>Listener code\<close>

text \<open>What a listener can read of the event; a field that the event does not have is \<open>None\<close>.\<close>
record event_view =
  evEvent :: canary_event
  evCurrentTarget :: "nat option"
  evDefaultPrevented :: "bool option"
  evPropagationStopped :: "bool option"
  evNativeImmediatePropagationStopped :: "bool option"
  evNativeEvent :: "nat option option"

definition viewEvent :: "canary_event \<Rightarrow> canary_state \<Rightarrow> event_view" where
  "viewEvent event s =
     \<lparr>evEvent = event, evCurrentTarget = csCurrentTarget s,
      evDefaultPrevented = map_option dsDefaultPrevented (csDefault s),
      evPropagationStopped =
        (case csPropagation s of
           None \<Rightarrow> None | Some ps \<Rightarrow> if psEnablePropagationStop ps then Some (psPropagationStopped ps) else None),
      evNativeImmediatePropagationStopped =
        (case csPropagation s of
           None \<Rightarrow> None
         | Some ps \<Rightarrow>
             if psEnableNativeStopImmediate ps then
               Some (psNativeImmediatePropagationStopped ps \<or>
                 getNativeStopImmediatePropagationCallCount (csNatives s) (psNativeEvent ps) > psNativeStopImmediateNativeCallCount ps)
             else None),
      evNativeEvent =
        (case csPropagation s of
           None \<Rightarrow> None | Some ps \<Rightarrow> if psEnableNativeStopImmediate ps then Some (psNativeEvent ps) else None)\<rparr>"

datatype listener_action =
    StopPropagation
  | PreventDefault
  | UpdateNative nat "native_state \<Rightarrow> native_state"

datatype listener_prog =
    ReturnValue dval
  | ThrowValue dval
  | Act listener_action "bool \<Rightarrow> event_view \<Rightarrow> listener_prog"

text \<open>The methods of the event object. \<open>True\<close>: the call throws, also because the event has no such method.\<close>
definition eventStopPropagation :: "(nat \<Rightarrow> native_methods) \<Rightarrow> canary_state \<Rightarrow> bool \<times> canary_state" where
  "eventStopPropagation M s =
     (case csPropagation s of
        None \<Rightarrow> (True, s)
      | Some ps \<Rightarrow>
          if \<not> psEnablePropagationStop ps then (True, s)
          else
            (let ps1 = ps\<lparr>psPropagationStopped := True, psStoppedNativeEvent := psNativeEvent ps,
                          psStopPropagationCallCount := psStopPropagationCallCount ps + 1, psStopSource := psCurrentRecord ps\<rparr>;
                 (threw, N) = routeCanaryStopPropagationToNativeEvent M (psNativeEvent ps) (csNatives s);
                 ps2 = (if threw then ps1
                        else ps1\<lparr>psNativeStopPropagationCallCount := getNativeStopPropagationCallCount N (psNativeEvent ps)\<rparr>)
             in (threw, s\<lparr>csNatives := N, csPropagation := Some ps2\<rparr>)))"

definition eventPreventDefault :: "(nat \<Rightarrow> native_methods) \<Rightarrow> canary_state \<Rightarrow> bool \<times> canary_state" where
  "eventPreventDefault M s =
     (case csDefault s of
        None \<Rightarrow> (True, s)
      | Some ds \<Rightarrow>
          (let ds1 = ds\<lparr>dsDefaultPrevented := True, dsPreventDefaultCallCount := dsPreventDefaultCallCount ds + 1,
                        dsPreventDefaultSource := dsCurrentRecord ds\<rparr>;
               (threw, N) = routeCanaryPreventDefaultToNativeEvent M (dsNativeEvent ds) (csNatives s);
               ds2 = (if threw then ds1 else syncDefaultPreventedDiagnosticStateFromNative N ds1)
           in (threw, s\<lparr>csNatives := N, csDefault := Some ds2\<rparr>)))"

fun performAction :: "(nat \<Rightarrow> native_methods) \<Rightarrow> listener_action \<Rightarrow> canary_state \<Rightarrow> bool \<times> canary_state" where
  "performAction M StopPropagation s = eventStopPropagation M s"
| "performAction M PreventDefault s = eventPreventDefault M s"
| "performAction M (UpdateNative e f) s = (False, s\<lparr>csNatives := (csNatives s)(e := f (csNatives s e))\<rparr>)"

text \<open>\<open>Inl\<close>: the value thrown, \<open>Inr\<close>: the value returned.\<close>
primrec runListener :: "(nat \<Rightarrow> native_methods) \<Rightarrow> canary_event \<Rightarrow> listener_prog \<Rightarrow> canary_state \<Rightarrow> (dval + dval) \<times> canary_state" where
  "runListener M event (ReturnValue v) = (\<lambda>s. (Inr v, s))"
| "runListener M event (ThrowValue v) = (\<lambda>s. (Inl v, s))"
| "runListener M event (Act a k) =
     (\<lambda>s. let (threw, s1) = performAction M a s in runListener M event (k threw (viewEvent event s1)) s1)"

subsection \<open>Invocation of one listener\<close>

definition updateNativeStopImmediatePropagationDiagnosticState :: "natives \<Rightarrow> int \<Rightarrow> propagation_state \<Rightarrow> propagation_state" where
  "updateNativeStopImmediatePropagationDiagnosticState N nativeCallCountBefore ps =
     (if \<not> psEnableNativeStopImmediate ps then ps
      else
        (let nativeCallCountAfter = getNativeStopImmediatePropagationCallCount N (psNativeEvent ps);
             ps1 = ps\<lparr>psNativeStopImmediateNativeCallCount := nativeCallCountAfter\<rparr> in
         if nativeCallCountAfter \<le> nativeCallCountBefore then ps1
         else ps1\<lparr>psNativeImmediatePropagationStopped := True,
                  psNativeStopImmediateCallCount := psNativeStopImmediateCallCount ps + (nativeCallCountAfter - nativeCallCountBefore),
                  psNativeStopImmediateSource := psCurrentRecord ps,
                  psNativeStopImmediateStoppedEvent := psNativeEvent ps\<rparr>))"

definition getNativeStopImmediatePropagationDiagnosticCallCount :: "propagation_state option \<Rightarrow> int" where
  "getNativeStopImmediatePropagationDiagnosticCallCount propagationState =
     (case propagationState of
        None \<Rightarrow> 0
      | Some ps \<Rightarrow> if psEnableNativeStopImmediate ps then psNativeStopImmediateCallCount ps else 0)"

definition getDefaultPreventedDiagnosticCallCount :: "default_state option \<Rightarrow> nat" where
  "getDefaultPreventedDiagnosticCallCount defaultPreventedState =
     (case defaultPreventedState of None \<Rightarrow> 0 | Some ds \<Rightarrow> dsPreventDefaultCallCount ds)"

text \<open>Reads of the states that are \<open>null\<close> when the diagnostics are off.\<close>
definition propFlag :: "(propagation_state \<Rightarrow> bool) \<Rightarrow> canary_state \<Rightarrow> bool" where
  "propFlag f s = (case csPropagation s of None \<Rightarrow> False | Some ps \<Rightarrow> f ps)"

definition stopCount :: "canary_state \<Rightarrow> nat" where
  "stopCount s = (case csPropagation s of None \<Rightarrow> 0 | Some ps \<Rightarrow> psStopPropagationCallCount ps)"

definition nativeImmediateCount :: "canary_state \<Rightarrow> int" where
  "nativeImmediateCount s = (case csPropagation s of None \<Rightarrow> 0 | Some ps \<Rightarrow> psNativeStopImmediateNativeCallCount ps)"

definition defaultPreventedIn :: "canary_state \<Rightarrow> bool" where
  "defaultPreventedIn s = (case csDefault s of None \<Rightarrow> False | Some ds \<Rightarrow> dsDefaultPrevented ds)"

definition nativePreventedIn :: "canary_state \<Rightarrow> bool" where
  "nativePreventedIn s = (case csDefault s of None \<Rightarrow> False | Some ds \<Rightarrow> getNativeEventDefaultPrevented (csNatives s) (dsNativeEvent ds))"

definition nativePreventCount :: "canary_state \<Rightarrow> int" where
  "nativePreventCount s =
     (case csDefault s of None \<Rightarrow> 0 | Some ds \<Rightarrow> getNativeEventPreventDefaultDiagnosticCallCount (csNatives s) (dsNativeEvent ds))"

text \<open>
  The fields of an invocation record that are neither constants nor copies of the listener record
  \<open>irListener\<close>; \<open>None\<close> there: \<open>dispatchListenerRecord === null\<close>. \<open>irError\<close> is the captured error of the payload.
\<close>
record invocation_record =
  irListener :: "dispatch_listener option"
  irCurrentTargetAfter :: "nat option"
  irCurrentTargetBefore :: "nat option"
  irCurrentTargetDuring :: "nat option"
  irCurrentTargetReset :: bool
  irDefaultPreventedAfter :: bool
  irDefaultPreventedBefore :: bool
  irDefaultPreventedEnabled :: bool
  irInvocationAttempted :: bool
  irInvocationStatus :: string
  irListenerErrorCaptured :: bool
  irListenerErrorRoutingStatus :: string
  irListenerIndex :: nat
  irListenerInvocationCount :: nat
  irListenerReturnStatus :: string
  irNativeDefaultPreventedAfter :: bool
  irNativeDefaultPreventedBefore :: bool
  irNativePreventDefaultCallCountAfter :: int
  irNativePreventDefaultCallCountBefore :: int
  irNativeImmediateStoppedAfter :: bool
  irNativeImmediateStoppedBefore :: bool
  irNativeStopImmediateCallCount :: int
  irNativeStopImmediateCallCountDelta :: int
  irNativeStopImmediateNativeCallCount :: int
  irNativeStopImmediateNativeCallCountDelta :: int
  irNativeStopImmediateSkipped :: bool
  irPropagationDiagnosticEnabled :: bool
  irPropagationSkipped :: bool
  irPropagationStopCallCount :: nat
  irPropagationStopCallCountDelta :: nat
  irPropagationStoppedAfter :: bool
  irPropagationStoppedBefore :: bool
  irPreventDefaultCallCount :: nat
  irPreventDefaultCallCountDelta :: nat
  irSelectedFromProcessingOrder :: bool
  irError :: "dval"

definition createSkippedSingleListenerInvocationCanaryRecord ::
  "dispatch_listener option \<Rightarrow> nat \<Rightarrow> bool \<Rightarrow> string \<Rightarrow> propagation_state option \<Rightarrow> invocation_record" where
  "createSkippedSingleListenerInvocationCanaryRecord l listenerIndex useProcessingOrder reason propagationState =
     (let byStop = (reason = ''propagation-stopped''); byImmediate = (reason = ''native-stop-immediate-propagation'') in
      \<lparr>irListener = l, irCurrentTargetAfter = None, irCurrentTargetBefore = None, irCurrentTargetDuring = None,
       irCurrentTargetReset = False, irDefaultPreventedAfter = False, irDefaultPreventedBefore = False,
       irDefaultPreventedEnabled = False, irInvocationAttempted = False, irInvocationStatus = ''skipped-'' @ reason,
       irListenerErrorCaptured = False, irListenerErrorRoutingStatus = ''not-applicable'', irListenerIndex = listenerIndex,
       irListenerInvocationCount = 0, irListenerReturnStatus = ''not-applicable'', irNativeDefaultPreventedAfter = False,
       irNativeDefaultPreventedBefore = False, irNativePreventDefaultCallCountAfter = 0,
       irNativePreventDefaultCallCountBefore = 0, irNativeImmediateStoppedAfter = byImmediate,
       irNativeImmediateStoppedBefore = byImmediate,
       irNativeStopImmediateCallCount = getNativeStopImmediatePropagationDiagnosticCallCount propagationState,
       irNativeStopImmediateCallCountDelta = 0,
       irNativeStopImmediateNativeCallCount =
         (case propagationState of None \<Rightarrow> 0 | Some ps \<Rightarrow> psNativeStopImmediateNativeCallCount ps),
       irNativeStopImmediateNativeCallCountDelta = 0, irNativeStopImmediateSkipped = byImmediate,
       irPropagationDiagnosticEnabled = byStop, irPropagationSkipped = byStop,
       irPropagationStopCallCount = (case propagationState of None \<Rightarrow> 0 | Some ps \<Rightarrow> psStopPropagationCallCount ps),
       irPropagationStopCallCountDelta = 0, irPropagationStoppedAfter = byStop, irPropagationStoppedBefore = byStop,
       irPreventDefaultCallCount = 0, irPreventDefaultCallCountDelta = 0, irSelectedFromProcessingOrder = useProcessingOrder,
       irError = DNull\<rparr>)"

definition describeReturnValue :: "dval \<Rightarrow> string" where
  "describeReturnValue v = (if v = DUndef then ''undefined'' else if v = DNull then ''null'' else typeOf v)"

text \<open>
  The \<open>try\<close> block and its \<open>finally\<close> inside a queue: the event shows the listener's node while the
  listener runs and none afterwards; what the native event reports is taken over.
\<close>
definition callListenerInContext ::
  "(nat \<Rightarrow> native_methods) \<Rightarrow> canary_event \<Rightarrow> dispatch_listener \<Rightarrow> (event_view \<Rightarrow> listener_prog) \<Rightarrow> canary_state \<Rightarrow>
   (dval + dval) \<times> canary_state" where
  "callListenerInContext M event l code s =
     (let s1 = prepareDispatchQueueCanaryEventForListener l s;
          (result, s2) = runListener M event (code (viewEvent event s1)) s1;
          s3 = s2\<lparr>csPropagation := map_option (updateNativeStopImmediatePropagationDiagnosticState (csNatives s2)
                                      (nativeImmediateCount s)) (csPropagation s2)\<rparr>;
          s4 = resetDispatchQueueCanaryEventAfterListener s3
      in (result, s4\<lparr>csDefault := map_option (syncDefaultPreventedDiagnosticStateFromNative (csNatives s4)) (csDefault s4)\<rparr>))"

text \<open>\<open>code\<close> gives what a function does when it is called with the event.\<close>
definition invokeDispatchListenerRecordForCanary ::
  "(nat \<Rightarrow> native_methods) \<Rightarrow> (dval \<Rightarrow> event_view \<Rightarrow> listener_prog) \<Rightarrow> canary_event option \<Rightarrow> nat \<Rightarrow> bool \<Rightarrow> bool \<Rightarrow>
   dispatch_listener \<Rightarrow> canary_state \<Rightarrow> invocation_record \<times> canary_state" where
  "invokeDispatchListenerRecordForCanary M code context listenerIndex errorRouting selected l s =
     (if typeOf (dlListener l) \<noteq> ''function'' then
        (createSkippedSingleListenerInvocationCanaryRecord (Some l) listenerIndex selected ''missing-listener'' None, s)
      else
        (let alone = s\<lparr>csPropagation := None, csDefault := None, csCurrentTarget := Some (dlCurrentTarget l)\<rparr>;
             loneEvent = createDispatchListenerCanaryEvent l None None (Some (dlTargetInst l));
             before = (case context of None \<Rightarrow> alone | Some event \<Rightarrow> s);
             (result, after) =
               (case context of
                  None \<Rightarrow> runListener M loneEvent (code (dlListener l) (viewEvent loneEvent alone)) alone
                | Some event \<Rightarrow> callListenerInContext M event l (code (dlListener l)) s);
             error = (case result of Inl v \<Rightarrow> v | Inr v \<Rightarrow> DNull)
         in (\<lparr>irListener = Some l,
              irCurrentTargetAfter = csCurrentTarget after,
              irCurrentTargetBefore = csCurrentTarget before,
              irCurrentTargetDuring = Some (dlCurrentTarget l),
              irCurrentTargetReset = (context \<noteq> None \<and> csCurrentTarget after = None),
              irDefaultPreventedAfter = defaultPreventedIn after, irDefaultPreventedBefore = defaultPreventedIn before,
              irDefaultPreventedEnabled = (csDefault before \<noteq> None), irInvocationAttempted = True,
              irInvocationStatus = (if error = DNull then ''invoked-single-listener'' else ''captured-single-listener-error''),
              irListenerErrorCaptured = (error \<noteq> DNull),
              irListenerErrorRoutingStatus =
                (if error = DNull then ''not-applicable''
                 else if errorRouting then ''controlled-private-listener-error-routing-diagnostic'' else ''captured-without-routing-diagnostic''),
              irListenerIndex = listenerIndex, irListenerInvocationCount = 1,
              irListenerReturnStatus =
                (if error = DNull then describeReturnValue (case result of Inl v \<Rightarrow> DUndef | Inr v \<Rightarrow> v) else ''not-applicable''),
              irNativeDefaultPreventedAfter = nativePreventedIn after, irNativeDefaultPreventedBefore = nativePreventedIn before,
              irNativePreventDefaultCallCountAfter = nativePreventCount after,
              irNativePreventDefaultCallCountBefore = nativePreventCount before,
              irNativeImmediateStoppedAfter = propFlag psNativeImmediatePropagationStopped after,
              irNativeImmediateStoppedBefore = propFlag psNativeImmediatePropagationStopped before,
              irNativeStopImmediateCallCount = getNativeStopImmediatePropagationDiagnosticCallCount (csPropagation after),
              irNativeStopImmediateCallCountDelta =
                getNativeStopImmediatePropagationDiagnosticCallCount (csPropagation after) -
                getNativeStopImmediatePropagationDiagnosticCallCount (csPropagation before),
              irNativeStopImmediateNativeCallCount = nativeImmediateCount after,
              irNativeStopImmediateNativeCallCountDelta = nativeImmediateCount after - nativeImmediateCount before,
              irNativeStopImmediateSkipped = False,
              irPropagationDiagnosticEnabled = propFlag psEnablePropagationStop after, irPropagationSkipped = False,
              irPropagationStopCallCount = stopCount after,
              irPropagationStopCallCountDelta = stopCount after - stopCount before,
              irPropagationStoppedAfter = propFlag psPropagationStopped after,
              irPropagationStoppedBefore = propFlag psPropagationStopped before,
              irPreventDefaultCallCount = getDefaultPreventedDiagnosticCallCount (csDefault after),
              irPreventDefaultCallCountDelta =
                getDefaultPreventedDiagnosticCallCount (csDefault after) - getDefaultPreventedDiagnosticCallCount (csDefault before),
              irSelectedFromProcessingOrder = selected, irError = error\<rparr>,
             after)))"

subsection \<open>Diagnostic records\<close>

definition getListenerQueueRelationToSource :: "dispatch_listener \<Rightarrow> dispatch_listener option \<Rightarrow> string" where
  "getListenerQueueRelationToSource l source =
     (case source of
        None \<Rightarrow> ''unknown''
      | Some src \<Rightarrow>
          if dlTargetInst src = dlTargetInst l then ''same-target''
          else if dlDispatchPathIndex l > dlDispatchPathIndex src then ''ancestor'' else ''descendant'')"

text \<open>Diagnostics of stopped propagation, native or not; \<open>sdSource\<close> is the listener that stopped it.\<close>
record stop_diagnostic =
  sdAction :: string
  sdListener :: dispatch_listener
  sdSkipped :: bool
  sdCallCount :: int
  sdNativeCallCount :: int
  sdStopped :: bool
  sdSource :: "dispatch_listener option"
  sdRelation :: string
  sdSameTarget :: bool

definition createDispatchPropagationStopDiagnosticRecord ::
  "string \<Rightarrow> dispatch_listener \<Rightarrow> propagation_state \<Rightarrow> bool \<Rightarrow> stop_diagnostic" where
  "createDispatchPropagationStopDiagnosticRecord action l ps skipped =
     \<lparr>sdAction = action, sdListener = l, sdSkipped = skipped, sdCallCount = int (psStopPropagationCallCount ps),
      sdNativeCallCount = psNativeStopPropagationCallCount ps, sdStopped = psPropagationStopped ps, sdSource = psStopSource ps,
      sdRelation = getListenerQueueRelationToSource l (psStopSource ps),
      sdSameTarget = (map_option dlTargetInst (psStopSource ps) = Some (dlTargetInst l))\<rparr>"

definition createDispatchNativeStopImmediatePropagationDiagnosticRecord ::
  "string \<Rightarrow> dispatch_listener \<Rightarrow> propagation_state \<Rightarrow> bool \<Rightarrow> stop_diagnostic" where
  "createDispatchNativeStopImmediatePropagationDiagnosticRecord action l ps skipped =
     \<lparr>sdAction = action, sdListener = l, sdSkipped = skipped, sdCallCount = psNativeStopImmediateCallCount ps,
      sdNativeCallCount = psNativeStopImmediateNativeCallCount ps, sdStopped = psNativeImmediatePropagationStopped ps,
      sdSource = psNativeStopImmediateSource ps,
      sdRelation = getListenerQueueRelationToSource l (psNativeStopImmediateSource ps),
      sdSameTarget = (map_option dlTargetInst (psNativeStopImmediateSource ps) = Some (dlTargetInst l))\<rparr>"

record default_diagnostic =
  ddAction :: string
  ddListener :: dispatch_listener
  ddDefaultPrevented :: bool
  ddNativeDefaultPrevented :: bool
  ddNativePreventDefaultCallCount :: int
  ddPreventDefaultCallCount :: nat
  ddSource :: "dispatch_listener option"

definition createDispatchDefaultPreventedDiagnosticRecord ::
  "string \<Rightarrow> dispatch_listener \<Rightarrow> natives \<Rightarrow> default_state \<Rightarrow> default_diagnostic" where
  "createDispatchDefaultPreventedDiagnosticRecord action l N ds =
     \<lparr>ddAction = action, ddListener = l, ddDefaultPrevented = dsDefaultPrevented ds,
      ddNativeDefaultPrevented = getNativeEventDefaultPrevented N (dsNativeEvent ds),
      ddNativePreventDefaultCallCount = getNativeEventPreventDefaultDiagnosticCallCount N (dsNativeEvent ds),
      ddPreventDefaultCallCount = dsPreventDefaultCallCount ds, ddSource = dsPreventDefaultSource ds\<rparr>"

record error_route =
  eoErrorRouteIndex :: nat
  eoInvocation :: invocation_record
  eoError :: dval

definition createDispatchListenerErrorRouteRecord :: "invocation_record \<Rightarrow> nat \<Rightarrow> error_route" where
  "createDispatchListenerErrorRouteRecord invocation index =
     \<lparr>eoErrorRouteIndex = index, eoInvocation = invocation, eoError = irError invocation\<rparr>"

subsection \<open>Invocation of the queue\<close>

record canary_totals =
  ctInvocationRecords :: "invocation_record list"
  ctListenerErrorRoutes :: "error_route list"
  ctDefaultPreventedDiagnostics :: "default_diagnostic list"
  ctPropagationStopDiagnostics :: "stop_diagnostic list"
  ctNativeStopImmediateDiagnostics :: "stop_diagnostic list"
  ctDispatchQueueEntryCount :: nat
  ctListenerCandidateCount :: nat
  ctListenerInvocationCount :: nat
  ctListenerErrorCount :: nat
  ctPropagationSkippedListenerCount :: nat
  ctNativeStopImmediateSkippedListenerCount :: nat

definition noTotals :: canary_totals where
  "noTotals = \<lparr>ctInvocationRecords = [], ctListenerErrorRoutes = [], ctDefaultPreventedDiagnostics = [],
     ctPropagationStopDiagnostics = [], ctNativeStopImmediateDiagnostics = [], ctDispatchQueueEntryCount = 0,
     ctListenerCandidateCount = 0, ctListenerInvocationCount = 0, ctListenerErrorCount = 0,
     ctPropagationSkippedListenerCount = 0, ctNativeStopImmediateSkippedListenerCount = 0\<rparr>"

text \<open>The bookkeeping for a listener that is skipped, and for one that was called.\<close>
definition skipForNativeStop :: "canary_options \<Rightarrow> dispatch_listener \<Rightarrow> nat \<Rightarrow> canary_state \<Rightarrow> canary_totals \<Rightarrow> canary_totals" where
  "skipForNativeStop options l listenerIndex s totals =
     totals\<lparr>ctInvocationRecords := ctInvocationRecords totals @
              [createSkippedSingleListenerInvocationCanaryRecord (Some l) listenerIndex (coUseProcessingOrder options)
                 ''native-stop-immediate-propagation'' (csPropagation s)],
            ctNativeStopImmediateSkippedListenerCount := ctNativeStopImmediateSkippedListenerCount totals + 1,
            ctNativeStopImmediateDiagnostics := ctNativeStopImmediateDiagnostics totals @
              (case csPropagation s of
                 None \<Rightarrow> []
               | Some ps \<Rightarrow> [createDispatchNativeStopImmediatePropagationDiagnosticRecord ''skip-listener'' l ps True])\<rparr>"

definition skipForPropagationStop :: "canary_options \<Rightarrow> dispatch_listener \<Rightarrow> nat \<Rightarrow> canary_state \<Rightarrow> canary_totals \<Rightarrow> canary_totals" where
  "skipForPropagationStop options l listenerIndex s totals =
     totals\<lparr>ctInvocationRecords := ctInvocationRecords totals @
              [createSkippedSingleListenerInvocationCanaryRecord (Some l) listenerIndex (coUseProcessingOrder options)
                 ''propagation-stopped'' (csPropagation s)],
            ctPropagationSkippedListenerCount := ctPropagationSkippedListenerCount totals + 1,
            ctPropagationStopDiagnostics := ctPropagationStopDiagnostics totals @
              (case csPropagation s of
                 None \<Rightarrow> []
               | Some ps \<Rightarrow> [createDispatchPropagationStopDiagnosticRecord ''skip-listener'' l ps True])\<rparr>"

definition recordInvocation ::
  "canary_options \<Rightarrow> dispatch_listener \<Rightarrow> invocation_record \<Rightarrow> canary_state \<Rightarrow> canary_state \<Rightarrow> canary_totals \<Rightarrow> canary_totals" where
  "recordInvocation options l invocation before after totals =
     totals\<lparr>ctInvocationRecords := ctInvocationRecords totals @ [invocation],
            ctListenerInvocationCount := ctListenerInvocationCount totals + irListenerInvocationCount invocation,
            ctListenerErrorCount := ctListenerErrorCount totals + (if irListenerErrorCaptured invocation then 1 else 0),
            ctListenerErrorRoutes := ctListenerErrorRoutes totals @
              (if irListenerErrorCaptured invocation \<and> coListenerErrorRouting options
               then [createDispatchListenerErrorRouteRecord invocation (length (ctListenerErrorRoutes totals))] else []),
            ctDefaultPreventedDiagnostics := ctDefaultPreventedDiagnostics totals @
              (case csDefault after of
                 None \<Rightarrow> []
               | Some ds \<Rightarrow>
                   if dsPreventDefaultCallCount ds > getDefaultPreventedDiagnosticCallCount (csDefault before)
                   then [createDispatchDefaultPreventedDiagnosticRecord ''prevent-default'' l (csNatives after) ds] else []),
            ctPropagationStopDiagnostics := ctPropagationStopDiagnostics totals @
              (case csPropagation after of
                 None \<Rightarrow> []
               | Some ps \<Rightarrow>
                   if psStopPropagationCallCount ps > stopCount before
                   then [createDispatchPropagationStopDiagnosticRecord ''stop-propagation'' l ps False] else []),
            ctNativeStopImmediateDiagnostics := ctNativeStopImmediateDiagnostics totals @
              (case csPropagation after of
                 None \<Rightarrow> []
               | Some ps \<Rightarrow>
                   if psNativeStopImmediateCallCount ps > getNativeStopImmediatePropagationDiagnosticCallCount (csPropagation before)
                   then [createDispatchNativeStopImmediatePropagationDiagnosticRecord ''native-stop-immediate-propagation'' l ps False]
                   else [])\<rparr>"

text \<open>The loop over the listeners of one queue entry.\<close>
fun listenerLoop ::
  "(nat \<Rightarrow> native_methods) \<Rightarrow> (dval \<Rightarrow> event_view \<Rightarrow> listener_prog) \<Rightarrow> canary_options \<Rightarrow> canary_event option \<Rightarrow>
   dispatch_listener list \<Rightarrow> nat \<Rightarrow> nat option \<Rightarrow> canary_totals \<times> canary_state \<Rightarrow> canary_totals \<times> canary_state" where
  "listenerLoop M code options event [] listenerIndex previousInstance (totals, s) = (totals, s)"
| "listenerLoop M code options event (l # ls) listenerIndex previousInstance (totals, s) =
     (if shouldSkipDispatchListenerForNativeStopImmediatePropagation l s then
        listenerLoop M code options event ls (listenerIndex + 1) (Some (dlTargetInst l))
          (skipForNativeStop options l listenerIndex s totals, s)
      else if shouldSkipDispatchListenerForPropagationStop l previousInstance s then
        (skipForPropagationStop options l listenerIndex s totals, s)
      else
        (let (invocation, s') = invokeDispatchListenerRecordForCanary M code event listenerIndex (coListenerErrorRouting options)
                                  (coUseProcessingOrder options) l s
         in listenerLoop M code options event ls (listenerIndex + 1) (Some (dlTargetInst l))
              (recordInvocation options l invocation s s' totals, s')))"

text \<open>\<open>finishDispatchQueueCanaryEventContext\<close> resets the event unless the entry has no context.\<close>
definition finishDispatchQueueCanaryEventContext :: "canary_event option \<Rightarrow> canary_state \<Rightarrow> canary_state" where
  "finishDispatchQueueCanaryEventContext event s =
     (if event = None then s else resetDispatchQueueCanaryEventAfterListener s)"

definition processEntry ::
  "(nat \<Rightarrow> native_methods) \<Rightarrow> (dval \<Rightarrow> event_view \<Rightarrow> listener_prog) \<Rightarrow> canary_options \<Rightarrow> dispatch_record \<Rightarrow> queue_entry_record \<Rightarrow>
   canary_totals \<times> canary_state \<Rightarrow> canary_totals \<times> canary_state" where
  "processEntry M code options dispatchRecord entry ts =
     (let (totals, s) = ts;
          listenerRecords = (if coUseProcessingOrder options then deProcessingListenerRecords entry else deListeners entry);
          (event, s1) = createDispatchQueueCanaryEventContext dispatchRecord listenerRecords s;
          (totals2, s2) = listenerLoop M code options event listenerRecords 0 None
            (totals\<lparr>ctDispatchQueueEntryCount := ctDispatchQueueEntryCount totals + 1,
                    ctListenerCandidateCount := ctListenerCandidateCount totals + length listenerRecords\<rparr>, s1)
      in (totals2, finishDispatchQueueCanaryEventContext event s2))"

definition processRecord ::
  "(nat \<Rightarrow> native_methods) \<Rightarrow> (dval \<Rightarrow> event_view \<Rightarrow> listener_prog) \<Rightarrow> canary_options \<Rightarrow> dispatch_record \<Rightarrow>
   canary_totals \<times> canary_state \<Rightarrow> canary_totals \<times> canary_state" where
  "processRecord M code options d = fold (processEntry M code options d) (dqEntries (edDispatchQueue d))"

text \<open>\<open>None\<close>: a value that is no dispatch record made by this module.\<close>
definition assertEventDispatchRecord :: "dispatch_record option \<Rightarrow> dom_error + dispatch_record" where
  "assertEventDispatchRecord record =
     (case record of
        None \<Rightarrow> Inl (CodedError ''FAST_REACT_DOM_INVALID_EVENT_DISPATCH_RECORD''
                 ''Cannot invoke a React DOM event listener canary without a private event dispatch record.'')
      | Some d \<Rightarrow> Inr d)"

fun normalizeDispatchRecordList :: "dispatch_record option list \<Rightarrow> dom_error + dispatch_record list" where
  "normalizeDispatchRecordList [] = Inr []"
| "normalizeDispatchRecordList (r # rs) =
     (case assertEventDispatchRecord r of
        Inl e \<Rightarrow> Inl e
      | Inr d \<Rightarrow> (case normalizeDispatchRecordList rs of Inl e \<Rightarrow> Inl e | Inr ds \<Rightarrow> Inr (d # ds)))"

record queue_canary =
  qcTotals :: canary_totals
  qcDispatchRecordCount :: nat
  qcInvocationRecords :: "invocation_record list"
  qcCaptureListenerInvocationCount :: nat
  qcBubbleListenerInvocationCount :: nat
  qcCurrentTargetResetCount :: nat
  qcCurrentTargetResetAfterDispatch :: bool
  qcDefaultPrevented :: bool
  qcNativeDefaultPreventedAfterDispatch :: bool
  qcNativeDefaultPreventedBeforeDispatch :: bool
  qcNativePreventDefaultCallCount :: int
  qcNativePreventDefaultCallCountDelta :: int
  qcPreventDefaultCallCount :: nat
  qcInvocationStatus :: string
  qcNativeImmediatePropagationStopped :: bool
  qcNativeStopImmediateCallCount :: int
  qcNativeStopImmediateNativeCallCount :: int
  qcPropagationStopCallCount :: nat
  qcPropagationStopNativeCallCount :: int
  qcPropagationStopped :: bool

definition phaseInvocationCount :: "string \<Rightarrow> invocation_record list \<Rightarrow> nat" where
  "phaseInvocationCount phase rs =
     length (filter (\<lambda>r. map_option dlPhase (irListener r) = Some phase \<and> irListenerInvocationCount r > 0) rs)"

definition createQueueCanaryRecord :: "nat \<Rightarrow> canary_totals \<Rightarrow> canary_state \<Rightarrow> queue_canary" where
  "createQueueCanaryRecord recordCount totals s =
     (let rs = ctInvocationRecords totals;
          resetCount = length (filter (\<lambda>r. irListenerInvocationCount r > 0 \<and> irCurrentTargetReset r) rs)
      in \<lparr>qcTotals = totals, qcDispatchRecordCount = recordCount, qcInvocationRecords = rs,
          qcCaptureListenerInvocationCount = phaseInvocationCount ''capture'' rs,
          qcBubbleListenerInvocationCount = phaseInvocationCount ''bubble'' rs,
          qcCurrentTargetResetCount = resetCount,
          qcCurrentTargetResetAfterDispatch = (ctListenerInvocationCount totals = resetCount),
          qcDefaultPrevented = defaultPreventedIn s, qcNativeDefaultPreventedAfterDispatch = nativePreventedIn s,
          qcNativeDefaultPreventedBeforeDispatch = (case csDefault s of None \<Rightarrow> False | Some ds \<Rightarrow> dsInitialDefaultPrevented ds),
          qcNativePreventDefaultCallCount = nativePreventCount s,
          qcNativePreventDefaultCallCountDelta =
            (case csDefault s of None \<Rightarrow> 0 | Some ds \<Rightarrow> nativePreventCount s - dsInitialNativePreventDefaultCallCount ds),
          qcPreventDefaultCallCount = getDefaultPreventedDiagnosticCallCount (csDefault s),
          qcInvocationStatus =
            (if rs = [] then ''skipped-no-listeners''
             else if ctListenerErrorCount totals = 0 then ''invoked-dispatch-queue-canary''
             else ''captured-dispatch-queue-listener-errors''),
          qcNativeImmediatePropagationStopped = propFlag psNativeImmediatePropagationStopped s,
          qcNativeStopImmediateCallCount =
            (case csPropagation s of None \<Rightarrow> 0 | Some ps \<Rightarrow> psNativeStopImmediateCallCount ps),
          qcNativeStopImmediateNativeCallCount = nativeImmediateCount s,
          qcPropagationStopCallCount = stopCount s,
          qcPropagationStopNativeCallCount =
            (case csPropagation s of None \<Rightarrow> 0 | Some ps \<Rightarrow> psNativeStopPropagationCallCount ps),
          qcPropagationStopped = propFlag psPropagationStopped s\<rparr>)"

definition initialCanaryState :: "canary_options \<Rightarrow> natives \<Rightarrow> canary_state" where
  "initialCanaryState options N =
     \<lparr>csNatives = N, csPropagation = createDispatchQueuePropagationDiagnosticState options,
      csDefault = createDispatchQueueDefaultPreventedDiagnosticState options, csCurrentRecord = None, csCurrentTarget = None\<rparr>"

text \<open>The dispatch records are given as a list; a single record stands for the list of it.\<close>
definition invokeDispatchQueueCanaryFromDispatchRecords ::
  "(nat \<Rightarrow> native_methods) \<Rightarrow> (dval \<Rightarrow> event_view \<Rightarrow> listener_prog) \<Rightarrow> dispatch_record option list \<Rightarrow>
   canary_option_values option \<Rightarrow> natives \<Rightarrow> dom_error + queue_canary \<times> natives" where
  "invokeDispatchQueueCanaryFromDispatchRecords M code dispatchRecords optionValues N =
     (case normalizeDispatchRecordList dispatchRecords of
        Inl e \<Rightarrow> Inl e
      | Inr ds \<Rightarrow>
          (let options = normalizeDispatchQueueCanaryOptions optionValues;
               (totals, s) = fold (processRecord M code options) ds (noTotals, initialCanaryState options N)
           in Inr (createQueueCanaryRecord (length ds) totals s, csNatives s)))"

text \<open>\<open>DUndef\<close> for a missing index.\<close>
definition normalizeNonNegativeInteger :: "dval \<Rightarrow> nat \<Rightarrow> string \<Rightarrow> dom_error + nat" where
  "normalizeNonNegativeInteger v fallback fieldName =
     (if v = DUndef then Inr fallback
      else (case v of
              DNum (Fin i) \<Rightarrow> if i < 0 then Inl (CodedError ''FAST_REACT_DOM_INVALID_EVENT_DISPATCH_RECORD''
                                        (''Expected '' @ fieldName @ '' to be a non-negative integer.'')) else Inr (nat i)
            | _ \<Rightarrow> Inl (CodedError ''FAST_REACT_DOM_INVALID_EVENT_DISPATCH_RECORD''
                     (''Expected '' @ fieldName @ '' to be a non-negative integer.''))))"

text \<open>The options \<open>dispatchQueueEntryIndex\<close>, \<open>listenerIndex\<close> and \<open>useProcessingOrder\<close>, \<open>DUndef\<close> where missing.\<close>
definition normalizeSingleListenerCanaryOptions :: "dval \<times> dval \<times> dval \<Rightarrow> dom_error + nat \<times> nat \<times> bool" where
  "normalizeSingleListenerCanaryOptions options =
     (case options of (entryIndex, listenerIndex, useProcessingOrder) \<Rightarrow>
        (case normalizeNonNegativeInteger entryIndex 0 ''dispatchQueueEntryIndex'' of
           Inl e \<Rightarrow> Inl e
         | Inr i \<Rightarrow>
             (case normalizeNonNegativeInteger listenerIndex 0 ''listenerIndex'' of
                Inl e \<Rightarrow> Inl e
              | Inr j \<Rightarrow> Inr (i, j, useProcessingOrder \<noteq> DBool False))))"

definition loneState :: "natives \<Rightarrow> canary_state" where
  "loneState N = \<lparr>csNatives = N, csPropagation = None, csDefault = None, csCurrentRecord = None, csCurrentTarget = None\<rparr>"

definition invokeSingleListenerCanaryFromDispatchRecord ::
  "(nat \<Rightarrow> native_methods) \<Rightarrow> (dval \<Rightarrow> event_view \<Rightarrow> listener_prog) \<Rightarrow> dispatch_record option \<Rightarrow> dval \<times> dval \<times> dval \<Rightarrow> natives \<Rightarrow>
   dom_error + invocation_record \<times> natives" where
  "invokeSingleListenerCanaryFromDispatchRecord M code dispatchRecord options N =
     (case assertEventDispatchRecord dispatchRecord of
        Inl e \<Rightarrow> Inl e
      | Inr d \<Rightarrow>
          (case normalizeSingleListenerCanaryOptions options of
             Inl e \<Rightarrow> Inl e
           | Inr (entryIndex, listenerIndex, useProcessingOrder) \<Rightarrow>
               if entryIndex \<ge> length (dqEntries (edDispatchQueue d)) then
                 Inr (createSkippedSingleListenerInvocationCanaryRecord None listenerIndex useProcessingOrder
                        ''no-dispatch-queue-entry'' None, N)
               else
                 (let entry = dqEntries (edDispatchQueue d) ! entryIndex;
                      listenerRecords = (if useProcessingOrder then deProcessingListenerRecords entry else deListeners entry) in
                  if listenerIndex \<ge> length listenerRecords then
                    Inr (createSkippedSingleListenerInvocationCanaryRecord None listenerIndex useProcessingOrder
                           ''no-dispatch-listener-record'' None, N)
                  else
                    (let (invocation, s) = invokeDispatchListenerRecordForCanary M code None listenerIndex False useProcessingOrder
                           (listenerRecords ! listenerIndex) (loneState N)
                     in Inr (invocation, csNatives s)))))"

end
