(* ===== verification/Dispatch_Props.thy ===== *)
theory Dispatch_Props
  imports Plugin_Dispatch
begin

text \<open>
  The dispatch record of a native event lists exactly the listeners of the mounted nodes from the
  event's target up to the container root.
\<close>

text \<open>The listener that the latest props of a node hold for an event, if it is to be called.\<close>
definition propListener :: "dispatch_world \<Rightarrow> wrapper_record \<Rightarrow> nat \<Rightarrow> dval list" where
  "propListener W wr n =
     (case getSimpleEventRegistrationName (wrDomEventName wr) (wrEventSystemFlags wr) of
        None \<Rightarrow> []
      | Some nm \<Rightarrow>
          (let ps = getLatestPropsFromNode (dwState W) (Some n);
               v = (if hasOwn ps nm then readProp ps nm else DNull) in
           if ps = DNull \<or> nullish v \<or> shouldPreventMouseEvent (dwTree W) nm n ps then [] else [v]))"

definition queueListener :: "dispatch_world \<Rightarrow> nat \<Rightarrow> dval" where
  "queueListener W q = (case lrPayloads (dwRegistry W) q of None \<Rightarrow> DNull | Some payload \<Rightarrow> qpListener payload)"

text \<open>All the listeners of a node for an event: those registered in the private queue, then the one of the props.\<close>
definition listenersAt :: "dispatch_world \<Rightarrow> wrapper_record \<Rightarrow> nat \<Rightarrow> dval list" where
  "listenersAt W wr n =
     map (queueListener W) (absQueues (dwRegistry W) (n, wrDomEventName wr, isCapturePhase (wrEventSystemFlags wr))) @
     propListener W wr n"

text \<open>The latest props of a node are no object, or what they hold for the event is a function.\<close>
definition listenerPropsOk :: "dispatch_world \<Rightarrow> wrapper_record \<Rightarrow> nat \<Rightarrow> bool" where
  "listenerPropsOk W wr n \<longleftrightarrow>
     (let ps = getLatestPropsFromNode (dwState W) (Some n) in
      ps = DNull \<or> (typeOf ps = ''object'' \<or> typeOf ps = ''function'') \<and>
        (\<forall>v\<in>set (propListener W wr n). typeOf v = ''function''))"

lemma reactNames_nonempty: "createSimpleEventReactNameMap d = Some nm \<Longrightarrow> nm \<noteq> []"
proof -
  have "[] \<notin> ran (fold (\<lambda>e m. m(f e \<mapsto> ''on'' @ g e)) es m)" if "[] \<notin> ran m" for f g es and m :: "string \<rightharpoonup> string"
    using that by (induction es arbitrary: m) (auto simp: ran_def)
  from this [of Map.empty] show "createSimpleEventReactNameMap d = Some nm \<Longrightarrow> nm \<noteq> []"
    unfolding createSimpleEventReactNameMap_def by (auto simp: ran_def split: if_splits)
qed

lemma normalize_registration [simp]:
  "normalizeEventListenerRegistrationName (registrationValue (getSimpleEventRegistrationName d f)) =
     Inr (getSimpleEventRegistrationName d f)"
  by (auto simp: normalizeEventListenerRegistrationName_def registrationValue_def getSimpleEventRegistrationName_def
      getSimpleEventReactName_def asString_def nonEmpty_def dest: reactNames_nonempty split: option.splits)

lemma lookup_of_mounted:
  assumes ok: "treeOk (dwState W)" and r: "trClosestToken r = Some t" "trClosestNode r = Some n" "trStatus r = ''mounted-host-instance''"
    and t: "getHostInstanceTokenFromNode (dwState W) (Some n) = Some t" and props: "listenerPropsOk W wr n"
  shows "\<exists>l. createEventListenerTargetLookupRecord (dwTree W) (dwState W) (Some r)
      (registrationValue (getSimpleEventRegistrationName (wrDomEventName wr) (wrEventSystemFlags wr))) = Inr l \<and>
    (if llListenerFound l then [llListener l] else []) = propListener W wr n"
proof -
  have node: "getMountedHostInstanceNodeFromToken (dwState W) (Some t) = Some n"
    using t treeOkD(1) [OF ok] by (simp add: token_of_node [OF ok] node_of_token [OF ok])
  have accepted: "assertEventTargetNormalizationRecord (Some r) = Inr r"
    using r by (simp add: assertEventTargetNormalizationRecord_def)
  define reg where "reg = getSimpleEventRegistrationName (wrDomEventName wr) (wrEventSystemFlags wr)"
  define ps where "ps = getLatestPropsFromNode (dwState W) (Some n)"
  have regName: "normalizeEventListenerRegistrationName (registrationValue reg) = Inr reg" by (simp add: reg_def)
  have good: "ps = DNull \<or> (typeOf ps = ''object'' \<or> typeOf ps = ''function'') \<and>
    (\<forall>name. reg = Some name \<longrightarrow> (let v = (if hasOwn ps name then readProp ps name else DNull) in
       nullish v \<or> shouldPreventMouseEvent (dwTree W) name n ps \<or> typeOf v = ''function''))"
    using props unfolding listenerPropsOk_def propListener_def ps_def [symmetric] reg_def [symmetric] by (auto simp: Let_def split: if_splits)
  have head: "createEventListenerTargetLookupRecord (dwTree W) (dwState W) (Some r) (registrationValue reg) =
    (if ps = DNull then Inr (lookupRecord (Some n) (Some t) DNull DNull ''missing-latest-props'' ''missing'' reg)
     else (case reg of
             None \<Rightarrow> Inr (lookupRecord (Some n) (Some t) ps DNull ''not-applicable'' ''missing'' None)
           | Some name \<Rightarrow>
               (let listener = (if hasOwn ps name then readProp ps name else DNull) in
                if \<not> nullish listener \<and> shouldPreventMouseEvent (dwTree W) name n ps then
                  Inr (lookupRecord (Some n) (Some t) ps DNull ''disabled-interactive-blocked'' ''blocked'' reg)
                else if nullish listener then
                  Inr (lookupRecord (Some n) (Some t) ps DNull ''missing'' ''missing'' reg)
                else Inr (lookupRecord (Some n) (Some t) ps listener ''present'' ''function'' reg))))"
    using good regName by (cases reg; cases "ps = DNull") (auto simp: createEventListenerTargetLookupRecord_def accepted no_mismatch [OF ok] r node
        ps_def [symmetric] Let_def)
  show ?thesis unfolding reg_def [symmetric] head propListener_def ps_def [symmetric]
    by (cases reg) (auto simp: lookupRecord_def Let_def)
qed

lemma normalization_of_mounted:
  assumes ok: "treeOk s" and ac: "acyclic_parents w" and t: "getHostInstanceTokenFromNode s (Some n) = Some t"
  shows "\<exists>r. createEventTargetNormalizationRecord w s (Some n) = Some r \<and> trClosestToken r = Some t \<and>
    trClosestNode r = Some n \<and> trStatus r = ''mounted-host-instance''"
proof -
  obtain up where up: "climb w n up" using climb_exists [OF ac] by blast
  then have "find (mounted s) up = Some n" using t by cases simp_all
  then have "getClosestMountedHostInstanceTokenFromNode w s (Some n) = Some (Some t)"
    using closest_is_first [OF up, of s] t by (simp add: getClosestMountedHostInstanceTokenFromNode_def)
  moreover have "getMountedHostInstanceNodeFromToken s (Some t) = Some n"
    using t treeOkD(1) [OF ok] by (simp add: token_of_node [OF ok] node_of_token [OF ok])
  ultimately show ?thesis by (simp add: createEventTargetNormalizationRecord_def Let_def)
qed

text \<open>What every listener record of a dispatch carries.\<close>
definition recordFor :: "dispatch_world \<Rightarrow> wrapper_record \<Rightarrow> nat option \<Rightarrow> dispatch_listener \<Rightarrow> bool" where
  "recordFor W wr ev l \<longleftrightarrow>
     getHostInstanceTokenFromNode (dwState W) (Some (dlCurrentTarget l)) = Some (dlTargetInst l) \<and>
     dlInCapturePhase l = isCapturePhase (wrEventSystemFlags wr) \<and> dlNativeEvent l = ev \<and>
     dlDomEventName l = wrDomEventName wr"

lemma entryListeners_result:
  fixes i :: nat and ev :: "nat option" and tgt :: ev_value
  assumes "getHostInstanceTokenFromNode (dwState W) (Some (peNode e)) = Some (peToken e)"
    and "(if llListenerFound l then [llListener l] else []) = propListener W wr (peNode e)"
  defines "rs \<equiv> entryListeners W i wr ev tgt e l"
  shows "map (\<lambda>r. (dlCurrentTarget r, dlListener r)) rs = map (Pair (peNode e)) (listenersAt W wr (peNode e))"
    "map dlId rs = [i..<i + length rs]" "\<forall>r\<in>set rs. recordFor W wr ev r"
proof -
  let ?q = "filter (isActiveEntry (dwRegistry W) (wrDomEventName wr) (isCapturePhase (wrEventSystemFlags wr)))
    (targetQueueOf (dwRegistry W) (peNode e))"
  have q: "getPrivateEventListenerQueueEntries (dwRegistry W) (EvObj (peNode e)) (wrDomEventName wr)
    (DBool (isCapturePhase (wrEventSystemFlags wr))) = ?q"
    by (simp add: getPrivateEventListenerQueueEntries_def)
  have abs: "absQueues (dwRegistry W) (peNode e, wrDomEventName wr, isCapturePhase (wrEventSystemFlags wr)) = ?q"
    by (simp add: absQueues_def)
  have queued: "map (\<lambda>r. (dlCurrentTarget r, dlListener r))
      (createPrivateEventListenerQueueDispatchListenerRecords W i wr ev tgt e) = map (Pair (peNode e)) (map (queueListener W) ?q)"
    by (rule nth_equalityI)
      (auto simp: createPrivateEventListenerQueueDispatchListenerRecords_def q Let_def nth_enumerate_eq queueListener_def
        createPrivateEventListenerQueueDispatchListenerRecord_def getPrivateEventListenerQueueEntryPayload_def)
  have ids: "map dlId (createPrivateEventListenerQueueDispatchListenerRecords W i wr ev tgt e) = [i..<i + length ?q]"
    by (rule nth_equalityI)
      (auto simp: createPrivateEventListenerQueueDispatchListenerRecords_def q Let_def nth_enumerate_eq
        createPrivateEventListenerQueueDispatchListenerRecord_def)
  have len: "length (createPrivateEventListenerQueueDispatchListenerRecords W i wr ev tgt e) = length ?q"
    using arg_cong [OF queued, of length] by simp
  show "map (\<lambda>r. (dlCurrentTarget r, dlListener r)) rs = map (Pair (peNode e)) (listenersAt W wr (peNode e))"
    using queued unfolding rs_def entryListeners_def listenersAt_def abs assms(2) [symmetric]
    by (auto simp: Let_def createDispatchListenerRecord_def)
  show "map dlId rs = [i..<i + length rs]"
    using ids len unfolding rs_def entryListeners_def by (simp add: Let_def createDispatchListenerRecord_def)
  show "\<forall>r\<in>set rs. recordFor W wr ev r"
    using assms(1) unfolding rs_def entryListeners_def
    by (auto simp: Let_def createDispatchListenerRecord_def createPrivateEventListenerQueueDispatchListenerRecords_def
        createPrivateEventListenerQueueDispatchListenerRecord_def recordFor_def split: if_splits)
qed

lemma pathEntryLoop_result:
  assumes ok: "treeOk (dwState W)" and ac: "acyclic_parents (dwTree W)"
    and "\<forall>e\<in>set es. getHostInstanceTokenFromNode (dwState W) (Some (peNode e)) = Some (peToken e) \<and> listenerPropsOk W wr (peNode e) \<and>
      (peIndex e = 0 \<longrightarrow> trClosestToken target = Some (peToken e) \<and> trClosestNode target = Some (peNode e) \<and>
        trStatus target = ''mounted-host-instance'')"
  shows "\<exists>lookups' new. pathEntryLoop W wr ev tgt target es lookups rs i = Some (Inr (lookups @ lookups', rs @ new)) \<and>
    length lookups' = length es \<and>
    map (\<lambda>r. (dlCurrentTarget r, dlListener r)) new = concat (map (\<lambda>e. map (Pair (peNode e)) (listenersAt W wr (peNode e))) es) \<and>
    map dlId new = [i..<i + length new] \<and> (\<forall>r\<in>set new. recordFor W wr ev r)"
  using assms(3)
proof (induction es arbitrary: lookups rs i)
  case Nil
  then show ?case by simp
next
  case (Cons e es)
  have e: "getHostInstanceTokenFromNode (dwState W) (Some (peNode e)) = Some (peToken e)" "listenerPropsOk W wr (peNode e)"
    using Cons.prems by simp_all
  obtain r where r: "(if peIndex e = 0 then Some target
        else createEventTargetNormalizationRecord (dwTree W) (dwState W) (Some (peNode e))) = Some r"
    "trClosestToken r = Some (peToken e)" "trClosestNode r = Some (peNode e)" "trStatus r = ''mounted-host-instance''"
    using normalization_of_mounted [OF ok ac e(1)] Cons.prems by (cases "peIndex e = 0") auto
  obtain l where l: "createEventListenerTargetLookupRecord (dwTree W) (dwState W) (Some r)
      (registrationValue (getSimpleEventRegistrationName (wrDomEventName wr) (wrEventSystemFlags wr))) = Inr l"
    "(if llListenerFound l then [llListener l] else []) = propListener W wr (peNode e)"
    using lookup_of_mounted [OF ok r(2-4) e] by blast
  define added where "added = entryListeners W i wr ev tgt e l"
  note A = entryListeners_result [OF e(1) l(2), of i ev tgt, folded added_def]
  obtain lookups' new where IH: "pathEntryLoop W wr ev tgt target es (lookups @ [l]) (rs @ added) (i + length added) =
      Some (Inr ((lookups @ [l]) @ lookups', (rs @ added) @ new))" "length lookups' = length es"
    "map (\<lambda>r. (dlCurrentTarget r, dlListener r)) new = concat (map (\<lambda>e. map (Pair (peNode e)) (listenersAt W wr (peNode e))) es)"
    "map dlId new = [i + length added..<i + length added + length new]" "\<forall>r\<in>set new. recordFor W wr ev r"
    using Cons.IH [of "lookups @ [l]" "rs @ added" "i + length added"] Cons.prems by auto
  have ids: "map dlId (added @ new) = [i..<i + length (added @ new)]"
    using A(2) IH(4) upt_add_eq_append [of i "i + length added" "length new"] by (simp add: add.assoc)
  show ?case
    using IH(2,3,5) A(1,3) ids IH(1) r(1) l(1)
    by (intro exI [of _ "l # lookups'"] exI [of _ "added @ new"]) (auto simp: added_def [symmetric] Let_def)
qed

text \<open>The listener records of a dispatch record, in the order in which they are to be processed.\<close>
definition processingRecords :: "dispatch_record \<Rightarrow> dispatch_listener list" where
  "processingRecords d = concat (map deProcessingListenerRecords (dqEntries (edDispatchQueue d)))"

text \<open>The mounted nodes an event passes on its way up from its target, up to the first container root.\<close>
definition eventPath :: "dispatch_world \<Rightarrow> nat \<Rightarrow> nat list \<Rightarrow> bool" where
  "eventPath W n path \<longleftrightarrow>
     (\<exists>up. climb (dwTree W) n up \<and>
        (case find (mounted (dwState W)) up of
           None \<Rightarrow> path = []
         | Some c \<Rightarrow> \<exists>ns b. ascend (dwTree W) (cwParent (dwTree W) c) ns b \<and> path = c # filter (mounted (dwState W)) ns))"

lemma metadata_result:
  assumes ok: "treeOk (dwState W)" and ac: "acyclic_parents (dwTree W)"
    and props: "\<forall>e\<in>set (dpEntries path). getHostInstanceTokenFromNode (dwState W) (Some (peNode e)) = Some (peToken e) \<and>
      listenerPropsOk W wr (peNode e) \<and>
      (peIndex e = 0 \<longrightarrow> trClosestToken target = Some (peToken e) \<and> trClosestNode target = Some (peNode e) \<and>
        trStatus target = ''mounted-host-instance'')"
    and none: "dpEntries path = [] \<Longrightarrow> trClosestToken target = None \<and> trStatus target = ''no-mounted-host-instance''"
  shows "\<exists>m. createSimpleEventDispatchMetadata W i wr ev tgt target path = Some (Inr m) \<and>
    map (\<lambda>r. (dlCurrentTarget r, dlListener r)) (concat (map deProcessingListenerRecords (dqEntries (smDispatchQueue m)))) =
      (if isCapturePhase (wrEventSystemFlags wr) then rev else id)
        (concat (map (\<lambda>e. map (Pair (peNode e)) (listenersAt W wr (peNode e))) (dpEntries path))) \<and>
    distinct (map dlId (concat (map deProcessingListenerRecords (dqEntries (smDispatchQueue m))))) \<and>
    dlId ` set (concat (map deProcessingListenerRecords (dqEntries (smDispatchQueue m)))) =
      {i..<i + length (concat (map deProcessingListenerRecords (dqEntries (smDispatchQueue m))))} \<and>
    (\<forall>r\<in>set (concat (map deProcessingListenerRecords (dqEntries (smDispatchQueue m)))). recordFor W wr ev r)"
proof (cases "dpEntries path = []")
  case True
  have "assertEventTargetNormalizationRecord (Some target) = Inr target"
    using none [OF True] by (simp add: assertEventTargetNormalizationRecord_def)
  then show ?thesis using True none [OF True]
    by (simp add: createSimpleEventDispatchMetadata_def createEventListenerTargetLookupRecord_def no_mismatch [OF ok] Let_def
        createDispatchQueueRecord_def)
next
  case False
  obtain lookups new where L: "pathEntryLoop W wr ev tgt target (dpEntries path) [] [] i = Some (Inr (lookups, new))"
    "map (\<lambda>r. (dlCurrentTarget r, dlListener r)) new =
       concat (map (\<lambda>e. map (Pair (peNode e)) (listenersAt W wr (peNode e))) (dpEntries path))"
    "map dlId new = [i..<i + length new]" "\<forall>r\<in>set new. recordFor W wr ev r"
    using pathEntryLoop_result [OF ok ac props, of ev tgt "[]" "[]" i] by auto
  have "distinct (map dlId new)" unfolding L(3) by simp
  moreover have "dlId ` set new = {i..<i + length new}" using arg_cong [OF L(3), of set] by simp
  ultimately show ?thesis using False L
    by (auto simp: createSimpleEventDispatchMetadata_def Let_def createDispatchQueueRecord_def createDispatchQueueEntryRecord_def
        rev_map [symmetric])
qed

lemma dispatch_record_listeners:
  assumes "ct_reachable (dwState W)" and ac: "acyclic_parents (dwTree W)"
    and props: "\<And>m. mounted (dwState W) m \<Longrightarrow> listenerPropsOk W wr m"
    and n: "valueNode (getEventTarget (dwObjects W) (nativeFields W ev) (EvObj (wrTargetContainer wr))) = Some n"
  shows "\<exists>d path. createEventDispatchRecordFromWrapperRecord W i (Some wr) ev = Some (Inr d) \<and> eventPath W n path \<and>
    map (\<lambda>r. (dlCurrentTarget r, dlListener r)) (processingRecords d) =
      (if isCapturePhase (wrEventSystemFlags wr) then rev else id) (concat (map (\<lambda>m. map (Pair m) (listenersAt W wr m)) path)) \<and>
    distinct (map dlId (processingRecords d)) \<and> dlId ` set (processingRecords d) = {i..<i + length (processingRecords d)} \<and>
    (\<forall>r\<in>set (processingRecords d). recordFor W wr ev r)"
proof -
  have ok: "treeOk (dwState W)" using reachable_treeOk [OF assms(1)] .
  obtain target path up where P: "createEventTargetNormalizationRecord (dwTree W) (dwState W) (Some n) = Some target"
    "createEventTargetDispatchPathRecord (dwTree W) (dwState W) (Some target) = Some (Inr path)"
    "climb (dwTree W) n up" "trClosestNode target = find (mounted (dwState W)) up"
    "case trClosestNode target of
       None \<Rightarrow> dpEntries path = [] \<and> dpStatus path = ''no-mounted-host-instance''
     | Some c \<Rightarrow> \<exists>ns b. ascend (dwTree W) (cwParent (dwTree W) c) ns b \<and>
         pathEntries (dwState W) 0 (c # filter (mounted (dwState W)) ns) (dpEntries path) \<and>
         dpBoundaryNode path = b \<and> dpTargetNode path = Some c \<and> dpStatus path = ''resolved-component-tree-dispatch-path'' \<and>
         (\<forall>p. b = Some p \<longrightarrow> dpBoundaryOwner path = nodeRootOwner (dwTree W) p)"
    using dispatch_path_of_target [OF assms(1) ac, of n] by blast
  have T: "trClosestToken target = Option.bind (find (mounted (dwState W)) up) (\<lambda>m. getHostInstanceTokenFromNode (dwState W) (Some m))"
    "trStatus target = (if trClosestToken target = None then ''no-mounted-host-instance'' else ''mounted-host-instance'')"
    using P(1) closest_is_first [OF P(3), of "dwState W"]
    by (auto simp: createEventTargetNormalizationRecord_def getClosestMountedHostInstanceTokenFromNode_def Let_def)
  define nodes where "nodes = map peNode (dpEntries path)"
  have path: "eventPath W n nodes"
    using P(3-5) unfolding eventPath_def nodes_def
    by (intro exI [of _ up]) (auto simp: pathEntries_def split: option.splits)
  have entries: "\<forall>e\<in>set (dpEntries path). getHostInstanceTokenFromNode (dwState W) (Some (peNode e)) = Some (peToken e) \<and>
      listenerPropsOk W wr (peNode e) \<and>
      (peIndex e = 0 \<longrightarrow> trClosestToken target = Some (peToken e) \<and> trClosestNode target = Some (peNode e) \<and>
        trStatus target = ''mounted-host-instance'')"
  proof (cases "trClosestNode target")
    case None
    then show ?thesis using P(5) by simp
  next
    case (Some c)
    then obtain ns where E: "pathEntries (dwState W) 0 (c # filter (mounted (dwState W)) ns) (dpEntries path)" using P(5) by auto
    then have tok: "\<forall>e\<in>set (dpEntries path). getHostInstanceTokenFromNode (dwState W) (Some (peNode e)) = Some (peToken e)"
      by (simp add: pathEntries_def)
    moreover have "peNode e = c" if e: "e \<in> set (dpEntries path)" and z: "peIndex e = 0" for e
    proof -
      obtain k where k: "k < length (dpEntries path)" "dpEntries path ! k = e" using e by (auto simp: in_set_conv_nth)
      have "map peIndex (dpEntries path) ! k = k" using E k(1) by (simp add: pathEntries_def del: nth_map)
      then have "k = 0" using k z by simp
      moreover have "map peNode (dpEntries path) ! 0 = c" using E by (simp add: pathEntries_def)
      ultimately show ?thesis using k by simp
    qed
    moreover have "mounted (dwState W) c" using Some P(4) by (auto simp: find_Some_iff)
    ultimately show ?thesis using T Some P(4) props by (auto simp: mounted_def)
  qed
  have none: "dpEntries path = [] \<Longrightarrow> trClosestToken target = None \<and> trStatus target = ''no-mounted-host-instance''"
    using T P(4,5) by (auto simp: pathEntries_def split: option.splits)
  obtain m where M: "createSimpleEventDispatchMetadata W i wr ev (getEventTarget (dwObjects W) (nativeFields W ev) (EvObj (wrTargetContainer wr))) target path = Some (Inr m)"
    "map (\<lambda>r. (dlCurrentTarget r, dlListener r)) (concat (map deProcessingListenerRecords (dqEntries (smDispatchQueue m)))) =
      (if isCapturePhase (wrEventSystemFlags wr) then rev else id)
        (concat (map (\<lambda>e. map (Pair (peNode e)) (listenersAt W wr (peNode e))) (dpEntries path)))"
    "distinct (map dlId (concat (map deProcessingListenerRecords (dqEntries (smDispatchQueue m)))))"
    "dlId ` set (concat (map deProcessingListenerRecords (dqEntries (smDispatchQueue m)))) =
      {i..<i + length (concat (map deProcessingListenerRecords (dqEntries (smDispatchQueue m))))}"
    "\<forall>r\<in>set (concat (map deProcessingListenerRecords (dqEntries (smDispatchQueue m)))). recordFor W wr ev r"
    using metadata_result [OF ok ac entries none] by blast
  have "\<exists>d. createEventDispatchRecordFromWrapperRecord W i (Some wr) ev = Some (Inr d) \<and> edDispatchQueue d = smDispatchQueue m"
    using P(1,2) n M(1) by (simp add: createEventDispatchRecordFromWrapperRecord_def assertEventListenerWrapperRecord_def
        createPluginExtractionRecord_def Let_def)
  then obtain d where d: "createEventDispatchRecordFromWrapperRecord W i (Some wr) ev = Some (Inr d)"
    "edDispatchQueue d = smDispatchQueue m" by blast
  have nodes: "map (\<lambda>e. map (Pair (peNode e)) (listenersAt W wr (peNode e))) (dpEntries path) =
    map (\<lambda>k. map (Pair k) (listenersAt W wr k)) nodes" by (simp add: nodes_def)
  show ?thesis using d(1) path M(2-5) unfolding nodes processingRecords_def d(2) [symmetric] by blast
qed

end
