(* ===== verification/Invocation_Props.thy ===== *)
theory Invocation_Props
  imports Plugin_Invocation Dispatch_Props
begin

text \<open>
  Properties of calling the listeners of dispatch records, for arbitrary listener code and arbitrary
  methods of native events: which listeners run, in which order, and what \<open>stopPropagation\<close>, the native
  \<open>stopImmediatePropagation\<close> and errors change.
\<close>

subsection \<open>What a listener can change\<close>

text \<open>How the propagation state may change while one listener runs.\<close>
definition advances :: "propagation_state \<Rightarrow> propagation_state \<Rightarrow> bool" where
  "advances ps ps' \<longleftrightarrow>
     psEnablePropagationStop ps' = psEnablePropagationStop ps \<and> psEnableNativeStopImmediate ps' = psEnableNativeStopImmediate ps \<and>
     psNativeEvent ps' = psNativeEvent ps \<and> psCurrentRecord ps' = psCurrentRecord ps \<and>
     psNativeImmediatePropagationStopped ps' = psNativeImmediatePropagationStopped ps \<and>
     psNativeStopImmediateSource ps' = psNativeStopImmediateSource ps \<and>
     psNativeStopImmediateStoppedEvent ps' = psNativeStopImmediateStoppedEvent ps \<and>
     psNativeStopImmediateNativeCallCount ps' = psNativeStopImmediateNativeCallCount ps \<and>
     (psPropagationStopped ps \<longrightarrow> psPropagationStopped ps') \<and>
     (psPropagationStopped ps' \<longrightarrow> psPropagationStopped ps \<and> psStoppedNativeEvent ps' = psStoppedNativeEvent ps \<or>
        psEnablePropagationStop ps \<and> psStoppedNativeEvent ps' = psNativeEvent ps)"

lemma advances_refl [simp]: "advances ps ps"
  by (simp add: advances_def)

lemma advances_trans: "advances a b \<Longrightarrow> advances b c \<Longrightarrow> advances a c"
  by (auto simp: advances_def)

lemma performAction_frame:
  assumes "performAction M a s = (threw, s')"
  shows "csCurrentTarget s' = csCurrentTarget s" "csCurrentRecord s' = csCurrentRecord s"
    "rel_option advances (csPropagation s) (csPropagation s')" "csDefault s' = None \<longleftrightarrow> csDefault s = None"
proof -
  have "csCurrentTarget s' = csCurrentTarget s \<and> csCurrentRecord s' = csCurrentRecord s \<and>
    rel_option advances (csPropagation s) (csPropagation s') \<and> (csDefault s' = None \<longleftrightarrow> csDefault s = None)"
  proof (cases a)
    case StopPropagation
    then show ?thesis using assms
      by (auto simp: eventStopPropagation_def Let_def advances_def option.rel_refl split: option.splits if_splits prod.splits)
  next
    case PreventDefault
    then show ?thesis using assms
      by (auto simp: eventPreventDefault_def Let_def option.rel_refl split: option.splits if_splits prod.splits)
  next
    case (UpdateNative e f)
    then show ?thesis using assms by (auto simp: option.rel_refl)
  qed
  then show "csCurrentTarget s' = csCurrentTarget s" "csCurrentRecord s' = csCurrentRecord s"
    "rel_option advances (csPropagation s) (csPropagation s')" "csDefault s' = None \<longleftrightarrow> csDefault s = None" by simp_all
qed

lemma runListener_frame:
  assumes "runListener M event p s = (r, s')"
  shows "csCurrentTarget s' = csCurrentTarget s" "csCurrentRecord s' = csCurrentRecord s"
    "rel_option advances (csPropagation s) (csPropagation s')" "csDefault s' = None \<longleftrightarrow> csDefault s = None"
proof -
  have "csCurrentTarget s' = csCurrentTarget s \<and> csCurrentRecord s' = csCurrentRecord s \<and>
    rel_option advances (csPropagation s) (csPropagation s') \<and> (csDefault s' = None \<longleftrightarrow> csDefault s = None)"
    using assms
  proof (induction p arbitrary: s)
    case (Act a k)
    obtain threw s1 where a: "performAction M a s = (threw, s1)" by fastforce
    note F = performAction_frame [OF a]
    have "runListener M event (k threw (viewEvent event s1)) s1 = (r, s')" using Act.prems a by simp
    from Act.IH [OF _ _ this] have IH: "csCurrentTarget s' = csCurrentTarget s1 \<and> csCurrentRecord s' = csCurrentRecord s1 \<and>
      rel_option advances (csPropagation s1) (csPropagation s') \<and> (csDefault s' = None \<longleftrightarrow> csDefault s1 = None)" by blast
    have "rel_option advances (csPropagation s) (csPropagation s')"
      using F(3) IH by (cases "csPropagation s"; cases "csPropagation s1"; cases "csPropagation s'") (auto intro: advances_trans)
    then show ?case using F IH by simp
  qed (auto simp: option.rel_refl)
  then show "csCurrentTarget s' = csCurrentTarget s" "csCurrentRecord s' = csCurrentRecord s"
    "rel_option advances (csPropagation s) (csPropagation s')" "csDefault s' = None \<longleftrightarrow> csDefault s = None" by simp_all
qed

text \<open>The invariant between listeners of the native event \<open>ev\<close>.\<close>
definition propagationOk :: "nat option \<Rightarrow> propagation_state \<Rightarrow> bool" where
  "propagationOk ev ps \<longleftrightarrow>
     (psPropagationStopped ps \<longrightarrow> psStoppedNativeEvent ps = ev) \<and>
     (psNativeImmediatePropagationStopped ps \<longrightarrow>
        psEnableNativeStopImmediate ps \<and> psNativeStopImmediateStoppedEvent ps = ev \<and> psNativeStopImmediateSource ps \<noteq> None)"

text \<open>The number of the listener record at which the native event was stopped immediately.\<close>
definition immediateSource :: "canary_state \<Rightarrow> nat option" where
  "immediateSource s =
     (case csPropagation s of
        None \<Rightarrow> None
      | Some ps \<Rightarrow> if psNativeImmediatePropagationStopped ps then map_option dlId (psNativeStopImmediateSource ps) else None)"

abbreviation stopped :: "canary_state \<Rightarrow> bool" where
  "stopped s \<equiv> propFlag psPropagationStopped s"

definition stateOk :: "nat option \<Rightarrow> canary_state \<Rightarrow> bool" where
  "stateOk ev s \<longleftrightarrow> pred_option (propagationOk ev) (csPropagation s)"

text \<open>Inside the loop over the listeners of an entry the event is also the current one.\<close>
definition loopOk :: "nat option \<Rightarrow> canary_state \<Rightarrow> bool" where
  "loopOk ev s \<longleftrightarrow> csCurrentTarget s = None \<and> pred_option (\<lambda>ps. propagationOk ev ps \<and> psNativeEvent ps = ev) (csPropagation s)"

lemma callListener_frame:
  assumes run: "callListenerInContext M event l p s = (r, s')" and ok: "loopOk ev s"
  shows "loopOk ev s'" "stopped s \<Longrightarrow> stopped s'"
    "immediateSource s' = immediateSource s \<or> immediateSource s' = Some (dlId l)"
    "csPropagation s' = None \<longleftrightarrow> csPropagation s = None"
    "propFlag psEnableNativeStopImmediate s' = propFlag psEnableNativeStopImmediate s"
proof -
  let ?s1 = "prepareDispatchQueueCanaryEventForListener l s"
  obtain r2 s2 where r2: "runListener M event (p (viewEvent event ?s1)) ?s1 = (r2, s2)" by fastforce
  note F = runListener_frame [OF r2]
  have s': "csCurrentTarget s' = None" "csPropagation s' = map_option (\<lambda>ps. ps\<lparr>psCurrentRecord := None, psCurrentTarget := None\<rparr>)
      (map_option (updateNativeStopImmediatePropagationDiagnosticState (csNatives s2) (nativeImmediateCount s)) (csPropagation s2))"
    using run r2 by (auto simp: callListenerInContext_def Let_def resetDispatchQueueCanaryEventAfterListener_def setCurrent_def)
  have s1: "csPropagation ?s1 = map_option (\<lambda>ps. ps\<lparr>psCurrentRecord := Some l, psCurrentTarget := Some (dlCurrentTarget l)\<rparr>) (csPropagation s)"
    by (simp add: prepareDispatchQueueCanaryEventForListener_def setCurrent_def Let_def)
  have "loopOk ev s' \<and> (stopped s \<longrightarrow> stopped s') \<and>
    (immediateSource s' = immediateSource s \<or> immediateSource s' = Some (dlId l)) \<and> (csPropagation s' = None \<longleftrightarrow> csPropagation s = None) \<and>
    propFlag psEnableNativeStopImmediate s' = propFlag psEnableNativeStopImmediate s"
  proof (cases "csPropagation s")
    case None
    then have "csPropagation s2 = None" using F(3) s1 by simp
    then show ?thesis using None s' by (simp add: loopOk_def propFlag_def immediateSource_def)
  next
    case (Some ps)
    then obtain ps2 where ps2: "csPropagation s2 = Some ps2" "advances (ps\<lparr>psCurrentRecord := Some l, psCurrentTarget := Some (dlCurrentTarget l)\<rparr>) ps2"
      using F(3) s1 by (cases "csPropagation s2") auto
    then show ?thesis using Some s' ok
      by (auto simp: loopOk_def propFlag_def immediateSource_def propagationOk_def advances_def Let_def
          updateNativeStopImmediatePropagationDiagnosticState_def)
  qed
  then show "loopOk ev s'" "stopped s \<Longrightarrow> stopped s'"
    "immediateSource s' = immediateSource s \<or> immediateSource s' = Some (dlId l)"
    "csPropagation s' = None \<longleftrightarrow> csPropagation s = None"
    "propFlag psEnableNativeStopImmediate s' = propFlag psEnableNativeStopImmediate s" by simp_all
qed

lemma immediateSource_iff:
  "loopOk ev s \<Longrightarrow> propFlag psNativeImmediatePropagationStopped s \<longleftrightarrow> immediateSource s \<noteq> None"
  by (auto simp: loopOk_def propFlag_def immediateSource_def propagationOk_def split: option.splits)

lemma invoke_function:
  assumes run: "invokeDispatchListenerRecordForCanary M code (Some event) i er sel l s = (rec, s')"
    and f: "typeOf (dlListener l) = ''function''" and ok: "loopOk ev s"
  shows "loopOk ev s'" "stopped s \<Longrightarrow> stopped s'"
    "immediateSource s' = immediateSource s \<or> immediateSource s' = Some (dlId l)"
    "irListener rec = Some l" "irInvocationAttempted rec" "irListenerInvocationCount rec = 1"
    "irPropagationStoppedAfter rec = stopped s'" "irNativeImmediateStoppedAfter rec \<longleftrightarrow> immediateSource s' \<noteq> None"
    "irCurrentTargetBefore rec = None" "irCurrentTargetDuring rec = Some (dlCurrentTarget l)" "irCurrentTargetAfter rec = None"
    "irCurrentTargetReset rec" "\<exists>r. callListenerInContext M event l (code (dlListener l)) s = (r, s') \<and>
      irListenerErrorCaptured rec = (case r of Inl v \<Rightarrow> v \<noteq> DNull | Inr v \<Rightarrow> False)"
proof -
  obtain r t where c: "callListenerInContext M event l (code (dlListener l)) s = (r, t)" by fastforce
  note F = callListener_frame [OF c ok]
  have t: "t = s'" and rec: "irListener rec = Some l" "irInvocationAttempted rec" "irListenerInvocationCount rec = 1"
    "irPropagationStoppedAfter rec = stopped s'" "irNativeImmediateStoppedAfter rec = propFlag psNativeImmediatePropagationStopped s'"
    "irCurrentTargetBefore rec = csCurrentTarget s" "irCurrentTargetDuring rec = Some (dlCurrentTarget l)"
    "irCurrentTargetAfter rec = csCurrentTarget s'" "irCurrentTargetReset rec = (csCurrentTarget s' = None)"
    "irListenerErrorCaptured rec = (case r of Inl v \<Rightarrow> v \<noteq> DNull | Inr v \<Rightarrow> False)"
    using run f c by (auto simp: invokeDispatchListenerRecordForCanary_def Let_def split: sum.splits)
  note F' = F [unfolded t]
  have n: "csCurrentTarget s = None" "csCurrentTarget s' = None" using ok F'(1) by (simp_all add: loopOk_def)
  show "loopOk ev s'" "stopped s \<Longrightarrow> stopped s'"
    "immediateSource s' = immediateSource s \<or> immediateSource s' = Some (dlId l)" using F' by simp_all
  show "irListener rec = Some l" "irInvocationAttempted rec" "irListenerInvocationCount rec = 1"
    "irPropagationStoppedAfter rec = stopped s'" "irNativeImmediateStoppedAfter rec \<longleftrightarrow> immediateSource s' \<noteq> None"
    "irCurrentTargetBefore rec = None" "irCurrentTargetDuring rec = Some (dlCurrentTarget l)" "irCurrentTargetAfter rec = None"
    "irCurrentTargetReset rec" using rec n immediateSource_iff [OF F'(1)] by simp_all
  show "\<exists>r. callListenerInContext M event l (code (dlListener l)) s = (r, s') \<and>
      irListenerErrorCaptured rec = (case r of Inl v \<Rightarrow> v \<noteq> DNull | Inr v \<Rightarrow> False)" using c t rec by blast
qed

subsection \<open>Stopped events\<close>

text \<open>The listener that an invocation record says was called.\<close>
definition called :: "invocation_record \<Rightarrow> dispatch_listener option" where
  "called r = (if irInvocationAttempted r then irListener r else None)"

text \<open>What a call of an earlier listener means for a call of a later one.\<close>
definition respectsStop :: "invocation_record \<Rightarrow> invocation_record \<Rightarrow> bool" where
  "respectsStop r r' \<longleftrightarrow>
     (\<forall>l l'. called r = Some l \<longrightarrow> called r' = Some l' \<longrightarrow>
        (irPropagationStoppedAfter r \<longrightarrow> dlTargetInst l' = dlTargetInst l \<and> dlInCapturePhase l' = dlInCapturePhase l) \<and>
        \<not> irNativeImmediateStoppedAfter r)"

lemma called_skipped [simp]: "called (createSkippedSingleListenerInvocationCanaryRecord l i u reason ps) = None"
  by (simp add: called_def createSkippedSingleListenerInvocationCanaryRecord_def Let_def)

lemma respectsStop_None [simp]: "called r = None \<Longrightarrow> respectsStop r r'" "called r' = None \<Longrightarrow> respectsStop r r'"
  by (simp_all add: respectsStop_def)

lemma skipImmediate_iff:
  "loopOk ev s \<Longrightarrow> shouldSkipDispatchListenerForNativeStopImmediatePropagation l s \<longleftrightarrow>
     immediateSource s \<noteq> None \<and> immediateSource s \<noteq> Some (dlId l)"
  by (auto simp: shouldSkipDispatchListenerForNativeStopImmediatePropagation_def loopOk_def immediateSource_def propagationOk_def
      split: option.splits)

lemma skipStop_iff: "shouldSkipDispatchListenerForPropagationStop l prev s \<longleftrightarrow> stopped s \<and> Some (dlTargetInst l) \<noteq> prev"
  by (simp add: shouldSkipDispatchListenerForPropagationStop_def propFlag_def split: option.splits)

lemma totals_records [simp]:
  "ctInvocationRecords (skipForNativeStop options l i s totals) = ctInvocationRecords totals @
     [createSkippedSingleListenerInvocationCanaryRecord (Some l) i (coUseProcessingOrder options) ''native-stop-immediate-propagation'' (csPropagation s)]"
  "ctInvocationRecords (skipForPropagationStop options l i s totals) = ctInvocationRecords totals @
     [createSkippedSingleListenerInvocationCanaryRecord (Some l) i (coUseProcessingOrder options) ''propagation-stopped'' (csPropagation s)]"
  "ctInvocationRecords (recordInvocation options l r s s' totals) = ctInvocationRecords totals @ [r]"
  by (simp_all add: skipForNativeStop_def skipForPropagationStop_def recordInvocation_def)

text \<open>
  What one pass over listeners does, from a state \<open>s\<close> to \<open>s'\<close> with the new records \<open>rs\<close>: each pair of calls
  respects a stop, and so does a call after a stop that was there before. \<open>prev\<close> is the instance of the
  listener before.
\<close>
definition passOk ::
  "nat option \<Rightarrow> dispatch_listener list \<Rightarrow> nat option \<Rightarrow> canary_state \<Rightarrow> invocation_record list \<Rightarrow> canary_state \<Rightarrow> bool" where
  "passOk ev ls prev s rs s' \<longleftrightarrow> sorted_wrt respectsStop rs \<and> loopOk ev s' \<and>
    (stopped s \<longrightarrow> stopped s') \<and> (immediateSource s \<noteq> None \<longrightarrow> immediateSource s' = immediateSource s) \<and>
    (immediateSource s' = immediateSource s \<or> immediateSource s' \<in> Some ` dlId ` set ls) \<and>
    (\<forall>r\<in>set rs. \<forall>l. called r = Some l \<longrightarrow> l \<in> set ls \<and> (stopped s \<longrightarrow> Some (dlTargetInst l) = prev) \<and> immediateSource s = None \<and>
      (irPropagationStoppedAfter r \<longrightarrow> stopped s') \<and> (irNativeImmediateStoppedAfter r \<longrightarrow> immediateSource s' \<noteq> None))"

lemma passOk_skip:
  assumes "passOk ev ls prev' s rs s'" "immediateSource s \<noteq> None" "called r = None"
  shows "passOk ev (l # ls) prev s (r # rs) s'"
  using assms by (auto simp: passOk_def)

lemma passOk_call:
  assumes "passOk ev ls (Some (dlTargetInst l)) s1 rs s'" and phase: "\<forall>m\<in>set ls. dlInCapturePhase m = dlInCapturePhase l"
    and "called r = Some l" "immediateSource s = None"
    "immediateSource s1 = None \<or> immediateSource s1 = Some (dlId l)" "stopped s \<Longrightarrow> stopped s1" "stopped s \<Longrightarrow> Some (dlTargetInst l) = prev"
    "irPropagationStoppedAfter r = stopped s1" "irNativeImmediateStoppedAfter r \<longleftrightarrow> immediateSource s1 \<noteq> None"
  shows "passOk ev (l # ls) prev s (r # rs) s'"
proof -
  have "\<forall>r'\<in>set rs. respectsStop r r'" using assms by (auto simp: respectsStop_def passOk_def)
  then show ?thesis using assms unfolding passOk_def by (auto simp del: split_paired_All)
qed

lemma listenerLoop_stops:
  assumes "\<forall>l\<in>set ls. typeOf (dlListener l) = ''function'' \<and> dlInCapturePhase l = ph" "distinct (map dlId ls)" "loopOk ev s"
    "immediateSource s \<notin> Some ` dlId ` set ls"
    "listenerLoop M code options (Some event) ls i prev (totals, s) = (totals', s')"
  shows "\<exists>rs. ctInvocationRecords totals' = ctInvocationRecords totals @ rs \<and> passOk ev ls prev s rs s'"
  using assms
proof (induction ls arbitrary: i prev totals s)
  case Nil
  then show ?case by (simp add: passOk_def)
next
  case (Cons l ls)
  have f: "typeOf (dlListener l) = ''function''" "\<forall>l\<in>set ls. typeOf (dlListener l) = ''function'' \<and> dlInCapturePhase l = ph"
    and ph: "\<forall>m\<in>set ls. dlInCapturePhase m = dlInCapturePhase l"
    and d: "distinct (map dlId ls)" "immediateSource s \<notin> Some ` dlId ` set ls" "immediateSource s \<noteq> Some (dlId l)"
    using Cons.prems(1,2,4) by auto
  show ?case
  proof (cases "shouldSkipDispatchListenerForNativeStopImmediatePropagation l s")
    case True
    then have "listenerLoop M code options (Some event) ls (i + 1) (Some (dlTargetInst l)) (skipForNativeStop options l i s totals, s) = (totals', s')"
      using Cons.prems(5) by simp
    from Cons.IH [OF f(2) d(1) Cons.prems(3) d(2) this] True Cons.prems(3) show ?thesis
      by (auto simp: skipImmediate_iff intro!: passOk_skip)
  next
    case im: False
    then have none: "immediateSource s = None" using d(3) Cons.prems(3) by (simp add: skipImmediate_iff)
    show ?thesis
    proof (cases "shouldSkipDispatchListenerForPropagationStop l prev s")
      case True
      then show ?thesis using Cons.prems im by (auto simp: passOk_def)
    next
      case False
      obtain r s1 where inv: "invokeDispatchListenerRecordForCanary M code (Some event) i (coListenerErrorRouting options) (coUseProcessingOrder options) l s = (r, s1)"
        by fastforce
      note V = invoke_function [OF inv f(1) Cons.prems(3)]
      have src: "immediateSource s1 = None \<or> immediateSource s1 = Some (dlId l)" using V(3) none by simp
      then have s1: "immediateSource s1 \<notin> Some ` dlId ` set ls" using Cons.prems(2) by auto
      have "listenerLoop M code options (Some event) ls (i + 1) (Some (dlTargetInst l)) (recordInvocation options l r s s1 totals, s1) = (totals', s')"
        using Cons.prems(5) im False inv by simp
      from Cons.IH [OF f(2) d(1) V(1) s1 this] obtain rs
        where rs: "ctInvocationRecords totals' = (ctInvocationRecords totals @ [r]) @ rs" "passOk ev ls (Some (dlTargetInst l)) s1 rs s'" by auto
      have "called r = Some l" using V(4,5) by (simp add: called_def)
      then have "passOk ev (l # ls) prev s (r # rs) s'"
        using passOk_call [OF rs(2) ph _ none src V(2) _ V(7,8)] False by (simp add: skipStop_iff)
      then show ?thesis using rs(1) by auto
    qed
  qed
qed

text \<open>The same over whole queue entries, at the start of which no instance is excused.\<close>
definition runOk ::
  "nat option \<Rightarrow> dispatch_listener list \<Rightarrow> canary_state \<Rightarrow> invocation_record list \<Rightarrow> canary_state \<Rightarrow> bool" where
  "runOk ev ls s rs s' \<longleftrightarrow> sorted_wrt respectsStop rs \<and> stateOk ev s' \<and>
    (stopped s \<longrightarrow> stopped s') \<and> (immediateSource s \<noteq> None \<longrightarrow> immediateSource s' = immediateSource s) \<and>
    (immediateSource s' = immediateSource s \<or> immediateSource s' \<in> Some ` dlId ` set ls) \<and>
    (\<forall>r\<in>set rs. \<forall>l. called r = Some l \<longrightarrow> l \<in> set ls \<and> \<not> stopped s \<and> immediateSource s = None \<and>
      (irPropagationStoppedAfter r \<longrightarrow> stopped s') \<and> (irNativeImmediateStoppedAfter r \<longrightarrow> immediateSource s' \<noteq> None))"

lemma runOk_append:
  assumes "runOk ev ls s rs s1" "runOk ev ls' s1 rs' s'"
  shows "runOk ev (ls @ ls') s (rs @ rs') s'"
proof -
  have "respectsStop r r'" if "r \<in> set rs" "r' \<in> set rs'" for r r'
    using assms that unfolding runOk_def respectsStop_def by fastforce
  moreover have "l \<in> set ls \<union> set ls' \<and> \<not> stopped s \<and> immediateSource s = None \<and>
      (irPropagationStoppedAfter r \<longrightarrow> stopped s') \<and> (irNativeImmediateStoppedAfter r \<longrightarrow> immediateSource s' \<noteq> None)"
    if "r \<in> set rs \<union> set rs'" "called r = Some l" for r l
    using assms that unfolding runOk_def by (cases "r \<in> set rs") (metis UnCI, metis UnE UnCI)
  ultimately show ?thesis using assms unfolding runOk_def
    by (auto simp: sorted_wrt_append image_Un simp del: split_paired_All)
qed

abbreviation entryRecords :: "canary_options \<Rightarrow> queue_entry_record \<Rightarrow> dispatch_listener list" where
  "entryRecords options entry \<equiv> (if coUseProcessingOrder options then deProcessingListenerRecords entry else deListeners entry)"

text \<open>Reading the propagation state is not affected by the current target.\<close>
lemma setCurrent_reads [simp]:
  "stateOk ev (setCurrent l s) = stateOk ev s" "propFlag psPropagationStopped (setCurrent l s) = stopped s"
  "immediateSource (setCurrent l s) = immediateSource s" "csNatives (setCurrent l s) = csNatives s"
  by (cases "csPropagation s"; auto simp: stateOk_def propFlag_def immediateSource_def setCurrent_def Let_def propagationOk_def)+

lemma context_start:
  assumes "createDispatchQueueCanaryEventContext d (l # ls) s = (event, s1)" "stateOk (dlNativeEvent l) s"
  shows "\<exists>e. event = Some e" "loopOk (dlNativeEvent l) s1" "stopped s1 = stopped s" "immediateSource s1 = immediateSource s"
  using assms
  by (cases "csPropagation s"; auto simp: createDispatchQueueCanaryEventContext_def Let_def loopOk_def propFlag_def
      immediateSource_def propagationOk_def stateOk_def)+

lemma loopOk_stateOk: "loopOk ev s \<Longrightarrow> stateOk ev s"
  by (cases "csPropagation s") (auto simp: loopOk_def stateOk_def)

lemma processEntry_stops:
  assumes "\<forall>l\<in>set (entryRecords options entry). typeOf (dlListener l) = ''function'' \<and> dlNativeEvent l = ev \<and>
      dlInCapturePhase l = ph"
    "distinct (map dlId (entryRecords options entry))" "stateOk ev s" "immediateSource s \<notin> Some ` dlId ` set (entryRecords options entry)"
    "processEntry M code options d entry (totals, s) = (totals', s')"
  shows "\<exists>rs. ctInvocationRecords totals' = ctInvocationRecords totals @ rs \<and> runOk ev (entryRecords options entry) s rs s'"
proof (cases "entryRecords options entry")
  case Nil
  then show ?thesis using assms(3,5)
    by (auto simp: processEntry_def Let_def createDispatchQueueCanaryEventContext_def finishDispatchQueueCanaryEventContext_def runOk_def)
next
  case (Cons l ls)
  have ev: "dlNativeEvent l = ev" using assms(1) Cons by simp
  obtain event s1 where c: "createDispatchQueueCanaryEventContext d (l # ls) s = (event, s1)" by fastforce
  note C = context_start [OF c, unfolded ev, OF assms(3)]
  obtain e where e: "event = Some e" using C(1) by blast
  let ?t = "totals\<lparr>ctDispatchQueueEntryCount := ctDispatchQueueEntryCount totals + 1,
                    ctListenerCandidateCount := ctListenerCandidateCount totals + length (l # ls)\<rparr>"
  obtain s2 where L: "listenerLoop M code options (Some e) (l # ls) 0 None (?t, s1) = (totals', s2)" "s' = setCurrent None s2"
    using assms(5) c Cons e
    by (auto simp: processEntry_def Let_def finishDispatchQueueCanaryEventContext_def resetDispatchQueueCanaryEventAfterListener_def
        simp del: listenerLoop.simps split: prod.splits if_splits)
  have "\<exists>rs. ctInvocationRecords totals' = ctInvocationRecords ?t @ rs \<and> passOk ev (l # ls) None s1 rs s2"
    by (rule listenerLoop_stops [where ph = ph, OF _ _ C(2) _ L(1)]) (use assms(1,2,4) Cons C(4) in auto)
  then obtain rs where rs: "ctInvocationRecords totals' = ctInvocationRecords totals @ rs" "passOk ev (l # ls) None s1 rs s2" by auto
  have "runOk ev (l # ls) s rs s'"
    using rs(2) C(3,4) unfolding passOk_def runOk_def L(2) by (auto dest: loopOk_stateOk)
  then show ?thesis using rs(1) Cons by auto
qed

text \<open>The queue entries of dispatch records, one after the other.\<close>
definition recordEntries :: "dispatch_record list \<Rightarrow> (dispatch_record \<times> queue_entry_record) list" where
  "recordEntries ds = concat (map (\<lambda>d. map (Pair d) (dqEntries (edDispatchQueue d))) ds)"

lemma processRecords_entries:
  "fold (processRecord M code options) ds ts = fold (\<lambda>(d, e). processEntry M code options d e) (recordEntries ds) ts"
proof -
  have "fold (\<lambda>(d, e). processEntry M code options d e) (map (Pair d) es) ts = fold (processEntry M code options d) es ts" for d es ts
    by (simp add: fold_map comp_def)
  then show ?thesis by (induction ds arbitrary: ts) (simp_all add: recordEntries_def processRecord_def)
qed

lemma entries_stops:
  assumes "\<forall>(d, e)\<in>set es. \<exists>ph. \<forall>l\<in>set (entryRecords options e). typeOf (dlListener l) = ''function'' \<and> dlNativeEvent l = ev \<and>
      dlInCapturePhase l = ph"
    "distinct (map dlId (concat (map (\<lambda>(d, e). entryRecords options e) es)))" "stateOk ev s"
    "immediateSource s \<notin> Some ` dlId ` set (concat (map (\<lambda>(d, e). entryRecords options e) es))"
    "fold (\<lambda>(d, e). processEntry M code options d e) es (totals, s) = (totals', s')"
  shows "\<exists>rs. ctInvocationRecords totals' = ctInvocationRecords totals @ rs \<and>
    runOk ev (concat (map (\<lambda>(d, e). entryRecords options e) es)) s rs s'"
  using assms
proof (induction es arbitrary: totals s)
  case Nil
  then show ?case by (simp add: runOk_def)
next
  case (Cons de es)
  obtain d e where de: "de = (d, e)" by fastforce
  obtain t1 s1 where P: "processEntry M code options d e (totals, s) = (t1, s1)" by fastforce
  have rest: "fold (\<lambda>(d, e). processEntry M code options d e) es (t1, s1) = (totals', s')" using Cons.prems(5) de P by simp
  obtain ph where ph: "\<forall>l\<in>set (entryRecords options e). typeOf (dlListener l) = ''function'' \<and> dlNativeEvent l = ev \<and> dlInCapturePhase l = ph"
    using Cons.prems(1) de by auto
  have "\<exists>rs. ctInvocationRecords t1 = ctInvocationRecords totals @ rs \<and> runOk ev (entryRecords options e) s rs s1"
    by (rule processEntry_stops [OF ph _ Cons.prems(3) _ P]) (use Cons.prems(2,4) de in auto)
  then obtain rs where rs: "ctInvocationRecords t1 = ctInvocationRecords totals @ rs" "runOk ev (entryRecords options e) s rs s1" by blast
  have ok: "stateOk ev s1" using rs(2) by (simp add: runOk_def)
  have src: "immediateSource s1 \<notin> Some ` dlId ` set (concat (map (\<lambda>(d, e). entryRecords options e) es))"
  proof -
    have "immediateSource s1 = immediateSource s \<or> immediateSource s1 \<in> Some ` dlId ` set (entryRecords options e)"
      using rs(2) by (simp add: runOk_def)
    then show ?thesis using Cons.prems(2,4) de by (auto simp del: set_concat)
  qed
  have "\<exists>rs'. ctInvocationRecords totals' = ctInvocationRecords t1 @ rs' \<and>
    runOk ev (concat (map (\<lambda>(d, e). entryRecords options e) es)) s1 rs' s'"
    by (rule Cons.IH [OF _ _ ok src rest]) (use Cons.prems(1,2) in auto)
  then show ?case using rs de runOk_append [OF rs(2)] by (auto simp del: set_concat)
qed

end
