(* ===== verification/Stop_Props.thy ===== *)
theory Stop_Props
  imports Invocation_Props
begin

text \<open>
  What stops an event: the code of a listener, read on its own, against the records of the invocation. A
  listener that calls \<open>stopPropagation\<close>, or the native \<open>stopImmediatePropagation\<close>, in whatever it does leaves the
  event stopped, and only listeners that can call \<open>stopPropagation\<close> stop it.
\<close>

subsection \<open>Listeners that stop the event\<close>

text \<open>The code calls \<open>stopPropagation\<close> on every run, before it returns or throws.\<close>
primrec alwaysStops :: "listener_prog \<Rightarrow> bool" where
  "alwaysStops (ReturnValue v) = False"
| "alwaysStops (ThrowValue v) = False"
| "alwaysStops (Act a k) = (a = StopPropagation \<or> (\<forall>threw v. alwaysStops (k threw v)))"

text \<open>The code has a run that calls \<open>stopPropagation\<close>.\<close>
primrec mayStop :: "listener_prog \<Rightarrow> bool" where
  "mayStop (ReturnValue v) = False"
| "mayStop (ThrowValue v) = False"
| "mayStop (Act a k) = (a = StopPropagation \<or> (\<exists>threw v. mayStop (k threw v)))"

text \<open>On every run the code leaves the native event with a higher count of \<open>stopImmediatePropagation\<close> calls.\<close>
definition alwaysStopsNative :: "(nat \<Rightarrow> native_methods) \<Rightarrow> (event_view \<Rightarrow> listener_prog) \<Rightarrow> nat option \<Rightarrow> bool" where
  "alwaysStopsNative M p ev \<longleftrightarrow>
     (\<forall>event v s. getNativeStopImmediatePropagationCallCount (csNatives s) ev
        < getNativeStopImmediatePropagationCallCount (csNatives (snd (runListener M event (p v) s))) ev)"

lemma propagation_kept:
  assumes "rel_option advances (csPropagation s) (csPropagation s')"
  shows "stopped s \<Longrightarrow> stopped s'" "propFlag psEnablePropagationStop s' = propFlag psEnablePropagationStop s"
  using assms by (cases "csPropagation s"; cases "csPropagation s'"; simp add: advances_def propFlag_def)+

lemma performAction_stops:
  assumes "performAction M a s = (threw, s')"
  shows "propFlag psEnablePropagationStop s \<Longrightarrow> a = StopPropagation \<Longrightarrow> stopped s'" "stopped s' \<Longrightarrow> stopped s \<or> a = StopPropagation"
  using assms by (cases a; auto simp: eventStopPropagation_def eventPreventDefault_def Let_def propFlag_def
      split: option.splits if_splits prod.splits)+

lemma runListener_stops:
  "runListener M event p s = (r, s') \<Longrightarrow> propFlag psEnablePropagationStop s \<Longrightarrow> alwaysStops p \<Longrightarrow> stopped s'"
proof (induction p arbitrary: s)
  case (Act a k)
  obtain threw s1 where a: "performAction M a s = (threw, s1)" by fastforce
  have run: "runListener M event (k threw (viewEvent event s1)) s1 = (r, s')" using Act.prems(1) a by simp
  show ?case
  proof (cases "a = StopPropagation")
    case True
    then show ?thesis using performAction_stops(1) [OF a Act.prems(2)] propagation_kept(1) [OF runListener_frame(3) [OF run]] by blast
  next
    case False
    have "propFlag psEnablePropagationStop s1" using propagation_kept(2) [OF performAction_frame(3) [OF a]] Act.prems(2) by simp
    then show ?thesis using Act.IH [OF _ _ run] Act.prems(3) False by auto
  qed
qed simp_all

lemma runListener_may:
  "runListener M event p s = (r, s') \<Longrightarrow> stopped s' \<Longrightarrow> stopped s \<or> mayStop p"
proof (induction p arbitrary: s)
  case (Act a k)
  obtain threw s1 where a: "performAction M a s = (threw, s1)" by fastforce
  have run: "runListener M event (k threw (viewEvent event s1)) s1 = (r, s')" using Act.prems(1) a by simp
  show ?case using Act.IH [OF _ _ run Act.prems(2)] performAction_stops(2) [OF a] by auto
qed simp_all

subsection \<open>One call\<close>

text \<open>The state watches what the options ask for, and knows the native event's call count.\<close>
definition watching :: "canary_options \<Rightarrow> canary_state \<Rightarrow> bool" where
  "watching options s \<longleftrightarrow> propFlag psEnablePropagationStop s = coPropagationStop options \<and>
     propFlag psEnableNativeStopImmediate s = coNativeStopImmediate options"

definition counted :: "nat option \<Rightarrow> canary_state \<Rightarrow> bool" where
  "counted ev s \<longleftrightarrow> (propFlag psEnableNativeStopImmediate s \<longrightarrow>
     nativeImmediateCount s = getNativeStopImmediatePropagationCallCount (csNatives s) ev)"

lemma callListener_stops:
  assumes run: "callListenerInContext M event l p s = (r, s')" and ok: "loopOk ev s" "watching options s" "counted ev s"
  shows "watching options s'" "counted ev s'"
    "coPropagationStop options \<Longrightarrow> \<forall>v. alwaysStops (p v) \<Longrightarrow> stopped s'"
    "stopped s' \<Longrightarrow> stopped s \<or> (\<exists>v. mayStop (p v))"
    "coNativeStopImmediate options \<Longrightarrow> alwaysStopsNative M p ev \<Longrightarrow> propFlag psNativeImmediatePropagationStopped s'"
proof -
  let ?s1 = "prepareDispatchQueueCanaryEventForListener l s"
  obtain r2 s2 where r2: "runListener M event (p (viewEvent event ?s1)) ?s1 = (r2, s2)" by fastforce
  have s': "csNatives s' = csNatives s2" "csPropagation s' = map_option (\<lambda>ps. ps\<lparr>psCurrentRecord := None, psCurrentTarget := None\<rparr>)
      (map_option (updateNativeStopImmediatePropagationDiagnosticState (csNatives s2) (nativeImmediateCount s)) (csPropagation s2))"
    using run r2 by (auto simp: callListenerInContext_def Let_def resetDispatchQueueCanaryEventAfterListener_def setCurrent_def)
  have s1: "csPropagation ?s1 = map_option (\<lambda>ps. ps\<lparr>psCurrentRecord := Some l, psCurrentTarget := Some (dlCurrentTarget l)\<rparr>) (csPropagation s)"
    "csNatives ?s1 = csNatives s"
    by (simp_all add: prepareDispatchQueueCanaryEventForListener_def setCurrent_def Let_def)
  have same: "propFlag psEnablePropagationStop ?s1 = propFlag psEnablePropagationStop s" "stopped ?s1 = stopped s"
    using s1 by (cases "csPropagation s"; simp add: propFlag_def)+
  have adv: "rel_option advances (csPropagation ?s1) (csPropagation s2)" using runListener_frame(3) [OF r2] .
  have after: "propFlag psEnablePropagationStop s' = propFlag psEnablePropagationStop s2" "stopped s' = stopped s2"
    using s'(2) by (cases "csPropagation s2"; simp add: propFlag_def updateNativeStopImmediatePropagationDiagnosticState_def Let_def)+
  have "propFlag psEnableNativeStopImmediate s' = propFlag psEnableNativeStopImmediate s"
    using callListener_frame(5) [OF run ok(1)] .
  then show "watching options s'" using ok(2) after(1) same(1) propagation_kept(2) [OF adv] by (simp add: watching_def)
  show "counted ev s'" using ok(1) adv s' s1
    by (cases "csPropagation s"; cases "csPropagation s2")
      (auto simp: counted_def propFlag_def nativeImmediateCount_def updateNativeStopImmediatePropagationDiagnosticState_def Let_def
        loopOk_def advances_def)
  show "stopped s'" if "coPropagationStop options" "\<forall>v. alwaysStops (p v)"
    using runListener_stops [OF r2] that ok(2) same(1) after(2) by (simp add: watching_def)
  show "stopped s \<or> (\<exists>v. mayStop (p v))" if "stopped s'" using runListener_may [OF r2] that same(2) after(2) by auto
  show "propFlag psNativeImmediatePropagationStopped s'" if c: "coNativeStopImmediate options" "alwaysStopsNative M p ev"
  proof -
    have "getNativeStopImmediatePropagationCallCount (csNatives s) ev < getNativeStopImmediatePropagationCallCount (csNatives s2) ev"
      using c(2) r2 s1(2) unfolding alwaysStopsNative_def by (metis snd_conv)
    then show ?thesis using ok adv s' s1 c(1)
      by (cases "csPropagation s"; cases "csPropagation s2")
        (auto simp: counted_def watching_def propFlag_def nativeImmediateCount_def updateNativeStopImmediatePropagationDiagnosticState_def
          Let_def loopOk_def advances_def)
  qed
qed

subsection \<open>All calls of an event\<close>

text \<open>A called listener that stops the event is recorded so.\<close>
definition stopShown :: "(nat \<Rightarrow> native_methods) \<Rightarrow> (dval \<Rightarrow> event_view \<Rightarrow> listener_prog) \<Rightarrow> canary_options \<Rightarrow> nat option \<Rightarrow>
  invocation_record \<Rightarrow> bool" where
  "stopShown M code options ev r \<longleftrightarrow>
     (\<forall>l. called r = Some l \<longrightarrow>
        (coPropagationStop options \<and> (\<forall>v. alwaysStops (code (dlListener l) v)) \<longrightarrow> irPropagationStoppedAfter r) \<and>
        (coNativeStopImmediate options \<and> alwaysStopsNative M (code (dlListener l)) ev \<longrightarrow> irNativeImmediateStoppedAfter r))"

text \<open>A called listener among the records could have called \<open>stopPropagation\<close>.\<close>
definition stoppable :: "(dval \<Rightarrow> event_view \<Rightarrow> listener_prog) \<Rightarrow> invocation_record list \<Rightarrow> bool" where
  "stoppable code rs \<longleftrightarrow> (\<exists>r\<in>set rs. \<exists>l v. called r = Some l \<and> mayStop (code (dlListener l) v))"

lemma stoppable_simps [simp]:
  "\<not> stoppable code []" "stoppable code (rs @ rs') \<longleftrightarrow> stoppable code rs \<or> stoppable code rs'"
  "stoppable code (r # rs) \<longleftrightarrow> (\<exists>l v. called r = Some l \<and> mayStop (code (dlListener l) v)) \<or> stoppable code rs"
  by (auto simp: stoppable_def)

text \<open>The records \<open>rs\<close> account for a skipped listener and for a stop, from \<open>b\<close> (stopped before) to \<open>b'\<close>.\<close>
definition accounted :: "(nat \<Rightarrow> native_methods) \<Rightarrow> (dval \<Rightarrow> event_view \<Rightarrow> listener_prog) \<Rightarrow> canary_options \<Rightarrow> nat option \<Rightarrow>
  bool \<Rightarrow> invocation_record list \<Rightarrow> bool \<Rightarrow> bool" where
  "accounted M code options ev b rs b' \<longleftrightarrow> (\<forall>r\<in>set rs. stopShown M code options ev r) \<and>
     (\<forall>k<length rs. irPropagationSkipped (rs ! k) \<longrightarrow> b \<or> stoppable code (take k rs)) \<and> (b' \<longrightarrow> b \<or> stoppable code rs)"

lemma accounted_nil [simp]: "accounted M code options ev b [] b' \<longleftrightarrow> (b' \<longrightarrow> b)"
  by (simp add: accounted_def)

lemma accounted_append:
  "accounted M code options ev b rs b1 \<Longrightarrow> accounted M code options ev b1 rs' b' \<Longrightarrow> accounted M code options ev b (rs @ rs') b'"
  unfolding accounted_def by (auto simp: nth_append not_less)

lemma skipped_kind [simp]:
  "irPropagationSkipped (createSkippedSingleListenerInvocationCanaryRecord l i u reason ps) \<longleftrightarrow> reason = ''propagation-stopped''"
  by (simp add: createSkippedSingleListenerInvocationCanaryRecord_def Let_def)

lemma accounted_skip:
  assumes "called r = None" "irPropagationSkipped r \<longrightarrow> b"
  shows "accounted M code options ev b [r] b"
  using assms by (simp add: accounted_def stopShown_def)

lemma invoke_accounted:
  assumes run: "invokeDispatchListenerRecordForCanary M code (Some event) i er sel l s = (rec, s')"
    and f: "typeOf (dlListener l) = ''function''" and ok: "loopOk ev s" "watching options s" "counted ev s"
  shows "loopOk ev s'" "watching options s'" "counted ev s'" "accounted M code options ev (stopped s) [rec] (stopped s')"
proof -
  note V = invoke_function [OF run f ok(1)]
  obtain r where r: "callListenerInContext M event l (code (dlListener l)) s = (r, s')" using V(13) by blast
  note C = callListener_stops [OF r ok]
  show "loopOk ev s'" "watching options s'" "counted ev s'" using V(1) C(1,2) by simp_all
  have "\<not> irPropagationSkipped rec" using run f by (auto simp: invokeDispatchListenerRecordForCanary_def Let_def split: sum.splits prod.splits)
  moreover have "called rec = Some l" using V(4,5) by (simp add: called_def)
  ultimately show "accounted M code options ev (stopped s) [rec] (stopped s')"
    using C(3-5) V(7,8) immediateSource_iff [OF V(1)] by (auto simp: accounted_def stopShown_def)
qed

lemma listenerLoop_accounted:
  assumes "\<forall>l\<in>set ls. typeOf (dlListener l) = ''function''" "loopOk ev s" "watching options s" "counted ev s"
    "listenerLoop M code options (Some event) ls i prev (totals, s) = (totals', s')"
  shows "\<exists>rs. ctInvocationRecords totals' = ctInvocationRecords totals @ rs \<and> loopOk ev s' \<and> watching options s' \<and>
    accounted M code options ev (stopped s) rs (stopped s')"
  using assms
proof (induction ls arbitrary: i prev totals s)
  case Nil
  then show ?case by simp
next
  case (Cons l ls)
  have f: "typeOf (dlListener l) = ''function''" "\<forall>l\<in>set ls. typeOf (dlListener l) = ''function''" using Cons.prems(1) by auto
  consider (im) "shouldSkipDispatchListenerForNativeStopImmediatePropagation l s"
    | (stop) "\<not> shouldSkipDispatchListenerForNativeStopImmediatePropagation l s" "shouldSkipDispatchListenerForPropagationStop l prev s"
    | (call) "\<not> shouldSkipDispatchListenerForNativeStopImmediatePropagation l s" "\<not> shouldSkipDispatchListenerForPropagationStop l prev s"
    by blast
  then show ?case
  proof cases
    case im
    then have "listenerLoop M code options (Some event) ls (i + 1) (Some (dlTargetInst l)) (skipForNativeStop options l i s totals, s) = (totals', s')"
      using Cons.prems(5) by simp
    from Cons.IH [OF f(2) Cons.prems(2-4) this] obtain rs where
      rs: "ctInvocationRecords totals' = ctInvocationRecords (skipForNativeStop options l i s totals) @ rs" "loopOk ev s'"
        "watching options s'" "accounted M code options ev (stopped s) rs (stopped s')" by blast
    then show ?thesis
      using accounted_append [OF accounted_skip [of "createSkippedSingleListenerInvocationCanaryRecord (Some l) i (coUseProcessingOrder options) ''native-stop-immediate-propagation'' (csPropagation s)"] rs(4)]
      by simp
  next
    case stop
    then show ?thesis using Cons.prems by (auto simp: skipStop_iff intro!: accounted_skip)
  next
    case call
    obtain r s1 where inv: "invokeDispatchListenerRecordForCanary M code (Some event) i (coListenerErrorRouting options) (coUseProcessingOrder options) l s = (r, s1)"
      by fastforce
    note V = invoke_accounted [OF inv f(1) Cons.prems(2-4)]
    have "listenerLoop M code options (Some event) ls (i + 1) (Some (dlTargetInst l)) (recordInvocation options l r s s1 totals, s1) = (totals', s')"
      using Cons.prems(5) call inv by simp
    from Cons.IH [OF f(2) V(1-3) this] obtain rs where
      rs: "ctInvocationRecords totals' = (ctInvocationRecords totals @ [r]) @ rs" "loopOk ev s'" "watching options s'"
        "accounted M code options ev (stopped s1) rs (stopped s')" by auto
    show ?thesis using accounted_append [OF V(4) rs(4)] rs(1-3) by auto
  qed
qed

lemma context_watching:
  assumes "createDispatchQueueCanaryEventContext d (l # ls) s = (event, s1)" "watching options s"
  shows "watching options s1" "counted (dlNativeEvent l) s1"
  using assms
  by (cases "csPropagation s"; auto simp: createDispatchQueueCanaryEventContext_def Let_def watching_def counted_def propFlag_def
      nativeImmediateCount_def)+

lemma setCurrent_watching [simp]: "watching options (setCurrent l s) = watching options s"
  by (cases "csPropagation s") (simp_all add: watching_def propFlag_def setCurrent_def Let_def)

lemma processEntry_accounted:
  assumes "\<forall>l\<in>set (entryRecords options entry). typeOf (dlListener l) = ''function'' \<and> dlNativeEvent l = ev"
    "stateOk ev s" "watching options s" "processEntry M code options d entry (totals, s) = (totals', s')"
  shows "\<exists>rs. ctInvocationRecords totals' = ctInvocationRecords totals @ rs \<and> stateOk ev s' \<and> watching options s' \<and>
    accounted M code options ev (stopped s) rs (stopped s')"
proof (cases "entryRecords options entry")
  case Nil
  then show ?thesis using assms(2-4)
    by (auto simp: processEntry_def Let_def createDispatchQueueCanaryEventContext_def finishDispatchQueueCanaryEventContext_def)
next
  case (Cons l ls)
  have ev: "dlNativeEvent l = ev" and f: "\<forall>l\<in>set (l # ls). typeOf (dlListener l) = ''function''" using assms(1) Cons by auto
  obtain event s1 where c: "createDispatchQueueCanaryEventContext d (l # ls) s = (event, s1)" by fastforce
  note C = context_start [OF c, unfolded ev, OF assms(2)] and W = context_watching [OF c assms(3), unfolded ev]
  obtain e where e: "event = Some e" using C(1) by blast
  let ?t = "totals\<lparr>ctDispatchQueueEntryCount := ctDispatchQueueEntryCount totals + 1,
                    ctListenerCandidateCount := ctListenerCandidateCount totals + length (l # ls)\<rparr>"
  obtain s2 where L: "listenerLoop M code options (Some e) (l # ls) 0 None (?t, s1) = (totals', s2)" "s' = setCurrent None s2"
    using assms(4) c Cons e
    by (auto simp: processEntry_def Let_def finishDispatchQueueCanaryEventContext_def resetDispatchQueueCanaryEventAfterListener_def
        simp del: listenerLoop.simps split: prod.splits if_splits)
  show ?thesis using listenerLoop_accounted [OF f C(2) W L(1)] C(3) L(2) loopOk_stateOk by auto
qed

lemma entries_accounted:
  assumes "\<forall>(d, e)\<in>set es. \<forall>l\<in>set (entryRecords options e). typeOf (dlListener l) = ''function'' \<and> dlNativeEvent l = ev"
    "stateOk ev s" "watching options s" "fold (\<lambda>(d, e). processEntry M code options d e) es (totals, s) = (totals', s')"
  shows "\<exists>rs. ctInvocationRecords totals' = ctInvocationRecords totals @ rs \<and> accounted M code options ev (stopped s) rs (stopped s')"
  using assms
proof (induction es arbitrary: totals s)
  case Nil
  then show ?case by simp
next
  case (Cons de es)
  obtain d e where de: "de = (d, e)" by fastforce
  obtain t1 s1 where P: "processEntry M code options d e (totals, s) = (t1, s1)" by fastforce
  have f: "\<forall>l\<in>set (entryRecords options e). typeOf (dlListener l) = ''function'' \<and> dlNativeEvent l = ev" using Cons.prems(1) de by auto
  obtain rs where rs: "ctInvocationRecords t1 = ctInvocationRecords totals @ rs" "stateOk ev s1" "watching options s1"
    "accounted M code options ev (stopped s) rs (stopped s1)"
    using processEntry_accounted [OF f Cons.prems(2,3) P] by blast
  have "fold (\<lambda>(d, e). processEntry M code options d e) es (t1, s1) = (totals', s')" using Cons.prems(4) de P by simp
  from Cons.IH [OF _ rs(2,3) this] Cons.prems(1) obtain rs' where "ctInvocationRecords totals' = ctInvocationRecords t1 @ rs'"
    "accounted M code options ev (stopped s1) rs' (stopped s')" by auto
  then show ?case using rs(1) accounted_append [OF rs(4)] by auto
qed

subsection \<open>The first call\<close>

lemma listenerLoop_first:
  assumes "\<forall>l\<in>set (l # ls). typeOf (dlListener l) = ''function''" "loopOk ev s" "watching options s" "counted ev s"
    "\<not> stopped s" "immediateSource s = None"
    "listenerLoop M code options (Some event) (l # ls) i prev (totals, s) = (totals', s')"
  shows "\<exists>r rs. ctInvocationRecords totals' = ctInvocationRecords totals @ r # rs \<and> called r = Some l"
proof -
  have go: "\<not> shouldSkipDispatchListenerForNativeStopImmediatePropagation l s" "\<not> shouldSkipDispatchListenerForPropagationStop l prev s"
    using assms(2,5,6) by (simp_all add: skipImmediate_iff skipStop_iff)
  obtain r s1 where inv: "invokeDispatchListenerRecordForCanary M code (Some event) i (coListenerErrorRouting options) (coUseProcessingOrder options) l s = (r, s1)"
    by fastforce
  have f: "typeOf (dlListener l) = ''function''" "\<forall>l\<in>set ls. typeOf (dlListener l) = ''function''" using assms(1) by auto
  note V = invoke_accounted [OF inv f(1) assms(2-4)]
  have "called r = Some l" using invoke_function(4,5) [OF inv f(1) assms(2)] by (simp add: called_def)
  moreover have "listenerLoop M code options (Some event) ls (i + 1) (Some (dlTargetInst l)) (recordInvocation options l r s s1 totals, s1) = (totals', s')"
    using assms(7) go inv by simp
  from listenerLoop_accounted [OF f(2) V(1-3) this] obtain rs where "ctInvocationRecords totals' = (ctInvocationRecords totals @ [r]) @ rs" by auto
  ultimately show ?thesis by auto
qed

lemma processEntry_empty:
  "entryRecords options entry = [] \<Longrightarrow> processEntry M code options d entry (totals, s) = (totals', s') \<Longrightarrow>
   s' = s \<and> ctInvocationRecords totals' = ctInvocationRecords totals"
  by (auto simp: processEntry_def Let_def createDispatchQueueCanaryEventContext_def finishDispatchQueueCanaryEventContext_def)

lemma processEntry_first:
  assumes "\<forall>l\<in>set (entryRecords options entry). typeOf (dlListener l) = ''function'' \<and> dlNativeEvent l = ev"
    "stateOk ev s" "watching options s" "\<not> stopped s" "immediateSource s = None" "entryRecords options entry = l # ls"
    "processEntry M code options d entry (totals, s) = (totals', s')"
  shows "\<exists>r rs. ctInvocationRecords totals' = ctInvocationRecords totals @ r # rs \<and> called r = Some l"
proof -
  have ev: "dlNativeEvent l = ev" and f: "\<forall>l\<in>set (l # ls). typeOf (dlListener l) = ''function''" using assms(1,6) by auto
  obtain event s1 where c: "createDispatchQueueCanaryEventContext d (l # ls) s = (event, s1)" by fastforce
  note C = context_start [OF c, unfolded ev, OF assms(2)] and W = context_watching [OF c assms(3), unfolded ev]
  obtain e where e: "event = Some e" using C(1) by blast
  let ?t = "totals\<lparr>ctDispatchQueueEntryCount := ctDispatchQueueEntryCount totals + 1,
                    ctListenerCandidateCount := ctListenerCandidateCount totals + length (l # ls)\<rparr>"
  obtain s2 where L: "listenerLoop M code options (Some e) (l # ls) 0 None (?t, s1) = (totals', s2)"
    using assms(6,7) c e by (auto simp: processEntry_def Let_def simp del: listenerLoop.simps split: prod.splits if_splits)
  have "\<not> stopped s1" "immediateSource s1 = None" using C(3,4) assms(4,5) by simp_all
  from listenerLoop_first [OF f C(2) W this L] show ?thesis by simp
qed

lemma entries_first:
  assumes "\<forall>(d, e)\<in>set es. \<forall>l\<in>set (entryRecords options e). typeOf (dlListener l) = ''function'' \<and> dlNativeEvent l = ev"
    "stateOk ev s" "watching options s" "\<not> stopped s" "immediateSource s = None"
    "concat (map (\<lambda>(d, e). entryRecords options e) es) = l # ls"
    "fold (\<lambda>(d, e). processEntry M code options d e) es (totals, s) = (totals', s')"
  shows "\<exists>r rs. ctInvocationRecords totals' = ctInvocationRecords totals @ r # rs \<and> called r = Some l"
  using assms
proof (induction es arbitrary: totals s)
  case Nil
  then show ?case by simp
next
  case (Cons de es)
  obtain d e where de: "de = (d, e)" by fastforce
  obtain t1 s1 where P: "processEntry M code options d e (totals, s) = (t1, s1)" by fastforce
  have rest: "fold (\<lambda>(d, e). processEntry M code options d e) es (t1, s1) = (totals', s')" using Cons.prems(7) de P by simp
  have f: "\<forall>l\<in>set (entryRecords options e). typeOf (dlListener l) = ''function'' \<and> dlNativeEvent l = ev"
    and fs: "\<forall>(d, e)\<in>set es. \<forall>l\<in>set (entryRecords options e). typeOf (dlListener l) = ''function'' \<and> dlNativeEvent l = ev"
    using Cons.prems(1) de by auto
  show ?case
  proof (cases "entryRecords options e")
    case Nil
    then have "s1 = s" "ctInvocationRecords t1 = ctInvocationRecords totals" using processEntry_empty [OF Nil P] by simp_all
    then show ?thesis using Cons.IH [OF fs Cons.prems(2-5) _ rest [unfolded \<open>s1 = s\<close>]] Cons.prems(6) de Nil by simp
  next
    case (Cons m ms)
    then have m: "m = l" using Cons.prems(6) de by simp
    from processEntry_first [OF f Cons.prems(2-5) Cons P] obtain r rs where
      r: "ctInvocationRecords t1 = ctInvocationRecords totals @ r # rs" "called r = Some l" unfolding m by blast
    obtain rs0 where "stateOk ev s1" "watching options s1" using processEntry_accounted [OF f Cons.prems(2,3) P] by blast
    from entries_accounted [OF fs this rest] r show ?thesis by auto
  qed
qed

end
