(* ===== verification/Event_Flow.thy ===== *)
theory Event_Flow
  imports Stop_Props
begin

text \<open>
  From a native event to the calls of its listeners: the extraction of dispatch records over the component
  tree and the listener registry, followed by the invocation of their queues.
\<close>

subsection \<open>The records of one native event\<close>

text \<open>
  The dispatch records that the wrappers \<open>wrs\<close> of one native event give, one after the other, with the
  numbers of the listener records going on.
\<close>
fun dispatchRecordsFor :: "dispatch_world \<Rightarrow> nat \<Rightarrow> wrapper_record list \<Rightarrow> nat option \<Rightarrow> (dom_error + dispatch_record list) option" where
  "dispatchRecordsFor W i [] ev = Some (Inr [])"
| "dispatchRecordsFor W i (wr # wrs) ev =
     Option.bind (createEventDispatchRecordFromWrapperRecord W i (Some wr) ev)
       (\<lambda>r. case r of
              Inl e \<Rightarrow> Some (Inl e)
            | Inr d \<Rightarrow> map_option (\<lambda>r. case r of Inl e \<Rightarrow> Inl e | Inr ds \<Rightarrow> Inr (d # ds))
                (dispatchRecordsFor W (i + length (processingRecords d)) wrs ev))"

text \<open>What the components promise about the world an event is dispatched in; \<open>n\<close> is the target node of the event.\<close>
definition eventWorld :: "dispatch_world \<Rightarrow> wrapper_record list \<Rightarrow> nat option \<Rightarrow> nat \<Rightarrow> bool" where
  "eventWorld W wrs ev n \<longleftrightarrow>
     ct_reachable (dwState W) \<and> registry_reachable (dwRegistry W) \<and> acyclic_parents (dwTree W) \<and>
     (\<forall>wr\<in>set wrs. (\<forall>m. mounted (dwState W) m \<longrightarrow> listenerPropsOk W wr m) \<and>
        valueNode (getEventTarget (dwObjects W) (nativeFields W ev) (EvObj (wrTargetContainer wr))) = Some n)"

text \<open>The listeners of an event on a path of nodes, in the order of their phase.\<close>
definition listenersInOrder :: "dispatch_world \<Rightarrow> nat list \<Rightarrow> wrapper_record \<Rightarrow> (nat \<times> dval) list" where
  "listenersInOrder W path wr =
     (if isCapturePhase (wrEventSystemFlags wr) then rev else id) (concat (map (\<lambda>m. map (Pair m) (listenersAt W wr m)) path))"

lemma registered_functions:
  "registry_reachable s \<Longrightarrow> lrPayloads s r = Some p \<Longrightarrow> typeOf (qpListener p) = ''function''"
proof (induction arbitrary: r p rule: registry_reachable.induct)
  case (registry_register s target name capture listener ty)
  then show ?case
    by (auto simp: registerPrivateEventListenerQueueEntry_def Let_def split: ev_value.splits dval.splits if_splits)
next
  case (registry_remove s r)
  then show ?case
    by (auto simp: removePrivateEventListenerQueueEntry_def getPrivateEventListenerQueueEntryPayload_def
        split: option.splits if_splits)
next
  case (registry_set s target)
  then show ?case by (auto simp: getEventListenerSet_def assertEventTarget_def split: ev_value.splits option.splits if_splits sum.splits)
next
  case (registry_mark s target)
  then show ?case by (auto simp: markTargetAsListening_def assertEventTarget_def split: ev_value.splits option.splits if_splits sum.splits)
qed simp

lemma climb_functional: "climb w n up \<Longrightarrow> climb w n up' \<Longrightarrow> up = up'"
proof (induction arbitrary: up' rule: climb.induct)
  case (climb_last n)
  from climb_last.prems climb_last.hyps show ?case by cases auto
next
  case (climb_up n p ns)
  note up = climb_up.hyps climb_up.IH
  from climb_up.prems show ?case
  proof cases
    case climb_last
    then show ?thesis using up(1,2) by simp
  next
    case (climb_up q ms)
    then show ?thesis using up(2,4) by simp
  qed
qed

lemma ascend_functional: "ascend w q ns b \<Longrightarrow> ascend w q ns' b' \<Longrightarrow> ns = ns'"
proof (induction arbitrary: ns' rule: ascend.induct)
  case ascend_top
  from ascend_top.prems show ?case by cases auto
next
  case (ascend_root p)
  from ascend_root.prems ascend_root.hyps show ?case by cases auto
next
  case (ascend_up p ns b)
  note up = ascend_up.hyps ascend_up.IH
  from ascend_up.prems show ?case
  proof cases
    case ascend_root
    then show ?thesis using up(1) by simp
  next
    case (ascend_up ms)
    then show ?thesis using up(3) by simp
  qed
qed

lemma eventPathE:
  assumes "eventPath W n path"
  obtains (empty) up where "climb (dwTree W) n up" "find (mounted (dwState W)) up = None" "path = []"
  | (path) up c ns b where "climb (dwTree W) n up" "find (mounted (dwState W)) up = Some c"
      "ascend (dwTree W) (cwParent (dwTree W) c) ns b" "path = c # filter (mounted (dwState W)) ns"
proof -
  obtain up where up: "climb (dwTree W) n up" "case find (mounted (dwState W)) up of
           None \<Rightarrow> path = []
         | Some c \<Rightarrow> \<exists>ns b. ascend (dwTree W) (cwParent (dwTree W) c) ns b \<and> path = c # filter (mounted (dwState W)) ns"
    using assms unfolding eventPath_def by blast
  show thesis
  proof (cases "find (mounted (dwState W)) up")
    case None
    then show thesis using up by (intro empty) simp_all
  next
    case (Some c)
    then show thesis using up path by auto
  qed
qed

lemma eventPath_functional:
  assumes "eventPath W n path" "eventPath W n path'"
  shows "path = path'"
  using assms(1)
proof (cases rule: eventPathE)
  case up: (empty up)
  show ?thesis using assms(2) by (cases rule: eventPathE) (use up climb_functional in fastforce)+
next
  case up: (path up c ns b)
  show ?thesis using assms(2)
  proof (cases rule: eventPathE)
    case (empty up')
    then show ?thesis using up climb_functional [OF up(1)] by fastforce
  next
    case (path up' c' ns' b')
    then have "c' = c" using up(1,2) climb_functional [OF up(1)] by fastforce
    then show ?thesis using up(3,4) path(3,4) ascend_functional by metis
  qed
qed

lemma eventPath_exists:
  assumes "acyclic_parents (dwTree W)"
  shows "\<exists>path. eventPath W n path"
proof -
  obtain up where up: "climb (dwTree W) n up" using climb_exists [OF assms] by blast
  show ?thesis
  proof (cases "find (mounted (dwState W)) up")
    case None
    then show ?thesis unfolding eventPath_def using up by (intro exI [of _ "[]"] exI [of _ up]) simp
  next
    case (Some c)
    obtain ns b where "ascend (dwTree W) (cwParent (dwTree W) c) ns b" using ascend_exists [OF assms] by blast
    then show ?thesis unfolding eventPath_def using up Some
      by (intro exI [of _ "c # filter (mounted (dwState W)) ns"] exI [of _ up]) auto
  qed
qed

lemma eventPath_mounted:
  assumes "eventPath W n path" "m \<in> set path"
  shows "mounted (dwState W) m"
  using assms(1)
proof (cases rule: eventPathE)
  case (path up c ns b)
  have "mounted (dwState W) c" using path(2) by (auto simp: find_Some_iff)
  then show ?thesis using assms(2) path(4) by auto
qed (use assms(2) in simp)

lemma listenersAt_functions:
  assumes "registry_reachable (dwRegistry W)" "listenerPropsOk W wr m" "v \<in> set (listenersAt W wr m)"
  shows "typeOf v = ''function''"
proof -
  have "typeOf (queueListener W q) = ''function''" if "isActiveEntry (dwRegistry W) d c q" for d c q
    using that registered_functions [OF assms(1)] by (auto simp: queueListener_def isActiveEntry_def split: option.splits)
  moreover have "propListener W wr m = []" if "getLatestPropsFromNode (dwState W) (Some m) = DNull"
    using that by (simp add: propListener_def split: option.splits)
  ultimately show ?thesis using assms(2,3)
    by (auto simp: listenersAt_def absQueues_def listenerPropsOk_def Let_def)
qed

text \<open>The listener records of an event, fit to be called.\<close>
definition callable :: "nat option \<Rightarrow> dispatch_record \<Rightarrow> bool" where
  "callable ev d \<longleftrightarrow> (\<exists>ph. \<forall>l\<in>set (processingRecords d). typeOf (dlListener l) = ''function'' \<and> dlNativeEvent l = ev \<and>
     dlInCapturePhase l = ph)"

text \<open>The instance of a listener record is the one mounted at its node.\<close>
definition ownInstance :: "dispatch_world \<Rightarrow> dispatch_listener \<Rightarrow> bool" where
  "ownInstance W l \<longleftrightarrow> getHostInstanceTokenFromNode (dwState W) (Some (dlCurrentTarget l)) = Some (dlTargetInst l)"

definition nodeAndListener :: "dispatch_listener \<Rightarrow> nat \<times> dval" where
  "nodeAndListener l = (dlCurrentTarget l, dlListener l)"

lemma listenersInOrder_functions:
  assumes "registry_reachable (dwRegistry W)" "\<And>m. mounted (dwState W) m \<Longrightarrow> listenerPropsOk W wr m" "eventPath W n path"
    and "(m, v) \<in> set (listenersInOrder W path wr)"
  shows "typeOf v = ''function''"
proof -
  have "m \<in> set path" "v \<in> set (listenersAt W wr m)" using assms(4) by (auto simp: listenersInOrder_def split: if_splits)
  then show ?thesis using listenersAt_functions [OF assms(1)] eventPath_mounted [OF assms(3)] assms(2) by blast
qed

lemma dispatchRecordsFor_result:
  assumes "eventWorld W wrs ev n"
  shows "\<exists>path ds. eventPath W n path \<and> dispatchRecordsFor W i wrs ev = Some (Inr ds) \<and>
    map (\<lambda>d. map nodeAndListener (processingRecords d)) ds = map (listenersInOrder W path) wrs \<and>
    distinct (map dlId (concat (map processingRecords ds))) \<and>
    (\<forall>l\<in>set (concat (map processingRecords ds)). i \<le> dlId l \<and> ownInstance W l) \<and> (\<forall>d\<in>set ds. callable ev d)"
  using assms
proof (induction wrs arbitrary: i)
  case Nil
  then have "\<exists>path. eventPath W n path" using eventPath_exists by (simp add: eventWorld_def)
  then show ?case by auto
next
  case (Cons wr wrs)
  have W: "ct_reachable (dwState W)" "registry_reachable (dwRegistry W)" "acyclic_parents (dwTree W)"
    and props: "\<And>m. mounted (dwState W) m \<Longrightarrow> listenerPropsOk W wr m"
    and n: "valueNode (getEventTarget (dwObjects W) (nativeFields W ev) (EvObj (wrTargetContainer wr))) = Some n"
    and rest: "eventWorld W wrs ev n"
    using Cons.prems by (auto simp: eventWorld_def)
  obtain d path where d: "createEventDispatchRecordFromWrapperRecord W i (Some wr) ev = Some (Inr d)" "eventPath W n path"
    "map nodeAndListener (processingRecords d) = listenersInOrder W path wr" "distinct (map dlId (processingRecords d))"
    "dlId ` set (processingRecords d) = {i..<i + length (processingRecords d)}" "\<forall>r\<in>set (processingRecords d). recordFor W wr ev r"
    using dispatch_record_listeners [OF W(1,3) props n, of i] by (auto simp: nodeAndListener_def [abs_def] listenersInOrder_def)
  have c: "callable ev d"
    unfolding callable_def
  proof (intro exI [of _ "isCapturePhase (wrEventSystemFlags wr)"] ballI)
    fix l assume l: "l \<in> set (processingRecords d)"
    then have "nodeAndListener l \<in> set (listenersInOrder W path wr)" unfolding d(3) [symmetric] by simp
    then have "typeOf (dlListener l) = ''function''"
      using listenersInOrder_functions [OF W(2) props d(2)] by (simp add: nodeAndListener_def)
    then show "typeOf (dlListener l) = ''function'' \<and> dlNativeEvent l = ev \<and> dlInCapturePhase l = isCapturePhase (wrEventSystemFlags wr)"
      using d(6) l by (simp add: recordFor_def)
  qed
  let ?j = "i + length (processingRecords d)"
  obtain path' ds where IH: "eventPath W n path'" "dispatchRecordsFor W ?j wrs ev = Some (Inr ds)"
    "map (\<lambda>d. map nodeAndListener (processingRecords d)) ds = map (listenersInOrder W path') wrs"
    "distinct (map dlId (concat (map processingRecords ds)))" "\<forall>l\<in>set (concat (map processingRecords ds)). ?j \<le> dlId l \<and> ownInstance W l"
    "\<forall>d\<in>set ds. callable ev d"
    using Cons.IH [OF rest, of ?j] by auto
  have same: "path' = path" using eventPath_functional [OF IH(1) d(2)] .
  have below: "\<forall>l\<in>set (processingRecords d). i \<le> dlId l \<and> dlId l < ?j" using d(5) by auto
  have disj: "dlId ` set (processingRecords d) \<inter> dlId ` set (concat (map processingRecords ds)) = {}" using below IH(5) by fastforce
  have ids: "distinct (map dlId (concat (map processingRecords (d # ds))))" using d(4) IH(4) disj by simp
  have "\<forall>l\<in>set (processingRecords d). ownInstance W l" using d(6) by (simp add: recordFor_def ownInstance_def)
  then have low: "\<forall>l\<in>set (concat (map processingRecords (d # ds))). i \<le> dlId l \<and> ownInstance W l" using below IH(5) by fastforce
  show ?case using d(1-3) IH(2,3,6) c same ids low by (intro exI [of _ path] exI [of _ "d # ds"]) auto
qed

subsection \<open>Undisturbed dispatch\<close>

text \<open>What the invocation record of a listener says of the event's \<open>currentTarget\<close>.\<close>
definition currentTargetShown :: "invocation_record \<Rightarrow> bool" where
  "currentTargetShown r \<longleftrightarrow> irCurrentTargetBefore r = None \<and> irCurrentTargetDuring r = map_option dlCurrentTarget (irListener r) \<and>
     irCurrentTargetAfter r = None"

definition allCalled :: "dispatch_listener list \<Rightarrow> invocation_record list \<Rightarrow> canary_totals \<Rightarrow> canary_totals \<Rightarrow> bool" where
  "allCalled ls rs totals totals' \<longleftrightarrow> ctInvocationRecords totals' = ctInvocationRecords totals @ rs \<and> map called rs = map Some ls \<and>
     (\<forall>r\<in>set rs. currentTargetShown r) \<and> ctListenerInvocationCount totals' = ctListenerInvocationCount totals + length ls \<and>
     ctListenerCandidateCount totals' \<ge> ctListenerCandidateCount totals \<and>
     ctListenerErrorCount totals' = ctListenerErrorCount totals + length (filter irListenerErrorCaptured rs)"

lemma allCalled_append:
  "allCalled ls rs t t1 \<Longrightarrow> allCalled ls' rs' t1 t2 \<Longrightarrow> allCalled (ls @ ls') (rs @ rs') t t2"
  by (auto simp: allCalled_def)

lemma recordInvocation_totals [simp]:
  "ctListenerInvocationCount (recordInvocation options l r s s' t) = ctListenerInvocationCount t + irListenerInvocationCount r"
  "ctListenerCandidateCount (recordInvocation options l r s s' t) = ctListenerCandidateCount t"
  "ctListenerErrorCount (recordInvocation options l r s s' t) = ctListenerErrorCount t + (if irListenerErrorCaptured r then 1 else 0)"
  by (simp_all add: recordInvocation_def)

lemma listenerLoop_all:
  assumes "\<forall>l\<in>set ls. typeOf (dlListener l) = ''function''" "csPropagation s = None" "csCurrentTarget s = None"
    "listenerLoop M code options (Some event) ls i prev (totals, s) = (totals', s')"
  shows "\<exists>rs. allCalled ls rs totals totals' \<and> csPropagation s' = None \<and> csCurrentTarget s' = None"
  using assms
proof (induction ls arbitrary: i prev totals s)
  case Nil
  then show ?case by (simp add: allCalled_def)
next
  case (Cons l ls)
  have ok: "loopOk None s" using Cons.prems by (simp add: loopOk_def)
  have skip: "\<not> shouldSkipDispatchListenerForNativeStopImmediatePropagation l s" "\<not> shouldSkipDispatchListenerForPropagationStop l prev s"
    using Cons.prems by (simp_all add: shouldSkipDispatchListenerForNativeStopImmediatePropagation_def
        shouldSkipDispatchListenerForPropagationStop_def)
  obtain r s1 where inv: "invokeDispatchListenerRecordForCanary M code (Some event) i (coListenerErrorRouting options) (coUseProcessingOrder options) l s = (r, s1)"
    by fastforce
  have f: "typeOf (dlListener l) = ''function''" using Cons.prems(1) by simp
  note V = invoke_function [OF inv f ok]
  have s1: "csPropagation s1 = None" "csCurrentTarget s1 = None"
    using V(1,13) callListener_frame(4) [OF _ ok] Cons.prems(2) by (auto simp: loopOk_def)
  have "listenerLoop M code options (Some event) ls (i + 1) (Some (dlTargetInst l)) (recordInvocation options l r s s1 totals, s1) = (totals', s')"
    using Cons.prems(4) skip inv by simp
  from Cons.IH [OF _ s1 this] Cons.prems(1) obtain rs where rs: "allCalled ls rs (recordInvocation options l r s s1 totals) totals'"
    "csPropagation s' = None \<and> csCurrentTarget s' = None" by auto
  have "allCalled [l] [r] totals (recordInvocation options l r s s1 totals)"
    using V(4-6,9-11) by (simp add: allCalled_def called_def currentTargetShown_def)
  from allCalled_append [OF this rs(1)] rs(2) show ?case by auto
qed

lemma processEntry_all:
  assumes "\<forall>l\<in>set (entryRecords options entry). typeOf (dlListener l) = ''function''" "csPropagation s = None" "csCurrentTarget s = None"
    "processEntry M code options d entry (totals, s) = (totals', s')"
  shows "\<exists>rs. allCalled (entryRecords options entry) rs totals totals' \<and> csPropagation s' = None \<and> csCurrentTarget s' = None"
proof (cases "entryRecords options entry")
  case Nil
  then show ?thesis using assms(2-4)
    by (auto simp: processEntry_def Let_def createDispatchQueueCanaryEventContext_def finishDispatchQueueCanaryEventContext_def allCalled_def)
next
  case (Cons l ls)
  obtain event s1 where c: "createDispatchQueueCanaryEventContext d (l # ls) s = (event, s1)" by fastforce
  then obtain e where e: "event = Some e" "csPropagation s1 = None" "csCurrentTarget s1 = None"
    using assms(2) by (auto simp: createDispatchQueueCanaryEventContext_def Let_def)
  let ?t = "totals\<lparr>ctDispatchQueueEntryCount := ctDispatchQueueEntryCount totals + 1,
                    ctListenerCandidateCount := ctListenerCandidateCount totals + length (l # ls)\<rparr>"
  obtain s2 where L: "listenerLoop M code options (Some e) (l # ls) 0 None (?t, s1) = (totals', s2)" "s' = setCurrent None s2"
    using assms(4) c Cons e(1)
    by (auto simp: processEntry_def Let_def finishDispatchQueueCanaryEventContext_def resetDispatchQueueCanaryEventAfterListener_def
        simp del: listenerLoop.simps split: prod.splits if_splits)
  have "\<exists>rs. allCalled (l # ls) rs ?t totals' \<and> csPropagation s2 = None \<and> csCurrentTarget s2 = None"
    by (rule listenerLoop_all [OF _ e(2,3) L(1)]) (use assms(1) Cons in auto)
  then show ?thesis using L(2) Cons by (auto simp: setCurrent_def Let_def allCalled_def)
qed

lemma entries_all:
  assumes "\<forall>(d, e)\<in>set es. \<forall>l\<in>set (entryRecords options e). typeOf (dlListener l) = ''function''"
    "csPropagation s = None" "csCurrentTarget s = None"
    "fold (\<lambda>(d, e). processEntry M code options d e) es (totals, s) = (totals', s')"
  shows "\<exists>rs. allCalled (concat (map (\<lambda>(d, e). entryRecords options e) es)) rs totals totals'"
  using assms
proof (induction es arbitrary: totals s)
  case Nil
  then show ?case by (simp add: allCalled_def)
next
  case (Cons de es)
  obtain d e where de: "de = (d, e)" by fastforce
  obtain t1 s1 where P: "processEntry M code options d e (totals, s) = (t1, s1)" by fastforce
  have f: "\<forall>l\<in>set (entryRecords options e). typeOf (dlListener l) = ''function''" using Cons.prems(1) de by auto
  obtain rs where rs: "allCalled (entryRecords options e) rs totals t1" "csPropagation s1 = None" "csCurrentTarget s1 = None"
    using processEntry_all [OF f Cons.prems(2,3) P] by blast
  have "fold (\<lambda>(d, e). processEntry M code options d e) es (t1, s1) = (totals', s')" using Cons.prems(4) de P by simp
  from Cons.IH [OF _ rs(2,3) this] Cons.prems(1) obtain rs' where
    "allCalled (concat (map (\<lambda>(d, e). entryRecords options e) es)) rs' t1 totals'" by auto
  from allCalled_append [OF rs(1) this] de show ?case by auto
qed

lemma recordEntries_processing:
  "coUseProcessingOrder options \<Longrightarrow>
   concat (map (\<lambda>(d, e). entryRecords options e) (recordEntries ds)) = concat (map processingRecords ds)"
  by (induction ds) (simp_all add: recordEntries_def processingRecords_def comp_def)

lemma normalize_records [simp]: "normalizeDispatchRecordList (map Some ds) = Inr ds"
  by (induction ds) (simp_all add: assertEventDispatchRecord_def)

text \<open>The options with the defaults applied: propagation is not watched, the listeners are taken in processing order.\<close>
definition unwatched :: "canary_option_values option \<Rightarrow> bool" where
  "unwatched options \<longleftrightarrow>
     (let opts = normalizeDispatchQueueCanaryOptions options in
      \<not> coPropagationStop opts \<and> \<not> coNativeStopImmediate opts \<and> coUseProcessingOrder opts)"

lemma invoke_all:
  assumes "\<forall>d\<in>set ds. callable ev d" "unwatched options"
  shows "\<exists>qc N' rs. invokeDispatchQueueCanaryFromDispatchRecords M code (map Some ds) options N = Inr (qc, N') \<and>
    qcInvocationRecords qc = rs \<and> allCalled (concat (map processingRecords ds)) rs noTotals (qcTotals qc)"
proof -
  define opts where "opts = normalizeDispatchQueueCanaryOptions options"
  have o: "\<not> coPropagationStop opts" "\<not> coNativeStopImmediate opts" "coUseProcessingOrder opts"
    using assms(2) by (simp_all add: unwatched_def opts_def Let_def)
  obtain totals s where run: "fold (processRecord M code opts) ds (noTotals, initialCanaryState opts N) = (totals, s)" by fastforce
  have f: "\<forall>(d, e)\<in>set (recordEntries ds). \<forall>l\<in>set (entryRecords opts e). typeOf (dlListener l) = ''function''"
    using assms(1) o(3) by (fastforce simp: recordEntries_def callable_def processingRecords_def)
  have init: "csPropagation (initialCanaryState opts N) = None" "csCurrentTarget (initialCanaryState opts N) = None"
    using o by (simp_all add: initialCanaryState_def createDispatchQueuePropagationDiagnosticState_def)
  obtain rs where "allCalled (concat (map processingRecords ds)) rs noTotals totals"
    using entries_all [OF f init run [unfolded processRecords_entries]] recordEntries_processing [OF o(3)] by auto
  then show ?thesis using run
    by (auto simp: invokeDispatchQueueCanaryFromDispatchRecords_def opts_def Let_def createQueueCanaryRecord_def allCalled_def noTotals_def)
qed

lemma invoke_stops:
  assumes "\<forall>d\<in>set ds. callable ev d" "distinct (map dlId (concat (map processingRecords ds)))"
    and o: "coUseProcessingOrder (normalizeDispatchQueueCanaryOptions options)"
  shows "\<exists>qc N'. invokeDispatchQueueCanaryFromDispatchRecords M code (map Some ds) options N = Inr (qc, N') \<and>
    sorted_wrt respectsStop (qcInvocationRecords qc) \<and>
    (\<exists>b. accounted M code (normalizeDispatchQueueCanaryOptions options) ev False (qcInvocationRecords qc) b) \<and>
    (\<forall>r\<in>set (qcInvocationRecords qc). \<forall>l. called r = Some l \<longrightarrow> l \<in> set (concat (map processingRecords ds))) \<and>
    (\<forall>l ls. concat (map processingRecords ds) = l # ls \<longrightarrow>
       qcInvocationRecords qc \<noteq> [] \<and> called (hd (qcInvocationRecords qc)) = Some l)"
proof -
  define opts where "opts = normalizeDispatchQueueCanaryOptions options"
  obtain totals s where run: "fold (processRecord M code opts) ds (noTotals, initialCanaryState opts N) = (totals, s)" by fastforce
  have f: "\<forall>(d, e)\<in>set (recordEntries ds). \<exists>ph. \<forall>l\<in>set (entryRecords opts e).
      typeOf (dlListener l) = ''function'' \<and> dlNativeEvent l = ev \<and> dlInCapturePhase l = ph"
    using assms(1) o by (fastforce simp: recordEntries_def callable_def processingRecords_def opts_def)
  have init: "stateOk ev (initialCanaryState opts N)" "immediateSource (initialCanaryState opts N) = None"
    by (simp_all add: initialCanaryState_def createDispatchQueuePropagationDiagnosticState_def stateOk_def propagationOk_def
        immediateSource_def)
  have d: "distinct (map dlId (concat (map (\<lambda>(d, e). entryRecords opts e) (recordEntries ds))))"
    using assms(2) recordEntries_processing [of opts ds] o by (simp add: opts_def)
  have own: "concat (map (\<lambda>(d, e). entryRecords opts e) (recordEntries ds)) = concat (map processingRecords ds)"
    using recordEntries_processing [of opts ds] o by (simp add: opts_def)
  have fs: "\<forall>(d, e)\<in>set (recordEntries ds). \<forall>l\<in>set (entryRecords opts e). typeOf (dlListener l) = ''function'' \<and> dlNativeEvent l = ev"
    using f by fastforce
  have new: "\<not> stopped (initialCanaryState opts N)" "watching opts (initialCanaryState opts N)"
    by (simp_all add: initialCanaryState_def createDispatchQueuePropagationDiagnosticState_def propFlag_def watching_def)
  note run' = run [unfolded processRecords_entries]
  have recs: "ctInvocationRecords totals = qcInvocationRecords (createQueueCanaryRecord (length ds) totals s)"
    by (simp add: createQueueCanaryRecord_def Let_def)
  have stops: "sorted_wrt respectsStop (ctInvocationRecords totals) \<and>
    (\<forall>r\<in>set (ctInvocationRecords totals). \<forall>l. called r = Some l \<longrightarrow> l \<in> set (concat (map processingRecords ds)))"
    using entries_stops [OF f d init(1) _ run'] init(2) unfolding own by (auto simp: runOk_def noTotals_def)
  have acc: "\<exists>b. accounted M code opts ev False (ctInvocationRecords totals) b"
    using entries_accounted [OF fs init(1) new(2) run'] new(1) by (auto simp: noTotals_def)
  have first: "\<forall>l ls. concat (map processingRecords ds) = l # ls \<longrightarrow>
       ctInvocationRecords totals \<noteq> [] \<and> called (hd (ctInvocationRecords totals)) = Some l"
    using entries_first [OF fs init(1) new(2,1) init(2) _ run'] unfolding own by (fastforce simp: noTotals_def)
  have result: "invokeDispatchQueueCanaryFromDispatchRecords M code (map Some ds) options N =
      Inr (createQueueCanaryRecord (length ds) totals s, csNatives s)"
    using run by (simp add: invokeDispatchQueueCanaryFromDispatchRecords_def opts_def [symmetric])
  show ?thesis
    by (intro exI [of _ "createQueueCanaryRecord (length ds) totals s"] exI [of _ "csNatives s"] conjI) (fact result stops [THEN conjunct1, unfolded recs] acc [unfolded opts_def recs [unfolded opts_def]]
      stops [THEN conjunct2, unfolded recs] first [unfolded recs])+
qed

text \<open>
  C14: from a native event to its listeners. In a world of reachable component tree and listener registry states
  on an acyclic DOM, with function listeners, extracting the dispatch records of the wrappers of one
  native event and invoking them always succeeds. Without propagation diagnostics every
  listener of every mounted node between the event's target and the container root is called exactly once:
  per wrapper from the root down in the capture phase and from the target up in the bubble phase. Of one
  node the private queue comes in registration order and then the listener of its props, in the capture phase all this reversed. While a listener runs \<open>currentTarget\<close> is its node, and it is \<open>null\<close> before and
  after. Listeners are arbitrary code: what they do or throw does not stop the others, it is only counted.
\<close>
theorem event_calls_listeners_in_order:
  assumes "eventWorld W wrs ev n" "unwatched options"
  shows "\<exists>path ds qc N'. eventPath W n path \<and> dispatchRecordsFor W i wrs ev = Some (Inr ds) \<and>
    invokeDispatchQueueCanaryFromDispatchRecords M code (map Some ds) options N = Inr (qc, N') \<and>
    map (\<lambda>r. (irCurrentTargetDuring r, map_option dlListener (called r))) (qcInvocationRecords qc) =
      map (\<lambda>(node, listener). (Some node, Some listener)) (concat (map (listenersInOrder W path) wrs)) \<and>
    (\<forall>r\<in>set (qcInvocationRecords qc). irCurrentTargetBefore r = None \<and> irCurrentTargetAfter r = None) \<and>
    ctListenerInvocationCount (qcTotals qc) = length (concat (map (listenersInOrder W path) wrs)) \<and>
    ctListenerErrorCount (qcTotals qc) = length (filter irListenerErrorCaptured (qcInvocationRecords qc))"
proof -
  obtain path ds where R: "eventPath W n path" "dispatchRecordsFor W i wrs ev = Some (Inr ds)"
    "map (\<lambda>d. map nodeAndListener (processingRecords d)) ds = map (listenersInOrder W path) wrs" "\<forall>d\<in>set ds. callable ev d"
    using dispatchRecordsFor_result [OF assms(1), of i] by blast
  obtain qc N' where Q: "invokeDispatchQueueCanaryFromDispatchRecords M code (map Some ds) options N = Inr (qc, N')"
    "allCalled (concat (map processingRecords ds)) (qcInvocationRecords qc) noTotals (qcTotals qc)"
    using invoke_all [OF R(4) assms(2)] by blast
  let ?rs = "qcInvocationRecords qc" and ?ls = "concat (map processingRecords ds)"
  have A: "map called ?rs = map Some ?ls" "\<forall>r\<in>set ?rs. currentTargetShown r" using Q(2) by (simp_all add: allCalled_def)
  have len: "length ?rs = length ?ls" using arg_cong [OF A(1), of length] by simp
  have each: "called (?rs ! k) = Some (?ls ! k)" if "k < length ?rs" for k
    using arg_cong [OF A(1), of "\<lambda>xs. xs ! k"] that len by simp
  have "(irCurrentTargetDuring (?rs ! k), map_option dlListener (called (?rs ! k))) =
      (\<lambda>(node, listener). (Some node, Some listener)) (nodeAndListener (?ls ! k))" if k: "k < length ?rs" for k
    using each [OF k] A(2) nth_mem [OF k] by (auto simp: currentTargetShown_def called_def nodeAndListener_def split: if_splits)
  then have calls: "map (\<lambda>r. (irCurrentTargetDuring r, map_option dlListener (called r))) ?rs =
      map (\<lambda>(node, listener). (Some node, Some listener)) (map nodeAndListener ?ls)"
    using len by (intro nth_equalityI) simp_all
  have L: "map nodeAndListener ?ls = concat (map (listenersInOrder W path) wrs)"
    using arg_cong [OF R(3), of concat] by (simp add: map_concat comp_def)
  have counts: "ctListenerInvocationCount (qcTotals qc) = length (map nodeAndListener ?ls)"
    "ctListenerErrorCount (qcTotals qc) = length (filter irListenerErrorCaptured ?rs)"
    "\<forall>r\<in>set ?rs. irCurrentTargetBefore r = None \<and> irCurrentTargetAfter r = None"
    using Q(2) by (simp_all add: allCalled_def noTotals_def currentTargetShown_def)
  show ?thesis
    by (intro exI [of _ path] exI [of _ ds] exI [of _ qc] exI [of _ N'] conjI)
      (fact R(1) R(2) Q(1) calls [unfolded L] counts(3) counts(1) [unfolded L] counts(2))+
qed

lemma own_instances: "\<forall>l\<in>S. i \<le> dlId l \<and> ownInstance W l \<Longrightarrow> \<forall>l\<in>S. ownInstance W l"
  by simp

lemma ownInstance_node:
  "treeOk (dwState W) \<Longrightarrow> ownInstance W l \<Longrightarrow> ownInstance W l' \<Longrightarrow> dlTargetInst l' = dlTargetInst l \<Longrightarrow>
   dlCurrentTarget l' = dlCurrentTarget l"
  by (metis ownInstance_def token_of_node node_of_token option.inject treeOkD(1))

lemma stop_pairs:
  assumes "sorted_wrt respectsStop rs" "\<exists>b. accounted M code opts ev False rs b"
    "\<forall>r\<in>set rs. \<forall>l. called r = Some l \<longrightarrow> l \<in> S" "\<forall>l\<in>S. ownInstance W l" "treeOk (dwState W)"
  shows "\<forall>j k l l'. j < k \<and> k < length rs \<and> called (rs ! j) = Some l \<and> called (rs ! k) = Some l' \<longrightarrow>
       \<not> irNativeImmediateStoppedAfter (rs ! j) \<and>
       \<not> (coNativeStopImmediate opts \<and> alwaysStopsNative M (code (dlListener l)) ev) \<and>
       (irPropagationStoppedAfter (rs ! j) \<or> coPropagationStop opts \<and> (\<forall>v. alwaysStops (code (dlListener l) v)) \<longrightarrow>
          dlCurrentTarget l' = dlCurrentTarget l \<and> dlTargetInst l' = dlTargetInst l \<and>
          dlInCapturePhase l' = dlInCapturePhase l)"
proof (intro allI impI)
  fix j k l l' assume jk: "j < k \<and> k < length rs \<and> called (rs ! j) = Some l \<and> called (rs ! k) = Some l'"
  have "respectsStop (rs ! j) (rs ! k)" using assms(1) jk by (simp add: sorted_wrt_iff_nth_less)
  moreover have "stopShown M code opts ev (rs ! j)" using assms(2) jk by (auto simp: accounted_def)
  moreover have "ownInstance W l" "ownInstance W l'" using assms(3,4) jk by (meson nth_mem order.strict_trans)+
  then have "dlTargetInst l' = dlTargetInst l \<Longrightarrow> dlCurrentTarget l' = dlCurrentTarget l" using ownInstance_node [OF assms(5)] by blast
  ultimately show "\<not> irNativeImmediateStoppedAfter (rs ! j) \<and>
       \<not> (coNativeStopImmediate opts \<and> alwaysStopsNative M (code (dlListener l)) ev) \<and>
       (irPropagationStoppedAfter (rs ! j) \<or> coPropagationStop opts \<and> (\<forall>v. alwaysStops (code (dlListener l) v)) \<longrightarrow>
          dlCurrentTarget l' = dlCurrentTarget l \<and> dlTargetInst l' = dlTargetInst l \<and>
          dlInCapturePhase l' = dlInCapturePhase l)"
    using jk by (auto simp: respectsStop_def stopShown_def)
qed

lemma skip_blame:
  assumes "\<exists>b. accounted M code opts ev False rs b"
  shows "\<forall>k<length rs. irPropagationSkipped (rs ! k) \<longrightarrow>
       (\<exists>j<k. \<exists>l v. called (rs ! j) = Some l \<and> mayStop (code (dlListener l) v))"
proof (intro allI impI)
  fix k assume k: "k < length rs" "irPropagationSkipped (rs ! k)"
  then have "stoppable code (take k rs)" using assms by (auto simp: accounted_def)
  then obtain j l v where "j < k" "called (rs ! j) = Some l" "mayStop (code (dlListener l) v)"
    using k(1) by (auto simp: stoppable_def in_set_conv_nth)
  then show "\<exists>j<k. \<exists>l v. called (rs ! j) = Some l \<and> mayStop (code (dlListener l) v)" by blast
qed

text \<open>
  C8: stopping an event is effective, and nothing else stops it. For arbitrary listener code and native events the
  first listener of the event is always called. When propagation is watched and a listener is called whose code
  calls \<open>stopPropagation\<close> on each of its runs, every listener called later belongs to the same node, its instance and
  the same phase, also across the dispatch records of the other wrappers of the event; so it is whenever the
  invocation record says that the propagation is stopped. When
  the native \<open>stopImmediatePropagation\<close> is watched, a called listener whose code always raises the native event's
  count of such calls is the last one called. A listener is skipped for a stopped propagation only if one called
  before it has code that can call \<open>stopPropagation\<close>.
\<close>
theorem stopped_event_reaches_no_other_instance:
  assumes "eventWorld W wrs ev n" "coUseProcessingOrder (normalizeDispatchQueueCanaryOptions options)"
  shows "\<exists>path ds qc N'. eventPath W n path \<and> dispatchRecordsFor W i wrs ev = Some (Inr ds) \<and>
    map nodeAndListener (concat (map processingRecords ds)) = concat (map (listenersInOrder W path) wrs) \<and>
    invokeDispatchQueueCanaryFromDispatchRecords M code (map Some ds) options N = Inr (qc, N') \<and>
    (\<forall>r\<in>set (qcInvocationRecords qc). \<forall>l. called r = Some l \<longrightarrow> l \<in> set (concat (map processingRecords ds))) \<and>
    (\<forall>l ls. concat (map processingRecords ds) = l # ls \<longrightarrow>
       qcInvocationRecords qc \<noteq> [] \<and> called (hd (qcInvocationRecords qc)) = Some l) \<and>
    (\<forall>j k l l'. j < k \<and> k < length (qcInvocationRecords qc) \<and> called (qcInvocationRecords qc ! j) = Some l \<and>
       called (qcInvocationRecords qc ! k) = Some l' \<longrightarrow>
       \<not> irNativeImmediateStoppedAfter (qcInvocationRecords qc ! j) \<and>
       \<not> (coNativeStopImmediate (normalizeDispatchQueueCanaryOptions options) \<and>
            alwaysStopsNative M (code (dlListener l)) ev) \<and>
       (irPropagationStoppedAfter (qcInvocationRecords qc ! j) \<or>
          coPropagationStop (normalizeDispatchQueueCanaryOptions options) \<and> (\<forall>v. alwaysStops (code (dlListener l) v)) \<longrightarrow>
          dlCurrentTarget l' = dlCurrentTarget l \<and> dlTargetInst l' = dlTargetInst l \<and>
          dlInCapturePhase l' = dlInCapturePhase l)) \<and>
    (\<forall>k<length (qcInvocationRecords qc). irPropagationSkipped (qcInvocationRecords qc ! k) \<longrightarrow>
       (\<exists>j<k. \<exists>l v. called (qcInvocationRecords qc ! j) = Some l \<and> mayStop (code (dlListener l) v)))"
proof -
  obtain path ds where R: "eventPath W n path" "dispatchRecordsFor W i wrs ev = Some (Inr ds)"
    "map (\<lambda>d. map nodeAndListener (processingRecords d)) ds = map (listenersInOrder W path) wrs"
    "distinct (map dlId (concat (map processingRecords ds)))"
    "\<forall>l\<in>set (concat (map processingRecords ds)). i \<le> dlId l \<and> ownInstance W l" "\<forall>d\<in>set ds. callable ev d"
    using dispatchRecordsFor_result [OF assms(1), of i] by blast
  obtain qc N' where Q: "invokeDispatchQueueCanaryFromDispatchRecords M code (map Some ds) options N = Inr (qc, N')"
    "sorted_wrt respectsStop (qcInvocationRecords qc)"
    "\<exists>b. accounted M code (normalizeDispatchQueueCanaryOptions options) ev False (qcInvocationRecords qc) b"
    "\<forall>r\<in>set (qcInvocationRecords qc). \<forall>l. called r = Some l \<longrightarrow> l \<in> set (concat (map processingRecords ds))"
    "\<forall>l ls. concat (map processingRecords ds) = l # ls \<longrightarrow>
       qcInvocationRecords qc \<noteq> [] \<and> called (hd (qcInvocationRecords qc)) = Some l"
    using invoke_stops [OF R(6,4) assms(2)] by blast
  have order: "map nodeAndListener (concat (map processingRecords ds)) = concat (map (listenersInOrder W path) wrs)"
    using arg_cong [OF R(3), of concat] by (simp add: map_concat comp_def)
  have ok: "treeOk (dwState W)" using assms(1) reachable_treeOk by (simp add: eventWorld_def)
  show ?thesis
    by (intro exI conjI) (fact R(1,2) order Q(1,4,5) stop_pairs [OF Q(2,3,4) R(5) [THEN own_instances] ok] skip_blame [OF Q(3)])+
qed

subsection \<open>The reference for stopped propagation\<close>

text \<open>The listeners of a queue entry, grouped into runs that belong to one instance.\<close>
function instanceRuns :: "dispatch_listener list \<Rightarrow> dispatch_listener list list" where
  "instanceRuns [] = []"
| "instanceRuns (l # ls) =
     (l # takeWhile (\<lambda>m. dlTargetInst m = dlTargetInst l) ls) # instanceRuns (dropWhile (\<lambda>m. dlTargetInst m = dlTargetInst l) ls)"
  by pat_completeness auto
termination by (relation "measure length") (auto simp: le_imp_less_Suc length_dropWhile_le)

text \<open>An event passes an instance completely or not at all: before each run, and only there, the event may have been stopped.\<close>
fun passRuns :: "(dispatch_listener \<Rightarrow> canary_state \<Rightarrow> canary_state) \<Rightarrow> dispatch_listener list list \<Rightarrow> canary_state \<Rightarrow>
  dispatch_listener list \<times> canary_state" where
  "passRuns step [] s = ([], s)"
| "passRuns step (run # runs) s =
     (if stopped s then ([], s)
      else (let (ls, s') = passRuns step runs (fold step run s) in (run @ ls, s')))"

definition callStep :: "(nat \<Rightarrow> native_methods) \<Rightarrow> (dval \<Rightarrow> event_view \<Rightarrow> listener_prog) \<Rightarrow> canary_event \<Rightarrow> dispatch_listener \<Rightarrow>
  canary_state \<Rightarrow> canary_state" where
  "callStep M code event l s = snd (callListenerInContext M event l (code (dlListener l)) s)"

fun referenceRun :: "(nat \<Rightarrow> native_methods) \<Rightarrow> (dval \<Rightarrow> event_view \<Rightarrow> listener_prog) \<Rightarrow>
  (dispatch_record \<times> dispatch_listener list) list \<Rightarrow> canary_state \<Rightarrow> dispatch_listener list \<times> canary_state" where
  "referenceRun M code [] s = ([], s)"
| "referenceRun M code ((d, ls) # entries) s =
     (case createDispatchQueueCanaryEventContext d ls s of
        (None, s1) \<Rightarrow> referenceRun M code entries s1
      | (Some event, s1) \<Rightarrow>
          (let (xs, s2) = passRuns (callStep M code event) (instanceRuns ls) s1;
               (ys, s3) = referenceRun M code entries (resetDispatchQueueCanaryEventAfterListener s2)
           in (xs @ ys, s3)))"

lemma notImmediate:
  "loopOk ev s \<Longrightarrow> \<not> propFlag psEnableNativeStopImmediate s \<Longrightarrow> \<not> shouldSkipDispatchListenerForNativeStopImmediatePropagation l s"
  by (auto simp: shouldSkipDispatchListenerForNativeStopImmediatePropagation_def propFlag_def split: option.splits)

lemma listenerLoop_runs:
  assumes "\<forall>l\<in>set ls. typeOf (dlListener l) = ''function''" "loopOk ev s" "\<not> propFlag psEnableNativeStopImmediate s"
    "listenerLoop M code options (Some event) ls i prev (totals, s) = (totals', s')"
  shows "\<exists>rs. ctInvocationRecords totals' = ctInvocationRecords totals @ rs \<and>
    loopOk ev s' \<and> \<not> propFlag psEnableNativeStopImmediate s' \<and>
    (List.map_filter called rs, s') =
      (let own = takeWhile (\<lambda>l. Some (dlTargetInst l) = prev) ls;
           (xs, s'') = passRuns (callStep M code event) (instanceRuns (dropWhile (\<lambda>l. Some (dlTargetInst l) = prev) ls))
             (fold (callStep M code event) own s)
       in (own @ xs, s''))"
  using assms
proof (induction ls arbitrary: i prev totals s)
  case Nil
  then show ?case by (simp add: List.map_filter_def)
next
  case (Cons l ls)
  have skip: "\<not> shouldSkipDispatchListenerForNativeStopImmediatePropagation l s" using notImmediate Cons.prems(2,3) by blast
  show ?case
  proof (cases "shouldSkipDispatchListenerForPropagationStop l prev s")
    case True
    then show ?thesis using Cons.prems(2-4) skip
      by (intro exI [of _ "[createSkippedSingleListenerInvocationCanaryRecord (Some l) i (coUseProcessingOrder options) ''propagation-stopped'' (csPropagation s)]"])
        (auto simp: skipStop_iff List.map_filter_def)
  next
    case False
    obtain r s1 where inv: "invokeDispatchListenerRecordForCanary M code (Some event) i (coListenerErrorRouting options) (coUseProcessingOrder options) l s = (r, s1)"
      by fastforce
    have f: "typeOf (dlListener l) = ''function''" using Cons.prems(1) by simp
    note V = invoke_function [OF inv f Cons.prems(2)]
    have s1: "s1 = callStep M code event l s" "\<not> propFlag psEnableNativeStopImmediate s1"
      using V(13) callListener_frame(5) [OF _ Cons.prems(2)] Cons.prems(3) by (auto simp: callStep_def)
    have "called r = Some l" using V(4,5) by (simp add: called_def)
    then have r: "List.map_filter called (r # rs) = l # List.map_filter called rs" for rs by (simp add: List.map_filter_def)
    have "listenerLoop M code options (Some event) ls (i + 1) (Some (dlTargetInst l)) (recordInvocation options l r s s1 totals, s1) = (totals', s')"
      using Cons.prems(4) skip False inv by simp
    from Cons.IH [OF _ V(1) s1(2) this] Cons.prems(1) obtain rs where
      rs: "ctInvocationRecords totals' = (ctInvocationRecords totals @ [r]) @ rs" "loopOk ev s'" "\<not> propFlag psEnableNativeStopImmediate s'"
      "(List.map_filter called rs, s') =
        (let own = takeWhile (\<lambda>m. dlTargetInst m = dlTargetInst l) ls;
             (xs, s'') = passRuns (callStep M code event) (instanceRuns (dropWhile (\<lambda>m. dlTargetInst m = dlTargetInst l) ls))
               (fold (callStep M code event) own s1)
         in (own @ xs, s''))" by auto
    show ?thesis using rs r s1(1) False
      by (intro exI [of _ "r # rs"], cases "Some (dlTargetInst l) = prev") (auto simp: skipStop_iff Let_def split: prod.splits)
  qed
qed

lemma processEntry_runs:
  assumes "\<forall>l\<in>set (entryRecords options entry). typeOf (dlListener l) = ''function'' \<and> dlNativeEvent l = ev" "stateOk ev s"
    "\<not> propFlag psEnableNativeStopImmediate s" "processEntry M code options d entry (totals, s) = (totals', s')"
  shows "\<exists>rs. ctInvocationRecords totals' = ctInvocationRecords totals @ rs \<and> stateOk ev s' \<and>
    \<not> propFlag psEnableNativeStopImmediate s' \<and>
    (\<forall>entries. referenceRun M code ((d, entryRecords options entry) # entries) s =
       (let (ys, s3) = referenceRun M code entries s' in (List.map_filter called rs @ ys, s3)))"
proof (cases "entryRecords options entry")
  case Nil
  then show ?thesis using assms(2-4)
    by (auto simp: processEntry_def Let_def createDispatchQueueCanaryEventContext_def finishDispatchQueueCanaryEventContext_def
        List.map_filter_def)
next
  case (Cons l ls)
  have ev: "dlNativeEvent l = ev" and f: "\<forall>l\<in>set (l # ls). typeOf (dlListener l) = ''function''" using assms(1) Cons by auto
  obtain event s1 where c: "createDispatchQueueCanaryEventContext d (l # ls) s = (event, s1)" by fastforce
  note C = context_start [OF c, unfolded ev, OF assms(2)]
  have fl: "\<not> propFlag psEnableNativeStopImmediate s1" using c assms(3)
    by (cases "csPropagation s") (auto simp: createDispatchQueueCanaryEventContext_def Let_def propFlag_def)
  obtain e where e: "event = Some e" using C(1) by blast
  let ?t = "totals\<lparr>ctDispatchQueueEntryCount := ctDispatchQueueEntryCount totals + 1,
                    ctListenerCandidateCount := ctListenerCandidateCount totals + length (l # ls)\<rparr>"
  obtain s2 where L: "listenerLoop M code options (Some e) (l # ls) 0 None (?t, s1) = (totals', s2)" "s' = setCurrent None s2"
    using assms(4) c Cons e
    by (auto simp: processEntry_def Let_def finishDispatchQueueCanaryEventContext_def resetDispatchQueueCanaryEventAfterListener_def
        simp del: listenerLoop.simps split: prod.splits if_splits)
  obtain rs where rs: "ctInvocationRecords totals' = ctInvocationRecords totals @ rs" "loopOk ev s2" "\<not> propFlag psEnableNativeStopImmediate s2"
    "passRuns (callStep M code e) (instanceRuns (l # ls)) s1 = (List.map_filter called rs, s2)"
    using listenerLoop_runs [OF f C(2) fl L(1)] by (auto simp: Let_def simp del: instanceRuns.simps split: prod.splits)
  have "propFlag psEnableNativeStopImmediate (setCurrent None s2) = propFlag psEnableNativeStopImmediate s2"
    by (cases "csPropagation s2") (simp_all add: propFlag_def setCurrent_def Let_def)
  then show ?thesis using rs(1-3) L(2) Cons c e loopOk_stateOk [OF rs(2)]
    by (intro exI [of _ rs]) (simp add: rs(4) resetDispatchQueueCanaryEventAfterListener_def Let_def split: prod.splits
        del: instanceRuns.simps)
qed

lemma entries_runs:
  assumes "\<forall>(d, e)\<in>set es. \<forall>l\<in>set (entryRecords options e). typeOf (dlListener l) = ''function'' \<and> dlNativeEvent l = ev"
    "stateOk ev s" "\<not> propFlag psEnableNativeStopImmediate s"
    "fold (\<lambda>(d, e). processEntry M code options d e) es (totals, s) = (totals', s')"
  shows "\<exists>rs. ctInvocationRecords totals' = ctInvocationRecords totals @ rs \<and>
    referenceRun M code (map (\<lambda>(d, e). (d, entryRecords options e)) es) s = (List.map_filter called rs, s')"
  using assms
proof (induction es arbitrary: totals s)
  case Nil
  then show ?case by (simp add: List.map_filter_def)
next
  case (Cons de es)
  obtain d e where de: "de = (d, e)" by fastforce
  obtain t1 s1 where P: "processEntry M code options d e (totals, s) = (t1, s1)" by fastforce
  have f: "\<forall>l\<in>set (entryRecords options e). typeOf (dlListener l) = ''function'' \<and> dlNativeEvent l = ev" using Cons.prems(1) de by auto
  obtain rs where rs: "ctInvocationRecords t1 = ctInvocationRecords totals @ rs" "stateOk ev s1" "\<not> propFlag psEnableNativeStopImmediate s1"
    "\<And>entries. referenceRun M code ((d, entryRecords options e) # entries) s =
       (let (ys, s3) = referenceRun M code entries s1 in (List.map_filter called rs @ ys, s3))"
    using processEntry_runs [OF f Cons.prems(2,3) P] by blast
  have "fold (\<lambda>(d, e). processEntry M code options d e) es (t1, s1) = (totals', s')" using Cons.prems(4) de P by simp
  from Cons.IH [OF _ rs(2,3) this] Cons.prems(1) obtain rs' where "ctInvocationRecords totals' = ctInvocationRecords t1 @ rs'"
    "referenceRun M code (map (\<lambda>(d, e). (d, entryRecords options e)) es) s1 = (List.map_filter called rs', s')" by auto
  then show ?case using rs(1,4) de
    by (intro exI [of _ "rs @ rs'"]) (simp add: List.map_filter_def del: referenceRun.simps)
qed

text \<open>
  C11: the loop with its \<open>previousInstance\<close> test implements the DOM rule. Unless the native stop diagnostics are on, the listeners it calls, the
  native events it leaves behind and its verdict are those of a reference that groups
  the listeners of each queue entry into runs of one instance and asks whether the event is stopped only before a
  run, which it then calls completely.
\<close>
theorem propagation_matches_reference:
  assumes "eventWorld W wrs ev n" "coUseProcessingOrder (normalizeDispatchQueueCanaryOptions options)"
    "\<not> coNativeStopImmediate (normalizeDispatchQueueCanaryOptions options)"
  shows "\<exists>ds qc N'. dispatchRecordsFor W i wrs ev = Some (Inr ds) \<and>
    invokeDispatchQueueCanaryFromDispatchRecords M code (map Some ds) options N = Inr (qc, N') \<and>
    (\<exists>s. referenceRun M code (concat (map (\<lambda>d. map (\<lambda>e. (d, deProcessingListenerRecords e)) (dqEntries (edDispatchQueue d))) ds))
         (initialCanaryState (normalizeDispatchQueueCanaryOptions options) N) =
         (List.map_filter called (qcInvocationRecords qc), s) \<and>
       N' = csNatives s \<and> qcPropagationStopped qc = stopped s)"
proof -
  define opts where "opts = normalizeDispatchQueueCanaryOptions options"
  obtain ds where R: "dispatchRecordsFor W i wrs ev = Some (Inr ds)" "\<forall>d\<in>set ds. callable ev d"
    using dispatchRecordsFor_result [OF assms(1), of i] by blast
  obtain totals s where run: "fold (processRecord M code opts) ds (noTotals, initialCanaryState opts N) = (totals, s)" by fastforce
  have f: "\<forall>(d, e)\<in>set (recordEntries ds). \<forall>l\<in>set (entryRecords opts e). typeOf (dlListener l) = ''function'' \<and> dlNativeEvent l = ev"
    using R(2) assms(2) by (fastforce simp: recordEntries_def callable_def processingRecords_def opts_def)
  have init: "stateOk ev (initialCanaryState opts N)" "\<not> propFlag psEnableNativeStopImmediate (initialCanaryState opts N)"
    using assms(3) by (simp_all add: initialCanaryState_def createDispatchQueuePropagationDiagnosticState_def stateOk_def propagationOk_def
        propFlag_def opts_def)
  have es: "map (\<lambda>(d, e). (d, entryRecords opts e)) (recordEntries ds) =
    concat (map (\<lambda>d. map (\<lambda>e. (d, deProcessingListenerRecords e)) (dqEntries (edDispatchQueue d))) ds)"
    using assms(2) by (simp add: recordEntries_def map_concat comp_def opts_def)
  obtain rs where "ctInvocationRecords totals = rs"
    "referenceRun M code (map (\<lambda>(d, e). (d, entryRecords opts e)) (recordEntries ds)) (initialCanaryState opts N) = (List.map_filter called rs, s)"
    using entries_runs [OF f init run [unfolded processRecords_entries]] by (auto simp: noTotals_def)
  then show ?thesis using R(1) run unfolding es
    by (simp add: invokeDispatchQueueCanaryFromDispatchRecords_def opts_def [symmetric] Let_def createQueueCanaryRecord_def)
qed

subsection \<open>A concrete event\<close>

text \<open>A click on the element 1, whose latest props have a listener for each phase.\<close>
definition flow_capture :: dval where "flow_capture = DFunction 8 []"
definition flow_bubble :: dval where "flow_bubble = DFunction 7 []"

definition flow_state :: ct_state where
  "flow_state = snd (attachHostInstanceNode ct_demo_world (Some 1) (Some 0)
     (DObject 5 [(''onClick'', flow_bubble), (''onClickCapture'', flow_capture)])
     (snd (createHostInstanceToken (DObject 1 []) (DObject 2 []) ct_demo_empty)))"

definition flow_world :: dispatch_world where
  "flow_world = \<lparr>dwTree = ct_demo_world, dwState = flow_state, dwRegistry = demo_registry,
     dwObjects = (\<lambda>_. \<lparr>eoCorrespondingUseElement = EvVal DUndef, eoNodeType = DNum (Fin 1), eoParentNode = EvVal DNull\<rparr>),
     dwEvents = (\<lambda>_. \<lparr>neTarget = EvObj 1, neSrcElement = EvVal DUndef, neType = DStr ''click''\<rparr>)\<rparr>"

definition flow_wrappers :: "wrapper_record list" where
  "flow_wrappers = [createEventListenerWrapperRecord 0 ''click'' IS_CAPTURE_PHASE, createEventListenerWrapperRecord 0 ''click'' 0]"

text \<open>Native events without methods, and listeners that stop the propagation and then throw.\<close>
definition flow_methods :: "nat \<Rightarrow> native_methods" where
  "flow_methods = (\<lambda>_. \<lparr>nmPreventDefault = None, nmStopPropagation = None\<rparr>)"

definition flow_code :: "dval \<Rightarrow> event_view \<Rightarrow> listener_prog" where
  "flow_code = (\<lambda>_ _. Act StopPropagation (\<lambda>_ _. ThrowValue (DStr ''failed'')))"

definition flow_natives :: natives where
  "flow_natives = (\<lambda>_. \<lparr>nsDefaultPrevented = DBool False, nsReturnValue = DUndef, nsCancelBubble = DUndef,
     nsPreventDefaultCallCount = None, nsStopPropagationCallCount = None, nsStopImmediatePropagationCallCount = None,
     nsImmediatePropagationStopped = DUndef\<rparr>)"

lemma flow_mounted: "mounted flow_state m \<Longrightarrow> m = 1"
  by (simp add: mounted_def flow_state_def ct_demo_empty_def ct_demo_world_def attachHostInstanceNode_def createHostInstanceToken_def
      assertHostInstanceNode_def isHostInstanceNode_def assertKnownHostInstanceToken_def getHostInstanceTokenFromNode_def Let_def
      demo_container_def ELEMENT_NODE_def split: if_splits option.splits)

lemma flow_ok: "eventWorld flow_world flow_wrappers (Some 0) 1"
proof -
  have "ct_reachable flow_state" unfolding flow_state_def ct_demo_empty_def by (intro ct_attach ct_create ct_init)
  moreover have "registry_reachable demo_registry" by (rule registry_init) (simp_all add: demo_registry_def)
  moreover have "listenerPropsOk flow_world wr m" if "mounted flow_state m" "wr \<in> set flow_wrappers" for wr m
    using flow_mounted [OF that(1)] that(2) unfolding flow_wrappers_def by auto (code_simp, code_simp)
  moreover have "valueNode (getEventTarget (dwObjects flow_world) (nativeFields flow_world (Some 0)) (EvObj (wrTargetContainer wr))) = Some 1"
    if "wr \<in> set flow_wrappers" for wr
    by (simp add: flow_world_def getEventTarget_def nativeFields_def valueNode_def)
  ultimately show ?thesis using ct_demo_acyclic by (simp add: eventWorld_def flow_world_def)
qed

lemma flow_path: "eventPath flow_world 1 path \<Longrightarrow> path = [1]"
proof -
  have tok: "getHostInstanceTokenFromNode flow_state (Some 1) = Some 0" by code_simp
  have m: "mounted flow_state 1" by (rule mountedI [OF tok])
  have root: "nodeRootOwner ct_demo_world 1 = DNull" "nodeRootOwner ct_demo_world 0 = DNull" by code_simp+
  have "climb ct_demo_world 0 [0]" by (rule climb_last) (simp add: ct_demo_world_def)
  then have "climb ct_demo_world 1 [1, 0]" by (intro climb_up [OF root(1)]) (simp_all add: ct_demo_world_def)
  moreover have "ascend ct_demo_world (Some 0) [0] None"
    using ascend_up [OF root(2), of "[]" None] ascend_top by (simp add: ct_demo_world_def)
  moreover have "\<not> mounted flow_state 0" using flow_mounted [of 0] by auto
  ultimately have "eventPath flow_world 1 [1]" unfolding eventPath_def using m
    by (intro exI [of _ "[1, 0]"]) (auto simp: flow_world_def ct_demo_world_def intro!: exI [of _ "[0]"])
  then show "eventPath flow_world 1 path \<Longrightarrow> path = [1]" using eventPath_functional by blast
qed

theorem event_calls_listeners_in_order_witness:
  "\<exists>ds qc N'. dispatchRecordsFor flow_world 0 flow_wrappers (Some 0) = Some (Inr ds) \<and>
     invokeDispatchQueueCanaryFromDispatchRecords flow_methods flow_code (map Some ds) None flow_natives = Inr (qc, N') \<and>
     map (\<lambda>r. (irCurrentTargetDuring r, map_option dlListener (called r))) (qcInvocationRecords qc) =
       [(Some 1, Some flow_capture), (Some 1, Some flow_bubble)] \<and> ctListenerInvocationCount (qcTotals qc) = 2"
proof -
  have o: "unwatched None" by (simp add: unwatched_def normalizeDispatchQueueCanaryOptions_def Let_def)
  have calls: "concat (map (listenersInOrder flow_world [1]) flow_wrappers) = [(1, flow_capture), (1, flow_bubble)]" by code_simp
  obtain path ds qc N' where E: "eventPath flow_world 1 path" "dispatchRecordsFor flow_world 0 flow_wrappers (Some 0) = Some (Inr ds)"
    "invokeDispatchQueueCanaryFromDispatchRecords flow_methods flow_code (map Some ds) None flow_natives = Inr (qc, N')"
    "map (\<lambda>r. (irCurrentTargetDuring r, map_option dlListener (called r))) (qcInvocationRecords qc) =
      map (\<lambda>(node, listener). (Some node, Some listener)) (concat (map (listenersInOrder flow_world path) flow_wrappers))"
    "ctListenerInvocationCount (qcTotals qc) = length (concat (map (listenersInOrder flow_world path) flow_wrappers))"
    using event_calls_listeners_in_order [OF flow_ok o, of 0 flow_methods flow_code flow_natives] by blast
  show ?thesis using E(2-5) unfolding flow_path [OF E(1)] calls by auto
qed

text \<open>The options that watch the propagation.\<close>
definition flow_options :: canary_option_values where
  "flow_options = \<lparr>cvEnableDefaultPrevented = DBool True, cvEnableListenerErrorRouting = DBool True,
     cvEnableNativeStopImmediate = DUndef, cvEnablePropagationStop = DBool True, cvUseProcessingOrder = DUndef\<rparr>"

lemma flow_options_ok:
  "coUseProcessingOrder (normalizeDispatchQueueCanaryOptions (Some flow_options))"
  "\<not> coNativeStopImmediate (normalizeDispatchQueueCanaryOptions (Some flow_options))"
  by (simp_all add: normalizeDispatchQueueCanaryOptions_def flow_options_def)

theorem propagation_matches_reference_witness:
  "\<exists>ds qc N' s. dispatchRecordsFor flow_world 0 flow_wrappers (Some 0) = Some (Inr ds) \<and>
    invokeDispatchQueueCanaryFromDispatchRecords flow_methods flow_code (map Some ds) (Some flow_options) flow_natives = Inr (qc, N') \<and>
    referenceRun flow_methods flow_code (concat (map (\<lambda>d. map (\<lambda>e. (d, deProcessingListenerRecords e)) (dqEntries (edDispatchQueue d))) ds))
         (initialCanaryState (normalizeDispatchQueueCanaryOptions (Some flow_options)) flow_natives) =
         (List.map_filter called (qcInvocationRecords qc), s) \<and> N' = csNatives s"
  using propagation_matches_reference [OF flow_ok flow_options_ok, of 0 flow_methods flow_code flow_natives] by blast

subsection \<open>A stopped event\<close>

text \<open>
  The elements 1 and 2, 2 inside 1, with a listener each; 2 has another one in the private queue, which stops
  the propagation.
\<close>
definition stop_first :: dval where "stop_first = DFunction 20 []"
definition stop_second :: dval where "stop_second = DFunction 21 []"
definition stop_outer :: dval where "stop_outer = DFunction 22 []"

definition stop_state :: ct_state where
  "stop_state = snd (attachHostInstanceNode ct_demo_world (Some 2) (Some 1) (DObject 6 [(''onClick'', stop_second)])
     (snd (createHostInstanceToken (DObject 3 []) (DObject 4 [])
       (snd (attachHostInstanceNode ct_demo_world (Some 1) (Some 0) (DObject 5 [(''onClick'', stop_outer)])
         (snd (createHostInstanceToken (DObject 1 []) (DObject 2 []) ct_demo_empty)))))))"

definition stop_world :: dispatch_world where
  "stop_world = flow_world\<lparr>dwState := stop_state,
     dwRegistry := snd (registerPrivateEventListenerQueueEntry (EvObj 2) (DStr ''click'') (DBool False) stop_first None demo_registry),
     dwEvents := (\<lambda>_. \<lparr>neTarget = EvObj 2, neSrcElement = EvVal DUndef, neType = DStr ''click''\<rparr>)\<rparr>"

definition stop_code :: "dval \<Rightarrow> event_view \<Rightarrow> listener_prog" where
  "stop_code = (\<lambda>f v. if f = stop_first then Act PreventDefault (\<lambda>_ _. Act StopPropagation (\<lambda>_ _. ReturnValue DUndef)) else ReturnValue DUndef)"

abbreviation stop_wrapper :: wrapper_record where
  "stop_wrapper \<equiv> createEventListenerWrapperRecord 0 ''click'' 0"

lemma attach_dom: "dom (ctNodeToken (snd (attachHostInstanceNode w (Some n) t ps s))) \<subseteq> insert n (dom (ctNodeToken s))"
  by (auto simp: attachHostInstanceNode_def assertHostInstanceNode_def Let_def split: sum.splits if_splits)

lemma create_dom [simp]: "ctNodeToken (snd (createHostInstanceToken a b s)) = ctNodeToken s"
  by (simp add: createHostInstanceToken_def Let_def)

lemma stop_mounted: "mounted stop_state m \<longleftrightarrow> m = 1 \<or> m = 2"
proof
  let ?s1 = "snd (attachHostInstanceNode ct_demo_world (Some 1) (Some 0) (DObject 5 [(''onClick'', stop_outer)])
         (snd (createHostInstanceToken (DObject 1 []) (DObject 2 []) ct_demo_empty)))"
  have "dom (ctNodeToken stop_state) \<subseteq> insert 2 (dom (ctNodeToken ?s1))"
    unfolding stop_state_def by (rule subset_trans [OF attach_dom]) simp
  also have "\<dots> \<subseteq> insert 2 (insert 1 (dom (ctNodeToken ct_demo_empty)))"
    by (rule insert_mono, rule subset_trans [OF attach_dom]) simp
  finally have "dom (ctNodeToken stop_state) \<subseteq> {1, 2}" by (auto simp: ct_demo_empty_def)
  then show "mounted stop_state m \<Longrightarrow> m = 1 \<or> m = 2"
    by (auto simp: mounted_def getHostInstanceTokenFromNode_def split: option.splits)
next
  have "getHostInstanceTokenFromNode stop_state (Some 1) = Some 0" "getHostInstanceTokenFromNode stop_state (Some 2) = Some 1" by code_simp+
  then show "m = 1 \<or> m = 2 \<Longrightarrow> mounted stop_state m" by (auto intro: mountedI)
qed

lemma stop_ok: "eventWorld stop_world [stop_wrapper] (Some 0) 2"
proof -
  have "ct_reachable stop_state" unfolding stop_state_def ct_demo_empty_def by (intro ct_attach ct_create ct_init)
  moreover have "registry_reachable (dwRegistry stop_world)" unfolding stop_world_def
    by (simp, intro registry_register registry_init) (simp_all add: demo_registry_def)
  moreover have "listenerPropsOk stop_world stop_wrapper m" if "mounted stop_state m" for m
    using that unfolding stop_mounted by (elim disjE) (simp, code_simp)+
  moreover have "valueNode (getEventTarget (dwObjects stop_world) (nativeFields stop_world (Some 0)) (EvObj (wrTargetContainer stop_wrapper))) = Some 2"
    by (simp add: stop_world_def flow_world_def getEventTarget_def nativeFields_def valueNode_def)
  ultimately show ?thesis using ct_demo_acyclic by (simp add: eventWorld_def stop_world_def flow_world_def)
qed

lemma stop_path: "eventPath stop_world 2 path \<Longrightarrow> path = [2, 1]"
proof -
  have root: "nodeRootOwner ct_demo_world 2 = DNull" "nodeRootOwner ct_demo_world 1 = DNull" "nodeRootOwner ct_demo_world 0 = DNull" by code_simp+
  have "climb ct_demo_world 0 [0]" by (rule climb_last) (simp add: ct_demo_world_def)
  then have "climb ct_demo_world 1 [1, 0]" by (intro climb_up [OF root(2)]) (simp_all add: ct_demo_world_def)
  then have c: "climb ct_demo_world 2 [2, 1, 0]" by (intro climb_up [OF root(1)]) (simp_all add: ct_demo_world_def)
  have "ascend ct_demo_world (Some 0) [0] None"
    using ascend_up [OF root(3), of "[]" None] ascend_top by (simp add: ct_demo_world_def)
  then have a: "ascend ct_demo_world (Some 1) [1, 0] None"
    using ascend_up [OF root(2), of "[0]" None] by (simp add: ct_demo_world_def)
  have "eventPath stop_world 2 [2, 1]" unfolding eventPath_def using c a stop_mounted
    by (intro exI [of _ "[2, 1, 0]"]) (auto simp: stop_world_def flow_world_def ct_demo_world_def intro!: exI [of _ "[1, 0]"])
  then show "eventPath stop_world 2 path \<Longrightarrow> path = [2, 1]" using eventPath_functional by blast
qed

theorem stopped_event_reaches_no_other_instance_witness:
  "\<exists>ds qc N'. dispatchRecordsFor stop_world 0 [stop_wrapper] (Some 0) = Some (Inr ds) \<and>
    map nodeAndListener (concat (map processingRecords ds)) = [(2, stop_first), (2, stop_second), (1, stop_outer)] \<and>
    invokeDispatchQueueCanaryFromDispatchRecords flow_methods stop_code (map Some ds) (Some flow_options) flow_natives = Inr (qc, N') \<and>
    map_option nodeAndListener (called (hd (qcInvocationRecords qc))) = Some (2, stop_first) \<and>
    (\<forall>r\<in>set (qcInvocationRecords qc). \<forall>l. called r = Some l \<longrightarrow> dlCurrentTarget l = 2)"
proof -
  have calls: "concat (map (listenersInOrder stop_world [2, 1]) [stop_wrapper]) = [(2, stop_first), (2, stop_second), (1, stop_outer)]"
    by code_simp
  have stops: "alwaysStops (stop_code stop_first v)" for v by (simp add: stop_code_def)
  have on: "coPropagationStop (normalizeDispatchQueueCanaryOptions (Some flow_options))"
    by (simp add: normalizeDispatchQueueCanaryOptions_def flow_options_def)
  obtain path ds qc N' where E: "eventPath stop_world 2 path" "dispatchRecordsFor stop_world 0 [stop_wrapper] (Some 0) = Some (Inr ds)"
    "map nodeAndListener (concat (map processingRecords ds)) = concat (map (listenersInOrder stop_world path) [stop_wrapper])"
    "invokeDispatchQueueCanaryFromDispatchRecords flow_methods stop_code (map Some ds) (Some flow_options) flow_natives = Inr (qc, N')"
    "\<forall>l ls. concat (map processingRecords ds) = l # ls \<longrightarrow>
       qcInvocationRecords qc \<noteq> [] \<and> called (hd (qcInvocationRecords qc)) = Some l"
    and later: "\<And>j k l l'. j < k \<Longrightarrow> k < length (qcInvocationRecords qc) \<Longrightarrow> called (qcInvocationRecords qc ! j) = Some l \<Longrightarrow>
       called (qcInvocationRecords qc ! k) = Some l' \<Longrightarrow> \<forall>v. alwaysStops (stop_code (dlListener l) v) \<Longrightarrow>
       dlCurrentTarget l' = dlCurrentTarget l"
    using stopped_event_reaches_no_other_instance [OF stop_ok flow_options_ok(1), of 0 flow_methods stop_code flow_natives] on
    by (elim exE conjE) blast
  note listed = E(3) [unfolded stop_path [OF E(1)] calls]
  obtain l ls where l: "concat (map processingRecords ds) = l # ls" "nodeAndListener l = (2, stop_first)"
    using listed by (cases "concat (map processingRecords ds)") auto
  have first: "qcInvocationRecords qc \<noteq> []" "called (hd (qcInvocationRecords qc)) = Some l" using E(5) l(1) by blast+
  have "dlCurrentTarget m = 2" if m: "k < length (qcInvocationRecords qc)" "called (qcInvocationRecords qc ! k) = Some m" for k m
  proof (cases k)
    case 0
    then show ?thesis using m first l(2) by (simp add: hd_conv_nth nodeAndListener_def)
  next
    case (Suc j)
    have "called (qcInvocationRecords qc ! 0) = Some l" using first by (simp add: hd_conv_nth)
    then show ?thesis using later [of 0 k l m] m Suc l(2) stops by (simp add: nodeAndListener_def)
  qed
  then show ?thesis using E(2,4) listed first l(2) by (auto simp: in_set_conv_nth)
qed

end
