(* ===== verification/Hydration_Replay.thy ===== *)
theory Hydration_Replay
  imports Plugin_Invocation Hydration_Props
begin

text \<open>
  \<open>packages/react-dom/src/events/plugin-event-system.js\<close>, third part: events that reach a container which is
  not hydrated yet. Their targets are located in the container, the dehydrated boundary around a target is found
  from the marker rows of the hydration scan, and the events are listed by priority and in the order in
  which the replay queue would be drained.

  Nodes are those of the component tree. A path is a text like \<open>container.childNodes[0].childNodes[2]\<close>;
  the indices in it are exact numbers.
\<close>

subsection \<open>Replay queues\<close>

definition hydrationDiscreteReplayableEventNames :: "string list" where
  "hydrationDiscreteReplayableEventNames =
    [''mousedown'', ''mouseup'', ''touchcancel'', ''touchend'', ''touchstart'', ''auxclick'', ''dblclick'', ''pointercancel'',
     ''pointerdown'', ''pointerup'', ''dragend'', ''dragstart'', ''drop'', ''compositionend'', ''compositionstart'',
     ''keydown'', ''keypress'', ''keyup'', ''input'', ''textInput'', ''copy'', ''cut'', ''paste'', ''click'', ''change'',
     ''contextmenu'', ''reset'']"

definition hydrationContinuousReplayQueueNames :: "(string \<times> string) list" where
  "hydrationContinuousReplayQueueNames =
    [(''focusin'', ''queuedFocus''), (''focusout'', ''queuedFocus''), (''dragenter'', ''queuedDrag''),
     (''dragleave'', ''queuedDrag''), (''mouseover'', ''queuedMouse''), (''mouseout'', ''queuedMouse''),
     (''pointerover'', ''queuedPointers''), (''pointerout'', ''queuedPointers''),
     (''gotpointercapture'', ''queuedPointerCaptures''), (''lostpointercapture'', ''queuedPointerCaptures'')]"

record queue_info =
  qiQueueCategory :: string
  qiQueueName :: "string option"
  qiQueuePolicy :: string
  qiReplayableEvent :: bool

definition getHydrationReplayEventQueueInfo :: "string \<Rightarrow> queue_info" where
  "getHydrationReplayEventQueueInfo domEventName =
     (case map_of hydrationContinuousReplayQueueNames domEventName of
        Some queueName \<Rightarrow>
          \<lparr>qiQueueCategory = ''continuous-event'', qiQueueName = Some queueName,
           qiQueuePolicy =
             (if domEventName \<in> set [''pointerover'', ''pointerout'', ''gotpointercapture'', ''lostpointercapture'']
              then ''latest-event-per-pointer-id'' else ''latest-event-per-event-family''),
           qiReplayableEvent = True\<rparr>
      | None \<Rightarrow>
          if domEventName = ''change'' then
            \<lparr>qiQueueCategory = ''change-event-target'', qiQueueName = Some ''queuedChangeEventTargets'',
             qiQueuePolicy = ''target-array-drained-after-unblocked-hydration'', qiReplayableEvent = True\<rparr>
          else if domEventName \<in> set hydrationDiscreteReplayableEventNames then
            \<lparr>qiQueueCategory = ''discrete-event'', qiQueueName = Some ''discrete-hydration-replay-attempt'',
             qiQueuePolicy = ''capture-phase-synchronous-hydration-attempt-blocked'', qiReplayableEvent = True\<rparr>
          else
            \<lparr>qiQueueCategory = ''not-replayable'', qiQueueName = None,
             qiQueuePolicy = ''dispatch-without-target-when-blocked'', qiReplayableEvent = False\<rparr>)"

subsection \<open>Paths in the container\<close>

text \<open>
  The loop over the matches of a global pattern returns \<open>null\<close> as soon as a match does not start where the last
  one ended, and when text is left; so it accepts exactly the texts that are read segment by segment.
\<close>
definition parseHydrationContainerPathSegments :: "string option \<Rightarrow> nat list option" where
  "parseHydrationContainerPathSegments path =
     (case path of
        None \<Rightarrow> None
      | Some p \<Rightarrow> if \<not> startsWith p ''container'' then None else parseSegments (drop (length ''container'') p))"

definition parseHydrationContainerPath :: "string option \<Rightarrow> (nat \<times> string) option" where
  "parseHydrationContainerPath path =
     (case parseHydrationContainerPathSegments path of
        None \<Rightarrow> None
      | Some segments \<Rightarrow>
          if segments = [] then None else Some (last segments, foldl childPath ''container'' (butlast segments)))"

fun pathPositions :: "string \<Rightarrow> nat list \<Rightarrow> (nat \<times> string) list" where
  "pathPositions parentPath [] = []"
| "pathPositions parentPath (i # is) = (i, parentPath) # pathPositions (childPath parentPath i) is"

definition getHydrationTargetPathPositions :: "string option \<Rightarrow> (nat \<times> string) list" where
  "getHydrationTargetPathPositions targetPath =
     (case parseHydrationContainerPathSegments targetPath of
        None \<Rightarrow> []
      | Some segments \<Rightarrow> pathPositions ''container'' segments)"

definition getHydrationChildNodesSnapshot :: "ct_world \<Rightarrow> nat option \<Rightarrow> nat option list" where
  "getHydrationChildNodesSnapshot w node =
     (case node of
        None \<Rightarrow> []
      | Some n \<Rightarrow>
          (case cwChildNodes w n of
             ChildArray xs \<Rightarrow> xs
           | ChildList (Some l) entry \<Rightarrow> if 0 \<le> l \<and> l < 2 ^ 53 then map entry [0..<nat l] else []
           | _ \<Rightarrow> []))"

text \<open>
  The loop of \<open>findHydrationTargetPathInChildren\<close> over the entries from \<open>index\<close> on of a child list: the path if the
  target is found, and the visited nodes. A child that was visited before is compared, but not entered.
\<close>
partial_function (option) searchChildren ::
  "ct_world \<Rightarrow> nat \<Rightarrow> string \<Rightarrow> nat \<Rightarrow> nat option list \<Rightarrow> nat list \<Rightarrow> (string option \<times> nat list) option" where
  [code]: "searchChildren w target parentPath index entries visited =
     (case entries of
        [] \<Rightarrow> Some (None, visited)
      | None # rest \<Rightarrow> searchChildren w target parentPath (index + 1) rest visited
      | Some child # rest \<Rightarrow>
          if child = target then Some (Some (childPath parentPath index), visited)
          else Option.bind
                 (if child \<in> set visited then Some (None, visited)
                  else searchChildren w target (childPath parentPath index) 0
                         (getHydrationChildNodesSnapshot w (Some child)) (child # visited))
                 (\<lambda>(found, visited1).
                    case found of
                      Some p \<Rightarrow> Some (Some p, visited1)
                    | None \<Rightarrow> searchChildren w target parentPath (index + 1) rest visited1))"

definition findHydrationTargetPathInChildren ::
  "ct_world \<Rightarrow> nat \<Rightarrow> string \<Rightarrow> nat \<Rightarrow> nat list \<Rightarrow> (string option \<times> nat list) option" where
  "findHydrationTargetPathInChildren w parentNode parentPath target visited =
     (if parentNode \<in> set visited then Some (None, visited)
      else searchChildren w target parentPath 0 (getHydrationChildNodesSnapshot w (Some parentNode)) (parentNode # visited))"

partial_function (option) descendantLoop :: "ct_world \<Rightarrow> nat \<Rightarrow> nat option \<Rightarrow> bool option" where
  [code]: "descendantLoop w rootContainer currentNode =
     (case currentNode of
        None \<Rightarrow> Some False
      | Some n \<Rightarrow> if n = rootContainer then Some True else descendantLoop w rootContainer (cwParent w n))"

definition isHydrationTargetDescendantOfRoot :: "ct_world \<Rightarrow> nat \<Rightarrow> nat option \<Rightarrow> bool option" where
  "isHydrationTargetDescendantOfRoot w rootContainer targetNode = descendantLoop w rootContainer targetNode"

record target_path =
  tpFound :: bool
  tpPath :: "string option"
  tpStatus :: string

definition findHydrationTargetPath :: "ct_world \<Rightarrow> nat option \<Rightarrow> nat option \<Rightarrow> target_path option" where
  "findHydrationTargetPath w rootContainer targetNode =
     (case rootContainer of
        None \<Rightarrow> Some \<lparr>tpFound = False, tpPath = None, tpStatus = ''unavailable-no-root-container''\<rparr>
      | Some c \<Rightarrow>
          (case targetNode of
             None \<Rightarrow> Some \<lparr>tpFound = False, tpPath = None, tpStatus = ''unavailable-non-object-target''\<rparr>
           | Some t \<Rightarrow>
               if t = c then Some \<lparr>tpFound = True, tpPath = Some ''container'', tpStatus = ''found-container-target''\<rparr>
               else
                 Option.bind (findHydrationTargetPathInChildren w c ''container'' t [])
                   (\<lambda>(path, visited).
                      case path of
                        Some p \<Rightarrow> Some \<lparr>tpFound = True, tpPath = Some p, tpStatus = ''found-in-container-child-list''\<rparr>
                      | None \<Rightarrow>
                          map_option (\<lambda>descendant.
                              \<lparr>tpFound = False, tpPath = None,
                               tpStatus = (if descendant then ''owned-by-parent-chain-not-child-list''
                                           else ''not-contained-in-dehydrated-root'')\<rparr>)
                            (isHydrationTargetDescendantOfRoot w c targetNode))))"

subsection \<open>Dehydrated owners\<close>

text \<open>What the marker scan proposes as targets for replay; \<open>None\<close> for a field that is no text.\<close>
record replay_candidate =
  rcReplayTargetKind :: "string option"
  rcContractId :: "string option"
  rcKind :: "string option"
  rcPath :: "string option"

record boundary_owner =
  boOwnerId :: string
  boIndex :: nat
  boBoundaryKind :: string
  boContractId :: "string option"
  boMarkerKind :: "string option"
  boPath :: "string option"

definition createHydrationBoundaryOwnerId :: "string option \<Rightarrow> nat \<Rightarrow> string" where
  "createHydrationBoundaryOwnerId rootRecordId index =
     (case rootRecordId of
        None \<Rightarrow> ''hydration-target-resolution''
      | Some r \<Rightarrow> if r = [] then ''hydration-target-resolution'' else r) @ '':boundary:'' @ nat_str index"

definition inferHydrationReplayTargetKind :: "string option \<Rightarrow> string" where
  "inferHydrationReplayTargetKind contractId =
     (case contractId of
        None \<Rightarrow> ''unknown''
      | Some c \<Rightarrow>
          if startsWith c ''activity-'' then ''activity-boundary''
          else if startsWith c ''suspense-'' then ''suspense-boundary''
          else if startsWith c ''form-state-'' then ''form-state''
          else ''unknown'')"

definition createHydrationDehydratedBoundaryOwnerRecords :: "replay_candidate list \<Rightarrow> string option \<Rightarrow> boundary_owner list" where
  "createHydrationDehydratedBoundaryOwnerRecords candidates rootRecordId =
     map (\<lambda>(index, candidate).
            \<lparr>boOwnerId = createHydrationBoundaryOwnerId rootRecordId index, boIndex = index,
             boBoundaryKind = (case rcReplayTargetKind candidate of
                                 Some k \<Rightarrow> k
                               | None \<Rightarrow> inferHydrationReplayTargetKind (rcContractId candidate)),
             boContractId = rcContractId candidate, boMarkerKind = rcKind candidate, boPath = rcPath candidate\<rparr>)
       (enumerate 0 candidates)"

definition isHydrationBoundaryEndMarker :: "string \<Rightarrow> bool" where
  "isHydrationBoundaryEndMarker contractId \<longleftrightarrow> contractId = ''suspense-end'' \<or> contractId = ''activity-end''"

text \<open>The stack is a list with its top first.\<close>
fun removeFirstKind :: "string \<Rightarrow> boundary_owner list \<Rightarrow> boundary_owner list" where
  "removeFirstKind k [] = []"
| "removeFirstKind k (b # bs) = (if boBoundaryKind b = k then bs else b # removeFirstKind k bs)"

definition popHydrationBoundaryOwnerForEndMarker :: "string \<Rightarrow> boundary_owner list \<Rightarrow> boundary_owner list" where
  "popHydrationBoundaryOwnerForEndMarker contractId boundaryStack =
     removeFirstKind (if contractId = ''activity-end'' then ''activity-boundary'' else ''suspense-boundary'') boundaryStack"

text \<open>The last owner with a path wins, as in a map that is filled in order.\<close>
definition boundaryOwnersByPath :: "boundary_owner list \<Rightarrow> string \<rightharpoonup> boundary_owner" where
  "boundaryOwnersByPath owners =
     fold (\<lambda>owner m. case boPath owner of None \<Rightarrow> m | Some p \<Rightarrow> m(p \<mapsto> owner)) owners Map.empty"

definition stepBoundaryStack :: "(string \<rightharpoonup> boundary_owner) \<Rightarrow> marker_row \<Rightarrow> boundary_owner list \<Rightarrow> boundary_owner list" where
  "stepBoundaryStack owners row stack =
     (case owners (rwPath row) of
        Some owner \<Rightarrow> owner # stack
      | None \<Rightarrow> if isHydrationBoundaryEndMarker (rwContractId row)
                then popHydrationBoundaryOwnerForEndMarker (rwContractId row) stack else stack)"

text \<open>The marker rows before a position among the children of the same parent, by index.\<close>
definition markersBefore :: "marker_row list \<Rightarrow> nat \<times> string \<Rightarrow> marker_row list" where
  "markersBefore rows position =
     map snd (sort_key fst
       (List.map_filter
          (\<lambda>row. case parseHydrationContainerPath (Some (rwPath row)) of
                   None \<Rightarrow> None
                 | Some (i, parentPath) \<Rightarrow> if parentPath = snd position \<and> i < fst position then Some (i, row) else None)
          rows))"

definition boundaryStackAt :: "boundary_owner list \<Rightarrow> marker_row list \<Rightarrow> nat \<times> string \<Rightarrow> boundary_owner list" where
  "boundaryStackAt owners rows position = fold (stepBoundaryStack (boundaryOwnersByPath owners)) (markersBefore rows position) []"

definition findDehydratedBoundaryOwnerForTargetPath ::
  "string option \<Rightarrow> boundary_owner list \<Rightarrow> marker_row list option \<Rightarrow> boundary_owner option" where
  "findDehydratedBoundaryOwnerForTargetPath targetPath owners markerDiagnostics =
     (let rows = (case markerDiagnostics of None \<Rightarrow> [] | Some rs \<Rightarrow> rs) in
      fold (\<lambda>position selected. case boundaryStackAt owners rows position of [] \<Rightarrow> selected | owner # _ \<Rightarrow> Some owner)
        (getHydrationTargetPathPositions targetPath) None)"

subsection \<open>Targets of blocked events\<close>

definition getHydratableEventTargetLookupStatus :: "boundary_owner option \<Rightarrow> bool \<Rightarrow> bool \<Rightarrow> target_path \<Rightarrow> string" where
  "getHydratableEventTargetLookupStatus boundaryOwner rootOwned targetInstResolved targetPathRecord =
     (if targetInstResolved then ''skipped-mounted-host-instance-target''
      else if \<not> rootOwned then ''blocked-no-dehydrated-owner''
      else if boundaryOwner \<noteq> None then ''blocked-on-dehydrated-boundary''
      else if tpFound targetPathRecord then ''blocked-on-dehydrated-root''
      else ''blocked-on-dehydrated-root-unlisted-target'')"

definition getHydrationRootOwnershipStatus :: "nat option \<Rightarrow> bool \<Rightarrow> string" where
  "getHydrationRootOwnershipStatus rootContainer rootOwned =
     (if rootContainer = None then ''unavailable-no-dehydrated-root-container-payload''
      else if rootOwned then ''owned-by-dehydrated-root'' else ''not-owned-by-dehydrated-root'')"

record target_lookup =
  tlStatus :: string
  tlInputOrder :: nat
  tlQueueInfo :: queue_info
  tlTargetContainerMatchesRoot :: bool
  tlTargetWithinRootContainer :: bool
  tlRootOwnershipStatus :: string
  tlDehydratedRootOwnerStatus :: string
  tlDehydratedBoundaryOwner :: "boundary_owner option"
  tlBlockedOnKind :: "string option"
  tlBlockedOnStatus :: string
  tlTargetPath :: "string option"
  tlTargetPathStatus :: string

definition createHydrationDehydratedRootOwnerStatus :: "nat option \<Rightarrow> string" where
  "createHydrationDehydratedRootOwnerStatus rootContainer =
     (if rootContainer = None then ''blocked-no-dehydrated-root-container-payload''
      else ''recorded-unsupported-dehydrated-root-owner'')"

text \<open>\<open>None\<close>: a walk over the DOM does not end.\<close>
definition createHydratableEventTargetLookupRecord ::
  "ct_world \<Rightarrow> boundary_owner list \<Rightarrow> marker_row list option \<Rightarrow> nat option \<Rightarrow> dispatch_record \<Rightarrow> nat \<Rightarrow> target_lookup option" where
  "createHydratableEventTargetLookupRecord w owners markerDiagnostics rootContainer dispatchRecord inputOrder =
     (let target = valueNode (edNativeEventTarget dispatchRecord) in
      Option.bind (findHydrationTargetPath w rootContainer target)
        (\<lambda>targetPathRecord.
           map_option
             (\<lambda>inRoot.
                let matches = (rootContainer = Some (wrTargetContainer (edWrapperRecord dispatchRecord)));
                    rootOwned = (matches \<or> inRoot);
                    owner = (if rootOwned then findDehydratedBoundaryOwnerForTargetPath (tpPath targetPathRecord) owners markerDiagnostics
                             else None)
                in \<lparr>tlStatus = getHydratableEventTargetLookupStatus owner rootOwned (edTargetInst dispatchRecord \<noteq> None) targetPathRecord,
                    tlInputOrder = inputOrder, tlQueueInfo = getHydrationReplayEventQueueInfo (edDomEventName dispatchRecord),
                    tlTargetContainerMatchesRoot = matches, tlTargetWithinRootContainer = inRoot,
                    tlRootOwnershipStatus = getHydrationRootOwnershipStatus rootContainer rootOwned,
                    tlDehydratedRootOwnerStatus = createHydrationDehydratedRootOwnerStatus rootContainer,
                    tlDehydratedBoundaryOwner = owner,
                    tlBlockedOnKind =
                      (case owner of Some b \<Rightarrow> Some (boBoundaryKind b) | None \<Rightarrow> if rootOwned then Some ''dehydrated-root'' else None),
                    tlBlockedOnStatus =
                      (if owner \<noteq> None then ''blocked-on-dehydrated-boundary''
                       else if rootOwned then ''blocked-on-dehydrated-root'' else ''unavailable-no-dehydrated-owner''),
                    tlTargetPath = tpPath targetPathRecord, tlTargetPathStatus = tpStatus targetPathRecord\<rparr>)
             (case rootContainer of
                None \<Rightarrow> Some False
              | Some c \<Rightarrow> if tpFound targetPathRecord then Some True else isHydrationTargetDescendantOfRoot w c target)))"

subsection \<open>Queue entries and orders\<close>

text \<open>The fields that depend on more than the dispatch record; the rest is read from \<open>reDispatchRecord\<close>.\<close>
record replay_entry =
  reDispatchRecord :: dispatch_record
  reInputOrder :: nat
  reReplayQueueOrder :: nat
  rePrioritySortKey :: int
  reQueueInfo :: queue_info
  reBlockedOnKind :: "string option"
  reBlockedOnStatus :: string
  reHydrationTargetResolutionStatus :: string
  reRootOwnershipStatus :: string
  reDehydratedRootOwnerStatus :: string
  reDehydratedBoundaryOwner :: "boundary_owner option"
  reTargetPath :: "string option"
  reTargetPathStatus :: string
  reTargetContainerMatchesRoot :: bool
  reTargetWithinRootContainer :: bool

definition createHydrationReplayEventQueueEntryRecord :: "dispatch_record \<Rightarrow> nat \<Rightarrow> target_lookup option \<Rightarrow> replay_entry" where
  "createHydrationReplayEventQueueEntryRecord dispatchRecord inputOrder lookup =
     \<lparr>reDispatchRecord = dispatchRecord, reInputOrder = inputOrder, reReplayQueueOrder = inputOrder,
      rePrioritySortKey = wrEventPriorityLane (edWrapperRecord dispatchRecord),
      reQueueInfo = getHydrationReplayEventQueueInfo (edDomEventName dispatchRecord),
      reBlockedOnKind = (case lookup of None \<Rightarrow> None | Some l \<Rightarrow> tlBlockedOnKind l),
      reBlockedOnStatus = (case lookup of None \<Rightarrow> ''unavailable-no-dehydrated-boundary'' | Some l \<Rightarrow> tlBlockedOnStatus l),
      reHydrationTargetResolutionStatus =
        (case lookup of None \<Rightarrow> ''unavailable-no-hydratable-event-target-lookup'' | Some l \<Rightarrow> tlStatus l),
      reRootOwnershipStatus =
        (case lookup of None \<Rightarrow> ''unavailable-no-dehydrated-root-container-payload'' | Some l \<Rightarrow> tlRootOwnershipStatus l),
      reDehydratedRootOwnerStatus =
        (case lookup of None \<Rightarrow> ''blocked-no-dehydrated-root-container-payload'' | Some l \<Rightarrow> tlDehydratedRootOwnerStatus l),
      reDehydratedBoundaryOwner = (case lookup of None \<Rightarrow> None | Some l \<Rightarrow> tlDehydratedBoundaryOwner l),
      reTargetPath = (case lookup of None \<Rightarrow> None | Some l \<Rightarrow> tlTargetPath l),
      reTargetPathStatus =
        (case lookup of None \<Rightarrow> ''unavailable-no-hydratable-event-target-lookup'' | Some l \<Rightarrow> tlTargetPathStatus l),
      reTargetContainerMatchesRoot = (case lookup of None \<Rightarrow> False | Some l \<Rightarrow> tlTargetContainerMatchesRoot l),
      reTargetWithinRootContainer = (case lookup of None \<Rightarrow> False | Some l \<Rightarrow> tlTargetWithinRootContainer l)\<rparr>"

text \<open>
  \<open>Array.prototype.sort\<close> with a comparator is stable; for a consistent comparator its result is determined, and
  insertion computes it.
\<close>
fun insertBy :: "('a \<Rightarrow> 'a \<Rightarrow> int) \<Rightarrow> 'a \<Rightarrow> 'a list \<Rightarrow> 'a list" where
  "insertBy compare x [] = [x]"
| "insertBy compare x (y # ys) = (if compare x y \<le> 0 then x # y # ys else y # insertBy compare x ys)"

definition sortBy :: "('a \<Rightarrow> 'a \<Rightarrow> int) \<Rightarrow> 'a list \<Rightarrow> 'a list" where
  "sortBy compare xs = foldr (insertBy compare) xs []"

definition compareHydrationReplayEventQueueEntriesByPriority :: "replay_entry \<Rightarrow> replay_entry \<Rightarrow> int" where
  "compareHydrationReplayEventQueueEntriesByPriority a b =
     (if rePrioritySortKey a \<noteq> rePrioritySortKey b then rePrioritySortKey a - rePrioritySortKey b
      else int (reInputOrder a) - int (reInputOrder b))"

record order_entry =
  oeEntry :: replay_entry
  oePriorityOrder :: nat

definition createHydrationReplayEventQueueOrderEntry :: "replay_entry \<Rightarrow> nat option \<Rightarrow> order_entry" where
  "createHydrationReplayEventQueueOrderEntry entry overrideOrder =
     \<lparr>oeEntry = entry, oePriorityOrder = (case overrideOrder of None \<Rightarrow> reInputOrder entry | Some i \<Rightarrow> i)\<rparr>"

definition createHydrationReplayEventQueueOrder :: "replay_entry list \<Rightarrow> order_entry list" where
  "createHydrationReplayEventQueueOrder entries = map (\<lambda>entry. createHydrationReplayEventQueueOrderEntry entry None) entries"

definition createHydrationReplayEventPriorityOrder :: "replay_entry list \<Rightarrow> order_entry list" where
  "createHydrationReplayEventPriorityOrder entries =
     map (\<lambda>(i, entry). createHydrationReplayEventQueueOrderEntry entry (Some i))
       (enumerate 0 (sortBy compareHydrationReplayEventQueueEntriesByPriority entries))"

subsection \<open>Drain order\<close>

definition MAX_SAFE_INTEGER :: int where "MAX_SAFE_INTEGER = 2 ^ 53 - 1"

definition getHydrationReplayDrainTargetPathSegments :: "string option \<Rightarrow> nat list option" where
  "getHydrationReplayDrainTargetPathSegments targetPath = parseHydrationContainerPathSegments targetPath"

definition padStart :: "nat \<Rightarrow> char \<Rightarrow> string \<Rightarrow> string" where
  "padStart n c s = replicate (n - length s) c @ s"

fun joinWith :: "string \<Rightarrow> string list \<Rightarrow> string" where
  "joinWith sep [] = []"
| "joinWith sep [s] = s"
| "joinWith sep (s # ss) = s @ sep @ joinWith sep ss"

definition createHydrationReplayDrainTargetPathSortKey :: "nat list option \<Rightarrow> nat \<Rightarrow> string" where
  "createHydrationReplayDrainTargetPathSortKey segments inputOrder =
     (case segments of
        None \<Rightarrow> ''unlisted:'' @ nat_str inputOrder
      | Some s \<Rightarrow> if s = [] then ''container'' else joinWith ''.'' (map (\<lambda>i. padStart 8 (CHR ''0'') (nat_str i)) s))"

definition getHydrationReplayDrainOwnerSortKey :: "replay_entry \<Rightarrow> int" where
  "getHydrationReplayDrainOwnerSortKey entry =
     (if reDehydratedBoundaryOwner entry \<noteq> None then 0
      else if reRootOwnershipStatus entry = ''owned-by-dehydrated-root'' then 1 else 2)"

definition createHydrationReplayDrainBlockedOnSortKey :: "replay_entry \<Rightarrow> string" where
  "createHydrationReplayDrainBlockedOnSortKey entry =
     (case reDehydratedBoundaryOwner entry of
        Some owner \<Rightarrow>
          ''boundary:'' @ (case boPath owner of None \<Rightarrow> ''unknown-boundary-path'' | Some p \<Rightarrow> p) @ '':'' @ boOwnerId owner
      | None \<Rightarrow>
          if reRootOwnershipStatus entry = ''owned-by-dehydrated-root'' then
            ''root:'' @ (case reTargetPath entry of None \<Rightarrow> ''unknown-root-target-path'' | Some p \<Rightarrow> p) @ '':'' @
            reDehydratedRootOwnerStatus entry
          else ''unowned:'' @ nat_str (reInputOrder entry))"

record drain_candidate =
  dcEntry :: replay_entry
  dcBlockedOnSortKey :: string
  dcOwnerSortKey :: int
  dcTargetPathSegments :: "nat list option"
  dcTargetPathSortKey :: string

definition createHydrationReplayQueueDrainOrderCandidate :: "replay_entry \<Rightarrow> drain_candidate" where
  "createHydrationReplayQueueDrainOrderCandidate entry =
     (let segments = getHydrationReplayDrainTargetPathSegments (reTargetPath entry) in
      \<lparr>dcEntry = entry, dcBlockedOnSortKey = createHydrationReplayDrainBlockedOnSortKey entry,
       dcOwnerSortKey = getHydrationReplayDrainOwnerSortKey entry, dcTargetPathSegments = segments,
       dcTargetPathSortKey = createHydrationReplayDrainTargetPathSortKey segments (reInputOrder entry)\<rparr>)"

fun compareSegmentLists :: "nat list \<Rightarrow> nat list \<Rightarrow> int" where
  "compareSegmentLists (i # is) (j # js) = (if i \<noteq> j then int i - int j else compareSegmentLists is js)"
| "compareSegmentLists is js = int (length is) - int (length js)"

definition compareHydrationReplayDrainPathSegments :: "nat list option \<Rightarrow> nat list option \<Rightarrow> int" where
  "compareHydrationReplayDrainPathSegments a b =
     (case a of
        None \<Rightarrow> (case b of None \<Rightarrow> 0 | Some js \<Rightarrow> 1)
      | Some is \<Rightarrow> (case b of None \<Rightarrow> -1 | Some js \<Rightarrow> compareSegmentLists is js))"

definition normalizeHydrationReplayDrainBoundaryIndex :: "nat option \<Rightarrow> int" where
  "normalizeHydrationReplayDrainBoundaryIndex index =
     (case index of None \<Rightarrow> MAX_SAFE_INTEGER | Some i \<Rightarrow> if int i \<le> MAX_SAFE_INTEGER then int i else MAX_SAFE_INTEGER)"

definition boundaryIndexOf :: "drain_candidate \<Rightarrow> nat option" where
  "boundaryIndexOf c = map_option boIndex (reDehydratedBoundaryOwner (dcEntry c))"

definition compareHydrationReplayQueueDrainOrderCandidates :: "drain_candidate \<Rightarrow> drain_candidate \<Rightarrow> int" where
  "compareHydrationReplayQueueDrainOrderCandidates a b =
     (let c = compareHydrationReplayDrainPathSegments (dcTargetPathSegments a) (dcTargetPathSegments b) in
      if c \<noteq> 0 then c
      else if dcOwnerSortKey a \<noteq> dcOwnerSortKey b then dcOwnerSortKey a - dcOwnerSortKey b
      else if boundaryIndexOf a \<noteq> boundaryIndexOf b then
        normalizeHydrationReplayDrainBoundaryIndex (boundaryIndexOf a) - normalizeHydrationReplayDrainBoundaryIndex (boundaryIndexOf b)
      else int (reInputOrder (dcEntry a)) - int (reInputOrder (dcEntry b)))"

definition createHydrationReplayQueueDrainOrderDiagnostic :: "replay_entry list \<Rightarrow> (nat \<times> drain_candidate) list" where
  "createHydrationReplayQueueDrainOrderDiagnostic entries =
     enumerate 0 (sortBy compareHydrationReplayQueueDrainOrderCandidates (map createHydrationReplayQueueDrainOrderCandidate entries))"

subsection \<open>Diagnostics\<close>

text \<open>The lookups of all records, in order; \<open>None\<close> if one of them does not return.\<close>
fun targetLookups ::
  "ct_world \<Rightarrow> boundary_owner list \<Rightarrow> marker_row list option \<Rightarrow> nat option \<Rightarrow> dispatch_record list \<Rightarrow> nat \<Rightarrow> target_lookup list option" where
  "targetLookups w owners markers rootContainer [] i = Some []"
| "targetLookups w owners markers rootContainer (d # ds) i =
     Option.bind (createHydratableEventTargetLookupRecord w owners markers rootContainer d i)
       (\<lambda>l. map_option (\<lambda>ls. l # ls) (targetLookups w owners markers rootContainer ds (i + 1)))"

text \<open>
  A branded target resolution: what its payload keeps, and its lookups. Marker diagnostics are given by their rows;
  \<open>None\<close> when they are \<open>null\<close>.
\<close>
record target_resolution =
  trRootContainer :: "nat option"
  trMarkerDiagnostics :: "marker_row list option"
  trMarkerReplayTargetCandidates :: "replay_candidate list"
  trRootRecordId :: "string option"
  trStatus :: string
  trDehydratedRootOwnerStatus :: string
  trDehydratedBoundaryOwners :: "boundary_owner list"
  trHydratableEventTargetLookups :: "target_lookup list"

text \<open>
  \<open>None\<close> for an option that is absent, or is not of the type that is asked for; a root container that is given may
  still be no object, and a source that is given may be a value the module did not make.
\<close>
record resolution_options =
  roDehydratedTargetResolution :: "target_resolution option option"
  roMarkerReplayTargetCandidates :: "replay_candidate list option"
  roRootContainer :: "nat option option"
  roMarkerDiagnostics :: "marker_row list option"
  roRootRecordId :: "string option"

definition getSourceDehydratedTargetResolutionDiagnostic :: "resolution_options \<Rightarrow> dom_error + target_resolution option" where
  "getSourceDehydratedTargetResolutionDiagnostic options =
     (case roDehydratedTargetResolution options of
        None \<Rightarrow> Inr None
      | Some None \<Rightarrow> Inl (CodedError ''FAST_REACT_DOM_INVALID_EVENT_DISPATCH_RECORD''
          ''Cannot resolve hydration event targets without a private dehydrated target-resolution diagnostic.'')
      | Some (Some source) \<Rightarrow> Inr (Some source))"

definition normalizeMarkerReplayTargetCandidates :: "resolution_options \<Rightarrow> target_resolution option \<Rightarrow> replay_candidate list" where
  "normalizeMarkerReplayTargetCandidates options sourcePayload =
     (case roMarkerReplayTargetCandidates options of
        Some candidates \<Rightarrow> candidates
      | None \<Rightarrow> (case sourcePayload of None \<Rightarrow> [] | Some p \<Rightarrow> trMarkerReplayTargetCandidates p))"

definition normalizeTargetResolutionRootContainer :: "resolution_options \<Rightarrow> target_resolution option \<Rightarrow> nat option" where
  "normalizeTargetResolutionRootContainer options sourcePayload =
     (case roRootContainer options of
        Some given \<Rightarrow> given
      | None \<Rightarrow> (case sourcePayload of None \<Rightarrow> None | Some p \<Rightarrow> trRootContainer p))"

definition normalizeTargetResolutionMarkerDiagnostics ::
  "resolution_options \<Rightarrow> target_resolution option \<Rightarrow> marker_row list option" where
  "normalizeTargetResolutionMarkerDiagnostics options sourcePayload =
     (case roMarkerDiagnostics options of
        Some rows \<Rightarrow> Some rows
      | None \<Rightarrow> (case sourcePayload of None \<Rightarrow> None | Some p \<Rightarrow> trMarkerDiagnostics p))"

text \<open>The value in the payload of a source is the one in its record.\<close>
definition normalizeTargetResolutionStringOption :: "string option \<Rightarrow> string option \<Rightarrow> string option" where
  "normalizeTargetResolutionStringOption optionValue sourceValue =
     (case optionValue of Some s \<Rightarrow> Some s | None \<Rightarrow> sourceValue)"

text \<open>The records have been normalized by the caller; \<open>None\<close>: a walk over the DOM does not end.\<close>
definition createHydrationDehydratedTargetResolutionDiagnostic ::
  "ct_world \<Rightarrow> resolution_options \<Rightarrow> dispatch_record list \<Rightarrow> (dom_error + target_resolution) option" where
  "createHydrationDehydratedTargetResolutionDiagnostic w options dispatchRecords =
     (case getSourceDehydratedTargetResolutionDiagnostic options of
        Inl e \<Rightarrow> Some (Inl e)
      | Inr source \<Rightarrow>
          (let candidates = normalizeMarkerReplayTargetCandidates options source;
               rootContainer = normalizeTargetResolutionRootContainer options source;
               markers = normalizeTargetResolutionMarkerDiagnostics options source;
               rootRecordId = normalizeTargetResolutionStringOption (roRootRecordId options) (Option.bind source trRootRecordId);
               owners = createHydrationDehydratedBoundaryOwnerRecords candidates rootRecordId
           in map_option
                (\<lambda>lookups. Inr
                   \<lparr>trRootContainer = rootContainer, trMarkerDiagnostics = markers, trMarkerReplayTargetCandidates = candidates,
                    trRootRecordId = rootRecordId,
                    trStatus = (if lookups = [] then ''blocked-no-hydratable-event-targets-recorded''
                                else ''blocked-hydratable-event-targets-recorded''),
                    trDehydratedRootOwnerStatus = createHydrationDehydratedRootOwnerStatus rootContainer,
                    trDehydratedBoundaryOwners = owners, trHydratableEventTargetLookups = lookups\<rparr>)
                (targetLookups w owners markers rootContainer dispatchRecords 0)))"

record replay_diagnostic =
  rdStatus :: string
  rdTargetResolution :: target_resolution
  rdBlockedEventReplayTargets :: "replay_entry list"
  rdEventQueueOrder :: "order_entry list"
  rdPriorityQueueOrder :: "order_entry list"
  rdDrainOrder :: "(nat \<times> drain_candidate) list"

definition createReplayDiagnostic :: "dispatch_record list \<Rightarrow> target_resolution \<Rightarrow> replay_diagnostic" where
  "createReplayDiagnostic dispatchRecords resolution =
     (let lookups = trHydratableEventTargetLookups resolution;
          entries = map (\<lambda>(i, d). createHydrationReplayEventQueueEntryRecord d i (if i < length lookups then Some (lookups ! i) else None))
                      (enumerate 0 dispatchRecords)
      in \<lparr>rdStatus = (if entries = [] then ''blocked-no-event-replay-targets-recorded''
                      else ''blocked-event-replay-targets-recorded''),
          rdTargetResolution = resolution, rdBlockedEventReplayTargets = entries,
          rdEventQueueOrder = createHydrationReplayEventQueueOrder entries,
          rdPriorityQueueOrder = createHydrationReplayEventPriorityOrder entries,
          rdDrainOrder = createHydrationReplayQueueDrainOrderDiagnostic entries\<rparr>)"

text \<open>
  The diagnostic for an array of records, some of which may not be the module's own. The candidates are handed on as an
  array even when the caller gave none, so those of the source are not used; the root container and the marker
  rows come from the source only. With no records the source itself is the resolution.
\<close>
definition createHydrationReplayEventQueueDiagnostic ::
  "ct_world \<Rightarrow> target_resolution option option \<Rightarrow> replay_candidate list option \<Rightarrow> dispatch_record option list \<Rightarrow>
   (dom_error + replay_diagnostic) option" where
  "createHydrationReplayEventQueueDiagnostic w source candidates dispatchRecords =
     (case normalizeDispatchRecordList dispatchRecords of
        Inl e \<Rightarrow> Some (Inl e)
      | Inr ds \<Rightarrow>
          (let options = \<lparr>roDehydratedTargetResolution = source,
                          roMarkerReplayTargetCandidates = Some (case candidates of None \<Rightarrow> [] | Some cs \<Rightarrow> cs),
                          roRootContainer = None, roMarkerDiagnostics = None, roRootRecordId = None\<rparr>
           in map_option (\<lambda>result. case result of Inl e \<Rightarrow> Inl e | Inr resolution \<Rightarrow> Inr (createReplayDiagnostic ds resolution))
                (case (ds, getSourceDehydratedTargetResolutionDiagnostic options) of
                   ([], Inl e) \<Rightarrow> Some (Inl e)
                 | ([], Inr (Some s)) \<Rightarrow> Some (Inr s)
                 | _ \<Rightarrow> createHydrationDehydratedTargetResolutionDiagnostic w options ds)))"

end
