(* ===== verification/Replay_Props.thy ===== *)
theory Replay_Props
  imports Hydration_Replay Event_Flow "HOL-Library.List_Lexorder" "HOL-Library.Product_Lexorder"
begin

text \<open>
  The search for a blocked event's target ends and is exact, and the order in which blocked events would be drained is
  the document order of their targets.
\<close>

subsection \<open>Finding the target\<close>

definition kidAt :: "ct_world \<Rightarrow> nat \<Rightarrow> nat \<Rightarrow> nat option" where
  "kidAt w n i = (let kids = getHydrationChildNodesSnapshot w (Some n) in if i < length kids then kids ! i else None)"

text \<open>The node at the end of a path of child indices.\<close>
fun walkTo :: "ct_world \<Rightarrow> nat \<Rightarrow> nat list \<Rightarrow> nat option" where
  "walkTo w n [] = Some n"
| "walkTo w n (i # is) = (case kidAt w n i of None \<Rightarrow> None | Some c \<Rightarrow> walkTo w c is)"

definition kidsOf :: "ct_world \<Rightarrow> nat \<Rightarrow> nat set" where
  "kidsOf w n = {c. Some c \<in> set (getHydrationChildNodesSnapshot w (Some n))}"

definition inTree :: "ct_world \<Rightarrow> nat \<Rightarrow> nat set" where
  "inTree w c = {n. \<exists>is. walkTo w c is = Some n}"

lemma kidAt_kidsOf: "kidAt w n i = Some c \<Longrightarrow> c \<in> kidsOf w n"
  by (auto simp: kidAt_def kidsOf_def Let_def split: if_splits) (metis nth_mem)

lemma walkTo_append: "walkTo w n (is @ js) = Option.bind (walkTo w n is) (\<lambda>m. walkTo w m js)"
  by (induction "is" arbitrary: n) (auto split: option.splits)

lemma inTree_root [simp]: "c \<in> inTree w c"
  unfolding inTree_def by (auto intro: exI [of _ "[]"])

lemma inTree_kid:
  assumes "n \<in> inTree w c" "k \<in> kidsOf w n"
  shows "k \<in> inTree w c"
proof -
  obtain "is" where "is": "walkTo w c is = Some n" using assms(1) by (auto simp: inTree_def)
  obtain i where "i < length (getHydrationChildNodesSnapshot w (Some n))" "getHydrationChildNodesSnapshot w (Some n) ! i = Some k"
    using assms(2) by (auto simp: kidsOf_def in_set_conv_nth)
  then have "walkTo w c (is @ [i]) = Some k" using "is" by (simp add: walkTo_append kidAt_def Let_def)
  then show ?thesis by (auto simp: inTree_def)
qed

lemma inTree_least:
  assumes "n \<in> inTree w c" "c \<in> S" "\<And>m. m \<in> S \<Longrightarrow> kidsOf w m \<subseteq> S"
  shows "n \<in> S"
proof -
  have "walkTo w m is = Some n \<Longrightarrow> m \<in> S \<Longrightarrow> n \<in> S" for m "is"
    by (induction "is" arbitrary: m) (auto split: option.splits dest!: kidAt_kidsOf dest: assms(3))
  then show ?thesis using assms(1,2) by (auto simp: inTree_def)
qed

text \<open>What a search over the entries from \<open>index\<close> on may answer.\<close>
definition searchOk ::
  "ct_world \<Rightarrow> nat \<Rightarrow> string \<Rightarrow> nat \<Rightarrow> nat option list \<Rightarrow> nat set \<Rightarrow> string option \<Rightarrow> nat set \<Rightarrow> bool" where
  "searchOk w t pp index entries V res V' \<longleftrightarrow> V \<subseteq> V' \<and>
     (case res of
        Some p \<Rightarrow> \<exists>j n is. j < length entries \<and> entries ! j = Some n \<and> walkTo w n is = Some t \<and>
          p = foldl childPath pp ((index + j) # is)
      | None \<Rightarrow> (\<forall>n. Some n \<in> set entries \<longrightarrow> n \<in> V' \<and> n \<noteq> t) \<and> (\<forall>n\<in>V' - V. kidsOf w n \<subseteq> V' \<and> t \<notin> kidsOf w n))"

lemma searchOk_later:
  assumes "searchOk w t pp (Suc index) entries V1 res V'" "V \<subseteq> V1"
    and "\<forall>n. e = Some n \<longrightarrow> n \<in> V1 \<and> n \<noteq> t" "\<forall>n\<in>V1 - V. kidsOf w n \<subseteq> V1 \<and> t \<notin> kidsOf w n"
  shows "searchOk w t pp index (e # entries) V res V'"
proof (cases res)
  case None
  then show ?thesis using assms unfolding searchOk_def by auto blast+
next
  case (Some p)
  then obtain j n "is" where "j < length entries" "entries ! j = Some n" "walkTo w n is = Some t" "p = foldl childPath pp ((Suc index + j) # is)"
    using assms(1) unfolding searchOk_def by auto
  then have "\<exists>j n is. j < length (e # entries) \<and> (e # entries) ! j = Some n \<and> walkTo w n is = Some t \<and>
      p = foldl childPath pp ((index + j) # is)"
    by (intro exI [of _ "Suc j"] exI [of _ n] exI [of _ "is"]) simp
  then show ?thesis using assms(1,2) Some unfolding searchOk_def by auto
qed

lemma searchChildren_result:
  assumes "finite R" "\<And>n. n \<in> R \<Longrightarrow> kidsOf w n \<subseteq> R" "\<And>n. Some n \<in> set entries \<Longrightarrow> n \<in> R"
  shows "\<exists>res visited'. searchChildren w t pp index entries visited = Some (res, visited') \<and>
    searchOk w t pp index entries (set visited) res (set visited')"
  using assms(3)
proof (induction "card (R - set visited)" arbitrary: pp index entries visited rule: less_induct)
  case less
  note outer = less.hyps
  from less.prems show ?case
  proof (induction entries arbitrary: index)
    case Nil
    then show ?case by (subst searchChildren.simps) (simp add: searchOk_def)
  next
    case (Cons e rest)
    have restR: "\<And>n. Some n \<in> set rest \<Longrightarrow> n \<in> R" using Cons.prems by simp
    show ?case
    proof (cases e)
      case None
      obtain res v' where r: "searchChildren w t pp (Suc index) rest visited = Some (res, v')" "searchOk w t pp (Suc index) rest (set visited) res (set v')"
        using Cons.IH [OF restR] by blast
      then show ?thesis using None searchOk_later [OF r(2), of "set visited" e] by (subst searchChildren.simps) simp
    next
      case (Some child)
      have cR: "child \<in> R" using Cons.prems Some by simp
      show ?thesis
      proof (cases "child = t")
        case True
        have "\<exists>j n is. j < length (e # rest) \<and> (e # rest) ! j = Some n \<and> walkTo w n is = Some t \<and>
            childPath pp index = foldl childPath pp ((index + j) # is)"
          using True Some by (intro exI [of _ "0::nat"] exI [of _ t] exI [of _ "[]"]) simp
        then show ?thesis using Some True by (subst searchChildren.simps) (simp add: searchOk_def)
      next
        case neq: False
        show ?thesis
        proof (cases "child \<in> set visited")
          case True
          obtain res v' where r: "searchChildren w t pp (Suc index) rest visited = Some (res, v')" "searchOk w t pp (Suc index) rest (set visited) res (set v')"
            using Cons.IH [OF restR] by blast
          then show ?thesis using Some neq True searchOk_later [OF r(2), of "set visited" e] by (subst searchChildren.simps) simp
        next
          case False
          have smaller: "card (R - set (child # visited)) < card (R - set visited)"
            using cR False assms(1) by (intro psubset_card_mono) auto
          have kids: "\<And>n. Some n \<in> set (getHydrationChildNodesSnapshot w (Some child)) \<Longrightarrow> n \<in> R"
            using assms(2) [OF cR] by (auto simp: kidsOf_def)
          obtain res1 v1 where r1: "searchChildren w t (childPath pp index) 0 (getHydrationChildNodesSnapshot w (Some child)) (child # visited) = Some (res1, v1)"
            "searchOk w t (childPath pp index) 0 (getHydrationChildNodesSnapshot w (Some child)) (set (child # visited)) res1 (set v1)"
            using outer [OF smaller kids] by blast
          show ?thesis
          proof (cases res1)
            case found: (Some p)
            then obtain j n "is" where raw: "j < length (getHydrationChildNodesSnapshot w (Some child))"
              "getHydrationChildNodesSnapshot w (Some child) ! j = Some n" "walkTo w n is = Some t" "p = foldl childPath (childPath pp index) ((0 + j) # is)"
              using r1(2) unfolding searchOk_def by (auto simp del: foldl_Cons)
            then have j: "kidAt w child j = Some n" "walkTo w n is = Some t" "p = foldl childPath pp (index # j # is)"
              by (simp_all add: kidAt_def Let_def)
            then have "walkTo w child (j # is) = Some t" by simp
            then have "\<exists>k n is. k < length (e # rest) \<and> (e # rest) ! k = Some n \<and> walkTo w n is = Some t \<and>
                p = foldl childPath pp ((index + k) # is)"
              using j(3) Some by (intro exI [of _ "0::nat"] exI [of _ child] exI [of _ "j # is"]) simp
            then have "searchOk w t pp index (e # rest) (set visited) (Some p) (set v1)"
              using r1(2) unfolding searchOk_def by auto
            then show ?thesis using Some neq False r1(1) found by (subst searchChildren.simps) simp
          next
            case None
            then have v1: "set (child # visited) \<subseteq> set v1" "kidsOf w child \<subseteq> set v1" "t \<notin> kidsOf w child"
              "\<forall>n\<in>set v1 - set (child # visited). kidsOf w n \<subseteq> set v1 \<and> t \<notin> kidsOf w n"
              using r1(2) unfolding searchOk_def by (auto simp: kidsOf_def)
            have "card (R - set v1) < card (R - set visited)"
              using cR False assms(1) v1(1) by (intro psubset_card_mono) auto
            then obtain res v' where r: "searchChildren w t pp (Suc index) rest v1 = Some (res, v')" "searchOk w t pp (Suc index) rest (set v1) res (set v')"
              using outer [OF _ restR] by blast
            have "searchOk w t pp index (e # rest) (set visited) res (set v')"
              using searchOk_later [OF r(2), of "set visited" e] v1 Some neq by auto
            then show ?thesis using Some neq False r1(1) None r(1) by (subst searchChildren.simps) simp
          qed
        qed
      qed
    qed
  qed
qed

lemma parse_segments_text: "parseHydrationContainerPathSegments (Some (pathText is)) = Some is"
  using parseSegments_text by (simp add: parseHydrationContainerPathSegments_def pathText_text startsWith_def)

text \<open>\<open>c\<close> is the node or above it.\<close>
inductive climbsTo :: "ct_world \<Rightarrow> nat \<Rightarrow> nat \<Rightarrow> bool" for w where
  climbs_here: "climbsTo w n n"
| climbs_up: "cwParent w n = Some p \<Longrightarrow> climbsTo w p c \<Longrightarrow> climbsTo w n c"

lemma descendantLoop_result:
  assumes "acyclic_parents w"
  shows "descendantLoop w c (Some n) = Some (climbsTo w n c)"
proof -
  obtain f :: "nat \<Rightarrow> nat" where f: "\<And>n p. cwParent w n = Some p \<Longrightarrow> f p < f n" using assms unfolding acyclic_parents_def by blast
  show ?thesis
  proof (induction "f n" arbitrary: n rule: less_induct)
    case less
    show ?case
    proof (cases "n = c")
      case True
      then show ?thesis by (subst descendantLoop.simps) (simp add: climbs_here)
    next
      case False
      show ?thesis
      proof (cases "cwParent w n")
        case None
        have "\<not> climbsTo w n c" using False None by (auto elim: climbsTo.cases)
        then show ?thesis using False None by (subst descendantLoop.simps, subst descendantLoop.simps) simp
      next
        case (Some p)
        have "climbsTo w n c = climbsTo w p c" using False Some by (auto elim: climbsTo.cases intro: climbs_up)
        then show ?thesis using False Some less [OF f [OF Some]] by (subst descendantLoop.simps) simp
      qed
    qed
  qed
qed

lemma target_path_result:
  assumes "finite (inTree w c)" "acyclic_parents w"
  shows "\<exists>r. findHydrationTargetPath w (Some c) (Some t) = Some r \<and> (tpFound r \<longleftrightarrow> t \<in> inTree w c) \<and>
    (tpFound r \<longrightarrow> (\<exists>is. tpPath r = Some (pathText is) \<and> parseHydrationContainerPathSegments (tpPath r) = Some is \<and>
       walkTo w c is = Some t)) \<and>
    (\<not> tpFound r \<longrightarrow> tpPath r = None \<and>
       tpStatus r = (if climbsTo w t c then ''owned-by-parent-chain-not-child-list'' else ''not-contained-in-dehydrated-root''))"
proof (cases "t = c")
  case True
  then show ?thesis
    using parse_segments_text [of "[]"]
    by (auto simp: findHydrationTargetPath_def pathText_def intro!: exI [of _ "[] :: nat list"])
next
  case False
  have kids: "\<And>n. Some n \<in> set (getHydrationChildNodesSnapshot w (Some c)) \<Longrightarrow> n \<in> inTree w c"
    using inTree_kid [OF inTree_root] by (auto simp: kidsOf_def)
  obtain res v where S: "searchChildren w t ''container'' 0 (getHydrationChildNodesSnapshot w (Some c)) [c] = Some (res, v)"
    "searchOk w t ''container'' 0 (getHydrationChildNodesSnapshot w (Some c)) (set [c]) res (set v)"
    using searchChildren_result [OF assms(1) _ kids] inTree_kid by blast
  show ?thesis
  proof (cases res)
    case None
    then have v: "c \<in> set v" "kidsOf w c \<subseteq> set v" "t \<notin> kidsOf w c" "\<forall>n\<in>set v - {c}. kidsOf w n \<subseteq> set v \<and> t \<notin> kidsOf w n"
      using S(2) unfolding searchOk_def by (auto simp: kidsOf_def)
    have "t \<notin> inTree w c"
    proof
      assume t: "t \<in> inTree w c"
      have "t \<in> set v - {t}"
        by (rule inTree_least [OF t]) (use v False in auto)
      then show False by simp
    qed
    then show ?thesis using False S(1) None descendantLoop_result [OF assms(2)]
      by (simp add: findHydrationTargetPath_def findHydrationTargetPathInChildren_def isHydrationTargetDescendantOfRoot_def)
  next
    case (Some p)
    then obtain j n "is" where J: "j < length (getHydrationChildNodesSnapshot w (Some c))" "getHydrationChildNodesSnapshot w (Some c) ! j = Some n"
      "walkTo w n is = Some t" "p = foldl childPath ''container'' ((0 + j) # is)"
      using S(2) unfolding searchOk_def by (auto simp del: foldl_Cons)
    then have walk: "walkTo w c (j # is) = Some t" and p: "p = pathText (j # is)"
      by (simp_all add: kidAt_def Let_def pathText_def)
    have "t \<in> inTree w c" using walk unfolding inTree_def by blast
    then show ?thesis using False S(1) Some walk parse_segments_text [of "j # is"]
      by (auto simp: findHydrationTargetPath_def findHydrationTargetPathInChildren_def p intro!: exI [of _ "j # is"])
  qed
qed

subsection \<open>The drain order\<close>

lemma Nil_less_list: "[] < xs \<longleftrightarrow> xs \<noteq> []"
  by (cases xs) auto

lemma compareSegmentLists_order:
  "compareSegmentLists is js < 0 \<longleftrightarrow> is < js" "compareSegmentLists is js = 0 \<longleftrightarrow> is = js"
  by (induction "is" js rule: compareSegmentLists.induct) (auto simp: Nil_less_list)

lemma sortBy_sort_key:
  assumes "\<And>x y. x \<in> set xs \<Longrightarrow> y \<in> set xs \<Longrightarrow> compare x y \<le> 0 \<longleftrightarrow> (f x :: 'k::linorder) \<le> f y"
  shows "sortBy compare xs = sort_key f xs"
proof -
  have "insertBy compare x ys = insort_key f x ys" if "x \<in> set xs" "set ys \<subseteq> set xs" for x ys
    using that assms by (induction ys) auto
  then have "set zs \<subseteq> set xs \<Longrightarrow> foldr (insertBy compare) zs [] = sort_key f zs" for zs
    by (induction zs) auto
  then show ?thesis by (simp add: sortBy_def)
qed

text \<open>
  Listed targets come first, in document order; then the owner (boundary, root, none), the boundary and the order in
  which the events came in.
\<close>
definition entrySegments :: "replay_entry \<Rightarrow> nat list option" where
  "entrySegments e = parseHydrationContainerPathSegments (reTargetPath e)"

definition entryBoundary :: "replay_entry \<Rightarrow> nat option" where
  "entryBoundary e = map_option boIndex (reDehydratedBoundaryOwner e)"

definition drainKey :: "replay_entry \<Rightarrow> bool \<times> nat list \<times> int \<times> nat \<times> nat" where
  "drainKey e =
     (entrySegments e = None, case entrySegments e of None \<Rightarrow> [] | Some is \<Rightarrow> is, getHydrationReplayDrainOwnerSortKey e,
      case entryBoundary e of None \<Rightarrow> 0 | Some i \<Rightarrow> i, reInputOrder e)"

definition boundaryBounded :: "replay_entry \<Rightarrow> bool" where
  "boundaryBounded e \<longleftrightarrow> (case entryBoundary e of None \<Rightarrow> True | Some i \<Rightarrow> int i \<le> MAX_SAFE_INTEGER)"

lemma compare_drain_key:
  assumes "boundaryBounded a" "boundaryBounded b"
  shows "compareHydrationReplayQueueDrainOrderCandidates
      (createHydrationReplayQueueDrainOrderCandidate a) (createHydrationReplayQueueDrainOrderCandidate b) \<le> 0 \<longleftrightarrow> drainKey a \<le> drainKey b"
proof (cases "entrySegments a = entrySegments b")
  case False
  then show ?thesis
    by (cases "entrySegments a"; cases "entrySegments b")
      (auto simp: compareHydrationReplayQueueDrainOrderCandidates_def createHydrationReplayQueueDrainOrderCandidate_def drainKey_def
        compareHydrationReplayDrainPathSegments_def getHydrationReplayDrainTargetPathSegments_def compareSegmentLists_order Let_def
        entrySegments_def [symmetric] order.order_iff_strict [of "compareSegmentLists _ _"])
next
  case True
  have same: "compareHydrationReplayDrainPathSegments (entrySegments b) (entrySegments b) = 0"
    by (simp add: compareHydrationReplayDrainPathSegments_def compareSegmentLists_order split: option.splits)
  show ?thesis
    using assms True same
    by (cases "reDehydratedBoundaryOwner a"; cases "reDehydratedBoundaryOwner b")
      (auto simp: compareHydrationReplayQueueDrainOrderCandidates_def createHydrationReplayQueueDrainOrderCandidate_def drainKey_def
        getHydrationReplayDrainTargetPathSegments_def Let_def entrySegments_def [symmetric] boundaryIndexOf_def entryBoundary_def
        normalizeHydrationReplayDrainBoundaryIndex_def boundaryBounded_def getHydrationReplayDrainOwnerSortKey_def)
qed

lemma drain_order_sorts:
  assumes "\<And>e. e \<in> set entries \<Longrightarrow> boundaryBounded e"
  shows "createHydrationReplayQueueDrainOrderDiagnostic entries =
    enumerate 0 (map createHydrationReplayQueueDrainOrderCandidate (sort_key drainKey entries))"
proof -
  let ?C = createHydrationReplayQueueDrainOrderCandidate
  have entry: "dcEntry (?C e) = e" for e by (simp add: createHydrationReplayQueueDrainOrderCandidate_def Let_def)
  have "sortBy compareHydrationReplayQueueDrainOrderCandidates (map ?C entries) = sort_key (\<lambda>c. drainKey (dcEntry c)) (map ?C entries)"
    by (rule sortBy_sort_key) (auto simp: compare_drain_key assms entry)
  moreover have "insort_key (\<lambda>c. drainKey (dcEntry c)) (?C x) (map ?C ys) = map ?C (insort_key drainKey x ys)" for x ys
    by (induction ys) (simp_all add: entry)
  then have "sort_key (\<lambda>c. drainKey (dcEntry c)) (map ?C xs) = map ?C (sort_key drainKey xs)" for xs
    by (induction xs) simp_all
  ultimately show ?thesis by (simp add: createHydrationReplayQueueDrainOrderDiagnostic_def)
qed

lemma priority_order_sorts:
  "createHydrationReplayEventPriorityOrder entries =
    map (\<lambda>(i, e). createHydrationReplayEventQueueOrderEntry e (Some i))
      (enumerate 0 (sort_key (\<lambda>e. (rePrioritySortKey e, reInputOrder e)) entries))"
proof -
  have "sortBy compareHydrationReplayEventQueueEntriesByPriority entries = sort_key (\<lambda>e. (rePrioritySortKey e, reInputOrder e)) entries"
    by (rule sortBy_sort_key) (auto simp: compareHydrationReplayEventQueueEntriesByPriority_def)
  then show ?thesis by (simp add: createHydrationReplayEventPriorityOrder_def)
qed

text \<open>Sorting by an injective key is strict.\<close>
lemma sort_key_strict:
  assumes "distinct (map f xs)"
  shows "sorted_wrt (\<lambda>a b. (f a :: 'k::linorder) < f b) (sort_key f xs)"
proof -
  have "distinct (map f (sort_key f xs))" using assms by (simp add: distinct_map)
  then have "sorted_wrt (<) (map f (sort_key f xs))" by (simp add: strict_sorted_iff)
  then show ?thesis by (simp add: sorted_wrt_map)
qed

subsection \<open>The owner of a target\<close>

lemma stepBoundaryStack_subset:
  assumes "\<And>p b. owners p = Some b \<Longrightarrow> b \<in> B" "set stack \<subseteq> B"
  shows "set (stepBoundaryStack owners row stack) \<subseteq> B"
proof -
  have "set (removeFirstKind k bs) \<subseteq> set bs" for k bs by (induction bs) auto
  then show ?thesis
    using assms by (auto simp: stepBoundaryStack_def popHydrationBoundaryOwnerForEndMarker_def split: option.splits) blast+
qed

lemma boundaryOwnersByPath_range: "boundaryOwnersByPath owners p = Some b \<Longrightarrow> b \<in> set owners"
proof -
  have "fold (\<lambda>owner m. case boPath owner of None \<Rightarrow> m | Some p \<Rightarrow> m(p \<mapsto> owner)) bs m p = Some b \<Longrightarrow> b \<in> set bs \<or> m p = Some b" for bs m
    by (induction bs arbitrary: m) (fastforce split: option.splits if_splits)+
  then show "boundaryOwnersByPath owners p = Some b \<Longrightarrow> b \<in> set owners" by (fastforce simp: boundaryOwnersByPath_def)
qed

lemma found_owner:
  assumes "findDehydratedBoundaryOwnerForTargetPath path owners markers = Some b"
  shows "b \<in> set owners"
proof -
  have stack: "set (boundaryStackAt owners rows position) \<subseteq> set owners" for rows position
  proof -
    have "set stack \<subseteq> set owners \<Longrightarrow> set (fold (stepBoundaryStack (boundaryOwnersByPath owners)) ms stack) \<subseteq> set owners" for ms stack
      by (induction ms arbitrary: stack) (simp_all add: stepBoundaryStack_subset boundaryOwnersByPath_range)
    then show ?thesis by (simp add: boundaryStackAt_def)
  qed
  have "sel = Some b \<longrightarrow> b \<in> set owners \<Longrightarrow>
      fold (\<lambda>position selected. case boundaryStackAt owners rows position of [] \<Rightarrow> selected | owner # _ \<Rightarrow> Some owner) ps sel = Some b \<Longrightarrow>
      b \<in> set owners" for rows ps sel
  proof (induction ps arbitrary: sel)
    case (Cons p ps)
    show ?case
      by (rule Cons.IH [OF _ Cons.prems(2) [simplified]]) (use Cons.prems(1) stack [of rows p] in \<open>auto split: list.splits\<close>)
  qed simp
  from this [of None] assms show ?thesis by (simp add: findDehydratedBoundaryOwnerForTargetPath_def Let_def)
qed

lemma owner_index: "b \<in> set (createHydrationDehydratedBoundaryOwnerRecords candidates r) \<Longrightarrow> boIndex b < length candidates"
  by (auto simp: createHydrationDehydratedBoundaryOwnerRecords_def in_set_enumerate_eq)

subsection \<open>The diagnostic\<close>

text \<open>The path of an entry leads to its target, if the target is in the container.\<close>
definition listsTarget :: "ct_world \<Rightarrow> nat \<Rightarrow> replay_entry \<Rightarrow> bool" where
  "listsTarget w c e \<longleftrightarrow>
     (case valueNode (edNativeEventTarget (reDispatchRecord e)) of
        None \<Rightarrow> entrySegments e = None
      | Some t \<Rightarrow> if t \<in> inTree w c then \<exists>is. entrySegments e = Some is \<and> walkTo w c is = Some t else entrySegments e = None)"

lemma no_path_segments [simp]: "parseHydrationContainerPathSegments None = None"
  by (simp add: parseHydrationContainerPathSegments_def)

lemma lookup_result:
  assumes "finite (inTree w c)" "acyclic_parents w"
  shows "\<exists>l. createHydratableEventTargetLookupRecord w owners markers (Some c) d i = Some l \<and>
    listsTarget w c (createHydrationReplayEventQueueEntryRecord d i (Some l)) \<and>
    (\<forall>b. tlDehydratedBoundaryOwner l = Some b \<longrightarrow> b \<in> set owners)"
proof (cases "valueNode (edNativeEventTarget d)")
  case None
  then show ?thesis
    by (auto simp: createHydratableEventTargetLookupRecord_def findHydrationTargetPath_def isHydrationTargetDescendantOfRoot_def
        descendantLoop.simps listsTarget_def entrySegments_def createHydrationReplayEventQueueEntryRecord_def Let_def
        split: if_splits dest: found_owner)
next
  case (Some t)
  obtain r where r: "findHydrationTargetPath w (Some c) (Some t) = Some r" "tpFound r \<longleftrightarrow> t \<in> inTree w c"
    "tpFound r \<longrightarrow> (\<exists>is. parseHydrationContainerPathSegments (tpPath r) = Some is \<and> walkTo w c is = Some t)"
    "\<not> tpFound r \<longrightarrow> tpPath r = None"
    using target_path_result [OF assms] by blast
  have "\<exists>inRoot. (if tpFound r then Some True else isHydrationTargetDescendantOfRoot w c (Some t)) = Some inRoot"
    by (simp add: isHydrationTargetDescendantOfRoot_def descendantLoop_result [OF assms(2)] exI [of _ True])
  then obtain inRoot where inRoot: "(if tpFound r then Some True else isHydrationTargetDescendantOfRoot w c (Some t)) = Some inRoot" ..
  have "\<exists>l. createHydratableEventTargetLookupRecord w owners markers (Some c) d i = Some l \<and> tlTargetPath l = tpPath r \<and>
      (\<forall>b. tlDehydratedBoundaryOwner l = Some b \<longrightarrow> b \<in> set owners)"
    unfolding createHydratableEventTargetLookupRecord_def Let_def Some r(1)
    by (simp add: inRoot) (meson found_owner)
  then obtain l where l: "createHydratableEventTargetLookupRecord w owners markers (Some c) d i = Some l" "tlTargetPath l = tpPath r"
    "\<forall>b. tlDehydratedBoundaryOwner l = Some b \<longrightarrow> b \<in> set owners" by blast
  have "listsTarget w c (createHydrationReplayEventQueueEntryRecord d i (Some l))"
    using r(2-4) l(2) by (auto simp: listsTarget_def entrySegments_def createHydrationReplayEventQueueEntryRecord_def Some)
  then show ?thesis using l by blast
qed

lemma targetLookups_result:
  assumes "\<And>d i. \<exists>l. createHydratableEventTargetLookupRecord w owners markers rt d i = Some l \<and> P d i l"
  shows "\<exists>ls. targetLookups w owners markers rt ds i = Some ls \<and> length ls = length ds \<and>
    (\<forall>k < length ds. P (ds ! k) (i + k) (ls ! k))"
proof (induction ds arbitrary: i)
  case (Cons d ds)
  obtain l where l: "createHydratableEventTargetLookupRecord w owners markers rt d i = Some l" "P d i l" using assms by blast
  obtain ls where ls: "targetLookups w owners markers rt ds (i + 1) = Some ls" "length ls = length ds"
    "\<forall>k < length ds. P (ds ! k) (i + 1 + k) (ls ! k)"
    using Cons.IH by blast
  then show ?case using l by (auto simp: nth_Cons split: nat.splits)
qed simp

text \<open>C19: locating the target of a blocked event. In every container with finitely many nodes, whose parent chains
  end, the search returns; it finds the target exactly when this is a node of the container, and then its path, read back
  into child indices, leads from the container to the target. A target that is not found has no path, and its
  status says whether its parent chain still meets the container.\<close>
theorem hydration_target_path_correct:
  assumes "finite (inTree w c)" "acyclic_parents w"
  shows "\<exists>r. findHydrationTargetPath w (Some c) (Some t) = Some r \<and> (tpFound r \<longleftrightarrow> t \<in> inTree w c) \<and>
    (tpFound r \<longrightarrow> (\<exists>is. tpPath r = Some (pathText is) \<and> parseHydrationContainerPathSegments (tpPath r) = Some is \<and>
       walkTo w c is = Some t)) \<and>
    (\<not> tpFound r \<longrightarrow> tpPath r = None \<and>
       tpStatus r = (if climbsTo w t c then ''owned-by-parent-chain-not-child-list'' else ''not-contained-in-dehydrated-root''))"
  by (rule target_path_result [OF assms])

lemma strict_key_order: "distinct (map f xs) \<Longrightarrow> mset (sort_key f xs) = mset xs \<and> sorted_wrt (\<lambda>a b. (f a :: 'k::linorder) < f b) (sort_key f xs)"
  using sort_key_strict by auto

lemma map_enumerate:
  "map (\<lambda>p. f (snd p)) (enumerate n xs) = map f xs" "map (\<lambda>p. g (fst p)) (enumerate n xs) = map g [n..<n + length xs]"
  using map_map [of f snd "enumerate n xs"] map_map [of g fst "enumerate n xs"] by (simp_all add: comp_def)

text \<open>Entries come out numbered, and with their targets.\<close>
lemma replay_entries_result:
  assumes "length ls = length ds"
    and "\<forall>k < length ds. listsTarget w c (createHydrationReplayEventQueueEntryRecord (ds ! k) k (Some (ls ! k))) \<and>
      (\<forall>b. tlDehydratedBoundaryOwner (ls ! k) = Some b \<longrightarrow> int (boIndex b) \<le> MAX_SAFE_INTEGER)"
  defines "entries \<equiv> map (\<lambda>(i, d). createHydrationReplayEventQueueEntryRecord d i (if i < length ls then Some (ls ! i) else None))
    (enumerate 0 ds)"
  shows "map reDispatchRecord entries = ds" "map reInputOrder entries = [0..<length ds]"
    "e \<in> set entries \<Longrightarrow> listsTarget w c e" "e \<in> set entries \<Longrightarrow> boundaryBounded e"
proof -
  have nth: "length entries = length ds"
    "\<And>k. k < length ds \<Longrightarrow> entries ! k = createHydrationReplayEventQueueEntryRecord (ds ! k) k (Some (ls ! k))"
    using assms(1) by (simp_all add: entries_def nth_enumerate_eq)
  show "map reDispatchRecord entries = ds" "map reInputOrder entries = [0..<length ds]"
    by (rule nth_equalityI; simp add: nth; simp add: createHydrationReplayEventQueueEntryRecord_def)+
  show "e \<in> set entries \<Longrightarrow> listsTarget w c e" using assms(2) nth by (auto simp: in_set_conv_nth)
  show "e \<in> set entries \<Longrightarrow> boundaryBounded e" using assms(2) nth
    by (auto simp: in_set_conv_nth boundaryBounded_def entryBoundary_def createHydrationReplayEventQueueEntryRecord_def split: option.splits)
qed

text \<open>The lists of a diagnostic hold every record once, in the orders of their keys.\<close>
definition ordersFollow :: "dispatch_record list \<Rightarrow> replay_diagnostic \<Rightarrow> bool" where
  "ordersFollow ds d \<longleftrightarrow>
    map reDispatchRecord (rdBlockedEventReplayTargets d) = ds \<and>
    map fst (rdDrainOrder d) = [0..<length ds] \<and>
    mset (map (dcEntry \<circ> snd) (rdDrainOrder d)) = mset (rdBlockedEventReplayTargets d) \<and>
    sorted_wrt (\<lambda>a b. drainKey a < drainKey b) (map (dcEntry \<circ> snd) (rdDrainOrder d)) \<and>
    map oePriorityOrder (rdPriorityQueueOrder d) = [0..<length ds] \<and>
    mset (map oeEntry (rdPriorityQueueOrder d)) = mset (rdBlockedEventReplayTargets d) \<and>
    sorted_wrt (\<lambda>a b. (rePrioritySortKey a, reInputOrder a) < (rePrioritySortKey b, reInputOrder b)) (map oeEntry (rdPriorityQueueOrder d))"

lemma replay_diagnostic_orders:
  assumes ls: "length (trHydratableEventTargetLookups r) = length ds"
    "\<forall>k < length ds. listsTarget w c (createHydrationReplayEventQueueEntryRecord (ds ! k) k (Some (trHydratableEventTargetLookups r ! k))) \<and>
      (\<forall>b. tlDehydratedBoundaryOwner (trHydratableEventTargetLookups r ! k) = Some b \<longrightarrow> int (boIndex b) \<le> MAX_SAFE_INTEGER)"
  shows "ordersFollow ds (createReplayDiagnostic ds r)" "\<forall>e\<in>set (rdBlockedEventReplayTargets (createReplayDiagnostic ds r)). listsTarget w c e"
proof -
  let ?ls = "trHydratableEventTargetLookups r"
  define entries where "entries = map (\<lambda>(i, d). createHydrationReplayEventQueueEntryRecord d i (if i < length ?ls then Some (?ls ! i) else None))
    (enumerate 0 ds)"
  note E = replay_entries_result [OF ls, folded entries_def]
  have n: "length entries = length ds" using arg_cong [OF E(1), of length] by simp
  have "distinct (map reInputOrder entries)" using E(2) by simp
  then have distinct: "distinct (map drainKey entries)" "distinct (map (\<lambda>e. (rePrioritySortKey e, reInputOrder e)) entries)"
    by (auto simp: distinct_map inj_on_def drainKey_def)
  note sorted = strict_key_order [OF distinct(1)] strict_key_order [OF distinct(2)]
  have drain: "map (dcEntry \<circ> snd) (createHydrationReplayQueueDrainOrderDiagnostic entries) = sort_key drainKey entries"
    "map fst (createHydrationReplayQueueDrainOrderDiagnostic entries) = [0..<length ds]"
    by (simp_all add: drain_order_sorts [OF E(4)] n createHydrationReplayQueueDrainOrderCandidate_def Let_def comp_def map_enumerate)
  have priority: "map oeEntry (createHydrationReplayEventPriorityOrder entries) = sort_key (\<lambda>e. (rePrioritySortKey e, reInputOrder e)) entries"
    "map oePriorityOrder (createHydrationReplayEventPriorityOrder entries) = [0..<length ds]"
    by (simp_all add: priority_order_sorts n createHydrationReplayEventQueueOrderEntry_def comp_def case_prod_unfold map_enumerate)
  show "ordersFollow ds (createReplayDiagnostic ds r)" using sorted E(1) drain priority
    by (simp add: ordersFollow_def createReplayDiagnostic_def Let_def entries_def [symmetric] del: mset_map less_prod_simp)
  show "\<forall>e\<in>set (rdBlockedEventReplayTargets (createReplayDiagnostic ds r)). listsTarget w c e" using E(3)
    by (simp add: createReplayDiagnostic_def Let_def entries_def [symmetric])
qed

lemma empty_orders: "ordersFollow [] (createReplayDiagnostic [] r)" "rdBlockedEventReplayTargets (createReplayDiagnostic [] r) = []"
  by (simp_all add: ordersFollow_def createReplayDiagnostic_def Let_def createHydrationReplayQueueDrainOrderDiagnostic_def
      createHydrationReplayEventPriorityOrder_def sortBy_def)

lemma replay_resolution:
  assumes "finite (inTree w c)" "acyclic_parents w" "int (length candidates) \<le> MAX_SAFE_INTEGER"
    and "roDehydratedTargetResolution options = Some (Some s)" "trRootContainer s = Some c" "roRootContainer options = None"
    and "roMarkerReplayTargetCandidates options = Some candidates"
  shows "\<exists>r. createHydrationDehydratedTargetResolutionDiagnostic w options ds = Some (Inr r) \<and>
    length (trHydratableEventTargetLookups r) = length ds \<and>
    (\<forall>k < length ds. listsTarget w c (createHydrationReplayEventQueueEntryRecord (ds ! k) k (Some (trHydratableEventTargetLookups r ! k))) \<and>
      (\<forall>b. tlDehydratedBoundaryOwner (trHydratableEventTargetLookups r ! k) = Some b \<longrightarrow> int (boIndex b) \<le> MAX_SAFE_INTEGER))"
proof -
  define P where "P d i l \<longleftrightarrow> listsTarget w c (createHydrationReplayEventQueueEntryRecord d i (Some l)) \<and>
      (\<forall>b. tlDehydratedBoundaryOwner l = Some b \<longrightarrow> int (boIndex b) \<le> MAX_SAFE_INTEGER)" for d i l
  define r where "r = normalizeTargetResolutionStringOption (roRootRecordId options) (trRootRecordId s)"
  define owners where "owners = createHydrationDehydratedBoundaryOwnerRecords candidates r"
  define markers where "markers = normalizeTargetResolutionMarkerDiagnostics options (Some s)"
  have "\<exists>l. createHydratableEventTargetLookupRecord w owners markers (Some c) d i = Some l \<and> P d i l" for d i
    using lookup_result [OF assms(1,2), of owners markers d i] assms(3) unfolding P_def owners_def by (force dest: owner_index)
  then obtain ls where "targetLookups w owners markers (Some c) ds 0 = Some ls" "length ls = length ds" "\<forall>k < length ds. P (ds ! k) k (ls ! k)"
    using targetLookups_result [of w owners markers "Some c" P ds 0] by auto
  then show ?thesis
    by (simp add: createHydrationDehydratedTargetResolutionDiagnostic_def getSourceDehydratedTargetResolutionDiagnostic_def Let_def P_def
        normalizeMarkerReplayTargetCandidates_def normalizeTargetResolutionRootContainer_def assms(4-7)
        r_def [symmetric] owners_def [symmetric] markers_def [symmetric])
qed


subsection \<open>A concrete container\<close>

lemma ct_demo_kids: "kidsOf ct_demo_world n = (if n = 0 then {1} else if n = 1 then {2} else {})"
  by (auto simp: kidsOf_def getHydrationChildNodesSnapshot_def ct_demo_world_def)

lemma ct_demo_inTree: "inTree ct_demo_world 0 \<subseteq> {0, 1, 2}"
proof
  fix n assume "n \<in> inTree ct_demo_world 0"
  then show "n \<in> {0, 1, 2}" by (rule inTree_least) (auto simp: ct_demo_kids split: if_splits)
qed

lemma ct_demo_finite: "finite (inTree ct_demo_world 0)"
  using finite_subset [OF ct_demo_inTree] by simp

theorem hydration_target_path_correct_witness:
  "\<exists>r is. findHydrationTargetPath ct_demo_world (Some 0) (Some 2) = Some r \<and> tpFound r \<and>
     parseHydrationContainerPathSegments (tpPath r) = Some is \<and> walkTo ct_demo_world 0 is = Some 2"
proof -
  have "walkTo ct_demo_world 0 [0, 0] = Some 2" by code_simp
  then have "2 \<in> inTree ct_demo_world 0" unfolding inTree_def by blast
  then show ?thesis using hydration_target_path_correct [OF ct_demo_finite ct_demo_acyclic, of 2] by blast
qed

text \<open>Two clicks, on the text 2 and then on the element 1 around it.\<close>
definition replay_events :: "dispatch_world \<Rightarrow> dispatch_record list" where
  "replay_events W =
     (case dispatchRecordsFor W 0 [createEventListenerWrapperRecord 0 ''click'' 0] (Some 0) of
        Some (Inr [d]) \<Rightarrow> [d\<lparr>edNativeEventTarget := EvObj 2\<rparr>, d]
      | _ \<Rightarrow> [])"

definition replay_source :: target_resolution where
  "replay_source = \<lparr>trRootContainer = Some 0, trMarkerDiagnostics = None, trMarkerReplayTargetCandidates = [], trRootRecordId = None,
     trStatus = ''blocked-no-hydratable-event-targets-recorded'',
     trDehydratedRootOwnerStatus = createHydrationDehydratedRootOwnerStatus (Some 0), trDehydratedBoundaryOwners = [],
     trHydratableEventTargetLookups = []\<rparr>"


end
