(* ===== verification/Spec2Isabelle.thy ===== *)
theory Spec2Isabelle
  imports Mock_Diagnostics Children Lazy Style_Diagnostics Host_Props Tree_Fake Hydration_Props Events Component_Props DOM_Context
    Listener_Gate Event_Flow Replay_Props
begin

text \<open>
  Verification of the JavaScript packages of fast-react (\<open>packages/scheduler\<close>, \<open>packages/react\<close> and
  \<open>packages/react-dom\<close>).

  \<^bold>\<open>The program.\<close> The scheduler keeps tasks in two heaps and runs them in slices of the host's message
  loop; a second build of it, for tests, has a mock clock, explicit flushes, and drains private act
  queues. The \<open>react\<close> package makes elements, maps over children and loads lazy components. The DOM
  package compares the old and new props of a host element (the property payload), commits the payload
  to the DOM with rollback, moves host nodes, marks root containers, finds the markers a
  server render left, and routes events: a registry of listeners, and the component tree that links
  DOM nodes to host instances.

  \<^bold>\<open>Theories and sources.\<close>
  \<^item> \<open>Prelude\<close>, \<open>JS_Values\<close>, \<open>React_Values\<close>, \<open>DOM_Values\<close>: shared lemmas and the values of JavaScript
    the code inspects.
  \<^item> \<open>Min_Heap\<close>, \<open>Scheduler\<close>, \<open>Scheduler_Loop\<close>, \<open>Scheduler_Props\<close>: \<open>scheduler/cjs/scheduler.development.js\<close>.
    \<open>push\<close>, \<open>peek\<close>, \<open>pop\<close>, \<open>compare\<close> on lists; the module variables are the record \<open>sched\<close>, with the
    host (clock, timeouts, messages) in it; \<open>workLoop\<close> and \<open>performWorkUntilDeadline\<close> are the message
    handler. User callbacks are a parameter that may call the API. C1 to C12: the queue invariant in
    every reachable state, no lost wake-up, order of execution, when callbacks run, the priority
    level is restored, no task is lost, exceptions keep the remaining work, timers, continuations,
    termination, the API calls.
  \<^item> \<open>Mock_Scheduler\<close>, \<open>Mock_Props\<close>, \<open>Mock_Diagnostics\<close>, \<open>Act_Queue\<close>: \<open>scheduler/cjs/scheduler-unstable_mock.development.js\<close>.
    C13 to C15, C17: pending work, flushes, and a case where work is blocked for good; C19 to C21: draining
    of act queues; C22 and C23: the snapshots and the diagnostic flushes.
  \<^item> \<open>Elements\<close>, \<open>Children\<close>, \<open>Lazy\<close>: \<open>react/element-factory.js\<close>, \<open>react/children-helper.js\<close>, \<open>lazy\<close> of
    \<open>react/wrapper-object.js\<close>. C24 to C29: what \<open>createElement\<close>, \<open>cloneElement\<close> and the JSX functions
    return, count and keys of children, a lazy payload settles once.
  \<^item> \<open>Property_Payload\<close>, \<open>Payload_Props\<close>, \<open>Style_Diagnostics\<close>: \<open>react-dom/src/dom-host/property-payload.js\<close>. C30 to
    C32: applying the diff gives the same slots as rendering the new props afresh; every entry is safe;
    the style diagnostics agree with the payload.
  \<^item> \<open>Host_Mutation\<close>, \<open>Host_Laws\<close>, \<open>Host_Fake\<close>, \<open>Host_Props\<close> and \<open>Host_Tree\<close>, \<open>Tree_Props\<close>, \<open>Tree_Fake\<close>:
    \<open>react-dom/src/dom-host/mutation.js\<close>. C33 to C35: a commit renders the new props, is all or nothing, and
    can be rolled back; C36 and C37: child operations keep a forest, clearing a container ends.
  \<^item> \<open>Root_Markers\<close>: \<open>client/dom-container.js\<close> and \<open>client/root-markers.js\<close>. C38: marking is undone exactly.
  \<^item> \<open>Hydration_Markers\<close>, \<open>Hydration_Props\<close>: \<open>client/hydration-marker-parser.js\<close>. C39: the scan ends, its rows
    resolve to the nodes they describe, and no marker comment is dropped unless it is claimed as a companion.
  \<^item> \<open>Events\<close>: \<open>event-names.js\<close>, \<open>event-priorities.js\<close>, \<open>event-system-flags.js\<close>, \<open>get-event-target.js\<close>,
    \<open>react-dom-event-listener.js\<close>, \<open>listener-registry.js\<close> of \<open>react-dom/src/events\<close>. C40: the listener queue
    implements lists per target, event and phase.
  \<^item> \<open>Component_Tree\<close>, \<open>Component_Props\<close>: \<open>client/component-tree.js\<close>. C16: tokens and nodes are in one to one
    relation; C18: the dispatch path of an event.
  \<^item> \<open>DOM_Context\<close>: \<open>client/dom-namespaces.js\<close>, \<open>client/dom-host-context.js\<close>, \<open>dom-host/text-content.js\<close>,
    \<open>client/dom-property-operations.js\<close>: namespaces and host contexts, direct text, and the text reset diagnostic.

  \<^bold>\<open>Interfaces.\<close> \<open>comparator\<close> and \<open>min_queue\<close> state what the heap needs and gives; \<open>host_laws\<close> and \<open>tree_laws\<close>
    state what the DOM client relies on of a host. The host is not code of the repository: it is a
    parameter (\<open>host_dom\<close>, \<open>tree_host\<close>), and its laws, the documented behaviour of attributes, properties and
    child lists, are interpreted on the fake nodes of \<open>tests/smoke/react-dom-mutation-adapter-shell.mjs\<close>.
    Other parameters: user callbacks, \<open>String\<close> of objects, the environment (\<open>NODE_ENV\<close>, random keys), and the
    gate record of the resource and form modules.

  \<^bold>\<open>Loops.\<close> The work loops of the schedulers take fuel, since callbacks may schedule for ever; C10 and
    C20 give the fuel that is enough. Walks over the DOM are partial functions into \<open>option\<close>; C18, C36, C37 and
    C39 show that they return on finite or acyclic DOMs. The other loops are total functions.

  \<^bold>\<open>Limits.\<close> Time stamps are real numbers and other finite numbers integers; \<open>NaN\<close> and the infinities
    occur only as values of props. Objects have data properties, no accessors; strings have
    Latin-1 characters. \<open>Object.freeze\<close> and constant flags of diagnostic records are left out.

  \<^bold>\<open>Not modelled.\<close> The private root bridge and the modules that only wrap records around it, the event
    plugins and root listeners, controlled inputs, refs, form actions, hooks, the resource and form
    gates, the test renderer, the server and static facades, the other scheduler builds, the
    native binding and the Rust crates. Of \<open>mutation.js\<close> the creation of nodes, the
    text-reset rows and the latest-props handoffs are missing, and of \<open>component-tree.js\<close> the handoff
    batches and the host-output event targets.
\<close>

end
